(* ===== verification/Rygnal_Prelude.thy ===== *)
theory Rygnal_Prelude
  imports Main "HOL-Library.AList" "HOL-Library.Sublist"
begin

text \<open>
  The prelude of the development: Python text, Python values and the error monad, together with the
  generic lemmas the components share.

  \<^item> A Python \<open>str\<close> is a \<^typ>\<open>string\<close>. A \<^typ>\<open>char\<close> stands for one code point below 256, and the
    character functions below (lower case, white space, word characters, UTF-8 width, \<open>repr\<close>) are
    Python's on exactly that range (Latin-1). Text with code points above 255 is outside the model.
  \<^item> A \<open>dict[str, Any]\<close> is an association list in insertion order; \<open>d[k] = v\<close> is
    \<^const>\<open>AList.update\<close>, which overwrites in place or appends, as Python does.
  \<^item> A value of type \<open>Any\<close> is a \<open>pyval\<close>; a float is carried by its \<open>repr\<close> text.
  \<^item> An exception is a value \<open>Exn kind type message\<close>, where \<open>kind\<close> is the built-in base class a
    handler can catch; a computation that may raise has type \<open>'a res\<close>.
\<close>

section \<open>Exceptions and results\<close>

datatype exn_kind = ValueErr | RuntimeErr | OSErr | LookupErr | AttributeErr | TypeErr | OtherErr

datatype py_exn = Exn (exn_kind: exn_kind) (exn_type: string) (exn_msg: string)

type_synonym 'a res = "py_exn + 'a"

fun rbind :: "'a res \<Rightarrow> ('a \<Rightarrow> 'b res) \<Rightarrow> 'b res" where
  "rbind (Inl e) f = Inl e"
| "rbind (Inr x) f = f x"

fun rmap :: "('a \<Rightarrow> 'b res) \<Rightarrow> 'a list \<Rightarrow> 'b list res" where
  "rmap f [] = Inr []"
| "rmap f (x # xs) = rbind (f x) (\<lambda>y. rbind (rmap f xs) (\<lambda>ys. Inr (y # ys)))"

named_theorems res_simps \<open>inversion of results that did not raise\<close>

lemma rbind_Inr_iff [res_simps]: "rbind r f = Inr y \<longleftrightarrow> (\<exists>x. r = Inr x \<and> f x = Inr y)"
  by (cases r) auto

lemma rbind_Inl_iff [res_simps]:
  "rbind r f = Inl e \<longleftrightarrow> r = Inl e \<or> (\<exists>x. r = Inr x \<and> f x = Inl e)"
  by (cases r) auto

lemma rbind_cong [fundef_cong]:
  "r = r' \<Longrightarrow> (\<And>x. r' = Inr x \<Longrightarrow> f x = g x) \<Longrightarrow> rbind r f = rbind r' g"
  by (cases r') auto

lemma rmap_cong [fundef_cong]:
  "xs = ys \<Longrightarrow> (\<And>x. x \<in> set ys \<Longrightarrow> f x = g x) \<Longrightarrow> rmap f xs = rmap g ys"
  by (induction ys arbitrary: xs) auto

lemma rmap_Inr_iff: "rmap f xs = Inr ys \<longleftrightarrow> list_all2 (\<lambda>x y. f x = Inr y) xs ys"
  by (induction xs arbitrary: ys) (auto simp: res_simps list_all2_Cons1)

lemma rmap_Inr_ex: "(\<exists>ys. rmap f xs = Inr ys) \<longleftrightarrow> (\<forall>x \<in> set xs. \<exists>y. f x = Inr y)"
  by (induction xs) (auto simp: res_simps)

lemma rmap_set:
  assumes "rmap f xs = Inr ys" and "\<And>x y. x \<in> set xs \<Longrightarrow> f x = Inr y \<Longrightarrow> P y"
  shows "\<forall>y \<in> set ys. P y"
proof -
  from assms(2) have "\<forall>x \<in> set xs. \<forall>y. f x = Inr y \<longrightarrow> P y" by blast
  with assms(1) show ?thesis
    by (induction xs arbitrary: ys) (auto simp: res_simps)
qed

lemma rmap_mem: "rmap f xs = Inr ys \<Longrightarrow> x \<in> set xs \<Longrightarrow> \<exists>y \<in> set ys. f x = Inr y"
  by (induction xs arbitrary: ys) (auto simp: res_simps)

lemma rbind_assoc: "rbind (rbind m f) g = rbind m (\<lambda>x. rbind (f x) g)"
  by (cases m) simp_all

lemma rmap_map: "rmap f (map h xs) = rmap (\<lambda>x. f (h x)) xs"
  by (induction xs) simp_all

lemma rmap_entries:
  assumes "rmap (\<lambda>(k, v). rbind (g k v) (\<lambda>w. Inr (k, w))) d = Inr out"
  shows "map fst out = map fst d"
    and "map_of d k = Some v \<Longrightarrow> \<exists>w. g k v = Inr w \<and> map_of out k = Some w"
  using assms by (induction d arbitrary: out) (auto simp: res_simps split: if_splits)

lemma insort_key_map: "insort_key f (h x) (map h xs) = map h (insort_key (\<lambda>y. f (h y)) x xs)"
  by (induction xs) simp_all

lemma sort_key_map: "sort_key f (map h xs) = map h (sort_key (\<lambda>y. f (h y)) xs)"
  by (induction xs) (simp_all add: insort_key_map)

lemma distinct_map_sort_key: "distinct (map f xs) \<Longrightarrow> distinct (map f (sort_key g xs))"
  by (simp add: distinct_map)

lemma map_of_sort_key:
  assumes "distinct (map fst d)"
  shows "map_of (sort_key g d) = map_of d"
  by (rule map_of_inject_set [THEN iffD2, OF distinct_map_sort_key [OF assms] assms]) simp

section \<open>Characters\<close>

abbreviation codept :: "char \<Rightarrow> nat" where
  "codept c \<equiv> of_char c"

definition lower_char :: "char \<Rightarrow> char" where
  "lower_char c = (let n = codept c in
     if 65 \<le> n \<and> n \<le> 90 \<or> 192 \<le> n \<and> n \<le> 222 \<and> n \<noteq> 215 then char_of (n + 32) else c)"

definition is_space :: "char \<Rightarrow> bool" where
  "is_space c = (let n = codept c in
     9 \<le> n \<and> n \<le> 13 \<or> 28 \<le> n \<and> n \<le> 32 \<or> n = 133 \<or> n = 160)"

definition is_word_char :: "char \<Rightarrow> bool" where
  "is_word_char c = (let n = codept c in
     48 \<le> n \<and> n \<le> 57 \<or> 65 \<le> n \<and> n \<le> 90 \<or> n = 95 \<or> 97 \<le> n \<and> n \<le> 122 \<or>
     n = 170 \<or> n = 178 \<or> n = 179 \<or> n = 181 \<or> n = 185 \<or> n = 186 \<or>
     188 \<le> n \<and> n \<le> 190 \<or> 192 \<le> n \<and> n \<noteq> 215 \<and> n \<noteq> 247)"

definition utf8_len :: "string \<Rightarrow> nat" where
  "utf8_len s = sum_list (map (\<lambda>c. if codept c < 128 then 1 else 2) s)"

section \<open>Strings\<close>

definition lower :: "string \<Rightarrow> string" where
  "lower s = map lower_char s"

definition lstrip :: "string \<Rightarrow> string" where
  "lstrip s = dropWhile is_space s"

definition rstrip :: "string \<Rightarrow> string" where
  "rstrip s = rev (dropWhile is_space (rev s))"

definition strip :: "string \<Rightarrow> string" where
  "strip s = rstrip (lstrip s)"

text \<open>\<open>needle in haystack\<close>, \<open>startswith\<close>, \<open>endswith\<close>.\<close>

definition contains :: "string \<Rightarrow> string \<Rightarrow> bool" where
  "contains hay needle = sublist needle hay"

definition starts_with :: "string \<Rightarrow> string \<Rightarrow> bool" where
  "starts_with s p = prefix p s"

definition ends_with :: "string \<Rightarrow> string \<Rightarrow> bool" where
  "ends_with s p = suffix p s"

definition replace_char :: "char \<Rightarrow> char \<Rightarrow> string \<Rightarrow> string" where
  "replace_char a b s = map (\<lambda>c. if c = a then b else c) s"

text \<open>\<open>s.split()\<close>: maximal runs of characters that are not white space.\<close>

fun split_words_acc :: "string \<Rightarrow> string \<Rightarrow> string list" where
  "split_words_acc w [] = (if w = [] then [] else [w])"
| "split_words_acc w (c # cs) =
     (if is_space c then (if w = [] then [] else [w]) @ split_words_acc [] cs
      else split_words_acc (w @ [c]) cs)"

definition split_words :: "string \<Rightarrow> string list" where
  "split_words s = split_words_acc [] s"

fun join :: "string \<Rightarrow> string list \<Rightarrow> string" where
  "join sep [] = []"
| "join sep [x] = x"
| "join sep (x # y # ys) = x @ sep @ join sep (y # ys)"

text \<open>\<open>s.split(sep, 1)[0]\<close> for a one-character separator.\<close>

definition before_char :: "char \<Rightarrow> string \<Rightarrow> string" where
  "before_char c s = takeWhile (\<lambda>x. x \<noteq> c) s"

text \<open>Decimal text of integers.\<close>

fun digits_of :: "nat \<Rightarrow> string" where
  "digits_of n = (if n < 10 then [char_of (48 + n)] else digits_of (n div 10) @ [char_of (48 + n mod 10)])"

declare digits_of.simps [simp del]

definition show_int :: "int \<Rightarrow> string" where
  "show_int i = (if i < 0 then ''-'' @ digits_of (nat (- i)) else digits_of (nat i))"

lemma length_lower [simp]: "length (lower s) = length s"
  by (simp add: lower_def)

lemma length_strip: "length (strip s) \<le> length s"
proof -
  have "length (rstrip t) \<le> length t" for t
    using length_dropWhile_le [of is_space "rev t"] by (simp add: rstrip_def)
  moreover have "length (lstrip s) \<le> length s"
    by (simp add: lstrip_def length_dropWhile_le)
  ultimately show ?thesis
    by (metis strip_def le_trans)
qed

lemma length_join_split_words_acc:
  "length (join '' '' (split_words_acc w s)) \<le> length w + length s"
proof (induction w s rule: split_words_acc.induct)
  case (1 w)
  then show ?case by simp
next
  case (2 w c cs)
  then show ?case
    by (cases "split_words_acc [] cs") (auto split: if_splits)
qed

lemma length_join_split_words: "length (join '' '' (split_words s)) \<le> length s"
  using length_join_split_words_acc [of "[]" s] by (simp add: split_words_def)

lemma sum_length_split_words_acc:
  "sum_list (map length (split_words_acc w s)) \<le> length w + length s"
  by (induction w s rule: split_words_acc.induct) (auto split: if_splits)

lemma sum_length_split_words: "sum_list (map length (split_words s)) \<le> length s"
  using sum_length_split_words_acc [of "[]" s] by (simp add: split_words_def)

section \<open>Values\<close>

datatype pykey = KStr string | KInt int | KBool bool | KNone

datatype pyval =
    PNone
  | PBool bool
  | PInt int
  | PFloat string
  | PStr string
  | PList "pyval list"
  | PTuple "pyval list"
  | PDict "(pykey \<times> pyval) list"

type_synonym dict = "(string \<times> pyval) list"

definition dict_val :: "dict \<Rightarrow> pyval" where
  "dict_val d = PDict (map (\<lambda>(k, v). (KStr k, v)) d)"

text \<open>\<open>{**a, **b}\<close>.\<close>

definition dict_merge :: "dict \<Rightarrow> dict \<Rightarrow> dict" where
  "dict_merge a b = fold (\<lambda>(k, v) d. AList.update k v d) b a"

lemma map_of_dict_merge: "map_of (dict_merge a b) = map_of a ++ map_of (rev b)"
  unfolding dict_merge_def
proof (induction b arbitrary: a)
  case (Cons x b)
  then show ?case
    by (cases x) (auto simp: update_conv' fun_upd_def map_add_def fun_eq_iff split: option.splits)
qed simp

lemma set_dict_update: "set (AList.update k v d) \<subseteq> insert (k, v) (set d)"
  by (induction d) auto

text \<open>\<open>bool(value)\<close>.\<close>

fun truthy :: "pyval \<Rightarrow> bool" where
  "truthy PNone = False"
| "truthy (PBool b) = b"
| "truthy (PInt i) = (i \<noteq> 0)"
| "truthy (PFloat r) = (r \<noteq> ''0.0'' \<and> r \<noteq> ''-0.0'')"
| "truthy (PStr s) = (s \<noteq> [])"
| "truthy (PList xs) = (xs \<noteq> [])"
| "truthy (PTuple xs) = (xs \<noteq> [])"
| "truthy (PDict kvs) = (kvs \<noteq> [])"

fun opt_val :: "string option \<Rightarrow> pyval" where
  "opt_val None = PNone"
| "opt_val (Some s) = PStr s"

abbreviation truthy_opt :: "string option \<Rightarrow> bool" where
  "truthy_opt x \<equiv> (case x of None \<Rightarrow> False | Some s \<Rightarrow> s \<noteq> [])"

text \<open>\<open>x or default\<close> for an optional string.\<close>

definition or_else :: "string option \<Rightarrow> string \<Rightarrow> string" where
  "or_else x d = (case x of None \<Rightarrow> d | Some s \<Rightarrow> if s = [] then d else s)"

subsection \<open>repr and str\<close>

definition hex_digit :: "nat \<Rightarrow> char" where
  "hex_digit n = (if n < 10 then char_of (48 + n) else char_of (87 + n))"

definition repr_char :: "char \<Rightarrow> char \<Rightarrow> string" where
  "repr_char q c = (let n = codept c in
     if c = q \<or> n = 92 then [CHR 0x5C, c]
     else if n = 10 then [CHR 0x5C, CHR ''n'']
     else if n = 13 then [CHR 0x5C, CHR ''r'']
     else if n = 9 then [CHR 0x5C, CHR ''t'']
     else if n < 32 \<or> 127 \<le> n \<and> n \<le> 160 \<or> n = 173
       then [CHR 0x5C, CHR ''x'', hex_digit (n div 16), hex_digit (n mod 16)]
     else [c])"

abbreviation squote :: char where "squote \<equiv> CHR 0x27"
abbreviation dquote :: char where "dquote \<equiv> CHR 0x22"

definition repr_str :: "string \<Rightarrow> string" where
  "repr_str s = (let q = (if squote \<in> set s \<and> dquote \<notin> set s then dquote else squote)
     in [q] @ concat (map (repr_char q) s) @ [q])"

fun repr_key :: "pykey \<Rightarrow> string" where
  "repr_key (KStr s) = repr_str s"
| "repr_key (KInt i) = show_int i"
| "repr_key (KBool b) = (if b then ''True'' else ''False'')"
| "repr_key KNone = ''None''"

fun repr_val :: "pyval \<Rightarrow> string" where
  "repr_val PNone = ''None''"
| "repr_val (PBool b) = (if b then ''True'' else ''False'')"
| "repr_val (PInt i) = show_int i"
| "repr_val (PFloat r) = r"
| "repr_val (PStr s) = repr_str s"
| "repr_val (PList xs) = ''['' @ join '', '' (map repr_val xs) @ '']''"
| "repr_val (PTuple xs) =
     (case xs of [x] \<Rightarrow> ''('' @ repr_val x @ '',)''
      | _ \<Rightarrow> ''('' @ join '', '' (map repr_val xs) @ '')'')"
| "repr_val (PDict kvs) =
     ''{'' @ join '', '' (map (\<lambda>kv. repr_key (fst kv) @ '': '' @ repr_val (snd kv)) kvs) @ ''}''"

definition str_val :: "pyval \<Rightarrow> string" where
  "str_val v = (case v of PStr s \<Rightarrow> s | _ \<Rightarrow> repr_val v)"

subsection \<open>Equality\<close>

text \<open>
  \<open>==\<close> on values: \<open>True == 1\<close>, an integral float equals its integer, lists and tuples are
  different, a dict ignores the order of its entries.
\<close>

fun num_of :: "pyval \<Rightarrow> string option" where
  "num_of (PBool b) = Some (if b then ''1.0'' else ''0.0'')"
| "num_of (PInt i) = Some (show_int i @ ''.0'')"
| "num_of (PFloat r) = (if r = ''nan'' then None else Some (if r = ''-0.0'' then ''0.0'' else r))"
| "num_of _ = None"

fun key_num :: "pykey \<Rightarrow> pykey" where
  "key_num (KBool b) = KInt (if b then 1 else 0)"
| "key_num k = k"

function py_eq :: "pyval \<Rightarrow> pyval \<Rightarrow> bool" where
  "py_eq v w = (case (v, w) of
     (PNone, PNone) \<Rightarrow> True
   | (PStr a, PStr b) \<Rightarrow> a = b
   | (PList xs, PList ys) \<Rightarrow> length xs = length ys \<and> (\<forall>p \<in> set (zip xs ys). py_eq (fst p) (snd p))
   | (PTuple xs, PTuple ys) \<Rightarrow> length xs = length ys \<and> (\<forall>p \<in> set (zip xs ys). py_eq (fst p) (snd p))
   | (PDict a, PDict b) \<Rightarrow> length a = length b \<and>
       (\<forall>kv \<in> set a. \<exists>kw \<in> set b. key_num (fst kv) = key_num (fst kw) \<and> py_eq (snd kv) (snd kw))
   | _ \<Rightarrow> num_of v \<noteq> None \<and> num_of v = num_of w)"
  by pat_completeness auto
termination
  apply (relation "measure (\<lambda>(v, w). size v)")
     apply (auto dest!: set_zip_leftD)
    apply (metis less_Suc_eq_le size_list_estimation' order_refl)
   apply (metis less_Suc_eq_le size_list_estimation' order_refl)
  subgoal for a b k v
    using size_list_estimation' [of "(k, v)" a "size v" "size_prod (\<lambda>x. 0) size"] by auto
  done

declare py_eq.simps [simp del]

section \<open>Systems with an invariant\<close>

text \<open>
  The contract that the stateful components share: the initial states satisfy the invariant and every
  step preserves it. Then it holds in every state that steps can reach.
\<close>

locale invariant_system =
  fixes start :: "'s \<Rightarrow> bool"
    and step :: "'s \<Rightarrow> 's \<Rightarrow> bool"
    and inv :: "'s \<Rightarrow> bool"
  assumes start_inv: "start s \<Longrightarrow> inv s"
    and step_inv: "inv s \<Longrightarrow> step s s' \<Longrightarrow> inv s'"
begin

lemma steps_inv: "step\<^sup>*\<^sup>* s s' \<Longrightarrow> inv s \<Longrightarrow> inv s'"
  by (induction rule: rtranclp_induct) (auto intro: step_inv)

lemma reached_inv: "start s \<Longrightarrow> step\<^sup>*\<^sup>* s s' \<Longrightarrow> inv s'"
  using start_inv steps_inv by blast

lemma steps_keep:
  assumes "\<And>s s'. inv s \<Longrightarrow> step s s' \<Longrightarrow> P s \<Longrightarrow> P s'"
  shows "step\<^sup>*\<^sup>* s s' \<Longrightarrow> inv s \<Longrightarrow> P s \<Longrightarrow> P s'"
proof (induction rule: rtranclp_induct)
  case (step t u)
  then show ?case using steps_inv assms by blast
qed simp

end

end
