(* ===== verification/Models.thy ===== *)
theory Models
  imports Complex_Main Rygnal_Prelude
begin

text \<open>
  The shared data of \<open>src/rygnal/models.py\<close>: its enumerations with their string values, its pydantic
  models as records, and the validators the models declare. Records keep the fields and their order;
  identifiers and time stamps that the code draws from \<open>uuid4\<close> and the clock are fields like the
  others, and the operations that create a record receive them as arguments.
\<close>

section \<open>Enumerations\<close>

datatype decision = ALLOW | BLOCK | REQUIRE_APPROVAL | SIMULATE

datatype severity = SevLOW | SevMEDIUM | SevHIGH | SevCRITICAL

datatype execution_status = EXECUTED | SKIPPED | FAILED | SIMULATED

datatype approval_status = PENDING | APPROVED | REJECTED

datatype runtime_mode = OBSERVE | SIMULATE_MODE | ENFORCE | PRODUCTION_SAFE

fun decision_value :: "decision \<Rightarrow> string" where
  "decision_value ALLOW = ''allow''"
| "decision_value BLOCK = ''block''"
| "decision_value REQUIRE_APPROVAL = ''require_approval''"
| "decision_value SIMULATE = ''simulate''"

fun severity_value :: "severity \<Rightarrow> string" where
  "severity_value SevLOW = ''low''"
| "severity_value SevMEDIUM = ''medium''"
| "severity_value SevHIGH = ''high''"
| "severity_value SevCRITICAL = ''critical''"

fun approval_status_value :: "approval_status \<Rightarrow> string" where
  "approval_status_value PENDING = ''pending''"
| "approval_status_value APPROVED = ''approved''"
| "approval_status_value REJECTED = ''rejected''"

fun runtime_mode_value :: "runtime_mode \<Rightarrow> string" where
  "runtime_mode_value OBSERVE = ''observe''"
| "runtime_mode_value SIMULATE_MODE = ''simulate''"
| "runtime_mode_value ENFORCE = ''enforce''"
| "runtime_mode_value PRODUCTION_SAFE = ''production_safe''"

lemma decision_value_inject: "decision_value a = decision_value b \<longleftrightarrow> a = b"
  by (cases a; cases b) simp_all

lemma severity_value_inject: "severity_value a = severity_value b \<longleftrightarrow> a = b"
  by (cases a; cases b) simp_all

lemma approval_status_value_inject:
  "approval_status_value a = approval_status_value b \<longleftrightarrow> a = b"
  by (cases a; cases b) simp_all

section \<open>Records\<close>

record role_permission =
  rp_role :: string
  rp_allowed_severities :: "severity list"
  rp_allowed_actions :: "string list option"
  rp_environments :: "string list option"

text \<open>The field validators of \<open>RolePermission\<close>.\<close>

definition role_permission_list_ok :: "string list option \<Rightarrow> bool" where
  "role_permission_list_ok v =
     (case v of None \<Rightarrow> True | Some xs \<Rightarrow> xs \<noteq> [] \<and> list_all (\<lambda>x. strip x \<noteq> []) xs)"

definition role_permission_valid :: "role_permission \<Rightarrow> bool" where
  "role_permission_valid p =
     (rp_role p \<noteq> [] \<and> rp_allowed_severities p \<noteq> [] \<and> strip (rp_role p) \<noteq> [] \<and>
      role_permission_list_ok (rp_allowed_actions p) \<and> role_permission_list_ok (rp_environments p))"

record tool_request =
  tool_name :: string
  tr_action :: "string option"
  tr_target :: "string option"
  tr_input :: pyval
  user_id :: string
  agent_id :: string
  environment :: string
  tr_metadata :: dict

record policy_rule =
  pr_id :: string
  pr_decision :: decision
  pr_severity :: severity
  pr_reason :: string
  pr_priority :: int
  pr_tool_name :: "string option"
  pr_action :: "string option"
  pr_environment :: "string option"
  target_equals :: "string option"
  target_contains :: "string option"
  target_matches :: "string option"
  target_not_matches :: "string option"
  input_equals :: pyval
  input_contains :: "string option"
  metadata_equals :: dict
  metadata_contains :: "(string \<times> string) list"
  pr_risk_level :: "string option"
  risk_score_min :: "rat option"

record policy_schema =
  ps_policy_version :: string
  ps_default_decision :: decision
  ps_rules :: "policy_rule list"

record policy_explanation =
  pe_policy_version :: string
  pe_matched :: bool
  pe_matched_rule_id :: "string option"
  pe_matched_rule_priority :: "int option"
  pe_matched_conditions :: "string list"
  pe_evaluated_rule_ids :: "string list"
  pe_default_decision :: bool

record policy_decision =
  pd_decision :: decision
  pd_allowed :: bool
  pd_severity :: severity
  pd_reason :: string
  pd_policy_id :: "string option"
  pd_explanation :: "policy_explanation option"

record approval_request =
  ar_approval_id :: string
  ar_created_at :: string
  ar_trace_id :: string
  ar_requested_by :: string
  ar_agent_id :: string
  ar_environment :: string
  ar_tool_name :: string
  ar_action :: "string option"
  ar_target :: pyval
  ar_policy_id :: "string option"
  ar_reason :: string
  ar_severity :: severity
  ar_risk_assessment :: dict
  ar_metadata :: dict

text \<open>\<open>min_length=1\<close> and \<open>_reject_blank_context\<close> of \<open>ApprovalRequest\<close>.\<close>

definition approval_request_valid :: "approval_request \<Rightarrow> bool" where
  "approval_request_valid r =
     list_all (\<lambda>v. strip v \<noteq> [])
       [ar_approval_id r, ar_created_at r, ar_trace_id r, ar_requested_by r, ar_agent_id r,
        ar_environment r, ar_tool_name r, ar_reason r]"

record approval_decision =
  ad_approval_id :: string
  ad_status :: approval_status
  ad_approved :: bool
  ad_decided_by :: "string option"
  ad_decided_at :: "string option"
  ad_reason :: string
  ad_metadata :: dict

record audit_event =
  schema_version :: string
  rygnal_package_version :: string
  event_id :: string
  ae_timestamp :: string
  ae_trace_id :: string
  ae_user_id :: string
  ae_agent_id :: string
  ae_environment :: string
  ae_tool_name :: string
  ae_action :: "string option"
  ae_target :: pyval
  ae_input :: pyval
  ae_decision :: decision
  ae_allowed :: bool
  ae_severity :: severity
  ae_policy_id :: "string option"
  ae_reason :: string
  ae_metadata :: dict
  prev_event_hash :: "string option"
  event_hash :: "string option"

record tool_execution_result =
  te_status :: execution_status
  te_executed :: bool
  te_output :: pyval
  te_error :: "string option"

record interceptor_result =
  ir_request :: tool_request
  ir_risk_assessment :: dict
  ir_policy_decision :: policy_decision
  ir_audit_event :: audit_event
  ir_execution :: tool_execution_result
  ir_approval_decision :: "approval_decision option"

section \<open>\<open>model_dump(mode="json")\<close>\<close>

abbreviation str_list_val :: "string list \<Rightarrow> pyval" where
  "str_list_val xs \<equiv> PList (map PStr xs)"

definition policy_explanation_dump :: "policy_explanation \<Rightarrow> dict" where
  "policy_explanation_dump e =
     [(''policy_version'', PStr (pe_policy_version e)),
      (''matched'', PBool (pe_matched e)),
      (''matched_rule_id'', opt_val (pe_matched_rule_id e)),
      (''matched_rule_priority'', case pe_matched_rule_priority e of None \<Rightarrow> PNone | Some i \<Rightarrow> PInt i),
      (''matched_conditions'', str_list_val (pe_matched_conditions e)),
      (''evaluated_rule_ids'', str_list_val (pe_evaluated_rule_ids e)),
      (''default_decision'', PBool (pe_default_decision e))]"

definition policy_decision_dump :: "policy_decision \<Rightarrow> dict" where
  "policy_decision_dump d =
     [(''decision'', PStr (decision_value (pd_decision d))),
      (''allowed'', PBool (pd_allowed d)),
      (''severity'', PStr (severity_value (pd_severity d))),
      (''reason'', PStr (pd_reason d)),
      (''policy_id'', opt_val (pd_policy_id d)),
      (''explanation'', case pd_explanation d of None \<Rightarrow> PNone
         | Some e \<Rightarrow> dict_val (policy_explanation_dump e))]"

text \<open>JSON mode turns tuples into lists; the dictionaries that are dumped have string keys.\<close>

fun json_val :: "pyval \<Rightarrow> pyval" where
  "json_val (PList xs) = PList (map json_val xs)"
| "json_val (PTuple xs) = PList (map json_val xs)"
| "json_val (PDict kvs) = PDict (map (\<lambda>kv. (fst kv, json_val (snd kv))) kvs)"
| "json_val v = v"

definition json_dict :: "dict \<Rightarrow> dict" where
  "json_dict d = map (\<lambda>(k, v). (k, json_val v)) d"

definition audit_event_dump :: "audit_event \<Rightarrow> dict" where
  "audit_event_dump e =
     [(''schema_version'', PStr (schema_version e)),
      (''rygnal_package_version'', PStr (rygnal_package_version e)),
      (''event_id'', PStr (event_id e)),
      (''timestamp'', PStr (ae_timestamp e)),
      (''trace_id'', PStr (ae_trace_id e)),
      (''user_id'', PStr (ae_user_id e)),
      (''agent_id'', PStr (ae_agent_id e)),
      (''environment'', PStr (ae_environment e)),
      (''tool_name'', PStr (ae_tool_name e)),
      (''action'', opt_val (ae_action e)),
      (''target'', json_val (ae_target e)),
      (''input'', json_val (ae_input e)),
      (''decision'', PStr (decision_value (ae_decision e))),
      (''allowed'', PBool (ae_allowed e)),
      (''severity'', PStr (severity_value (ae_severity e))),
      (''policy_id'', opt_val (ae_policy_id e)),
      (''reason'', PStr (ae_reason e)),
      (''metadata'', dict_val (json_dict (ae_metadata e))),
      (''prev_event_hash'', opt_val (prev_event_hash e)),
      (''event_hash'', opt_val (event_hash e))]"

end
