(* ===== verification/Py_Regex.thy ===== *)
theory Py_Regex
  imports Rygnal_Prelude
begin

text \<open>
  The fragment of Python's \<open>re\<close> that the sources compile as constants: character classes, sequence,
  ordered alternation, greedy repetition and the word boundary. \<open>re_run\<close> lists the ways a pattern can
  match at a position in the order in which the backtracking matcher tries them, so its head is the
  match Python reports. \<open>re_match\<close> is the declarative reading, and \<open>set_re_run\<close> shows that the two
  agree. \<open>re_search\<close>, \<open>re_sub\<close> and \<open>re_findall\<close> scan from left to right; they are used for patterns
  that consume at least one character (\<open>re_consumes\<close>).
\<close>

section \<open>Patterns and the matcher\<close>

type_synonym pos = "char option \<times> string"

datatype regex =
    Eps
  | Chr "char \<Rightarrow> bool"
  | Seq regex regex
  | Alt regex regex
  | Star regex
  | WordB

definition at_word_boundary :: "pos \<Rightarrow> bool" where
  "at_word_boundary p =
     ((case fst p of None \<Rightarrow> False | Some c \<Rightarrow> is_word_char c) \<noteq>
      (case snd p of [] \<Rightarrow> False | c # _ \<Rightarrow> is_word_char c))"

function re_run :: "regex \<Rightarrow> pos \<Rightarrow> pos list" where
  "re_run Eps p = [p]"
| "re_run (Chr f) p =
     (case snd p of [] \<Rightarrow> [] | c # cs \<Rightarrow> if f c then [(Some c, cs)] else [])"
| "re_run (Seq a b) p = concat (map (re_run b) (re_run a p))"
| "re_run (Alt a b) p = re_run a p @ re_run b p"
| "re_run (Star a) p =
     concat (map (\<lambda>q. if length (snd q) < length (snd p) then re_run (Star a) q else [])
       (re_run a p)) @ [p]"
| "re_run WordB p = (if at_word_boundary p then [p] else [])"
  by pat_completeness auto
termination
  by (relation "measures [\<lambda>(r, p). size r, \<lambda>(r, p). length (snd p)]") auto

declare re_run.simps(5) [simp del]

inductive re_match :: "regex \<Rightarrow> pos \<Rightarrow> pos \<Rightarrow> bool" where
  match_eps: "re_match Eps p p"
| match_chr: "f c \<Longrightarrow> re_match (Chr f) (pr, c # cs) (Some c, cs)"
| match_seq: "re_match a p q \<Longrightarrow> re_match b q r \<Longrightarrow> re_match (Seq a b) p r"
| match_altL: "re_match a p q \<Longrightarrow> re_match (Alt a b) p q"
| match_altR: "re_match b p q \<Longrightarrow> re_match (Alt a b) p q"
| match_star_nil: "re_match (Star a) p p"
| match_star_step: "re_match a p q \<Longrightarrow> length (snd q) < length (snd p) \<Longrightarrow>
     re_match (Star a) q r \<Longrightarrow> re_match (Star a) p r"
| match_wordb: "at_word_boundary p \<Longrightarrow> re_match WordB p p"

inductive_cases re_match_ChrE: "re_match (Chr f) p q"
inductive_cases re_match_SeqE: "re_match (Seq a b) p q"
inductive_cases re_match_AltE: "re_match (Alt a b) p q"
inductive_cases re_match_StarE: "re_match (Star a) p q"
inductive_cases re_match_EpsE: "re_match Eps p q"
inductive_cases re_match_WordBE: "re_match WordB p q"

lemmas re_match_elims =
  re_match_ChrE re_match_SeqE re_match_AltE re_match_EpsE re_match_WordBE

lemma re_run_sound: "q \<in> set (re_run r p) \<Longrightarrow> re_match r p q"
proof (induction r p arbitrary: q rule: re_run.induct)
  case (3 a b p)
  then obtain q' where "q' \<in> set (re_run a p)" "q \<in> set (re_run b q')" by auto
  then show ?case
    using "3.IH" by (blast intro: re_match.intros)
next
  case (5 a p)
  consider "q = p"
    | q' where "q' \<in> set (re_run a p)" "length (snd q') < length (snd p)" "q \<in> set (re_run (Star a) q')"
    using "5.prems" [unfolded re_run.simps(5) [of a p]] by (auto split: if_splits)
  then show ?case
    using "5.IH" by cases (blast intro: re_match.intros)+
qed (auto intro: re_match.intros split: list.splits if_splits)

lemma re_match_run: "re_match r p q \<Longrightarrow> q \<in> set (re_run r p)"
proof (induction r p q rule: re_match.induct)
  case (match_star_nil a p)
  then show ?case by (subst re_run.simps(5)) simp
next
  case (match_star_step a p q r)
  then show ?case by (subst re_run.simps(5)) force
qed auto

theorem set_re_run: "set (re_run r p) = {q. re_match r p q}"
  using re_run_sound re_match_run by blast

text \<open>A match reads a prefix of the remaining text and leaves the rest.\<close>

lemma re_match_suffix: "re_match r p q \<Longrightarrow> suffix (snd q) (snd p)"
  by (induction rule: re_match.induct) (auto intro: suffix_order.trans simp: suffix_ConsI)

section \<open>Derived forms\<close>

definition Opt :: "regex \<Rightarrow> regex" where
  "Opt r = Alt r Eps"

definition Plus :: "regex \<Rightarrow> regex" where
  "Plus r = Seq r (Star r)"

text \<open>\<open>r{n,}\<close>.\<close>

fun At_least :: "nat \<Rightarrow> regex \<Rightarrow> regex" where
  "At_least 0 r = Star r"
| "At_least (Suc n) r = Seq r (At_least n r)"

definition chr :: "char \<Rightarrow> regex" where
  "chr c = Chr (\<lambda>x. x = c)"

definition one_of :: "string \<Rightarrow> regex" where
  "one_of s = Chr (\<lambda>x. x \<in> set s)"

fun Lit :: "string \<Rightarrow> regex" where
  "Lit [] = Eps"
| "Lit (c # cs) = Seq (chr c) (Lit cs)"

text \<open>A literal under the \<open>(?i)\<close> flag; the literals of the sources are ASCII lower case.\<close>

fun LitI :: "string \<Rightarrow> regex" where
  "LitI [] = Eps"
| "LitI (c # cs) = Seq (Chr (\<lambda>x. lower_char x = c)) (LitI cs)"

fun Alts :: "regex list \<Rightarrow> regex" where
  "Alts [] = Chr (\<lambda>_. False)"
| "Alts [r] = r"
| "Alts (r # s # rs) = Alt r (Alts (s # rs))"

fun Seqs :: "regex list \<Rightarrow> regex" where
  "Seqs [] = Eps"
| "Seqs [r] = r"
| "Seqs (r # s # rs) = Seq r (Seqs (s # rs))"

definition space :: regex where
  "space = Chr is_space"

definition non_space :: regex where
  "non_space = Chr (\<lambda>c. \<not> is_space c)"

section \<open>Scanning\<close>

fun re_search_from :: "regex \<Rightarrow> char option \<Rightarrow> string \<Rightarrow> bool" where
  "re_search_from r pr [] = (re_run r (pr, []) \<noteq> [])"
| "re_search_from r pr (c # cs) = (re_run r (pr, c # cs) \<noteq> [] \<or> re_search_from r (Some c) cs)"

definition re_search :: "regex \<Rightarrow> string \<Rightarrow> bool" where
  "re_search r s = re_search_from r None s"

text \<open>The text the matcher reports at a position: the first alternative of \<open>re_run\<close>.\<close>

definition re_first :: "regex \<Rightarrow> pos \<Rightarrow> pos option" where
  "re_first r p = (case re_run r p of [] \<Rightarrow> None
     | q # _ \<Rightarrow> if length (snd q) < length (snd p) then Some q else None)"

definition consumed :: "pos \<Rightarrow> pos \<Rightarrow> string" where
  "consumed p q = take (length (snd p) - length (snd q)) (snd p)"

lemma re_first_length: "re_first r p = Some q \<Longrightarrow> length (snd q) < length (snd p)"
  by (auto simp: re_first_def split: list.splits if_splits)

function re_sub_from :: "regex \<Rightarrow> (string \<Rightarrow> string) \<Rightarrow> pos \<Rightarrow> string" where
  "re_sub_from r f p = (case snd p of [] \<Rightarrow> []
     | c # cs \<Rightarrow> (case re_first r p of
         Some q \<Rightarrow> f (consumed p q) @ re_sub_from r f q
       | None \<Rightarrow> c # re_sub_from r f (Some c, cs)))"
  by pat_completeness auto
termination
  by (relation "measure (\<lambda>(r, f, p). length (snd p))") (auto dest: re_first_length)

declare re_sub_from.simps [simp del]

definition re_sub :: "regex \<Rightarrow> (string \<Rightarrow> string) \<Rightarrow> string \<Rightarrow> string" where
  "re_sub r f s = re_sub_from r f (None, s)"

function re_findall_from :: "regex \<Rightarrow> pos \<Rightarrow> string list" where
  "re_findall_from r p = (case snd p of [] \<Rightarrow> []
     | c # cs \<Rightarrow> (case re_first r p of
         Some q \<Rightarrow> consumed p q # re_findall_from r q
       | None \<Rightarrow> re_findall_from r (Some c, cs)))"
  by pat_completeness auto
termination
  by (relation "measure (\<lambda>(r, p). length (snd p))") (auto dest: re_first_length)

declare re_findall_from.simps [simp del]

definition re_findall :: "regex \<Rightarrow> string \<Rightarrow> string list" where
  "re_findall r s = re_findall_from r (None, s)"

subsection \<open>Patterns that consume\<close>

fun re_consumes :: "regex \<Rightarrow> bool" where
  "re_consumes Eps = False"
| "re_consumes (Chr f) = True"
| "re_consumes (Seq a b) = (re_consumes a \<or> re_consumes b)"
| "re_consumes (Alt a b) = (re_consumes a \<and> re_consumes b)"
| "re_consumes (Star a) = False"
| "re_consumes WordB = False"

lemma re_match_length: "re_match r p q \<Longrightarrow> length (snd q) \<le> length (snd p)"
  by (drule re_match_suffix) (simp add: suffix_length_le)

lemma re_match_consumes: "re_match r p q \<Longrightarrow> re_consumes r \<Longrightarrow> length (snd q) < length (snd p)"
  by (induction rule: re_match.induct)
     (auto dest!: re_match_length intro: less_le_trans le_less_trans)

lemma re_first_None_iff: "re_consumes r \<Longrightarrow> re_first r p = None \<longleftrightarrow> re_run r p = []"
  using re_match_consumes [OF re_run_sound, of _ r p]
  by (auto simp: re_first_def split: list.splits)

text \<open>A pattern that does not occur leaves the text as it is.\<close>

lemma re_sub_from_no_match:
  "\<not> re_search_from r pr s \<Longrightarrow> re_sub_from r f (pr, s) = s"
  by (induction s arbitrary: pr)
     (subst re_sub_from.simps, auto simp: re_first_def split: option.splits list.splits)+

lemma re_sub_no_match: "\<not> re_search r s \<Longrightarrow> re_sub r f s = s"
  by (simp add: re_search_def re_sub_def re_sub_from_no_match)

lemma re_search_from_nil_findall:
  "re_consumes r \<Longrightarrow> re_findall_from r (pr, s) = [] \<longleftrightarrow> \<not> re_search_from r pr s"
proof (induction s arbitrary: pr)
  case Nil
  then show ?case
    using re_first_None_iff [of r "(pr, [])"]
    by (subst re_findall_from.simps) (auto simp: re_first_def split: list.splits)
next
  case (Cons c cs)
  then show ?case
    using re_first_None_iff [of r "(pr, c # cs)"]
    by (subst re_findall_from.simps) (auto split: option.splits)
qed

subsection \<open>Texts that lack a character a pattern needs\<close>

fun re_stuck :: "string \<Rightarrow> regex \<Rightarrow> bool" where
  "re_stuck s (Chr f) = list_all (\<lambda>c. \<not> f c) s"
| "re_stuck s (Seq a b) = (re_stuck s a \<or> re_stuck s b)"
| "re_stuck s (Alt a b) = (re_stuck s a \<and> re_stuck s b)"
| "re_stuck s _ = False"

lemma re_stuck_match: "re_match r p q \<Longrightarrow> set (snd p) \<subseteq> set s \<Longrightarrow> \<not> re_stuck s r"
proof (induction rule: re_match.induct)
  case (match_seq a p q b r)
  then have "set (snd q) \<subseteq> set s"
    using re_match_suffix set_mono_suffix by blast
  with match_seq show ?case by simp
qed (auto simp: list_all_iff)

lemma re_stuck_no_search: "re_stuck s r \<Longrightarrow> \<not> re_search r s"
proof -
  assume stuck: "re_stuck s r"
  have "\<not> re_search_from r pr t" if "set t \<subseteq> set s" for pr t
    using that
  proof (induction t arbitrary: pr)
    case Nil
    then show ?case using re_stuck_match re_run_sound stuck by (metis list.set_intros(1) neq_Nil_conv re_search_from.simps(1) snd_conv)
  next
    case (Cons c t)
    then have "re_run r (pr, c # t) = []"
      using re_stuck_match re_run_sound stuck by (metis list.set_intros(1) neq_Nil_conv snd_conv)
    with Cons show ?case by simp
  qed
  then show ?thesis by (simp add: re_search_def)
qed

end
