(* ===== verification/Py_Shlex.thy ===== *)
theory Py_Shlex
  imports Rygnal_Prelude
begin

text \<open>
  \<open>shlex.split(s)\<close> of the Python standard library in its POSIX mode (white space splits, no comment
  characters), as a state machine over the characters of \<open>s\<close>. \<open>Between\<close> is the lexer's state \<open>' '\<close>,
  \<open>Word\<close> its state \<open>'a'\<close>, \<open>Quoted q\<close> a quotation and \<open>Escape ret\<close> the state after a backslash, which
  returns to \<open>ret\<close>. The token read so far and the \<open>quoted\<close> flag are arguments. The length lemmas say
  that no token is longer than the text it comes from, which is what makes the recursion of
  \<open>normalize_shell_command\<close> terminate.
\<close>

datatype lex_state = Between | Word | Quoted char | Escape lex_state

definition lex_white :: "char \<Rightarrow> bool" where
  "lex_white c = (let n = codept c in n = 32 \<or> n = 9 \<or> n = 13 \<or> n = 10)"

abbreviation backslash :: char where "backslash \<equiv> CHR 0x5C"

definition lex_emit :: "string \<Rightarrow> bool \<Rightarrow> string list" where
  "lex_emit tok qtd = (if tok \<noteq> [] \<or> qtd then [tok] else [])"

fun cons_tokens :: "string list \<Rightarrow> string list res \<Rightarrow> string list res" where
  "cons_tokens xs (Inl e) = Inl e"
| "cons_tokens xs (Inr ys) = Inr (xs @ ys)"

fun lex :: "lex_state \<Rightarrow> string \<Rightarrow> bool \<Rightarrow> string \<Rightarrow> string list res" where
  "lex Between tok qtd [] = Inr (lex_emit tok qtd)"
| "lex Between tok qtd (c # cs) =
     (if lex_white c then cons_tokens (lex_emit tok qtd) (lex Between [] False cs)
      else if c = backslash then lex (Escape Word) tok qtd cs
      else if c = squote \<or> c = dquote then lex (Quoted c) tok qtd cs
      else lex Word [c] qtd cs)"
| "lex Word tok qtd [] = Inr (lex_emit tok qtd)"
| "lex Word tok qtd (c # cs) =
     (if lex_white c then cons_tokens (lex_emit tok qtd) (lex Between [] False cs)
      else if c = squote \<or> c = dquote then lex (Quoted c) tok qtd cs
      else if c = backslash then lex (Escape Word) tok qtd cs
      else lex Word (tok @ [c]) qtd cs)"
| "lex (Quoted q) tok qtd [] = Inl (Exn ValueErr ''ValueError'' ''No closing quotation'')"
| "lex (Quoted q) tok qtd (c # cs) =
     (if c = q then lex Word tok True cs
      else if c = backslash \<and> q = dquote then lex (Escape (Quoted q)) tok True cs
      else lex (Quoted q) (tok @ [c]) True cs)"
| "lex (Escape ret) tok qtd [] = Inl (Exn ValueErr ''ValueError'' ''No escaped character'')"
| "lex (Escape ret) tok qtd (c # cs) =
     (let tok' = (case ret of Quoted q \<Rightarrow> if c \<noteq> backslash \<and> c \<noteq> q then tok @ [backslash] else tok
                  | _ \<Rightarrow> tok)
      in lex ret (tok' @ [c]) qtd cs)"

definition shlex_split :: "string \<Rightarrow> string list res" where
  "shlex_split s = lex Between [] False s"

text \<open>\<open>try: shlex.split(s) except ValueError: s.split()\<close>, the pattern both command detectors use.\<close>

definition shlex_or_words :: "string \<Rightarrow> string list" where
  "shlex_or_words s = (case shlex_split s of Inr ts \<Rightarrow> ts | Inl _ \<Rightarrow> split_words s)"

section \<open>Lengths\<close>

definition pending :: "lex_state \<Rightarrow> nat" where
  "pending st = (case st of Escape _ \<Rightarrow> 1 | _ \<Rightarrow> 0)"

lemma sum_length_emit: "sum_list (map length (lex_emit tok qtd)) = length tok"
  by (simp add: lex_emit_def)

lemma cons_tokens_Inr_iff: "cons_tokens xs r = Inr ts \<longleftrightarrow> (\<exists>ys. r = Inr ys \<and> ts = xs @ ys)"
  by (cases r) auto

lemma sum_length_lex:
  assumes "lex st tok qtd s = Inr ts" and "st = Between \<Longrightarrow> tok = []"
    and "\<And>b. st = Escape b \<Longrightarrow> b = Word \<or> (\<exists>q. b = Quoted q)"
  shows "sum_list (map length ts) \<le> length tok + pending st + length s"
  using assms
proof (induction st tok qtd s arbitrary: ts rule: lex.induct)
  case (1 tok qtd)
  then show ?case by (auto simp: sum_length_emit)
next
  case (2 tok qtd c cs)
  then show ?case
    by (force simp: cons_tokens_Inr_iff sum_length_emit pending_def split: if_splits)
next
  case (3 tok qtd)
  then show ?case by (auto simp: sum_length_emit)
next
  case (4 tok qtd c cs)
  then show ?case
    by (force simp: cons_tokens_Inr_iff sum_length_emit pending_def split: if_splits)
next
  case (6 q tok qtd c cs)
  then show ?case by (force simp: pending_def split: if_splits)
next
  case (8 ret tok qtd c cs)
  from "8.prems"(3) have "ret = Word \<or> (\<exists>q. ret = Quoted q)" by simp
  with "8.IH" [OF refl] "8.prems"(1) show ?case
    by (fastforce simp: pending_def Let_def split: if_splits)
qed auto

lemma sum_length_shlex: "shlex_split s = Inr ts \<Longrightarrow> sum_list (map length ts) \<le> length s"
  using sum_length_lex [of Between "[]" False s ts] by (simp add: shlex_split_def pending_def)

lemma sum_length_shlex_or_words: "sum_list (map length (shlex_or_words s)) \<le> length s"
  by (auto simp: shlex_or_words_def sum_length_shlex sum_length_split_words split: sum.splits)

end
