(* ===== verification/Security.thy ===== *)
theory Security
  imports Models Py_Regex Py_Shlex
begin

text \<open>
  \<open>src/rygnal/security.py\<close>: redaction of secrets in nested values, secret detection, and the shell
  command validator. \<open>redact_sensitive_value\<close> calls \<open>key.lower()\<close> on every dictionary key, so a key that
  is not a string raises \<open>AttributeError\<close>; the model returns that exception.
\<close>

section \<open>Constants\<close>

definition REDACTED :: string where
  "REDACTED = ''[REDACTED]''"

definition SENSITIVE_KEYWORDS :: "string list" where
  "SENSITIVE_KEYWORDS =
     [''password'', ''passwd'', ''secret'', ''token'', ''api_key'', ''apikey'', ''access_key'',
      ''private_key'', ''credential'', ''authorization'']"

text \<open>\<open>[^\s,;]\<close>, the value part of a secret assignment, and \<open>[A-Za-z0-9_-]\<close>.\<close>

definition value_char :: regex where
  "value_char = Chr (\<lambda>c. \<not> is_space c \<and> c \<notin> set '',;'')"

definition ascii_alnum :: "char \<Rightarrow> bool" where
  "ascii_alnum c = (let n = codept c in
     48 \<le> n \<and> n \<le> 57 \<or> 65 \<le> n \<and> n \<le> 90 \<or> 97 \<le> n \<and> n \<le> 122)"

definition assign_tail :: "regex list" where
  "assign_tail = [Star space, one_of '':='', Star space, Plus value_char]"

definition SECRET_PATTERNS :: "regex list" where
  "SECRET_PATTERNS =
     [Seqs (Alts [Seqs [LitI ''api'', Opt (one_of ''_-''), LitI ''key''], LitI ''token'',
              LitI ''secret'', LitI ''password'', LitI ''passwd''] # assign_tail),
      Seqs [LitI ''private'', Opt (one_of ''_-''), LitI ''key''],
      Seqs (LitI ''aws_access_key_id'' # assign_tail),
      Seqs (LitI ''aws_secret_access_key'' # assign_tail),
      Seqs [Lit ''sk-'', At_least 12 (Chr (\<lambda>c. ascii_alnum c \<or> c \<in> set ''_-''))],
      Seqs [Lit ''github_pat_'', Plus (Chr (\<lambda>c. ascii_alnum c \<or> c = CHR ''_''))]]"

definition DANGEROUS_SHELL_TOKENS :: "string list" where
  "DANGEROUS_SHELL_TOKENS =
     [''rm'', ''sudo'', ''chmod'', ''chown'', ''mkfs'', ''dd'', ''nc'', ''netcat'', ''ssh'', ''scp'',
      ''curl'', ''wget'', ''python'', ''python3'', ''bash'', ''sh'']"

definition SHELL_METACHARACTERS :: "string list" where
  "SHELL_METACHARACTERS =
     ['';'', ''&&'', ''||'', ''|'', ''`'', ''$()'', ''>'', ''>>'', ''<'']"

definition DEFAULT_ALLOWED_SHELL_COMMANDS :: "string list" where
  "DEFAULT_ALLOWED_SHELL_COMMANDS = [''pwd'', ''ls'', ''cat'', ''echo'']"

definition SecurityViolation :: "string \<Rightarrow> py_exn" where
  "SecurityViolation msg = Exn ValueErr ''SecurityViolation'' msg"

section \<open>Redaction\<close>

definition is_sensitive_key :: "string \<Rightarrow> bool" where
  "is_sensitive_key key =
     (let normalized_key = replace_char (CHR ''-'') (CHR ''_'') (lower key)
      in list_ex (contains normalized_key) SENSITIVE_KEYWORDS)"

definition redact_match :: "string \<Rightarrow> string" where
  "redact_match raw =
     (if CHR ''='' \<in> set raw then strip (before_char (CHR ''='') raw) @ ''='' @ REDACTED
      else if CHR '':'' \<in> set raw then strip (before_char (CHR '':'') raw) @ '': '' @ REDACTED
      else REDACTED)"

definition redact_sensitive_string :: "string \<Rightarrow> string" where
  "redact_sensitive_string value =
     fold (\<lambda>pattern redacted. re_sub pattern redact_match redacted) SECRET_PATTERNS value"

definition key_error :: "pykey \<Rightarrow> py_exn" where
  "key_error k = Exn AttributeErr ''AttributeError''
     (squote # (case k of KInt _ \<Rightarrow> ''int'' | KBool _ \<Rightarrow> ''bool'' | KNone \<Rightarrow> ''NoneType'' | KStr _ \<Rightarrow> ''str'')
      @ [squote] @ '' object has no attribute '' @ [squote] @ ''lower'' @ [squote])"

fun redact_sensitive_value :: "pyval \<Rightarrow> pyval res" where
  "redact_sensitive_value (PDict kvs) =
     rbind (rmap (\<lambda>kv. case fst kv of
         KStr k \<Rightarrow> if is_sensitive_key k then Inr (KStr k, PStr REDACTED)
                   else rbind (redact_sensitive_value (snd kv)) (\<lambda>v. Inr (KStr k, v))
       | k \<Rightarrow> Inl (key_error k)) kvs)
       (\<lambda>out. Inr (PDict out))"
| "redact_sensitive_value (PList xs) =
     rbind (rmap redact_sensitive_value xs) (\<lambda>ys. Inr (PList ys))"
| "redact_sensitive_value (PTuple xs) =
     rbind (rmap redact_sensitive_value xs) (\<lambda>ys. Inr (PTuple ys))"
| "redact_sensitive_value (PStr s) = Inr (PStr (redact_sensitive_string s))"
| "redact_sensitive_value v = Inr v"

text \<open>\<open>redact_sensitive_value\<close> applied to a \<open>dict[str, Any]\<close>.\<close>

definition redact_dict :: "dict \<Rightarrow> dict res" where
  "redact_dict d = rmap (\<lambda>(k, v). if is_sensitive_key k then Inr (k, PStr REDACTED)
     else rbind (redact_sensitive_value v) (\<lambda>w. Inr (k, w))) d"

text \<open>A text that lacks what every secret pattern needs is kept.\<close>

lemma redact_string_kept:
  "list_all (re_stuck s) SECRET_PATTERNS \<Longrightarrow> redact_sensitive_string s = s"
proof -
  assume "list_all (re_stuck s) SECRET_PATTERNS"
  then have "list_all (\<lambda>p. re_sub p redact_match s = s) ps" if "set ps \<subseteq> set SECRET_PATTERNS" for ps
    using that by (auto simp: list_all_iff intro!: re_sub_no_match re_stuck_no_search)
  moreover have "list_all (\<lambda>p. re_sub p redact_match s = s) ps \<Longrightarrow>
      fold (\<lambda>pattern redacted. re_sub pattern redact_match redacted) ps s = s" for ps
    by (induction ps) simp_all
  ultimately show ?thesis by (simp add: redact_sensitive_string_def)
qed

definition secret_free :: "string \<Rightarrow> bool" where
  "secret_free s = list_all (\<lambda>c. c \<notin> set '':=-_'' \<and> lower_char c \<noteq> CHR ''k'') s"

lemma secret_free_kept: "secret_free s \<Longrightarrow> redact_sensitive_string s = s"
  by (rule redact_string_kept)
     (auto simp: secret_free_def SECRET_PATTERNS_def assign_tail_def one_of_def chr_def list_all_iff)

section \<open>Secret detection\<close>

definition stringify :: "pyval \<Rightarrow> string" where
  "stringify v = (case v of PNone \<Rightarrow> [] | PStr s \<Rightarrow> s | _ \<Rightarrow> str_val v)"

definition key_text :: "pykey \<Rightarrow> string" where
  "key_text k = (case k of KStr s \<Rightarrow> s | _ \<Rightarrow> repr_key k)"

fun contains_secret :: "pyval \<Rightarrow> bool" where
  "contains_secret PNone = False"
| "contains_secret (PDict kvs) =
     (\<exists>kv \<in> set kvs. is_sensitive_key (key_text (fst kv)) \<or> contains_secret (snd kv))"
| "contains_secret (PList xs) = (\<exists>x \<in> set xs. contains_secret x)"
| "contains_secret (PTuple xs) = (\<exists>x \<in> set xs. contains_secret x)"
| "contains_secret v = list_ex (\<lambda>pattern. re_search pattern (stringify v)) SECRET_PATTERNS"

section \<open>Shell commands\<close>

definition validate_shell_command :: "string \<Rightarrow> string list option \<Rightarrow> string list res" where
  "validate_shell_command command_text allowed_commands =
     (let allowed = (case allowed_commands of
          None \<Rightarrow> DEFAULT_ALLOWED_SHELL_COMMANDS
        | Some xs \<Rightarrow> if xs = [] then DEFAULT_ALLOWED_SHELL_COMMANDS else xs)
      in if strip command_text = [] then Inl (SecurityViolation ''Shell command input is empty.'')
      else if list_ex (contains command_text) SHELL_METACHARACTERS
        then Inl (SecurityViolation ''Shell metacharacters are not allowed.'')
      else case shlex_split command_text of
          Inl exc \<Rightarrow> Inl (SecurityViolation (''Invalid shell command: '' @ exn_msg exc))
        | Inr [] \<Rightarrow> Inl (SecurityViolation ''Shell command input is empty.'')
        | Inr (command_name # args) \<Rightarrow>
            if command_name \<in> set DANGEROUS_SHELL_TOKENS \<and> command_name \<notin> set allowed
              then Inl (SecurityViolation (''Dangerous command is not allowed: '' @ command_name))
            else if command_name \<notin> set allowed
              then Inl (SecurityViolation (''Command not allowlisted: '' @ command_name))
            else Inr (command_name # args))"

section \<open>What redaction guarantees\<close>

text \<open>
  The specification of redaction: no dictionary at any depth holds, under a sensitive key, anything
  but the marker.
\<close>

fun keys_redacted :: "pyval \<Rightarrow> bool" where
  "keys_redacted (PDict kvs) =
     (\<forall>kv \<in> set kvs. case fst kv of
        KStr k \<Rightarrow> if is_sensitive_key k then snd kv = PStr REDACTED else keys_redacted (snd kv)
      | _ \<Rightarrow> False)"
| "keys_redacted (PList xs) = (\<forall>x \<in> set xs. keys_redacted x)"
| "keys_redacted (PTuple xs) = (\<forall>x \<in> set xs. keys_redacted x)"
| "keys_redacted v = True"

text \<open>Every dictionary key that redaction inspects is a string.\<close>

fun string_keys :: "pyval \<Rightarrow> bool" where
  "string_keys (PDict kvs) =
     (\<forall>kv \<in> set kvs. case fst kv of
        KStr k \<Rightarrow> is_sensitive_key k \<or> string_keys (snd kv) | _ \<Rightarrow> False)"
| "string_keys (PList xs) = (\<forall>x \<in> set xs. string_keys x)"
| "string_keys (PTuple xs) = (\<forall>x \<in> set xs. string_keys x)"
| "string_keys v = True"

lemma redact_value_keys:
  "redact_sensitive_value v = Inr w \<Longrightarrow> keys_redacted w"
proof (induction v arbitrary: w rule: redact_sensitive_value.induct)
  case (1 kvs)
  let ?P = "\<lambda>o'. case fst o' of KStr k \<Rightarrow>
    if is_sensitive_key k then snd o' = PStr REDACTED else keys_redacted (snd o') | _ \<Rightarrow> False"
  from "1.prems" obtain out where w: "w = PDict out"
    and out: "rmap (\<lambda>kv. case fst kv of
         KStr k \<Rightarrow> if is_sensitive_key k then Inr (KStr k, PStr REDACTED)
                   else rbind (redact_sensitive_value (snd kv)) (\<lambda>v. Inr (KStr k, v))
       | k \<Rightarrow> Inl (key_error k)) kvs = Inr out"
    by (auto simp: res_simps simp del: rmap.simps)
  have "\<forall>o' \<in> set out. ?P o'"
  proof (rule rmap_set [OF out])
    fix kv o'
    assume "kv \<in> set kvs" and "(case fst kv of
         KStr k \<Rightarrow> if is_sensitive_key k then Inr (KStr k, PStr REDACTED)
                   else rbind (redact_sensitive_value (snd kv)) (\<lambda>v. Inr (KStr k, v))
       | k \<Rightarrow> Inl (key_error k)) = Inr o'"
    with "1.IH" [of kv] show "?P o'"
      by (auto simp: res_simps split: pykey.splits if_splits)
  qed
  then show ?case by (simp add: w)
next
  case (2 xs)
  from "2.prems" show ?case
    by (auto simp: res_simps dest!: rmap_set [where P = keys_redacted] "2.IH")
next
  case (3 xs)
  from "3.prems" show ?case
    by (auto simp: res_simps dest!: rmap_set [where P = keys_redacted] "3.IH")
qed auto

lemma redact_value_total:
  "(\<exists>w. redact_sensitive_value v = Inr w) \<longleftrightarrow> string_keys v"
proof (induction v rule: redact_sensitive_value.induct)
  case (1 kvs)
  then show ?case
    by (auto simp: res_simps rmap_Inr_ex simp del: rmap.simps split: pykey.splits if_splits)
next
  case (2 xs)
  then show ?case by (simp add: res_simps rmap_Inr_ex)
next
  case (3 xs)
  then show ?case by (simp add: res_simps rmap_Inr_ex)
qed auto

end
