(* ===== verification/Risk_Text.thy ===== *)
theory Risk_Text
  imports Security
begin

text \<open>
  The data types of \<open>src/rygnal/risk_engine.py\<close> and the text classifiers its detectors call: shell
  command normalisation, sensitive paths, URLs and their destinations, destructive names, secret
  patterns and the trace identity.

  Three library calls are arguments, gathered in \<open>risk_lib\<close>: \<open>urlparse\<close> (scheme and host name of a URL,
  or the \<open>ValueError\<close> it raises), \<open>ip_address\<close> with the address predicates (\<open>None\<close> for a host that is
  not an address), both of which follow tables and rules of the interpreter's release, and \<open>mean2\<close>,
  the floating-point \<open>round(sum / len, 2)\<close> of confidences given by their \<open>repr\<close>.
\<close>

section \<open>Data\<close>

datatype risk_level = LOW | MEDIUM | HIGH | CRITICAL

fun risk_level_value :: "risk_level \<Rightarrow> string" where
  "risk_level_value LOW = ''low''"
| "risk_level_value MEDIUM = ''medium''"
| "risk_level_value HIGH = ''high''"
| "risk_level_value CRITICAL = ''critical''"

datatype signal_category =
  BASELINE | CAPABILITY | ACTION | ASSET | DATA | DESTINATION | ENVIRONMENT | COMMAND

fun signal_category_value :: "signal_category \<Rightarrow> string" where
  "signal_category_value BASELINE = ''baseline''"
| "signal_category_value CAPABILITY = ''capability''"
| "signal_category_value ACTION = ''action''"
| "signal_category_value ASSET = ''asset''"
| "signal_category_value DATA = ''data''"
| "signal_category_value DESTINATION = ''destination''"
| "signal_category_value ENVIRONMENT = ''environment''"
| "signal_category_value COMMAND = ''command''"

record ip_info =
  ip_compressed :: string
  is_unspecified :: bool
  is_loopback :: bool
  is_private :: bool
  is_link_local :: bool

record risk_lib =
  urlparse :: "string \<Rightarrow> (string \<times> string option) res"
  ip_address :: "string \<Rightarrow> ip_info option"
  mean2 :: "string list \<Rightarrow> string"

record risk_context =
  rc_tool_name :: string
  rc_action :: "string option"
  rc_target :: "string option"
  rc_input :: pyval
  rc_user_id :: string
  rc_agent_id :: string
  rc_environment :: string
  rc_metadata :: dict
  tool_name_normalized :: string
  target_text :: string
  input_text :: string

definition stringify_value :: "pyval \<Rightarrow> string" where
  "stringify_value value = (case value of PNone \<Rightarrow> [] | PStr s \<Rightarrow> s | _ \<Rightarrow> str_val value)"

definition from_request :: "tool_request \<Rightarrow> risk_context" where
  "from_request request =
     \<lparr>rc_tool_name = tool_name request, rc_action = tr_action request, rc_target = tr_target request,
      rc_input = tr_input request, rc_user_id = user_id request, rc_agent_id = agent_id request,
      rc_environment = environment request, rc_metadata = tr_metadata request,
      tool_name_normalized = lower (tool_name request),
      target_text = lower (or_else (tr_target request) []),
      input_text = stringify_value (tr_input request)\<rparr>"

record risk_signal =
  rs_code :: string
  rs_severity :: risk_level
  rs_score :: int
  rs_reason :: string
  rs_category :: signal_category
  rs_confidence :: string
  rs_evidence :: dict
  rs_reversible :: "bool option"

record risk_assessment =
  ra_risk_score :: int
  ra_risk_level :: risk_level
  ra_reasons :: "string list"
  ra_signals :: "risk_signal list"
  ra_confidence :: string
  ra_explanation :: string

record scoring_profile =
  medium_threshold :: int
  high_threshold :: int
  critical_threshold :: int

definition default_profile :: scoring_profile where
  "default_profile = \<lparr>medium_threshold = 30, high_threshold = 60, critical_threshold = 85\<rparr>"

definition level_from_score :: "scoring_profile \<Rightarrow> int \<Rightarrow> risk_level" where
  "level_from_score p score =
     (if score \<ge> critical_threshold p then CRITICAL
      else if score \<ge> high_threshold p then HIGH
      else if score \<ge> medium_threshold p then MEDIUM
      else LOW)"

section \<open>Text classification\<close>

function normalize_shell_command :: "string \<Rightarrow> string" where
  "normalize_shell_command command =
     (if command = [] then []
      else let collapsed = join '' '' (split_words (lower (strip command)));
               tokens = shlex_or_words collapsed
           in case tokens of
                sh # c # body # rest \<Rightarrow>
                  if (sh = ''sh'' \<or> sh = ''bash'') \<and> c = ''-c'' then normalize_shell_command body
                  else join '' '' tokens
              | _ \<Rightarrow> join '' '' tokens)"
  by pat_completeness auto
termination
proof (relation "measure length", goal_cases)
  case 1
  then show ?case by simp
next
  case (2 command collapsed tokens sh tl1 c tl2 body rest)
  have "length collapsed \<le> length command"
    using length_join_split_words [of "lower (strip command)"] length_strip [of command] "2"(2)
    by simp
  moreover have "sum_list (map length tokens) \<le> length collapsed"
    using sum_length_shlex_or_words [of collapsed] "2"(3) by simp
  ultimately show ?case
    using "2"(4-) by auto
qed

declare normalize_shell_command.simps [simp del]

definition is_recursive_force_remove :: "string \<Rightarrow> bool" where
  "is_recursive_force_remove normalized_command =
     (let tokens = shlex_or_words normalized_command;
          tokens = (case tokens of t # ts \<Rightarrow> if t = ''sudo'' then ts else tokens | [] \<Rightarrow> [])
      in case tokens of
           [] \<Rightarrow> False
         | t # ts \<Rightarrow> if t \<noteq> ''rm'' then False
             else let flags = concat (map (dropWhile (\<lambda>c. c = CHR ''-''))
                                (filter (\<lambda>token. starts_with token ''-'') ts))
                  in CHR ''r'' \<in> set flags \<and> CHR ''f'' \<in> set flags)"

definition classify_sensitive_path :: "string \<Rightarrow> string option" where
  "classify_sensitive_path target =
     (let t = lower (replace_char backslash (CHR ''/'') (strip target))
      in if t = [] then None
      else if starts_with t ''/etc/'' then Some ''system-config''
      else if starts_with t ''~/.ssh/'' \<or> contains t ''/.ssh/'' then Some ''ssh-credential''
      else if contains t ''../'' \<and>
              list_ex (contains t) [''secret'', ''.env'', ''credential'', ''token'', ''key'']
        then Some ''traversal-sensitive-target''
      else None)"

definition url_pattern :: regex where
  "url_pattern = Seqs [Lit ''http'', Opt (chr (CHR ''s'')), Lit ''://'',
     Plus (Chr (\<lambda>c. \<not> is_space c \<and> c \<noteq> squote \<and> c \<noteq> dquote \<and> c \<notin> set ''<>},''))]"

definition extract_urls :: "string \<Rightarrow> string list" where
  "extract_urls value = re_findall url_pattern value"

definition classify_risky_destination :: "risk_lib \<Rightarrow> string \<Rightarrow> string option res" where
  "classify_risky_destination lib url =
     rbind (urlparse lib url) (\<lambda>(scheme, host).
       let hostname = lower (or_else host [])
       in if scheme \<noteq> ''https'' then Inr (Some ''non-https'')
          else if hostname = ''localhost'' then Inr (Some ''local-network'')
          else case ip_address lib hostname of
              None \<Rightarrow> Inr None
            | Some ip \<Rightarrow>
                if ip_compressed ip = ''169.254.169.254'' then Inr (Some ''cloud-metadata'')
                else if is_unspecified ip then Inr (Some ''local-network'')
                else if is_loopback ip \<or> is_private ip \<or> is_link_local ip
                  then Inr (Some ''private-network'')
                else Inr None)"

definition normalized_identifier :: "string option \<Rightarrow> string" where
  "normalized_identifier value =
     replace_char (CHR ''-'') (CHR ''_'') (lower (strip (or_else value [])))"

definition destructive_prefixes :: "string list" where
  "destructive_prefixes = [''delete'', ''remove'', ''destroy'', ''wipe'', ''truncate'', ''drop'']"

definition is_destructive_action_variant :: "risk_context \<Rightarrow> bool" where
  "is_destructive_action_variant context =
     list_ex (\<lambda>identifier. list_ex (\<lambda>p. starts_with identifier p \<or>
         contains (''_'' @ identifier @ ''_'') (''_'' @ p @ ''_'')) destructive_prefixes)
       [normalized_identifier (Some (rc_tool_name context)), normalized_identifier (rc_action context)]"

definition business_keywords :: "string list" where
  "business_keywords = [''customer'', ''user'', ''payment'', ''invoice'']"

definition contains_sensitive_business_target :: "string \<Rightarrow> bool" where
  "contains_sensitive_business_target target = list_ex (contains (lower target)) business_keywords"

text \<open>\<open>InputSensitivityDetector.SECRET_PATTERNS\<close> and \<open>DANGEROUS_SHELL_PATTERNS\<close>.\<close>

definition word_assign :: "regex \<Rightarrow> regex" where
  "word_assign w = Seqs [WordB, w, WordB, Star space, one_of '':='', Star space, Plus non_space]"

definition input_secret_patterns :: "regex list" where
  "input_secret_patterns =
     [word_assign (Seqs [LitI ''api'', Opt (one_of ''_-''), LitI ''key'']),
      word_assign (LitI ''token''),
      word_assign (LitI ''secret''),
      word_assign (LitI ''password''),
      Seqs [WordB, LitI ''private'', Opt (one_of ''_-''), LitI ''key'', WordB],
      Seqs [WordB, LitI ''aws_access_key_id'', WordB],
      Seqs [WordB, LitI ''aws_secret_access_key'', WordB],
      Seqs [LitI ''sk-'', At_least 12 (Chr (\<lambda>c. ascii_alnum c \<or> c \<in> set ''_-''))]]"

definition dangerous_shell_patterns :: "regex list" where
  "dangerous_shell_patterns =
     [Seqs [Lit ''rm'', Plus space, Lit ''-rf''],
      Seqs [Lit ''sudo'', Plus space],
      Seqs [Lit ''chmod'', Plus space, Lit ''777''],
      Seqs [Lit ''curl'', Plus space],
      Seqs [Lit ''wget'', Plus space],
      Seqs [Lit ''nc'', Plus space],
      Seqs [Lit ''bash'', Plus space, Lit ''-c''],
      Seqs [Lit ''sh'', Plus space, Lit ''-c''],
      Seqs [Lit ''>'', Star space, Lit ''/etc/'']]"

definition contains_secret_like_input :: "string \<Rightarrow> bool" where
  "contains_secret_like_input value =
     (value \<noteq> [] \<and> list_ex (\<lambda>pattern. re_search pattern value) input_secret_patterns)"

definition external_tools :: "string list" where
  "external_tools = [''external_api_send'', ''http_request'', ''webhook_send'', ''api_call'']"

definition is_external_data_movement :: "risk_context \<Rightarrow> bool" where
  "is_external_data_movement context =
     (tool_name_normalized context \<in> set external_tools \<or>
      normalized_identifier (rc_action context)
        \<in> set [''send_data'', ''post'', ''put'', ''upload'', ''exfiltrate''] \<or>
      extract_urls (input_text context) \<noteq> [])"

fun first_trace :: "dict \<Rightarrow> string list \<Rightarrow> string option" where
  "first_trace metadata [] = None"
| "first_trace metadata (key # keys) =
     (case map_of metadata key of
        Some (PStr value) \<Rightarrow> if strip value \<noteq> [] then Some (strip value) else first_trace metadata keys
      | _ \<Rightarrow> first_trace metadata keys)"

definition trace_identity :: "risk_context \<Rightarrow> string option" where
  "trace_identity context =
     first_trace (rc_metadata context) [''trace_id'', ''request_id'', ''session_id'', ''run_id'']"

end
