(* ===== verification/Risk_Engine.thy ===== *)
theory Risk_Engine
  imports Risk_Text
begin

text \<open>
  The signal detectors of \<open>src/rygnal/risk_engine.py\<close>, the registry that runs them in order, and the
  engine that scores a request and keeps a bounded risk history per trace. A detector is a function
  from the context to its signals, or to the exception that a URL parse raises. The locale
  \<open>risk_detector\<close> is the contract the engine relies on (every signal scores between 0 and 100); each
  detector of the default registry is an interpretation of it.
\<close>

section \<open>Detectors\<close>

type_synonym detector = "risk_lib \<Rightarrow> risk_context \<Rightarrow> risk_signal list res"

definition mk_signal ::
  "string \<Rightarrow> signal_category \<Rightarrow> risk_level \<Rightarrow> int \<Rightarrow> string \<Rightarrow> string \<Rightarrow> dict \<Rightarrow> bool option \<Rightarrow> risk_signal"
where
  "mk_signal code category severity score confidence reason evidence reversible =
     \<lparr>rs_code = code, rs_severity = severity, rs_score = score, rs_reason = reason,
      rs_category = category, rs_confidence = confidence, rs_evidence = evidence,
      rs_reversible = reversible\<rparr>"

text \<open>\<open>if condition: signals.append(signal)\<close>.\<close>

definition signal_when :: "bool \<Rightarrow> risk_signal \<Rightarrow> risk_signal list" where
  "signal_when condition signal = (if condition then [signal] else [])"

definition tool_capability_detect :: detector where
  "tool_capability_detect lib context = Inr (
      signal_when (tool_name_normalized context \<in> set [''file_delete'', ''delete_file''])
        (mk_signal ''file-delete'' CAPABILITY HIGH 75 ''1.0''
          ''Agent requested file deletion.''
          [(''tool_name'', PStr (rc_tool_name context))] (Some False)) @
      signal_when (tool_name_normalized context \<in> set [''shell_command'', ''terminal'', ''exec'', ''run_command''])
        (mk_signal ''shell-execution'' CAPABILITY HIGH 70 ''1.0''
          ''Agent requested shell or terminal execution.''
          [(''tool_name'', PStr (rc_tool_name context))] None) @
      signal_when (tool_name_normalized context \<in> set external_tools)
        (mk_signal ''external-data-send'' DESTINATION HIGH 65 ''1.0''
          ''Agent requested sending data to an external destination.''
          [(''tool_name'', PStr (rc_tool_name context))] (Some False)) @
      signal_when (tool_name_normalized context \<in> set [''database_write'', ''database_delete'',
           ''db_write'', ''db_delete'', ''sql_execute''])
        (mk_signal ''database-mutation'' CAPABILITY HIGH 80 ''1.0''
          ''Agent requested database modification.''
          [(''tool_name'', PStr (rc_tool_name context))] (Some False)) @
      signal_when (tool_name_normalized context \<in> set [''database_read'', ''db_read'', ''sql_query''])
        (mk_signal ''database-read'' CAPABILITY MEDIUM 45 ''1.0''
          ''Agent requested database read access.''
          [(''tool_name'', PStr (rc_tool_name context))] (Some True)))"

definition SENSITIVE_TARGET_PATTERNS :: "string list" where
  "SENSITIVE_TARGET_PATTERNS =
     [''.env'', ''.env.backup'', ''secrets.yaml'', ''secrets.yml'', ''credentials.json'',
      ''credential.json'', ''.npmrc'', ''.pypirc'', ''id_rsa'', ''id_dsa'',
      ''private.key'', ''private.pem'', ''service-account.json'', ''service_account.json'', ''database.yml'',
      ''database.yaml'', ''db.yml'', ''db.yaml'']"

definition target_sensitivity_detect :: detector where
  "target_sensitivity_detect lib context = Inr (if target_text context = [] then [] else
      signal_when (contains (target_text context) ''.env'' \<or> ends_with (target_text context) ''env'')
        (mk_signal ''env-file-access'' ASSET CRITICAL 95 ''1.0''
          ''Agent targeted an environment secret file.''
          [(''target'', opt_val (rc_target context))] (Some True)) @
      signal_when (list_ex (contains (target_text context)) SENSITIVE_TARGET_PATTERNS)
        (mk_signal ''sensitive-config-target'' ASSET CRITICAL 90 ''1.0''
          ''Agent targeted a sensitive configuration, credential, or key file.''
          [(''target'', opt_val (rc_target context))] (Some True)) @
      signal_when (list_ex (contains (target_text context)) [''secret'', ''credential'', ''private_key'', ''token''])
        (mk_signal ''sensitive-target'' ASSET HIGH 70 ''1.0''
          ''Agent targeted a path or object that appears sensitive.''
          [(''target'', opt_val (rc_target context))] (Some True)) @
      signal_when (list_ex (contains (target_text context)) business_keywords)
        (mk_signal ''sensitive-business-data'' DATA MEDIUM 45 ''1.0''
          ''Agent targeted possible sensitive business or customer data.''
          [(''target'', opt_val (rc_target context))] (Some True)))"

definition normalized_command_detect :: detector where
  "normalized_command_detect lib context =
     (let normalized_command = normalize_shell_command (input_text context)
      in Inr (if normalized_command = [] \<or> \<not> is_recursive_force_remove normalized_command then []
         else [mk_signal ''dangerous-shell-pattern'' COMMAND CRITICAL 90 ''0.95''
           ''Agent command contains recursive forced deletion after normalization.''
           [(''normalized_command'', PStr normalized_command), (''pattern'', PStr ''rm-recursive-force'')]
           (Some False)]))"

definition sensitive_path_detect :: detector where
  "sensitive_path_detect lib context =
     Inr (case classify_sensitive_path (target_text context) of
        None \<Rightarrow> []
      | Some classification \<Rightarrow>
          [mk_signal ''sensitive-path-target'' ASSET CRITICAL 90 ''0.95''
             (''Agent targeted sensitive path class: '' @ classification @ ''.'')
             [(''target'', PStr (target_text context)), (''classification'', PStr classification)]
             (Some False)])"

definition destination_signal :: "string \<Rightarrow> string \<Rightarrow> risk_signal" where
  "destination_signal url classification =
     mk_signal ''risky-destination'' DESTINATION HIGH 40 ''0.9''
       (''Agent targeted risky network destination: '' @ classification @ ''.'')
       [(''url'', PStr url), (''classification'', PStr classification)] (Some False)"

definition risky_destination_detect :: detector where
  "risky_destination_detect lib context =
     rbind (rmap (\<lambda>url. rbind (classify_risky_destination lib url)
         (\<lambda>c. Inr (case c of None \<Rightarrow> [] | Some classification \<Rightarrow> [destination_signal url classification])))
       (extract_urls (input_text context)))
       (\<lambda>found. Inr (concat found))"

definition credential_exfiltration_detect :: detector where
  "credential_exfiltration_detect lib context =
     Inr (if \<not> is_external_data_movement context then []
      else if \<not> contains_secret_like_input (input_text context) then []
      else [mk_signal ''credential-exfiltration-attempt'' DESTINATION CRITICAL 35 ''0.95''
         ''Agent appears to send secret-like input to an external destination.''
         [(''sensitive_input_present'', PBool True), (''external_destination'', PBool True),
          (''url_count'', PInt (int (length (extract_urls (input_text context))))),
          (''tool_name'', PStr (rc_tool_name context))]
         (Some False)])"

definition destructive_action_detect :: detector where
  "destructive_action_detect lib context =
     Inr (if \<not> is_destructive_action_variant context then []
      else [mk_signal ''destructive-action'' CAPABILITY HIGH 60 ''0.9''
         ''Agent requested a destructive action variant.''
         [(''tool_name'', PStr (rc_tool_name context)), (''action'', PStr (or_else (rc_action context) []))]
         (Some False)])"

definition compound_risk_detect :: detector where
  "compound_risk_detect lib context =
     Inr (if lower (rc_environment context) = ''production'' \<and> is_destructive_action_variant context \<and>
            contains_sensitive_business_target (target_text context)
      then [mk_signal ''compound-risk-escalation'' ENVIRONMENT CRITICAL 40 ''0.95''
         ''Production destructive action targets sensitive business data.''
         [(''environment'', PStr (rc_environment context)),
          (''action'', PStr (or_else (rc_action context) [])), (''target'', PStr (target_text context))]
         (Some False)]
      else [])"

definition input_sensitivity_detect :: detector where
  "input_sensitivity_detect lib context =
     (let raw_input = input_text context
      in Inr (if raw_input = [] then [] else
        signal_when (list_ex (\<lambda>pattern. re_search pattern raw_input) input_secret_patterns)
        (mk_signal ''secret-in-input'' DATA CRITICAL 95 ''1.0''
          ''Agent input appears to contain a secret or credential.''
          [(''input_detected'', PBool True)] (Some False)) @
        signal_when (list_ex (\<lambda>pattern. re_search pattern raw_input) dangerous_shell_patterns)
        (mk_signal ''dangerous-shell-pattern'' COMMAND CRITICAL 90 ''1.0''
          ''Agent input contains a dangerous shell command pattern.''
          [(''input_detected'', PBool True)] (Some False))))"

definition environment_detect :: detector where
  "environment_detect lib context =
     (let env = lower (strip (rc_environment context));
          evidence = [(''environment'', PStr (rc_environment context))]
      in Inr (
        signal_when (env \<in> set [''production'', ''prod''])
        (mk_signal ''production-environment'' ENVIRONMENT MEDIUM 25 ''1.0''
          ''Agent action is running in a production environment.'' evidence None) @
        signal_when (env \<in> set [''ci'', ''shared'', ''staging'', ''prod'', ''production''])
        (mk_signal ''non-local-environment'' ENVIRONMENT MEDIUM 30 ''0.9''
          ''Agent action is running outside a purely local environment.'' evidence None)))"

section \<open>Registry and engine\<close>

definition default_registry :: "detector list" where
  "default_registry =
     [tool_capability_detect, target_sensitivity_detect, normalized_command_detect,
      sensitive_path_detect, risky_destination_detect, credential_exfiltration_detect,
      destructive_action_detect, compound_risk_detect, input_sensitivity_detect,
      environment_detect]"

definition registry_detect :: "detector list \<Rightarrow> detector" where
  "registry_detect detectors lib context =
     rbind (rmap (\<lambda>detect. detect lib context) detectors) (\<lambda>found. Inr (concat found))"

record risk_engine =
  registry :: "detector list"
  profile :: scoring_profile
  trace_history_limit :: int
  trace_history :: "(string \<times> int list) list"

definition new_risk_engine :: risk_engine where
  "new_risk_engine = \<lparr>registry = default_registry, profile = default_profile,
     trace_history_limit = 20, trace_history = []\<rparr>"

definition score_signals :: "risk_signal list \<Rightarrow> int" where
  "score_signals signals = min (sum_list (map rs_score signals)) 100"

definition history_of :: "risk_engine \<Rightarrow> string \<Rightarrow> int list" where
  "history_of eng t = (case map_of (trace_history eng) t of None \<Rightarrow> [] | Some h \<Rightarrow> h)"

definition cumulative_trace_signal :: "risk_engine \<Rightarrow> risk_context \<Rightarrow> int \<Rightarrow> risk_signal option" where
  "cumulative_trace_signal eng context current_score =
     (case trace_identity context of
        None \<Rightarrow> None
      | Some t \<Rightarrow>
          if current_score < medium_threshold (profile eng) then None
          else let history = history_of eng t;
                   previous_risky_events =
                     length (filter (\<lambda>score. score \<ge> medium_threshold (profile eng)) history);
                   evidence = [(''trace_id_present'', PBool True),
                     (''previous_risky_events'', PInt (int previous_risky_events)),
                     (''history_size'', PInt (int (length history)))]
               in if previous_risky_events \<ge> 2 then
                    Some (mk_signal ''cumulative-trace-risk'' BASELINE CRITICAL 45 ''0.9''
                      ''Multiple risky actions occurred in the same trace.'' evidence None)
                  else if previous_risky_events \<ge> 1 then
                    Some (mk_signal ''cumulative-trace-risk'' BASELINE HIGH 20 ''0.85''
                      ''Repeated risky actions are accumulating in the same trace.'' evidence None)
                  else None)"

text \<open>\<open>history.append(score)\<close>, then \<open>del history[: len(history) - limit]\<close>.\<close>

definition record_trace_risk :: "risk_engine \<Rightarrow> risk_context \<Rightarrow> int \<Rightarrow> risk_engine" where
  "record_trace_risk eng context risk_score =
     (case trace_identity context of
        None \<Rightarrow> eng
      | Some t \<Rightarrow>
          let history = history_of eng t @ [risk_score];
              limit = trace_history_limit eng
          in eng\<lparr>trace_history := AList.update t
               (if int (length history) > limit
                then drop (nat (int (length history) - limit)) history else history)
               (trace_history eng)\<rparr>)"

definition risk_confidence :: "risk_lib \<Rightarrow> risk_signal list \<Rightarrow> string" where
  "risk_confidence lib signals =
     (if signals = [] then ''0.0'' else mean2 lib (map rs_confidence signals))"

definition risk_explanation :: "int \<Rightarrow> risk_level \<Rightarrow> risk_signal list \<Rightarrow> string" where
  "risk_explanation risk_score risk_level signals =
     ''Risk score '' @ show_int risk_score @ '' mapped to '' @ risk_level_value risk_level @
     '' based on: '' @ join '', '' (map rs_code signals) @ ''.''"

definition baseline_signal :: "tool_request \<Rightarrow> risk_signal" where
  "baseline_signal request =
     mk_signal ''baseline-low-risk'' BASELINE LOW 10 ''0.8''
       ''No risky tool, target, or input pattern detected.''
       [(''tool_name'', PStr (tool_name request))] (Some True)"

definition assess :: "risk_lib \<Rightarrow> risk_engine \<Rightarrow> tool_request \<Rightarrow> risk_assessment res \<times> risk_engine" where
  "assess lib eng request =
     (let context = from_request request
      in case registry_detect (registry eng) lib context of
           Inl exc \<Rightarrow> (Inl exc, eng)
         | Inr found \<Rightarrow>
             let signals = (if found = [] then [baseline_signal request] else found);
                 preliminary_score = score_signals signals;
                 signals = (case cumulative_trace_signal eng context preliminary_score of
                     None \<Rightarrow> signals | Some s \<Rightarrow> signals @ [s]);
                 risk_score = score_signals signals;
                 eng' = record_trace_risk eng context risk_score;
                 risk_level = level_from_score (profile eng) risk_score
             in (Inr \<lparr>ra_risk_score = risk_score, ra_risk_level = risk_level,
                   ra_reasons = map rs_reason signals, ra_signals = signals,
                   ra_confidence = risk_confidence lib signals,
                   ra_explanation = risk_explanation risk_score risk_level signals\<rparr>, eng'))"

definition risk_signal_dump :: "risk_signal \<Rightarrow> dict" where
  "risk_signal_dump s =
     [(''code'', PStr (rs_code s)), (''severity'', PStr (risk_level_value (rs_severity s))),
      (''score'', PInt (rs_score s)), (''reason'', PStr (rs_reason s)),
      (''category'', PStr (signal_category_value (rs_category s))),
      (''confidence'', PFloat (rs_confidence s)), (''evidence'', dict_val (rs_evidence s)),
      (''reversible'', case rs_reversible s of None \<Rightarrow> PNone | Some b \<Rightarrow> PBool b)]"

definition risk_assessment_dump :: "risk_assessment \<Rightarrow> dict" where
  "risk_assessment_dump a =
     [(''risk_score'', PInt (ra_risk_score a)),
      (''risk_level'', PStr (risk_level_value (ra_risk_level a))),
      (''reasons'', str_list_val (ra_reasons a)),
      (''signals'', PList (map (\<lambda>s. dict_val (risk_signal_dump s)) (ra_signals a))),
      (''confidence'', PFloat (ra_confidence a)),
      (''explanation'', PStr (ra_explanation a))]"

section \<open>The detector contract\<close>

locale risk_detector =
  fixes detect :: detector
  assumes score_bounds:
    "detect lib context = Inr signals \<Longrightarrow> s \<in> set signals \<Longrightarrow> 0 \<le> rs_score s \<and> rs_score s \<le> 100"

lemma set_signal_when [simp]: "s \<in> set (signal_when b t) \<longleftrightarrow> b \<and> s = t"
  by (auto simp: signal_when_def)

lemma mk_signal_sel [simp]:
  "rs_score (mk_signal c cat sev n conf r ev rv) = n"
  "rs_code (mk_signal c cat sev n conf r ev rv) = c"
  "rs_severity (mk_signal c cat sev n conf r ev rv) = sev"
  by (simp_all add: mk_signal_def)

interpretation tool_capability: risk_detector tool_capability_detect
  by unfold_locales (auto simp del: list.set simp: tool_capability_detect_def)

interpretation target_sensitivity: risk_detector target_sensitivity_detect
  by unfold_locales (auto simp: target_sensitivity_detect_def split: if_splits)

interpretation normalized_command: risk_detector normalized_command_detect
  by unfold_locales (auto simp: normalized_command_detect_def Let_def split: if_splits)

interpretation sensitive_path: risk_detector sensitive_path_detect
  by unfold_locales (auto simp: sensitive_path_detect_def split: option.splits)

lemma risky_destination_signals:
  assumes "risky_destination_detect lib context = Inr signals" and "s \<in> set signals"
  shows "\<exists>url c. s = destination_signal url c"
proof -
  from assms(1) obtain found where eq: "signals = concat found" and
    r: "rmap (\<lambda>url. rbind (classify_risky_destination lib url)
         (\<lambda>c. Inr (case c of None \<Rightarrow> [] | Some classification \<Rightarrow> [destination_signal url classification])))
       (extract_urls (input_text context)) = Inr found"
    by (auto simp: risky_destination_detect_def res_simps)
  have "\<forall>ys \<in> set found. \<forall>y \<in> set ys. \<exists>url c. y = destination_signal url c"
    by (rule rmap_set [OF r]) (force simp: res_simps split: option.splits)
  with assms(2) eq show ?thesis by auto
qed

interpretation risky_destination: risk_detector risky_destination_detect
  by unfold_locales (auto dest!: risky_destination_signals simp: destination_signal_def)

interpretation credential_exfiltration: risk_detector credential_exfiltration_detect
  by unfold_locales (auto simp: credential_exfiltration_detect_def split: if_splits)

interpretation destructive_action: risk_detector destructive_action_detect
  by unfold_locales (auto simp: destructive_action_detect_def split: if_splits)

interpretation compound_risk: risk_detector compound_risk_detect
  by unfold_locales (auto simp: compound_risk_detect_def split: if_splits)

interpretation input_sensitivity: risk_detector input_sensitivity_detect
  by unfold_locales (auto simp: input_sensitivity_detect_def Let_def split: if_splits)

interpretation environment_signals: risk_detector environment_detect
  by unfold_locales (auto simp: environment_detect_def Let_def split: if_splits)

lemmas default_detectors_bounded =
  tool_capability.risk_detector_axioms target_sensitivity.risk_detector_axioms
  normalized_command.risk_detector_axioms sensitive_path.risk_detector_axioms
  risky_destination.risk_detector_axioms credential_exfiltration.risk_detector_axioms
  destructive_action.risk_detector_axioms compound_risk.risk_detector_axioms
  input_sensitivity.risk_detector_axioms environment_signals.risk_detector_axioms

text \<open>Facts about scores that hold for any list of signals that are not negative.\<close>

lemma sum_scores_ge:
  "\<forall>s \<in> set signals. 0 \<le> rs_score s \<Longrightarrow> s \<in> set signals \<Longrightarrow> rs_score s \<le> sum_list (map rs_score signals)"
  by (rule member_le_sum_list) auto

lemma score_signals_range:
  "\<forall>s \<in> set signals. 0 \<le> rs_score s \<Longrightarrow> 0 \<le> score_signals signals \<and> score_signals signals \<le> 100"
  by (auto simp: score_signals_def intro!: sum_list_nonneg)

lemma score_signals_ge:
  "\<forall>s \<in> set signals. 0 \<le> rs_score s \<Longrightarrow> s \<in> set signals \<Longrightarrow> min (rs_score s) 100 \<le> score_signals signals"
  using sum_scores_ge [of signals s] by (auto simp: score_signals_def)

lemma registry_detect_mem:
  assumes "registry_detect detectors lib context = Inr signals" and "d \<in> set detectors"
    and "d lib context = Inr own" and "s \<in> set own"
  shows "s \<in> set signals"
proof -
  from assms(1) obtain found where eq: "signals = concat found"
    and r: "rmap (\<lambda>d. d lib context) detectors = Inr found"
    by (auto simp: registry_detect_def res_simps)
  from rmap_mem [OF r assms(2)] assms(3) have "own \<in> set found" by auto
  with assms(4) eq show ?thesis by auto
qed

locale risk_registry =
  fixes detectors :: "detector list"
  assumes bounded: "d \<in> set detectors \<Longrightarrow> risk_detector d"
begin

lemma registry_score_bounds:
  assumes "registry_detect detectors lib context = Inr signals" and "s \<in> set signals"
  shows "0 \<le> rs_score s \<and> rs_score s \<le> 100"
proof -
  from assms(1) obtain found where "signals = concat found"
    and r: "rmap (\<lambda>detect. detect lib context) detectors = Inr found"
    by (auto simp: registry_detect_def res_simps)
  moreover have "\<forall>ys \<in> set found. \<forall>y \<in> set ys. 0 \<le> rs_score y \<and> rs_score y \<le> 100"
    by (rule rmap_set [OF r]) (blast dest: bounded risk_detector.score_bounds)
  ultimately show ?thesis using assms(2) by auto
qed

end

sublocale risk_registry \<subseteq> whole: risk_detector "registry_detect detectors"
  by unfold_locales (rule registry_score_bounds)

interpretation standard: risk_registry default_registry
  by (rule risk_registry.intro) (auto simp: default_registry_def default_detectors_bounded)

section \<open>Scores and levels\<close>

lemma cumulative_signal_score:
  "cumulative_trace_signal eng context n = Some s \<Longrightarrow> rs_score s = 45 \<or> rs_score s = 20"
  by (auto simp: cumulative_trace_signal_def Let_def split: option.splits if_splits)

text \<open>What an assessment that did not raise consists of.\<close>

lemma assess_cases:
  assumes "assess lib eng request = (Inr a, eng')"
  obtains found base where
    "registry_detect (registry eng) lib (from_request request) = Inr found"
    "base = (if found = [] then [baseline_signal request] else found)"
    "ra_signals a = (case cumulative_trace_signal eng (from_request request) (score_signals base) of
        None \<Rightarrow> base | Some s \<Rightarrow> base @ [s])"
    "ra_risk_score a = score_signals (ra_signals a)"
    "ra_risk_level a = level_from_score (profile eng) (ra_risk_score a)"
    "ra_reasons a = map rs_reason (ra_signals a)"
    "eng' = record_trace_risk eng (from_request request) (ra_risk_score a)"
  using assms by (auto simp: assess_def Let_def split: sum.splits)

context risk_registry
begin

lemma assess_signals_nonneg:
  assumes "assess lib eng request = (Inr a, eng')" and "registry eng = detectors"
  shows "\<forall>s \<in> set (ra_signals a). 0 \<le> rs_score s"
proof (rule assess_cases [OF assms(1)])
  fix found base
  assume f: "registry_detect (registry eng) lib (from_request request) = Inr found"
    and b: "base = (if found = [] then [baseline_signal request] else found)"
    and s: "ra_signals a = (case cumulative_trace_signal eng (from_request request) (score_signals base) of
        None \<Rightarrow> base | Some s \<Rightarrow> base @ [s])"
  have "\<forall>s \<in> set base. 0 \<le> rs_score s"
    using b registry_score_bounds [of lib "from_request request" found] f assms(2)
    by (auto simp: baseline_signal_def)
  then show ?thesis
    using s by (auto dest: cumulative_signal_score split: option.splits)
qed

lemma assess_bounds:
  assumes "assess lib eng request = (Inr a, eng')" and "registry eng = detectors"
  shows "0 \<le> ra_risk_score a \<and> ra_risk_score a \<le> 100"
  using assess_signals_nonneg [OF assms] score_signals_range [of "ra_signals a"]
  by (metis assms(1) assess_cases)

text \<open>A signal that one detector reports is a lower bound on the final score.\<close>

lemma assess_score_ge:
  assumes "assess lib eng request = (Inr a, eng')" and "registry eng = detectors"
    and "d \<in> set detectors" and "d lib (from_request request) = Inr own" and "s \<in> set own"
  shows "min (rs_score s) 100 \<le> ra_risk_score a"
proof -
  have nn: "\<forall>s \<in> set (ra_signals a). 0 \<le> rs_score s"
    by (rule assess_signals_nonneg [OF assms(1,2)])
  have "s \<in> set (ra_signals a) \<and> ra_risk_score a = score_signals (ra_signals a)"
  proof (rule assess_cases [OF assms(1)])
    fix found base
    assume f: "registry_detect (registry eng) lib (from_request request) = Inr found"
      and b: "base = (if found = [] then [baseline_signal request] else found)"
      and s: "ra_signals a = (case cumulative_trace_signal eng (from_request request) (score_signals base) of
          None \<Rightarrow> base | Some s \<Rightarrow> base @ [s])"
      and e: "ra_risk_score a = score_signals (ra_signals a)"
    from f assms have "s \<in> set found" by (auto intro: registry_detect_mem)
    then show ?thesis using b s e by (auto split: option.splits)
  qed
  with score_signals_ge [OF nn, of s] show ?thesis by simp
qed

lemma assess_critical:
  assumes "assess lib eng request = (Inr a, eng')" and "registry eng = detectors"
    and "d \<in> set detectors" and "d lib (from_request request) = Inr own" and "s \<in> set own"
    and "profile eng = default_profile" and "85 \<le> rs_score s"
  shows "ra_risk_level a = CRITICAL"
proof -
  from assess_score_ge [OF assms(1-5)] assms(7) have "85 \<le> ra_risk_score a" by simp
  then show ?thesis
    using assms(1,6) by (auto elim!: assess_cases simp: level_from_score_def default_profile_def)
qed

end

lemma target_detector_registered: "target_sensitivity_detect \<in> set default_registry"
  by (simp add: default_registry_def)

lemma command_detector_registered: "normalized_command_detect \<in> set default_registry"
  by (simp add: default_registry_def)

lemma env_file_signal:
  assumes "contains (target_text context) ''.env''"
  shows "\<exists>own. target_sensitivity_detect lib context = Inr own \<and> (\<exists>s \<in> set own. rs_score s = 95)"
proof -
  from assms have "target_text context \<noteq> []" by (auto simp: contains_def)
  with assms show ?thesis
    unfolding target_sensitivity_detect_def by (simp add: signal_when_def)
qed

lemma forced_remove_signal:
  assumes "is_recursive_force_remove (normalize_shell_command (input_text context))"
  shows "\<exists>own. normalized_command_detect lib context = Inr own \<and> (\<exists>s \<in> set own. rs_score s = 90)"
proof -
  have "\<not> is_recursive_force_remove []"
    by (simp add: is_recursive_force_remove_def shlex_or_words_def shlex_split_def lex_emit_def)
  with assms have "normalize_shell_command (input_text context) \<noteq> []" by auto
  with assms show ?thesis
    unfolding normalized_command_detect_def Let_def by simp
qed

section \<open>The trace history\<close>

definition history_ok :: "risk_engine \<Rightarrow> bool" where
  "history_ok eng = (\<forall>t. int (length (history_of eng t)) \<le> max 0 (trace_history_limit eng) \<and>
     (\<forall>n \<in> set (history_of eng t). 0 \<le> n \<and> n \<le> 100))"

lemma history_of_record:
  "history_of (record_trace_risk eng context n) t =
     (if trace_identity context = Some t
      then let h = history_of eng t @ [n] in
        if int (length h) > trace_history_limit eng
        then drop (nat (int (length h) - trace_history_limit eng)) h else h
      else history_of eng t)"
  by (auto simp: record_trace_risk_def history_of_def Let_def update_conv' split: option.splits)

lemma record_frame [simp]:
  "registry (record_trace_risk eng context n) = registry eng"
  "profile (record_trace_risk eng context n) = profile eng"
  "trace_history_limit (record_trace_risk eng context n) = trace_history_limit eng"
  by (auto simp: record_trace_risk_def Let_def split: option.splits)

lemma history_ok_record:
  assumes "history_ok eng" and "0 \<le> n" and "n \<le> 100"
  shows "history_ok (record_trace_risk eng context n)"
proof -
  have "int (length (history_of (record_trace_risk eng context n) t)) \<le> max 0 (trace_history_limit eng)"
    for t using assms(1) unfolding history_ok_def history_of_record Let_def by auto
  moreover have "0 \<le> m \<and> m \<le> 100" if "m \<in> set (history_of (record_trace_risk eng context n) t)" for t m
    using that assms unfolding history_ok_def history_of_record Let_def
    by (auto split: if_splits dest!: in_set_dropD)
  ultimately show ?thesis by (auto simp: history_ok_def)
qed

text \<open>A run of the engine over a sequence of requests.\<close>

fun assess_all :: "risk_lib \<Rightarrow> risk_engine \<Rightarrow> tool_request list \<Rightarrow> risk_engine" where
  "assess_all lib eng [] = eng"
| "assess_all lib eng (r # rs) = assess_all lib (snd (assess lib eng r)) rs"

lemma assess_state:
  "snd (assess lib eng request) = eng \<or>
   (\<exists>a. assess lib eng request = (Inr a, record_trace_risk eng (from_request request) (ra_risk_score a)))"
  by (auto simp: assess_def Let_def split: sum.splits)

lemma assess_frame:
  "registry (snd (assess lib eng request)) = registry eng"
  "profile (snd (assess lib eng request)) = profile eng"
  "trace_history_limit (snd (assess lib eng request)) = trace_history_limit eng"
  using assess_state [of lib eng request] by auto

lemma assess_history_ok:
  assumes "history_ok eng" and "registry eng = default_registry"
  shows "history_ok (snd (assess lib eng request))"
  using assess_state [of lib eng request] standard.assess_bounds [of lib eng request] assms
    history_ok_record by fastforce

lemma assess_all_history_ok:
  "history_ok eng \<Longrightarrow> registry eng = default_registry \<Longrightarrow> history_ok (assess_all lib eng rs)"
  by (induction rs arbitrary: eng) (simp_all add: assess_history_ok assess_frame)

lemma new_engine_history_ok: "history_ok new_risk_engine"
  by (simp add: history_ok_def history_of_def new_risk_engine_def)

section \<open>Properties\<close>

text \<open>A library and a request for the witnesses.\<close>

definition sample_lib :: risk_lib where
  "sample_lib = \<lparr>urlparse = (\<lambda>u. Inr (''https'', Some ''example.com'')),
     ip_address = (\<lambda>h. None), mean2 = (\<lambda>cs. ''0.9'')\<rparr>"

definition sample_request :: tool_request where
  "sample_request = \<lparr>tool_name = ''shell_command'', tr_action = Some ''run'',
     tr_target = Some ''app/.env'', tr_input = PStr ''rm -r -f build'', user_id = ''dev'',
     agent_id = ''agent'', environment = ''local'', tr_metadata = [(''trace_id'', PStr ''t1'')]\<rparr>"

definition sample_engine :: risk_engine where
  "sample_engine = new_risk_engine\<lparr>trace_history := [(''t1'', [70, 10, 45])]\<rparr>"

abbreviation sample_assessment :: risk_assessment where
  "sample_assessment \<equiv> projr (fst (assess sample_lib sample_engine sample_request))"

lemma sample_assess:
  "assess sample_lib sample_engine sample_request =
     (Inr sample_assessment, snd (assess sample_lib sample_engine sample_request))"
proof -
  have "case assess sample_lib sample_engine sample_request of (Inr a, e) \<Rightarrow> True | _ \<Rightarrow> False"
    by code_simp
  then show ?thesis by (auto split: prod.splits sum.splits)
qed

lemma sample_engine_config:
  "registry sample_engine = default_registry" "profile sample_engine = default_profile"
  by (simp_all add: sample_engine_def new_risk_engine_def)

text \<open>
  (C8) Every assessment of an engine with the default detectors has a score between 0 and 100 that is
  the sum of its signals' scores cut off at 100, a level that is the profile's level of that score, at
  least one signal, and one reason per signal.
\<close>

theorem assess_score_bounds:
  assumes "assess lib eng request = (Inr a, eng')" and "registry eng = default_registry"
  shows "0 \<le> ra_risk_score a \<and> ra_risk_score a \<le> 100 \<and>
    ra_risk_score a = min (sum_list (map rs_score (ra_signals a))) 100 \<and>
    ra_risk_level a = level_from_score (profile eng) (ra_risk_score a) \<and>
    ra_signals a \<noteq> [] \<and> ra_reasons a = map rs_reason (ra_signals a)"
proof -
  have "0 \<le> ra_risk_score a \<and> ra_risk_score a \<le> 100"
    by (rule standard.assess_bounds [OF assms])
  moreover have "ra_risk_score a = min (sum_list (map rs_score (ra_signals a))) 100 \<and>
    ra_risk_level a = level_from_score (profile eng) (ra_risk_score a) \<and>
    ra_signals a \<noteq> [] \<and> ra_reasons a = map rs_reason (ra_signals a)"
    by (rule assess_cases [OF assms(1)]) (auto simp: score_signals_def split: option.splits if_splits)
  ultimately show ?thesis by blast
qed

theorem assess_score_bounds_witness:
  "0 \<le> ra_risk_score sample_assessment \<and> ra_risk_score sample_assessment \<le> 100"
  using assess_score_bounds [OF sample_assess sample_engine_config(1)] by blast

text \<open>
  A request whose target names an environment file (\<open>.env\<close> in any case, anywhere in the target) is
  assessed as critical, whatever the tool, the action and the input are.
\<close>

theorem env_target_is_critical:
  assumes "assess lib eng request = (Inr a, eng')" and "registry eng = default_registry"
    and "profile eng = default_profile" and "tr_target request = Some target"
    and "contains (lower target) ''.env''"
  shows "ra_risk_level a = CRITICAL"
proof -
  have t: "target_text (from_request request) = lower target"
    using assms(4) by (simp add: from_request_def or_else_def)
  obtain own s where "target_sensitivity_detect lib (from_request request) = Inr own"
      and "s \<in> set own" and "rs_score s = 95"
    using env_file_signal [of "from_request request" lib] assms(5) t by auto
  then show ?thesis
    by (intro standard.assess_critical [OF assms(1,2) target_detector_registered _ _ assms(3)]) auto
qed

text \<open>
  A shell command that, after unwrapping \<open>sh -c\<close> and \<open>bash -c\<close> and normalising case and white space,
  is an \<open>rm\<close> (under \<open>sudo\<close> or not) whose flags contain both \<open>r\<close> and \<open>f\<close> is assessed as critical.
\<close>

theorem recursive_force_remove_is_critical:
  assumes "assess lib eng request = (Inr a, eng')" and "registry eng = default_registry"
    and "profile eng = default_profile"
    and "is_recursive_force_remove (normalize_shell_command (stringify_value (tr_input request)))"
  shows "ra_risk_level a = CRITICAL"
proof -
  have "is_recursive_force_remove (normalize_shell_command (input_text (from_request request)))"
    using assms(4) by (simp add: from_request_def)
  then obtain own s where "normalized_command_detect lib (from_request request) = Inr own"
      and "s \<in> set own" and "rs_score s = 90"
    using forced_remove_signal [of "from_request request" lib] by auto
  then show ?thesis
    by (intro standard.assess_critical [OF assms(1,2) command_detector_registered _ _ assms(3)]) auto
qed

text \<open>
  However many requests a fresh engine assesses, it keeps at most 20 scores per trace, and every
  score it keeps is between 0 and 100.
\<close>

theorem trace_history_bounded:
  "length (history_of (assess_all lib new_risk_engine requests) t) \<le> 20 \<and>
   list_all (\<lambda>n. 0 \<le> n \<and> n \<le> 100) (history_of (assess_all lib new_risk_engine requests) t)"
proof -
  have lim: "trace_history_limit (assess_all lib eng rs) = trace_history_limit eng" for eng rs
    by (induction rs arbitrary: eng) (simp_all add: assess_frame)
  have "history_ok (assess_all lib new_risk_engine requests)"
    by (rule assess_all_history_ok [OF new_engine_history_ok]) (simp add: new_risk_engine_def)
  then have "int (length (history_of (assess_all lib new_risk_engine requests) t)) \<le> 20 \<and>
      (\<forall>n \<in> set (history_of (assess_all lib new_risk_engine requests) t). 0 \<le> n \<and> n \<le> 100)"
    unfolding history_ok_def lim by (simp add: new_risk_engine_def)
  then show ?thesis by (simp add: list_all_iff)
qed

text \<open>
  A trace with two earlier scores of at least medium risk is escalated: when the detectors' own
  score of the next request reaches 40, the request is critical.
\<close>

theorem repeated_risk_escalates:
  assumes "assess lib eng request = (Inr a, eng')" and "profile eng = default_profile"
    and "trace_identity (from_request request) = Some t"
    and "2 \<le> length (filter (\<lambda>n. 30 \<le> n) (history_of eng t))"
    and "registry_detect (registry eng) lib (from_request request) = Inr found"
    and "40 \<le> score_signals found"
  shows "ra_risk_level a = CRITICAL"
proof -
  from assms(6) have "found \<noteq> []" by (auto simp: score_signals_def)
  moreover from assms(2,3,4,6) obtain s where
    "cumulative_trace_signal eng (from_request request) (score_signals found) = Some s" "rs_score s = 45"
    by (auto simp: cumulative_trace_signal_def default_profile_def Let_def)
  ultimately have "ra_risk_score a = score_signals (found @ [s])"
    using assms(1,5) by (auto elim!: assess_cases)
  with \<open>rs_score s = 45\<close> assms(6) have "85 \<le> ra_risk_score a"
    by (auto simp: score_signals_def)
  then show ?thesis
    using assms(1,2) by (auto elim!: assess_cases simp: level_from_score_def default_profile_def)
qed

abbreviation sample_found :: "risk_signal list" where
  "sample_found \<equiv> projr (registry_detect default_registry sample_lib (from_request sample_request))"

text \<open>
  Traces do not influence each other: assessing a request leaves the history of every trace other
  than the request's own trace as it was.
\<close>

theorem assess_isolates_traces:
  assumes "trace_identity (from_request request) \<noteq> Some t"
  shows "history_of (snd (assess lib eng request)) t = history_of eng t"
  using assess_state [of lib eng request] assms by (auto simp: history_of_record)

end
