(* ===== verification/Policy_Engine.thy ===== *)
theory Policy_Engine
  imports Risk_Engine
begin

text \<open>
  \<open>src/rygnal/policy_engine.py\<close>: the validation of a policy, the first-match evaluation of its rules in
  priority order, and the bundled policies. A policy's regular expressions are run-time text, so the
  \<open>re\<close> module is an argument here (\<open>re_search_dyn\<close>, \<open>re_compile_error\<close>), as are the process environment,
  the YAML parser, the schema's constructor (\<open>PolicySchema(**data)\<close>), the file system, the bundled
  resources and the two module-level policy paths, which callers may override.
\<close>

datatype policy_file =
  Missing
| Not_regular
| Unreadable string
| Undecodable string
| Contents string

record policy_lib =
  re_search_dyn :: "string \<Rightarrow> string \<Rightarrow> bool"
  re_compile_error :: "string \<Rightarrow> string option"
  environ :: "string \<Rightarrow> string option"
  yaml_safe_load :: "string \<Rightarrow> string + pyval"
  make_schema :: "(pykey \<times> pyval) list \<Rightarrow> policy_schema res"
  policy_fs :: "string \<Rightarrow> policy_file"
  policy_resources :: "string \<Rightarrow> policy_file"
  DEFAULT_POLICY_PATH :: string
  PRODUCTION_SAFE_POLICY_PATH :: string

section \<open>Configured limits\<close>

text \<open>\<open>int(text)\<close>: white space around, an optional sign, digits with single underscores between.\<close>

definition is_digit :: "char \<Rightarrow> bool" where
  "is_digit c = (48 \<le> codept c \<and> codept c \<le> 57)"

fun parse_digits :: "bool \<Rightarrow> nat \<Rightarrow> string \<Rightarrow> nat option" where
  "parse_digits after_digit n [] = (if after_digit then Some n else None)"
| "parse_digits after_digit n (c # cs) =
     (if is_digit c then parse_digits True (10 * n + (codept c - 48)) cs
      else if c = CHR ''_'' \<and> after_digit then parse_digits False n cs
      else None)"

definition parse_int :: "string \<Rightarrow> int option" where
  "parse_int s = (case strip s of
       [] \<Rightarrow> None
     | c # cs \<Rightarrow>
         if c = CHR ''-'' then map_option (\<lambda>n. - int n) (parse_digits False 0 cs)
         else if c = CHR ''+'' then map_option int (parse_digits False 0 cs)
         else map_option int (parse_digits False 0 (c # cs)))"

definition configured_positive_int :: "policy_lib \<Rightarrow> string \<Rightarrow> int \<Rightarrow> int" where
  "configured_positive_int lib env_name dflt =
     (case environ lib env_name of
        None \<Rightarrow> dflt
      | Some raw_value \<Rightarrow>
          (case parse_int raw_value of
             None \<Rightarrow> dflt
           | Some value \<Rightarrow> if value \<le> 0 then dflt else value))"

definition policy_regex_max_pattern_bytes :: "policy_lib \<Rightarrow> int" where
  "policy_regex_max_pattern_bytes lib =
     configured_positive_int lib ''RYGNAL_POLICY_REGEX_MAX_PATTERN_BYTES'' 2048"

definition policy_regex_max_target_bytes :: "policy_lib \<Rightarrow> int" where
  "policy_regex_max_target_bytes lib =
     configured_positive_int lib ''RYGNAL_POLICY_REGEX_MAX_TARGET_BYTES'' 8192"

lemma configured_positive_int_pos: "0 < dflt \<Longrightarrow> 0 < configured_positive_int lib name dflt"
  by (auto simp: configured_positive_int_def split: option.splits)

section \<open>Matching\<close>

record guard_error =
  ge_rule_id :: string
  ge_field_name :: string
  ge_value_bytes :: int
  ge_limit :: int

definition guard_reason_code :: string where
  "guard_reason_code = ''policy_regex_target_too_large''"

definition guard_message :: "guard_error \<Rightarrow> string" where
  "guard_message g = guard_reason_code @ '': policy rule '' @ repr_str (ge_rule_id g) @ '' field '' @
     repr_str (ge_field_name g) @ '' target is '' @ show_int (ge_value_bytes g) @
     '' bytes, exceeding limit '' @ show_int (ge_limit g)"

definition safe_policy_regex_search ::
  "policy_lib \<Rightarrow> policy_rule \<Rightarrow> string \<Rightarrow> string \<Rightarrow> string \<Rightarrow> guard_error + bool" where
  "safe_policy_regex_search lib rule field_name pattern value =
     (let value_bytes = int (utf8_len value); value_limit = policy_regex_max_target_bytes lib
      in if value_bytes > value_limit
         then Inl \<lparr>ge_rule_id = pr_id rule, ge_field_name = field_name,
                ge_value_bytes = value_bytes, ge_limit = value_limit\<rparr>
         else Inr (re_search_dyn lib pattern value))"

definition policy_stringify :: "pyval \<Rightarrow> string" where
  "policy_stringify value = (case value of PNone \<Rightarrow> [] | PStr s \<Rightarrow> s | _ \<Rightarrow> str_val value)"

definition dict_get :: "dict \<Rightarrow> string \<Rightarrow> pyval" where
  "dict_get d k = (case map_of d k of None \<Rightarrow> PNone | Some v \<Rightarrow> v)"

definition metadata_equals_match :: "dict \<Rightarrow> dict \<Rightarrow> bool" where
  "metadata_equals_match request_metadata expected_metadata =
     list_all (\<lambda>(key, expected_value). py_eq (dict_get request_metadata key) expected_value)
       expected_metadata"

definition metadata_contains_match :: "dict \<Rightarrow> (string \<times> string) list \<Rightarrow> bool" where
  "metadata_contains_match request_metadata expected_metadata =
     list_all (\<lambda>(key, expected_value).
         contains (policy_stringify (dict_get request_metadata key)) expected_value)
       expected_metadata"

definition risk_context_of :: "risk_assessment option \<Rightarrow> dict" where
  "risk_context_of ra = (case ra of None \<Rightarrow> [] | Some a \<Rightarrow> risk_assessment_dump a)"

definition risk_score_below :: "dict \<Rightarrow> rat \<Rightarrow> bool" where
  "risk_score_below risk_context m =
     (case map_of risk_context ''risk_score'' of Some (PInt n) \<Rightarrow> of_int n < m | _ \<Rightarrow> True)"

text \<open>The conditions before and after the two regular expressions of a rule, in the code's order.\<close>

definition head_conditions :: "policy_rule \<Rightarrow> tool_request \<Rightarrow> bool" where
  "head_conditions rule request =
     (let target = or_else (tr_target request) [] in
      \<not> (truthy_opt (pr_tool_name rule) \<and> pr_tool_name rule \<noteq> Some (tool_name request)) \<and>
      \<not> (truthy_opt (pr_action rule) \<and> pr_action rule \<noteq> tr_action request) \<and>
      \<not> (truthy_opt (pr_environment rule) \<and> pr_environment rule \<noteq> Some (environment request)) \<and>
      \<not> (truthy_opt (target_equals rule) \<and> target_equals rule \<noteq> Some target) \<and>
      \<not> (truthy_opt (target_contains rule) \<and> \<not> contains target (the (target_contains rule))))"

definition tail_conditions :: "policy_rule \<Rightarrow> tool_request \<Rightarrow> dict \<Rightarrow> bool" where
  "tail_conditions rule request risk_context =
     (\<not> (input_equals rule \<noteq> PNone \<and> \<not> py_eq (input_equals rule) (tr_input request)) \<and>
      \<not> (truthy_opt (input_contains rule) \<and>
           \<not> contains (policy_stringify (tr_input request)) (the (input_contains rule))) \<and>
      \<not> (metadata_equals rule \<noteq> [] \<and>
           \<not> metadata_equals_match (tr_metadata request) (metadata_equals rule)) \<and>
      \<not> (metadata_contains rule \<noteq> [] \<and>
           \<not> metadata_contains_match (tr_metadata request) (metadata_contains rule)) \<and>
      \<not> (truthy_opt (pr_risk_level rule) \<and>
           map_of risk_context ''risk_level'' \<noteq> Some (PStr (the (pr_risk_level rule)))) \<and>
      (case risk_score_min rule of None \<Rightarrow> True | Some m \<Rightarrow> \<not> risk_score_below risk_context m))"

definition regex_condition ::
  "policy_lib \<Rightarrow> policy_rule \<Rightarrow> string \<Rightarrow> string option \<Rightarrow> string \<Rightarrow> guard_error + bool option" where
  "regex_condition lib rule field_name pattern target =
     (case pattern of
        None \<Rightarrow> Inr None
      | Some p \<Rightarrow> if p = [] then Inr None
          else (case safe_policy_regex_search lib rule field_name p target of
                  Inl g \<Rightarrow> Inl g | Inr b \<Rightarrow> Inr (Some b)))"

definition rule_matches ::
  "policy_lib \<Rightarrow> policy_rule \<Rightarrow> tool_request \<Rightarrow> dict \<Rightarrow> guard_error + bool" where
  "rule_matches lib rule request risk_context =
     (let target = or_else (tr_target request) [] in
      if \<not> head_conditions rule request then Inr False
      else case regex_condition lib rule ''target_matches'' (target_matches rule) target of
          Inl g \<Rightarrow> Inl g
        | Inr (Some False) \<Rightarrow> Inr False
        | Inr _ \<Rightarrow>
            (case regex_condition lib rule ''target_not_matches'' (target_not_matches rule) target of
               Inl g \<Rightarrow> Inl g
             | Inr (Some True) \<Rightarrow> Inr False
             | Inr _ \<Rightarrow> Inr (tail_conditions rule request risk_context)))"

definition matched_conditions :: "policy_rule \<Rightarrow> string list" where
  "matched_conditions rule =
     (if truthy_opt (pr_tool_name rule) then [''tool_name''] else []) @
     (if truthy_opt (pr_action rule) then [''action''] else []) @
     (if truthy_opt (pr_environment rule) then [''environment''] else []) @
     (if truthy_opt (target_equals rule) then [''target_equals''] else []) @
     (if truthy_opt (target_contains rule) then [''target_contains''] else []) @
     (if truthy_opt (target_matches rule) then [''target_matches''] else []) @
     (if truthy_opt (target_not_matches rule) then [''target_not_matches''] else []) @
     (if input_equals rule \<noteq> PNone then [''input_equals''] else []) @
     (if truthy_opt (input_contains rule) then [''input_contains''] else []) @
     (if metadata_equals rule \<noteq> [] then [''metadata_equals''] else []) @
     (if metadata_contains rule \<noteq> [] then [''metadata_contains''] else []) @
     (if truthy_opt (pr_risk_level rule) then [''risk_level''] else []) @
     (if risk_score_min rule \<noteq> None then [''risk_score_min''] else [])"

section \<open>Evaluation\<close>

record policy_engine =
  pe_rules :: "policy_rule list"
  pe_version :: string
  pe_default :: decision

definition make_policy_engine :: "policy_rule list \<Rightarrow> string \<Rightarrow> decision \<Rightarrow> policy_engine" where
  "make_policy_engine rules policy_version default_decision =
     \<lparr>pe_rules = sort_key pr_priority rules, pe_version = policy_version,
      pe_default = default_decision\<rparr>"

definition is_allowed :: "decision \<Rightarrow> bool" where
  "is_allowed d = (d \<in> {ALLOW, SIMULATE})"

definition default_reason :: "decision \<Rightarrow> string" where
  "default_reason d = (if d = ALLOW then ''No matching policy rule. Default allow.''
     else ''No matching policy rule. Default decision: '' @ decision_value d @ ''.'')"

definition guard_decision :: "policy_engine \<Rightarrow> policy_rule \<Rightarrow> guard_error \<Rightarrow> string list \<Rightarrow> policy_decision" where
  "guard_decision eng rule g evaluated =
     \<lparr>pd_decision = BLOCK, pd_allowed = False, pd_severity = SevHIGH, pd_reason = guard_message g,
      pd_policy_id = Some (pr_id rule),
      pd_explanation = Some \<lparr>pe_policy_version = pe_version eng, pe_matched = False,
        pe_matched_rule_id = Some (pr_id rule), pe_matched_rule_priority = Some (pr_priority rule),
        pe_matched_conditions = [guard_reason_code, ge_field_name g],
        pe_evaluated_rule_ids = evaluated, pe_default_decision = False\<rparr>\<rparr>"

definition rule_decision :: "policy_engine \<Rightarrow> policy_rule \<Rightarrow> string list \<Rightarrow> policy_decision" where
  "rule_decision eng rule evaluated =
     \<lparr>pd_decision = pr_decision rule, pd_allowed = is_allowed (pr_decision rule),
      pd_severity = pr_severity rule, pd_reason = pr_reason rule, pd_policy_id = Some (pr_id rule),
      pd_explanation = Some \<lparr>pe_policy_version = pe_version eng, pe_matched = True,
        pe_matched_rule_id = Some (pr_id rule), pe_matched_rule_priority = Some (pr_priority rule),
        pe_matched_conditions = matched_conditions rule,
        pe_evaluated_rule_ids = evaluated, pe_default_decision = False\<rparr>\<rparr>"

definition default_policy_decision :: "policy_engine \<Rightarrow> string list \<Rightarrow> policy_decision" where
  "default_policy_decision eng evaluated =
     \<lparr>pd_decision = pe_default eng, pd_allowed = is_allowed (pe_default eng), pd_severity = SevLOW,
      pd_reason = default_reason (pe_default eng), pd_policy_id = None,
      pd_explanation = Some \<lparr>pe_policy_version = pe_version eng, pe_matched = False,
        pe_matched_rule_id = None, pe_matched_rule_priority = None, pe_matched_conditions = [],
        pe_evaluated_rule_ids = evaluated, pe_default_decision = True\<rparr>\<rparr>"

fun evaluate_rules ::
  "policy_lib \<Rightarrow> policy_engine \<Rightarrow> tool_request \<Rightarrow> dict \<Rightarrow> string list \<Rightarrow> policy_rule list \<Rightarrow> policy_decision"
where
  "evaluate_rules lib eng request risk_context evaluated [] = default_policy_decision eng evaluated"
| "evaluate_rules lib eng request risk_context evaluated (rule # rules) =
     (let evaluated = evaluated @ [pr_id rule]
      in case rule_matches lib rule request risk_context of
           Inl g \<Rightarrow> guard_decision eng rule g evaluated
         | Inr True \<Rightarrow> rule_decision eng rule evaluated
         | Inr False \<Rightarrow> evaluate_rules lib eng request risk_context evaluated rules)"

definition evaluate ::
  "policy_lib \<Rightarrow> policy_engine \<Rightarrow> tool_request \<Rightarrow> risk_assessment option \<Rightarrow> policy_decision" where
  "evaluate lib eng request ra =
     evaluate_rules lib eng request (risk_context_of ra) [] (pe_rules eng)"

section \<open>Validation and loading\<close>

record validation_profile =
  vp_name :: string
  fail_closed_default :: bool
  require_terminal_catch_all :: bool
  terminal_disallowed_decisions :: "decision list"

definition PRODUCTION_SAFE_POLICY_PROFILE :: validation_profile where
  "PRODUCTION_SAFE_POLICY_PROFILE =
     \<lparr>vp_name = ''production-safe'', fail_closed_default = True, require_terminal_catch_all = True,
      terminal_disallowed_decisions = [ALLOW, SIMULATE]\<rparr>"

definition PolicyLoadError :: "string \<Rightarrow> py_exn" where
  "PolicyLoadError msg = Exn ValueErr ''PolicyLoadError'' msg"

definition validate_policy_regex_pattern :: "policy_lib \<Rightarrow> string \<Rightarrow> string \<Rightarrow> string \<Rightarrow> unit res" where
  "validate_policy_regex_pattern lib rule_id field_name pattern =
     (let pattern_bytes = int (utf8_len pattern); pattern_limit = policy_regex_max_pattern_bytes lib
      in if pattern_bytes > pattern_limit then
           Inl (PolicyLoadError (''policy_regex_pattern_too_large: policy rule '' @ repr_str rule_id @
             '' field '' @ repr_str field_name @ '' regex is '' @ show_int pattern_bytes @
             '' bytes, exceeding limit '' @ show_int pattern_limit))
         else case re_compile_error lib pattern of
             Some exc \<Rightarrow> Inl (PolicyLoadError (''Invalid regex in policy rule '' @ [squote] @ rule_id @
               [squote] @ '' field '' @ [squote] @ field_name @ [squote] @ '': '' @ exc))
           | None \<Rightarrow> Inr ())"

definition validate_rule_patterns :: "policy_lib \<Rightarrow> policy_rule \<Rightarrow> unit res" where
  "validate_rule_patterns lib rule =
     rbind (case target_matches rule of None \<Rightarrow> Inr ()
            | Some p \<Rightarrow> validate_policy_regex_pattern lib (pr_id rule) ''target_matches'' p)
       (\<lambda>_. case target_not_matches rule of None \<Rightarrow> Inr ()
            | Some p \<Rightarrow> validate_policy_regex_pattern lib (pr_id rule) ''target_not_matches'' p)"

fun validate_rules :: "policy_lib \<Rightarrow> string list \<Rightarrow> policy_rule list \<Rightarrow> unit res" where
  "validate_rules lib seen [] = Inr ()"
| "validate_rules lib seen (rule # rules) =
     (if pr_id rule \<in> set seen
      then Inl (Exn ValueErr ''ValueError'' (''Duplicate policy rule id: '' @ pr_id rule))
      else rbind (validate_rule_patterns lib rule)
        (\<lambda>_. validate_rules lib (pr_id rule # seen) rules))"

definition validate_profile_default :: "policy_schema \<Rightarrow> validation_profile \<Rightarrow> unit res" where
  "validate_profile_default schema vp =
     (if \<not> fail_closed_default vp then Inr ()
      else if ps_default_decision schema \<in> {ALLOW, SIMULATE}
        then Inl (PolicyLoadError (vp_name vp @ '' policy must be fail-closed. default_decision must not allow or simulate unmatched actions.''))
      else Inr ())"

definition is_terminal_catch_all_rule :: "policy_rule \<Rightarrow> bool" where
  "is_terminal_catch_all_rule rule = (matched_conditions rule = [])"

definition validate_terminal_catch_all :: "policy_schema \<Rightarrow> validation_profile \<Rightarrow> unit res" where
  "validate_terminal_catch_all schema vp =
     (case filter is_terminal_catch_all_rule (ps_rules schema) of
        [] \<Rightarrow> Inl (PolicyLoadError (vp_name vp @ '' policy must define an explicit terminal catch-all rule.''))
      | [terminal] \<Rightarrow>
          if pr_decision terminal \<in> set (terminal_disallowed_decisions vp)
          then Inl (PolicyLoadError (vp_name vp @ '' terminal catch-all rule must not allow or simulate unmatched actions.''))
          else if list_ex (\<lambda>rule. pr_id rule \<noteq> pr_id terminal \<and> pr_priority rule \<ge> pr_priority terminal)
                 (ps_rules schema)
          then Inl (PolicyLoadError (vp_name vp @ '' terminal catch-all rule must have lowest precedence.''))
          else Inr ()
      | _ \<Rightarrow> Inl (PolicyLoadError (vp_name vp @ '' policy must define exactly one terminal catch-all rule.'')))"

definition validate_policy_schema ::
  "policy_lib \<Rightarrow> policy_schema \<Rightarrow> validation_profile option \<Rightarrow> unit res" where
  "validate_policy_schema lib schema validation_profile =
     rbind (validate_rules lib [] (ps_rules schema)) (\<lambda>_.
       case validation_profile of
         None \<Rightarrow> Inr ()
       | Some vp \<Rightarrow> rbind (validate_profile_default schema vp) (\<lambda>_.
           if require_terminal_catch_all vp then validate_terminal_catch_all schema vp else Inr ()))"

definition from_yaml_text ::
  "policy_lib \<Rightarrow> string \<Rightarrow> string \<Rightarrow> validation_profile option \<Rightarrow> policy_engine res" where
  "from_yaml_text lib policy_text source validation_profile =
     (case yaml_safe_load lib policy_text of
        Inl exc \<Rightarrow> Inl (PolicyLoadError (''Unable to parse policy source '' @ source @ '': '' @ exc))
      | Inr parsed \<Rightarrow>
          (case (if truthy parsed then parsed else PDict []) of
             PDict data \<Rightarrow>
               (case make_schema lib data of
                  Inl e \<Rightarrow> if exn_kind e = ValueErr
                    then Inl (PolicyLoadError (''Invalid policy source '' @ source @ '': '' @ exn_msg e))
                    else Inl e
                | Inr schema \<Rightarrow>
                    rbind (validate_policy_schema lib schema validation_profile)
                      (\<lambda>_. Inr (make_policy_engine (ps_rules schema) (ps_policy_version schema)
                             (ps_default_decision schema))))
           | _ \<Rightarrow> Inl (PolicyLoadError (''Policy source '' @ source @ '' must be a YAML mapping.''))))"

definition from_file ::
  "policy_lib \<Rightarrow> string \<Rightarrow> validation_profile option \<Rightarrow> policy_engine res" where
  "from_file lib path validation_profile =
     (case policy_fs lib path of
        Missing \<Rightarrow> Inl (Exn OSErr ''FileNotFoundError'' (''Policy file not found: '' @ path))
      | Not_regular \<Rightarrow> Inl (PolicyLoadError (''Policy path is not a regular file: '' @ path))
      | Unreadable exc \<Rightarrow> Inl (PolicyLoadError (''Unable to read policy file '' @ path @ '': '' @ exc))
      | Undecodable exc \<Rightarrow> Inl (Exn ValueErr ''UnicodeDecodeError'' exc)
      | Contents policy_text \<Rightarrow> from_yaml_text lib policy_text path validation_profile)"

definition read_bundled_policy :: "policy_lib \<Rightarrow> string \<Rightarrow> string res" where
  "read_bundled_policy lib resource_name =
     (let logical_name = ''rygnal.resources.policies:'' @ resource_name;
          missing = Inl (PolicyLoadError (''Bundled Rygnal policy resource is missing: '' @ logical_name))
      in case policy_resources lib resource_name of
           Missing \<Rightarrow> missing
         | Not_regular \<Rightarrow> missing
         | Unreadable exc \<Rightarrow> Inl (PolicyLoadError
             (''Unable to read bundled Rygnal policy resource '' @ logical_name @ '': '' @ exc))
         | Undecodable exc \<Rightarrow> Inl (Exn ValueErr ''UnicodeDecodeError'' exc)
         | Contents policy_text \<Rightarrow> Inr policy_text)"

definition load_bundled_policy_engine ::
  "policy_lib \<Rightarrow> string \<Rightarrow> validation_profile option \<Rightarrow> policy_engine res" where
  "load_bundled_policy_engine lib resource_name validation_profile =
     rbind (read_bundled_policy lib resource_name) (\<lambda>policy_text.
       from_yaml_text lib policy_text (''packaged Rygnal policy '' @ repr_str resource_name)
         validation_profile)"

definition load_default_or_overridden_policy ::
  "policy_lib \<Rightarrow> string \<Rightarrow> string \<Rightarrow> string \<Rightarrow> validation_profile option \<Rightarrow> policy_engine res" where
  "load_default_or_overridden_policy lib path repository_default_path bundled_resource
     validation_profile =
     (if path \<noteq> repository_default_path then from_file lib path validation_profile
      else load_bundled_policy_engine lib bundled_resource validation_profile)"

definition load_default_policy_engine :: "policy_lib \<Rightarrow> runtime_mode \<Rightarrow> policy_engine res" where
  "load_default_policy_engine lib mode =
     (if mode = PRODUCTION_SAFE
      then load_default_or_overridden_policy lib (PRODUCTION_SAFE_POLICY_PATH lib)
             ''policies/production_safe_policy.yaml'' ''production_safe_policy.yaml''
             (Some PRODUCTION_SAFE_POLICY_PROFILE)
      else rbind (load_default_or_overridden_policy lib (DEFAULT_POLICY_PATH lib)
             ''policies/default_policy.yaml'' ''default_policy.yaml'' None) (\<lambda>eng.
        if pe_default eng \<noteq> BLOCK
        then Inl (PolicyLoadError (''default_policy.yaml must be fail-closed. default_decision must be '' @
          [squote] @ ''block'' @ [squote] @ ''.''))
        else Inr eng))"

section \<open>First match\<close>

abbreviation passes_over :: "policy_lib \<Rightarrow> tool_request \<Rightarrow> dict \<Rightarrow> policy_rule \<Rightarrow> bool" where
  "passes_over lib request risk_context rule \<equiv> rule_matches lib rule request risk_context = Inr False"

lemma evaluate_rules_first:
  "evaluate_rules lib eng request rc evaluated rules =
     (case dropWhile (passes_over lib request rc) rules of
        [] \<Rightarrow> default_policy_decision eng (evaluated @ map pr_id rules)
      | rule # _ \<Rightarrow>
          let ids = evaluated @ map pr_id (takeWhile (passes_over lib request rc) rules) @ [pr_id rule]
          in case rule_matches lib rule request rc of
               Inl g \<Rightarrow> guard_decision eng rule g ids
             | Inr _ \<Rightarrow> rule_decision eng rule ids)"
proof (induction rules arbitrary: evaluated)
  case (Cons rule rules)
  show ?case
  proof (cases "passes_over lib request rc rule")
    case True
    with Cons.IH [of "evaluated @ [pr_id rule]"] show ?thesis
      by (cases "dropWhile (passes_over lib request rc) rules")
         (simp_all add: Let_def del: dropWhile_eq_Nil_conv)
  next
    case False
    then show ?thesis by (auto simp: Let_def split: sum.splits bool.splits)
  qed
qed simp

lemma sorted_before_dropWhile:
  assumes "sorted (map f xs)" and "dropWhile P xs = y # ys" and "x \<in> set xs" and "f x < (f y :: int)"
  shows "P x"
proof -
  define ts where "ts = takeWhile P xs"
  have xs: "xs = ts @ y # ys"
    using assms(2) takeWhile_dropWhile_id [of P xs] by (simp add: ts_def)
  with assms(1) have "\<forall>z \<in> set ys. f y \<le> f z" by (simp add: sorted_append)
  with assms(3,4) xs have "x \<in> set ts" by auto
  then show ?thesis unfolding ts_def by (rule set_takeWhileD [THEN conjunct2])
qed

text \<open>The decision of an evaluation is one of three kinds.\<close>

lemma evaluate_cases:
  obtains (default) "evaluate lib eng request ra = default_policy_decision eng (map pr_id (pe_rules eng))"
      "\<forall>rule \<in> set (pe_rules eng). passes_over lib request (risk_context_of ra) rule"
  | (guard) rule g ids rest where
      "evaluate lib eng request ra = guard_decision eng rule g ids"
      "dropWhile (passes_over lib request (risk_context_of ra)) (pe_rules eng) = rule # rest"
      "rule_matches lib rule request (risk_context_of ra) = Inl g"
  | (rule) rule ids rest where
      "evaluate lib eng request ra = rule_decision eng rule ids"
      "dropWhile (passes_over lib request (risk_context_of ra)) (pe_rules eng) = rule # rest"
      "rule_matches lib rule request (risk_context_of ra) = Inr True"
proof (cases "dropWhile (passes_over lib request (risk_context_of ra)) (pe_rules eng)")
  case Nil
  then have "\<forall>rule \<in> set (pe_rules eng). passes_over lib request (risk_context_of ra) rule"
    by (simp add: dropWhile_eq_Nil_conv)
  moreover have "evaluate lib eng request ra = default_policy_decision eng (map pr_id (pe_rules eng))"
    using Nil by (simp add: evaluate_def evaluate_rules_first del: dropWhile_eq_Nil_conv)
  ultimately show thesis by (rule default [rotated])
next
  case (Cons r rest)
  then have "\<not> passes_over lib request (risk_context_of ra) r"
    by (metis (mono_tags, lifting) hd_dropWhile list.sel(1) list.distinct(1))
  then consider g where "rule_matches lib r request (risk_context_of ra) = Inl g"
    | "rule_matches lib r request (risk_context_of ra) = Inr True"
    by (cases "rule_matches lib r request (risk_context_of ra)") auto
  then show thesis
    using Cons guard [of r _ _ rest] rule [of r _ rest]
    by cases (simp_all add: evaluate_def evaluate_rules_first Let_def)
qed

lemma unconditional_rule_matches:
  assumes "matched_conditions rule = []"
  shows "rule_matches lib rule request risk_context = Inr True"
proof -
  have none: "(if b then [x] else []) = [] \<longleftrightarrow> \<not> b" for b and x :: string by simp
  have rx: "\<not> truthy_opt p \<Longrightarrow> regex_condition lib rule n p t = Inr None" for n p t
    by (auto simp: regex_condition_def split: option.splits)
  note m = assms [unfolded matched_conditions_def append_is_Nil_conv none]
  have "head_conditions rule request" using m unfolding head_conditions_def Let_def by blast
  moreover have "tail_conditions rule request risk_context" using m unfolding tail_conditions_def by (simp del: not_None_eq)
  ultimately show ?thesis using m rx by (simp add: rule_matches_def Let_def del: not_None_eq)
qed

lemma decision_sel [simp]:
  "pd_decision (guard_decision eng rule g ids) = BLOCK"
  "pd_allowed (guard_decision eng rule g ids) = False"
  "pd_policy_id (guard_decision eng rule g ids) = Some (pr_id rule)"
  "pd_decision (rule_decision eng rule ids) = pr_decision rule"
  "pd_allowed (rule_decision eng rule ids) = is_allowed (pr_decision rule)"
  "pd_policy_id (rule_decision eng rule ids) = Some (pr_id rule)"
  "pd_decision (default_policy_decision eng ids) = pe_default eng"
  "pd_allowed (default_policy_decision eng ids) = is_allowed (pe_default eng)"
  "pd_policy_id (default_policy_decision eng ids) = None"
  by (simp_all add: guard_decision_def rule_decision_def default_policy_decision_def)

lemma dropWhile_head_mem: "dropWhile P xs = y # ys \<Longrightarrow> y \<in> set xs"
  by (metis list.set_intros(1) set_dropWhileD)

section \<open>Validated policies\<close>

lemma validate_rules_distinct:
  "validate_rules lib seen rules = Inr () \<Longrightarrow> distinct (map pr_id rules) \<and> set (map pr_id rules) \<inter> set seen = {}"
  by (induction lib seen rules rule: validate_rules.induct) (auto simp: res_simps split: if_splits)

lemma production_profile [simp]:
  "fail_closed_default PRODUCTION_SAFE_POLICY_PROFILE"
  "require_terminal_catch_all PRODUCTION_SAFE_POLICY_PROFILE"
  "terminal_disallowed_decisions PRODUCTION_SAFE_POLICY_PROFILE = [ALLOW, SIMULATE]"
  by (simp_all add: PRODUCTION_SAFE_POLICY_PROFILE_def)

lemma production_validated:
  assumes "validate_policy_schema lib schema (Some PRODUCTION_SAFE_POLICY_PROFILE) = Inr ()"
  obtains terminal where "filter is_terminal_catch_all_rule (ps_rules schema) = [terminal]"
    "\<not> is_allowed (pr_decision terminal)" "\<not> is_allowed (ps_default_decision schema)"
    "\<And>rule. rule \<in> set (ps_rules schema) \<Longrightarrow> pr_id rule \<noteq> pr_id terminal \<Longrightarrow> pr_priority rule < pr_priority terminal"
    "distinct (map pr_id (ps_rules schema))"
proof -
  from assms have "validate_rules lib [] (ps_rules schema) = Inr ()"
    and d: "validate_profile_default schema PRODUCTION_SAFE_POLICY_PROFILE = Inr ()"
    and t: "validate_terminal_catch_all schema PRODUCTION_SAFE_POLICY_PROFILE = Inr ()"
    by (auto simp: validate_policy_schema_def res_simps)
  then have dist: "distinct (map pr_id (ps_rules schema))"
    using validate_rules_distinct by blast
  from d have "\<not> is_allowed (ps_default_decision schema)"
    by (auto simp: validate_profile_default_def is_allowed_def split: if_splits)
  moreover from t obtain terminal where "filter is_terminal_catch_all_rule (ps_rules schema) = [terminal]"
    and "\<not> is_allowed (pr_decision terminal)"
    and "\<not> list_ex (\<lambda>rule. pr_id rule \<noteq> pr_id terminal \<and> pr_priority rule \<ge> pr_priority terminal)
           (ps_rules schema)"
    by (auto simp: validate_terminal_catch_all_def is_allowed_def split: list.splits if_splits)
  ultimately show thesis
    using that [of terminal] dist by (auto simp: list_ex_iff not_le)
qed

lemma terminal_is_last:
  assumes "validate_policy_schema lib schema (Some PRODUCTION_SAFE_POLICY_PROFILE) = Inr ()"
    and "filter is_terminal_catch_all_rule (ps_rules schema) = [terminal]"
    and "dropWhile P (sort_key pr_priority (ps_rules schema)) = terminal # rest"
    and "rule \<in> set (ps_rules schema)" and "rule \<noteq> terminal"
  shows "P rule"
proof (rule production_validated [OF assms(1)])
  fix t
  assume t: "filter is_terminal_catch_all_rule (ps_rules schema) = [t]"
    and prio: "\<And>rule. rule \<in> set (ps_rules schema) \<Longrightarrow> pr_id rule \<noteq> pr_id t \<Longrightarrow> pr_priority rule < pr_priority t"
    and dist: "distinct (map pr_id (ps_rules schema))"
  from t assms(2) have "t = terminal" by simp
  moreover have "terminal \<in> set (ps_rules schema)"
    using assms(2) by (auto simp: filter_eq_Cons_iff)
  ultimately have "pr_priority rule < pr_priority terminal"
    using prio [OF assms(4)] dist assms(4,5) by (metis distinct_map inj_onD)
  then show ?thesis
    using sorted_before_dropWhile [OF sorted_sort_key assms(3), of rule] assms(4) by simp
qed

lemma loaded_policy_validated:
  assumes "from_yaml_text lib txt source vp = Inr eng"
  obtains schema where "validate_policy_schema lib schema vp = Inr ()"
    "pe_default eng = ps_default_decision schema"
  using assms unfolding from_yaml_text_def
  by (auto simp: res_simps make_policy_engine_def split: sum.splits pyval.splits if_splits)

lemma default_engine_closed:
  assumes "load_default_policy_engine lib mode = Inr eng"
  shows "\<not> is_allowed (pe_default eng)"
proof (cases "mode = PRODUCTION_SAFE")
  case True
  with assms obtain body src where
    "from_yaml_text lib body src (Some PRODUCTION_SAFE_POLICY_PROFILE) = Inr eng"
    by (auto simp: load_default_policy_engine_def load_default_or_overridden_policy_def
        load_bundled_policy_engine_def from_file_def res_simps split: policy_file.splits if_splits)
  then show ?thesis
    by (metis loaded_policy_validated production_validated)
next
  case False
  with assms have "pe_default eng = BLOCK"
    by (auto simp: load_default_policy_engine_def res_simps split: if_splits)
  then show ?thesis by (simp add: is_allowed_def)
qed

section \<open>Properties\<close>

definition sample_rule :: policy_rule where
  "sample_rule = \<lparr>pr_id = ''read-ok'', pr_decision = ALLOW, pr_severity = SevLOW, pr_reason = ''reads'',
     pr_priority = 10, pr_tool_name = Some ''file_read'', pr_action = None, pr_environment = None,
     target_equals = None, target_contains = None, target_matches = None, target_not_matches = None,
     input_equals = PNone, input_contains = None, metadata_equals = [], metadata_contains = [],
     pr_risk_level = None, risk_score_min = None\<rparr>"

definition sample_terminal :: policy_rule where
  "sample_terminal = sample_rule\<lparr>pr_id := ''deny-all'', pr_decision := BLOCK, pr_priority := 1000,
     pr_tool_name := None\<rparr>"

definition sample_schema :: policy_schema where
  "sample_schema = \<lparr>ps_policy_version = ''policy.v1'', ps_default_decision = BLOCK,
     ps_rules = [sample_terminal, sample_rule]\<rparr>"

definition sample_policy_lib :: policy_lib where
  "sample_policy_lib = \<lparr>re_search_dyn = (\<lambda>p v. False), re_compile_error = (\<lambda>p. None),
     environ = (\<lambda>n. None), yaml_safe_load = (\<lambda>t. Inr (PDict [(KStr ''default_decision'', PStr ''block'')])),
     make_schema = (\<lambda>d. Inr sample_schema), policy_fs = (\<lambda>p. Missing), policy_resources = (\<lambda>n. Contents ''default_decision: block''),
     DEFAULT_POLICY_PATH = ''policies/default_policy.yaml'',
     PRODUCTION_SAFE_POLICY_PATH = ''policies/production_safe_policy.yaml''\<rparr>"

definition engine_of_schema :: "policy_schema \<Rightarrow> policy_engine" where
  "engine_of_schema schema =
     make_policy_engine (ps_rules schema) (ps_policy_version schema) (ps_default_decision schema)"

lemma sample_schema_valid:
  "validate_policy_schema sample_policy_lib sample_schema (Some PRODUCTION_SAFE_POLICY_PROFILE) = Inr ()"
  by code_simp

text \<open>
  (C6) Evaluation is first match in priority order: it passes over the leading rules that do not match,
  and the first rule that matches decides (or blocks, when its regular expression guard trips); when
  every rule is passed over, the default decision is returned. The explanation lists exactly the rules
  that were looked at.
\<close>

theorem evaluate_first_match:
  "evaluate lib (make_policy_engine rules version dflt) request ra =
     (let eng = make_policy_engine rules version dflt;
          ordered = sort_key pr_priority rules;
          skip = (\<lambda>rule. rule_matches lib rule request (risk_context_of ra) = Inr False)
      in case dropWhile skip ordered of
           [] \<Rightarrow> default_policy_decision eng (map pr_id ordered)
         | rule # _ \<Rightarrow>
             let ids = map pr_id (takeWhile skip ordered) @ [pr_id rule]
             in case rule_matches lib rule request (risk_context_of ra) of
                  Inl g \<Rightarrow> guard_decision eng rule g ids
                | Inr _ \<Rightarrow> rule_decision eng rule ids)"
  unfolding evaluate_def evaluate_rules_first append_Nil make_policy_engine_def Let_def
    policy_engine.select_convs by (rule refl)

text \<open>
  Priorities are respected: every rule with a smaller priority number than the rule that decided
  was tried and did not match.
\<close>

theorem evaluate_respects_priority:
  assumes "pd_explanation (evaluate lib (make_policy_engine rules version dflt) request ra) = Some e"
    and "pe_matched_rule_priority e = Some p"
    and "rule \<in> set rules" and "pr_priority rule < p"
  shows "rule_matches lib rule request (risk_context_of ra) = Inr False"
proof -
  let ?eng = "make_policy_engine rules version dflt"
  have rules: "pe_rules ?eng = sort_key pr_priority rules" by (simp add: make_policy_engine_def)
  have "\<exists>r rest. dropWhile (passes_over lib request (risk_context_of ra)) (pe_rules ?eng) = r # rest \<and>
      p = pr_priority r"
    using assms(1,2)
    by (cases rule: evaluate_cases [of lib ?eng request ra])
       (auto simp: default_policy_decision_def guard_decision_def rule_decision_def)
  then obtain r rest where
    "dropWhile (passes_over lib request (risk_context_of ra)) (sort_key pr_priority rules) = r # rest"
    "p = pr_priority r"
    unfolding rules by blast
  then show ?thesis
    using sorted_before_dropWhile [OF sorted_sort_key, of _ pr_priority rules r rest rule] assms(3,4)
    by simp
qed

text \<open>
  The \<open>allowed\<close> flag of a policy decision is true exactly for the decisions allow and simulate.
\<close>

theorem evaluate_allowed_flag:
  "pd_allowed (evaluate lib eng request ra) \<longleftrightarrow> pd_decision (evaluate lib eng request ra) \<in> {ALLOW, SIMULATE}"
  by (cases rule: evaluate_cases [of lib eng request ra]) (auto simp: is_allowed_def)

text \<open>
  (C7) A policy that passes the production-safe validation never falls through to its default: some
  rule always decides. Whatever it allows or simulates is allowed by a rule that carries at least one
  condition and whose conditions the request meets.
\<close>

theorem production_policy_explicit_allow:
  assumes "validate_policy_schema lib schema (Some PRODUCTION_SAFE_POLICY_PROFILE) = Inr ()"
  shows "pd_policy_id (evaluate lib' (engine_of_schema schema) request ra) \<noteq> None \<and>
    (pd_allowed (evaluate lib' (engine_of_schema schema) request ra) \<longrightarrow>
      (\<exists>rule \<in> set (ps_rules schema). matched_conditions rule \<noteq> [] \<and>
         rule_matches lib' rule request (risk_context_of ra) = Inr True \<and>
         pd_policy_id (evaluate lib' (engine_of_schema schema) request ra) = Some (pr_id rule)))"
proof (rule production_validated [OF assms])
  fix terminal
  let ?eng = "engine_of_schema schema"
  assume t: "filter is_terminal_catch_all_rule (ps_rules schema) = [terminal]"
    and deny: "\<not> is_allowed (pr_decision terminal)"
  have set_rules: "set (pe_rules ?eng) = set (ps_rules schema)"
    by (simp add: engine_of_schema_def make_policy_engine_def)
  have tm: "terminal \<in> set (ps_rules schema)" "matched_conditions terminal = []"
    using t by (auto simp: filter_eq_Cons_iff is_terminal_catch_all_rule_def)
  have only: "rule = terminal" if "rule \<in> set (ps_rules schema)" "matched_conditions rule = []" for rule
  proof -
    from that have "rule \<in> set (filter is_terminal_catch_all_rule (ps_rules schema))"
      by (simp add: is_terminal_catch_all_rule_def)
    with t show ?thesis by simp
  qed
  show ?thesis
  proof (cases rule: evaluate_cases [of lib' ?eng request ra])
    case default
    with unconditional_rule_matches [OF tm(2)] tm(1) set_rules show ?thesis by auto
  next
    case (rule r ids rest)
    then have "r \<in> set (ps_rules schema)" using dropWhile_head_mem set_rules by metis
    with rule only [of r] deny show ?thesis by auto
  qed simp
qed

theorem production_policy_explicit_allow_witness:
  "pd_policy_id (evaluate sample_policy_lib (engine_of_schema sample_schema) sample_request None) \<noteq> None"
  using production_policy_explicit_allow [OF sample_schema_valid] by blast

text \<open>
  In a validated production-safe policy the terminal catch-all rule decides only what no other rule
  decides: when it decided, every other rule was tried and did not match.
\<close>

theorem terminal_rule_decides_last:
  assumes "validate_policy_schema lib schema (Some PRODUCTION_SAFE_POLICY_PROFILE) = Inr ()"
    and "terminal \<in> set (ps_rules schema)" and "matched_conditions terminal = []"
    and "pd_policy_id (evaluate lib' (engine_of_schema schema) request ra) = Some (pr_id terminal)"
    and "rule \<in> set (ps_rules schema)" and "rule \<noteq> terminal"
  shows "rule_matches lib' rule request (risk_context_of ra) = Inr False"
proof (rule production_validated [OF assms(1)])
  fix t
  assume t: "filter is_terminal_catch_all_rule (ps_rules schema) = [t]"
    and dist: "distinct (map pr_id (ps_rules schema))"
  have "terminal \<in> set (filter is_terminal_catch_all_rule (ps_rules schema))"
    using assms(2,3) by (simp add: is_terminal_catch_all_rule_def)
  with t have t': "filter is_terminal_catch_all_rule (ps_rules schema) = [terminal]" by simp
  have eng: "pe_rules (engine_of_schema schema) = sort_key pr_priority (ps_rules schema)"
    by (simp add: engine_of_schema_def make_policy_engine_def)
  have same: "r = terminal" if "r \<in> set (ps_rules schema)" "pr_id r = pr_id terminal" for r
    using dist that assms(2) by (metis distinct_map inj_onD)
  obtain rest where "dropWhile (passes_over lib' request (risk_context_of ra))
      (sort_key pr_priority (ps_rules schema)) = terminal # rest"
    using assms(4) same
    by (cases rule: evaluate_cases [of lib' "engine_of_schema schema" request ra])
       (auto simp: eng dest: dropWhile_head_mem)
  from terminal_is_last [OF assms(1) t' this assms(5,6)] show ?thesis .
qed

text \<open>
  The default policies fail closed: an engine that \<open>load_default_policy_engine\<close> returns, in any
  runtime mode, does not allow or simulate a request that no rule matches.
\<close>

theorem default_policy_fails_closed:
  assumes "load_default_policy_engine lib mode = Inr eng"
    and "list_all (\<lambda>rule. rule_matches lib rule request (risk_context_of ra) = Inr False) (pe_rules eng)"
  shows "pd_decision (evaluate lib eng request ra) \<in> {BLOCK, REQUIRE_APPROVAL}"
proof -
  have "\<not> is_allowed (pe_default eng)" by (rule default_engine_closed [OF assms(1)])
  moreover have "evaluate lib eng request ra = default_policy_decision eng (map pr_id (pe_rules eng))"
  proof -
    have "dropWhile (passes_over lib request (risk_context_of ra)) (pe_rules eng) = []"
      using assms(2) by (simp add: list_all_iff)
    then show ?thesis
      by (simp add: evaluate_def evaluate_rules_first del: dropWhile_eq_Nil_conv)
  qed
  ultimately show ?thesis by (cases "pe_default eng") (auto simp: is_allowed_def)
qed

end
