(* ===== verification/Approval_Auth.thy ===== *)
theory Approval_Auth
  imports Models Security
begin

text \<open>
  \<open>src/rygnal/approval_state.py\<close>, \<open>approval_authorization.py\<close> and \<open>roles.py\<close>: the two transitions of an
  approval, and who may grant one. The permission tables are association lists, looked up by key; the
  parsed YAML of the roles file and \<open>RolePermission.model_validate\<close> are arguments.
\<close>

section \<open>Transitions\<close>

record check_result =
  cr_allowed :: bool
  cr_reason :: string
  cr_metadata :: dict

definition ALLOWED_TRANSITIONS :: "(approval_status \<times> approval_status) list" where
  "ALLOWED_TRANSITIONS = [(PENDING, APPROVED), (PENDING, REJECTED)]"

definition validate_transition :: "approval_status \<Rightarrow> approval_status \<Rightarrow> check_result" where
  "validate_transition current_status next_status =
     (let states = [(''current_status'', PStr (approval_status_value current_status)),
                    (''next_status'', PStr (approval_status_value next_status))]
      in if (current_status, next_status) \<in> set ALLOWED_TRANSITIONS
         then \<lparr>cr_allowed = True, cr_reason = ''Approval state transition allowed.'', cr_metadata = states\<rparr>
         else \<lparr>cr_allowed = False,
                cr_reason = ''Invalid approval state transition: '' @ approval_status_value current_status @
                  '' -> '' @ approval_status_value next_status @ ''.'',
                cr_metadata = (''guard'', PStr ''approval-state-transition'') # states\<rparr>)"

section \<open>Roles\<close>

record reviewer_permission =
  rv_role :: string
  rv_can_approve :: bool

record authorization_engine =
  reviewer_permissions :: "(string \<times> reviewer_permission) list"
  role_permissions :: "(string \<times> role_permission) list"

definition RoleLoadError :: "string \<Rightarrow> py_exn" where
  "RoleLoadError msg = Exn ValueErr ''RoleLoadError'' msg"

definition validate_role_permission ::
  "((pykey \<times> pyval) list \<Rightarrow> string + role_permission) \<Rightarrow> string \<Rightarrow> (pykey \<times> pyval) list \<Rightarrow> role_permission res"
where
  "validate_role_permission model_validate reviewer_id raw_permission =
     (case model_validate raw_permission of
        Inl exc \<Rightarrow> Inl (RoleLoadError (''Invalid role permission for '' @ repr_str reviewer_id @ '': '' @ exc))
      | Inr p \<Rightarrow> Inr p)"

fun load_role_entries ::
  "((pykey \<times> pyval) list \<Rightarrow> string + role_permission) \<Rightarrow> (pykey \<times> pyval) list \<Rightarrow>
   (string \<times> role_permission) list res" where
  "load_role_entries model_validate [] = Inr []"
| "load_role_entries model_validate ((key, raw) # rest) =
     (case key of
        KStr reviewer_id \<Rightarrow>
          if strip reviewer_id = [] then Inl (RoleLoadError ''Role reviewer IDs must be non-blank strings.'')
          else (case raw of
              PDict raw_permission \<Rightarrow>
                rbind (validate_role_permission model_validate reviewer_id raw_permission) (\<lambda>p.
                  rbind (load_role_entries model_validate rest) (\<lambda>ps. Inr ((reviewer_id, p) # ps)))
            | _ \<Rightarrow> Inl (RoleLoadError (''Role permission for '' @ repr_str reviewer_id @ '' must be a mapping.'')))
      | _ \<Rightarrow> Inl (RoleLoadError ''Role reviewer IDs must be non-blank strings.''))"

text \<open>What reading and parsing the file gives.\<close>

datatype roles_file = Roles_unreadable | Roles_unparsable | Roles_data pyval

definition load_roles_file ::
  "((pykey \<times> pyval) list \<Rightarrow> string + role_permission) \<Rightarrow> string \<Rightarrow> roles_file \<Rightarrow>
   (string \<times> role_permission) list res" where
  "load_roles_file model_validate roles_path file =
     (case file of
        Roles_unreadable \<Rightarrow> Inl (RoleLoadError (''Could not read roles file: '' @ roles_path))
      | Roles_unparsable \<Rightarrow> Inl (RoleLoadError (''Could not parse roles file: '' @ roles_path))
      | Roles_data parsed \<Rightarrow>
          (case (if truthy parsed then parsed else PDict []) of
             PDict data \<Rightarrow>
               (case map_of data (KStr ''roles'') of
                  Some (PDict raw_roles) \<Rightarrow>
                    if raw_roles = []
                    then Inl (RoleLoadError ''roles.yaml must define a non-empty roles mapping.'')
                    else load_role_entries model_validate raw_roles
                | _ \<Rightarrow> Inl (RoleLoadError ''roles.yaml must define a non-empty roles mapping.''))
           | _ \<Rightarrow> Inl (RoleLoadError ''roles.yaml must contain a mapping.'')))"

section \<open>Authorization\<close>

definition deny_role_permission :: "string \<Rightarrow> string \<Rightarrow> dict \<Rightarrow> check_result" where
  "deny_role_permission reviewer_role denied_constraint metadata =
     \<lparr>cr_allowed = False,
      cr_reason = ''Reviewer role '' @ [squote] @ reviewer_role @ [squote] @
        '' is not permitted to approve this '' @ denied_constraint @ ''.'',
      cr_metadata = dict_merge metadata
        [(''guard'', PStr ''role-permission''), (''denied_constraint'', PStr denied_constraint)]\<rparr>"

definition authorize_role_constraints ::
  "approval_request \<Rightarrow> approval_decision \<Rightarrow> string \<Rightarrow> role_permission \<Rightarrow> check_result" where
  "authorize_role_constraints request decision reviewer_role permission =
     (let base_metadata = [(''reviewer_role'', PStr reviewer_role),
            (''attempted_decided_by'', PStr (or_else (ad_decided_by decision) []))]
      in if ar_severity request \<notin> set (rp_allowed_severities permission)
           then deny_role_permission reviewer_role ''severity'' base_metadata
         else if (case rp_allowed_actions permission of None \<Rightarrow> False
                  | Some actions \<Rightarrow> ar_action request \<notin> Some ` set actions)
           then deny_role_permission reviewer_role ''action'' base_metadata
         else if (case rp_environments permission of None \<Rightarrow> False
                  | Some envs \<Rightarrow> ar_environment request \<notin> set envs)
           then deny_role_permission reviewer_role ''environment'' base_metadata
         else \<lparr>cr_allowed = True, cr_reason = ''Approval decision authorized.'', cr_metadata = base_metadata\<rparr>)"

definition authorize_role_permission ::
  "authorization_engine \<Rightarrow> approval_request \<Rightarrow> approval_decision \<Rightarrow> check_result option" where
  "authorize_role_permission eng request decision =
     (if role_permissions eng = [] then None
      else
        let attempted = (''attempted_decided_by'', PStr (or_else (ad_decided_by decision) []));
            missing = \<lparr>cr_allowed = False, cr_reason = ''Approval decision is missing reviewer role.'',
              cr_metadata = [(''guard'', PStr ''role-permission''), attempted,
                (''denied_constraint'', PStr ''reviewer_role'')]\<rparr>
        in case map_of (ad_metadata decision) ''reviewer_role'' of
             Some (PStr reviewer_role) \<Rightarrow>
               if strip reviewer_role = [] then Some missing
               else
                 let normalized_role = lower (strip reviewer_role)
                 in (case map_of (role_permissions eng) normalized_role of
                      None \<Rightarrow> Some \<lparr>cr_allowed = False,
                        cr_reason = ''Reviewer role '' @ [squote] @ reviewer_role @ [squote] @ '' is not configured.'',
                        cr_metadata = [(''guard'', PStr ''role-permission''), attempted,
                          (''reviewer_role'', PStr normalized_role),
                          (''denied_constraint'', PStr ''reviewer_role'')]\<rparr>
                    | Some permission \<Rightarrow>
                        Some (authorize_role_constraints request decision normalized_role permission))
           | _ \<Rightarrow> Some missing)"

definition authorize_reviewer_permission ::
  "authorization_engine \<Rightarrow> approval_decision \<Rightarrow> check_result option" where
  "authorize_reviewer_permission eng decision =
     (let decided_by = or_else (ad_decided_by decision) []
      in case (case ad_decided_by decision of None \<Rightarrow> None | Some d \<Rightarrow> map_of (reviewer_permissions eng) d) of
           None \<Rightarrow>
             if reviewer_permissions eng \<noteq> []
             then Some \<lparr>cr_allowed = False, cr_reason = ''Reviewer does not have approval permission.'',
                    cr_metadata = [(''guard'', PStr ''reviewer-role''),
                      (''attempted_decided_by'', PStr decided_by)]\<rparr>
             else None
         | Some permission \<Rightarrow>
             let reviewer_role = lower (strip (rv_role permission))
             in if \<not> rv_can_approve permission
                then Some \<lparr>cr_allowed = False,
                  cr_reason = ''Reviewer role '' @ [squote] @ rv_role permission @ [squote] @
                    '' cannot approve protected actions.'',
                  cr_metadata = [(''guard'', PStr ''reviewer-role''),
                    (''attempted_decided_by'', PStr decided_by), (''reviewer_role'', PStr reviewer_role)]\<rparr>
                else Some \<lparr>cr_allowed = True, cr_reason = ''Approval decision authorized.'',
                  cr_metadata = [(''reviewer_role'', PStr reviewer_role)]\<rparr>)"

definition authorize ::
  "authorization_engine \<Rightarrow> approval_request \<Rightarrow> approval_decision \<Rightarrow> approval_status \<Rightarrow> check_result" where
  "authorize eng request decision current_status =
     (let transition = validate_transition current_status (ad_status decision)
      in if \<not> cr_allowed transition
           then \<lparr>cr_allowed = False, cr_reason = cr_reason transition, cr_metadata = cr_metadata transition\<rparr>
         else if ad_status decision = REJECTED
           then \<lparr>cr_allowed = True, cr_reason = ''Approval rejection authorized.'', cr_metadata = []\<rparr>
         else case ad_decided_by decision of
             None \<Rightarrow> \<lparr>cr_allowed = False, cr_reason = ''Approval decision is missing reviewer identity.'',
               cr_metadata = [(''guard'', PStr ''reviewer-identity'')]\<rparr>
           | Some decided_by \<Rightarrow>
               if decided_by = ar_requested_by request
               then \<lparr>cr_allowed = False, cr_reason = ''Requester cannot approve their own approval request.'',
                 cr_metadata = [(''guard'', PStr ''self-approval''), (''attempted_decided_by'', PStr decided_by)]\<rparr>
               else (case authorize_role_permission eng request decision of
                   Some result \<Rightarrow> result
                 | None \<Rightarrow> (case authorize_reviewer_permission eng decision of
                       Some result \<Rightarrow> result
                     | None \<Rightarrow> \<lparr>cr_allowed = True, cr_reason = ''Approval decision authorized.'',
                         cr_metadata = []\<rparr>)))"

section \<open>The rule that authorization implements\<close>

text \<open>
  Who may grant an approval: a named reviewer other than the requester who, where roles are configured,
  claims a configured role that covers the request's severity, action and environment, and otherwise,
  where reviewers are configured, is one of those who can approve.
\<close>

definition role_covers :: "role_permission \<Rightarrow> approval_request \<Rightarrow> bool" where
  "role_covers p request =
     (ar_severity request \<in> set (rp_allowed_severities p) \<and>
      (\<forall>actions. rp_allowed_actions p = Some actions \<longrightarrow> (\<exists>a \<in> set actions. ar_action request = Some a)) \<and>
      (\<forall>envs. rp_environments p = Some envs \<longrightarrow> ar_environment request \<in> set envs))"

definition may_grant :: "authorization_engine \<Rightarrow> approval_request \<Rightarrow> approval_decision \<Rightarrow> bool" where
  "may_grant eng request decision =
     (\<exists>reviewer. ad_decided_by decision = Some reviewer \<and> reviewer \<noteq> ar_requested_by request \<and>
        (if role_permissions eng \<noteq> []
         then (\<exists>claimed p. map_of (ad_metadata decision) ''reviewer_role'' = Some (PStr claimed) \<and>
                 strip claimed \<noteq> [] \<and> map_of (role_permissions eng) (lower (strip claimed)) = Some p \<and>
                 role_covers p request)
         else reviewer_permissions eng = [] \<or>
           (\<exists>p. map_of (reviewer_permissions eng) reviewer = Some p \<and> rv_can_approve p)))"

lemma transition_allowed_iff [simp]:
  "cr_allowed (validate_transition s t) \<longleftrightarrow> s = PENDING \<and> t \<noteq> PENDING"
  by (cases s; cases t) (simp_all add: validate_transition_def ALLOWED_TRANSITIONS_def)

lemma role_constraints_iff:
  "cr_allowed (authorize_role_constraints request decision role p) \<longleftrightarrow> role_covers p request"
  by (auto simp: authorize_role_constraints_def deny_role_permission_def role_covers_def Let_def
      split: option.splits)

lemma role_permission_result:
  "case authorize_role_permission eng request decision of
     None \<Rightarrow> role_permissions eng = []
   | Some r \<Rightarrow> role_permissions eng \<noteq> [] \<and>
       (cr_allowed r \<longleftrightarrow> (\<exists>claimed p. map_of (ad_metadata decision) ''reviewer_role'' = Some (PStr claimed) \<and>
          strip claimed \<noteq> [] \<and> map_of (role_permissions eng) (lower (strip claimed)) = Some p \<and>
          role_covers p request))"
  by (auto simp: authorize_role_permission_def Let_def role_constraints_iff split: option.splits pyval.splits)

lemma reviewer_permission_result:
  assumes "ad_decided_by decision = Some reviewer"
  shows "case authorize_reviewer_permission eng decision of
     None \<Rightarrow> reviewer_permissions eng = []
   | Some r \<Rightarrow> reviewer_permissions eng \<noteq> [] \<and>
       (cr_allowed r \<longleftrightarrow> (\<exists>p. map_of (reviewer_permissions eng) reviewer = Some p \<and> rv_can_approve p))"
  using assms by (auto simp: authorize_reviewer_permission_def Let_def split: option.splits)

text \<open>
  (C9) Authorization implements the approval rule exactly: a decision takes effect only on a pending
  approval; a rejection then always does, and a grant does precisely when its reviewer is named, is not
  the requester, and holds the configured permission for the request.
\<close>

theorem authorize_iff:
  "cr_allowed (authorize eng request decision status) \<longleftrightarrow>
     status = PENDING \<and>
     (ad_status decision = REJECTED \<or> ad_status decision = APPROVED \<and> may_grant eng request decision)"
proof (cases "ad_decided_by decision")
  case None
  then show ?thesis
    by (cases "ad_status decision") (auto simp: authorize_def may_grant_def Let_def)
next
  case (Some reviewer)
  then show ?thesis
    using role_permission_result [where eng = eng and request = request and decision = decision]
      reviewer_permission_result [OF Some, where eng = eng]
    by (cases "ad_status decision") (auto simp: authorize_def may_grant_def Let_def split: option.splits)
qed

end
