(* ===== verification/Json.thy ===== *)
theory Json
  imports Models "HOL-Library.List_Lexorder" "HOL-Library.Char_ord"
begin

text \<open>
  \<open>json.dumps(value, sort_keys=True, separators=(",", ":"))\<close>, the text that the audit log and the approval
  receipts hash, as a function on values, and the proof that the text determines the value. The values
  that reach it have been through redaction, so their dictionaries have string keys.
\<close>

section \<open>The text\<close>

definition json_char :: "char \<Rightarrow> string" where
  "json_char c = (let n = codept c in
     if c = dquote \<or> n = 92 then [CHR 0x5C, c]
     else if n = 10 then [CHR 0x5C, CHR ''n'']
     else if n = 13 then [CHR 0x5C, CHR ''r'']
     else if n = 9 then [CHR 0x5C, CHR ''t'']
     else if n = 12 then [CHR 0x5C, CHR ''f'']
     else if n = 8 then [CHR 0x5C, CHR ''b'']
     else if n < 32 \<or> 126 < n
       then [CHR 0x5C, CHR ''u'', CHR ''0'', CHR ''0'', hex_digit (n div 16), hex_digit (n mod 16)]
     else [c])"

definition json_quote :: "string \<Rightarrow> string" where
  "json_quote s = dquote # concat (map json_char s) @ [dquote]"

definition json_float :: "string \<Rightarrow> string" where
  "json_float r = (if r = ''inf'' then ''Infinity'' else if r = ''-inf'' then ''-Infinity''
     else if r = ''nan'' then ''NaN'' else r)"

fun json_key :: "pykey \<Rightarrow> string" where
  "json_key (KStr s) = s"
| "json_key (KInt i) = show_int i"
| "json_key (KBool b) = (if b then ''true'' else ''false'')"
| "json_key KNone = ''null''"

text \<open>
  The text is written in two steps: a value is read as a tree of literals, strings, arrays and objects
  with sorted keys, and the tree is written out.
\<close>

datatype jtree = JLit string | JStr string | JArr "jtree list" | JObj "(string \<times> jtree) list"

fun json_tree :: "pyval \<Rightarrow> jtree" where
  "json_tree PNone = JLit ''null''"
| "json_tree (PBool b) = JLit (if b then ''true'' else ''false'')"
| "json_tree (PInt i) = JLit (show_int i)"
| "json_tree (PFloat r) = JLit (json_float r)"
| "json_tree (PStr s) = JStr s"
| "json_tree (PList xs) = JArr (map json_tree xs)"
| "json_tree (PTuple xs) = JArr (map json_tree xs)"
| "json_tree (PDict kvs) =
     JObj (sort_key fst (map (\<lambda>kv. (json_key (fst kv), json_tree (snd kv))) kvs))"

text \<open>A bracketed sequence: the items with commas between them and the closing bracket.\<close>

fun json_close :: "char \<Rightarrow> string list \<Rightarrow> string" where
  "json_close c [] = [c]"
| "json_close c [s] = s @ [c]"
| "json_close c (s # t # ss) = s @ '','' @ json_close c (t # ss)"

fun jtree_text :: "jtree \<Rightarrow> string" where
  "jtree_text (JLit s) = s"
| "jtree_text (JStr s) = json_quote s"
| "jtree_text (JArr ts) = ''['' @ json_close (CHR '']'') (map jtree_text ts)"
| "jtree_text (JObj kts) =
     ''{'' @ json_close (CHR ''}'') (map (\<lambda>kt. json_quote (fst kt) @ '':'' @ jtree_text (snd kt)) kts)"

definition json_dumps :: "pyval \<Rightarrow> string" where
  "json_dumps v = jtree_text (json_tree v)"

section \<open>The text determines the tree\<close>

definition plain_lit :: "string \<Rightarrow> bool" where
  "plain_lit s = (s \<noteq> [] \<and> list_all (\<lambda>c. c \<notin> set '',]}[{:'' \<and> c \<noteq> dquote) s)"

fun jtree_ok :: "jtree \<Rightarrow> bool" where
  "jtree_ok (JLit s) = plain_lit s"
| "jtree_ok (JStr s) = True"
| "jtree_ok (JArr ts) = (\<forall>t \<in> set ts. jtree_ok t)"
| "jtree_ok (JObj kts) = (\<forall>kt \<in> set kts. jtree_ok (snd kt))"

text \<open>What may follow a value in a text.\<close>

definition ends_value :: "string \<Rightarrow> bool" where
  "ends_value r = (case r of [] \<Rightarrow> True | c # _ \<Rightarrow> c \<in> set '',]}'')"

lemma ends_value_simps [simp]:
  "ends_value []" "ends_value (CHR '','' # r)" "ends_value (CHR '']'' # r)" "ends_value (CHR ''}'' # r)"
  by (simp_all add: ends_value_def)

text \<open>Reading one escaped character back.\<close>

definition hex_value :: "char \<Rightarrow> nat" where
  "hex_value c = (if codept c < 58 then codept c - 48 else codept c - 87)"

definition unescape :: "string \<Rightarrow> char option \<times> string" where
  "unescape s =
     (if codept (hd s) \<noteq> 92 then (if hd s = dquote then None else Some (hd s), tl s)
      else if s ! 1 = CHR ''u''
        then (Some (char_of (16 * hex_value (s ! 4) + hex_value (s ! 5))), drop 6 s)
      else (Some (if s ! 1 = CHR ''n'' then CHR 0x0A else if s ! 1 = CHR ''r'' then CHR 0x0D
        else if s ! 1 = CHR ''t'' then CHR 0x09 else if s ! 1 = CHR ''f'' then CHR 0x0C
        else if s ! 1 = CHR ''b'' then CHR 0x08 else s ! 1), drop 2 s))"

lemma hex_value_digit: "n < 16 \<Longrightarrow> hex_value (hex_digit n) = n"
  by (auto simp: hex_value_def hex_digit_def)

lemma unescape_char: "unescape (json_char c @ r) = (Some c, r)"
proof -
  have n: "codept c < 256" by simp
  let ?S = "{34, 92, 10, 13, 9, 12, 8 :: nat}"
  let ?L = "[CHR 0x22, CHR 0x5C, CHR 0x0A, CHR 0x0D, CHR 0x09, CHR 0x0C, CHR 0x08]"
  have L: "c \<in> set ?L" if "codept c \<in> ?S"
  proof -
    have "codept ` set ?L = ?S" by simp
    with that have "codept c \<in> (of_char :: char \<Rightarrow> nat) ` set ?L" by argo
    moreover have "inj (of_char :: char \<Rightarrow> nat)" by (rule injI) simp
    ultimately show ?thesis by (metis inj_image_mem_iff)
  qed
  consider (special) "c \<in> set ?L"
    | (hex) "codept c \<notin> ?S" "codept c < 32 \<or> 126 < codept c"
    | (plain) "codept c \<notin> ?S" "32 \<le> codept c" "codept c \<le> 126"
    using L by (meson leI)
  then show ?thesis
  proof cases
    case special
    then show ?thesis
      by (simp, elim disjE) (simp_all add: json_char_def unescape_def)
  next
    case hex
    then have "c \<noteq> dquote" by auto
    with hex n have "json_char c =
        [CHR 0x5C, CHR ''u'', CHR ''0'', CHR ''0'', hex_digit (codept c div 16), hex_digit (codept c mod 16)]"
      by (simp add: json_char_def Let_def)
    moreover have "codept c div 16 < 16" using n by (simp add: div_less_iff_less_mult)
    ultimately show ?thesis
      by (simp add: unescape_def hex_value_digit)
  next
    case plain
    then have "c \<noteq> dquote" by auto
    with plain show ?thesis
      by (simp add: json_char_def unescape_def)
  qed
qed

lemma unescape_quote: "unescape (dquote # r) = (None, r)"
  by (simp add: unescape_def)

lemma json_chars_inj:
  "concat (map json_char s) @ dquote # r = concat (map json_char s') @ dquote # r' \<Longrightarrow> s = s' \<and> r = r'"
proof (induction s arbitrary: s')
  case Nil
  then show ?case
    by (cases s') (simp_all, metis append_assoc option.distinct(1) prod.inject unescape_char unescape_quote)
next
  case (Cons c s)
  then obtain c' t where s': "s' = c' # t"
    by (cases s') (simp_all, metis append_assoc option.distinct(1) prod.inject unescape_char unescape_quote)
  from Cons.prems have "unescape (json_char c @ concat (map json_char s) @ dquote # r) =
      unescape (json_char c' @ concat (map json_char t) @ dquote # r')"
    by (simp add: s')
  then have "c = c'" and "concat (map json_char s) @ dquote # r = concat (map json_char t) @ dquote # r'"
    by (simp_all add: unescape_char)
  with Cons.IH s' show ?case by blast
qed

lemma json_quote_inj: "json_quote s @ r = json_quote s' @ r' \<Longrightarrow> s = s' \<and> r = r'"
  using json_chars_inj [of s r s' r'] by (simp add: json_quote_def)

text \<open>Bracketed sequences of items that can each be read off the front of a text.\<close>

definition readable :: "('a \<Rightarrow> bool) \<Rightarrow> ('a \<Rightarrow> string) \<Rightarrow> 'a \<Rightarrow> bool" where
  "readable ok f x = (\<forall>y r r'. ok y \<longrightarrow> ends_value r \<longrightarrow> ends_value r' \<longrightarrow>
     f x @ r = f y @ r' \<longrightarrow> x = y \<and> r = r')"

lemma readableD:
  "readable ok f x \<Longrightarrow> ok y \<Longrightarrow> ends_value r \<Longrightarrow> ends_value r' \<Longrightarrow> f x @ r = f y @ r' \<Longrightarrow> x = y \<and> r = r'"
  unfolding readable_def by blast

definition json_tail :: "char \<Rightarrow> string list \<Rightarrow> string" where
  "json_tail c ss = (if ss = [] then [c] else CHR '','' # json_close c ss)"

lemma json_close_Cons: "json_close c (s # ss) = s @ json_tail c ss"
  by (cases ss) (simp_all add: json_tail_def)

lemma hd_json_close: "s \<noteq> [] \<Longrightarrow> hd (json_close c (s # ss) @ r) = hd s"
  by (simp add: json_close_Cons)

lemma json_close_inj:
  assumes "\<forall>x \<in> set xs. readable ok f x" and "\<forall>y \<in> set ys. ok y"
    and start: "\<And>x. ok x \<Longrightarrow> f x \<noteq> [] \<and> hd (f x) \<noteq> c" and "\<forall>x \<in> set xs. ok x"
    and c: "c \<in> {CHR '']'', CHR ''}''}"
    and "json_close c (map f xs) @ r = json_close c (map f ys) @ r'"
  shows "xs = ys \<and> r = r'"
  using assms(1,2,4,6)
proof (induction xs arbitrary: ys)
  case Nil
  have "ys = []"
  proof (rule ccontr)
    assume "ys \<noteq> []"
    then obtain y ys' where "ys = y # ys'" by (cases ys) auto
    with Nil.prems(4) have "c = hd (json_close c (f y # map f ys') @ r')"
      by (metis append_Cons json_close.simps(1) list.sel(1) list.simps(8,9))
    then show False
      using start [of y] Nil.prems(2) \<open>ys = y # ys'\<close> hd_json_close by simp
  qed
  with Nil.prems(4) show ?case by simp
next
  case (Cons x xs)
  have "ys \<noteq> []"
  proof
    assume "ys = []"
    with Cons.prems(4) have "hd (json_close c (f x # map f xs) @ r) = c" by simp
    then show False
      using start [of x] Cons.prems(3) hd_json_close by simp
  qed
  then obtain y ys' where ys: "ys = y # ys'" by (cases ys) auto
  have "f x @ json_tail c (map f xs) @ r = f y @ json_tail c (map f ys') @ r'"
    using Cons.prems(4) by (simp add: ys json_close_Cons)
  moreover have "ends_value (json_tail c zs @ s)" for zs s
    using c by (auto simp: json_tail_def)
  ultimately have "x = y \<and> json_tail c (map f xs) @ r = json_tail c (map f ys') @ r'"
    using readableD [of ok f x y] Cons.prems(1,2) ys by (metis list.set_intros(1))
  then have "x = y" and rest: "json_tail c (map f xs) @ r = json_tail c (map f ys') @ r'" by blast+
  from rest c have "json_close c (map f xs) @ r = json_close c (map f ys') @ r'"
    by (auto simp: json_tail_def split: if_splits)
  then have "xs = ys' \<and> r = r'"
    using Cons.IH [of ys'] Cons.prems ys by simp
  with \<open>x = y\<close> ys show ?case by simp
qed

text \<open>The first character tells the four kinds of tree apart.\<close>

definition jtree_kind :: "jtree \<Rightarrow> char option" where
  "jtree_kind t = (case t of JLit _ \<Rightarrow> None | JStr _ \<Rightarrow> Some dquote
     | JArr _ \<Rightarrow> Some (CHR ''['') | JObj _ \<Rightarrow> Some (CHR ''{''))"

lemma jtree_text_start:
  assumes "jtree_ok t"
  shows "jtree_text t \<noteq> []" and "hd (jtree_text t) \<notin> set '',]}:''"
    and "jtree_kind t = (if hd (jtree_text t) \<in> {dquote, CHR ''['', CHR ''{''}
      then Some (hd (jtree_text t)) else None)"
proof -
  have "jtree_text t \<noteq> [] \<and> hd (jtree_text t) \<notin> set '',]}:'' \<and>
      jtree_kind t = (if hd (jtree_text t) \<in> {dquote, CHR ''['', CHR ''{''}
        then Some (hd (jtree_text t)) else None)"
  proof (cases t)
    case (JLit s)
    with assms show ?thesis by (cases s) (auto simp: plain_lit_def jtree_kind_def)
  qed (auto simp: json_quote_def jtree_kind_def)
  then show "jtree_text t \<noteq> []" and "hd (jtree_text t) \<notin> set '',]}:''"
    and "jtree_kind t = (if hd (jtree_text t) \<in> {dquote, CHR ''['', CHR ''{''}
      then Some (hd (jtree_text t)) else None)" by blast+
qed

lemma plain_lit_inj:
  assumes "plain_lit s" "plain_lit s'" "ends_value r" "ends_value r'" "s @ r = s' @ r'"
  shows "s = s' \<and> r = r'"
proof -
  define P where "P c = (c \<notin> set '',]}[{:'' \<and> c \<noteq> dquote)" for c
  have "takeWhile P (u @ v) = u" if "plain_lit u" "ends_value v" for u v
  proof -
    have "\<forall>c \<in> set u. P c" using that(1) by (simp add: plain_lit_def P_def list_all_iff)
    moreover have "takeWhile P v = []" using that(2) by (cases v) (auto simp: ends_value_def P_def)
    ultimately show ?thesis by (simp add: takeWhile_append2)
  qed
  then have "s = s'" using assms by metis
  with assms(5) show ?thesis by simp
qed

lemma jtree_text_readable: "jtree_ok t \<Longrightarrow> readable jtree_ok jtree_text t"
proof (induction t)
  case (JLit s)
  show ?case unfolding readable_def
  proof (intro allI impI)
    fix y r r'
    assume y: "jtree_ok y" and r: "ends_value r" "ends_value r'" and eq: "jtree_text (JLit s) @ r = jtree_text y @ r'"
    then have "jtree_kind y = jtree_kind (JLit s)"
      using jtree_text_start [OF y] jtree_text_start [OF JLit] by (metis hd_append2)
    then obtain s' where "y = JLit s'" by (cases y) (auto simp: jtree_kind_def)
    with plain_lit_inj [of s s' r r'] JLit y r eq show "JLit s = y \<and> r = r'" by simp
  qed
next
  case (JStr s)
  show ?case unfolding readable_def
  proof (intro allI impI)
    fix y r r'
    assume y: "jtree_ok y" and eq: "jtree_text (JStr s) @ r = jtree_text y @ r'"
    then have "jtree_kind y = jtree_kind (JStr s)"
      using jtree_text_start [OF y] jtree_text_start [OF JStr] by (metis hd_append2)
    then obtain s' where "y = JStr s'" by (cases y) (auto simp: jtree_kind_def)
    with json_quote_inj [of s r s' r'] eq show "JStr s = y \<and> r = r'" by simp
  qed
next
  case (JArr ts)
  show ?case unfolding readable_def
  proof (intro allI impI)
    fix y r r'
    assume y: "jtree_ok y" and eq: "jtree_text (JArr ts) @ r = jtree_text y @ r'"
    then have "jtree_kind y = jtree_kind (JArr ts)"
      using jtree_text_start [OF y] jtree_text_start [OF JArr.prems] by (metis hd_append2)
    then obtain us where us: "y = JArr us" by (cases y) (auto simp: jtree_kind_def)
    have "ts = us \<and> r = r'"
    proof (rule json_close_inj [of ts jtree_ok jtree_text us "CHR '']''"])
      show "\<forall>x\<in>set ts. readable jtree_ok jtree_text x" using JArr by simp
      show "jtree_text x \<noteq> [] \<and> hd (jtree_text x) \<noteq> CHR '']''" if "jtree_ok x" for x
        using jtree_text_start(1,2) [OF that] by auto
    qed (use JArr.prems y us eq in auto)
    with us show "JArr ts = y \<and> r = r'" by simp
  qed
next
  case (JObj kts)
  let ?f = "\<lambda>kt. json_quote (fst kt) @ '':'' @ jtree_text (snd kt)"
  let ?ok = "\<lambda>kt :: string \<times> jtree. jtree_ok (snd kt)"
  have read: "readable ?ok ?f kt" if "kt \<in> set kts" for kt
    unfolding readable_def
  proof (intro allI impI)
    fix y r r'
    assume y: "?ok y" and r: "ends_value r" "ends_value r'" and eq: "?f kt @ r = ?f y @ r'"
    then have "fst kt = fst y \<and> '':'' @ jtree_text (snd kt) @ r = '':'' @ jtree_text (snd y) @ r'"
      by (intro json_quote_inj) simp
    moreover have "readable jtree_ok jtree_text (snd kt)"
      using JObj.IH [of kt "snd kt"] JObj.prems that by (cases kt) auto
    ultimately show "kt = y \<and> r = r'"
      using readableD [of jtree_ok jtree_text "snd kt" "snd y" r r'] y r by (auto intro: prod_eqI)
  qed
  show ?case unfolding readable_def
  proof (intro allI impI)
    fix y r r'
    assume y: "jtree_ok y" and eq: "jtree_text (JObj kts) @ r = jtree_text y @ r'"
    then have "jtree_kind y = jtree_kind (JObj kts)"
      using jtree_text_start [OF y] jtree_text_start [OF JObj.prems] by (metis hd_append2)
    then obtain us where us: "y = JObj us" by (cases y) (auto simp: jtree_kind_def)
    have "kts = us \<and> r = r'"
      by (rule json_close_inj [of kts ?ok ?f us "CHR ''}''"])
        (use JObj.prems y us eq read in \<open>auto simp: json_quote_def\<close>)
    with us show "JObj kts = y \<and> r = r'" by simp
  qed
qed

lemma jtree_text_inj:
  "jtree_ok t \<Longrightarrow> jtree_ok u \<Longrightarrow> jtree_text t = jtree_text u \<Longrightarrow> t = u"
  using readableD [OF jtree_text_readable, of t u "[]" "[]"] by simp

section \<open>The text determines the value up to the order of keys\<close>

text \<open>The float texts are those that \<open>repr\<close> writes: no brackets, quotes, commas or colons.\<close>

fun plain_floats :: "pyval \<Rightarrow> bool" where
  "plain_floats (PFloat r) = plain_lit r"
| "plain_floats (PList xs) = (\<forall>x \<in> set xs. plain_floats x)"
| "plain_floats (PTuple xs) = (\<forall>x \<in> set xs. plain_floats x)"
| "plain_floats (PDict kvs) = (\<forall>kv \<in> set kvs. plain_floats (snd kv))"
| "plain_floats v = True"

lemma codept_char_of: "n < 256 \<Longrightarrow> codept (char_of n) = (n :: nat)"
  by simp

lemma digit_plain: "n < 10 \<Longrightarrow> char_of (48 + n :: nat) \<notin> set '',]}[{:'' \<and> char_of (48 + n :: nat) \<noteq> dquote"
  by (auto dest!: arg_cong [where f = "of_char :: char \<Rightarrow> nat"])

lemma digits_of_plain: "plain_lit (digits_of n)"
proof (induction n rule: digits_of.induct)
  case (1 n)
  then show ?case
    using digit_plain [of "n mod 10"] digit_plain [of n]
    by (subst digits_of.simps) (auto simp: plain_lit_def)
qed

lemma show_int_plain: "plain_lit (show_int i)"
  using digits_of_plain by (auto simp: show_int_def plain_lit_def)

lemma json_tree_ok: "plain_floats v \<Longrightarrow> jtree_ok (json_tree v)"
proof (induction v rule: json_tree.induct)
  case (3 i)
  show ?case by (simp add: show_int_plain)
qed (auto simp: plain_lit_def json_float_def)

lemma json_dumps_tree:
  "plain_floats v \<Longrightarrow> plain_floats w \<Longrightarrow> json_dumps v = json_dumps w \<Longrightarrow> json_tree v = json_tree w"
  unfolding json_dumps_def by (rule jtree_text_inj [OF json_tree_ok json_tree_ok])

lemma json_tree_dict_val:
  "json_tree (dict_val d) = JObj (sort_key fst (map (\<lambda>(k, v). (k, json_tree v)) d))"
  unfolding dict_val_def by (simp add: split_beta' comp_def)

lemma json_tree_dict_lookup:
  assumes "json_tree (dict_val d) = json_tree (dict_val d')"
    and "distinct (map fst d)" and "distinct (map fst d')"
  shows "map_option json_tree (map_of d k) = map_option json_tree (map_of d' k)"
proof -
  have look: "map_of (sort_key fst (map (\<lambda>(k, v). (k, json_tree v)) e)) k = map_option json_tree (map_of e k)"
    if "distinct (map fst e)" for e :: dict
  proof -
    let ?e = "map (\<lambda>(k, v). (k, json_tree v)) e"
    have d: "distinct (map fst ?e)" using that by (simp add: comp_def case_prod_beta)
    have "map_of (sort_key fst ?e) = map_of ?e" by (rule map_of_sort_key [OF d])
    then show ?thesis by (simp add: map_of_map)
  qed
  from assms(1) show ?thesis
    unfolding json_tree_dict_val jtree.inject
    using look [OF assms(2)] look [OF assms(3)] by metis
qed

end
