(* ===== verification/Approval.thy ===== *)
theory Approval
  imports Approval_Auth Json
begin

text \<open>
  \<open>src/rygnal/approval_receipt.py\<close> and \<open>approval.py\<close>: the receipt hash that binds an approval to its
  request, and the workflow that asks a resolver, authorizes its answer and signs a grant. The digest
  \<open>sha256\<close> (hex text of a text) is an argument, as are the resolver and the generated ids and times.
\<close>

section \<open>Canonical payload\<close>

definition ReceiptError :: "string \<Rightarrow> string \<Rightarrow> py_exn" where
  "ReceiptError kind msg = Exn ValueErr kind msg"

definition ApprovalReceiptPayloadError :: "string \<Rightarrow> string \<Rightarrow> py_exn" where
  "ApprovalReceiptPayloadError approval_id reason = ReceiptError ''ApprovalReceiptPayloadError''
     (''Invalid approval receipt payload for approval '' @ [squote] @ approval_id @ [squote] @ '': '' @ reason @ ''.'')"

text \<open>How deep a value is nested; redaction never makes it deeper.\<close>

fun depth :: "pyval \<Rightarrow> nat" where
  "depth (PList xs) = Suc (Max (insert 0 (set (map depth xs))))"
| "depth (PTuple xs) = Suc (Max (insert 0 (set (map depth xs))))"
| "depth (PDict kvs) = Suc (Max (insert 0 (set (map (\<lambda>kv. depth (snd kv)) kvs))))"
| "depth v = 0"

lemma depth_le_iff:
  "depth (PList xs) \<le> Suc n \<longleftrightarrow> (\<forall>x \<in> set xs. depth x \<le> n)"
  "depth (PTuple xs) \<le> Suc n \<longleftrightarrow> (\<forall>x \<in> set xs. depth x \<le> n)"
  "depth (PDict kvs) \<le> Suc n \<longleftrightarrow> (\<forall>kv \<in> set kvs. depth (snd kv) \<le> n)"
  by auto

lemma depth_item:
  "x \<in> set xs \<Longrightarrow> depth x < depth (PList xs)"
  "x \<in> set xs \<Longrightarrow> depth x < depth (PTuple xs)"
  "kv \<in> set kvs \<Longrightarrow> depth (snd kv) < depth (PDict kvs)"
  by (simp_all add: less_Suc_eq_le Max_ge_iff)

lemma redact_depth: "redact_sensitive_value v = Inr w \<Longrightarrow> depth w \<le> depth v"
proof (induction v arbitrary: w rule: redact_sensitive_value.induct)
  case (1 kvs)
  from "1.prems" obtain out where w: "w = PDict out"
    and out: "rmap (\<lambda>kv. case fst kv of
         KStr k \<Rightarrow> if is_sensitive_key k then Inr (KStr k, PStr REDACTED)
                   else rbind (redact_sensitive_value (snd kv)) (\<lambda>v. Inr (KStr k, v))
       | k \<Rightarrow> Inl (key_error k)) kvs = Inr out"
    by (auto simp: res_simps simp del: rmap.simps)
  obtain n where n: "depth (PDict kvs) = Suc n" by simp
  have "\<forall>o' \<in> set out. depth (snd o') \<le> n"
  proof (rule rmap_set [OF out])
    fix kv o'
    assume kv: "kv \<in> set kvs" and "(case fst kv of
         KStr k \<Rightarrow> if is_sensitive_key k then Inr (KStr k, PStr REDACTED)
                   else rbind (redact_sensitive_value (snd kv)) (\<lambda>v. Inr (KStr k, v))
       | k \<Rightarrow> Inl (key_error k)) = Inr o'"
    with "1.IH" [of kv] have "depth (snd o') \<le> depth (snd kv)"
      by (auto simp: res_simps split: pykey.splits if_splits)
    also have "\<dots> \<le> n" using depth_item(3) [OF kv] n by simp
    finally show "depth (snd o') \<le> n" .
  qed
  then show ?case using n depth_le_iff(3) [of out n] w by simp
next
  case (2 xs)
  obtain n where n: "depth (PList xs) = Suc n" by simp
  from "2.prems" obtain ys where w: "w = PList ys" and ys: "rmap redact_sensitive_value xs = Inr ys"
    by (auto simp: res_simps simp del: rmap.simps)
  have "\<forall>y \<in> set ys. depth y \<le> n"
    by (rule rmap_set [OF ys]) (use "2.IH" depth_item(1) n in fastforce)
  then show ?case using n depth_le_iff(1) [of ys n] w by simp
next
  case (3 xs)
  obtain n where n: "depth (PTuple xs) = Suc n" by simp
  from "3.prems" obtain ys where w: "w = PTuple ys" and ys: "rmap redact_sensitive_value xs = Inr ys"
    by (auto simp: res_simps simp del: rmap.simps)
  have "\<forall>y \<in> set ys. depth y \<le> n"
    by (rule rmap_set [OF ys]) (use "3.IH" depth_item(2) n in fastforce)
  then show ?case using n depth_le_iff(2) [of ys n] w by simp
qed auto

lemma redacted_item:
  "redact_sensitive_value v = Inr (PList xs) \<Longrightarrow> x \<in> set xs \<Longrightarrow> depth x < depth v"
  "redact_sensitive_value v = Inr (PTuple xs) \<Longrightarrow> x \<in> set xs \<Longrightarrow> depth x < depth v"
  "redact_sensitive_value v = Inr (PDict kvs) \<Longrightarrow> kv \<in> set kvs \<Longrightarrow> depth (snd kv) < depth v"
  "redact_sensitive_value v = Inr (PDict kvs) \<Longrightarrow> (k, w) \<in> set kvs \<Longrightarrow> depth w < depth v"
  using depth_item redact_depth by (meson less_le_trans, meson less_le_trans, meson less_le_trans)
    (metis depth_item(3) less_le_trans redact_depth snd_conv)

text \<open>\<open>_stable_json_value\<close>: redaction is applied again at every level, keys are sorted, tuples become lists.\<close>

function stable_json_value :: "pyval \<Rightarrow> pyval res" where
  "stable_json_value value =
     (case redact_sensitive_value value of
        Inl e \<Rightarrow> Inl e
      | Inr redacted \<Rightarrow>
         (case redacted of
            PDict kvs \<Rightarrow>
              rbind (rmap (\<lambda>kv. rbind (stable_json_value (snd kv)) (\<lambda>v. Inr (KStr (key_text (fst kv)), v)))
                (sort_key (\<lambda>kv. key_text (fst kv)) kvs)) (\<lambda>out. Inr (PDict out))
          | PList xs \<Rightarrow> rbind (rmap stable_json_value xs) (\<lambda>ys. Inr (PList ys))
          | PTuple xs \<Rightarrow> rbind (rmap stable_json_value xs) (\<lambda>ys. Inr (PList ys))
          | PFloat _ \<Rightarrow> Inl (ApprovalReceiptPayloadError ''unknown''
              ''non-canonical type in receipt payload: float'')
          | v \<Rightarrow> Inr v))"
  by pat_completeness auto
termination
  by (relation "measure depth")
    (auto intro: redacted_item simp del: depth.simps)

declare stable_json_value.simps [simp del]

definition stable_dict :: "dict \<Rightarrow> dict res" where
  "stable_dict d = rmap (\<lambda>(k, v). rbind (stable_json_value v) (\<lambda>w. Inr (k, w))) (sort_key fst d)"

lemma redact_dict_val: "redact_sensitive_value (dict_val d) = rbind (redact_dict d) (\<lambda>r. Inr (dict_val r))"
proof -
  have "rmap (\<lambda>kv. case fst kv of
         KStr k \<Rightarrow> if is_sensitive_key k then Inr (KStr k, PStr REDACTED)
                   else rbind (redact_sensitive_value (snd kv)) (\<lambda>v. Inr (KStr k, v))
       | k \<Rightarrow> Inl (key_error k)) (map (\<lambda>(k, v). (KStr k, v)) d) =
      rbind (redact_dict d) (\<lambda>r. Inr (map (\<lambda>(k, v). (KStr k, v)) r))"
    by (induction d) (auto simp: redact_dict_def rbind_assoc)
  then show ?thesis
    by (simp add: dict_val_def) (cases "redact_dict d"; simp)
qed

text \<open>Data whose dictionaries have string keys can be logged.\<close>

abbreviation loggable :: "dict \<Rightarrow> bool" where
  "loggable d \<equiv> string_keys (dict_val d)"

lemma redact_dict_ok: "loggable d \<Longrightarrow> \<exists>r. redact_dict d = Inr r"
  using redact_value_total [of "dict_val d"] by (auto simp: redact_dict_val res_simps)

lemma stable_dict_val:
  "stable_json_value (dict_val d) =
     rbind (redact_dict d) (\<lambda>r. rbind (stable_dict r) (\<lambda>e. Inr (dict_val e)))"
proof (cases "redact_dict d")
  case (Inr r)
  have "rmap (\<lambda>x. rbind (stable_json_value (snd (case x of (k, v) \<Rightarrow> (KStr k, v))))
        (\<lambda>v. Inr (KStr (key_text (fst (case x of (k, v) \<Rightarrow> (KStr k, v)))), v))) xs =
      rbind (rmap (\<lambda>(k, v). rbind (stable_json_value v) (\<lambda>w. Inr (k, w))) xs)
        (\<lambda>e. Inr (map (\<lambda>(k, v). (KStr k, v)) e))" for xs :: dict
    by (induction xs) (auto simp: rbind_assoc key_text_def)
  moreover have "(\<lambda>y. key_text (fst (case y of (k, v) \<Rightarrow> (KStr k, v)))) = (fst :: string \<times> pyval \<Rightarrow> string)"
    by (auto simp: key_text_def)
  ultimately show ?thesis
    unfolding stable_json_value.simps [of "dict_val d"] redact_dict_val Inr
    by (simp add: dict_val_def sort_key_map rmap_map stable_dict_def)
       (cases "rmap (\<lambda>(k, v). rbind (stable_json_value v) (\<lambda>w. Inr (k, w))) (sort_key fst r)"; simp)
qed (simp add: stable_json_value.simps [of "dict_val d"] redact_dict_val)

section \<open>Receipts\<close>

abbreviation SCHEMA_VERSION_KEY :: string where
  "SCHEMA_VERSION_KEY \<equiv> ''approval_receipt_schema_version''"

abbreviation HASH_KEY :: string where
  "HASH_KEY \<equiv> ''approval_receipt_hash''"

definition RECEIPT_SCHEMA_VERSION :: string where
  "RECEIPT_SCHEMA_VERSION = ''approval-receipt.v1''"

datatype receipt_status = VALID | MISSING | TAMPERED

definition receipt_free_metadata :: "dict \<Rightarrow> dict" where
  "receipt_free_metadata metadata = filter (\<lambda>(k, v). k \<notin> {SCHEMA_VERSION_KEY, HASH_KEY}) metadata"

definition without_receipt_metadata :: "approval_decision \<Rightarrow> approval_decision" where
  "without_receipt_metadata decision =
     decision\<lparr>ad_metadata := receipt_free_metadata (ad_metadata decision)\<rparr>"

definition receipt_request_entries :: "approval_request \<Rightarrow> dict" where
  "receipt_request_entries request =
     [(''approval_id'', PStr (ar_approval_id request)),
      (''created_at'', PStr (ar_created_at request)),
      (''trace_id'', PStr (ar_trace_id request)),
      (''requested_by'', PStr (ar_requested_by request)),
      (''agent_id'', PStr (ar_agent_id request)),
      (''environment'', PStr (ar_environment request)),
      (''tool_name'', PStr (ar_tool_name request)),
      (''action'', opt_val (ar_action request)),
      (''target'', ar_target request),
      (''policy_id'', opt_val (ar_policy_id request)),
      (''reason'', PStr (ar_reason request)),
      (''severity'', PStr (severity_value (ar_severity request))),
      (''metadata'', dict_val (ar_metadata request))]"

definition receipt_decision_entries :: "approval_decision \<Rightarrow> dict" where
  "receipt_decision_entries decision =
     [(''approval_id'', PStr (ad_approval_id decision)),
      (''status'', PStr (approval_status_value (ad_status decision))),
      (''approved'', PBool (ad_approved decision)),
      (''decided_by'', opt_val (ad_decided_by decision)),
      (''decided_at'', opt_val (ad_decided_at decision)),
      (''reason'', PStr (ad_reason decision)),
      (''metadata'', dict_val (receipt_free_metadata (ad_metadata decision)))]"

text \<open>
  \<open>_validate_receipt_shape\<close> asks for attributes that the two record types always have, so it never
  raises here.
\<close>

definition approval_receipt_payload :: "approval_request \<Rightarrow> approval_decision \<Rightarrow> pyval res" where
  "approval_receipt_payload request decision =
     stable_json_value (dict_val
       [(''schema_version'', PStr RECEIPT_SCHEMA_VERSION),
        (''request'', dict_val (receipt_request_entries request)),
        (''decision'', dict_val (receipt_decision_entries decision))])"

definition calculate_approval_receipt_hash ::
  "(string \<Rightarrow> string) \<Rightarrow> approval_request \<Rightarrow> approval_decision \<Rightarrow> string res" where
  "calculate_approval_receipt_hash sha256 request decision =
     rbind (approval_receipt_payload request decision) (\<lambda>payload. Inr (sha256 (json_dumps payload)))"

definition attach_approval_receipt ::
  "(string \<Rightarrow> string) \<Rightarrow> approval_request \<Rightarrow> approval_decision \<Rightarrow> approval_decision res" where
  "attach_approval_receipt sha256 request decision =
     (if ad_status decision \<noteq> APPROVED \<or> \<not> ad_approved decision then Inr decision
      else
        let existing_hash = map_of (ad_metadata decision) HASH_KEY;
            unsigned_decision = without_receipt_metadata decision
        in rbind (calculate_approval_receipt_hash sha256 request unsigned_decision) (\<lambda>receipt_hash.
             if (case existing_hash of Some (PStr h) \<Rightarrow> h \<noteq> [] \<and> h \<noteq> receipt_hash | _ \<Rightarrow> False)
             then Inl (ReceiptError ''ApprovalReceiptConflictError''
                    (''Approval receipt hash conflict for approval '' @ [squote] @ ad_approval_id decision @
                     [squote] @ ''.''))
             else Inr (unsigned_decision\<lparr>ad_metadata := dict_merge (ad_metadata unsigned_decision)
                    [(SCHEMA_VERSION_KEY, PStr RECEIPT_SCHEMA_VERSION), (HASH_KEY, PStr receipt_hash)]\<rparr>)))"

definition verify_approval_receipt ::
  "(string \<Rightarrow> string) \<Rightarrow> approval_request \<Rightarrow> approval_decision \<Rightarrow> receipt_status res" where
  "verify_approval_receipt sha256 request decision =
     (case map_of (ad_metadata decision) HASH_KEY of
        Some (PStr expected_hash) \<Rightarrow>
          if expected_hash = [] then Inr MISSING
          else (case calculate_approval_receipt_hash sha256 request (without_receipt_metadata decision) of
              Inl e \<Rightarrow> if exn_type e = ''ApprovalReceiptPayloadError'' then Inr TAMPERED else Inl e
            | Inr actual_hash \<Rightarrow> Inr (if actual_hash \<noteq> expected_hash then TAMPERED else VALID))
      | _ \<Rightarrow> Inr MISSING)"

definition assert_approval_receipt_valid ::
  "(string \<Rightarrow> string) \<Rightarrow> approval_request \<Rightarrow> approval_decision \<Rightarrow> unit res" where
  "assert_approval_receipt_valid sha256 request decision =
     rbind (verify_approval_receipt sha256 request decision) (\<lambda>status.
       case status of
         VALID \<Rightarrow> Inr ()
       | MISSING \<Rightarrow> Inl (ReceiptError ''ApprovalReceiptMissingError''
           (''Approval receipt hash is missing for approval '' @ [squote] @ ad_approval_id decision @
            [squote] @ ''.''))
       | TAMPERED \<Rightarrow> Inl (ReceiptError ''ApprovalReceiptTamperedError''
           (''Approval receipt hash is invalid for approval '' @ [squote] @ ad_approval_id decision @
            [squote] @ ''.'')))"

section \<open>The workflow\<close>

type_synonym approval_resolver = "approval_request \<Rightarrow> approval_decision res"

text \<open>The ids and times that the workflow draws: \<open>new_approval_id\<close>, \<open>utc_now_iso\<close>, \<open>new_trace_id\<close>.\<close>

record approval_draws =
  draw_approval_id :: string
  draw_created_at :: string
  draw_trace_id :: string
  draw_decided_at :: string

definition reject_by_default :: "string \<Rightarrow> approval_resolver" where
  "reject_by_default now request = Inr
     \<lparr>ad_approval_id = ar_approval_id request, ad_status = REJECTED, ad_approved = False,
      ad_decided_by = Some ''system'', ad_decided_at = Some now,
      ad_reason = ''Approval workflow is not configured. Request rejected by default.'', ad_metadata = []\<rparr>"

definition approve_for_testing :: "string \<Rightarrow> string \<Rightarrow> string \<Rightarrow> approval_resolver" where
  "approve_for_testing now decided_by reason request = Inr
     \<lparr>ad_approval_id = ar_approval_id request, ad_status = APPROVED, ad_approved = True,
      ad_decided_by = Some decided_by, ad_decided_at = Some now, ad_reason = reason, ad_metadata = []\<rparr>"

definition reject_for_testing :: "string \<Rightarrow> string \<Rightarrow> string \<Rightarrow> approval_resolver" where
  "reject_for_testing now decided_by reason request = Inr
     \<lparr>ad_approval_id = ar_approval_id request, ad_status = REJECTED, ad_approved = False,
      ad_decided_by = Some decided_by, ad_decided_at = Some now, ad_reason = reason, ad_metadata = []\<rparr>"

definition DENIED_APPROVER_ROLES :: "string list" where
  "DENIED_APPROVER_ROLES = [''viewer'']"

definition build_reviewer_permissions ::
  "(string \<times> string) list \<Rightarrow> (string \<times> reviewer_permission) list \<Rightarrow> (string \<times> reviewer_permission) list"
where
  "build_reviewer_permissions reviewer_roles permissions =
     fold (\<lambda>(reviewer, role) ps. AList.update reviewer
         \<lparr>rv_role = role, rv_can_approve = lower (strip role) \<notin> set DENIED_APPROVER_ROLES\<rparr> ps)
       reviewer_roles permissions"

record approval_workflow =
  resolver :: "approval_resolver option"
  authorization :: authorization_engine

definition make_approval_workflow ::
  "approval_resolver option \<Rightarrow> (string \<times> string) list \<Rightarrow> (string \<times> reviewer_permission) list \<Rightarrow>
   (string \<times> role_permission) list \<Rightarrow> approval_workflow" where
  "make_approval_workflow res reviewer_roles permissions roles =
     \<lparr>resolver = res,
      authorization = \<lparr>reviewer_permissions = build_reviewer_permissions reviewer_roles permissions,
        role_permissions = roles\<rparr>\<rparr>"

definition workflow_from_roles_file ::
  "((pykey \<times> pyval) list \<Rightarrow> string + role_permission) \<Rightarrow> string \<Rightarrow> roles_file \<Rightarrow>
   approval_resolver option \<Rightarrow> approval_workflow res" where
  "workflow_from_roles_file model_validate roles_path file res =
     rbind (load_roles_file model_validate roles_path file)
       (\<lambda>roles. Inr (make_approval_workflow res [] [] roles))"

definition apply_authorization_result :: "string \<Rightarrow> approval_decision \<Rightarrow> check_result \<Rightarrow> approval_decision" where
  "apply_authorization_result now decision result =
     (let metadata = dict_merge (ad_metadata decision) (cr_metadata result)
      in if cr_allowed result then decision\<lparr>ad_metadata := metadata\<rparr>
         else \<lparr>ad_approval_id = ad_approval_id decision, ad_status = REJECTED, ad_approved = False,
               ad_decided_by = Some ''system'', ad_decided_at = Some now, ad_reason = cr_reason result,
               ad_metadata = metadata\<rparr>)"

definition approval_trace_id :: "approval_draws \<Rightarrow> dict \<Rightarrow> string" where
  "approval_trace_id draws metadata =
     (case map_of metadata ''trace_id'' of
        Some v \<Rightarrow> if truthy v then str_val v else draw_trace_id draws
      | None \<Rightarrow> draw_trace_id draws)"

definition make_approval_request ::
  "approval_draws \<Rightarrow> tool_request \<Rightarrow> policy_decision \<Rightarrow> dict \<Rightarrow> approval_request res" where
  "make_approval_request draws request decision risk_assessment =
     rbind (redact_dict risk_assessment) (\<lambda>risk.
     rbind (redact_dict (tr_metadata request)) (\<lambda>metadata.
       let made = \<lparr>ar_approval_id = draw_approval_id draws, ar_created_at = draw_created_at draws,
             ar_trace_id = approval_trace_id draws (tr_metadata request), ar_requested_by = user_id request,
             ar_agent_id = agent_id request, ar_environment = environment request,
             ar_tool_name = tool_name request, ar_action = tr_action request,
             ar_target = opt_val (tr_target request), ar_policy_id = pd_policy_id decision,
             ar_reason = pd_reason decision, ar_severity = pd_severity decision,
             ar_risk_assessment = risk, ar_metadata = metadata\<rparr>
       in if approval_request_valid made then Inr made
          else Inl (Exn ValueErr ''ValidationError'' ''Approval request context fields must not be blank.'')))"

definition request_approval ::
  "(string \<Rightarrow> string) \<Rightarrow> approval_draws \<Rightarrow> approval_workflow \<Rightarrow> tool_request \<Rightarrow> policy_decision \<Rightarrow> dict \<Rightarrow>
   (approval_request \<times> approval_decision) res" where
  "request_approval sha256 draws workflow request decision risk_assessment =
     rbind (make_approval_request draws request decision risk_assessment) (\<lambda>approval_request.
     rbind ((case resolver workflow of
         None \<Rightarrow> reject_by_default (draw_decided_at draws) | Some r \<Rightarrow> r) approval_request) (\<lambda>approval_decision.
       if ad_approval_id approval_decision \<noteq> ar_approval_id approval_request
       then Inl (Exn ValueErr ''ValueError'' ''Approval decision ID does not match approval request ID.'')
       else
         let result = authorize (authorization workflow) approval_request approval_decision PENDING;
             authorized_decision = apply_authorization_result (draw_decided_at draws) approval_decision result
         in rbind (attach_approval_receipt sha256 approval_request authorized_decision)
              (\<lambda>signed. Inr (approval_request, signed))))"

section \<open>What a receipt guarantees\<close>

lemma update_new: "k \<notin> fst ` set d \<Longrightarrow> AList.update k v d = d @ [(k, v)]"
  by (induction d) auto

lemma receipt_free_keys: "k \<in> {SCHEMA_VERSION_KEY, HASH_KEY} \<Longrightarrow> k \<notin> fst ` set (receipt_free_metadata m)"
  by (auto simp: receipt_free_metadata_def)

lemma sign_metadata:
  "dict_merge (receipt_free_metadata m) [(SCHEMA_VERSION_KEY, v), (HASH_KEY, h)] =
     receipt_free_metadata m @ [(SCHEMA_VERSION_KEY, v), (HASH_KEY, h)]"
  using receipt_free_keys [of SCHEMA_VERSION_KEY m] receipt_free_keys [of HASH_KEY m]
  by (simp add: dict_merge_def update_new)

lemma receipt_free_idem: "receipt_free_metadata (receipt_free_metadata m) = receipt_free_metadata m"
  by (simp add: receipt_free_metadata_def)

lemma attached_cases:
  assumes "attach_approval_receipt sha256 request decision = Inr signed"
    and "ad_status decision = APPROVED" and "ad_approved decision"
  obtains h where
    "calculate_approval_receipt_hash sha256 request (without_receipt_metadata decision) = Inr h"
    "ad_metadata signed = receipt_free_metadata (ad_metadata decision) @
       [(SCHEMA_VERSION_KEY, PStr RECEIPT_SCHEMA_VERSION), (HASH_KEY, PStr h)]"
    "without_receipt_metadata signed = without_receipt_metadata decision"
proof -
  from assms obtain h where
    h: "calculate_approval_receipt_hash sha256 request (without_receipt_metadata decision) = Inr h"
    and signed: "signed = (without_receipt_metadata decision)\<lparr>ad_metadata :=
      dict_merge (receipt_free_metadata (ad_metadata decision))
        [(SCHEMA_VERSION_KEY, PStr RECEIPT_SCHEMA_VERSION), (HASH_KEY, PStr h)]\<rparr>"
    unfolding attach_approval_receipt_def Let_def
    by (auto simp: res_simps without_receipt_metadata_def split: if_splits)
  have m: "ad_metadata signed = receipt_free_metadata (ad_metadata decision) @
       [(SCHEMA_VERSION_KEY, PStr RECEIPT_SCHEMA_VERSION), (HASH_KEY, PStr h)]"
    unfolding signed by (simp add: sign_metadata)
  moreover have "without_receipt_metadata signed = without_receipt_metadata decision"
    unfolding without_receipt_metadata_def m
    by (simp add: signed without_receipt_metadata_def receipt_free_metadata_def)
  ultimately show thesis using h that by blast
qed

lemma map_of_receipt:
  "map_of (receipt_free_metadata m @ [(SCHEMA_VERSION_KEY, v), (HASH_KEY, h)]) HASH_KEY = Some h"
proof -
  have "map_of (receipt_free_metadata m) HASH_KEY = None"
    using receipt_free_keys [of HASH_KEY m] by (simp add: map_of_eq_None_iff)
  then show ?thesis by (simp add: map_add_def)
qed

lemma attached_receipt_verifies:
  assumes "attach_approval_receipt sha256 request decision = Inr signed"
    and "ad_status decision = APPROVED" and "ad_approved decision" and "\<And>t. sha256 t \<noteq> []"
  shows "verify_approval_receipt sha256 request signed = Inr VALID"
proof -
  obtain h where h: "calculate_approval_receipt_hash sha256 request (without_receipt_metadata decision) = Inr h"
    and m: "ad_metadata signed = receipt_free_metadata (ad_metadata decision) @
       [(SCHEMA_VERSION_KEY, PStr RECEIPT_SCHEMA_VERSION), (HASH_KEY, PStr h)]"
    and w: "without_receipt_metadata signed = without_receipt_metadata decision"
    by (rule attached_cases [OF assms(1-3)])
  from h assms(4) have "h \<noteq> []"
    by (auto simp: calculate_approval_receipt_hash_def res_simps)
  moreover have "map_of (ad_metadata signed) HASH_KEY = Some (PStr h)"
    unfolding m by (rule map_of_receipt)
  ultimately show ?thesis
    by (simp add: verify_approval_receipt_def w h)
qed

text \<open>The text that a receipt is the digest of.\<close>

definition receipt_text :: "approval_request \<Rightarrow> approval_decision \<Rightarrow> string" where
  "receipt_text request decision =
     (case approval_receipt_payload request (without_receipt_metadata decision) of
        Inr payload \<Rightarrow> json_dumps payload | Inl _ \<Rightarrow> [])"

lemma valid_receiptD:
  assumes "verify_approval_receipt sha256 request decision = Inr VALID"
  obtains p where "approval_receipt_payload request (without_receipt_metadata decision) = Inr p"
    "receipt_text request decision = json_dumps p"
    "map_of (ad_metadata decision) HASH_KEY = Some (PStr (sha256 (json_dumps p)))"
  using assms unfolding verify_approval_receipt_def receipt_text_def
  by (auto simp: calculate_approval_receipt_hash_def res_simps
      split: option.splits pyval.splits if_splits sum.splits)

lemma rmap_plain: "rmap f xs = Inr ys \<Longrightarrow> (\<And>x y. x \<in> set xs \<Longrightarrow> f x = Inr y \<Longrightarrow> P y) \<Longrightarrow> \<forall>y \<in> set ys. P y"
  by (rule rmap_set) auto

lemma stable_plain: "stable_json_value v = Inr w \<Longrightarrow> plain_floats w"
proof (induction v arbitrary: w rule: stable_json_value.induct)
  case (1 v)
  show ?case
  proof (cases "redact_sensitive_value v")
    case (Inl e)
    with "1.prems" show ?thesis by (simp add: stable_json_value.simps [of v])
  next
    case (Inr redacted)
    note step = "1.prems" [unfolded stable_json_value.simps [of v] Inr sum.case]
    show ?thesis
    proof (cases redacted)
      case (PDict kvs)
      with step obtain out where w: "w = PDict out" and
        "rmap (\<lambda>kv. rbind (stable_json_value (snd kv)) (\<lambda>v. Inr (KStr (key_text (fst kv)), v)))
           (sort_key (\<lambda>kv. key_text (fst kv)) kvs) = Inr out"
        by (auto simp: res_simps)
      then have "\<forall>o' \<in> set out. plain_floats (snd o')"
        by (elim rmap_plain) (use "1.IH"(3) [OF Inr PDict] in \<open>auto simp: res_simps\<close>)
      then show ?thesis by (simp add: w)
    next
      case (PList xs)
      with step show ?thesis
        by (auto simp: res_simps dest!: rmap_plain [where P = plain_floats] intro: "1.IH"(1) [OF Inr PList])
    next
      case (PTuple xs)
      with step show ?thesis
        by (auto simp: res_simps dest!: rmap_plain [where P = plain_floats] intro: "1.IH"(2) [OF Inr PTuple])
    qed (use step in auto)
  qed
qed

lemma redact_dict_lookup:
  assumes "redact_dict d = Inr r"
  shows "map fst r = map fst d"
    and "map_of d k = Some v \<Longrightarrow> \<not> is_sensitive_key k \<Longrightarrow>
      \<exists>w. redact_sensitive_value v = Inr w \<and> map_of r k = Some w"
proof -
  have eq: "redact_dict d = rmap (\<lambda>(k, v). rbind
      (if is_sensitive_key k then Inr (PStr REDACTED) else redact_sensitive_value v) (\<lambda>w. Inr (k, w))) d"
    unfolding redact_dict_def by (rule rmap_cong) auto
  note entries = rmap_entries [of "\<lambda>k v. if is_sensitive_key k then Inr (PStr REDACTED) else redact_sensitive_value v" d r]
  show "map fst r = map fst d" using entries(1) assms eq by simp
  show "map_of d k = Some v \<Longrightarrow> \<not> is_sensitive_key k \<Longrightarrow>
      \<exists>w. redact_sensitive_value v = Inr w \<and> map_of r k = Some w"
    using entries(2) [of k v] assms eq by simp
qed

lemma stable_dict_lookup:
  assumes "stable_dict d = Inr e" and "distinct (map fst d)"
  shows "distinct (map fst e)" and "map_of d k = Some v \<Longrightarrow> \<exists>w. stable_json_value v = Inr w \<and> map_of e k = Some w"
proof -
  note entries = rmap_entries [OF assms(1) [unfolded stable_dict_def]]
  show "distinct (map fst e)"
    unfolding entries(1) by (rule distinct_map_sort_key [OF assms(2)])
  show "map_of d k = Some v \<Longrightarrow> \<exists>w. stable_json_value v = Inr w \<and> map_of e k = Some w"
    using entries(2) [of k v] map_of_sort_key [OF assms(2), of fst] by simp
qed

lemma stable_value_lookup:
  assumes "stable_json_value (dict_val d) = Inr p" and "distinct (map fst d)"
  obtains e where "p = dict_val e" "distinct (map fst e)"
    "\<And>k v. map_of d k = Some v \<Longrightarrow> \<not> is_sensitive_key k \<Longrightarrow>
       \<exists>v1 w. redact_sensitive_value v = Inr v1 \<and> stable_json_value v1 = Inr w \<and> map_of e k = Some w"
proof -
  from assms(1) obtain r e where r: "redact_dict d = Inr r" and e: "stable_dict r = Inr e" "p = dict_val e"
    by (auto simp: stable_dict_val res_simps)
  have "distinct (map fst r)" using redact_dict_lookup(1) [OF r] assms(2) by simp
  note look = stable_dict_lookup [OF e(1) this] redact_dict_lookup(2) [OF r]
  show thesis
    by (rule that [OF e(2) look(1)]) (use look(2,3) in blast)
qed

text \<open>What the receipt sees of a text: redaction was applied at each of three levels.\<close>

definition receipt_sees :: "string \<Rightarrow> string" where
  "receipt_sees s = redact_sensitive_string (redact_sensitive_string (redact_sensitive_string s))"

fun scalar_view :: "pyval \<Rightarrow> pyval option" where
  "scalar_view (PStr s) = Some (PStr (receipt_sees s))"
| "scalar_view PNone = Some PNone"
| "scalar_view (PBool b) = Some (PBool b)"
| "scalar_view _ = None"

lemma scalar_stable:
  "scalar_view v = Some u \<Longrightarrow> redact_sensitive_value v = Inr v1 \<Longrightarrow>
     redact_sensitive_value v1 = Inr v2 \<Longrightarrow> stable_json_value v2 = Inr w \<Longrightarrow> w = u"
  by (cases v) (auto simp: stable_json_value.simps receipt_sees_def)

lemma nested_lookup:
  assumes "redact_sensitive_value (dict_val d) = Inr v1" and "stable_json_value v1 = Inr w"
    and "distinct (map fst d)"
  obtains e where "w = dict_val e" "distinct (map fst e)"
    "\<And>k v u. map_of d k = Some v \<Longrightarrow> scalar_view v = Some u \<Longrightarrow> \<not> is_sensitive_key k \<Longrightarrow> map_of e k = Some u"
proof -
  from assms(1) obtain r where r: "redact_dict d = Inr r" and v1: "v1 = dict_val r"
    by (auto simp: redact_dict_val res_simps)
  have "distinct (map fst r)" using redact_dict_lookup(1) [OF r] assms(3) by simp
  then obtain e where e: "w = dict_val e" "distinct (map fst e)" and look:
    "\<And>k v. map_of r k = Some v \<Longrightarrow> \<not> is_sensitive_key k \<Longrightarrow>
       \<exists>v1 w. redact_sensitive_value v = Inr v1 \<and> stable_json_value v1 = Inr w \<and> map_of e k = Some w"
    using stable_value_lookup [of r w] assms(2) v1 by blast
  show thesis
    by (rule that [OF e]) (use redact_dict_lookup(2) [OF r] look scalar_stable in metis)
qed

lemma payload_entries:
  assumes "approval_receipt_payload request decision = Inr p"
  obtains e er ed where "p = dict_val e" "distinct (map fst e)"
    "map_of e ''request'' = Some (dict_val er)" "distinct (map fst er)"
    "map_of e ''decision'' = Some (dict_val ed)" "distinct (map fst ed)"
    "\<And>k v u. map_of (receipt_request_entries request) k = Some v \<Longrightarrow> scalar_view v = Some u \<Longrightarrow>
       \<not> is_sensitive_key k \<Longrightarrow> map_of er k = Some u"
    "\<And>k v u. map_of (receipt_decision_entries decision) k = Some v \<Longrightarrow> scalar_view v = Some u \<Longrightarrow>
       \<not> is_sensitive_key k \<Longrightarrow> map_of ed k = Some u"
proof -
  let ?d = "[(''schema_version'', PStr RECEIPT_SCHEMA_VERSION),
        (''request'', dict_val (receipt_request_entries request)),
        (''decision'', dict_val (receipt_decision_entries decision))]"
  have d: "distinct (map fst ?d)" by simp
  have plain: "\<not> is_sensitive_key ''request''" "\<not> is_sensitive_key ''decision''" by code_simp+
  obtain e where e: "p = dict_val e" "distinct (map fst e)" and look:
    "\<And>k v. map_of ?d k = Some v \<Longrightarrow> \<not> is_sensitive_key k \<Longrightarrow>
       \<exists>v1 w. redact_sensitive_value v = Inr v1 \<and> stable_json_value v1 = Inr w \<and> map_of e k = Some w"
    using stable_value_lookup [OF assms [unfolded approval_receipt_payload_def] d] by metis
  from look [OF _ plain(1)] obtain r1 r2 where r:
    "redact_sensitive_value (dict_val (receipt_request_entries request)) = Inr r1"
    "stable_json_value r1 = Inr r2" "map_of e ''request'' = Some r2" by auto
  from look [OF _ plain(2)] obtain d1 d2 where d:
    "redact_sensitive_value (dict_val (receipt_decision_entries decision)) = Inr d1"
    "stable_json_value d1 = Inr d2" "map_of e ''decision'' = Some d2" by auto
  have keys: "distinct (map fst (receipt_request_entries request))"
    "distinct (map fst (receipt_decision_entries decision))"
    by (simp_all add: receipt_request_entries_def receipt_decision_entries_def)
  obtain er where er: "r2 = dict_val er" "distinct (map fst er)" and rl:
    "\<And>k v u. map_of (receipt_request_entries request) k = Some v \<Longrightarrow> scalar_view v = Some u \<Longrightarrow>
       \<not> is_sensitive_key k \<Longrightarrow> map_of er k = Some u"
    by (rule nested_lookup [OF r(1,2) keys(1)]) blast
  obtain ed where ed: "d2 = dict_val ed" "distinct (map fst ed)" and dl:
    "\<And>k v u. map_of (receipt_decision_entries decision) k = Some v \<Longrightarrow> scalar_view v = Some u \<Longrightarrow>
       \<not> is_sensitive_key k \<Longrightarrow> map_of ed k = Some u"
    by (rule nested_lookup [OF d(1,2) keys(2)]) blast
  show thesis
    by (rule that [OF e r(3) [unfolded er(1)] er(2) d(3) [unfolded ed(1)] ed(2)])
      (blast intro: rl dl)+
qed

lemma json_tree_scalar_inj:
  "scalar_view v = Some a \<Longrightarrow> scalar_view w = Some b \<Longrightarrow> json_tree a = json_tree b \<Longrightarrow> a = b"
  by (cases v; cases w) (auto split: if_splits)

lemma receipt_keys_plain:
  "list_all (\<lambda>k. \<not> is_sensitive_key k) [''approval_id'', ''requested_by'', ''agent_id'', ''environment'',
     ''tool_name'', ''action'', ''policy_id'', ''reason'', ''severity'', ''status'', ''approved'', ''decided_by'']"
  by code_simp

text \<open>
  The facts a receipt binds: the verdict with its reviewer and reason, and the identity, tool, action,
  environment, rule and severity of the request, each text as the receipt sees it.
\<close>

definition request_facts :: "approval_request \<Rightarrow> severity \<times> string list \<times> string option list" where
  "request_facts request =
     (ar_severity request,
      map receipt_sees [ar_approval_id request, ar_requested_by request, ar_agent_id request,
        ar_environment request, ar_tool_name request, ar_reason request],
      map (map_option receipt_sees) [ar_action request, ar_policy_id request])"

definition decision_facts :: "approval_decision \<Rightarrow> approval_status \<times> bool \<times> string \<times> string option" where
  "decision_facts decision =
     (ad_status decision, ad_approved decision, receipt_sees (ad_reason decision),
      map_option receipt_sees (ad_decided_by decision))"

lemma scalar_view_opt [simp]: "scalar_view (opt_val x) = Some (opt_val (map_option receipt_sees x))"
  by (cases x) simp_all

lemma opt_val_inject: "opt_val x = opt_val y \<longleftrightarrow> x = y"
  by (cases x; cases y) auto

lemma level_texts_kept:
  "list_all (\<lambda>s. redact_sensitive_string s = s)
     [''low'', ''medium'', ''high'', ''critical'', ''pending'', ''approved'', ''rejected'']"
proof -
  have "list_all secret_free
      [''low'', ''medium'', ''high'', ''critical'', ''pending'', ''approved'', ''rejected'']"
    by code_simp
  then show ?thesis by (elim list.pred_mono_strong) (rule secret_free_kept)
qed

lemma severity_seen: "receipt_sees (severity_value s) = severity_value s"
  using level_texts_kept by (cases s) (simp_all add: receipt_sees_def)

lemma status_seen: "receipt_sees (approval_status_value s) = approval_status_value s"
  using level_texts_kept by (cases s) (simp_all add: receipt_sees_def)

lemma payload_facts:
  assumes "approval_receipt_payload request decision = Inr p"
    and "approval_receipt_payload request' decision' = Inr p'"
    and "json_tree p = json_tree p'"
  shows "request_facts request = request_facts request'" and "decision_facts decision = decision_facts decision'"
proof -
  obtain e er ed where e: "p = dict_val e" "distinct (map fst e)"
      "map_of e ''request'' = Some (dict_val er)" "distinct (map fst er)"
      "map_of e ''decision'' = Some (dict_val ed)" "distinct (map fst ed)"
    and rl: "\<And>k v u. map_of (receipt_request_entries request) k = Some v \<Longrightarrow> scalar_view v = Some u \<Longrightarrow>
       \<not> is_sensitive_key k \<Longrightarrow> map_of er k = Some u"
    and dl: "\<And>k v u. map_of (receipt_decision_entries decision) k = Some v \<Longrightarrow> scalar_view v = Some u \<Longrightarrow>
       \<not> is_sensitive_key k \<Longrightarrow> map_of ed k = Some u"
    using payload_entries [OF assms(1)] by blast
  obtain e' er' ed' where e': "p' = dict_val e'" "distinct (map fst e')"
      "map_of e' ''request'' = Some (dict_val er')" "distinct (map fst er')"
      "map_of e' ''decision'' = Some (dict_val ed')" "distinct (map fst ed')"
    and rl': "\<And>k v u. map_of (receipt_request_entries request') k = Some v \<Longrightarrow> scalar_view v = Some u \<Longrightarrow>
       \<not> is_sensitive_key k \<Longrightarrow> map_of er' k = Some u"
    and dl': "\<And>k v u. map_of (receipt_decision_entries decision') k = Some v \<Longrightarrow> scalar_view v = Some u \<Longrightarrow>
       \<not> is_sensitive_key k \<Longrightarrow> map_of ed' k = Some u"
    using payload_entries [OF assms(2)] by blast
  note top = json_tree_dict_lookup [OF assms(3) [unfolded e(1) e'(1)] e(2) e'(2)]
  have req: "json_tree (dict_val er) = json_tree (dict_val er')"
    using top [of "''request''"] e(3) e'(3) by simp
  have dec: "json_tree (dict_val ed) = json_tree (dict_val ed')"
    using top [of "''decision''"] e(5) e'(5) by simp
  have same_r: "u = u'"
    if "map_of (receipt_request_entries request) k = Some v" "scalar_view v = Some u"
      "map_of (receipt_request_entries request') k = Some v'" "scalar_view v' = Some u'" "\<not> is_sensitive_key k"
    for k v u v' u'
    using json_tree_dict_lookup [OF req e(4) e'(4), of k] rl [OF that(1,2,5)] rl' [OF that(3,4,5)]
      json_tree_scalar_inj [OF that(2,4)] by simp
  have same_d: "u = u'"
    if "map_of (receipt_decision_entries decision) k = Some v" "scalar_view v = Some u"
      "map_of (receipt_decision_entries decision') k = Some v'" "scalar_view v' = Some u'" "\<not> is_sensitive_key k"
    for k v u v' u'
    using json_tree_dict_lookup [OF dec e(6) e'(6), of k] dl [OF that(1,2,5)] dl' [OF that(3,4,5)]
      json_tree_scalar_inj [OF that(2,4)] by simp
  have keys: "\<not> is_sensitive_key k" if "k \<in> set [''approval_id'', ''requested_by'', ''agent_id'', ''environment'',
     ''tool_name'', ''action'', ''policy_id'', ''reason'', ''severity'', ''status'', ''approved'', ''decided_by'']" for k
    using receipt_keys_plain that unfolding list_all_iff by blast
  have text_r: "receipt_sees a = receipt_sees a'"
    if "map_of (receipt_request_entries request) k = Some (PStr a)"
      "map_of (receipt_request_entries request') k = Some (PStr a')" "\<not> is_sensitive_key k" for k a a'
    using same_r [OF that(1) scalar_view.simps(1) that(2) scalar_view.simps(1) that(3)] by simp
  have opt_r: "map_option receipt_sees a = map_option receipt_sees a'"
    if "map_of (receipt_request_entries request) k = Some (opt_val a)"
      "map_of (receipt_request_entries request') k = Some (opt_val a')" "\<not> is_sensitive_key k" for k a a'
    using same_r [OF that(1) scalar_view_opt that(2) scalar_view_opt that(3)] by (simp add: opt_val_inject)
  have text_d: "receipt_sees a = receipt_sees a'"
    if "map_of (receipt_decision_entries decision) k = Some (PStr a)"
      "map_of (receipt_decision_entries decision') k = Some (PStr a')" "\<not> is_sensitive_key k" for k a a'
    using same_d [OF that(1) scalar_view.simps(1) that(2) scalar_view.simps(1) that(3)] by simp
  have opt_d: "map_option receipt_sees a = map_option receipt_sees a'"
    if "map_of (receipt_decision_entries decision) k = Some (opt_val a)"
      "map_of (receipt_decision_entries decision') k = Some (opt_val a')" "\<not> is_sensitive_key k" for k a a'
    using same_d [OF that(1) scalar_view_opt that(2) scalar_view_opt that(3)] by (simp add: opt_val_inject)
  have bool_d: "a = a'"
    if "map_of (receipt_decision_entries decision) k = Some (PBool a)"
      "map_of (receipt_decision_entries decision') k = Some (PBool a')" "\<not> is_sensitive_key k" for k a a'
    using same_d [OF that(1) scalar_view.simps(3) that(2) scalar_view.simps(3) that(3)] by simp
  note unfolds = receipt_request_entries_def receipt_decision_entries_def
  have "receipt_sees (severity_value (ar_severity request)) = receipt_sees (severity_value (ar_severity request'))"
    by (rule text_r [of "''severity''"]) (simp_all add: unfolds keys)
  then have sev: "ar_severity request = ar_severity request'"
    by (simp add: severity_seen severity_value_inject)
  have texts: "map receipt_sees [ar_approval_id request, ar_requested_by request, ar_agent_id request,
        ar_environment request, ar_tool_name request, ar_reason request] =
      map receipt_sees [ar_approval_id request', ar_requested_by request', ar_agent_id request',
        ar_environment request', ar_tool_name request', ar_reason request']"
    using text_r [of "''approval_id''"] text_r [of "''requested_by''"] text_r [of "''agent_id''"]
      text_r [of "''environment''"] text_r [of "''tool_name''"] text_r [of "''reason''"]
    by (simp add: unfolds keys)
  have "map (map_option receipt_sees) [ar_action request, ar_policy_id request] =
      map (map_option receipt_sees) [ar_action request', ar_policy_id request']"
    using opt_r [of "''action''"] opt_r [of "''policy_id''"] by (simp add: unfolds keys)
  then show "request_facts request = request_facts request'"
    using sev texts by (simp add: request_facts_def)
  have "receipt_sees (approval_status_value (ad_status decision)) =
      receipt_sees (approval_status_value (ad_status decision'))"
    by (rule text_d [of "''status''"]) (simp_all add: unfolds keys)
  then have "ad_status decision = ad_status decision'"
    by (simp add: status_seen approval_status_value_inject)
  moreover have "ad_approved decision = ad_approved decision'"
    by (rule bool_d [of "''approved''"]) (simp_all add: unfolds keys)
  moreover have "receipt_sees (ad_reason decision) = receipt_sees (ad_reason decision')"
    by (rule text_d [of "''reason''"]) (simp_all add: unfolds keys)
  moreover have "map_option receipt_sees (ad_decided_by decision) = map_option receipt_sees (ad_decided_by decision')"
    by (rule opt_d [of "''decided_by''"]) (simp_all add: unfolds keys)
  ultimately show "decision_facts decision = decision_facts decision'"
    by (simp add: decision_facts_def)
qed

subsection \<open>Values that have a canonical form\<close>

fun canonical :: "pyval \<Rightarrow> bool" where
  "canonical (PFloat r) = False"
| "canonical (PList xs) = (\<forall>x \<in> set xs. canonical x)"
| "canonical (PTuple xs) = (\<forall>x \<in> set xs. canonical x)"
| "canonical (PDict kvs) = (\<forall>kv \<in> set kvs. (\<exists>k. fst kv = KStr k) \<and> canonical (snd kv))"
| "canonical v = True"

lemma canonical_redacts:
  "canonical v \<Longrightarrow> \<exists>w. redact_sensitive_value v = Inr w \<and> canonical w"
proof (induction v rule: redact_sensitive_value.induct)
  case (1 kvs)
  let ?f = "\<lambda>kv. case fst kv of
         KStr k \<Rightarrow> if is_sensitive_key k then Inr (KStr k, PStr REDACTED)
                   else rbind (redact_sensitive_value (snd kv)) (\<lambda>v. Inr (KStr k, v))
       | k \<Rightarrow> Inl (key_error k)"
  have step: "\<exists>o'. ?f kv = Inr o' \<and> (\<exists>k. fst o' = KStr k) \<and> canonical (snd o')" if kv: "kv \<in> set kvs" for kv
  proof -
    from "1.prems" kv obtain k where k: "fst kv = KStr k" and c: "canonical (snd kv)" by auto
    show ?thesis
    proof (cases "is_sensitive_key k")
      case False
      then obtain w where "redact_sensitive_value (snd kv) = Inr w" "canonical w"
        using "1.IH" kv k False c by blast
      then show ?thesis by (simp add: k False)
    qed (simp add: k)
  qed
  then obtain out where out: "rmap ?f kvs = Inr out"
    using rmap_Inr_ex [of ?f kvs] by blast
  have "\<forall>o' \<in> set out. (\<exists>k. fst o' = KStr k) \<and> canonical (snd o')"
    by (rule rmap_set [OF out]) (use step in fastforce)
  then show ?case using out by simp
next
  case (2 xs)
  then obtain ys where ys: "rmap redact_sensitive_value xs = Inr ys"
    using rmap_Inr_ex [of redact_sensitive_value xs] by (metis canonical.simps(2,3))
  have "\<forall>y \<in> set ys. canonical y"
    by (rule rmap_set [OF ys]) (use 2 in fastforce)
  with ys show ?case by simp
next
  case (3 xs)
  then obtain ys where ys: "rmap redact_sensitive_value xs = Inr ys"
    using rmap_Inr_ex [of redact_sensitive_value xs] by (metis canonical.simps(2,3))
  have "\<forall>y \<in> set ys. canonical y"
    by (rule rmap_set [OF ys]) (use 3 in fastforce)
  with ys show ?case by simp
qed auto

lemma canonical_stable: "canonical v \<Longrightarrow> \<exists>w. stable_json_value v = Inr w"
proof (induction v rule: stable_json_value.induct)
  case (1 v)
  obtain r where r: "redact_sensitive_value v = Inr r" and c: "canonical r"
    using canonical_redacts [OF "1.prems"] by blast
  show ?case
  proof (cases r)
    case (PDict kvs)
    have "\<exists>y. rbind (stable_json_value (snd kv)) (\<lambda>v. Inr (KStr (key_text (fst kv)), v)) = Inr y"
      if "kv \<in> set (sort_key (\<lambda>kv. key_text (fst kv)) kvs)" for kv
      using "1.IH"(3) [OF r PDict that] c that PDict by (auto simp: res_simps)
    then obtain out where
      "rmap (\<lambda>kv. rbind (stable_json_value (snd kv)) (\<lambda>v. Inr (KStr (key_text (fst kv)), v)))
         (sort_key (\<lambda>kv. key_text (fst kv)) kvs) = Inr out"
      by (meson rmap_Inr_ex)
    with r PDict show ?thesis by (simp add: stable_json_value.simps [of v])
  next
    case (PList xs)
    then obtain ys where "rmap stable_json_value xs = Inr ys"
      using "1.IH"(1) [OF r PList] c rmap_Inr_ex [of stable_json_value xs] by auto
    with r PList show ?thesis by (simp add: stable_json_value.simps [of v])
  next
    case (PTuple xs)
    then obtain ys where "rmap stable_json_value xs = Inr ys"
      using "1.IH"(2) [OF r PTuple] c rmap_Inr_ex [of stable_json_value xs] by auto
    with r PTuple show ?thesis by (simp add: stable_json_value.simps [of v])
  qed (use r c in \<open>simp_all add: stable_json_value.simps [of v]\<close>)
qed

lemma canonical_dict_val: "canonical (dict_val d) \<longleftrightarrow> (\<forall>kv \<in> set d. canonical (snd kv))"
  by (auto simp: dict_val_def)

lemma canonical_opt_val [simp]: "canonical (opt_val x)"
  by (cases x) simp_all

lemma canonical_receipt_free: "canonical (dict_val m) \<Longrightarrow> canonical (dict_val (receipt_free_metadata m))"
  by (auto simp: canonical_dict_val receipt_free_metadata_def)

lemma canonical_payload:
  assumes "canonical (ar_target request)" "canonical (dict_val (ar_metadata request))"
    and "canonical (dict_val (ad_metadata decision))"
  shows "\<exists>p. approval_receipt_payload request decision = Inr p"
  unfolding approval_receipt_payload_def
  using assms canonical_receipt_free [OF assms(3)]
  by (intro canonical_stable) (simp add: canonical_dict_val receipt_request_entries_def receipt_decision_entries_def)

section \<open>Properties\<close>

definition sample_approval_request :: approval_request where
  "sample_approval_request = \<lparr>ar_approval_id = ''a1'', ar_created_at = ''t0'', ar_trace_id = ''t1'',
     ar_requested_by = ''ann'', ar_agent_id = ''agent'', ar_environment = ''dev'', ar_tool_name = ''shell'',
     ar_action = None, ar_target = PNone, ar_policy_id = None, ar_reason = ''review'', ar_severity = SevHIGH,
     ar_risk_assessment = [], ar_metadata = []\<rparr>"

definition sample_approval_decision :: approval_decision where
  "sample_approval_decision = \<lparr>ad_approval_id = ''a1'', ad_status = APPROVED, ad_approved = True,
     ad_decided_by = Some ''bob'', ad_decided_at = Some ''t1'', ad_reason = ''fine'', ad_metadata = []\<rparr>"

lemma sample_receipt:
  "\<exists>signed. attach_approval_receipt (Cons CHR ''d'') sample_approval_request sample_approval_decision = Inr signed"
proof -
  have "\<exists>p. approval_receipt_payload sample_approval_request
      (without_receipt_metadata sample_approval_decision) = Inr p"
    by (rule canonical_payload)
       (simp_all add: sample_approval_request_def sample_approval_decision_def canonical_dict_val
         without_receipt_metadata_def receipt_free_metadata_def)
  then show ?thesis
    by (auto simp: attach_approval_receipt_def calculate_approval_receipt_hash_def Let_def
        sample_approval_decision_def)
qed

text \<open>
  Receipt round trip: for a granted decision without an earlier receipt, on a request whose target
  and metadata have a canonical form, attaching the receipt succeeds, changes nothing of the decision
  but its two receipt entries, and the signed decision verifies as valid.
\<close>

theorem receipt_roundtrip:
  assumes "ad_status decision = APPROVED" and "ad_approved decision"
    and "canonical (ar_target request)" "canonical (dict_val (ar_metadata request))"
    and "canonical (dict_val (ad_metadata decision))"
    and "map_of (ad_metadata decision) HASH_KEY = None" and "\<And>t. sha256 t \<noteq> []"
  shows "\<exists>signed. attach_approval_receipt sha256 request decision = Inr signed \<and>
    without_receipt_metadata signed = without_receipt_metadata decision \<and>
    verify_approval_receipt sha256 request signed = Inr VALID"
proof -
  have "canonical (dict_val (ad_metadata (without_receipt_metadata decision)))"
    using canonical_receipt_free [OF assms(5)] by (simp add: without_receipt_metadata_def)
  then obtain p where "approval_receipt_payload request (without_receipt_metadata decision) = Inr p"
    using canonical_payload [OF assms(3,4)] by blast
  then obtain signed where signed: "attach_approval_receipt sha256 request decision = Inr signed"
    using assms(1,2,6)
    by (simp add: attach_approval_receipt_def calculate_approval_receipt_hash_def Let_def)
  have "without_receipt_metadata signed = without_receipt_metadata decision"
    by (rule attached_cases [OF signed assms(1,2)])
  with signed attached_receipt_verifies [OF signed assms(1,2,7)] show ?thesis by blast
qed

text \<open>
  (C11) A receipt binds what was approved: when two decisions on two requests carry the same valid receipt
  hash and the digest does not collide on their two texts, then the requests agree on severity, identity,
  tool, action, environment, rule and reason, and the decisions agree on the verdict, the reviewer and
  the reason (each text up to redaction).
\<close>

theorem receipt_binds_approval:
  assumes "verify_approval_receipt sha256 request decision = Inr VALID"
    and "verify_approval_receipt sha256 request' decision' = Inr VALID"
    and "map_of (ad_metadata decision) HASH_KEY = map_of (ad_metadata decision') HASH_KEY"
    and "inj_on sha256 {receipt_text request decision, receipt_text request' decision'}"
  shows "request_facts request = request_facts request' \<and> decision_facts decision = decision_facts decision'"
proof -
  obtain p where p: "approval_receipt_payload request (without_receipt_metadata decision) = Inr p"
    "receipt_text request decision = json_dumps p"
    "map_of (ad_metadata decision) HASH_KEY = Some (PStr (sha256 (json_dumps p)))"
    by (rule valid_receiptD [OF assms(1)])
  obtain q where q: "approval_receipt_payload request' (without_receipt_metadata decision') = Inr q"
    "receipt_text request' decision' = json_dumps q"
    "map_of (ad_metadata decision') HASH_KEY = Some (PStr (sha256 (json_dumps q)))"
    by (rule valid_receiptD [OF assms(2)])
  have "json_dumps p = json_dumps q"
    using assms(3) p(3) q(3) inj_onD [OF assms(4), of "json_dumps p" "json_dumps q"]
    unfolding p(2) q(2) by simp
  moreover have "plain_floats p" "plain_floats q"
    using p(1) q(1) by (auto simp: approval_receipt_payload_def intro: stable_plain)
  ultimately have "json_tree p = json_tree q" by (metis json_dumps_tree)
  note same = payload_facts [OF p(1) q(1) this]
  show ?thesis using same by (simp add: decision_facts_def without_receipt_metadata_def)
qed

theorem receipt_binds_approval_witness:
  "\<exists>signed. verify_approval_receipt (Cons CHR ''d'') sample_approval_request signed = Inr VALID \<and>
     request_facts sample_approval_request = request_facts sample_approval_request \<and>
     decision_facts signed = decision_facts signed"
proof -
  obtain signed where
    s: "attach_approval_receipt (Cons CHR ''d'') sample_approval_request sample_approval_decision = Inr signed"
    using sample_receipt by blast
  have v: "verify_approval_receipt (Cons CHR ''d'') sample_approval_request signed = Inr VALID"
    by (rule attached_receipt_verifies [OF s]) (simp_all add: sample_approval_decision_def)
  show ?thesis
    using v receipt_binds_approval [OF v v refl] by (auto simp: inj_on_def)
qed

lemma applied_fields:
  "ad_status (apply_authorization_result now decision result) =
     (if cr_allowed result then ad_status decision else REJECTED)"
  "ad_approved (apply_authorization_result now decision result) \<longleftrightarrow> cr_allowed result \<and> ad_approved decision"
  "cr_allowed result \<Longrightarrow>
     ad_decided_by (apply_authorization_result now decision result) = ad_decided_by decision"
  by (simp_all add: apply_authorization_result_def Let_def)

lemma attached_fields:
  assumes "attach_approval_receipt sha256 request decision = Inr signed"
  shows "ad_status signed = ad_status decision" and "ad_approved signed = ad_approved decision"
    and "ad_decided_by signed = ad_decided_by decision"
  using assms by (auto simp: attach_approval_receipt_def Let_def res_simps without_receipt_metadata_def
      split: if_splits)

lemma request_approval_cases:
  assumes "request_approval sha256 draws workflow request decision risk = Inr (asked, answer)"
  obtains given where
    "make_approval_request draws request decision risk = Inr asked"
    "(case resolver workflow of None \<Rightarrow> reject_by_default (draw_decided_at draws) | Some r \<Rightarrow> r) asked = Inr given"
    "attach_approval_receipt sha256 asked (apply_authorization_result (draw_decided_at draws) given
       (authorize (authorization workflow) asked given PENDING)) = Inr answer"
    "ad_approval_id given = ar_approval_id asked"
  using assms by (auto simp: request_approval_def res_simps Let_def split: if_splits)

text \<open>
  (C10) The approval workflow is sound: an answer whose status is approved was given by a named reviewer
  other than the requesting user who may grant this very request, and when it is a grant it carries a
  receipt that verifies.
\<close>

theorem request_approval_sound:
  assumes "request_approval sha256 draws workflow request decision risk = Inr (asked, answer)"
    and "ad_status answer = APPROVED"
  shows "(\<exists>reviewer. ad_decided_by answer = Some reviewer \<and> reviewer \<noteq> user_id request) \<and>
    (\<exists>given. may_grant (authorization workflow) asked given \<and> ad_decided_by given = ad_decided_by answer) \<and>
    (ad_approved answer \<longrightarrow> (\<forall>t. sha256 t \<noteq> []) \<longrightarrow> verify_approval_receipt sha256 asked answer = Inr VALID)"
proof -
  obtain given where
    asked: "make_approval_request draws request decision risk = Inr asked" and
    signed: "attach_approval_receipt sha256 asked (apply_authorization_result (draw_decided_at draws) given
       (authorize (authorization workflow) asked given PENDING)) = Inr answer"
    by (rule request_approval_cases [OF assms(1)])
  let ?result = "authorize (authorization workflow) asked given PENDING"
  let ?applied = "apply_authorization_result (draw_decided_at draws) given ?result"
  from assms(2) have ok: "cr_allowed ?result" "ad_status given = APPROVED"
    using attached_fields(1) [OF signed] by (auto simp: applied_fields split: if_splits)
  then have grant: "may_grant (authorization workflow) asked given"
    using authorize_iff by auto
  have by': "ad_decided_by answer = ad_decided_by given"
    using attached_fields(3) [OF signed] applied_fields(3) [OF ok(1)] by simp
  have "ar_requested_by asked = user_id request"
    using asked by (auto simp: make_approval_request_def res_simps Let_def split: if_splits)
  then have "\<exists>reviewer. ad_decided_by answer = Some reviewer \<and> reviewer \<noteq> user_id request"
    using grant by' by (auto simp: may_grant_def)
  moreover have "verify_approval_receipt sha256 asked answer = Inr VALID"
    if "ad_approved answer" "\<forall>t. sha256 t \<noteq> []"
  proof -
    have "ad_status ?applied = APPROVED" "ad_approved ?applied"
      using attached_fields [OF signed] assms(2) that(1) by simp_all
    then show ?thesis using attached_receipt_verifies [OF signed] that(2) by blast
  qed
  ultimately show ?thesis using grant by' by metis
qed

definition sample_workflow :: approval_workflow where
  "sample_workflow = make_approval_workflow (Some (approve_for_testing ''t1'' ''bob'' ''fine'')) [] [] []"

definition sample_draws :: approval_draws where
  "sample_draws = \<lparr>draw_approval_id = ''a1'', draw_created_at = ''t0'', draw_trace_id = ''t1'', draw_decided_at = ''t1''\<rparr>"

definition sample_review_request :: tool_request where
  "sample_review_request = \<lparr>tool_name = ''shell'', tr_action = None, tr_target = None, tr_input = PNone,
     user_id = ''ann'', agent_id = ''agent'', environment = ''dev'', tr_metadata = []\<rparr>"

definition sample_review_decision :: policy_decision where
  "sample_review_decision = \<lparr>pd_decision = REQUIRE_APPROVAL, pd_allowed = False, pd_severity = SevHIGH,
     pd_reason = ''review'', pd_policy_id = None, pd_explanation = None\<rparr>"

lemma sample_approval:
  "\<exists>answer. request_approval (Cons CHR ''d'') sample_draws sample_workflow sample_review_request
     sample_review_decision [] = Inr (sample_approval_request, answer) \<and> ad_status answer = APPROVED"
proof -
  obtain signed where
    s: "attach_approval_receipt (Cons CHR ''d'') sample_approval_request sample_approval_decision = Inr signed"
    using sample_receipt by blast
  have asked: "make_approval_request sample_draws sample_review_request sample_review_decision [] =
      Inr sample_approval_request"
    by code_simp
  have applied: "apply_authorization_result (draw_decided_at sample_draws) sample_approval_decision
      (authorize (authorization sample_workflow) sample_approval_request sample_approval_decision PENDING) =
      sample_approval_decision"
    by code_simp
  have given: "(case resolver sample_workflow of None \<Rightarrow> reject_by_default (draw_decided_at sample_draws)
      | Some r \<Rightarrow> r) sample_approval_request = Inr sample_approval_decision"
    by code_simp
  have id: "ad_approval_id sample_approval_decision = ar_approval_id sample_approval_request"
    by code_simp
  have "request_approval (Cons CHR ''d'') sample_draws sample_workflow sample_review_request
     sample_review_decision [] = Inr (sample_approval_request, signed)"
    unfolding request_approval_def asked rbind.simps given Let_def applied s by (simp add: id)
  moreover have "ad_status signed = APPROVED"
    using attached_fields(1) [OF s] by (simp add: sample_approval_decision_def)
  ultimately show ?thesis by blast
qed

theorem request_approval_sound_witness:
  "\<exists>answer :: approval_decision. ad_status answer = APPROVED \<and>
     (\<exists>reviewer. ad_decided_by answer = Some reviewer \<and> reviewer \<noteq> ''ann'')"
proof -
  obtain answer where answer: "request_approval (Cons CHR ''d'') sample_draws sample_workflow
      sample_review_request sample_review_decision [] = Inr (sample_approval_request, answer)"
    and approved: "ad_status answer = APPROVED"
    using sample_approval by blast
  have "user_id sample_review_request = ''ann''" by (simp add: sample_review_request_def)
  with request_approval_sound [OF answer approved, THEN conjunct1] approved
  show ?thesis by metis
qed

end
