(* ===== verification/Audit_Log.thy ===== *)
theory Audit_Log
  imports Json Security
begin

text \<open>
  \<open>src/rygnal/audit_logger.py\<close> and \<open>audit_storage.py\<close>: the hash-chained audit log, as a JSONL file or as
  an SQLite table with a JSONL mirror. A line of the file is what \<open>json.loads\<close> makes of it. The digest
  and pydantic's \<open>AuditEvent(**data)\<close> are arguments; an error of the operating system or of SQLite is a
  component of the state (\<open>file_fault\<close>, \<open>db_fault\<close>), raised by the next write. The exclusive file lock and
  \<open>BEGIN IMMEDIATE\<close> make each write one step.
\<close>

section \<open>The event hash\<close>

record audit_lib =
  sha256 :: "string \<Rightarrow> string"
  make_event :: "dict \<Rightarrow> audit_event res"

definition hashed_data :: "audit_event \<Rightarrow> dict" where
  "hashed_data event =
     (let data = audit_event_dump (event\<lparr>event_hash := None\<rparr>)
      in if schema_version event = ''audit.v1''
         then filter (\<lambda>(k, v). k \<noteq> ''rygnal_package_version'') data else data)"

definition calculate_event_hash :: "audit_lib \<Rightarrow> audit_event \<Rightarrow> string" where
  "calculate_event_hash lib event = sha256 lib (json_dumps (dict_val (hashed_data event)))"

text \<open>\<open>verify_integrity\<close> on the events read.\<close>

fun verify_events :: "audit_lib \<Rightarrow> string option \<Rightarrow> audit_event list \<Rightarrow> bool" where
  "verify_events lib previous_hash [] = True"
| "verify_events lib previous_hash (event # events) =
     (if prev_event_hash event \<noteq> previous_hash then False
      else if Some (calculate_event_hash lib event) \<noteq> event_hash event then False
      else verify_events lib (event_hash event) events)"

section \<open>The file\<close>

datatype log_line = Blank_line | Json_line dict | Json_other pyval | Bad_line string

definition JSONDecodeError :: "string \<Rightarrow> py_exn" where
  "JSONDecodeError msg = Exn ValueErr ''JSONDecodeError'' msg"

fun read_lines :: "audit_lib \<Rightarrow> log_line list \<Rightarrow> audit_event list res" where
  "read_lines lib [] = Inr []"
| "read_lines lib (Blank_line # ls) = read_lines lib ls"
| "read_lines lib (Json_line d # ls) =
     rbind (make_event lib d) (\<lambda>e. rbind (read_lines lib ls) (\<lambda>es. Inr (e # es)))"
| "read_lines lib (Json_other v # ls) =
     Inl (Exn TypeErr ''TypeError'' ''AuditEvent() argument after ** must be a mapping'')"
| "read_lines lib (Bad_line msg # ls) = Inl (JSONDecodeError msg)"

fun last_hash_from_lines :: "string option \<Rightarrow> log_line list \<Rightarrow> string option res" where
  "last_hash_from_lines last_hash [] = Inr last_hash"
| "last_hash_from_lines last_hash (Blank_line # ls) = last_hash_from_lines last_hash ls"
| "last_hash_from_lines last_hash (Json_line d # ls) =
     last_hash_from_lines (case map_of d ''event_hash'' of
         None \<Rightarrow> None | Some PNone \<Rightarrow> None | Some v \<Rightarrow> Some (str_val v)) ls"
| "last_hash_from_lines last_hash (Json_other v # ls) =
     Inl (Exn AttributeErr ''AttributeError'' ''object has no attribute get'')"
| "last_hash_from_lines last_hash (Bad_line msg # ls) = Inl (JSONDecodeError msg)"

section \<open>The table\<close>

record audit_row =
  row_id :: int
  row_event_id :: string
  row_timestamp :: string
  row_trace_id :: string
  row_user_id :: string
  row_agent_id :: string
  row_environment :: string
  row_tool_name :: string
  row_action :: "string option"
  row_decision :: string
  row_allowed :: int
  row_severity :: string
  row_policy_id :: "string option"
  row_reason :: string
  row_prev_event_hash :: "string option"
  row_event_hash :: string
  row_payload :: dict

record sqlite_store =
  rows :: "audit_row list"
  next_row_id :: int
  db_fault :: "py_exn option"

definition IntegrityError :: "string \<Rightarrow> py_exn" where
  "IntegrityError msg = Exn OtherErr ''IntegrityError'' msg"

definition row_of_event :: "int \<Rightarrow> string \<Rightarrow> audit_event \<Rightarrow> audit_row" where
  "row_of_event i h event =
     \<lparr>row_id = i, row_event_id = event_id event, row_timestamp = ae_timestamp event,
      row_trace_id = ae_trace_id event, row_user_id = ae_user_id event, row_agent_id = ae_agent_id event,
      row_environment = ae_environment event, row_tool_name = ae_tool_name event,
      row_action = ae_action event, row_decision = decision_value (ae_decision event),
      row_allowed = (if ae_allowed event then 1 else 0),
      row_severity = severity_value (ae_severity event), row_policy_id = ae_policy_id event,
      row_reason = ae_reason event, row_prev_event_hash = prev_event_hash event, row_event_hash = h,
      row_payload = audit_event_dump event\<rparr>"

text \<open>The two \<open>UNIQUE\<close> columns of \<open>audit_events\<close> refuse a second row.\<close>

definition insert_event :: "sqlite_store \<Rightarrow> audit_event \<Rightarrow> sqlite_store res" where
  "insert_event db event =
     (case event_hash event of
        None \<Rightarrow> Inl (Exn ValueErr ''ValueError'' ''Audit event must have an integrity hash.'')
      | Some h \<Rightarrow>
          if h = [] then Inl (Exn ValueErr ''ValueError'' ''Audit event must have an integrity hash.'')
          else if list_ex (\<lambda>r. row_event_id r = event_id event) (rows db)
            then Inl (IntegrityError ''UNIQUE constraint failed: audit_events.event_id'')
          else if list_ex (\<lambda>r. row_event_hash r = h) (rows db)
            then Inl (IntegrityError ''UNIQUE constraint failed: audit_events.event_hash'')
          else Inr (db\<lparr>rows := rows db @ [row_of_event (next_row_id db) h event],
                 next_row_id := next_row_id db + 1\<rparr>))"

definition last_event_hash :: "sqlite_store \<Rightarrow> string option" where
  "last_event_hash db = (if rows db = [] then None else Some (row_event_hash (last (rows db))))"

definition bind_event :: "audit_lib \<Rightarrow> string option \<Rightarrow> audit_event \<Rightarrow> audit_event" where
  "bind_event lib last_hash event =
     (let linked = event\<lparr>prev_event_hash := last_hash\<rparr>
      in linked\<lparr>event_hash := Some (calculate_event_hash lib linked)\<rparr>)"

definition append_chained_event ::
  "audit_lib \<Rightarrow> sqlite_store \<Rightarrow> audit_event \<Rightarrow> (audit_event \<times> sqlite_store) res" where
  "append_chained_event lib db event =
     (case db_fault db of
        Some e \<Rightarrow> Inl e
      | None \<Rightarrow>
          let bound = bind_event lib (last_event_hash db) event
          in rbind (insert_event db bound) (\<lambda>db'. Inr (bound, db')))"

definition store_write_event :: "sqlite_store \<Rightarrow> audit_event \<Rightarrow> sqlite_store res" where
  "store_write_event db event =
     (case db_fault db of Some e \<Rightarrow> Inl e | None \<Rightarrow> insert_event db event)"

definition store_read_events :: "audit_lib \<Rightarrow> sqlite_store \<Rightarrow> nat option \<Rightarrow> audit_event list res" where
  "store_read_events lib db limit =
     rmap (\<lambda>r. make_event lib (row_payload r))
       (case limit of None \<Rightarrow> rows db | Some n \<Rightarrow> take n (rows db))"

definition count_events :: "sqlite_store \<Rightarrow> nat" where
  "count_events db = length (rows db)"

definition get_event :: "audit_lib \<Rightarrow> sqlite_store \<Rightarrow> string \<Rightarrow> audit_event option res" where
  "get_event lib db wanted =
     (case find (\<lambda>r. row_event_id r = wanted) (rows db) of
        None \<Rightarrow> Inr None
      | Some r \<Rightarrow> rbind (make_event lib (row_payload r)) (\<lambda>e. Inr (Some e)))"

text \<open>SQL's \<open>column = ?\<close> is not true of a NULL column, and \<open>LIMIT\<close> with a negative number is no limit.\<close>

definition find_events ::
  "audit_lib \<Rightarrow> sqlite_store \<Rightarrow> string option \<Rightarrow> string option \<Rightarrow> string option \<Rightarrow> bool option \<Rightarrow>
   string option \<Rightarrow> int \<Rightarrow> audit_event list res" where
  "find_events lib db decision policy_id tool allowed severity limit =
     (let wanted = (\<lambda>r.
          (case decision of None \<Rightarrow> True | Some d \<Rightarrow> row_decision r = d) \<and>
          (case policy_id of None \<Rightarrow> True | Some p \<Rightarrow> row_policy_id r = Some p) \<and>
          (case tool of None \<Rightarrow> True | Some t \<Rightarrow> row_tool_name r = t) \<and>
          (case allowed of None \<Rightarrow> True | Some a \<Rightarrow> row_allowed r = (if a then 1 else 0)) \<and>
          (case severity of None \<Rightarrow> True | Some s \<Rightarrow> row_severity r = s));
          found = filter wanted (rows db)
      in rmap (\<lambda>r. make_event lib (row_payload r))
           (if limit < 0 then found else take (nat limit) found))"

section \<open>The logger\<close>

text \<open>\<open>jsonl\<close> is \<open>None\<close> while the file does not exist.\<close>

record audit_logger =
  jsonl :: "log_line list option"
  storage :: "sqlite_store option"
  file_fault :: "py_exn option"

definition lines_of :: "audit_logger \<Rightarrow> log_line list" where
  "lines_of logger = (case jsonl logger of None \<Rightarrow> [] | Some ls \<Rightarrow> ls)"

definition append_line :: "audit_logger \<Rightarrow> audit_event \<Rightarrow> audit_logger" where
  "append_line logger event = logger\<lparr>jsonl := Some (lines_of logger @ [Json_line (audit_event_dump event)])\<rparr>"

text \<open>
  \<open>write_event\<close>: the event as it is bound, or the exception, and the logger afterwards. With a store the
  row is committed before the mirror is written; without one the file is created even when its last line
  cannot be read.
\<close>

definition write_event :: "audit_lib \<Rightarrow> audit_logger \<Rightarrow> audit_event \<Rightarrow> audit_event res \<times> audit_logger" where
  "write_event lib logger event =
     (case storage logger of
        Some db \<Rightarrow>
          (case append_chained_event lib db event of
             Inl e \<Rightarrow> (Inl e, logger)
           | Inr (bound, db') \<Rightarrow>
               let stored = logger\<lparr>storage := Some db'\<rparr>
               in (case file_fault logger of
                     Some e \<Rightarrow> (Inl e, stored)
                   | None \<Rightarrow> (Inr bound, append_line stored bound)))
      | None \<Rightarrow>
          (case file_fault logger of
             Some e \<Rightarrow> (Inl e, logger)
           | None \<Rightarrow>
               (case last_hash_from_lines None (lines_of logger) of
                  Inl e \<Rightarrow> (Inl e, logger\<lparr>jsonl := Some (lines_of logger)\<rparr>)
                | Inr last_hash \<Rightarrow>
                    let bound = bind_event lib last_hash event
                    in (Inr bound, append_line logger bound))))"

definition read_events :: "audit_lib \<Rightarrow> audit_logger \<Rightarrow> audit_event list res" where
  "read_events lib logger =
     (case storage logger of
        Some db \<Rightarrow> store_read_events lib db None
      | None \<Rightarrow>
          (case jsonl logger of
             None \<Rightarrow> Inr []
           | Some ls \<Rightarrow> (case file_fault logger of Some e \<Rightarrow> Inl e | None \<Rightarrow> read_lines lib ls)))"

definition verify_integrity :: "audit_lib \<Rightarrow> audit_logger \<Rightarrow> bool res" where
  "verify_integrity lib logger =
     rbind (read_events lib logger) (\<lambda>events. Inr (verify_events lib None events))"

definition logger_last_event_hash :: "audit_logger \<Rightarrow> string option res" where
  "logger_last_event_hash logger =
     (case storage logger of
        Some db \<Rightarrow> Inr (last_event_hash db)
      | None \<Rightarrow>
          (case jsonl logger of
             None \<Rightarrow> Inr None
           | Some ls \<Rightarrow> (case file_fault logger of Some e \<Rightarrow> Inl e | None \<Rightarrow> last_hash_from_lines None ls)))"

text \<open>The ids, time and version an event draws.\<close>

record event_draws =
  draw_event_id :: string
  draw_timestamp :: string
  draw_event_trace_id :: string
  draw_package_version :: string

definition make_audit_event ::
  "event_draws \<Rightarrow> tool_request \<Rightarrow> policy_decision \<Rightarrow> dict \<Rightarrow> audit_event res" where
  "make_audit_event draws request decision metadata =
     rbind (case map_of (tr_metadata request) ''trace_id'' of
         None \<Rightarrow> Inr (draw_event_trace_id draws)
       | Some PNone \<Rightarrow> Inr (draw_event_trace_id draws)
       | Some v \<Rightarrow> rbind (redact_sensitive_value v) (\<lambda>w. Inr (str_val w))) (\<lambda>trace_id.
     rbind (redact_sensitive_value (opt_val (tr_target request))) (\<lambda>target.
     rbind (redact_sensitive_value (tr_input request)) (\<lambda>input.
     rbind (redact_dict metadata) (\<lambda>redacted.
       Inr \<lparr>schema_version = ''audit.v2'', rygnal_package_version = draw_package_version draws,
         event_id = draw_event_id draws, ae_timestamp = draw_timestamp draws, ae_trace_id = trace_id,
         ae_user_id = user_id request, ae_agent_id = agent_id request, ae_environment = environment request,
         ae_tool_name = tool_name request, ae_action = tr_action request, ae_target = target,
         ae_input = input, ae_decision = pd_decision decision, ae_allowed = pd_allowed decision,
         ae_severity = pd_severity decision, ae_policy_id = pd_policy_id decision,
         ae_reason = pd_reason decision, ae_metadata = redacted, prev_event_hash = None,
         event_hash = None\<rparr>))))"

definition log_decision ::
  "audit_lib \<Rightarrow> event_draws \<Rightarrow> audit_logger \<Rightarrow> tool_request \<Rightarrow> policy_decision \<Rightarrow> dict \<Rightarrow>
   audit_event res \<times> audit_logger" where
  "log_decision lib draws logger request decision metadata =
     (case make_audit_event draws request decision metadata of
        Inl e \<Rightarrow> (Inl e, logger)
      | Inr event \<Rightarrow> write_event lib logger event)"

section \<open>Chains\<close>

definition last_hash :: "audit_event list \<Rightarrow> string option" where
  "last_hash events = (if events = [] then None else event_hash (last events))"

lemma verify_events_snoc:
  "verify_events lib p (es @ [f]) \<longleftrightarrow> verify_events lib p es \<and>
     prev_event_hash f = (if es = [] then p else event_hash (last es)) \<and>
     event_hash f = Some (calculate_event_hash lib f)"
  by (induction es arbitrary: p) auto

lemma hashed_data_hash [simp]: "hashed_data (e\<lparr>event_hash := h\<rparr>) = hashed_data e"
  by (simp add: hashed_data_def)

lemma bind_event_fields [simp]:
  "prev_event_hash (bind_event lib h e) = h"
  "event_hash (bind_event lib h e) = Some (calculate_event_hash lib (bind_event lib h e))"
  "event_id (bind_event lib h e) = event_id e"
  by (simp_all add: bind_event_def Let_def calculate_event_hash_def)

lemma bind_event_extends:
  "verify_events lib None es \<Longrightarrow> verify_events lib None (es @ [bind_event lib (last_hash es) e])"
  unfolding verify_events_snoc last_hash_def by simp

text \<open>What the JSON of an event determines.\<close>

lemma map_of_dump:
  "map_of (audit_event_dump e) ''event_hash'' = Some (opt_val (event_hash e))"
  "map_of (audit_event_dump e) ''prev_event_hash'' = Some (opt_val (prev_event_hash e))"
  "map_of (audit_event_dump e) ''schema_version'' = Some (PStr (schema_version e))"
  by (simp_all add: audit_event_dump_def)

lemma opt_val_inj: "opt_val x = opt_val y \<longleftrightarrow> x = y"
  by (cases x; cases y) auto

lemma dump_determines:
  assumes "audit_event_dump e = audit_event_dump f"
  shows "event_hash e = event_hash f" and "prev_event_hash e = prev_event_hash f"
    and "hashed_data e = hashed_data f" and "calculate_event_hash lib e = calculate_event_hash lib f"
proof -
  show "event_hash e = event_hash f" "prev_event_hash e = prev_event_hash f"
    using assms map_of_dump by (metis opt_val_inj option.inject)+
  have "audit_event_dump (e\<lparr>event_hash := None\<rparr>) = audit_event_dump (f\<lparr>event_hash := None\<rparr>)"
    using assms by (simp add: audit_event_dump_def)
  moreover have "schema_version e = schema_version f"
    using assms map_of_dump(3) by (metis option.inject pyval.inject(4))
  ultimately show "hashed_data e = hashed_data f" by (simp add: hashed_data_def)
  then show "calculate_event_hash lib e = calculate_event_hash lib f"
    by (simp add: calculate_event_hash_def)
qed

lemma verify_events_dumps:
  "map audit_event_dump es = map audit_event_dump fs \<Longrightarrow> verify_events lib p es = verify_events lib p fs"
proof (induction es arbitrary: p fs)
  case (Cons e es)
  then obtain f fs' where fs: "fs = f # fs'" by auto
  with Cons.prems have "audit_event_dump e = audit_event_dump f" "map audit_event_dump es = map audit_event_dump fs'"
    by simp_all
  then show ?case
    using dump_determines [of e f] Cons.IH [of fs'] fs by simp
qed simp

text \<open>
  pydantic's law: an event built from the JSON data of an event has that JSON data.
\<close>

definition reads_back :: "audit_lib \<Rightarrow> bool" where
  "reads_back lib = (\<forall>e. \<exists>e'. make_event lib (audit_event_dump e) = Inr e' \<and>
     audit_event_dump e' = audit_event_dump e)"

lemma read_dumps:
  assumes "reads_back lib"
  shows "\<exists>es. rmap (\<lambda>e. make_event lib (audit_event_dump e)) evs = Inr es \<and>
    map audit_event_dump es = map audit_event_dump evs"
proof (induction evs)
  case (Cons e evs)
  obtain e' where "make_event lib (audit_event_dump e) = Inr e'" "audit_event_dump e' = audit_event_dump e"
    using assms unfolding reads_back_def by blast
  with Cons show ?case by auto
qed simp

section \<open>Stores that keep a chain\<close>

text \<open>
  The contract of a store of chained events: it \<open>holds\<close> a list of events; a write adds the event bound to
  the last hash, or fails and adds it or nothing; and a read gives back what it holds.
\<close>

locale chained_store =
  fixes lib :: audit_lib
    and put :: "'s \<Rightarrow> audit_event \<Rightarrow> audit_event res \<times> 's"
    and fetch :: "'s \<Rightarrow> audit_event list res"
    and readable :: "'s \<Rightarrow> bool"
    and holds :: "'s \<Rightarrow> audit_event list \<Rightarrow> bool"
  assumes write_ok: "holds s evs \<Longrightarrow> put s e = (Inr b, s') \<Longrightarrow>
      b = bind_event lib (last_hash evs) e \<and> holds s' (evs @ [b])"
    and write_failed: "holds s evs \<Longrightarrow> put s e = (Inl x, s') \<Longrightarrow>
      holds s' evs \<or> holds s' (evs @ [bind_event lib (last_hash evs) e])"
    and read_ok: "holds s evs \<Longrightarrow> readable s \<Longrightarrow>
      fetch s = rmap (\<lambda>e. make_event lib (audit_event_dump e)) evs"
begin

definition intact :: "'s \<Rightarrow> bool" where
  "intact s = (\<exists>evs. holds s evs \<and> verify_events lib None evs)"

lemma write_intact: "intact s \<Longrightarrow> intact (snd (put s e))"
proof -
  assume "intact s"
  then obtain evs where evs: "holds s evs" "verify_events lib None evs" by (auto simp: intact_def)
  obtain r s' where w: "put s e = (r, s')" by fastforce
  show ?thesis
  proof (cases r)
    case (Inl x)
    then show ?thesis
      using write_failed [OF evs(1) w [unfolded Inl]] w evs(2) bind_event_extends [OF evs(2), of e]
      unfolding intact_def by auto
  next
    case (Inr b)
    then show ?thesis
      using write_ok [OF evs(1) w [unfolded Inr]] w bind_event_extends [OF evs(2), of e]
      unfolding intact_def by auto
  qed
qed

lemma intact_verifies:
  assumes "intact s" "readable s" "reads_back lib"
  shows "\<exists>es. fetch s = Inr es \<and> verify_events lib None es"
proof -
  obtain evs where evs: "holds s evs" "verify_events lib None evs"
    using assms(1) by (auto simp: intact_def)
  obtain es where es: "rmap (\<lambda>e. make_event lib (audit_event_dump e)) evs = Inr es"
    "map audit_event_dump es = map audit_event_dump evs"
    using read_dumps [OF assms(3)] by blast
  then show ?thesis
    using read_ok [OF evs(1) assms(2)] verify_events_dumps [OF es(2)] evs(2) by simp
qed

lemma write_is_read:
  assumes "holds s evs" "put s e = (Inr b, s')" "readable s'" "reads_back lib"
  shows "\<exists>es f. fetch s' = Inr (es @ [f]) \<and> audit_event_dump f = audit_event_dump b \<and>
    map audit_event_dump es = map audit_event_dump evs"
proof -
  have h: "holds s' (evs @ [b])" using write_ok [OF assms(1,2)] by blast
  obtain gs where "rmap (\<lambda>e. make_event lib (audit_event_dump e)) (evs @ [b]) = Inr gs"
    and gs: "map audit_event_dump gs = map audit_event_dump (evs @ [b])"
    using read_dumps [OF assms(4)] by blast
  then have "fetch s' = Inr gs" using read_ok [OF h assms(3)] by simp
  moreover obtain es f where "gs = es @ [f]"
    using gs by (cases gs rule: rev_cases) auto
  ultimately show ?thesis using gs by auto
qed

end

subsection \<open>The SQLite store\<close>

definition db_write :: "audit_lib \<Rightarrow> sqlite_store \<Rightarrow> audit_event \<Rightarrow> audit_event res \<times> sqlite_store" where
  "db_write lib db event =
     (case append_chained_event lib db event of Inl e \<Rightarrow> (Inl e, db) | Inr (b, db') \<Rightarrow> (Inr b, db'))"

definition db_holds :: "sqlite_store \<Rightarrow> audit_event list \<Rightarrow> bool" where
  "db_holds db evs \<longleftrightarrow> map row_payload (rows db) = map audit_event_dump evs \<and>
     map (\<lambda>r. Some (row_event_hash r)) (rows db) = map event_hash evs"

lemma db_holds_last: "db_holds db evs \<Longrightarrow> last_event_hash db = last_hash evs"
proof -
  assume "db_holds db evs"
  then have eq: "map (\<lambda>r. Some (row_event_hash r)) (rows db) = map event_hash evs" by (simp add: db_holds_def)
  then have "rows db = [] \<longleftrightarrow> evs = []" by (metis map_is_Nil_conv)
  moreover have "Some (row_event_hash (last (rows db))) = event_hash (last evs)" if "rows db \<noteq> []" "evs \<noteq> []"
    using arg_cong [OF eq, of last] that by (simp add: last_map)
  ultimately show ?thesis by (simp add: last_event_hash_def last_hash_def)
qed

lemma insert_event_rows:
  assumes "insert_event db event = Inr db'"
  obtains h where "event_hash event = Some h" "h \<noteq> []"
    "rows db' = rows db @ [row_of_event (next_row_id db) h event]"
    "\<forall>r \<in> set (rows db). row_event_id r \<noteq> event_id event \<and> row_event_hash r \<noteq> h"
  using assms by (auto simp: insert_event_def list_ex_iff split: option.splits if_splits)

lemma append_chained_event_ok:
  assumes "append_chained_event lib db event = Inr (b, db')" and "db_holds db evs"
  shows "b = bind_event lib (last_hash evs) event \<and> db_holds db' (evs @ [b])"
proof -
  have b: "b = bind_event lib (last_hash evs) event" and ins: "insert_event db b = Inr db'"
    using assms(1) db_holds_last [OF assms(2)]
    by (auto simp: append_chained_event_def Let_def res_simps split: option.splits)
  from ins obtain h where "event_hash b = Some h" "rows db' = rows db @ [row_of_event (next_row_id db) h b]"
    by (rule insert_event_rows)
  then show ?thesis using assms(2) b by (simp add: db_holds_def row_of_event_def)
qed

lemma store_read_holds:
  "db_holds db evs \<Longrightarrow> store_read_events lib db None = rmap (\<lambda>e. make_event lib (audit_event_dump e)) evs"
proof -
  assume "db_holds db evs"
  then have "map row_payload (rows db) = map audit_event_dump evs" by (simp add: db_holds_def)
  then have "rmap (make_event lib) (map row_payload (rows db)) = rmap (make_event lib) (map audit_event_dump evs)"
    by simp
  then show ?thesis by (simp add: store_read_events_def rmap_map)
qed

interpretation sqlite_chain: chained_store lib "db_write lib" "\<lambda>db. store_read_events lib db None" "\<lambda>db. True" db_holds
  for lib
proof
  fix s evs e b s'
  assume "db_holds s evs" "db_write lib s e = (Inr b, s')"
  then show "b = bind_event lib (last_hash evs) e \<and> db_holds s' (evs @ [b])"
    by (intro append_chained_event_ok) (auto simp: db_write_def split: sum.splits)
qed (auto simp: db_write_def store_read_holds split: sum.splits)

subsection \<open>The logger\<close>

definition logger_holds :: "audit_logger \<Rightarrow> audit_event list \<Rightarrow> bool" where
  "logger_holds logger evs =
     (case storage logger of
        Some db \<Rightarrow> db_holds db evs
      | None \<Rightarrow> lines_of logger = map (\<lambda>e. Json_line (audit_event_dump e)) evs)"

lemma last_hash_lines:
  "last_hash_from_lines h (map (\<lambda>e. Json_line (audit_event_dump e)) evs) =
     Inr (if evs = [] then h else last_hash evs)"
proof (induction evs arbitrary: h)
  case (Cons e evs)
  then show ?case
    by (cases "event_hash e") (auto simp: map_of_dump last_hash_def str_val_def)
qed simp

lemma read_lines_holds:
  "read_lines lib (map (\<lambda>e. Json_line (audit_event_dump e)) evs) = rmap (\<lambda>e. make_event lib (audit_event_dump e)) evs"
  by (induction evs) simp_all

lemma lines_of_append [simp]:
  "lines_of (append_line logger b) = lines_of logger @ [Json_line (audit_event_dump b)]"
  "storage (append_line logger b) = storage logger"
  "file_fault (append_line logger b) = file_fault logger"
  by (simp_all add: append_line_def lines_of_def)

interpretation logger_chain: chained_store lib "write_event lib" "read_events lib"
    "\<lambda>logger. file_fault logger = None" logger_holds
  for lib
proof
  fix s evs e b s'
  assume h: "logger_holds s evs" and w: "write_event lib s e = (Inr b, s')"
  show "b = bind_event lib (last_hash evs) e \<and> logger_holds s' (evs @ [b])"
  proof (cases "storage s")
    case None
    with h w show ?thesis
      by (auto simp: write_event_def logger_holds_def last_hash_lines Let_def last_hash_def split: option.splits if_splits)
  next
    case (Some db)
    with w obtain db' where "append_chained_event lib db e = Inr (b, db')" and "storage s' = Some db'"
      by (auto simp: write_event_def Let_def split: sum.splits option.splits)
    with append_chained_event_ok [of lib db e b db' evs] h Some show ?thesis
      unfolding logger_holds_def by auto
  qed
next
  fix s evs e x s'
  assume h: "logger_holds s evs" and w: "write_event lib s e = (Inl x, s')"
  show "logger_holds s' evs \<or> logger_holds s' (evs @ [bind_event lib (last_hash evs) e])"
  proof (cases "storage s")
    case None
    with h w show ?thesis
      by (auto simp: write_event_def logger_holds_def last_hash_lines Let_def split: option.splits)
  next
    case (Some db)
    show ?thesis
    proof (cases "append_chained_event lib db e")
      case (Inl y)
      with h w Some show ?thesis by (auto simp: write_event_def)
    next
      case (Inr r)
      obtain b db' where r: "r = (b, db')" by fastforce
      with Inr w Some have "storage s' = Some db'"
        by (auto simp: write_event_def Let_def split: option.splits)
      with append_chained_event_ok [of lib db e b db' evs] Inr r h Some show ?thesis
        unfolding logger_holds_def by auto
    qed
  qed
next
  fix s evs
  assume "logger_holds s evs" and "file_fault s = None"
  then show "read_events lib s = rmap (\<lambda>e. make_event lib (audit_event_dump e)) evs"
    by (auto simp: logger_holds_def read_events_def store_read_holds lines_of_def read_lines_holds [symmetric]
        split: option.splits)
qed

section \<open>What the hash of an event determines\<close>

definition event_facts ::
  "audit_event \<Rightarrow> string list \<times> string option list \<times> decision \<times> bool \<times> severity \<times> jtree list" where
  "event_facts e =
     ([schema_version e, event_id e, ae_timestamp e, ae_trace_id e, ae_user_id e, ae_agent_id e,
       ae_environment e, ae_tool_name e, ae_reason e]
        @ (if schema_version e = ''audit.v1'' then [] else [rygnal_package_version e]),
      [ae_action e, ae_policy_id e, prev_event_hash e],
      ae_decision e, ae_allowed e, ae_severity e,
      map json_tree [json_val (ae_target e), json_val (ae_input e), dict_val (json_dict (ae_metadata e))])"

definition hash_text :: "audit_event \<Rightarrow> string" where
  "hash_text e = json_dumps (dict_val (hashed_data e))"

definition plain_event :: "audit_event \<Rightarrow> bool" where
  "plain_event e = plain_floats (dict_val (hashed_data e))"

lemma hashed_data_distinct: "distinct (map fst (hashed_data e))"
proof -
  have "distinct (map fst (audit_event_dump (e\<lparr>event_hash := None\<rparr>)))" by (simp add: audit_event_dump_def)
  then show ?thesis by (simp add: hashed_data_def Let_def distinct_map_filter)
qed

lemma map_of_hashed_data:
  assumes "k \<noteq> ''rygnal_package_version'' \<or> schema_version e \<noteq> ''audit.v1''"
  shows "map_of (hashed_data e) k = map_of (audit_event_dump (e\<lparr>event_hash := None\<rparr>)) k"
proof -
  have "map_of (filter (\<lambda>(k', v). k' \<noteq> ''rygnal_package_version'') d) k = map_of d k"
    if "k \<noteq> ''rygnal_package_version''" for d :: dict
    using that by (induction d) auto
  then show ?thesis using assms by (auto simp: hashed_data_def Let_def)
qed

lemma json_tree_opt: "json_tree (opt_val x) = json_tree (opt_val y) \<longleftrightarrow> x = y"
  by (cases x; cases y) simp_all

lemma hashed_facts:
  assumes "json_tree (dict_val (hashed_data e)) = json_tree (dict_val (hashed_data f))"
  shows "event_facts e = event_facts f"
proof -
  note look = json_tree_dict_lookup [OF assms hashed_data_distinct hashed_data_distinct]
  have field: "map_option json_tree (map_of (audit_event_dump (e\<lparr>event_hash := None\<rparr>)) k) =
      map_option json_tree (map_of (audit_event_dump (f\<lparr>event_hash := None\<rparr>)) k)"
    if "k \<noteq> ''rygnal_package_version'' \<or> schema_version e \<noteq> ''audit.v1'' \<and> schema_version f \<noteq> ''audit.v1''" for k
    using look [of k] map_of_hashed_data [of k e] map_of_hashed_data [of k f] that by auto
  note dump = audit_event_dump_def
  have schema: "schema_version e = schema_version f"
    using field [of "''schema_version''"] by (simp add: dump)
  have "(if schema_version e = ''audit.v1'' then [] else [rygnal_package_version e]) =
      (if schema_version f = ''audit.v1'' then [] else [rygnal_package_version f])"
    using field [of "''rygnal_package_version''"] schema by (simp add: dump)
  moreover note schema
  moreover have "event_id e = event_id f" using field [of "''event_id''"] by (simp add: dump)
  moreover have "ae_timestamp e = ae_timestamp f" using field [of "''timestamp''"] by (simp add: dump)
  moreover have "ae_trace_id e = ae_trace_id f" using field [of "''trace_id''"] by (simp add: dump)
  moreover have "ae_user_id e = ae_user_id f" using field [of "''user_id''"] by (simp add: dump)
  moreover have "ae_agent_id e = ae_agent_id f" using field [of "''agent_id''"] by (simp add: dump)
  moreover have "ae_environment e = ae_environment f" using field [of "''environment''"] by (simp add: dump)
  moreover have "ae_tool_name e = ae_tool_name f" using field [of "''tool_name''"] by (simp add: dump)
  moreover have "ae_reason e = ae_reason f" using field [of "''reason''"] by (simp add: dump)
  moreover have "ae_action e = ae_action f" using field [of "''action''"] by (simp add: dump json_tree_opt)
  moreover have "ae_policy_id e = ae_policy_id f" using field [of "''policy_id''"] by (simp add: dump json_tree_opt)
  moreover have "prev_event_hash e = prev_event_hash f"
    using field [of "''prev_event_hash''"] by (simp add: dump json_tree_opt)
  moreover have "ae_decision e = ae_decision f"
    using field [of "''decision''"] by (simp add: dump decision_value_inject)
  moreover have "ae_allowed e = ae_allowed f"
    using field [of "''allowed''"] by (simp add: dump split: if_splits)
  moreover have "ae_severity e = ae_severity f"
    using field [of "''severity''"] by (simp add: dump severity_value_inject)
  moreover have "json_tree (json_val (ae_target e)) = json_tree (json_val (ae_target f))"
    using field [of "''target''"] by (simp add: dump)
  moreover have "json_tree (json_val (ae_input e)) = json_tree (json_val (ae_input f))"
    using field [of "''input''"] by (simp add: dump)
  moreover have "json_tree (dict_val (json_dict (ae_metadata e))) = json_tree (dict_val (json_dict (ae_metadata f)))"
    using field [of "''metadata''"] by (simp add: dump)
  ultimately show ?thesis by (simp only: event_facts_def list.map)
qed

lemma hash_determines:
  assumes "calculate_event_hash lib e = calculate_event_hash lib f"
    and "inj_on (sha256 lib) S" "hash_text e \<in> S" "hash_text f \<in> S" "plain_event e" "plain_event f"
  shows "event_facts e = event_facts f"
proof -
  have "hash_text e = hash_text f"
    using assms(1) inj_onD [OF assms(2) _ assms(3,4)] by (simp add: calculate_event_hash_def hash_text_def)
  then show ?thesis
    unfolding hash_text_def
    by (intro hashed_facts json_dumps_tree assms(5,6) [unfolded plain_event_def])
qed

lemma event_facts_prev: "event_facts e = event_facts f \<Longrightarrow> prev_event_hash e = prev_event_hash f"
  by (simp add: event_facts_def)

lemma chain_unique:
  assumes "verify_events lib None es" "verify_events lib None fs" "last_hash es = last_hash fs"
    and "inj_on (sha256 lib) S" "hash_text ` set es \<subseteq> S" "hash_text ` set fs \<subseteq> S"
    and "list_all plain_event es" "list_all plain_event fs"
  shows "map event_facts es = map event_facts fs \<and> map event_hash es = map event_hash fs"
  using assms
proof (induction es arbitrary: fs rule: rev_induct)
  case Nil
  then show ?case
    by (cases fs rule: rev_cases) (auto simp: last_hash_def verify_events_snoc)
next
  case (snoc e es)
  then obtain f fs' where fs: "fs = fs' @ [f]"
    by (cases fs rule: rev_cases) (auto simp: last_hash_def verify_events_snoc)
  have same: "event_hash e = event_hash f" using snoc.prems(3) by (simp add: last_hash_def fs)
  then have facts: "event_facts e = event_facts f"
    using snoc.prems by (intro hash_determines [where lib = lib and S = S]) (auto simp: fs verify_events_snoc)
  have "last_hash es = last_hash fs'"
    using event_facts_prev [OF facts] snoc.prems(1,2) by (simp add: fs verify_events_snoc last_hash_def)
  then show ?case
    using snoc.IH [of fs'] snoc.prems same facts by (simp add: fs verify_events_snoc)
qed

section \<open>Properties\<close>

text \<open>
  A constructor of events from their JSON data, to instantiate pydantic's: missing or mistyped fields
  take a default.
\<close>

fun opt_of :: "pyval option \<Rightarrow> string option" where
  "opt_of (Some (PStr s)) = Some s"
| "opt_of _ = None"

definition text_of :: "pyval option \<Rightarrow> string" where
  "text_of v = (case opt_of v of None \<Rightarrow> [] | Some s \<Rightarrow> s)"

definition dict_of :: "pyval option \<Rightarrow> dict" where
  "dict_of v = (case v of Some (PDict kvs) \<Rightarrow> map (\<lambda>(k, w). (key_text k, w)) kvs | _ \<Rightarrow> [])"

definition decision_of :: "string \<Rightarrow> decision" where
  "decision_of s = (if s = ''allow'' then ALLOW else if s = ''simulate'' then SIMULATE
     else if s = ''require_approval'' then REQUIRE_APPROVAL else BLOCK)"

definition severity_of :: "string \<Rightarrow> severity" where
  "severity_of s = (if s = ''low'' then SevLOW else if s = ''medium'' then SevMEDIUM
     else if s = ''high'' then SevHIGH else SevCRITICAL)"

definition sample_make_event :: "dict \<Rightarrow> audit_event res" where
  "sample_make_event d = (let f = map_of d in Inr
     \<lparr>schema_version = text_of (f ''schema_version''), rygnal_package_version = text_of (f ''rygnal_package_version''),
      event_id = text_of (f ''event_id''), ae_timestamp = text_of (f ''timestamp''),
      ae_trace_id = text_of (f ''trace_id''), ae_user_id = text_of (f ''user_id''),
      ae_agent_id = text_of (f ''agent_id''), ae_environment = text_of (f ''environment''),
      ae_tool_name = text_of (f ''tool_name''), ae_action = opt_of (f ''action''),
      ae_target = the (f ''target''), ae_input = the (f ''input''),
      ae_decision = decision_of (text_of (f ''decision'')), ae_allowed = (f ''allowed'' = Some (PBool True)),
      ae_severity = severity_of (text_of (f ''severity'')), ae_policy_id = opt_of (f ''policy_id''),
      ae_reason = text_of (f ''reason''), ae_metadata = dict_of (f ''metadata''),
      prev_event_hash = opt_of (f ''prev_event_hash''), event_hash = opt_of (f ''event_hash'')\<rparr>)"

lemma opt_of_opt_val [simp]: "opt_of (Some (opt_val x)) = x"
  by (cases x) simp_all

lemma values_of [simp]:
  "decision_of (decision_value d) = d" "severity_of (severity_value v) = v"
  by (cases d; simp add: decision_of_def) (cases v; simp add: severity_of_def)

lemma json_val_idem [simp]: "json_val (json_val v) = json_val v"
  by (induction v) (auto simp: comp_def case_prod_beta)

lemma dict_of_dict_val [simp]: "dict_of (Some (dict_val d)) = d"
  by (simp add: dict_of_def dict_val_def key_text_def comp_def case_prod_beta)

lemma json_dict_idem [simp]: "json_dict (json_dict d) = json_dict d"
  by (simp add: json_dict_def comp_def case_prod_beta)

lemma sample_reads_back: "reads_back \<lparr>sha256 = h, make_event = sample_make_event\<rparr>"
  unfolding reads_back_def
proof
  fix e
  have "audit_event_dump (projr (sample_make_event (audit_event_dump e))) = audit_event_dump e"
    by (simp add: sample_make_event_def Let_def audit_event_dump_def text_of_def)
  then show "\<exists>e'. make_event \<lparr>sha256 = h, make_event = sample_make_event\<rparr> (audit_event_dump e) = Inr e' \<and>
      audit_event_dump e' = audit_event_dump e"
    by (simp add: sample_make_event_def Let_def)
qed

definition sample_audit_lib :: audit_lib where
  "sample_audit_lib = \<lparr>sha256 = Cons CHR ''d'', make_event = sample_make_event\<rparr>"

definition sample_event :: audit_event where
  "sample_event = \<lparr>schema_version = ''audit.v2'', rygnal_package_version = ''1'', event_id = ''e1'',
     ae_timestamp = ''t'', ae_trace_id = ''t1'', ae_user_id = ''ann'', ae_agent_id = ''a'',
     ae_environment = ''dev'', ae_tool_name = ''shell'', ae_action = None, ae_target = PNone, ae_input = PNone,
     ae_decision = BLOCK, ae_allowed = False, ae_severity = SevHIGH, ae_policy_id = None, ae_reason = ''r'',
     ae_metadata = [], prev_event_hash = None, event_hash = None\<rparr>"

text \<open>
  A run of a logger: before each write the operating system and the database may start or stop failing.
\<close>

definition set_faults :: "py_exn option \<Rightarrow> py_exn option \<Rightarrow> audit_logger \<Rightarrow> audit_logger" where
  "set_faults f d logger =
     logger\<lparr>file_fault := f, storage := map_option (\<lambda>db. db\<lparr>db_fault := d\<rparr>) (storage logger)\<rparr>"

fun write_all :: "audit_lib \<Rightarrow> audit_logger \<Rightarrow> (py_exn option \<times> py_exn option \<times> audit_event) list \<Rightarrow> audit_logger" where
  "write_all lib logger [] = logger"
| "write_all lib logger ((f, d, event) # steps) =
     write_all lib (snd (write_event lib (set_faults f d logger) event)) steps"

definition new_logger :: "bool \<Rightarrow> audit_logger" where
  "new_logger with_store = \<lparr>jsonl = None,
     storage = (if with_store then Some \<lparr>rows = [], next_row_id = 1, db_fault = None\<rparr> else None),
     file_fault = None\<rparr>"

lemma set_faults_holds [simp]: "logger_holds (set_faults f d logger) evs = logger_holds logger evs"
  by (auto simp: logger_holds_def set_faults_def lines_of_def db_holds_def split: option.splits)

lemma write_all_intact: "logger_chain.intact lib logger \<Longrightarrow> logger_chain.intact lib (write_all lib logger steps)"
proof (induction lib logger steps rule: write_all.induct)
  case (2 lib logger f d event steps)
  have "logger_chain.intact lib (set_faults f d logger)"
    using "2.prems" by (simp add: logger_chain.intact_def)
  then show ?case
    using "2.IH" logger_chain.write_intact by simp
qed simp


text \<open>
  (C36) The chain is tamper evident: two logs that both verify and end in the same hash have the same length
  and agree, event by event, on every recorded field, unless the digest collides on their texts. So an
  edit, insertion, removal or reordering behind a known last hash is detected.
\<close>

theorem tamper_evidence:
  assumes "verify_events lib None es" and "verify_events lib None fs" and "last_hash es = last_hash fs"
    and "inj_on (sha256 lib) (hash_text ` (set es \<union> set fs))"
    and "list_all plain_event es" and "list_all plain_event fs"
  shows "map event_facts es = map event_facts fs \<and> map event_hash es = map event_hash fs"
  by (rule chain_unique [OF assms(1-4) _ _ assms(5,6)]) auto

text \<open>
  Verification alone does not see a cut: a verifying log from which any number of newest events was
  removed still verifies.
\<close>

theorem truncation_undetected:
  assumes "verify_events lib None (es @ removed)"
  shows "verify_events lib None es"
proof -
  have "verify_events lib p (es @ removed) \<Longrightarrow> verify_events lib p es" for p
    by (induction es arbitrary: p) (auto split: if_splits)
  then show ?thesis using assms .
qed

text \<open>
  A successful write is durable and only appends: afterwards the log reads as what it held before
  followed by the written event, with the hash link that was returned to the caller.
\<close>

theorem write_event_appends:
  assumes "reads_back lib" and "logger_holds logger evs" and "write_event lib logger event = (Inr b, logger')"
  shows "file_fault logger' = None \<and> event_id b = event_id event \<and>
    (\<exists>es f. read_events lib logger' = Inr (es @ [f]) \<and> audit_event_dump f = audit_event_dump b \<and>
       map audit_event_dump es = map audit_event_dump evs)"
proof -
  have ff: "file_fault logger' = None"
    using assms(3) by (auto simp: write_event_def Let_def split: option.splits sum.splits)
  moreover have "b = bind_event lib (last_hash evs) event"
    using logger_chain.write_ok [OF assms(2,3)] by blast
  ultimately show ?thesis
    using logger_chain.write_is_read [OF assms(2,3) ff assms(1)] by simp
qed


lemma sample_chain: "verify_events lib None [bind_event lib None e]"
  using bind_event_extends [of lib "[]" e] by (simp add: last_hash_def)

theorem tamper_evidence_witness:
  "map event_facts [bind_event sample_audit_lib None sample_event] =
     map event_facts [bind_event sample_audit_lib None sample_event]"
proof (rule tamper_evidence [THEN conjunct1])
  let ?e = "bind_event sample_audit_lib None sample_event"
  show "verify_events sample_audit_lib None [?e]" "verify_events sample_audit_lib None [?e]"
    by (rule sample_chain)+
  show "inj_on (sha256 sample_audit_lib) (hash_text ` (set [?e] \<union> set [?e]))"
    by (simp add: inj_on_def)
  show "list_all plain_event [?e]" "list_all plain_event [?e]"
    by (simp_all add: plain_event_def hashed_data_def bind_event_def Let_def sample_event_def
        audit_event_dump_def dict_val_def json_dict_def)
qed simp

end
