(* ===== verification/Interceptor.thy ===== *)
theory Interceptor
  imports Policy_Engine Approval Audit_Log
begin

text \<open>
  \<open>src/rygnal/interceptor.py\<close>, \<open>tool_executor.py\<close> and \<open>core.py\<close>: the control point between an agent and
  its tools. One call of \<open>intercept\<close> takes the interceptor's state to the next; the state holds the risk
  engine with its trace history, the audit logger and the \<open>world\<close> that the tools act on. A tool is any
  function of the request and the world: it returns an output or raises, and changes the world either way.
\<close>

section \<open>The tool executor\<close>

type_synonym 'w tool_handler = "tool_request \<Rightarrow> 'w \<Rightarrow> pyval res \<times> 'w"

definition register :: "(string \<times> 'w tool_handler) list \<Rightarrow> string \<Rightarrow> 'w tool_handler \<Rightarrow> (string \<times> 'w tool_handler) list" where
  "register tools name handler = AList.update name handler tools"

definition has_tool :: "(string \<times> 'w tool_handler) list \<Rightarrow> string \<Rightarrow> bool" where
  "has_tool tools name = list_ex (\<lambda>(n, h). n = name) tools"

definition execute ::
  "(string \<times> 'w tool_handler) list \<Rightarrow> tool_request \<Rightarrow> 'w \<Rightarrow> tool_execution_result \<times> 'w" where
  "execute tools request world =
     (case map_of tools (tool_name request) of
        None \<Rightarrow> (\<lparr>te_status = FAILED, te_executed = False, te_output = PNone,
           te_error = Some (''No registered tool handler for: '' @ tool_name request)\<rparr>, world)
      | Some handler \<Rightarrow>
          (case handler request world of
             (Inl exc, world') \<Rightarrow> (\<lparr>te_status = FAILED, te_executed = True, te_output = PNone,
                te_error = Some (''Tool execution failed: '' @ exn_msg exc)\<rparr>, world')
           | (Inr output, world') \<Rightarrow> (\<lparr>te_status = EXECUTED, te_executed = True, te_output = output,
                te_error = None\<rparr>, world')))"

section \<open>The state\<close>

text \<open>
  The components that \<open>__init__\<close> stores, and the libraries they rest on. \<open>policy_fault\<close> is the exception
  that the policy engine raises on the next evaluation, if it raises one.
\<close>

record 'w interceptor =
  policy_library :: policy_lib
  policy_eng :: policy_engine
  policy_fault :: "py_exn option"
  risk_library :: risk_lib
  risk_eng :: risk_engine
  audit_library :: audit_lib
  audit_log :: audit_logger
  tool_handlers :: "(string \<times> 'w tool_handler) list"
  workflow_opt :: "approval_workflow option"
  run_mode :: runtime_mode
  world_of :: 'w

record intercept_draws =
  id_approval :: approval_draws
  id_event :: event_draws
  id_fallback :: event_draws

definition FAIL_CLOSED_RUNTIME_ERRORS :: "exn_kind list" where
  "FAIL_CLOSED_RUNTIME_ERRORS = [RuntimeErr, ValueErr, OSErr, LookupErr]"

definition caught :: "py_exn \<Rightarrow> bool" where
  "caught e = (exn_kind e \<in> set FAIL_CLOSED_RUNTIME_ERRORS)"

section \<open>Failing closed\<close>

definition fail_closed_reason :: "string \<Rightarrow> py_exn \<Rightarrow> string" where
  "fail_closed_reason reason_code exc = ''global_fail_closed:'' @ reason_code @ '':'' @ exn_type exc"

definition fail_closed_decision :: "string \<Rightarrow> py_exn \<Rightarrow> policy_decision" where
  "fail_closed_decision reason_code exc =
     \<lparr>pd_decision = BLOCK, pd_allowed = False, pd_severity = SevHIGH,
      pd_reason = fail_closed_reason reason_code exc, pd_policy_id = Some ''global-fail-closed'',
      pd_explanation = Some \<lparr>pe_policy_version = ''global-fail-closed.v1'', pe_matched = False,
        pe_matched_rule_id = None, pe_matched_rule_priority = None, pe_matched_conditions = [reason_code],
        pe_evaluated_rule_ids = [], pe_default_decision = False\<rparr>\<rparr>"

definition explanation_val :: "policy_decision \<Rightarrow> pyval" where
  "explanation_val d = (case pd_explanation d of None \<Rightarrow> PNone | Some e \<Rightarrow> dict_val (policy_explanation_dump e))"

definition fail_closed_metadata :: "runtime_mode \<Rightarrow> string \<Rightarrow> py_exn \<Rightarrow> dict \<Rightarrow> dict \<Rightarrow> dict" where
  "fail_closed_metadata mode reason_code exc risk_metadata extra_metadata =
     dict_merge (dict_merge risk_metadata
       [(''runtime_mode'', PStr (runtime_mode_value mode)),
        (''fail_closed'', PBool True),
        (''fail_closed_reason_code'', PStr reason_code),
        (''error_type'', PStr (exn_type exc)),
        (''error_summary'', PStr (exn_type exc @ '' during '' @ reason_code)),
        (''policy_explanation'', explanation_val (fail_closed_decision reason_code exc))])
       extra_metadata"

text \<open>The event that stands in for one that could not be written; it is not in the log.\<close>

definition fallback_audit_event ::
  "event_draws \<Rightarrow> tool_request \<Rightarrow> policy_decision \<Rightarrow> dict \<Rightarrow> audit_event res" where
  "fallback_audit_event draws request decision metadata =
     rbind (redact_sensitive_value (opt_val (tr_target request))) (\<lambda>target.
     rbind (redact_sensitive_value (tr_input request)) (\<lambda>input.
     rbind (redact_dict metadata) (\<lambda>redacted.
       Inr \<lparr>schema_version = ''audit.v2'', rygnal_package_version = draw_package_version draws,
         event_id = draw_event_id draws, ae_timestamp = draw_timestamp draws,
         ae_trace_id = (case map_of (tr_metadata request) ''trace_id'' of
             Some v \<Rightarrow> if truthy v then str_val v else [] | None \<Rightarrow> []),
         ae_user_id = user_id request, ae_agent_id = agent_id request, ae_environment = environment request,
         ae_tool_name = tool_name request, ae_action = tr_action request, ae_target = target,
         ae_input = input, ae_decision = pd_decision decision, ae_allowed = pd_allowed decision,
         ae_severity = pd_severity decision, ae_policy_id = pd_policy_id decision,
         ae_reason = pd_reason decision, ae_metadata = redacted, prev_event_hash = None,
         event_hash = None\<rparr>)))"

definition log_or_synthesize ::
  "audit_lib \<Rightarrow> intercept_draws \<Rightarrow> audit_logger \<Rightarrow> tool_request \<Rightarrow> policy_decision \<Rightarrow> dict \<Rightarrow>
   audit_event res \<times> audit_logger" where
  "log_or_synthesize lib draws logger request decision metadata =
     (case log_decision lib (id_event draws) logger request decision metadata of
        (Inr event, logger') \<Rightarrow> (Inr event, logger')
      | (Inl exc, logger') \<Rightarrow>
          if caught exc
          then (fallback_audit_event (id_fallback draws) request decision
                  (dict_merge metadata
                    [(''audit_write_failed'', PBool True),
                     (''audit_error_type'', PStr (exn_type exc)),
                     (''audit_error_summary'', PStr (exn_type exc @ '' while writing fail-closed audit event''))]),
                logger')
          else (Inl exc, logger'))"

definition fail_closed_result ::
  "intercept_draws \<Rightarrow> 'w interceptor \<Rightarrow> tool_request \<Rightarrow> string \<Rightarrow> py_exn \<Rightarrow> dict \<Rightarrow> dict \<Rightarrow>
   interceptor_result res \<times> 'w interceptor" where
  "fail_closed_result draws s request reason_code exc risk_metadata extra_metadata =
     (let decision = fail_closed_decision reason_code exc;
          (logged, logger') = log_or_synthesize (audit_library s) draws (audit_log s) request decision
             (fail_closed_metadata (run_mode s) reason_code exc risk_metadata extra_metadata)
      in (rbind logged (\<lambda>event. Inr
            \<lparr>ir_request = request, ir_risk_assessment = risk_metadata, ir_policy_decision = decision,
             ir_audit_event = event,
             ir_execution = \<lparr>te_status = SKIPPED, te_executed = False, te_output = PNone,
               te_error = Some (fail_closed_reason reason_code exc)\<rparr>,
             ir_approval_decision = None\<rparr>),
          s\<lparr>audit_log := logger'\<rparr>))"

section \<open>Execution under a decision\<close>

definition skipped :: "string \<Rightarrow> tool_execution_result" where
  "skipped msg = \<lparr>te_status = SKIPPED, te_executed = False, te_output = PNone, te_error = Some msg\<rparr>"

definition simulated :: "string \<Rightarrow> tool_execution_result" where
  "simulated msg = \<lparr>te_status = SIMULATED, te_executed = False, te_output = PStr msg, te_error = None\<rparr>"

definition execute_with_decision ::
  "'w interceptor \<Rightarrow> tool_request \<Rightarrow> policy_decision \<Rightarrow> approval_decision option \<Rightarrow>
   tool_execution_result \<times> 'w" where
  "execute_with_decision s request decision approval =
     (let run = execute (tool_handlers s) request (world_of s);
          value_text = decision_value (pd_decision decision);
          stay = (\<lambda>r. (r, world_of s))
      in case run_mode s of
           OBSERVE \<Rightarrow> stay (skipped ''Tool execution skipped: Rygnal is in observe mode.'')
         | SIMULATE_MODE \<Rightarrow>
             if pd_decision decision = ALLOW
             then stay (simulated ''Simulated tool execution (simulate mode).'')
             else stay (skipped (''Tool execution skipped (simulate mode): '' @ value_text))
         | _ \<Rightarrow>
             (case pd_decision decision of
                ALLOW \<Rightarrow> run
              | SIMULATE \<Rightarrow> stay (simulated ''Simulated decision. Tool was not executed.'')
              | REQUIRE_APPROVAL \<Rightarrow>
                  if (case approval of None \<Rightarrow> False | Some a \<Rightarrow> ad_approved a) then run
                  else stay (skipped ''Tool execution skipped because approval was not granted.'')
              | BLOCK \<Rightarrow> stay (skipped (''Tool execution skipped because decision is: '' @ value_text))))"

section \<open>Interception\<close>

definition approval_entry :: "approval_request \<Rightarrow> approval_decision \<Rightarrow> dict" where
  "approval_entry asked answer =
     [(''approval_id'', PStr (ar_approval_id asked)),
      (''status'', PStr (approval_status_value (ad_status answer))),
      (''approved'', PBool (ad_approved answer)),
      (''decided_by'', opt_val (ad_decided_by answer)),
      (''decided_at'', opt_val (ad_decided_at answer)),
      (''reason'', PStr (ad_reason answer)),
      (''metadata'', dict_val (ad_metadata answer))]"

definition audit_metadata_of :: "runtime_mode \<Rightarrow> dict \<Rightarrow> policy_decision \<Rightarrow> dict" where
  "audit_metadata_of mode risk_metadata decision =
     (let base = AList.update ''runtime_mode'' (PStr (runtime_mode_value mode)) risk_metadata
      in case pd_explanation decision of
           None \<Rightarrow> base
         | Some e \<Rightarrow> AList.update ''policy_explanation'' (dict_val (policy_explanation_dump e)) base)"

text \<open>The audit entry is written first, then the decision is carried out.\<close>

definition log_and_execute ::
  "intercept_draws \<Rightarrow> 'w interceptor \<Rightarrow> tool_request \<Rightarrow> dict \<Rightarrow> policy_decision \<Rightarrow>
   approval_decision option \<Rightarrow> dict \<Rightarrow> interceptor_result res \<times> 'w interceptor" where
  "log_and_execute draws s request risk_metadata decision approval audit_metadata =
     (case log_decision (audit_library s) (id_event draws) (audit_log s) request decision audit_metadata of
        (Inl exc, logger') \<Rightarrow> (Inl exc, s\<lparr>audit_log := logger'\<rparr>)
      | (Inr event, logger') \<Rightarrow>
          (let (execution, world') = execute_with_decision s request decision approval
           in (Inr \<lparr>ir_request = request, ir_risk_assessment = risk_metadata, ir_policy_decision = decision,
                 ir_audit_event = event, ir_execution = execution, ir_approval_decision = approval\<rparr>,
               s\<lparr>audit_log := logger', world_of := world'\<rparr>)))"

definition workflow_in :: "'w interceptor \<Rightarrow> approval_workflow" where
  "workflow_in s = (case workflow_opt s of None \<Rightarrow> make_approval_workflow None [] [] [] | Some w \<Rightarrow> w)"

definition decide_and_execute ::
  "intercept_draws \<Rightarrow> 'w interceptor \<Rightarrow> tool_request \<Rightarrow> dict \<Rightarrow> policy_decision \<Rightarrow>
   interceptor_result res \<times> 'w interceptor" where
  "decide_and_execute draws s request risk_metadata decision =
     (let audit_metadata = audit_metadata_of (run_mode s) risk_metadata decision
      in if pd_decision decision \<noteq> REQUIRE_APPROVAL
         then log_and_execute draws s request risk_metadata decision None audit_metadata
         else case request_approval (sha256 (audit_library s)) (id_approval draws) (workflow_in s) request
                     decision risk_metadata of
             Inl exc \<Rightarrow>
               if caught exc
               then fail_closed_result draws s request ''approval_workflow_failed'' exc risk_metadata
                      [(''unconfirmed_pre_approval_decision'', dict_val (policy_decision_dump decision))]
               else (Inl exc, s)
           | Inr (asked, answer) \<Rightarrow>
               log_and_execute draws s request risk_metadata decision (Some answer)
                 (AList.update ''approval'' (dict_val (approval_entry asked answer)) audit_metadata))"

definition intercept ::
  "intercept_draws \<Rightarrow> 'w interceptor \<Rightarrow> tool_request \<Rightarrow> interceptor_result res \<times> 'w interceptor" where
  "intercept draws s request =
     (case assess (risk_library s) (risk_eng s) request of
        (Inl exc, eng) \<Rightarrow>
          if caught exc
          then fail_closed_result draws (s\<lparr>risk_eng := eng\<rparr>) request ''risk_assessment_failed'' exc [] []
          else (Inl exc, s\<lparr>risk_eng := eng\<rparr>)
      | (Inr risk, eng) \<Rightarrow>
          let s = s\<lparr>risk_eng := eng\<rparr>; risk_metadata = json_dict (risk_assessment_dump risk)
          in (case policy_fault s of
                Some exc \<Rightarrow>
                  if caught exc
                  then fail_closed_result draws s request ''policy_evaluation_failed'' exc risk_metadata []
                  else (Inl exc, s)
              | None \<Rightarrow> decide_and_execute draws s request risk_metadata
                  (evaluate (policy_library s) (policy_eng s) request (Some risk))))"

text \<open>\<open>Rygnal.__init__\<close>: the defaults that are filled in.\<close>

definition runtime_mode_of :: "string \<Rightarrow> runtime_mode res" where
  "runtime_mode_of text =
     (case find (\<lambda>m. runtime_mode_value m = text) [OBSERVE, SIMULATE_MODE, ENFORCE, PRODUCTION_SAFE] of
        Some m \<Rightarrow> Inr m
      | None \<Rightarrow> Inl (Exn ValueErr ''ValueError'' (repr_str text @ '' is not a valid RuntimeMode'')))"

definition make_rygnal ::
  "policy_lib \<Rightarrow> risk_lib \<Rightarrow> audit_lib \<Rightarrow> 'w \<Rightarrow> policy_engine option \<Rightarrow> audit_logger \<Rightarrow>
   (string \<times> 'w tool_handler) list \<Rightarrow> risk_engine option \<Rightarrow> approval_workflow option \<Rightarrow> string \<Rightarrow>
   'w interceptor res" where
  "make_rygnal plib rlib alib world policy logger tools risk workflow mode =
     rbind (runtime_mode_of mode) (\<lambda>mode.
     rbind (case policy of Some p \<Rightarrow> Inr p | None \<Rightarrow> load_default_policy_engine plib mode) (\<lambda>eng. Inr
       \<lparr>policy_library = plib, policy_eng = eng, policy_fault = None, risk_library = rlib,
        risk_eng = (case risk of None \<Rightarrow> new_risk_engine | Some r \<Rightarrow> r), audit_library = alib,
        audit_log = logger, tool_handlers = tools, workflow_opt = workflow, run_mode = mode,
        world_of = world\<rparr>))"

section \<open>What an interception can do\<close>

text \<open>The decision under which a request runs, once risk and policy have answered.\<close>

definition policy_answer :: "'w interceptor \<Rightarrow> tool_request \<Rightarrow> (risk_assessment \<times> policy_decision) option" where
  "policy_answer s request =
     (case fst (assess (risk_library s) (risk_eng s) request) of
        Inl _ \<Rightarrow> None
      | Inr risk \<Rightarrow> if policy_fault s = None
          then Some (risk, evaluate (policy_library s) (policy_eng s) request (Some risk)) else None)"

definition approval_answer ::
  "intercept_draws \<Rightarrow> 'w interceptor \<Rightarrow> tool_request \<Rightarrow> risk_assessment \<Rightarrow> policy_decision \<Rightarrow>
   (approval_request \<times> approval_decision) res" where
  "approval_answer draws s request risk decision =
     request_approval (sha256 (audit_library s)) (id_approval draws) (workflow_in s) request decision
       (json_dict (risk_assessment_dump risk))"

definition runs_tools :: "runtime_mode \<Rightarrow> bool" where
  "runs_tools m = (m = ENFORCE \<or> m = PRODUCTION_SAFE)"

lemma fail_closed_result_world [simp]:
  "world_of (snd (fail_closed_result draws s request code exc risk extra)) = world_of s"
  by (simp add: fail_closed_result_def split_def Let_def)

lemma workflow_in_update [simp]: "workflow_in (s\<lparr>risk_eng := e\<rparr>) = workflow_in s"
  by (simp add: workflow_in_def)

lemma execute_with_decision_cases:
  assumes "execute_with_decision s request decision approval = (x, w)" "w \<noteq> world_of s \<or> te_executed x"
  shows "runs_tools (run_mode s) \<and> execute (tool_handlers s) request (world_of s) = (x, w) \<and>
    (pd_decision decision = ALLOW \<or>
     pd_decision decision = REQUIRE_APPROVAL \<and> (\<exists>a. approval = Some a \<and> ad_approved a))"
  using assms
  by (cases "run_mode s"; cases "pd_decision decision")
     (auto simp: execute_with_decision_def runs_tools_def Let_def skipped_def simulated_def
       split: option.splits if_splits)

lemma execute_cases:
  assumes "execute tools request w = (x, w')" "w' \<noteq> w \<or> te_executed x"
  shows "te_executed x \<and> (\<exists>handler. map_of tools (tool_name request) = Some handler \<and> w' = snd (handler request w))"
  using assms by (auto simp: execute_def split: option.splits prod.splits sum.splits)

text \<open>Every interception either logs and executes, or leaves the world as it is.\<close>

lemma intercept_cases:
  assumes "intercept draws s request = (r, s')" "world_of s' \<noteq> world_of s"
  obtains risk decision approval metadata where
    "policy_answer s request = Some (risk, decision)"
    "log_and_execute draws (s\<lparr>risk_eng := snd (assess (risk_library s) (risk_eng s) request)\<rparr>) request
       (json_dict (risk_assessment_dump risk)) decision approval metadata = (r, s')"
    "pd_decision decision = REQUIRE_APPROVAL \<Longrightarrow>
       \<exists>asked answer. approval_answer draws s request risk decision = Inr (asked, answer) \<and> approval = Some answer"
proof -
  obtain a eng where a: "assess (risk_library s) (risk_eng s) request = (a, eng)" by fastforce
  let ?s = "s\<lparr>risk_eng := eng\<rparr>"
  have same: "world_of (snd (fail_closed_result draws ?s request code exc risk extra)) = world_of s" for code exc risk extra
    by simp
  have nofail: "fail_closed_result draws ?s request code exc risk extra \<noteq> (r, s')" for code exc risk extra
    using same [of code exc risk extra] assms(2) by (metis snd_conv)
  obtain risk where risk: "a = Inr risk"
    using assms a nofail by (cases a) (auto simp: intercept_def split: if_splits)
  have fault: "policy_fault s = None"
    using assms a risk nofail by (cases "policy_fault s") (auto simp: intercept_def Let_def split: if_splits)
  define decision where "decision = evaluate (policy_library s) (policy_eng s) request (Some risk)"
  have answer: "policy_answer s request = Some (risk, decision)"
    using a risk fault by (simp add: policy_answer_def decision_def)
  have eq: "decide_and_execute draws ?s request (json_dict (risk_assessment_dump risk)) decision = (r, s')"
    using assms(1) a risk fault by (simp add: intercept_def decision_def)
  show thesis
  proof (cases "pd_decision decision = REQUIRE_APPROVAL")
    case False
    with eq show thesis
      using that [OF answer] a by (simp add: decide_and_execute_def Let_def)
  next
    case True
    show thesis
    proof (cases "approval_answer draws s request risk decision")
      case (Inl exc)
      with True eq assms(2) nofail show thesis
        by (auto simp: decide_and_execute_def approval_answer_def Let_def split: if_splits)
    next
      case (Inr x)
      obtain asked ans where "x = (asked, ans)" by fastforce
      with True eq Inr show thesis
        using that [OF answer, of "Some ans"] a by (simp add: decide_and_execute_def approval_answer_def Let_def)
    qed
  qed
qed

lemma log_and_execute_cases:
  assumes "log_and_execute draws s request risk decision approval metadata = (r, s')"
    and "world_of s' \<noteq> world_of s"
  obtains event logger' x where
    "log_decision (audit_library s) (id_event draws) (audit_log s) request decision metadata = (Inr event, logger')"
    "execute_with_decision s request decision approval = (x, world_of s')"
    "audit_log s' = logger'" "r = Inr \<lparr>ir_request = request, ir_risk_assessment = risk,
       ir_policy_decision = decision, ir_audit_event = event, ir_execution = x, ir_approval_decision = approval\<rparr>"
  using assms
  by (auto simp: log_and_execute_def Let_def split: prod.splits sum.splits)

lemma log_decision_event:
  assumes "log_decision lib draws logger request decision metadata = (Inr event, logger')"
    and "logger_holds logger evs"
  shows "logger_holds logger' (evs @ [event]) \<and> ae_decision event = pd_decision decision \<and>
    ae_tool_name event = tool_name request \<and> ae_user_id event = user_id request \<and> ae_reason event = pd_reason decision"
proof -
  obtain made where made: "make_audit_event draws request decision metadata = Inr made"
    and w: "write_event lib logger made = (Inr event, logger')"
    using assms(1) by (auto simp: log_decision_def split: sum.splits)
  have ev: "event = bind_event lib (last_hash evs) made" "logger_holds logger' (evs @ [event])"
    using logger_chain.write_ok [OF assms(2) w] by blast+
  have "ae_decision made = pd_decision decision \<and> ae_tool_name made = tool_name request \<and>
      ae_user_id made = user_id request \<and> ae_reason made = pd_reason decision"
    using made by (auto simp: make_audit_event_def res_simps split: option.splits)
  then show ?thesis using ev by (simp add: bind_event_def Let_def)
qed

text \<open>
  (C1) Nothing runs without authority: when an interception changes the world, risk and policy have both
  answered, the mode is one that runs tools, the change is the one made by the handler registered for the
  requested tool, and the policy's decision is to allow, or to ask and the approval was granted; a grant with
  status approved comes from a reviewer other than the requesting user.
\<close>

theorem intercept_runs_only_authorized:
  assumes "intercept draws s request = (r, s')" "world_of s' \<noteq> world_of s"
  shows "runs_tools (run_mode s) \<and>
    (\<exists>handler. map_of (tool_handlers s) (tool_name request) = Some handler \<and>
       world_of s' = snd (handler request (world_of s))) \<and>
    (\<exists>risk decision. policy_answer s request = Some (risk, decision) \<and>
       (pd_decision decision = ALLOW \<or>
        pd_decision decision = REQUIRE_APPROVAL \<and>
        (\<exists>asked answer. approval_answer draws s request risk decision = Inr (asked, answer) \<and> ad_approved answer \<and>
           (ad_status answer = APPROVED \<longrightarrow>
              (\<exists>reviewer. ad_decided_by answer = Some reviewer \<and> reviewer \<noteq> user_id request)))))"
proof -
  obtain risk decision approval metadata where
    answer: "policy_answer s request = Some (risk, decision)" and
    run: "log_and_execute draws (s\<lparr>risk_eng := snd (assess (risk_library s) (risk_eng s) request)\<rparr>) request
       (json_dict (risk_assessment_dump risk)) decision approval metadata = (r, s')" (is "log_and_execute _ ?s _ _ _ _ _ = _") and
    asked: "pd_decision decision = REQUIRE_APPROVAL \<Longrightarrow>
       \<exists>asked answer. approval_answer draws s request risk decision = Inr (asked, answer) \<and> approval = Some answer"
    using intercept_cases [OF assms] by metis
  from run assms(2) obtain x where "execute_with_decision ?s request decision approval = (x, world_of s')"
    by (auto elim: log_and_execute_cases)
  note ran = execute_with_decision_cases [OF this]
  with assms(2) have ex: "execute (tool_handlers s) request (world_of s) = (x, world_of s')" by simp
  show ?thesis
    using ran execute_cases [OF ex] assms(2) answer asked request_approval_sound
    unfolding approval_answer_def by auto
qed

text \<open>
  (C3) Nothing runs unrecorded: when an interception changes the world it returns a result, and the log, which
  held a list of events, now holds one more: the event of the result, with the decision, the tool and the user.
\<close>

theorem intercept_records_what_runs:
  assumes "intercept draws s request = (r, s')" "world_of s' \<noteq> world_of s" "logger_holds (audit_log s) evs"
  shows "\<exists>result. r = Inr result \<and> te_executed (ir_execution result) \<and>
    logger_holds (audit_log s') (evs @ [ir_audit_event result]) \<and>
    ae_decision (ir_audit_event result) = pd_decision (ir_policy_decision result) \<and>
    ae_tool_name (ir_audit_event result) = tool_name request \<and> ae_user_id (ir_audit_event result) = user_id request"
proof -
  obtain risk decision approval metadata where
    run: "log_and_execute draws (s\<lparr>risk_eng := snd (assess (risk_library s) (risk_eng s) request)\<rparr>) request
       (json_dict (risk_assessment_dump risk)) decision approval metadata = (r, s')" (is "log_and_execute _ ?s _ _ _ _ _ = _")
    using intercept_cases [OF assms(1,2)] by metis
  have moved: "world_of s' \<noteq> world_of ?s" using assms(2) by simp
  obtain event logger' x where
    log: "log_decision (audit_library ?s) (id_event draws) (audit_log ?s) request decision metadata = (Inr event, logger')" and
    x: "execute_with_decision ?s request decision approval = (x, world_of s')" and
    s': "audit_log s' = logger'" "r = Inr \<lparr>ir_request = request, ir_risk_assessment = json_dict (risk_assessment_dump risk),
       ir_policy_decision = decision, ir_audit_event = event, ir_execution = x, ir_approval_decision = approval\<rparr>"
    using log_and_execute_cases [OF run moved] by metis
  have "execute (tool_handlers s) request (world_of s) = (x, world_of s')"
    using execute_with_decision_cases [OF x] moved by simp
  then have "te_executed x" using execute_cases assms(2) by metis
  with log_decision_event [OF log, of evs] assms(3) s' show ?thesis by simp
qed

section \<open>Interceptions return\<close>

lemma loggable_iff: "loggable d \<longleftrightarrow> (\<forall>(k, v) \<in> set d. is_sensitive_key k \<or> string_keys v)"
  by (auto simp: dict_val_def)

lemma loggable_update: "loggable d \<Longrightarrow> string_keys v \<Longrightarrow> loggable (AList.update k v d)"
  using set_dict_update [of k v d] by (auto simp: loggable_iff)

lemma set_dict_merge: "set (dict_merge a b) \<subseteq> set a \<union> set b"
  unfolding dict_merge_def
proof (induction b arbitrary: a)
  case (Cons x b)
  obtain k v where "x = (k, v)" by fastforce
  then show ?case using Cons [of "AList.update k v a"] set_dict_update [of k v a] by auto
qed simp

lemma loggable_merge: "loggable a \<Longrightarrow> loggable b \<Longrightarrow> loggable (dict_merge a b)"
  using set_dict_merge [of a b] by (auto simp: loggable_iff)

lemma string_keys_opt [simp]: "string_keys (opt_val x)"
  by (cases x) simp_all

lemma string_keys_explanation: "string_keys (dict_val (policy_explanation_dump e))"
  by (simp add: loggable_iff policy_explanation_dump_def split: option.splits)

lemma string_keys_decision: "string_keys (dict_val (policy_decision_dump d))"
  by (simp add: loggable_iff policy_decision_dump_def string_keys_explanation [unfolded loggable_iff] split: option.splits)

lemma loggable_audit_metadata: "loggable risk \<Longrightarrow> loggable (audit_metadata_of mode risk decision)"
  by (auto simp: audit_metadata_of_def Let_def string_keys_explanation intro!: loggable_update split: option.splits)

lemma loggable_fail_closed:
  "loggable risk \<Longrightarrow> loggable extra \<Longrightarrow> loggable (fail_closed_metadata mode code exc risk extra)"
  unfolding fail_closed_metadata_def explanation_val_def
  by (intro loggable_merge)
     (simp_all add: loggable_iff string_keys_explanation [unfolded loggable_iff] split: option.splits)

definition loggable_request :: "tool_request \<Rightarrow> bool" where
  "loggable_request request = (string_keys (tr_input request) \<and> loggable (tr_metadata request))"

lemma make_audit_event_ok:
  assumes "loggable_request request" "loggable metadata"
  shows "\<exists>made. make_audit_event draws request decision metadata = Inr made"
proof -
  have trace: "\<exists>t. (case map_of (tr_metadata request) ''trace_id'' of
         None \<Rightarrow> Inr (draw_event_trace_id draws)
       | Some PNone \<Rightarrow> Inr (draw_event_trace_id draws)
       | Some v \<Rightarrow> rbind (redact_sensitive_value v) (\<lambda>w. Inr (str_val w))) = Inr t"
  proof (cases "map_of (tr_metadata request) ''trace_id''")
    case (Some v)
    have "\<not> is_sensitive_key ''trace_id''" by code_simp
    with Some assms(1) have "string_keys v"
      by (auto simp: loggable_request_def loggable_iff dest!: map_of_SomeD)
    with Some redact_value_total [of v] show ?thesis by (cases v) auto
  qed simp
  moreover have "\<exists>w. redact_sensitive_value (opt_val (tr_target request)) = Inr w"
    "\<exists>w. redact_sensitive_value (tr_input request) = Inr w"
    using assms(1) by (simp_all only: redact_value_total string_keys_opt loggable_request_def)
  moreover note redact_dict_ok [OF assms(2)]
  ultimately show ?thesis by (auto simp: make_audit_event_def)
qed

text \<open>A log without a store, whose file can be written, takes every event.\<close>

definition writable_log :: "audit_logger \<Rightarrow> audit_event list \<Rightarrow> bool" where
  "writable_log logger evs = (storage logger = None \<and> file_fault logger = None \<and> logger_holds logger evs)"

lemma write_event_ok:
  assumes "writable_log logger evs"
  shows "\<exists>b logger'. write_event lib logger e = (Inr b, logger') \<and> writable_log logger' (evs @ [b])"
proof -
  from assms obtain b logger' where w: "write_event lib logger e = (Inr b, logger')"
      "storage logger' = None" "file_fault logger' = None"
    by (auto simp: writable_log_def write_event_def logger_holds_def last_hash_lines Let_def)
  moreover have "logger_holds logger' (evs @ [b])"
    using logger_chain.write_ok [OF _ w(1)] assms unfolding writable_log_def by blast
  ultimately show ?thesis by (auto simp: writable_log_def)
qed

lemma log_decision_ok:
  assumes "writable_log logger evs" "loggable_request request" "loggable metadata"
  shows "\<exists>event logger'. log_decision lib draws logger request decision metadata = (Inr event, logger') \<and>
    writable_log logger' (evs @ [event])"
proof -
  obtain made where "make_audit_event draws request decision metadata = Inr made"
    using make_audit_event_ok [OF assms(2,3)] by blast
  with write_event_ok [OF assms(1), of lib made] show ?thesis by (auto simp: log_decision_def)
qed

definition stage_failure ::
  "intercept_draws \<Rightarrow> 'w interceptor \<Rightarrow> tool_request \<Rightarrow> (string \<times> py_exn) option" where
  "stage_failure draws s request =
     (case fst (assess (risk_library s) (risk_eng s) request) of
        Inl exc \<Rightarrow> Some (''risk_assessment_failed'', exc)
      | Inr risk \<Rightarrow>
          (case policy_fault s of
             Some exc \<Rightarrow> Some (''policy_evaluation_failed'', exc)
           | None \<Rightarrow>
               let decision = evaluate (policy_library s) (policy_eng s) request (Some risk)
               in if pd_decision decision \<noteq> REQUIRE_APPROVAL then None
                  else (case approval_answer draws s request risk decision of
                          Inl exc \<Rightarrow> Some (''approval_workflow_failed'', exc) | Inr _ \<Rightarrow> None)))"

text \<open>The risk data that an interception carries into its result when a stage fails.\<close>

lemma failed_stage:
  assumes "stage_failure draws s request = Some (code, exc)"
  shows "\<exists>eng risk extra. (risk = [] \<or>
         (\<exists>a. fst (assess (risk_library s) (risk_eng s) request) = Inr a \<and> risk = json_dict (risk_assessment_dump a))) \<and>
       loggable extra \<and>
       intercept draws s request = (if caught exc
         then fail_closed_result draws (s\<lparr>risk_eng := eng\<rparr>) request code exc risk extra
         else (Inl exc, s\<lparr>risk_eng := eng\<rparr>))"
proof -
  obtain a eng where a: "assess (risk_library s) (risk_eng s) request = (a, eng)" by fastforce
  have empty: "loggable []" by (simp add: loggable_iff)
  show ?thesis
  proof (cases a)
    case (Inl e)
    with assms a empty show ?thesis
      by (intro exI [of _ eng] exI [of _ "[]"]) (simp add: stage_failure_def intercept_def)
  next
    case (Inr risk)
    let ?risk = "json_dict (risk_assessment_dump risk)"
    show ?thesis
    proof (cases "policy_fault s")
      case (Some e)
      with assms a Inr empty show ?thesis
        by (intro exI [of _ eng] exI [of _ ?risk] exI [of _ "[]"]) (simp add: stage_failure_def intercept_def)
    next
      case None
      let ?d = "evaluate (policy_library s) (policy_eng s) request (Some risk)"
      have "loggable [(''unconfirmed_pre_approval_decision'', dict_val (policy_decision_dump ?d))]"
        using string_keys_decision [of ?d, unfolded loggable_iff] by (simp add: loggable_iff)
      moreover have "pd_decision ?d = REQUIRE_APPROVAL \<and> approval_answer draws s request risk ?d = Inl exc \<and>
          code = ''approval_workflow_failed''"
        using assms a Inr None by (auto simp: stage_failure_def Let_def split: if_splits sum.splits)
      ultimately show ?thesis
        using a Inr None
        by (intro exI [of _ eng] exI [of _ ?risk]
              exI [of _ "[(''unconfirmed_pre_approval_decision'', dict_val (policy_decision_dump ?d))]"])
           (simp add: intercept_def decide_and_execute_def approval_answer_def Let_def)
    qed
  qed
qed

lemma log_or_synthesize_decision:
  assumes "log_or_synthesize lib draws logger request decision metadata = (Inr event, logger')"
  shows "ae_decision event = pd_decision decision \<and> ae_allowed event = pd_allowed decision"
proof (cases "fst (log_decision lib (id_event draws) logger request decision metadata)")
  case (Inl e)
  with assms show ?thesis
    by (auto simp: log_or_synthesize_def fallback_audit_event_def res_simps split: prod.splits if_splits)
next
  case (Inr e)
  then obtain made where "make_audit_event (id_event draws) request decision metadata = Inr made"
    and "write_event lib logger made = (Inr event, logger')"
    using assms by (auto simp: log_or_synthesize_def log_decision_def split: sum.splits prod.splits)
  then show ?thesis
    by (auto simp: write_event_def append_chained_event_def make_audit_event_def bind_event_def Let_def res_simps
        split: option.splits sum.splits prod.splits)
qed


text \<open>
  (C4) Interceptions return: with a writable log and data that can be logged, and as long as the stages raise
  only exceptions of the caught kinds, every interception returns a result, and the log holds the event of that
  result after those it held.
\<close>

theorem intercept_returns:
  assumes "writable_log (audit_log s) evs" "loggable_request request"
    and "\<forall>risk. fst (assess (risk_library s) (risk_eng s) request) = Inr risk \<longrightarrow> loggable (json_dict (risk_assessment_dump risk))"
    and "\<forall>code exc. stage_failure draws s request = Some (code, exc) \<longrightarrow> caught exc"
    and "\<forall>risk decision asked answer. policy_answer s request = Some (risk, decision) \<longrightarrow>
      pd_decision decision = REQUIRE_APPROVAL \<longrightarrow>
      approval_answer draws s request risk decision = Inr (asked, answer) \<longrightarrow> loggable (ad_metadata answer)"
  shows "\<exists>result s'. intercept draws s request = (Inr result, s') \<and> writable_log (audit_log s') (evs @ [ir_audit_event result])"
proof (cases "stage_failure draws s request")
  case None
  then obtain risk where risk: "fst (assess (risk_library s) (risk_eng s) request) = Inr risk" "policy_fault s = None"
    by (auto simp: stage_failure_def split: sum.splits option.splits)
  let ?d = "evaluate (policy_library s) (policy_eng s) request (Some risk)"
  let ?meta = "audit_metadata_of (run_mode s) (json_dict (risk_assessment_dump risk)) ?d"
  obtain eng where assessed: "assess (risk_library s) (risk_eng s) request = (Inr risk, eng)"
    using risk(1) by (metis prod.collapse)
  have answer: "policy_answer s request = Some (risk, ?d)"
    using risk by (simp add: policy_answer_def)
  have log: "\<exists>result s'. log_and_execute draws (s\<lparr>risk_eng := eng\<rparr>) request rm ?d approval metadata = (Inr result, s') \<and>
      writable_log (audit_log s') (evs @ [ir_audit_event result])" if meta: "loggable metadata" for rm approval metadata
  proof -
    obtain event logger' where "log_decision (audit_library s) (id_event draws) (audit_log s) request ?d metadata = (Inr event, logger')"
      "writable_log logger' (evs @ [event])"
      using log_decision_ok [OF assms(1,2) meta] by blast
    then show ?thesis by (simp add: log_and_execute_def split_def Let_def)
  qed
  have meta: "loggable ?meta"
    using risk(1) assms(3) by (intro loggable_audit_metadata) simp
  show ?thesis
  proof (cases "pd_decision ?d = REQUIRE_APPROVAL")
    case False
    then show ?thesis
      using log [OF meta] assessed risk(2) by (simp add: intercept_def decide_and_execute_def Let_def)
  next
    case True
    with None risk obtain asked ans where ans: "approval_answer draws s request risk ?d = Inr (asked, ans)"
      by (auto simp: stage_failure_def Let_def split: sum.splits)
    have "loggable (AList.update ''approval'' (dict_val (approval_entry asked ans)) ?meta)"
      using assms(5) answer ans meta True
      by (intro loggable_update) (auto simp: approval_entry_def loggable_iff)
    from log [OF this] show ?thesis
      using True assessed risk(2) ans
      by (simp add: intercept_def decide_and_execute_def approval_answer_def Let_def)
  qed
next
  case (Some failure)
  obtain code exc where failure: "failure = (code, exc)" by fastforce
  with Some assms(4) have "caught exc" by blast
  with failed_stage [of draws s request code exc] Some failure obtain eng risk extra where
    risk: "risk = [] \<or> (\<exists>a. fst (assess (risk_library s) (risk_eng s) request) = Inr a \<and>
       risk = json_dict (risk_assessment_dump a))" "loggable extra" and
    eq: "intercept draws s request = fail_closed_result draws (s\<lparr>risk_eng := eng\<rparr>) request code exc risk extra"
    by auto
  have "loggable risk" using risk(1) assms(3) by (auto simp: loggable_iff)
  have "loggable (fail_closed_metadata (run_mode s) code exc risk extra)"
    using \<open>loggable risk\<close> risk(2) by (rule loggable_fail_closed)
  from log_decision_ok [OF assms(1,2) this] obtain event logger' where
    "log_decision (audit_library s) (id_event draws) (audit_log s) request (fail_closed_decision code exc)
       (fail_closed_metadata (run_mode s) code exc risk extra) = (Inr event, logger')"
    "writable_log logger' (evs @ [event])"
    by blast
  with eq show ?thesis by (simp add: fail_closed_result_def log_or_synthesize_def Let_def)
qed

lemma execute_runs:
  "map_of tools (tool_name request) = Some handler \<Longrightarrow>
     \<exists>x. execute tools request w = (x, snd (handler request w)) \<and> te_executed x"
  by (cases "handler request w"; cases "fst (handler request w)") (auto simp: execute_def)

text \<open>
  (C5) A grant that is marked rejected runs the tool: authorization accepts every rejection without looking at
  its reviewer, and the interceptor reads only the flag \<open>approved\<close>. So an answer with status rejected and
  approved set, from nobody or from the requester, runs the tool whatever reviewers and roles are configured.
\<close>

theorem rejected_grant_executes:
  assumes "writable_log (audit_log s) evs" "loggable_request request" "runs_tools (run_mode s)"
    and "map_of (tool_handlers s) (tool_name request) = Some handler"
    and "policy_answer s request = Some (risk, decision)" "pd_decision decision = REQUIRE_APPROVAL"
    and "loggable (json_dict (risk_assessment_dump risk))"
    and "workflow_opt s = Some w" "resolver w = Some ask"
    and "make_approval_request (id_approval draws) request decision (json_dict (risk_assessment_dump risk)) = Inr asked"
    and "ask asked = Inr given" "ad_approval_id given = ar_approval_id asked"
    and "ad_status given = REJECTED" "ad_approved given" "loggable (ad_metadata given)"
  shows "\<exists>result s'. intercept draws s request = (Inr result, s') \<and> te_executed (ir_execution result) \<and>
    world_of s' = snd (handler request (world_of s)) \<and>
    (\<exists>a. ir_approval_decision result = Some a \<and> ad_status a = REJECTED \<and> ad_decided_by a = ad_decided_by given)"
proof -
  let ?risk = "json_dict (risk_assessment_dump risk)"
  have auth: "authorize (authorization w) asked given PENDING =
      \<lparr>cr_allowed = True, cr_reason = ''Approval rejection authorized.'', cr_metadata = []\<rparr>"
    using assms(13) by (simp add: authorize_def Let_def)
  define answer where "answer = given\<lparr>ad_metadata := dict_merge (ad_metadata given) []\<rparr>"
  have ans: "approval_answer draws s request risk decision = Inr (asked, answer)"
    using assms(8-13) auth
    by (simp add: approval_answer_def workflow_in_def request_approval_def Let_def apply_authorization_result_def
        attach_approval_receipt_def answer_def)
  have meta: "loggable (AList.update ''approval'' (dict_val (approval_entry asked answer))
      (audit_metadata_of (run_mode s) ?risk decision))"
    using assms(15) loggable_audit_metadata [OF assms(7)]
    by (intro loggable_update) (auto simp: approval_entry_def loggable_iff answer_def dict_merge_def)
  obtain event logger' where "log_decision (audit_library s) (id_event draws) (audit_log s) request decision
      (AList.update ''approval'' (dict_val (approval_entry asked answer)) (audit_metadata_of (run_mode s) ?risk decision))
      = (Inr event, logger')"
    using log_decision_ok [OF assms(1,2) meta] by blast
  then have log: "log_decision (audit_library s) (id_event draws) (audit_log s) request decision
      (AList.update ''approval'' (dict_val (approval_entry asked answer)) (audit_metadata_of (run_mode s) ?risk decision))
      = (Inr event, logger')" .
  have assessed: "fst (assess (risk_library s) (risk_eng s) request) = Inr risk" and fault: "policy_fault s = None"
    and decision: "decision = evaluate (policy_library s) (policy_eng s) request (Some risk)"
    using assms(5) by (auto simp: policy_answer_def split: sum.splits if_splits)
  obtain eng where eng: "assess (risk_library s) (risk_eng s) request = (Inr risk, eng)"
    using assessed by (metis prod.collapse)
  have "execute_with_decision (s\<lparr>risk_eng := eng\<rparr>) request decision (Some answer) =
      execute (tool_handlers s) request (world_of s)"
    using assms(3,6,14) by (auto simp: execute_with_decision_def runs_tools_def answer_def Let_def)
  with execute_runs [of "tool_handlers s" request handler "world_of s"] assms(4)
  obtain x where x: "execute_with_decision (s\<lparr>risk_eng := eng\<rparr>) request decision (Some answer) =
      (x, snd (handler request (world_of s)))" "te_executed x"
    by auto
  have "intercept draws s request = log_and_execute draws (s\<lparr>risk_eng := eng\<rparr>) request ?risk decision (Some answer)
      (AList.update ''approval'' (dict_val (approval_entry asked answer)) (audit_metadata_of (run_mode s) ?risk decision))"
    using eng fault assms(6) ans
    by (simp add: intercept_def decide_and_execute_def approval_answer_def decision [symmetric] Let_def)
  also have "\<dots> = (Inr \<lparr>ir_request = request, ir_risk_assessment = ?risk, ir_policy_decision = decision,
      ir_audit_event = event, ir_execution = x, ir_approval_decision = Some answer\<rparr>,
      s\<lparr>risk_eng := eng, audit_log := logger', world_of := snd (handler request (world_of s))\<rparr>)"
    using log x by (simp add: log_and_execute_def)
  finally show ?thesis
    using x(2) assms(13) by (simp add: answer_def)
qed

section \<open>A sample\<close>

definition sample_interceptor :: "decision \<Rightarrow> approval_workflow option \<Rightarrow> nat interceptor" where
  "sample_interceptor d w =
     \<lparr>policy_library = sample_policy_lib, policy_eng = make_policy_engine [] ''v'' d, policy_fault = None,
      risk_library = sample_lib, risk_eng = new_risk_engine, audit_library = sample_audit_lib,
      audit_log = new_logger False, tool_handlers = [(''shell'', \<lambda>request n. (Inr PNone, Suc n))],
      workflow_opt = w, run_mode = ENFORCE, world_of = 0\<rparr>"

definition sample_event_draws :: event_draws where
  "sample_event_draws = \<lparr>draw_event_id = ''e1'', draw_timestamp = ''t1'', draw_event_trace_id = ''tr1'',
     draw_package_version = ''1''\<rparr>"

definition sample_intercept_draws :: intercept_draws where
  "sample_intercept_draws = \<lparr>id_approval = sample_draws, id_event = sample_event_draws, id_fallback = sample_event_draws\<rparr>"

definition sample_risk :: risk_assessment where
  "sample_risk = projr (fst (assess sample_lib new_risk_engine sample_review_request))"

lemma sample_assessed: "fst (assess sample_lib new_risk_engine sample_review_request) = Inr sample_risk"
proof -
  have "case fst (assess sample_lib new_risk_engine sample_review_request) of Inr a \<Rightarrow> True | _ \<Rightarrow> False"
    by code_simp
  then show ?thesis unfolding sample_risk_def by (auto split: sum.splits)
qed

lemma sample_risk_loggable: "loggable (json_dict (risk_assessment_dump sample_risk))"
  by code_simp

lemma sample_log: "writable_log (audit_log (sample_interceptor d w)) []"
  by (simp add: writable_log_def sample_interceptor_def new_logger_def logger_holds_def lines_of_def)

lemma sample_loggable: "loggable_request sample_review_request"
  by (simp add: loggable_request_def loggable_iff sample_review_request_def)

lemma sample_policy_answer:
  "policy_answer (sample_interceptor d w) sample_review_request =
     Some (sample_risk, default_policy_decision (make_policy_engine [] ''v'' d) [])"
  by (simp add: policy_answer_def sample_interceptor_def evaluate_def make_policy_engine_def sample_assessed)


lemma sample_not_failed: "stage_failure draws (sample_interceptor ALLOW w) sample_review_request = None"
  by (simp add: stage_failure_def sample_interceptor_def evaluate_def make_policy_engine_def sample_assessed
      default_policy_decision_def)

lemma sample_parts [simp]:
  "risk_library (sample_interceptor d w) = sample_lib" "risk_eng (sample_interceptor d w) = new_risk_engine"
  "run_mode (sample_interceptor d w) = ENFORCE" "workflow_opt (sample_interceptor d w) = w"
  "world_of (sample_interceptor d w) = 0" "policy_fault (sample_interceptor d w) = None"
  "tool_name sample_review_request = ''shell''" "user_id sample_review_request = ''ann''"
  "tool_handlers (sample_interceptor d w) = [(''shell'', \<lambda>request n. (Inr PNone, Suc n))]"
  by (simp_all add: sample_interceptor_def sample_review_request_def)

theorem intercept_returns_witness:
  "\<exists>result s'. intercept sample_intercept_draws (sample_interceptor ALLOW None) sample_review_request = (Inr result, s') \<and>
     writable_log (audit_log s') ([] @ [ir_audit_event result])"
proof (rule intercept_returns [OF sample_log sample_loggable])
  show "\<forall>risk. fst (assess (risk_library (sample_interceptor ALLOW None)) (risk_eng (sample_interceptor ALLOW None))
      sample_review_request) = Inr risk \<longrightarrow> loggable (json_dict (risk_assessment_dump risk))"
    using sample_risk_loggable by (simp add: sample_assessed)
  show "\<forall>code exc. stage_failure sample_intercept_draws (sample_interceptor ALLOW None) sample_review_request =
      Some (code, exc) \<longrightarrow> caught exc"
    by (simp add: sample_not_failed)
  show "\<forall>risk decision asked answer. policy_answer (sample_interceptor ALLOW None) sample_review_request = Some (risk, decision) \<longrightarrow>
      pd_decision decision = REQUIRE_APPROVAL \<longrightarrow> approval_answer sample_intercept_draws (sample_interceptor ALLOW None) sample_review_request risk decision =
        Inr (asked, answer) \<longrightarrow> loggable (ad_metadata answer)"
    by (simp add: sample_policy_answer default_policy_decision_def make_policy_engine_def)
qed

definition sample_fault :: py_exn where
  "sample_fault = Exn RuntimeErr ''RuntimeError'' ''policy store is closed''"


lemma sample_metadata: "loggable (audit_metadata_of ENFORCE (json_dict (risk_assessment_dump sample_risk)) d)"
  by (rule loggable_audit_metadata [OF sample_risk_loggable])

lemma sample_moves:
  "\<exists>r s'. intercept sample_intercept_draws (sample_interceptor ALLOW None) sample_review_request = (r, s') \<and>
     world_of s' = 1"
proof -
  let ?s = "sample_interceptor ALLOW None" and ?d = "default_policy_decision (make_policy_engine [] ''v'' ALLOW) []"
  let ?m = "audit_metadata_of ENFORCE (json_dict (risk_assessment_dump sample_risk)) ?d"
  obtain event logger' where log: "log_decision (audit_library ?s) (id_event sample_intercept_draws) (audit_log ?s)
      sample_review_request ?d ?m = (Inr event, logger')"
    using log_decision_ok [OF sample_log sample_loggable sample_metadata] by blast
  obtain eng where "assess sample_lib new_risk_engine sample_review_request = (Inr sample_risk, eng)"
    using sample_assessed by (metis prod.collapse)
  moreover have "evaluate (policy_library ?s) (policy_eng ?s) sample_review_request (Some sample_risk) = ?d"
    by (simp add: sample_interceptor_def evaluate_def make_policy_engine_def)
  moreover have "pd_decision ?d = ALLOW" by (simp add: default_policy_decision_def make_policy_engine_def)
  ultimately show ?thesis
    using log
    by (simp add: intercept_def decide_and_execute_def log_and_execute_def execute_with_decision_def execute_def Let_def)
qed

theorem intercept_runs_only_authorized_witness:
  "runs_tools (run_mode (sample_interceptor ALLOW None))"
proof -
  obtain r s' where r: "intercept sample_intercept_draws (sample_interceptor ALLOW None) sample_review_request = (r, s')"
    "world_of s' = 1"
    using sample_moves by blast
  then have "world_of s' \<noteq> world_of (sample_interceptor ALLOW None)" by simp
  from intercept_runs_only_authorized [OF r(1) this] show ?thesis by blast
qed

theorem intercept_records_what_runs_witness:
  "\<exists>s' event. world_of (s' :: nat interceptor) = 1 \<and> logger_holds (audit_log s') [event] \<and> ae_user_id event = ''ann''"
proof -
  obtain r s' where r: "intercept sample_intercept_draws (sample_interceptor ALLOW None) sample_review_request = (r, s')"
    "world_of s' = 1"
    using sample_moves by blast
  then have moved: "world_of s' \<noteq> world_of (sample_interceptor ALLOW None)" by simp
  have "logger_holds (audit_log (sample_interceptor ALLOW None)) []"
    using sample_log by (simp add: writable_log_def)
  from intercept_records_what_runs [OF r(1) moved this] r(2) show ?thesis by auto
qed

definition lax_answer :: approval_decision where
  "lax_answer = \<lparr>ad_approval_id = ''a1'', ad_status = REJECTED, ad_approved = True, ad_decided_by = None,
     ad_decided_at = None, ad_reason = ''no'', ad_metadata = []\<rparr>"

definition strict_workflow :: approval_workflow where
  "strict_workflow = make_approval_workflow (Some (\<lambda>asked. Inr lax_answer))
     [(''bob'', ''viewer'')] [] [(''lead'', \<lparr>rp_role = ''lead'', rp_allowed_severities = [SevLOW],
        rp_allowed_actions = None, rp_environments = None\<rparr>)]"

theorem rejected_grant_executes_witness:
  "\<exists>result s'. intercept sample_intercept_draws (sample_interceptor REQUIRE_APPROVAL (Some strict_workflow))
       sample_review_request = (Inr result, s') \<and> te_executed (ir_execution result) \<and> world_of s' = 1"
proof -
  let ?s = "sample_interceptor REQUIRE_APPROVAL (Some strict_workflow)"
  let ?d = "default_policy_decision (make_policy_engine [] ''v'' REQUIRE_APPROVAL) []"
  obtain asked where asked: "make_approval_request (id_approval sample_intercept_draws) sample_review_request ?d
      (json_dict (risk_assessment_dump sample_risk)) = Inr asked" "ar_approval_id asked = ''a1''"
  proof -
    obtain risk where "redact_dict (json_dict (risk_assessment_dump sample_risk)) = Inr risk"
      using redact_dict_ok [OF sample_risk_loggable] by blast
    moreover have "list_all (\<lambda>v. strip v \<noteq> []) [''a1'', ''t0'', ''t1'', ''ann'', ''agent'', ''dev'', ''shell'',
        default_reason REQUIRE_APPROVAL]"
      by code_simp
    ultimately show thesis
      by (intro that)
         (auto simp: make_approval_request_def sample_review_request_def redact_dict_def [of "[]"] approval_trace_id_def
            approval_request_valid_def sample_intercept_draws_def sample_draws_def default_policy_decision_def
            make_policy_engine_def)
  qed
  have "\<exists>result s'. intercept sample_intercept_draws ?s sample_review_request = (Inr result, s') \<and>
      te_executed (ir_execution result) \<and>
      world_of s' = snd ((\<lambda>request n. (Inr PNone :: pyval res, Suc n)) sample_review_request (world_of ?s)) \<and>
      (\<exists>a. ir_approval_decision result = Some a \<and> ad_status a = REJECTED \<and> ad_decided_by a = ad_decided_by lax_answer)"
    by (rule rejected_grant_executes [OF sample_log sample_loggable _ _ sample_policy_answer _ sample_risk_loggable _ _
          asked(1), where w = strict_workflow and ask = "\<lambda>asked. Inr lax_answer"])
       (simp_all add: runs_tools_def lax_answer_def strict_workflow_def make_approval_workflow_def asked(2)
          loggable_iff default_policy_decision_def make_policy_engine_def)
  then show ?thesis by auto
qed


end
