(* ===== verification/Operation_Store.thy ===== *)
theory Operation_Store
  imports Models
begin

text \<open>
  \<open>src/rygnal/operation_store.py\<close>: durable operations and repository leases. The two tables are lists of
  rows; each method is one transaction (\<open>BEGIN IMMEDIATE\<close> takes the database's write lock), and an
  exception rolls it back. What the code asks of the operating system, of \<open>git\<close> and of \<open>ps\<close> is a \<open>host\<close>;
  times and tokens are arguments. Stored JSON results are kept as the value they encode.
\<close>

section \<open>The host\<close>

datatype proc_file = Proc_absent | Proc_unreadable | Proc_stat string

record host =
  host_sha256 :: "string \<Rightarrow> string"
  proc_stat :: "int \<Rightarrow> proc_file"
  ps_path :: "string option"
  ps_run :: "int \<Rightarrow> int \<times> string"
  resolve_path :: "string \<Rightarrow> string"
  is_dir :: "string \<Rightarrow> bool"
  git_path :: "string option"
  git_run :: "string \<Rightarrow> string list \<Rightarrow> int \<times> string \<times> string"

definition OperationStoreError :: "string \<Rightarrow> py_exn" where
  "OperationStoreError msg = Exn RuntimeErr ''OperationStoreError'' msg"

definition OperationConflictError :: "string \<Rightarrow> py_exn" where
  "OperationConflictError msg = Exn RuntimeErr ''OperationConflictError'' msg"

definition OperationRecoveryRequiredError :: "string \<Rightarrow> py_exn" where
  "OperationRecoveryRequiredError msg = Exn RuntimeErr ''OperationRecoveryRequiredError'' msg"

definition OperationTerminalError :: "string \<Rightarrow> py_exn" where
  "OperationTerminalError msg = Exn RuntimeErr ''OperationTerminalError'' msg"

definition process_identity_token :: "host \<Rightarrow> int \<Rightarrow> string res" where
  "process_identity_token h pid =
     (if pid \<le> 0 then Inl (OperationStoreError ''Process identity requires a positive PID.'')
      else case proc_stat h pid of
          Proc_stat body \<Rightarrow>
            let fields = split_words body
            in if length fields < 22 then Inl (OperationStoreError ''Linux process identity is incomplete.'')
               else Inr (host_sha256 h (''proc:'' @ show_int pid @ '':'' @ fields ! 21))
        | Proc_unreadable \<Rightarrow> Inl (OperationStoreError ''Could not inspect process identity.'')
        | Proc_absent \<Rightarrow>
            if ps_path h = None then Inl (OperationStoreError ''Process start identity cannot be verified.'')
            else
              let (rc, out) = ps_run h pid; normalized = join '' '' (split_words out)
              in if rc \<noteq> 0 then Inl (OperationStoreError ''Process start identity cannot be read.'')
                 else if normalized = [] then Inl (OperationStoreError ''Process start identity is empty.'')
                 else Inr (host_sha256 h (''ps:'' @ show_int pid @ '':'' @ normalized)))"

definition process_identity_matches :: "host \<Rightarrow> int \<Rightarrow> string \<Rightarrow> bool" where
  "process_identity_matches h pid expected_token =
     (case process_identity_token h pid of Inl _ \<Rightarrow> False | Inr actual \<Rightarrow> actual = expected_token)"

definition git_output :: "host \<Rightarrow> string \<Rightarrow> string list \<Rightarrow> string res" where
  "git_output h repo args =
     (let (rc, out, err) = git_run h repo args
      in if rc \<noteq> 0
         then Inl (OperationStoreError
           (if strip err \<noteq> [] then strip err else if strip out \<noteq> [] then strip out
            else ''Git repository inspection failed.''))
         else Inr (strip out))"

record repository_state =
  repo_head :: string
  repo_clean :: bool

definition inspect_repository_state :: "host \<Rightarrow> string \<Rightarrow> repository_state res" where
  "inspect_repository_state h repository =
     (let resolved = resolve_path h repository
      in if \<not> is_dir h resolved then Inl (OperationStoreError ''Trusted repository does not exist.'')
         else if git_path h = None then Inl (OperationStoreError ''Git executable is unavailable.'')
         else rbind (git_output h resolved [''rev-parse'', ''--show-toplevel'']) (\<lambda>top.
           if resolve_path h top \<noteq> resolved
           then Inl (OperationStoreError ''Target path is not the Git repository root.'')
           else rbind (git_output h resolved [''rev-parse'', ''HEAD'']) (\<lambda>head.
             rbind (git_output h resolved [''status'', ''--porcelain'', ''--untracked-files=all''])
               (\<lambda>status. Inr \<lparr>repo_head = lower head, repo_clean = (status = [])\<rparr>))))"

section \<open>Tables\<close>

datatype operation_state = RESERVED | APPLYING | APPLIED | OP_FAILED

record operation_record =
  operation_key :: string
  operation_type :: string
  resource_key :: string
  op_artifact_id :: string
  op_approval_id :: string
  op_patch_sha256 :: string
  baseline_commit_sha :: string
  target_repo_path :: string
  op_state :: operation_state
  owner_token :: string
  owner_pid :: int
  owner_start_token :: string
  created_at_unix :: rat
  updated_at_unix :: rat
  retryable :: bool
  op_result :: "dict option"
  op_error :: "string option"

record resource_lease =
  lease_resource_key :: string
  lease_operation_key :: string
  lease_owner_token :: string
  lease_owner_pid :: int
  lease_owner_start_token :: string
  lease_created_at :: rat

record operation_db =
  operations :: "operation_record list"
  resource_leases :: "resource_lease list"

record operation_reservation =
  reserved_record :: operation_record
  acquired :: bool
  replayed :: bool

definition incomplete :: "operation_record \<Rightarrow> bool" where
  "incomplete r = (op_state r = RESERVED \<or> op_state r = APPLYING)"

definition artifact_apply_operation_key :: "host \<Rightarrow> string \<Rightarrow> string \<Rightarrow> string \<Rightarrow> string \<Rightarrow> string \<Rightarrow> string" where
  "artifact_apply_operation_key h artifact_id approval_id patch_sha256 baseline target_repo =
     host_sha256 h (join [char_of (0::nat)]
       [''artifact_apply'', artifact_id, approval_id, patch_sha256, lower baseline, target_repo])"

definition repository_resource_key :: "host \<Rightarrow> string \<Rightarrow> string" where
  "repository_resource_key h target_repo = host_sha256 h (resolve_path h target_repo)"

definition owner_record_is_active :: "host \<Rightarrow> operation_record \<Rightarrow> bool" where
  "owner_record_is_active h r = process_identity_matches h (owner_pid r) (owner_start_token r)"

definition read_operation :: "operation_db \<Rightarrow> string \<Rightarrow> operation_record option" where
  "read_operation db key = find (\<lambda>r. operation_key r = key) (operations db)"

definition list_incomplete :: "operation_db \<Rightarrow> operation_record list" where
  "list_incomplete db = sort_key created_at_unix (filter incomplete (operations db))"

text \<open>\<open>DELETE FROM operations\<close> cascades to the leases of the operation.\<close>

definition delete_operation :: "string \<Rightarrow> operation_db \<Rightarrow> operation_db" where
  "delete_operation key db =
     db\<lparr>operations := filter (\<lambda>r. operation_key r \<noteq> key) (operations db),
        resource_leases := filter (\<lambda>l. lease_operation_key l \<noteq> key) (resource_leases db)\<rparr>"

section \<open>Reserving\<close>

record reserve_args =
  arg_artifact_id :: string
  arg_approval_id :: string
  arg_patch_sha256 :: string
  arg_baseline_commit_sha :: string
  arg_target_repo_path :: string

record reserve_draws =
  draw_owner_token :: string
  draw_pid :: int
  draw_now :: rat

definition OperationIntegrityError :: "string \<Rightarrow> py_exn" where
  "OperationIntegrityError msg = Exn OtherErr ''IntegrityError'' msg"

definition new_operation ::
  "host \<Rightarrow> reserve_draws \<Rightarrow> string \<Rightarrow> reserve_args \<Rightarrow> operation_record" where
  "new_operation h draws start_token args =
     (let target_repo = resolve_path h (arg_target_repo_path args)
      in \<lparr>operation_key = artifact_apply_operation_key h (arg_artifact_id args) (arg_approval_id args)
            (arg_patch_sha256 args) (arg_baseline_commit_sha args) target_repo,
          operation_type = ''artifact_apply'', resource_key = repository_resource_key h target_repo,
          op_artifact_id = arg_artifact_id args, op_approval_id = arg_approval_id args,
          op_patch_sha256 = arg_patch_sha256 args, baseline_commit_sha = arg_baseline_commit_sha args,
          target_repo_path = target_repo, op_state = RESERVED, owner_token = draw_owner_token draws,
          owner_pid = draw_pid draws, owner_start_token = start_token,
          created_at_unix = draw_now draws, updated_at_unix = draw_now draws, retryable = False,
          op_result = None, op_error = None\<rparr>)"

definition lease_of :: "operation_record \<Rightarrow> resource_lease" where
  "lease_of r = \<lparr>lease_resource_key = resource_key r, lease_operation_key = operation_key r,
     lease_owner_token = owner_token r, lease_owner_pid = owner_pid r,
     lease_owner_start_token = owner_start_token r, lease_created_at = created_at_unix r\<rparr>"

text \<open>The two inserts, with the lease table's primary key and unique operation key.\<close>

definition insert_reservation :: "host \<Rightarrow> operation_db \<Rightarrow> operation_record \<Rightarrow> (operation_reservation \<times> operation_db) res"
where
  "insert_reservation h db fresh =
     (case find (\<lambda>l. lease_resource_key l = resource_key fresh) (resource_leases db) of
        Some lease \<Rightarrow>
          if process_identity_matches h (lease_owner_pid lease) (lease_owner_start_token lease)
          then Inl (OperationConflictError ''Trusted repository is already owned by another active mutation.'')
          else Inl (OperationRecoveryRequiredError ''Trusted repository has a stale or ambiguous mutation lease.'')
      | None \<Rightarrow>
          if list_ex (\<lambda>l. lease_operation_key l = operation_key fresh) (resource_leases db)
          then Inl (OperationIntegrityError ''UNIQUE constraint failed: resource_leases.operation_key'')
          else Inr (\<lparr>reserved_record = fresh, acquired = True, replayed = False\<rparr>,
            db\<lparr>operations := operations db @ [fresh], resource_leases := resource_leases db @ [lease_of fresh]\<rparr>))"

definition reserve_artifact_apply ::
  "host \<Rightarrow> reserve_draws \<Rightarrow> operation_db \<Rightarrow> reserve_args \<Rightarrow> (operation_reservation \<times> operation_db) res" where
  "reserve_artifact_apply h draws db args =
     rbind (process_identity_token h (draw_pid draws)) (\<lambda>start_token.
       let fresh = new_operation h draws start_token args;
           key = operation_key fresh
       in case read_operation db key of
            None \<Rightarrow> insert_reservation h db fresh
          | Some existing \<Rightarrow>
              if op_state existing = APPLIED
                then Inr (\<lparr>reserved_record = existing, acquired = False, replayed = True\<rparr>, db)
              else if op_state existing = OP_FAILED \<and> retryable existing
                then insert_reservation h (delete_operation key db) fresh
              else if incomplete existing
                then if owner_record_is_active h existing
                  then Inl (OperationConflictError ''Artifact application is already active in another process.'')
                  else Inl (OperationRecoveryRequiredError
                    ''An incomplete artifact application must be reconciled before retry.'')
              else Inl (OperationTerminalError
                (or_else (op_error existing) ''Artifact application previously failed.'')))"

section \<open>Transitions of an owned operation\<close>

definition owned_transition ::
  "rat \<Rightarrow> operation_db \<Rightarrow> operation_reservation \<Rightarrow> operation_state \<Rightarrow> operation_state \<Rightarrow> dict option \<Rightarrow>
   string option \<Rightarrow> bool \<Rightarrow> bool \<Rightarrow> (operation_record \<times> operation_db) res" where
  "owned_transition now db reservation expected next_state result error may_retry release_resource =
     (let record = reserved_record reservation;
          hit = (\<lambda>r. operation_key r = operation_key record \<and> op_state r = expected \<and>
                   owner_token r = owner_token record);
          changed = (\<lambda>r. r\<lparr>op_state := next_state, updated_at_unix := now, op_result := result,
                           op_error := error, retryable := may_retry\<rparr>)
      in if length (filter hit (operations db)) \<noteq> 1
         then Inl (OperationConflictError ''Operation ownership or state changed.'')
         else
           let db' = db\<lparr>operations := map (\<lambda>r. if hit r then changed r else r) (operations db),
                  resource_leases := (if release_resource
                    then filter (\<lambda>l. \<not> (lease_resource_key l = resource_key record \<and>
                           lease_operation_key l = operation_key record \<and>
                           lease_owner_token l = owner_token record)) (resource_leases db)
                    else resource_leases db)\<rparr>
           in (case read_operation db' (operation_key record) of
                 None \<Rightarrow> Inl (OperationStoreError ''Updated operation could not be reloaded.'')
               | Some updated \<Rightarrow> Inr (updated, db')))"

definition mark_applying ::
  "rat \<Rightarrow> operation_db \<Rightarrow> operation_reservation \<Rightarrow> (operation_record \<times> operation_db) res" where
  "mark_applying now db reservation =
     owned_transition now db reservation RESERVED APPLYING None None False False"

definition mark_applied ::
  "rat \<Rightarrow> operation_db \<Rightarrow> operation_reservation \<Rightarrow> dict \<Rightarrow> (operation_record \<times> operation_db) res" where
  "mark_applied now db reservation result =
     owned_transition now db reservation APPLYING APPLIED (Some result) None False True"

definition fail_or_preserve_ambiguous ::
  "host \<Rightarrow> rat \<Rightarrow> operation_db \<Rightarrow> operation_reservation \<Rightarrow> string \<Rightarrow> (bool \<times> operation_db) res" where
  "fail_or_preserve_ambiguous h now db reservation error =
     (case read_operation db (operation_key (reserved_record reservation)) of
        None \<Rightarrow> Inl (OperationStoreError ''Operation disappeared during failure handling.'')
      | Some record \<Rightarrow>
          rbind (inspect_repository_state h (target_repo_path record)) (\<lambda>repository.
            if repo_head repository = lower (baseline_commit_sha record) \<and> repo_clean repository
            then rbind (owned_transition now db reservation APPLYING OP_FAILED None (Some error) True True)
                   (\<lambda>(_, db'). Inr (True, db'))
            else Inr (False, db)))"

section \<open>Recovery\<close>

datatype operation_recovery_status = ACTIVE | RELEASED | APPLIED_RECOVERED | UNRESOLVED

record operation_recovery_result =
  rr_operation_key :: string
  rr_artifact_id :: string
  rr_status :: operation_recovery_status
  rr_message :: string
  rr_target_repo_path :: string

definition recover_terminal ::
  "rat \<Rightarrow> operation_db \<Rightarrow> operation_record \<Rightarrow> operation_state \<Rightarrow> dict option \<Rightarrow> string option \<Rightarrow> bool \<Rightarrow>
   operation_db res" where
  "recover_terminal now db record next_state result error may_retry =
     (let hit = (\<lambda>r. operation_key r = operation_key record \<and> incomplete r);
          changed = (\<lambda>r. r\<lparr>op_state := next_state, updated_at_unix := now, op_result := result,
                           op_error := error, retryable := may_retry\<rparr>)
      in if length (filter hit (operations db)) \<noteq> 1
         then Inl (OperationConflictError ''Operation changed during recovery.'')
         else Inr (db\<lparr>operations := map (\<lambda>r. if hit r then changed r else r) (operations db),
                resource_leases := filter (\<lambda>l. lease_operation_key l \<noteq> operation_key record)
                  (resource_leases db)\<rparr>))"

definition recovery_result ::
  "operation_record \<Rightarrow> operation_recovery_status \<Rightarrow> string \<Rightarrow> operation_recovery_result" where
  "recovery_result record status message =
     \<lparr>rr_operation_key = operation_key record, rr_artifact_id = op_artifact_id record, rr_status = status,
      rr_message = message, rr_target_repo_path = target_repo_path record\<rparr>"

definition recovered_result :: "operation_record \<Rightarrow> dict" where
  "recovered_result record =
     [(''outcome'', PStr ''applied''), (''applied'', PBool True),
      (''target_repo_path'', PStr (target_repo_path record)),
      (''patch_sha256'', PStr (op_patch_sha256 record)),
      (''baseline_commit_sha'', PStr (baseline_commit_sha record)),
      (''approval_id'', PStr (op_approval_id record)), (''artifact_id'', PStr (op_artifact_id record)),
      (''recovered'', PBool True)]"

text \<open>One round of the loop of \<open>reconcile_incomplete\<close>, on the record that was listed.\<close>

definition reconcile_record ::
  "host \<Rightarrow> rat \<Rightarrow> (operation_record \<Rightarrow> bool) \<Rightarrow> operation_db \<Rightarrow> operation_record \<Rightarrow>
   (operation_recovery_result \<times> operation_db) res" where
  "reconcile_record h now has_apply_evidence db record =
     (if owner_record_is_active h record
        then Inr (recovery_result record ACTIVE ''Operation owner process is still active.'', db)
      else if has_apply_evidence record
        then rbind (recover_terminal now db record APPLIED (Some (recovered_result record)) None False) (\<lambda>db'.
          Inr (recovery_result record APPLIED_RECOVERED
            ''Recovered completed operation from durable approved-apply evidence.'', db'))
      else case inspect_repository_state h (target_repo_path record) of
          Inl exc \<Rightarrow> Inr (recovery_result record UNRESOLVED (exn_msg exc), db)
        | Inr repository \<Rightarrow>
            if repo_clean repository \<and> repo_head repository = lower (baseline_commit_sha record)
            then rbind (recover_terminal now db record OP_FAILED None (Some
                ''Stale operation released because the trusted repository remained unmodified.'') True) (\<lambda>db'.
              Inr (recovery_result record RELEASED ''Released stale pre-mutation operation.'', db'))
            else Inr (recovery_result record UNRESOLVED
              ''Operation owner is gone, but repository state is mutated or ambiguous and no durable completion evidence exists.'',
              db))"

text \<open>An exception leaves the rounds before it in the database.\<close>

fun reconcile_records ::
  "host \<Rightarrow> rat \<Rightarrow> (operation_record \<Rightarrow> bool) \<Rightarrow> operation_db \<Rightarrow> operation_record list \<Rightarrow>
   operation_recovery_result list res \<times> operation_db" where
  "reconcile_records h now evidence db [] = (Inr [], db)"
| "reconcile_records h now evidence db (record # records) =
     (case reconcile_record h now evidence db record of
        Inl e \<Rightarrow> (Inl e, db)
      | Inr (result, db') \<Rightarrow>
          (case reconcile_records h now evidence db' records of
             (Inl e, db'') \<Rightarrow> (Inl e, db'')
           | (Inr results, db'') \<Rightarrow> (Inr (result # results), db'')))"

definition reconcile_incomplete ::
  "host \<Rightarrow> rat \<Rightarrow> (operation_record \<Rightarrow> bool) \<Rightarrow> operation_db \<Rightarrow>
   operation_recovery_result list res \<times> operation_db" where
  "reconcile_incomplete h now evidence db = reconcile_records h now evidence db (list_incomplete db)"

section \<open>The store as a transition system\<close>

text \<open>
  A state is the database with the reservations that were handed out. The processes take steps in any
  order; a reservation draws an owner token (\<open>uuid4\<close>) that was not drawn before, the owner's calls use a
  reservation that was handed out, and a recovery may work on a record that was read long before.
\<close>

record op_system =
  op_db :: operation_db
  issued :: "operation_record list"

definition fresh_token :: "string \<Rightarrow> op_system \<Rightarrow> bool" where
  "fresh_token t s = (t \<notin> owner_token ` (set (operations (op_db s)) \<union> set (issued s)))"

inductive op_step :: "op_system \<Rightarrow> op_system \<Rightarrow> bool" where
  step_reserve: "fresh_token (draw_owner_token draws) s \<Longrightarrow>
     reserve_artifact_apply h draws (op_db s) args = Inr (res, db') \<Longrightarrow>
     op_step s (s\<lparr>op_db := db', issued := reserved_record res # issued s\<rparr>)"
| step_applying: "reserved_record res \<in> set (issued s) \<Longrightarrow> mark_applying now (op_db s) res = Inr (r, db') \<Longrightarrow>
     op_step s (s\<lparr>op_db := db'\<rparr>)"
| step_applied: "reserved_record res \<in> set (issued s) \<Longrightarrow> mark_applied now (op_db s) res result = Inr (r, db') \<Longrightarrow>
     op_step s (s\<lparr>op_db := db'\<rparr>)"
| step_failed: "reserved_record res \<in> set (issued s) \<Longrightarrow>
     fail_or_preserve_ambiguous h now (op_db s) res error = Inr (released, db') \<Longrightarrow>
     op_step s (s\<lparr>op_db := db'\<rparr>)"
| step_reconcile: "reconcile_record h now evidence (op_db s) record = Inr (result, db') \<Longrightarrow>
     op_step s (s\<lparr>op_db := db'\<rparr>)"

inductive_cases op_stepE: "op_step s s'"

definition op_start :: "op_system \<Rightarrow> bool" where
  "op_start s = (s = \<lparr>op_db = \<lparr>operations = [], resource_leases = []\<rparr>, issued = []\<rparr>)"

text \<open>
  The tables agree: the leases are exactly those of the incomplete operations, with their owners, and a
  handed-out reservation names the resource of the operation it owns.
\<close>

definition lease_id :: "resource_lease \<Rightarrow> string \<times> string \<times> string" where
  "lease_id l = (lease_resource_key l, lease_operation_key l, lease_owner_token l)"

definition op_id :: "operation_record \<Rightarrow> string \<times> string \<times> string" where
  "op_id r = (resource_key r, operation_key r, owner_token r)"

definition db_ok :: "operation_db \<Rightarrow> bool" where
  "db_ok db = (distinct (map operation_key (operations db)) \<and>
     distinct (map lease_resource_key (resource_leases db)) \<and>
     lease_id ` set (resource_leases db) = op_id ` {r \<in> set (operations db). incomplete r})"

definition owns_consistently :: "operation_db \<Rightarrow> operation_record \<Rightarrow> bool" where
  "owns_consistently db rec = (\<forall>r \<in> set (operations db).
     operation_key r = operation_key rec \<longrightarrow> owner_token r = owner_token rec \<longrightarrow> resource_key r = resource_key rec)"

definition op_inv :: "op_system \<Rightarrow> bool" where
  "op_inv s = (db_ok (op_db s) \<and> (\<forall>rec \<in> set (issued s). owns_consistently (op_db s) rec))"

lemma db_okD:
  assumes "db_ok db"
  shows "distinct (map operation_key (operations db))"
    and "distinct (map lease_resource_key (resource_leases db))"
    and "l \<in> set (resource_leases db) \<Longrightarrow> \<exists>r \<in> set (operations db). incomplete r \<and> op_id r = lease_id l"
    and "r \<in> set (operations db) \<Longrightarrow> incomplete r \<Longrightarrow> \<exists>l \<in> set (resource_leases db). lease_id l = op_id r"
proof -
  have eq: "lease_id ` set (resource_leases db) = op_id ` {r \<in> set (operations db). incomplete r}"
    using assms by (simp add: db_ok_def)
  show "distinct (map operation_key (operations db))" "distinct (map lease_resource_key (resource_leases db))"
    using assms by (simp_all add: db_ok_def)
  show "\<exists>r \<in> set (operations db). incomplete r \<and> op_id r = lease_id l" if "l \<in> set (resource_leases db)"
    using imageI [OF that, of lease_id] unfolding eq by auto
  show "\<exists>l \<in> set (resource_leases db). lease_id l = op_id r" if "r \<in> set (operations db)" "incomplete r"
  proof -
    have "op_id r \<in> lease_id ` set (resource_leases db)" using that eq by auto
    then show ?thesis by auto
  qed
qed

lemma same_key: "db_ok db \<Longrightarrow> r \<in> set (operations db) \<Longrightarrow> r' \<in> set (operations db) \<Longrightarrow>
    operation_key r = operation_key r' \<Longrightarrow> r = r'"
  using db_okD(1) by (metis distinct_map inj_onD)

lemma read_operation_Some:
  "read_operation db k = Some r \<Longrightarrow> r \<in> set (operations db) \<and> operation_key r = k"
  by (auto simp: read_operation_def find_Some_iff)

lemma read_operation_None: "read_operation db k = None \<longleftrightarrow> k \<notin> operation_key ` set (operations db)"
  by (auto simp: read_operation_def find_None_iff)

lemma one_owner_per_resource:
  assumes "db_ok db" "r \<in> set (operations db)" "r' \<in> set (operations db)" "incomplete r" "incomplete r'"
    and "resource_key r = resource_key r'"
  shows "r = r'"
proof -
  obtain l where l: "l \<in> set (resource_leases db)" "lease_id l = op_id r"
    using db_okD(4) [OF assms(1,2,4)] by blast
  obtain l' where l': "l' \<in> set (resource_leases db)" "lease_id l' = op_id r'"
    using db_okD(4) [OF assms(1,3,5)] by blast
  have "lease_resource_key l = lease_resource_key l'"
    using l(2) l'(2) assms(6) by (simp add: lease_id_def op_id_def)
  then have "l = l'"
    using db_okD(2) [OF assms(1)] l(1) l'(1) by (metis distinct_map inj_onD)
  then show ?thesis
    using l(2) l'(2) same_key [OF assms(1-3)] by (simp add: lease_id_def op_id_def)
qed

section \<open>Every operation keeps the tables consistent\<close>

lemma insert_reservation_cases:
  assumes "insert_reservation h db fresh = Inr (res, db')"
  obtains "operations db' = operations db @ [fresh]"
    "resource_leases db' = resource_leases db @ [lease_of fresh]"
    "res = \<lparr>reserved_record = fresh, acquired = True, replayed = False\<rparr>"
    "\<forall>l \<in> set (resource_leases db). lease_resource_key l \<noteq> resource_key fresh"
  using assms by (auto simp: insert_reservation_def find_None_iff split: option.splits if_splits)

lemma add_ok:
  assumes "db_ok db" "operation_key fresh \<notin> operation_key ` set (operations db)" "incomplete fresh"
    and "\<forall>l \<in> set (resource_leases db). lease_resource_key l \<noteq> resource_key fresh"
    and ops: "operations db' = operations db @ [fresh]"
    and leases: "resource_leases db' = resource_leases db @ [lease_of fresh]"
  shows "db_ok db'"
proof -
  have "lease_id (lease_of fresh) = op_id fresh" by (simp add: lease_id_def lease_of_def op_id_def)
  moreover have "lease_resource_key (lease_of fresh) = resource_key fresh" by (simp add: lease_of_def)
  moreover have "{r \<in> set (operations db'). incomplete r} = insert fresh {r \<in> set (operations db). incomplete r}"
    using assms(3) by (auto simp: ops)
  ultimately show ?thesis
    using assms(1,2,4) by (auto simp: db_ok_def ops leases)
qed

lemma delete_frame:
  assumes "db_ok db" "r \<in> set (operations db)" "operation_key r = k" "\<not> incomplete r"
  shows "operations (delete_operation k db) = filter (\<lambda>x. x \<noteq> r) (operations db)"
    and "resource_leases (delete_operation k db) = resource_leases db"
proof -
  show "operations (delete_operation k db) = filter (\<lambda>x. x \<noteq> r) (operations db)"
    unfolding delete_operation_def using same_key [OF assms(1) _ assms(2)] assms(3)
    by (auto intro!: filter_cong)
  have "lease_operation_key l \<noteq> k" if l: "l \<in> set (resource_leases db)" for l
  proof
    assume "lease_operation_key l = k"
    moreover obtain x where "x \<in> set (operations db)" "incomplete x" "op_id x = lease_id l"
      using db_okD(3) [OF assms(1) l] by blast
    ultimately show False
      using same_key [OF assms(1,2), of x] assms(3,4) by (auto simp: op_id_def lease_id_def)
  qed
  then show "resource_leases (delete_operation k db) = resource_leases db"
    by (simp add: delete_operation_def)
qed

lemma delete_ok:
  assumes "db_ok db" "r \<in> set (operations db)" "operation_key r = k" "\<not> incomplete r"
  shows "db_ok (delete_operation k db)"
proof -
  have "{x \<in> set (filter (\<lambda>x. x \<noteq> r) (operations db)). incomplete x} = {x \<in> set (operations db). incomplete x}"
    using assms(4) by auto
  then show ?thesis
    using assms(1) delete_frame [OF assms] by (auto simp: db_ok_def distinct_map_filter)
qed

text \<open>An update of one incomplete operation, which drops its lease when it makes it terminal.\<close>

lemma update_ok:
  assumes "db_ok db" "r0 \<in> set (operations db)" "incomplete r0" "op_id r1 = op_id r0"
    and "operations db' = map (\<lambda>r. if r = r0 then r1 else r) (operations db)"
    and "resource_leases db' = (if incomplete r1 then resource_leases db
      else filter (\<lambda>l. lease_operation_key l \<noteq> operation_key r0) (resource_leases db))"
  shows "db_ok db'"
proof -
  let ?f = "\<lambda>r. if r = r0 then r1 else r"
  have key: "operation_key (?f r) = operation_key r" for r
    using assms(4) by (simp add: op_id_def)
  have id: "op_id (?f r) = op_id r" for r using assms(4) by simp
  have keys: "distinct (map operation_key (operations db'))"
    using db_okD(1) [OF assms(1)] key by (simp add: assms(5) comp_def)
  have res: "distinct (map lease_resource_key (resource_leases db'))"
    using db_okD(2) [OF assms(1)] by (simp add: assms(6) distinct_map_filter)
  have eq: "lease_id ` set (resource_leases db) = op_id ` {r \<in> set (operations db). incomplete r}"
    using assms(1) by (simp add: db_ok_def)
  have "lease_id ` set (resource_leases db') = op_id ` {r \<in> set (operations db'). incomplete r}"
  proof (cases "incomplete r1")
    case True
    have "op_id ` {r \<in> set (operations db'). incomplete r} =
        op_id ` {r \<in> set (operations db). incomplete r}"
    proof -
      have "{r \<in> set (operations db'). incomplete r} = ?f ` {r \<in> set (operations db). incomplete r}"
        using True assms(2,3) by (auto simp: assms(5))
      then show ?thesis by (simp only: image_image id)
    qed
    then show ?thesis using eq True by (simp add: assms(6))
  next
    case False
    have "{r \<in> set (operations db'). incomplete r} = {r \<in> set (operations db). incomplete r} - {r0}"
      using False by (auto simp: assms(5))
    moreover have "op_id ` ({r \<in> set (operations db). incomplete r} - {r0}) =
        {i \<in> op_id ` {r \<in> set (operations db). incomplete r}. fst (snd i) \<noteq> operation_key r0}"
      using same_key [OF assms(1) _ assms(2)] by (auto simp: op_id_def)
    moreover have "lease_id ` set (resource_leases db') =
        {i \<in> lease_id ` set (resource_leases db). fst (snd i) \<noteq> operation_key r0}"
      using False by (auto simp: assms(6) lease_id_def)
    ultimately show ?thesis by (simp add: eq)
  qed
  with keys res show ?thesis by (simp add: db_ok_def)
qed

lemma one_hit:
  assumes "length (filter hit xs) = 1"
  obtains x where "x \<in> set xs" "hit x" "\<forall>r \<in> set xs. hit r \<longleftrightarrow> r = x"
proof -
  obtain x where x: "filter hit xs = [x]" using assms by (auto simp: length_Suc_conv)
  have hits: "{r \<in> set xs. hit r} = {x}" using arg_cong [OF x, of set] by simp
  then have "x \<in> set xs" "hit x" "\<forall>r \<in> set xs. hit r \<longleftrightarrow> r = x" by auto
  then show thesis by (rule that)
qed

text \<open>An owned transition changes one operation, the one its reservation owns.\<close>

lemma owned_transition_cases:
  assumes "owned_transition now db res expected next_state result error may_retry release = Inr (u, db')"
    and "db_ok db" "owns_consistently db (reserved_record res)" "expected \<in> {RESERVED, APPLYING}"
    and "release \<longleftrightarrow> next_state \<notin> {RESERVED, APPLYING}"
  obtains r0 r1 where "r0 \<in> set (operations db)" "incomplete r0" "op_state r0 = expected"
    "op_id r1 = op_id r0" "op_state r1 = next_state" "op_id r0 = op_id (reserved_record res)"
    "operations db' = map (\<lambda>r. if r = r0 then r1 else r) (operations db)"
    "resource_leases db' = (if incomplete r1 then resource_leases db
      else filter (\<lambda>l. lease_operation_key l \<noteq> operation_key r0) (resource_leases db))"
proof -
  let ?rec = "reserved_record res"
  let ?hit = "\<lambda>r. operation_key r = operation_key ?rec \<and> op_state r = expected \<and> owner_token r = owner_token ?rec"
  let ?chg = "\<lambda>r. r\<lparr>op_state := next_state, updated_at_unix := now, op_result := result,
                           op_error := error, retryable := may_retry\<rparr>"
  let ?leases = "if release then filter (\<lambda>l. \<not> (lease_resource_key l = resource_key ?rec \<and>
      lease_operation_key l = operation_key ?rec \<and> lease_owner_token l = owner_token ?rec)) (resource_leases db)
      else resource_leases db"
  have one: "length (filter ?hit (operations db)) = 1"
    and db': "db' = db\<lparr>operations := map (\<lambda>r. if ?hit r then ?chg r else r) (operations db), resource_leases := ?leases\<rparr>"
    using assms(1) by (auto simp: owned_transition_def Let_def split: if_splits option.splits)
  obtain r0 where r0: "r0 \<in> set (operations db)" "?hit r0" and
    hits: "\<forall>r \<in> set (operations db). ?hit r \<longleftrightarrow> r = r0"
    by (rule one_hit [OF one])
  have upd: "map (\<lambda>r. if ?hit r then ?chg r else r) (operations db) =
      map (\<lambda>r. if r = r0 then ?chg r0 else r) (operations db)"
    by (rule map_cong [OF refl]) (use hits in auto)
  have id: "op_id r0 = op_id ?rec" using assms(3) r0 by (simp add: owns_consistently_def op_id_def)
  have "?leases = (if incomplete (?chg r0) then resource_leases db
      else filter (\<lambda>l. lease_operation_key l \<noteq> operation_key r0) (resource_leases db))"
  proof (cases release)
    case True
    have "(lease_resource_key l = resource_key ?rec \<and> lease_operation_key l = operation_key ?rec \<and>
        lease_owner_token l = owner_token ?rec) \<longleftrightarrow> lease_operation_key l = operation_key r0"
      if l: "l \<in> set (resource_leases db)" for l
    proof -
      obtain x where "x \<in> set (operations db)" "op_id x = lease_id l"
        using db_okD(3) [OF assms(2) l] by blast
      then show ?thesis
        using same_key [OF assms(2) r0(1), of x] id by (auto simp: op_id_def lease_id_def)
    qed
    then show ?thesis using True assms(5) by (auto simp: incomplete_def intro!: filter_cong)
  next
    case False
    then show ?thesis using assms(5) by (auto simp: incomplete_def)
  qed
  then have leases: "resource_leases db' = (if incomplete (?chg r0) then resource_leases db
      else filter (\<lambda>l. lease_operation_key l \<noteq> operation_key r0) (resource_leases db))"
    by (simp add: db')
  show thesis
  proof (rule that [of r0 "?chg r0"])
    show "operations db' = map (\<lambda>r. if r = r0 then ?chg r0 else r) (operations db)"
      using upd by (simp add: db')
  qed (use r0 id leases assms(4) in \<open>auto simp: incomplete_def op_id_def\<close>)
qed

lemma recover_terminal_cases:
  assumes "recover_terminal now db record next_state result error may_retry = Inr db'"
    and "next_state \<notin> {RESERVED, APPLYING}"
  obtains r0 r1 where "r0 \<in> set (operations db)" "incomplete r0" "operation_key r0 = operation_key record"
    "op_id r1 = op_id r0" "op_state r1 = next_state"
    "operations db' = map (\<lambda>r. if r = r0 then r1 else r) (operations db)"
    "resource_leases db' = (if incomplete r1 then resource_leases db
      else filter (\<lambda>l. lease_operation_key l \<noteq> operation_key r0) (resource_leases db))"
proof -
  let ?hit = "\<lambda>r. operation_key r = operation_key record \<and> incomplete r"
  let ?chg = "\<lambda>r. r\<lparr>op_state := next_state, updated_at_unix := now, op_result := result,
                           op_error := error, retryable := may_retry\<rparr>"
  have one: "length (filter ?hit (operations db)) = 1"
    and db': "db' = db\<lparr>operations := map (\<lambda>r. if ?hit r then ?chg r else r) (operations db),
      resource_leases := filter (\<lambda>l. lease_operation_key l \<noteq> operation_key record) (resource_leases db)\<rparr>"
    using assms(1) by (auto simp: recover_terminal_def Let_def split: if_splits)
  obtain r0 where r0: "r0 \<in> set (operations db)" "?hit r0" and
    hits: "\<forall>r \<in> set (operations db). ?hit r \<longleftrightarrow> r = r0"
    by (rule one_hit [OF one])
  have upd: "map (\<lambda>r. if ?hit r then ?chg r else r) (operations db) =
      map (\<lambda>r. if r = r0 then ?chg r0 else r) (operations db)"
    by (rule map_cong [OF refl]) (use hits in auto)
  show thesis
  proof (rule that [of r0 "?chg r0"])
    show "operations db' = map (\<lambda>r. if r = r0 then ?chg r0 else r) (operations db)"
      using upd by (simp add: db')
    show "resource_leases db' = (if incomplete (?chg r0) then resource_leases db
      else filter (\<lambda>l. lease_operation_key l \<noteq> operation_key r0) (resource_leases db))"
      using r0 assms(2) by (auto simp: db' incomplete_def)
  qed (use r0 in \<open>auto simp: op_id_def\<close>)
qed

section \<open>What a step does\<close>

text \<open>
  Seen from the tables there are three kinds of step: nothing changes, a fresh operation with its lease is
  added (after a failed operation of the same key went away), or one incomplete operation is updated.
\<close>

inductive db_step :: "operation_db \<Rightarrow> operation_db \<Rightarrow> bool" where
  db_same: "db_step db db"
| db_added: "operation_key fresh \<notin> operation_key ` set (operations db) \<Longrightarrow> incomplete fresh \<Longrightarrow>
     owner_token fresh \<notin> owner_token ` set (operations db) \<Longrightarrow>
     \<forall>l \<in> set (resource_leases db). lease_resource_key l \<noteq> resource_key fresh \<Longrightarrow>
     operations db' = operations db @ [fresh] \<Longrightarrow>
     resource_leases db' = resource_leases db @ [lease_of fresh] \<Longrightarrow> db_step db db'"
| db_retried: "old \<in> set (operations db) \<Longrightarrow> op_state old = OP_FAILED \<Longrightarrow> retryable old \<Longrightarrow>
     operation_key fresh = operation_key old \<Longrightarrow> incomplete fresh \<Longrightarrow>
     owner_token fresh \<notin> owner_token ` set (operations db) \<Longrightarrow>
     \<forall>l \<in> set (resource_leases db). lease_resource_key l \<noteq> resource_key fresh \<Longrightarrow>
     operations db' = filter (\<lambda>x. x \<noteq> old) (operations db) @ [fresh] \<Longrightarrow>
     resource_leases db' = resource_leases db @ [lease_of fresh] \<Longrightarrow> db_step db db'"
| db_updated: "r0 \<in> set (operations db) \<Longrightarrow> incomplete r0 \<Longrightarrow> op_id r1 = op_id r0 \<Longrightarrow>
     operations db' = map (\<lambda>r. if r = r0 then r1 else r) (operations db) \<Longrightarrow>
     resource_leases db' = (if incomplete r1 then resource_leases db
       else filter (\<lambda>l. lease_operation_key l \<noteq> operation_key r0) (resource_leases db)) \<Longrightarrow> db_step db db'"

lemma new_operation_simps [simp]:
  "owner_token (new_operation h draws st args) = draw_owner_token draws"
  "op_state (new_operation h draws st args) = RESERVED"
  "incomplete (new_operation h draws st args)"
  by (simp_all add: new_operation_def Let_def incomplete_def)

lemma reserve_cases:
  assumes "reserve_artifact_apply h draws db args = Inr (res, db')" and "db_ok db"
    and "draw_owner_token draws \<notin> owner_token ` set (operations db)"
  obtains (replay) existing where "existing \<in> set (operations db)" "op_state existing = APPLIED" "db' = db"
      "res = \<lparr>reserved_record = existing, acquired = False, replayed = True\<rparr>"
  | (acquire) fresh where "db_step db db'" "fresh \<in> set (operations db')" "incomplete fresh"
      "owner_token fresh = draw_owner_token draws" "op_state fresh = RESERVED"
      "\<forall>r \<in> set (operations db'). r = fresh \<or> r \<in> set (operations db)"
      "\<forall>l \<in> set (resource_leases db). lease_resource_key l \<noteq> resource_key fresh"
      "res = \<lparr>reserved_record = fresh, acquired = True, replayed = False\<rparr>"
proof -
  from assms(1) obtain st where st: "process_identity_token h (draw_pid draws) = Inr st"
    by (auto simp: reserve_artifact_apply_def res_simps)
  let ?fresh = "new_operation h draws st args"
  note def = assms(1) [unfolded reserve_artifact_apply_def st rbind.simps Let_def]
  show thesis
  proof (cases "read_operation db (operation_key ?fresh)")
    case None
    then have "insert_reservation h db ?fresh = Inr (res, db')" using def by simp
    then show thesis
    proof (rule insert_reservation_cases)
      assume ins: "operations db' = operations db @ [?fresh]"
        "resource_leases db' = resource_leases db @ [lease_of ?fresh]"
        "res = \<lparr>reserved_record = ?fresh, acquired = True, replayed = False\<rparr>"
        "\<forall>l \<in> set (resource_leases db). lease_resource_key l \<noteq> resource_key ?fresh"
      have "db_step db db'"
        by (rule db_added [OF _ _ _ ins(4) ins(1,2)])
           (use None assms(3) in \<open>simp_all add: read_operation_None\<close>)
      then show thesis by (rule acquire) (use ins in auto)
    qed
  next
    case (Some old)
    then have old: "old \<in> set (operations db)" "operation_key old = operation_key ?fresh"
      using read_operation_Some by auto
    show thesis
    proof (cases "op_state old = APPLIED")
      case True
      then show thesis using def Some old by (intro replay) auto
    next
      case False
      then have retry: "op_state old = OP_FAILED" "retryable old"
        and "insert_reservation h (delete_operation (operation_key ?fresh) db) ?fresh = Inr (res, db')"
        using def Some by (auto split: if_splits)
      moreover have "\<not> incomplete old" using retry(1) by (simp add: incomplete_def)
      note frame = delete_frame [OF assms(2) old this]
      ultimately show thesis
      proof (elim insert_reservation_cases)
        assume ins: "operations db' = operations (delete_operation (operation_key ?fresh) db) @ [?fresh]"
          "resource_leases db' = resource_leases (delete_operation (operation_key ?fresh) db) @ [lease_of ?fresh]"
          "res = \<lparr>reserved_record = ?fresh, acquired = True, replayed = False\<rparr>"
          "\<forall>l \<in> set (resource_leases (delete_operation (operation_key ?fresh) db)). lease_resource_key l \<noteq> resource_key ?fresh"
        have "db_step db db'"
          by (rule db_retried [OF old(1) retry old(2) [symmetric] _ _ ins(4) [unfolded frame] ins(1,2) [unfolded frame]])
             (use assms(3) in simp_all)
        then show thesis by (rule acquire) (use ins frame in auto)
      qed
    qed
  qed
qed

lemma db_step_ok: "db_step db db' \<Longrightarrow> db_ok db \<Longrightarrow> db_ok db'"
proof (induction rule: db_step.induct)
  case (db_added fresh db db')
  then show ?case using add_ok by blast
next
  case (db_retried old db fresh db')
  let ?mid = "delete_operation (operation_key old) db"
  have old: "\<not> incomplete old" using db_retried.hyps(2) by (simp add: incomplete_def)
  note frame = delete_frame [OF db_retried.prems db_retried.hyps(1) refl old]
  show ?case
  proof (rule add_ok [of ?mid fresh])
    show "db_ok ?mid" by (rule delete_ok [OF db_retried.prems db_retried.hyps(1) refl old])
    show "operation_key fresh \<notin> operation_key ` set (operations ?mid)"
      using same_key [OF db_retried.prems _ db_retried.hyps(1)] db_retried.hyps(4) by (auto simp: frame)
  qed (use db_retried.hyps frame in simp_all)
next
  case (db_updated r0 db r1 db')
  then show ?case using update_ok by blast
qed

lemma db_step_applied:
  "db_step db db' \<Longrightarrow> r \<in> set (operations db) \<Longrightarrow> op_state r = APPLIED \<Longrightarrow> r \<in> set (operations db')"
  by (induction rule: db_step.induct) (force simp: incomplete_def)+

text \<open>The owner's calls and recovery only update.\<close>

definition db_updates :: "operation_db \<Rightarrow> operation_db \<Rightarrow> bool" where
  "db_updates db db' = (db_step db db' \<and> op_id ` set (operations db') \<subseteq> op_id ` set (operations db))"

lemma db_updates_refl: "db_updates db db"
  by (simp add: db_updates_def db_same)

lemma db_updated_updates:
  assumes "r0 \<in> set (operations db)" "incomplete r0" "op_id r1 = op_id r0"
    and "operations db' = map (\<lambda>r. if r = r0 then r1 else r) (operations db)"
    and "resource_leases db' = (if incomplete r1 then resource_leases db
       else filter (\<lambda>l. lease_operation_key l \<noteq> operation_key r0) (resource_leases db))"
  shows "db_updates db db'"
proof -
  have "op_id ` set (operations db') \<subseteq> op_id ` set (operations db)"
    using assms(1,3) by (auto simp: assms(4))
  with db_updated [OF assms] show ?thesis by (simp add: db_updates_def)
qed

lemma owned_transition_updates:
  assumes "owned_transition now db res expected next_state result error may_retry release = Inr (u, db')"
    and "db_ok db" "owns_consistently db (reserved_record res)" "expected \<in> {RESERVED, APPLYING}"
    and "release \<longleftrightarrow> next_state \<notin> {RESERVED, APPLYING}"
  shows "db_updates db db'"
  by (rule owned_transition_cases [OF assms]) (rule db_updated_updates)

lemma recover_terminal_updates:
  "recover_terminal now db record next_state result error may_retry = Inr db' \<Longrightarrow>
     next_state \<notin> {RESERVED, APPLYING} \<Longrightarrow> db_updates db db'"
  by (erule (1) recover_terminal_cases) (rule db_updated_updates)

lemma reconcile_record_updates:
  "reconcile_record h now evidence db record = Inr (result, db') \<Longrightarrow> db_updates db db'"
  by (auto simp: reconcile_record_def res_simps db_updates_refl split: if_splits sum.splits
      elim!: recover_terminal_updates)

lemma owner_step_updates:
  assumes "db_ok db" "owns_consistently db (reserved_record res)"
  shows "mark_applying now db res = Inr (r, db') \<Longrightarrow> db_updates db db'"
    and "mark_applied now db res result = Inr (r, db') \<Longrightarrow> db_updates db db'"
    and "fail_or_preserve_ambiguous h now db res error = Inr (released, db') \<Longrightarrow> db_updates db db'"
  by (auto simp: mark_applying_def mark_applied_def fail_or_preserve_ambiguous_def res_simps db_updates_refl
      split: option.splits if_splits prod.splits dest!: owned_transition_updates [OF _ assms])

lemma updates_owns: "db_updates db db' \<Longrightarrow> owns_consistently db rec \<Longrightarrow> owns_consistently db' rec"
  unfolding owns_consistently_def db_updates_def op_id_def by fastforce

lemma step_cases:
  assumes "op_inv s" "op_step s s'"
  obtains (updates) "db_updates (op_db s) (op_db s')" "issued s' = issued s"
  | (reserves) h draws args res where
      "reserve_artifact_apply h draws (op_db s) args = Inr (res, op_db s')"
      "issued s' = reserved_record res # issued s" "fresh_token (draw_owner_token draws) s"
  using assms(2)
proof (rule op_stepE)
  fix h draws args res db'
  assume "s' = s\<lparr>op_db := db', issued := reserved_record res # issued s\<rparr>"
    "fresh_token (draw_owner_token draws) s" "reserve_artifact_apply h draws (op_db s) args = Inr (res, db')"
  then show thesis by (intro reserves) simp_all
next
  fix h now evidence listed result db'
  assume "s' = s\<lparr>op_db := db'\<rparr>" "reconcile_record h now evidence (op_db s) listed = Inr (result, db')"
  then show thesis by (intro updates) (auto dest: reconcile_record_updates)
qed (use assms(1) owner_step_updates updates in \<open>auto simp: op_inv_def\<close>)

lemma reserve_fresh: "fresh_token t s \<Longrightarrow> t \<notin> owner_token ` set (operations (op_db s))"
  by (auto simp: fresh_token_def)

lemma op_step_db: "op_inv s \<Longrightarrow> op_step s s' \<Longrightarrow> db_step (op_db s) (op_db s')"
proof (cases rule: step_cases, assumption, assumption)
  fix h draws args res
  assume "op_inv s" "reserve_artifact_apply h draws (op_db s) args = Inr (res, op_db s')"
    "fresh_token (draw_owner_token draws) s"
  then show "db_step (op_db s) (op_db s')"
    by (elim reserve_cases) (auto simp: op_inv_def db_same dest: reserve_fresh)
qed (simp add: db_updates_def)

lemma op_step_inv:
  assumes "op_inv s" "op_step s s'"
  shows "op_inv s'"
proof -
  have ok: "db_ok (op_db s)" and own: "\<And>rec. rec \<in> set (issued s) \<Longrightarrow> owns_consistently (op_db s) rec"
    using assms(1) by (auto simp: op_inv_def)
  have ok': "db_ok (op_db s')" using db_step_ok [OF op_step_db [OF assms] ok] .
  have "owns_consistently (op_db s') rec" if rec: "rec \<in> set (issued s')" for rec
    using assms
  proof (cases rule: step_cases)
    case updates
    then show ?thesis using updates_owns own rec by simp
  next
    case (reserves h draws args res)
    from reserves(1) ok reserve_fresh [OF reserves(3)] show ?thesis
    proof (cases rule: reserve_cases)
      case (replay existing)
      then show ?thesis
        using rec own reserves(2) same_key [OF ok] by (auto simp: owns_consistently_def)
    next
      case (acquire fresh)
      have new: "x \<in> set (operations (op_db s)) \<or> x \<in> set (issued s) \<Longrightarrow> owner_token x \<noteq> owner_token fresh" for x
        using reserves(3) acquire(4) unfolding fresh_token_def by (metis UnI1 UnI2 imageI)
      have rec': "rec = fresh \<or> rec \<in> set (issued s)" using rec reserves(2) acquire(8) by simp
      show ?thesis
        unfolding owns_consistently_def
      proof (intro ballI impI)
        fix r
        assume r: "r \<in> set (operations (op_db s'))" "operation_key r = operation_key rec"
          "owner_token r = owner_token rec"
        then have "r = fresh \<or> r \<in> set (operations (op_db s))" using acquire(6) by blast
        then show "resource_key r = resource_key rec"
          using rec' new r own unfolding owns_consistently_def by metis
      qed
    qed
  qed
  with ok' show ?thesis by (simp add: op_inv_def)
qed

interpretation op_store: invariant_system op_start op_step op_inv
proof
  show "op_start s \<Longrightarrow> op_inv s" for s by (simp add: op_start_def op_inv_def db_ok_def)
qed (rule op_step_inv)

section \<open>The lock that the store implements\<close>

text \<open>
  The abstract specification: a lock per resource, taken when it is free and given back by its holder's
  operation. The abstraction reads it off the lease table.
\<close>

type_synonym locks = "string \<Rightarrow> string option"

inductive lock_step :: "locks \<Rightarrow> locks \<Rightarrow> bool" where
  lock_skip: "lock_step m m"
| lock_take: "m res = None \<Longrightarrow> lock_step m (m(res \<mapsto> owner))"
| lock_give: "m res = Some owner \<Longrightarrow> lock_step m (m(res := None))"

definition locks_of :: "operation_db \<Rightarrow> locks" where
  "locks_of db = map_of (map (\<lambda>l. (lease_resource_key l, lease_operation_key l)) (resource_leases db))"

lemma locks_of_Some:
  "db_ok db \<Longrightarrow> locks_of db res = Some k \<longleftrightarrow>
     (\<exists>l \<in> set (resource_leases db). lease_resource_key l = res \<and> lease_operation_key l = k)"
proof -
  assume "db_ok db"
  then have "distinct (map fst (map (\<lambda>l. (lease_resource_key l, lease_operation_key l)) (resource_leases db)))"
    by (simp add: db_ok_def comp_def)
  from map_of_eq_Some_iff [OF this, of res k] show ?thesis
    unfolding locks_of_def by auto
qed

lemma locks_of_None: "locks_of db res = None \<longleftrightarrow> res \<notin> lease_resource_key ` set (resource_leases db)"
  by (simp add: locks_of_def map_of_eq_None_iff image_image)

lemma locks_of_add:
  assumes "\<forall>l \<in> set (resource_leases db). lease_resource_key l \<noteq> resource_key fresh"
    and "resource_leases db' = resource_leases db @ [lease_of fresh]"
  shows "locks_of db (resource_key fresh) = None \<and> locks_of db' = (locks_of db)(resource_key fresh \<mapsto> operation_key fresh)"
proof
  show none: "locks_of db (resource_key fresh) = None"
    using assms(1) by (auto simp: locks_of_None)
  show "locks_of db' = (locks_of db)(resource_key fresh \<mapsto> operation_key fresh)"
    using none assms(2) by (auto simp: locks_of_def lease_of_def map_add_def split: option.splits)
qed

lemma db_step_lock:
  assumes "db_step db db'" "db_ok db"
  shows "lock_step (locks_of db) (locks_of db')"
  using assms
proof cases
  case db_same
  then show ?thesis by (simp add: lock_skip)
next
  case (db_added fresh)
  then show ?thesis using locks_of_add [of db fresh db'] by (metis lock_take)
next
  case (db_retried old fresh)
  then show ?thesis using locks_of_add [of db fresh db'] by (metis lock_take)
next
  case (db_updated r0 r1)
  show ?thesis
  proof (cases "incomplete r1")
    case True
    then show ?thesis using db_updated by (simp add: locks_of_def lock_skip)
  next
    case False
    obtain l0 where l0: "l0 \<in> set (resource_leases db)" "lease_id l0 = op_id r0"
      using db_okD(4) [OF assms(2) db_updated(1,2)] by blast
    have held: "locks_of db (resource_key r0) = Some (operation_key r0)"
      unfolding locks_of_Some [OF assms(2)] using l0 by (auto simp: lease_id_def op_id_def)
    have only: "lease_operation_key l = operation_key r0 \<longleftrightarrow> lease_resource_key l = resource_key r0"
      if l: "l \<in> set (resource_leases db)" for l
    proof -
      obtain x where x: "x \<in> set (operations db)" "incomplete x" "op_id x = lease_id l"
        using db_okD(3) [OF assms(2) l] by blast
      then show ?thesis
        using same_key [OF assms(2) x(1) db_updated(1)] one_owner_per_resource [OF assms(2) x(1) db_updated(1) x(2) db_updated(2)]
        by (auto simp: op_id_def lease_id_def)
    qed
    have leases: "resource_leases db' = filter (\<lambda>l. lease_resource_key l \<noteq> resource_key r0) (resource_leases db)"
      using db_updated(5) False only by (auto intro!: filter_cong)
    have drop: "map_of (map (\<lambda>l. (lease_resource_key l, lease_operation_key l))
        (filter (\<lambda>l. lease_resource_key l \<noteq> res) ls)) =
        (map_of (map (\<lambda>l. (lease_resource_key l, lease_operation_key l)) ls))(res := None)" for res ls
      by (induction ls) auto
    have "locks_of db' = (locks_of db)(resource_key r0 := None)"
      unfolding locks_of_def leases by (rule drop)
    with held show ?thesis by (metis lock_give)
  qed
qed

section \<open>Properties\<close>

text \<open>Two hosts, before and after process 1 died; process 2 lives on both.\<close>

definition sample_host :: "int list \<Rightarrow> host" where
  "sample_host alive = \<lparr>host_sha256 = (\<lambda>s. s), proc_stat = (\<lambda>pid. Proc_absent), ps_path = Some ''ps'',
     ps_run = (\<lambda>pid. if pid \<in> set alive then (0, ''boot'') else (1, [])),
     resolve_path = (\<lambda>p. p), is_dir = (\<lambda>p. True), git_path = Some ''git'',
     git_run = (\<lambda>repo args. (0, if args = [''rev-parse'', ''--show-toplevel''] then repo
       else if args = [''rev-parse'', ''HEAD''] then ''base'' else [], []))\<rparr>"

definition sample_args :: reserve_args where
  "sample_args = \<lparr>arg_artifact_id = ''art'', arg_approval_id = ''ap'', arg_patch_sha256 = ''p'',
     arg_baseline_commit_sha = ''base'', arg_target_repo_path = ''repo''\<rparr>"

definition sample_draws1 :: reserve_draws where
  "sample_draws1 = \<lparr>draw_owner_token = ''tok1'', draw_pid = 1, draw_now = 0\<rparr>"

definition sample_draws2 :: reserve_draws where
  "sample_draws2 = \<lparr>draw_owner_token = ''tok2'', draw_pid = 2, draw_now = 5\<rparr>"

definition empty_db :: operation_db where
  "empty_db = \<lparr>operations = [], resource_leases = []\<rparr>"

definition sample_reserved :: "operation_reservation \<times> operation_db" where
  "sample_reserved = projr (reserve_artifact_apply (sample_host [1, 2]) sample_draws1 empty_db sample_args)"

lemma sample_reserve:
  "reserve_artifact_apply (sample_host [1, 2]) sample_draws1 empty_db sample_args = Inr sample_reserved"
  by code_simp

definition sample_start :: op_system where
  "sample_start = \<lparr>op_db = empty_db, issued = []\<rparr>"

lemma sample_step: "op_step sample_start
    (sample_start\<lparr>op_db := snd sample_reserved, issued := [reserved_record (fst sample_reserved)]\<rparr>)"
  using step_reserve [of sample_draws1 sample_start "sample_host [1, 2]" sample_args "fst sample_reserved" "snd sample_reserved"]
    sample_reserve
  by (simp add: sample_start_def fresh_token_def empty_db_def)

text \<open>
  (C38) Mutual exclusion: in every state that reservations, owner calls and recoveries reach, in whatever
  order and by however many processes, at most one incomplete operation holds a repository.
\<close>

theorem at_most_one_active_operation:
  assumes "op_start s" "op_step\<^sup>*\<^sup>* s s'"
    and "r \<in> set (operations (op_db s'))" "r' \<in> set (operations (op_db s'))"
    and "incomplete r" "incomplete r'" "resource_key r = resource_key r'"
  shows "r = r'"
  using op_store.reached_inv [OF assms(1,2)] one_owner_per_resource [OF _ assms(3-7)]
  by (simp add: op_inv_def)

theorem at_most_one_active_operation_witness:
  "\<exists>r. r \<in> set (operations (snd sample_reserved)) \<and> incomplete r \<and>
     (\<forall>r' \<in> set (operations (snd sample_reserved)). incomplete r' \<longrightarrow> resource_key r = resource_key r' \<longrightarrow> r = r')"
proof -
  let ?r = "reserved_record (fst sample_reserved)"
  have r: "?r \<in> set (operations (snd sample_reserved))" "incomplete ?r" by code_simp+
  have start: "op_start sample_start" by (simp add: op_start_def sample_start_def empty_db_def)
  show ?thesis
  proof (intro exI conjI ballI impI)
    fix r' assume "r' \<in> set (operations (snd sample_reserved))" "incomplete r'" "resource_key ?r = resource_key r'"
    then show "?r = r'"
      using at_most_one_active_operation [OF start r_into_rtranclp [of op_step, OF sample_step], of ?r r'] r by simp
  qed (use r in auto)
qed

text \<open>
  An applied operation is final: once recorded as applied, its record stays in the database unchanged
  through every later step, so its result can be replayed and it is never applied again.
\<close>

theorem applied_is_final:
  assumes "op_start s0" "op_step\<^sup>*\<^sup>* s0 s" "op_step\<^sup>*\<^sup>* s s'"
    and "r \<in> set (operations (op_db s))" "op_state r = APPLIED"
  shows "r \<in> set (operations (op_db s')) \<and>
    (\<forall>h draws args res db'. reserve_artifact_apply h draws (op_db s') args = Inr (res, db') \<longrightarrow>
       operation_key (reserved_record res) = operation_key r \<longrightarrow>
       fresh_token (draw_owner_token draws) s' \<longrightarrow> replayed res \<and> \<not> acquired res \<and> reserved_record res = r \<and> db' = op_db s')"
proof
  have inv: "op_inv s" by (rule op_store.reached_inv [OF assms(1,2)])
  have inv': "op_inv s'" by (rule op_store.steps_inv [OF assms(3) inv])
  show r: "r \<in> set (operations (op_db s'))"
    by (rule op_store.steps_keep [where P = "\<lambda>s. r \<in> set (operations (op_db s))", OF _ assms(3) inv assms(4)])
      (use assms(5) op_step_db db_step_applied in blast)
  show "\<forall>h draws args res db'. reserve_artifact_apply h draws (op_db s') args = Inr (res, db') \<longrightarrow>
       operation_key (reserved_record res) = operation_key r \<longrightarrow>
       fresh_token (draw_owner_token draws) s' \<longrightarrow> replayed res \<and> \<not> acquired res \<and> reserved_record res = r \<and> db' = op_db s'"
  proof (intro allI impI)
    fix h draws args res db'
    assume res: "reserve_artifact_apply h draws (op_db s') args = Inr (res, db')"
      and key: "operation_key (reserved_record res) = operation_key r"
      and fresh: "fresh_token (draw_owner_token draws) s'"
    have ok: "db_ok (op_db s')" using inv' by (simp add: op_inv_def)
    from res ok reserve_fresh [OF fresh]
    show "replayed res \<and> \<not> acquired res \<and> reserved_record res = r \<and> db' = op_db s'"
    proof (cases rule: reserve_cases)
      case (replay existing)
      then show ?thesis using same_key [OF ok _ r] key by auto
    next
      case (acquire x)
      have "r \<in> set (operations db')" using db_step_applied [OF acquire(1) r assms(5)] .
      then have "r = x" using same_key [OF db_step_ok [OF acquire(1) ok] _ acquire(2)] key acquire(8) by auto
      then show ?thesis using acquire(4) imageI [OF r, of owner_token] reserve_fresh [OF fresh] by simp
    qed
  qed
qed

text \<open>
  (C39) The store refines a table of locks: each step of the system, seen through the lease table, takes a
  free lock, gives back a held one, or leaves the locks as they are; no step moves a held lock to another
  operation.
\<close>

theorem operation_store_refines_locks:
  assumes "op_start s" "op_step\<^sup>*\<^sup>* s t" "op_step t u"
  shows "lock_step (locks_of (op_db t)) (locks_of (op_db u))"
proof -
  have "op_inv t" by (rule op_store.reached_inv [OF assms(1,2)])
  then show ?thesis
    using db_step_lock [OF op_step_db [OF _ assms(3)]] by (simp add: op_inv_def)
qed

theorem operation_store_refines_locks_witness:
  "lock_step (locks_of empty_db) (locks_of (snd sample_reserved))"
  using operation_store_refines_locks [OF _ rtranclp.rtrancl_refl sample_step]
  by (simp add: op_start_def sample_start_def empty_db_def)

text \<open>The run of a recovery that works on an old list.\<close>

definition listed_before :: operation_record where
  "listed_before = hd (list_incomplete (snd sample_reserved))"

definition released_db :: operation_db where
  "released_db = snd (projr (reconcile_record (sample_host [2]) 3 (\<lambda>r. False) (snd sample_reserved) listed_before))"

definition retaken :: "operation_reservation \<times> operation_db" where
  "retaken = projr (reserve_artifact_apply (sample_host [2]) sample_draws2 released_db sample_args)"

definition stolen_db :: operation_db where
  "stolen_db = snd (projr (reconcile_record (sample_host [2]) 6 (\<lambda>r. False) (snd retaken) listed_before))"


end
