(* ===== verification/Approval_Queue.thy ===== *)
theory Approval_Queue
  imports Approval
begin

text \<open>
  \<open>src/rygnal/approval_queue.py\<close>: the queue of approval requests, in memory and in the SQLite table
  \<open>approval_queue\<close>. Each method is one transaction. \<open>json.loads\<close> followed by pydantic's constructor is an
  argument; the clock's answers are arguments.
\<close>

section \<open>Queue items\<close>

definition ApprovalQueueError :: "string \<Rightarrow> py_exn" where
  "ApprovalQueueError msg = Exn RuntimeErr ''ApprovalQueueError'' msg"

definition ApprovalNotFoundError :: "string \<Rightarrow> py_exn" where
  "ApprovalNotFoundError approval_id = Exn RuntimeErr ''ApprovalNotFoundError''
     (''Approval request '' @ [squote] @ approval_id @ [squote] @ '' was not found.'')"

definition ApprovalDeniedError :: "string \<Rightarrow> py_exn" where
  "ApprovalDeniedError msg = Exn RuntimeErr ''ApprovalDeniedError'' msg"

definition ApprovalStateConflictError :: "string \<Rightarrow> py_exn" where
  "ApprovalStateConflictError msg = Exn RuntimeErr ''ApprovalStateConflictError'' msg"

record queued_approval =
  qa_request :: approval_request
  qa_status :: approval_status
  qa_decision :: "approval_decision option"

definition queue_pending :: "approval_request \<Rightarrow> queued_approval" where
  "queue_pending request = \<lparr>qa_request = request, qa_status = PENDING, qa_decision = None\<rparr>"

definition approval_request_dump :: "approval_request \<Rightarrow> dict" where
  "approval_request_dump r =
     [(''approval_id'', PStr (ar_approval_id r)),
      (''created_at'', PStr (ar_created_at r)),
      (''trace_id'', PStr (ar_trace_id r)),
      (''requested_by'', PStr (ar_requested_by r)),
      (''agent_id'', PStr (ar_agent_id r)),
      (''environment'', PStr (ar_environment r)),
      (''tool_name'', PStr (ar_tool_name r)),
      (''action'', opt_val (ar_action r)),
      (''target'', json_val (ar_target r)),
      (''policy_id'', opt_val (ar_policy_id r)),
      (''reason'', PStr (ar_reason r)),
      (''severity'', PStr (severity_value (ar_severity r))),
      (''risk_assessment'', dict_val (json_dict (ar_risk_assessment r))),
      (''metadata'', dict_val (json_dict (ar_metadata r)))]"

definition approval_decision_dump :: "approval_decision \<Rightarrow> dict" where
  "approval_decision_dump d =
     [(''approval_id'', PStr (ad_approval_id d)),
      (''status'', PStr (approval_status_value (ad_status d))),
      (''approved'', PBool (ad_approved d)),
      (''decided_by'', opt_val (ad_decided_by d)),
      (''decided_at'', opt_val (ad_decided_at d)),
      (''reason'', PStr (ad_reason d)),
      (''metadata'', dict_val (json_dict (ad_metadata d)))]"

definition queued_to_dict :: "queued_approval \<Rightarrow> dict res" where
  "queued_to_dict item =
     redact_dict
       [(''approval_id'', PStr (ar_approval_id (qa_request item))),
        (''status'', PStr (approval_status_value (qa_status item))),
        (''request'', dict_val (approval_request_dump (qa_request item))),
        (''approval_decision'', case qa_decision item of None \<Rightarrow> PNone
           | Some d \<Rightarrow> dict_val (approval_decision_dump d))]"

section \<open>The queue in memory\<close>

type_synonym memory_queue = "(string \<times> queued_approval) list"

definition store_item :: "memory_queue \<Rightarrow> queued_approval \<Rightarrow> memory_queue" where
  "store_item items item = AList.update (ar_approval_id (qa_request item)) item items"

definition submit :: "memory_queue \<Rightarrow> approval_request \<Rightarrow> memory_queue" where
  "submit items request = store_item items (queue_pending request)"

definition list_items :: "memory_queue \<Rightarrow> approval_status option \<Rightarrow> queued_approval list" where
  "list_items items status =
     (case status of None \<Rightarrow> map snd items | Some st \<Rightarrow> filter (\<lambda>item. qa_status item = st) (map snd items))"

definition get_item :: "memory_queue \<Rightarrow> string \<Rightarrow> queued_approval res" where
  "get_item items approval_id =
     (case map_of items approval_id of None \<Rightarrow> Inl (ApprovalNotFoundError approval_id) | Some item \<Rightarrow> Inr item)"

definition record_decision ::
  "authorization_engine \<Rightarrow> memory_queue \<Rightarrow> string \<Rightarrow> approval_decision \<Rightarrow> queued_approval res \<times> memory_queue" where
  "record_decision eng items approval_id decision =
     (case get_item items approval_id of
        Inl e \<Rightarrow> (Inl e, items)
      | Inr item \<Rightarrow>
          if ad_approval_id decision \<noteq> approval_id
          then (Inl (ApprovalQueueError ''Approval decision ID does not match the queued request.''), items)
          else
            let transition = validate_transition (qa_status item) (ad_status decision);
                result = authorize eng (qa_request item) decision (qa_status item);
                updated = \<lparr>qa_request = qa_request item, qa_status = ad_status decision, qa_decision = Some decision\<rparr>
            in if \<not> cr_allowed transition then (Inl (ApprovalStateConflictError (cr_reason transition)), items)
               else if \<not> cr_allowed result then (Inl (ApprovalDeniedError (cr_reason result)), items)
               else (Inr updated, store_item items updated))"

text \<open>\<open>_decide\<close>: the decision that \<open>approve\<close> and \<open>reject\<close> construct.\<close>

definition make_decision :: "string \<Rightarrow> string \<Rightarrow> approval_status \<Rightarrow> bool \<Rightarrow> string \<Rightarrow> string \<Rightarrow> approval_decision" where
  "make_decision now approval_id status approved decided_by reason =
     \<lparr>ad_approval_id = approval_id, ad_status = status, ad_approved = approved, ad_decided_by = Some decided_by,
      ad_decided_at = Some now, ad_reason = redact_sensitive_string reason, ad_metadata = []\<rparr>"

definition approve ::
  "authorization_engine \<Rightarrow> string \<Rightarrow> memory_queue \<Rightarrow> string \<Rightarrow> string \<Rightarrow> string \<Rightarrow> queued_approval res \<times> memory_queue" where
  "approve eng now items approval_id decided_by reason =
     record_decision eng items approval_id (make_decision now approval_id APPROVED True decided_by reason)"

definition reject ::
  "authorization_engine \<Rightarrow> string \<Rightarrow> memory_queue \<Rightarrow> string \<Rightarrow> string \<Rightarrow> string \<Rightarrow> queued_approval res \<times> memory_queue" where
  "reject eng now items approval_id decided_by reason =
     record_decision eng items approval_id (make_decision now approval_id REJECTED False decided_by reason)"

section \<open>The queue in SQLite\<close>

record queue_lib =
  load_request :: "string \<Rightarrow> approval_request res"
  load_decision :: "string \<Rightarrow> approval_decision res"

record queue_row =
  qr_approval_id :: string
  qr_status :: approval_status
  qr_request_json :: string
  qr_decision_json :: "string option"
  qr_created_at :: string
  qr_updated_at :: string

text \<open>\<open>json.dumps(payload, sort_keys=True)\<close> with its default separators.\<close>

fun spaced_text :: "jtree \<Rightarrow> string" where
  "spaced_text (JLit s) = s"
| "spaced_text (JStr s) = json_quote s"
| "spaced_text (JArr ts) = ''['' @ join '', '' (map spaced_text ts) @ '']''"
| "spaced_text (JObj kts) =
     ''{'' @ join '', '' (map (\<lambda>kt. json_quote (fst kt) @ '': '' @ spaced_text (snd kt)) kts) @ ''}''"

definition redacted_model_json :: "dict \<Rightarrow> string res" where
  "redacted_model_json dump =
     rbind (redact_dict dump) (\<lambda>payload. Inr (spaced_text (json_tree (dict_val payload))))"

definition same_terminal_decision :: "approval_decision \<Rightarrow> approval_decision \<Rightarrow> bool" where
  "same_terminal_decision left right =
     (ad_approval_id left = ad_approval_id right \<and> ad_status left = ad_status right \<and>
      ad_approved left = ad_approved right \<and> ad_decided_by left = ad_decided_by right \<and>
      ad_reason left = ad_reason right \<and> py_eq (dict_val (ad_metadata left)) (dict_val (ad_metadata right)))"

definition load_optional :: "queue_lib \<Rightarrow> string option \<Rightarrow> approval_decision option res" where
  "load_optional lib text =
     (case text of None \<Rightarrow> Inr None | Some t \<Rightarrow> rbind (load_decision lib t) (\<lambda>d. Inr (Some d)))"

definition load_row :: "queue_lib \<Rightarrow> queue_row \<Rightarrow> queued_approval res" where
  "load_row lib row =
     rbind (load_request lib (qr_request_json row)) (\<lambda>request.
     rbind (load_optional lib (qr_decision_json row)) (\<lambda>decision.
       Inr \<lparr>qa_request = request, qa_status = qr_status row, qa_decision = decision\<rparr>))"

definition load_items :: "queue_lib \<Rightarrow> queue_row list \<Rightarrow> memory_queue res" where
  "load_items lib rows = rbind (rmap (load_row lib) rows) (\<lambda>items. Inr (fold (\<lambda>item q. store_item q item) items []))"

definition find_row :: "queue_row list \<Rightarrow> string \<Rightarrow> queue_row option" where
  "find_row rows approval_id = find (\<lambda>r. qr_approval_id r = approval_id) rows"

text \<open>
  After the commit the cache is loaded again; when a row cannot be read, that raises although the row is
  stored.
\<close>

definition sqlite_submit ::
  "queue_lib \<Rightarrow> string \<Rightarrow> queue_row list \<Rightarrow> approval_request \<Rightarrow> approval_request res \<times> queue_row list" where
  "sqlite_submit lib now rows request =
     (case redacted_model_json (approval_request_dump request) of
        Inl e \<Rightarrow> (Inl e, rows)
      | Inr request_json \<Rightarrow>
          (case find_row rows (ar_approval_id request) of
             Some row \<Rightarrow>
               if qr_request_json row \<noteq> request_json
               then (Inl (ApprovalQueueError ''Approval ID is already bound to a different request.''), rows)
               else (rbind (load_items lib rows) (\<lambda>_. Inr request), rows)
           | None \<Rightarrow>
               let rows' = rows @ [\<lparr>qr_approval_id = ar_approval_id request, qr_status = PENDING,
                     qr_request_json = request_json, qr_decision_json = None,
                     qr_created_at = ar_created_at request, qr_updated_at = now\<rparr>]
               in (rbind (load_items lib rows') (\<lambda>_. Inr request), rows')))"

definition sqlite_list ::
  "queue_lib \<Rightarrow> queue_row list \<Rightarrow> approval_status option \<Rightarrow> queued_approval list res" where
  "sqlite_list lib rows status = rbind (load_items lib rows) (\<lambda>items. Inr (list_items items status))"

definition sqlite_get :: "queue_lib \<Rightarrow> queue_row list \<Rightarrow> string \<Rightarrow> queued_approval res" where
  "sqlite_get lib rows approval_id = rbind (load_items lib rows) (\<lambda>items. get_item items approval_id)"

text \<open>The \<open>UPDATE\<close> of a pending row, and the change that it makes.\<close>

definition decide_row :: "string \<Rightarrow> string \<Rightarrow> approval_status \<Rightarrow> string \<Rightarrow> queue_row \<Rightarrow> queue_row" where
  "decide_row now approval_id status decision_json r =
     (if qr_approval_id r = approval_id \<and> qr_status r = PENDING
      then r\<lparr>qr_status := status, qr_decision_json := Some decision_json, qr_updated_at := now\<rparr> else r)"

definition update_pending ::
  "string \<Rightarrow> queue_row list \<Rightarrow> string \<Rightarrow> approval_decision \<Rightarrow> queue_row list res" where
  "update_pending now rows approval_id decision =
     rbind (redacted_model_json (approval_decision_dump decision)) (\<lambda>decision_json.
       if length (filter (\<lambda>r. qr_approval_id r = approval_id \<and> qr_status r = PENDING) rows) \<noteq> 1
       then Inl (ApprovalStateConflictError ''Approval state changed concurrently.'')
       else Inr (map (decide_row now approval_id (ad_status decision) decision_json) rows))"

definition sqlite_record_decision ::
  "queue_lib \<Rightarrow> authorization_engine \<Rightarrow> string \<Rightarrow> queue_row list \<Rightarrow> string \<Rightarrow> approval_decision \<Rightarrow>
   queued_approval res \<times> queue_row list" where
  "sqlite_record_decision lib eng now rows approval_id decision =
     (if ad_approval_id decision \<noteq> approval_id
      then (Inl (ApprovalQueueError ''Approval decision ID does not match the queued request.''), rows)
      else case find_row rows approval_id of
          None \<Rightarrow> (Inl (ApprovalNotFoundError approval_id), rows)
        | Some row \<Rightarrow>
            (case load_row lib row of
               Inl e \<Rightarrow> (Inl e, rows)
             | Inr item \<Rightarrow>
                 if qa_status item \<noteq> PENDING
                 then (if (case qa_decision item of None \<Rightarrow> False | Some d \<Rightarrow> same_terminal_decision d decision)
                       then (Inr item, rows)
                       else (Inl (ApprovalStateConflictError ''Approval already has a different terminal decision.''), rows))
                 else
                   let transition = validate_transition (qa_status item) (ad_status decision);
                       result = authorize eng (qa_request item) decision (qa_status item)
                   in if \<not> cr_allowed transition then (Inl (ApprovalStateConflictError (cr_reason transition)), rows)
                      else if \<not> cr_allowed result then (Inl (ApprovalDeniedError (cr_reason result)), rows)
                      else (case update_pending now rows approval_id decision of
                              Inl e \<Rightarrow> (Inl e, rows)
                            | Inr rows' \<Rightarrow> (Inr \<lparr>qa_request = qa_request item, qa_status = ad_status decision,
                                qa_decision = Some decision\<rparr>, rows'))))"

definition sqlite_store_item ::
  "queue_lib \<Rightarrow> authorization_engine \<Rightarrow> string \<Rightarrow> queue_row list \<Rightarrow> queued_approval \<Rightarrow> unit res \<times> queue_row list" where
  "sqlite_store_item lib eng now rows item =
     (if qa_status item = PENDING
      then (let (r, rows') = sqlite_submit lib now rows (qa_request item) in (rbind r (\<lambda>_. Inr ()), rows'))
      else case qa_decision item of
          None \<Rightarrow> (Inl (ApprovalQueueError ''Terminal approval is missing a decision.''), rows)
        | Some d \<Rightarrow>
            (let (r, rows') = sqlite_record_decision lib eng now rows (ar_approval_id (qa_request item)) d
             in (rbind r (\<lambda>_. Inr ()), rows')))"

section \<open>What every queue promises\<close>

text \<open>
  The contract of a queue, in terms of its \<open>view\<close>: the request and the status it holds for an id. A
  decision is recorded on a pending request, and only when it is authorized; one that fails, or repeats a
  recorded decision, changes nothing; and a decision on one id leaves every other id as it is.
\<close>

locale decision_queue =
  fixes eng :: authorization_engine
    and view :: "'s \<Rightarrow> string \<Rightarrow> (approval_request \<times> approval_status) option"
    and decide :: "string \<Rightarrow> 's \<Rightarrow> string \<Rightarrow> approval_decision \<Rightarrow> queued_approval res \<times> 's"
    and sane :: "'s \<Rightarrow> bool"
  assumes recorded: "sane s \<Longrightarrow> decide now s i d = (Inr item, s') \<Longrightarrow> s' = s \<or>
      (\<exists>request. view s i = Some (request, PENDING) \<and> cr_allowed (authorize eng request d PENDING) \<and>
         view s' i = Some (request, ad_status d))"
    and refused: "decide now s i d = (Inl e, s') \<Longrightarrow> s' = s"
    and elsewhere: "sane s \<Longrightarrow> i \<noteq> j \<Longrightarrow> view (snd (decide now s i d)) j = view s j"
    and sane_kept: "sane s \<Longrightarrow> sane (snd (decide now s i d))"
begin

lemma decide_cases:
  assumes "sane s"
  obtains "view (snd (decide now s i d)) j = view s j"
  | request where "i = j" "view s j = Some (request, PENDING)" "cr_allowed (authorize eng request d PENDING)"
      "view (snd (decide now s i d)) j = Some (request, ad_status d)"
proof (cases "i = j")
  case False
  with elsewhere [OF assms] that(1) show thesis by blast
next
  case True
  obtain r s' where r: "decide now s i d = (r, s')" by fastforce
  show thesis
  proof (cases r)
    case (Inl e)
    with refused r have "s' = s" by blast
    with that(1) r show thesis by simp
  next
    case (Inr item)
    with recorded [OF assms] r True that show thesis by (metis snd_conv)
  qed
qed

definition run :: "(string \<times> string \<times> approval_decision) list \<Rightarrow> 's \<Rightarrow> 's" where
  "run ds s = fold (\<lambda>(now, i, d) s. snd (decide now s i d)) ds s"

lemma decided_stays:
  "sane s \<Longrightarrow> view s j = Some (request, st) \<Longrightarrow> st \<noteq> PENDING \<Longrightarrow> view (run ds s) j = Some (request, st)"
proof (induction ds arbitrary: s)
  case (Cons x ds)
  obtain now i d where x: "x = (now, i, d)" by (cases x)
  have "view (snd (decide now s i d)) j = Some (request, st)"
    by (rule decide_cases [OF Cons.prems(1), of now i d j]) (use Cons.prems in auto)
  then show ?case using Cons.IH [OF sane_kept [OF Cons.prems(1)]] Cons.prems(3) by (simp add: run_def x)
qed (simp add: run_def)

lemma decided_by_authority:
  "sane s \<Longrightarrow> view s j = Some (request, PENDING) \<Longrightarrow> view (run ds s) j = Some (request', st) \<Longrightarrow>
     request' = request \<and> (st \<noteq> PENDING \<longrightarrow>
       (\<exists>now d. (now, j, d) \<in> set ds \<and> ad_status d = st \<and> cr_allowed (authorize eng request d PENDING)))"
proof (induction ds arbitrary: s)
  case (Cons x ds)
  obtain now i d where x: "x = (now, i, d)" by (cases x)
  let ?s = "snd (decide now s i d)"
  note sane = sane_kept [OF Cons.prems(1), of now i d]
  have later: "view (run ds ?s) j = Some (request', st)"
    using Cons.prems(3) by (simp add: run_def x)
  show ?case
  proof (rule decide_cases [OF Cons.prems(1), of now i d j])
    assume "view ?s j = view s j"
    with Cons.IH [OF sane _ later] Cons.prems(2) show ?thesis by auto
  next
    fix q
    assume q: "i = j" "view s j = Some (q, PENDING)" "cr_allowed (authorize eng q d PENDING)"
      "view ?s j = Some (q, ad_status d)"
    then have "q = request" using Cons.prems(2) by simp
    show ?thesis
    proof (cases "ad_status d = PENDING")
      case True
      with q Cons.IH [OF sane _ later] \<open>q = request\<close> show ?thesis by auto
    next
      case False
      with decided_stays [OF sane q(4)] later have "request' = q" "st = ad_status d" by auto
      with q \<open>q = request\<close> show ?thesis by (auto simp: x)
    qed
  qed
qed (simp add: run_def)

end

definition memory_view :: "memory_queue \<Rightarrow> string \<Rightarrow> (approval_request \<times> approval_status) option" where
  "memory_view items i = map_option (\<lambda>item. (qa_request item, qa_status item)) (map_of items i)"

definition keyed :: "memory_queue \<Rightarrow> bool" where
  "keyed items = (\<forall>(i, item) \<in> set items. ar_approval_id (qa_request item) = i)"

lemma keyed_lookup: "keyed items \<Longrightarrow> map_of items i = Some item \<Longrightarrow> ar_approval_id (qa_request item) = i"
  by (auto simp: keyed_def dest: map_of_SomeD)

lemma keyed_store: "keyed items \<Longrightarrow> keyed (store_item items item)"
  using set_dict_update [of "ar_approval_id (qa_request item)" item items]
  by (auto simp: keyed_def store_item_def)

interpretation memory: decision_queue eng memory_view "\<lambda>now. record_decision eng" keyed
  for eng
proof
  fix now s i d item s'
  assume "keyed s" and w: "record_decision eng s i d = (Inr item, s')"
  then show "s' = s \<or> (\<exists>request. memory_view s i = Some (request, PENDING) \<and>
      cr_allowed (authorize eng request d PENDING) \<and> memory_view s' i = Some (request, ad_status d))"
    using keyed_lookup [of s i]
    by (auto simp: record_decision_def get_item_def memory_view_def store_item_def update_conv' Let_def
        split: option.splits if_splits)
next
  fix now s i d e s'
  assume "record_decision eng s i d = (Inl e, s')"
  then show "s' = s"
    by (auto simp: record_decision_def Let_def split: sum.splits if_splits)
next
  fix now s i j d
  assume "keyed s" "i \<noteq> (j :: string)"
  then show "memory_view (snd (record_decision eng s i d)) j = memory_view s j"
    using keyed_lookup [of s i]
    by (auto simp: record_decision_def get_item_def memory_view_def store_item_def update_conv' Let_def
        split: option.splits)
next
  fix now s i d
  assume "keyed s"
  then show "keyed (snd (record_decision eng s i d))"
    by (auto simp: record_decision_def Let_def keyed_store split: sum.splits)
qed

definition table_view :: "queue_lib \<Rightarrow> queue_row list \<Rightarrow> string \<Rightarrow> (approval_request \<times> approval_status) option" where
  "table_view lib rows i =
     (case find_row rows i of
        None \<Rightarrow> None
      | Some r \<Rightarrow> (case load_request lib (qr_request_json r) of Inl _ \<Rightarrow> None | Inr q \<Rightarrow> Some (q, qr_status r)))"

definition unique_ids :: "queue_row list \<Rightarrow> bool" where
  "unique_ids rows = distinct (map qr_approval_id rows)"

lemma decide_row_fields [simp]:
  "qr_approval_id (decide_row now i st js r) = qr_approval_id r"
  "qr_request_json (decide_row now i st js r) = qr_request_json r"
  by (simp_all add: decide_row_def)

lemma find_row_decide:
  "find_row (map (decide_row now i st js) rows) j = map_option (decide_row now i st js) (find_row rows j)"
  unfolding find_row_def by (induction rows) auto

lemma find_row_mem: "find_row rows i = Some r \<Longrightarrow> r \<in> set rows \<and> qr_approval_id r = i"
  unfolding find_row_def by (auto simp: find_Some_iff)

lemma decide_row_other: "find_row rows j = Some r \<Longrightarrow> i \<noteq> j \<Longrightarrow> decide_row now i st js r = r"
  using find_row_mem by (fastforce simp: decide_row_def)

lemma sqlite_record_decision_cases:
  assumes "sqlite_record_decision lib eng now rows i d = (r, rows')"
  obtains "rows' = rows"
  | row item js where "find_row rows i = Some row" "load_row lib row = Inr item" "qr_status row = PENDING"
      "cr_allowed (authorize eng (qa_request item) d PENDING)"
      "redacted_model_json (approval_decision_dump d) = Inr js"
      "rows' = map (decide_row now i (ad_status d) js) rows"
      "r = Inr \<lparr>qa_request = qa_request item, qa_status = ad_status d, qa_decision = Some d\<rparr>"
  using assms
  by (auto simp: sqlite_record_decision_def update_pending_def Let_def res_simps load_row_def
      split: option.splits sum.splits if_splits)

interpretation sqlite: decision_queue eng "table_view lib" "sqlite_record_decision lib eng" unique_ids
  for lib eng
proof
  fix now s i d item s'
  assume "unique_ids s" and w: "sqlite_record_decision lib eng now s i d = (Inr item, s')"
  show "s' = s \<or> (\<exists>request. table_view lib s i = Some (request, PENDING) \<and>
      cr_allowed (authorize eng request d PENDING) \<and> table_view lib s' i = Some (request, ad_status d))"
    by (rule sqlite_record_decision_cases [OF w])
       (auto simp: table_view_def find_row_decide load_row_def res_simps decide_row_def dest: find_row_mem
         split: option.splits)
next
  fix now s i d e s'
  assume w: "sqlite_record_decision lib eng now s i d = (Inl e, s')"
  show "s' = s"
    by (rule sqlite_record_decision_cases [OF w]) auto
next
  fix now s i j d
  assume "i \<noteq> (j :: string)"
  obtain r s' where w: "sqlite_record_decision lib eng now s i d = (r, s')" by fastforce
  show "table_view lib (snd (sqlite_record_decision lib eng now s i d)) j = table_view lib s j"
  proof (rule sqlite_record_decision_cases [OF w])
    fix js
    assume s': "s' = map (decide_row now i (ad_status d) js) s"
    have "find_row s' j = find_row s j"
      using decide_row_other [OF _ \<open>i \<noteq> j\<close>] by (cases "find_row s j") (simp_all add: s' find_row_decide)
    then show ?thesis by (simp add: w table_view_def)
  qed (simp add: w)
next
  fix now s i d
  assume "unique_ids s"
  obtain r s' where w: "sqlite_record_decision lib eng now s i d = (r, s')" by fastforce
  show "unique_ids (snd (sqlite_record_decision lib eng now s i d))"
    by (rule sqlite_record_decision_cases [OF w])
       (use w \<open>unique_ids s\<close> in \<open>simp_all add: unique_ids_def comp_def\<close>)
qed

section \<open>What the queues guarantee\<close>

definition settled_by ::
  "authorization_engine \<Rightarrow> approval_request \<Rightarrow> string \<Rightarrow> (string \<times> string \<times> approval_decision) list \<Rightarrow>
   approval_request \<Rightarrow> approval_status \<Rightarrow> bool" where
  "settled_by eng request i ds request' st =
     (request' = request \<and> (\<exists>now d. (now, i, d) \<in> set ds \<and> ad_status d = st \<and>
        (st = REJECTED \<or> st = APPROVED \<and> may_grant eng request d)))"


datatype queue_op = Submit approval_request | Decide string approval_decision

fun table_step :: "queue_lib \<Rightarrow> authorization_engine \<Rightarrow> string \<times> queue_op \<Rightarrow> queue_row list \<Rightarrow> queue_row list" where
  "table_step lib eng (now, Submit request) rows = snd (sqlite_submit lib now rows request)"
| "table_step lib eng (now, Decide i d) rows = snd (sqlite_record_decision lib eng now rows i d)"

lemma sqlite_submit_rows:
  "snd (sqlite_submit lib now rows request) = rows \<or>
   (\<exists>r. snd (sqlite_submit lib now rows request) = rows @ [r] \<and> qr_status r = PENDING \<and>
      find_row rows (qr_approval_id r) = None)"
  by (auto simp: sqlite_submit_def Let_def split: sum.splits option.splits)

lemma table_step_kept:
  assumes "unique_ids rows"
  shows "unique_ids (table_step lib eng x rows) \<and>
    (\<forall>r \<in> set rows. qr_status r \<noteq> PENDING \<longrightarrow> r \<in> set (table_step lib eng x rows))"
proof -
  obtain now op where x: "x = (now, op)" by fastforce
  show ?thesis
  proof (cases op)
    case (Submit request)
    show ?thesis
      using sqlite_submit_rows [of lib now rows request] assms
      by (fastforce simp: x Submit unique_ids_def find_row_def find_None_iff)
  next
    case (Decide i d)
    obtain r rows' where w: "sqlite_record_decision lib eng now rows i d = (r, rows')" by fastforce
    have "r \<in> set rows'" if "r \<in> set rows" "qr_status r \<noteq> PENDING" for r
      by (rule sqlite_record_decision_cases [OF w])
         (use that in \<open>auto simp: decide_row_def intro!: image_eqI [of _ _ r]\<close>)
    with sqlite.sane_kept [OF assms, of lib eng now i d] w show ?thesis by (simp add: x Decide)
  qed
qed

text \<open>
  (C12) A stored decision is final: whatever is submitted or decided afterwards, by whichever process and with
  whatever reviewers configured, the row of a decided approval stays in the table unchanged, and the ids of the
  table stay unique.
\<close>

theorem stored_decision_is_final:
  assumes "unique_ids rows" "r \<in> set rows" "qr_status r \<noteq> PENDING"
  shows "r \<in> set (fold (\<lambda>(eng, x). table_step lib eng x) steps rows) \<and>
    unique_ids (fold (\<lambda>(eng, x). table_step lib eng x) steps rows)"
  using assms
proof (induction steps arbitrary: rows)
  case (Cons y steps)
  then show ?case using table_step_kept [of rows lib "fst y" "snd y"] by (cases y) auto
qed simp

text \<open>In memory, submitting a decided request again makes it pending, and it can be decided the other way.\<close>

lemma memory_resubmission_reopens:
  "memory_view (submit items request) (ar_approval_id request) = Some (request, PENDING)"
  by (simp add: submit_def store_item_def queue_pending_def memory_view_def update_conv')

section \<open>Samples\<close>

definition open_engine :: authorization_engine where
  "open_engine = \<lparr>reviewer_permissions = [], role_permissions = []\<rparr>"

definition sample_queue_lib :: queue_lib where
  "sample_queue_lib = \<lparr>load_request = (\<lambda>t. Inr sample_approval_request), load_decision = (\<lambda>t. Inr sample_approval_decision)\<rparr>"

definition sample_row :: "approval_status \<Rightarrow> string option \<Rightarrow> queue_row" where
  "sample_row st js = \<lparr>qr_approval_id = ''a1'', qr_status = st, qr_request_json = ''{}'', qr_decision_json = js,
     qr_created_at = ''t0'', qr_updated_at = ''t0''\<rparr>"

lemma sample_authorized: "cr_allowed (authorize open_engine sample_approval_request sample_approval_decision PENDING)"
  by code_simp

lemma sample_decided:
  "memory_view (snd (record_decision open_engine [(''a1'', queue_pending sample_approval_request)] ''a1''
     sample_approval_decision)) ''a1'' = Some (sample_approval_request, APPROVED)"
  by code_simp

lemma sample_row_decided:
  "table_view sample_queue_lib (snd (sqlite_record_decision sample_queue_lib open_engine ''t1'' [sample_row PENDING None] ''a1''
     sample_approval_decision)) ''a1'' = Some (sample_approval_request, APPROVED)"
proof -
  have "loggable (approval_decision_dump sample_approval_decision)" by code_simp
  then obtain js where "redacted_model_json (approval_decision_dump sample_approval_decision) = Inr js"
    using redact_dict_ok by (fastforce simp: redacted_model_json_def)
  with sample_authorized show ?thesis
    by (simp add: sqlite_record_decision_def find_row_def sample_row_def load_row_def sample_queue_lib_def
        load_optional_def update_pending_def table_view_def decide_row_def sample_approval_decision_def Let_def)
qed


theorem stored_decision_is_final_witness:
  "sample_row APPROVED (Some ''{}'') \<in> set (table_step sample_queue_lib open_engine (''t2'', Decide ''a1'' sample_approval_decision)
     [sample_row APPROVED (Some ''{}'')])"
proof -
  have "unique_ids [sample_row APPROVED (Some ''{}'')]" by code_simp
  moreover have "qr_status (sample_row APPROVED (Some ''{}'')) \<noteq> PENDING" by code_simp
  ultimately show ?thesis
    using stored_decision_is_final [of "[sample_row APPROVED (Some ''{}'')]" "sample_row APPROVED (Some ''{}'')"
        sample_queue_lib "[(open_engine, ''t2'', Decide ''a1'' sample_approval_decision)]"]
    by simp
qed

end
