(* ===== verification/Py_Path.thy ===== *)
theory Py_Path
  imports Models
begin

text \<open>
  Python's path and line functions on strings: \<open>pathlib.PurePosixPath\<close>, the drive of a
  \<open>PureWindowsPath\<close>, \<open>fnmatch.fnmatchcase\<close> for patterns without brackets, \<open>str.splitlines\<close> and
  \<open>str.split(sep)\<close>. A parsed path keeps the three roots of POSIX paths (none, one slash, exactly two) and
  its parts, without the empty and the single-dot ones.
\<close>

section \<open>Splitting\<close>

fun split_on :: "char \<Rightarrow> string \<Rightarrow> string list" where
  "split_on c [] = [[]]"
| "split_on c (x # xs) =
     (if x = c then [] # split_on c xs
      else case split_on c xs of [] \<Rightarrow> [[x]] | y # ys \<Rightarrow> (x # y) # ys)"

definition is_line_end :: "char \<Rightarrow> bool" where
  "is_line_end c = (let n = codept c in 10 \<le> n \<and> n \<le> 13 \<or> 28 \<le> n \<and> n \<le> 30 \<or> n = 133)"

text \<open>A carriage return followed by a line feed is one line end; the text after the last end counts if it is not empty.\<close>

fun splitlines_from :: "string \<Rightarrow> string \<Rightarrow> string list" where
  "splitlines_from line [] = (if line = [] then [] else [line])"
| "splitlines_from line [c] = (if is_line_end c then [line] else [line @ [c]])"
| "splitlines_from line (c # d # cs) =
     (if is_line_end c
      then line # (if c = CHR 0x0D \<and> d = CHR 0x0A then splitlines_from [] cs else splitlines_from [] (d # cs))
      else splitlines_from (line @ [c]) (d # cs))"

definition splitlines :: "string \<Rightarrow> string list" where
  "splitlines s = splitlines_from [] s"

section \<open>POSIX paths\<close>

record posix_path =
  path_root :: string
  path_tail :: "string list"

definition posix_path :: "string \<Rightarrow> posix_path" where
  "posix_path s =
     \<lparr>path_root = (if starts_with s ''//'' \<and> \<not> starts_with s ''///'' then ''//''
        else if starts_with s ''/'' then ''/'' else []),
      path_tail = filter (\<lambda>p. p \<noteq> [] \<and> p \<noteq> ''.'') (split_on (CHR ''/'') s)\<rparr>"

definition path_parts :: "posix_path \<Rightarrow> string list" where
  "path_parts p = (if path_root p = [] then path_tail p else path_root p # path_tail p)"

definition is_absolute :: "posix_path \<Rightarrow> bool" where
  "is_absolute p = (path_root p \<noteq> [])"

definition as_posix :: "posix_path \<Rightarrow> string" where
  "as_posix p = (let s = path_root p @ join ''/'' (path_tail p) in if s = [] then ''.'' else s)"

definition path_name :: "posix_path \<Rightarrow> string" where
  "path_name p = (if path_tail p = [] then [] else last (path_tail p))"

definition path_parent :: "posix_path \<Rightarrow> posix_path" where
  "path_parent p = p\<lparr>path_tail := butlast (path_tail p)\<rparr>"

text \<open>\<open>name.rfind('.')\<close>, counted from the end: the length of what follows the last dot.\<close>

definition has_suffix :: "string \<Rightarrow> bool" where
  "has_suffix name = (let after_dot = takeWhile (\<lambda>c. c \<noteq> CHR ''.'') (rev name)
     in after_dot \<noteq> [] \<and> length after_dot + 1 < length name)"

definition name_suffix :: "string \<Rightarrow> string" where
  "name_suffix name = (if has_suffix name
     then CHR ''.'' # rev (takeWhile (\<lambda>c. c \<noteq> CHR ''.'') (rev name)) else [])"

definition name_stem :: "string \<Rightarrow> string" where
  "name_stem name = take (length name - length (name_suffix name)) name"

abbreviation path_suffix :: "string \<Rightarrow> string" where
  "path_suffix s \<equiv> name_suffix (path_name (posix_path s))"

section \<open>Windows drives\<close>

text \<open>\<open>PureWindowsPath(s).drive\<close> is not empty; \<open>is_absolute\<close> requires a drive.\<close>

definition has_windows_drive :: "string \<Rightarrow> bool" where
  "has_windows_drive s =
     (let p = replace_char (CHR ''/'') (CHR 0x5C) s
      in if starts_with p [CHR 0x5C, CHR 0x5C] then True
         else if starts_with p [CHR 0x5C] then False
         else 2 \<le> length p \<and> p ! 1 = CHR '':'')"

section \<open>Globs\<close>

fun fnmatch :: "string \<Rightarrow> string \<Rightarrow> bool" where
  "fnmatch [] s = (s = [])"
| "fnmatch (p # ps) s =
     (if p = CHR ''*'' then list_ex (fnmatch ps) (suffixes s)
      else case s of [] \<Rightarrow> False | c # cs \<Rightarrow> (p = CHR ''?'' \<or> p = c) \<and> fnmatch ps cs)"

text \<open>\<open>PurePath.match(pattern)\<close>: part by part from the right; a pattern with a root must match all of the path.\<close>

definition path_match :: "string \<Rightarrow> string \<Rightarrow> bool" where
  "path_match s pattern =
     (let pats = path_parts (posix_path pattern); parts = path_parts (posix_path s)
      in length pats \<le> length parts \<and>
         (path_root (posix_path pattern) \<noteq> [] \<longrightarrow> length pats = length parts) \<and>
         list_all2 fnmatch (rev pats) (take (length pats) (rev parts)))"

lemma fnmatch_plain: "\<forall>c \<in> set pat. c \<noteq> CHR ''*'' \<and> c \<noteq> CHR ''?'' \<Longrightarrow> fnmatch pat s \<longleftrightarrow> s = pat"
  by (induction pat arbitrary: s) (auto split: list.splits)

lemma fnmatch_literal_prefix:
  "\<forall>c \<in> set pre. c \<noteq> CHR ''*'' \<and> c \<noteq> CHR ''?'' \<Longrightarrow>
     fnmatch (pre @ pat) s \<longleftrightarrow> (\<exists>r. s = pre @ r \<and> fnmatch pat r)"
  by (induction pre arbitrary: s) (auto split: list.splits)

lemma fnmatch_star: "fnmatch (CHR ''*'' # pat) s \<longleftrightarrow> (\<exists>a r. s = a @ r \<and> fnmatch pat r)"
proof -
  have "fnmatch (CHR ''*'' # pat) s \<longleftrightarrow> (\<exists>r. suffix r s \<and> fnmatch pat r)"
    by (auto simp: list_ex_iff)
  also have "\<dots> \<longleftrightarrow> (\<exists>r. (\<exists>a. s = a @ r) \<and> fnmatch pat r)" by (simp only: suffix_def)
  finally show ?thesis by (simp only: ex_simps(2) ex_comm [of "\<lambda>r a. s = a @ r \<and> fnmatch pat r"] ex_simps(1) [symmetric])
qed

section \<open>Normalized relative paths\<close>

text \<open>
  The shape that every normalization of the sources gives a repository-relative path: parts that are not
  empty, not dots and without a slash, joined by slashes.
\<close>

definition clean_part :: "string \<Rightarrow> bool" where
  "clean_part p = (p \<noteq> [] \<and> p \<noteq> ''.'' \<and> p \<noteq> ''..'' \<and> CHR ''/'' \<notin> set p)"

definition clean_relative :: "string \<Rightarrow> bool" where
  "clean_relative s = (\<exists>ps. ps \<noteq> [] \<and> list_all clean_part ps \<and> s = join ''/'' ps)"

lemma split_on_not_Nil [simp]: "split_on c s \<noteq> []"
  by (induction s) (auto split: list.splits)

lemma split_on_free: "p \<in> set (split_on c s) \<Longrightarrow> c \<notin> set p"
proof (induction s arbitrary: p)
  case (Cons x s)
  then show ?case by (cases "split_on c s") (auto split: if_splits)
qed simp

lemma split_on_plain: "c \<notin> set s \<Longrightarrow> split_on c s = [s]"
  by (induction s) auto

lemma split_on_append: "c \<notin> set p \<Longrightarrow> split_on c (p @ c # s) = p # split_on c s"
  by (induction p) auto

lemma split_on_join: "ps \<noteq> [] \<Longrightarrow> \<forall>p \<in> set ps. c \<notin> set p \<Longrightarrow> split_on c (join [c] ps) = ps"
proof (induction ps rule: induct_list012)
  case (3 p q ps)
  then show ?case using split_on_append [of c p] by simp
qed (simp_all add: split_on_plain)

lemma clean_tail: "list_all clean_part ps \<Longrightarrow> ps \<noteq> [] \<Longrightarrow> path_tail (posix_path (join ''/'' ps)) = ps"
  by (auto simp: posix_path_def split_on_join list_all_iff clean_part_def filter_id_conv)

lemma join_Cons: "join sep (p # ps) = (if ps = [] then p else p @ sep @ join sep ps)"
  by (cases ps) simp_all

lemma clean_root: "list_all clean_part ps \<Longrightarrow> ps \<noteq> [] \<Longrightarrow> path_root (posix_path (join ''/'' ps)) = []"
  by (cases ps)
     (auto simp: posix_path_def starts_with_def clean_part_def prefix_def Cons_eq_append_conv neq_Nil_conv join_Cons)

lemma clean_parts: "list_all clean_part ps \<Longrightarrow> ps \<noteq> [] \<Longrightarrow> path_parts (posix_path (join ''/'' ps)) = ps"
  by (simp add: path_parts_def clean_tail clean_root)

end
