(* ===== verification/Action_Intent.thy ===== *)
theory Action_Intent
  imports Py_Path Py_Regex Complex_Main "HOL-Library.Product_Lexorder" "HOL-Library.List_Lexorder" "HOL-Library.Char_ord"
begin

text \<open>
  \<open>src/rygnal/action_intent.py\<close>: which intents a command, the changed paths and the added lines of a
  patch show. A collector reads one input and adds evidence to buckets, one bucket per intent; an intent is
  a bucket with the severity and recommendation of its profile and a confidence combined from its weights.

  Weights and confidences are numbers; the rounding of floating-point subtraction and multiplication
  (\<open>float_round\<close>) and \<open>round(x, 4)\<close> (\<open>round4\<close>) are arguments, since they follow the machine's format.
\<close>

section \<open>Data\<close>

datatype intent_code =
    READ_ONLY_INSPECTION
  | TEST_OR_BUILD
  | SOURCE_CODE_CHANGE
  | DEPENDENCY_CHANGE
  | SECRET_OR_CREDENTIAL_ACCESS
  | NETWORK_ACCESS
  | EXTERNAL_DOWNLOAD
  | FILESYSTEM_DESTRUCTIVE
  | DEPLOYMENT_OR_CI_CHANGE
  | CONTAINER_OR_INFRA_CHANGE
  | AUTH_OR_PERMISSION_CHANGE
  | PRIVILEGE_ESCALATION
  | AUDIT_OR_APPROVAL_CHANGE
  | APPROVAL_BYPASS_ATTEMPT
  | UNKNOWN_OR_AMBIGUOUS

fun intent_code_value :: "intent_code \<Rightarrow> string" where
  "intent_code_value READ_ONLY_INSPECTION = ''read_only_inspection''"
| "intent_code_value TEST_OR_BUILD = ''test_or_build''"
| "intent_code_value SOURCE_CODE_CHANGE = ''source_code_change''"
| "intent_code_value DEPENDENCY_CHANGE = ''dependency_change''"
| "intent_code_value SECRET_OR_CREDENTIAL_ACCESS = ''secret_or_credential_access''"
| "intent_code_value NETWORK_ACCESS = ''network_access''"
| "intent_code_value EXTERNAL_DOWNLOAD = ''external_download''"
| "intent_code_value FILESYSTEM_DESTRUCTIVE = ''filesystem_destructive''"
| "intent_code_value DEPLOYMENT_OR_CI_CHANGE = ''deployment_or_ci_change''"
| "intent_code_value CONTAINER_OR_INFRA_CHANGE = ''container_or_infra_change''"
| "intent_code_value AUTH_OR_PERMISSION_CHANGE = ''auth_or_permission_change''"
| "intent_code_value PRIVILEGE_ESCALATION = ''privilege_escalation''"
| "intent_code_value AUDIT_OR_APPROVAL_CHANGE = ''audit_or_approval_change''"
| "intent_code_value APPROVAL_BYPASS_ATTEMPT = ''approval_bypass_attempt''"
| "intent_code_value UNKNOWN_OR_AMBIGUOUS = ''unknown_or_ambiguous''"

datatype intent_severity = IntentLOW | IntentMEDIUM | IntentHIGH | IntentCRITICAL

fun intent_severity_value :: "intent_severity \<Rightarrow> string" where
  "intent_severity_value IntentLOW = ''low''"
| "intent_severity_value IntentMEDIUM = ''medium''"
| "intent_severity_value IntentHIGH = ''high''"
| "intent_severity_value IntentCRITICAL = ''critical''"

datatype intent_recommendation = RecALLOW | RecAUDIT | RecREQUIRE_APPROVAL | RecBLOCK

fun intent_recommendation_value :: "intent_recommendation \<Rightarrow> string" where
  "intent_recommendation_value RecALLOW = ''allow''"
| "intent_recommendation_value RecAUDIT = ''audit''"
| "intent_recommendation_value RecREQUIRE_APPROVAL = ''require_approval''"
| "intent_recommendation_value RecBLOCK = ''block''"

datatype evidence_source = SourceCOMMAND | SourcePATH | SourceDIFF | SourceCONTEXT

fun evidence_source_value :: "evidence_source \<Rightarrow> string" where
  "evidence_source_value SourceCOMMAND = ''command''"
| "evidence_source_value SourcePATH = ''path''"
| "evidence_source_value SourceDIFF = ''diff''"
| "evidence_source_value SourceCONTEXT = ''context''"

fun severity_order :: "intent_severity \<Rightarrow> nat" where
  "severity_order IntentLOW = 0"
| "severity_order IntentMEDIUM = 1"
| "severity_order IntentHIGH = 2"
| "severity_order IntentCRITICAL = 3"

fun recommendation_order :: "intent_recommendation \<Rightarrow> nat" where
  "recommendation_order RecALLOW = 0"
| "recommendation_order RecAUDIT = 1"
| "recommendation_order RecREQUIRE_APPROVAL = 2"
| "recommendation_order RecBLOCK = 3"

record intent_evidence =
  ev_source :: evidence_source
  ev_signal :: string
  ev_subject :: string
  ev_detail :: string
  ev_weight :: rat

record action_intent =
  ai_code :: intent_code
  ai_severity :: intent_severity
  ai_confidence :: rat
  ai_recommendation :: intent_recommendation
  ai_reason :: string
  ai_evidence :: "intent_evidence list"

record intent_report =
  ir_intents :: "action_intent list"
  ir_unknown_signals :: "string list"

record intent_profile =
  ip_severity :: intent_severity
  ip_recommendation :: intent_recommendation
  ip_reason :: string

type_synonym buckets = "(intent_code \<times> intent_evidence list) list"

record float_ops =
  float_round :: "rat \<Rightarrow> rat"
  round4 :: "rat \<Rightarrow> rat"
  float_repr :: "rat \<Rightarrow> string"

section \<open>Profiles and tables\<close>

fun INTENT_PROFILES :: "intent_code \<Rightarrow> intent_profile" where
  "INTENT_PROFILES READ_ONLY_INSPECTION =
     \<lparr>ip_severity = IntentLOW, ip_recommendation = RecALLOW,
      ip_reason = ''Action appears to inspect repository or runtime context without mutation.''\<rparr>"
| "INTENT_PROFILES TEST_OR_BUILD =
     \<lparr>ip_severity = IntentLOW, ip_recommendation = RecALLOW,
      ip_reason = ''Action appears to run tests, linting, formatting, or build validation.''\<rparr>"
| "INTENT_PROFILES SOURCE_CODE_CHANGE =
     \<lparr>ip_severity = IntentMEDIUM, ip_recommendation = RecAUDIT,
      ip_reason = ''Action changes source code or application behavior.''\<rparr>"
| "INTENT_PROFILES DEPENDENCY_CHANGE =
     \<lparr>ip_severity = IntentHIGH, ip_recommendation = RecREQUIRE_APPROVAL,
      ip_reason = ''Action changes dependency manifests, lockfiles, or package manager state.''\<rparr>"
| "INTENT_PROFILES SECRET_OR_CREDENTIAL_ACCESS =
     \<lparr>ip_severity = IntentCRITICAL, ip_recommendation = RecBLOCK,
      ip_reason = ''Action touches credentials, secrets, environment files, or private key material.''\<rparr>"
| "INTENT_PROFILES NETWORK_ACCESS =
     \<lparr>ip_severity = IntentHIGH, ip_recommendation = RecREQUIRE_APPROVAL,
      ip_reason = ''Action opens network access, remote transfer, or external communication.''\<rparr>"
| "INTENT_PROFILES EXTERNAL_DOWNLOAD =
     \<lparr>ip_severity = IntentHIGH, ip_recommendation = RecREQUIRE_APPROVAL,
      ip_reason = ''Action downloads or installs content from an external source.''\<rparr>"
| "INTENT_PROFILES FILESYSTEM_DESTRUCTIVE =
     \<lparr>ip_severity = IntentCRITICAL, ip_recommendation = RecBLOCK,
      ip_reason = ''Action can delete, overwrite, or irreversibly destroy filesystem state.''\<rparr>"
| "INTENT_PROFILES DEPLOYMENT_OR_CI_CHANGE =
     \<lparr>ip_severity = IntentHIGH, ip_recommendation = RecREQUIRE_APPROVAL,
      ip_reason = ''Action changes CI/CD, release, deployment, or automation behavior.''\<rparr>"
| "INTENT_PROFILES CONTAINER_OR_INFRA_CHANGE =
     \<lparr>ip_severity = IntentHIGH, ip_recommendation = RecREQUIRE_APPROVAL,
      ip_reason = ''Action changes container, infrastructure, runtime, or environment configuration.''\<rparr>"
| "INTENT_PROFILES AUTH_OR_PERMISSION_CHANGE =
     \<lparr>ip_severity = IntentHIGH, ip_recommendation = RecREQUIRE_APPROVAL,
      ip_reason = ''Action changes authentication, authorization, identity, or permission behavior.''\<rparr>"
| "INTENT_PROFILES PRIVILEGE_ESCALATION =
     \<lparr>ip_severity = IntentCRITICAL, ip_recommendation = RecBLOCK,
      ip_reason = ''Action attempts to elevate privileges or weaken least-privilege boundaries.''\<rparr>"
| "INTENT_PROFILES AUDIT_OR_APPROVAL_CHANGE =
     \<lparr>ip_severity = IntentHIGH, ip_recommendation = RecREQUIRE_APPROVAL,
      ip_reason = ''Action changes audit, approval, policy, or governance controls.''\<rparr>"
| "INTENT_PROFILES APPROVAL_BYPASS_ATTEMPT =
     \<lparr>ip_severity = IntentCRITICAL, ip_recommendation = RecBLOCK,
      ip_reason = ''Action appears to weaken, bypass, or disable approval or audit controls.''\<rparr>"
| "INTENT_PROFILES UNKNOWN_OR_AMBIGUOUS =
     \<lparr>ip_severity = IntentMEDIUM, ip_recommendation = RecREQUIRE_APPROVAL,
      ip_reason = ''Action contains ambiguous or unsupported signals that require review.''\<rparr>"

definition READ_ONLY_COMMANDS :: "string list" where
  "READ_ONLY_COMMANDS =
     [''awk'', ''cat'', ''cut'', ''find'', ''git'', ''grep'', ''head'', ''jq'', ''less'', ''ls'', ''rg'',
      ''sed'', ''tail'', ''tree'', ''wc'']"

definition TEST_BUILD_COMMANDS :: "string list" where
  "TEST_BUILD_COMMANDS =
     [''cargo'', ''go'', ''gradle'', ''make'', ''mvn'', ''npm'', ''pnpm'', ''poetry'', ''pytest'', ''python'',
      ''ruff'', ''tox'', ''uv'', ''yarn'']"

definition NETWORK_COMMANDS :: "string list" where
  "NETWORK_COMMANDS =
     [''curl'', ''ftp'', ''gh'', ''git'', ''nc'', ''netcat'', ''nmap'', ''scp'', ''sftp'', ''ssh'',
      ''telnet'', ''wget'']"

definition DOWNLOAD_COMMANDS :: "string list" where
  "DOWNLOAD_COMMANDS =
     [''curl'', ''pip'', ''poetry'', ''pnpm'', ''npm'', ''uv'', ''wget'', ''yarn'']"

definition DESTRUCTIVE_COMMANDS :: "string list" where
  "DESTRUCTIVE_COMMANDS =
     [''dd'', ''docker'', ''git'', ''kubectl'', ''rm'', ''rmdir'', ''shred'', ''terraform'']"

definition SECRET_COMMANDS :: "string list" where
  "SECRET_COMMANDS =
     [''env'', ''gpg'', ''openssl'', ''pass'', ''printenv'', ''security'', ''ssh'']"

definition PRIVILEGE_COMMANDS :: "string list" where
  "PRIVILEGE_COMMANDS =
     [''chmod'', ''chown'', ''doas'', ''runas'', ''setcap'', ''su'', ''sudo'']"

definition DEPENDENCY_COMMANDS :: "string list" where
  "DEPENDENCY_COMMANDS =
     [''bundle'', ''cargo'', ''composer'', ''gem'', ''go'', ''gradle'', ''mvn'', ''npm'', ''pip'', ''pnpm'',
      ''poetry'', ''uv'', ''yarn'']"

definition TEST_BUILD_SUBCOMMANDS :: "string list" where
  "TEST_BUILD_SUBCOMMANDS =
     [''build'', ''check'', ''compile'', ''fmt'', ''format'', ''lint'', ''mypy'', ''pytest'', ''ruff'',
      ''test'', ''typecheck'']"

definition DEPENDENCY_SUBCOMMANDS :: "string list" where
  "DEPENDENCY_SUBCOMMANDS =
     [''add'', ''install'', ''lock'', ''remove'', ''sync'', ''update'', ''upgrade'']"

definition NETWORK_SUBCOMMANDS :: "string list" where
  "NETWORK_SUBCOMMANDS =
     [''clone'', ''fetch'', ''pull'', ''push'', ''remote'', ''submodule'']"

definition DESTRUCTIVE_SUBCOMMANDS :: "string list" where
  "DESTRUCTIVE_SUBCOMMANDS =
     [''clean'', ''delete'', ''destroy'', ''drop'', ''prune'', ''remove'', ''rm'']"

definition DEPENDENCY_FILE_NAMES :: "string list" where
  "DEPENDENCY_FILE_NAMES =
     [''build.gradle'', ''cargo.lock'', ''cargo.toml'', ''composer.json'', ''composer.lock'', ''gemfile'',
      ''gemfile.lock'', ''go.mod'', ''go.sum'', ''gradle.lockfile'', ''package-lock.json'', ''package.json'',
      ''pipfile'', ''pipfile.lock'', ''pnpm-lock.yaml'', ''poetry.lock'', ''pom.xml'', ''pubspec.lock'',
      ''pubspec.yaml'', ''pyproject.toml'', ''requirements.txt'', ''uv.lock'', ''yarn.lock'']"

definition DEPENDENCY_NAME_PATTERNS :: "string list" where
  "DEPENDENCY_NAME_PATTERNS =
     [''requirements-*.txt'', ''requirements_*.txt'', ''requirements*.in'', ''requirements*.txt'']"

definition CI_PATH_PATTERNS :: "string list" where
  "CI_PATH_PATTERNS =
     [''.circleci/*'', ''.github/actions/*'', ''.github/workflows/*'', ''.gitlab-ci.yml'',
      ''azure-pipelines.yml'', ''bitbucket-pipelines.yml'', ''buildkite.yml'', ''jenkinsfile'']"

definition INFRA_PATH_PATTERNS :: "string list" where
  "INFRA_PATH_PATTERNS =
     [''.dockerignore'', ''docker-compose*.yaml'', ''docker-compose*.yml'', ''dockerfile'', ''helm/*'',
      ''k8s/*'', ''kubernetes/*'', ''terraform/*'', ''*.tf'']"

definition SECRET_PATH_PATTERNS :: "string list" where
  "SECRET_PATH_PATTERNS =
     [''.aws/*'', ''.aws/credentials'', ''.azure/*'', ''.config/gcloud/*'', ''.docker/config.json'', ''.env'',
      ''.env.*'', ''.gnupg/*'', ''.netrc'', ''.npmrc'', ''.pypirc'', ''.ssh/*'', ''.ssh/config'',
      ''.ssh/id_*'', ''*/.aws/*'', ''*/.aws/credentials'', ''*/.azure/*'', ''*/.config/gcloud/*'',
      ''*/.docker/config.json'', ''*/.env'', ''*/.env.*'', ''*/.gnupg/*'', ''*/.netrc'', ''*/.npmrc'',
      ''*/.pypirc'', ''*/.ssh/*'']"

definition AUDIT_APPROVAL_PATH_SEGMENTS :: "string list" where
  "AUDIT_APPROVAL_PATH_SEGMENTS =
     [''approval'', ''approvals'', ''audit'', ''auditing'', ''governance'', ''policy'', ''policies'']"

definition AUTH_SECURITY_PATH_SEGMENTS :: "string list" where
  "AUTH_SECURITY_PATH_SEGMENTS =
     [''auth'', ''authentication'', ''authorization'', ''identity'', ''iam'', ''oauth'', ''permission'',
      ''permissions'', ''rbac'', ''security'', ''session'', ''token'']"

definition SOURCE_EXTENSIONS :: "string list" where
  "SOURCE_EXTENSIONS =
     [''.c'', ''.cc'', ''.cpp'', ''.cs'', ''.css'', ''.go'', ''.html'', ''.java'', ''.js'', ''.jsx'', ''.kt'',
      ''.mjs'', ''.php'', ''.py'', ''.rb'', ''.rs'', ''.scala'', ''.swift'', ''.ts'', ''.tsx'']"

definition DOC_EXTENSIONS :: "string list" where
  "DOC_EXTENSIONS =
     [''.adoc'', ''.md'', ''.rst'', ''.txt'']"

definition DOC_FILE_NAMES :: "string list" where
  "DOC_FILE_NAMES =
     [''changelog'', ''code_of_conduct'', ''contributing'', ''license'', ''readme'', ''security'']"

section \<open>Patterns\<close>

definition not_newline :: regex where
  "not_newline = Chr (\<lambda>c. c \<noteq> CHR 0x0A)"

definition sep_opt :: regex where
  "sep_opt = Opt (one_of ''_-'')"

definition words_joined :: "string list \<Rightarrow> regex" where
  "words_joined ws = Seqs (foldr (\<lambda>w rs. LitI w # (if rs = [] then [] else Plus space # rs)) ws [])"

definition lower_letter_or_digit :: "char \<Rightarrow> bool" where
  "lower_letter_or_digit c = (let n = codept c in 97 \<le> n \<and> n \<le> 122 \<or> 48 \<le> n \<and> n \<le> 57)"

definition bounded :: "regex list \<Rightarrow> regex" where
  "bounded rs = Seqs [WordB, Alts rs, WordB]"

definition SECRET_LITERAL_RE :: regex where
  "SECRET_LITERAL_RE = bounded
     [Seqs [LitI ''api'', sep_opt, LitI ''key''], Seqs [LitI ''access'', sep_opt, LitI ''token''],
      Seqs [LitI ''auth'', sep_opt, LitI ''token''], Seqs [LitI ''client'', sep_opt, LitI ''secret''],
      LitI ''password'', Seqs [LitI ''private'', sep_opt, LitI ''key''], LitI ''secret'',
      Seqs [LitI ''sk-'', Plus (Chr (\<lambda>c. lower_letter_or_digit (lower_char c) \<or> c \<in> set ''_-''))]]"

definition NETWORK_LITERAL_RE :: regex where
  "NETWORK_LITERAL_RE = Seq WordB (Alts
     [Seqs [LitI ''http'', Opt (LitI ''s''), LitI ''://''], LitI ''ssh://'', LitI ''git@'', LitI ''scp://'',
      LitI ''ftp://''])"

definition APPROVAL_BYPASS_RE :: regex where
  "APPROVAL_BYPASS_RE = bounded (map LitI
     [''bypass approval'', ''skip approval'', ''disable approval'', ''auto approve'', ''self approval'',
      ''approval bypass'', ''disable audit'', ''skip audit'', ''audit bypass'', ''fail open''])"

definition DESTRUCTIVE_LITERAL_RE :: regex where
  "DESTRUCTIVE_LITERAL_RE = bounded
     [Seqs [LitI ''rm'', Plus space, LitI ''-'', Star not_newline, LitI ''r'', Star not_newline, LitI ''f''],
      words_joined [''terraform'', ''destroy''], words_joined [''kubectl'', ''delete''],
      words_joined [''drop'', ''database''], words_joined [''truncate'', ''table'']]"

definition octal :: regex where
  "octal = one_of ''01234567''"

definition PRIVILEGE_ESCALATION_RE :: regex where
  "PRIVILEGE_ESCALATION_RE = bounded
     [LitI ''sudo'', LitI ''doas'', LitI ''runas'', words_joined [''su'', ''-''],
      Seqs [LitI ''chmod'', Plus space,
        Alts [LitI ''+s'', Seqs [Star octal, one_of ''467'', octal, octal]]],
      words_joined [''chown'', ''root''], LitI ''setcap'', LitI ''assume-role'', LitI ''iam:passrole'']"

definition ENCODED_EXECUTION_RE :: regex where
  "ENCODED_EXECUTION_RE = Seqs
     [bounded [Seqs [LitI ''base64'', Plus space, Alts [LitI ''-d'', LitI ''--decode'']],
        words_joined [''xxd'', ''-r''], words_joined [''openssl'', ''enc'']],
      Star not_newline,
      Alts [Seqs [Lit ''|'', Star space,
               Alts (map LitI [''sh'', ''bash'', ''zsh'', ''python'', ''perl'', ''ruby'', ''node'']), WordB],
            Seq (LitI ''eval'') WordB, Seq (LitI ''exec'') WordB]]"

definition DYNAMIC_EXECUTION_RE :: regex where
  "DYNAMIC_EXECUTION_RE = bounded
     (map LitI [''eval'', ''exec'', ''os.system'', ''subprocess.'', ''child_process.'', ''runtime.getruntime''])"

section \<open>Paths and tokens\<close>

fun drop_dot_slash :: "string \<Rightarrow> string" where
  "drop_dot_slash (x # y # s) = (if x = CHR ''.'' \<and> y = CHR ''/'' then drop_dot_slash s else x # y # s)"
| "drop_dot_slash s = s"

definition normalize_path :: "string \<Rightarrow> string" where
  "normalize_path raw_path =
     dropWhile (\<lambda>c. c = CHR ''/'') (drop_dot_slash (replace_char (CHR 0x5C) (CHR ''/'') (strip raw_path)))"

definition path_base :: "string \<Rightarrow> string" where
  "path_base path = lower (path_name (posix_path path))"

definition extension :: "string \<Rightarrow> string" where
  "extension path = lower (path_suffix path)"

text \<open>The non-empty pieces of \<open>re.split(r"[^a-z0-9]+", s)\<close>: the maximal runs of letters and digits.\<close>

fun alnum_runs :: "string \<Rightarrow> string \<Rightarrow> string list" where
  "alnum_runs w [] = (if w = [] then [] else [w])"
| "alnum_runs w (c # cs) =
     (if lower_letter_or_digit c then alnum_runs (w @ [c]) cs
      else (if w = [] then [] else [w]) @ alnum_runs [] cs)"

definition segments :: "string \<Rightarrow> string list" where
  "segments path = concat (map (\<lambda>part. lower part # alnum_runs [] (lower part))
     (filter (\<lambda>part. part \<noteq> [] \<and> part \<noteq> ''.'') (path_parts (posix_path path))))"

definition intent_matches :: "string \<Rightarrow> string \<Rightarrow> bool" where
  "intent_matches path pattern = (let pattern = lower pattern in path = pattern \<or> path_match path pattern)"

definition intent_matches_any :: "string \<Rightarrow> string list \<Rightarrow> bool" where
  "intent_matches_any path patterns = list_ex (intent_matches path) patterns"

definition has_any_token :: "string list \<Rightarrow> string list \<Rightarrow> bool" where
  "has_any_token tokens expected = list_ex (\<lambda>token. token \<in> set expected) tokens"

definition intent_has_any_segment :: "string \<Rightarrow> string list \<Rightarrow> bool" where
  "intent_has_any_segment path expected = has_any_token (segments path) expected"

definition is_dependency_path :: "string \<Rightarrow> bool" where
  "is_dependency_path path =
     (let name = path_base path
      in name \<in> set DEPENDENCY_FILE_NAMES \<or> list_ex (path_match name) DEPENDENCY_NAME_PATTERNS)"

definition is_secret_like_path :: "string \<Rightarrow> bool" where
  "is_secret_like_path path = intent_matches_any path SECRET_PATH_PATTERNS"

definition documentation_dirs :: "string list" where
  "documentation_dirs = [''doc'', ''docs'', ''documentation'', ''example'', ''examples'', ''sample'', ''samples'']"

definition kept_parts :: "string \<Rightarrow> string list" where
  "kept_parts path = filter (\<lambda>part. part \<noteq> [] \<and> part \<noteq> ''.'') (path_parts (posix_path path))"

definition is_audit_approval_control_path :: "string \<Rightarrow> string list \<Rightarrow> bool" where
  "is_audit_approval_control_path path segs =
     (if \<not> has_any_token segs
          [''approval'', ''approvals'', ''audit'', ''auditing'', ''governance'', ''policy'', ''policies'']
      then False
      else let normalized = normalize_path path in
        case kept_parts normalized of
          [] \<Rightarrow> False
        | first # _ \<Rightarrow>
            if first \<in> set documentation_dirs then False
            else if first \<in> {''.github'', ''config'', ''configs'', ''infra'', ''k8s'', ''policy'', ''policies'',
                ''scripts'', ''src'', ''terraform''} then True
            else lower (path_suffix normalized) \<in> {''.py'', ''.js'', ''.ts'', ''.tsx'', ''.jsx'', ''.go'', ''.rs'',
                ''.java'', ''.yaml'', ''.yml'', ''.toml''})"

definition is_non_source_document_or_output_path :: "string \<Rightarrow> bool" where
  "is_non_source_document_or_output_path path =
     (let normalized = normalize_path path in
      case kept_parts normalized of
        [] \<Rightarrow> False
      | first # _ \<Rightarrow>
          first \<in> set documentation_dirs \<or> lower (path_suffix normalized) \<in> {''.md'', ''.rst'', ''.txt''})"

definition is_source_path :: "string \<Rightarrow> bool" where
  "is_source_path path =
     (if is_non_source_document_or_output_path path then False
      else let name = lower (name_stem (path_name (posix_path path)))
           in extension path \<in> set SOURCE_EXTENSIONS \<or>
              extension path \<in> set DOC_EXTENSIONS \<and> name \<notin> set DOC_FILE_NAMES)"

section \<open>Commands\<close>

definition command_has_mutation_tokens :: "string list \<Rightarrow> bool" where
  "command_has_mutation_tokens tokens = has_any_token tokens
     [''>'', ''>>'', ''--delete'', ''--force'', ''-d'', ''-f'', ''-i'', ''-rf'', ''-fr'', ''apply'', ''clean'',
      ''delete'', ''destroy'', ''fetch'', ''install'', ''merge'', ''move'', ''pull'', ''push'', ''rebase'',
      ''reset'', ''restore'', ''stash'', ''switch'', ''mv'', ''patch'', ''remove'', ''rm'', ''write'']"

definition is_test_or_build_command :: "string \<Rightarrow> string list \<Rightarrow> bool" where
  "is_test_or_build_command executable tokens =
     (if executable \<in> {''pytest'', ''ruff'', ''tox''} then True
      else if executable = ''python'' \<and> 3 \<le> length tokens \<and> tokens ! 1 = ''-m''
        then tokens ! 2 \<in> {''pytest'', ''ruff'', ''mypy'', ''compileall''}
      else executable \<in> set TEST_BUILD_COMMANDS \<and> has_any_token (tl tokens) TEST_BUILD_SUBCOMMANDS)"

definition is_dependency_command :: "string \<Rightarrow> string list \<Rightarrow> bool" where
  "is_dependency_command executable tokens =
     (executable \<in> set DEPENDENCY_COMMANDS \<and> has_any_token (tl tokens) DEPENDENCY_SUBCOMMANDS)"

definition is_network_command :: "string \<Rightarrow> string list \<Rightarrow> bool" where
  "is_network_command executable tokens =
     (if executable \<in> set NETWORK_COMMANDS \<and> executable \<noteq> ''git'' then True
      else if executable = ''git'' then has_any_token (tl tokens) NETWORK_SUBCOMMANDS
      else False)"

definition is_destructive_command :: "string \<Rightarrow> string list \<Rightarrow> string \<Rightarrow> bool" where
  "is_destructive_command executable tokens command_text =
     (if executable = ''rm''
      then has_any_token (tl tokens) [''-r'', ''-f'', ''-rf'', ''-fr'', ''--recursive'', ''--force'']
      else if executable \<in> set DESTRUCTIVE_COMMANDS \<and> has_any_token (tl tokens) DESTRUCTIVE_SUBCOMMANDS then True
      else re_search DESTRUCTIVE_LITERAL_RE command_text)"

section \<open>Collecting evidence\<close>

definition add_evidence :: "buckets \<Rightarrow> intent_code \<Rightarrow> intent_evidence \<Rightarrow> buckets" where
  "add_evidence b code ev = AList.update code ((case map_of b code of None \<Rightarrow> [] | Some es \<Rightarrow> es) @ [ev]) b"

text \<open>One \<open>if\<close> of a collector: the evidence it adds when its condition holds.\<close>

definition note_when :: "bool \<Rightarrow> intent_code \<Rightarrow> evidence_source \<Rightarrow> string \<Rightarrow> string \<Rightarrow> string \<Rightarrow> rat \<Rightarrow>
   buckets \<Rightarrow> buckets" where
  "note_when cond code src signal subject detail weight b =
     (if cond then add_evidence b code \<lparr>ev_source = src, ev_signal = signal, ev_subject = subject,
        ev_detail = detail, ev_weight = weight\<rparr> else b)"

definition command_evidence :: "string \<Rightarrow> string list \<Rightarrow> string \<Rightarrow> buckets \<Rightarrow> buckets" where
  "command_evidence executable lowered command_text b =
     (let b = note_when (executable \<in> set READ_ONLY_COMMANDS \<and> \<not> command_has_mutation_tokens lowered)
            READ_ONLY_INSPECTION SourceCOMMAND ''read-only-command'' executable
            ''Command family is commonly used for inspection.'' 0.65 b;
          b = note_when (is_test_or_build_command executable lowered)
            TEST_OR_BUILD SourceCOMMAND ''test-build-command'' executable
            ''Command appears to run test, lint, format, or build validation.'' 0.8 b;
          b = note_when (is_dependency_command executable lowered)
            DEPENDENCY_CHANGE SourceCOMMAND ''dependency-command'' executable
            ''Package manager command can change dependency state.'' 0.85 b;
          b = note_when (is_network_command executable lowered)
            NETWORK_ACCESS SourceCOMMAND ''network-command'' executable
            ''Command family or subcommand can access remote systems.'' 0.8 b;
          b = note_when (executable \<in> set DOWNLOAD_COMMANDS \<and>
              (executable \<in> {''curl'', ''wget''} \<or> has_any_token lowered DEPENDENCY_SUBCOMMANDS))
            EXTERNAL_DOWNLOAD SourceCOMMAND ''external-download-command'' executable
            ''Command can download or install external content.'' 0.8 b;
          b = note_when (is_destructive_command executable lowered command_text)
            FILESYSTEM_DESTRUCTIVE SourceCOMMAND ''destructive-command'' executable
            ''Command can delete, destroy, prune, or irreversibly modify state.'' 0.95 b;
          b = note_when (executable \<in> set SECRET_COMMANDS \<or> list_ex is_secret_like_path lowered)
            SECRET_OR_CREDENTIAL_ACCESS SourceCOMMAND ''secret-access-command'' executable
            ''Command or argument references credential, secret, or environment material.'' 0.9 b;
          b = note_when (re_search PRIVILEGE_ESCALATION_RE command_text \<or> executable \<in> set PRIVILEGE_COMMANDS)
            PRIVILEGE_ESCALATION SourceCOMMAND ''privilege-escalation-command'' executable
            ''Command can elevate privileges or modify privileged ownership/capabilities.'' 0.95 b;
          b = note_when (re_search APPROVAL_BYPASS_RE command_text)
            APPROVAL_BYPASS_ATTEMPT SourceCOMMAND ''approval-bypass-phrase'' executable
            ''Command text references bypassing approval or audit controls.'' 0.95 b
      in note_when (re_search ENCODED_EXECUTION_RE command_text)
            APPROVAL_BYPASS_ATTEMPT SourceCOMMAND ''encoded-execution-wrapper'' executable
            ''Command decodes or transforms content before dynamic execution.'' 0.95 b)"

definition command_unknown_signals :: "string \<Rightarrow> string list \<Rightarrow> string \<Rightarrow> string list" where
  "command_unknown_signals executable lowered command_text =
     (if re_search ENCODED_EXECUTION_RE command_text then [executable @ '':encoded-dynamic-execution''] else []) @
     (if re_search DYNAMIC_EXECUTION_RE command_text then [executable @ '':dynamic-execution''] else []) @
     (if executable \<in> {''bash'', ''sh'', ''zsh'', ''python'', ''python3'', ''node'', ''ruby'', ''perl''} \<and>
         has_any_token lowered [''-c'', ''--eval'', ''-e'']
      then [executable @ '':inline-execution''] else [])"

definition collect_command_evidence :: "string list \<Rightarrow> buckets \<times> string list \<Rightarrow> buckets \<times> string list" where
  "collect_command_evidence command st =
     (case filter (\<lambda>token. token \<noteq> []) (map strip command) of
        [] \<Rightarrow> st
      | normalized \<Rightarrow>
          let executable = path_base (hd normalized); lowered = map lower normalized;
              command_text = join '' '' normalized
          in (command_evidence executable lowered command_text (fst st),
              snd st @ command_unknown_signals executable lowered command_text))"

definition collect_path_evidence :: "string \<Rightarrow> buckets \<Rightarrow> buckets" where
  "collect_path_evidence raw_path b =
     (let path = normalize_path raw_path; lower_path = lower path;
          b = note_when (is_secret_like_path lower_path)
            SECRET_OR_CREDENTIAL_ACCESS SourcePATH ''secret-sensitive-path'' path
            ''Path indicates credential, key, token, or environment material.'' 0.95 b;
          b = note_when (is_dependency_path lower_path)
            DEPENDENCY_CHANGE SourcePATH ''dependency-path'' path
            ''Path is a dependency manifest, lockfile, or package manager file.'' 0.9 b;
          b = note_when (intent_matches_any lower_path CI_PATH_PATTERNS)
            DEPLOYMENT_OR_CI_CHANGE SourcePATH ''ci-cd-path'' path
            ''Path is CI/CD workflow or pipeline configuration.'' 0.9 b;
          b = note_when (intent_matches_any lower_path INFRA_PATH_PATTERNS)
            CONTAINER_OR_INFRA_CHANGE SourcePATH ''infra-container-path'' path
            ''Path is container, infrastructure, or deployment configuration.'' 0.9 b;
          b = note_when (intent_has_any_segment lower_path AUTH_SECURITY_PATH_SEGMENTS)
            AUTH_OR_PERMISSION_CHANGE SourcePATH ''auth-security-path'' path
            ''Path indicates authentication, authorization, session, or permission code.'' 0.85 b;
          b = note_when (is_audit_approval_control_path lower_path (segments lower_path))
            AUDIT_OR_APPROVAL_CHANGE SourcePATH ''audit-approval-policy-path'' path
            ''Path indicates audit, approval, governance, or policy controls.'' 0.85 b
      in note_when (is_source_path lower_path)
            SOURCE_CODE_CHANGE SourcePATH ''source-code-path'' path
            ''Path is source code or executable application logic.'' 0.65 b)"

definition collect_diff_evidence :: "string \<Rightarrow> string list \<Rightarrow> buckets \<Rightarrow> buckets" where
  "collect_diff_evidence raw_path added_lines b =
     (let path = normalize_path raw_path; joined = join [CHR 0x0A] added_lines
      in if joined = [] then b
         else
           let b = note_when (re_search SECRET_LITERAL_RE joined)
                 SECRET_OR_CREDENTIAL_ACCESS SourceDIFF ''secret-like-added-content'' path
                 ''Added lines contain secret, token, password, or private key indicators.'' 0.9 b;
               b = note_when (re_search NETWORK_LITERAL_RE joined)
                 NETWORK_ACCESS SourceDIFF ''network-endpoint-added'' path
                 ''Added lines reference external network endpoints or remote transports.'' 0.75 b;
               b = note_when (re_search DESTRUCTIVE_LITERAL_RE joined)
                 FILESYSTEM_DESTRUCTIVE SourceDIFF ''destructive-operation-added'' path
                 ''Added lines include destructive filesystem, database, or infrastructure operations.'' 0.9 b;
               b = note_when (re_search APPROVAL_BYPASS_RE joined)
                 APPROVAL_BYPASS_ATTEMPT SourceDIFF ''approval-bypass-content'' path
                 ''Added lines reference bypassing approval or audit controls.'' 0.95 b;
               b = note_when (re_search ENCODED_EXECUTION_RE joined)
                 APPROVAL_BYPASS_ATTEMPT SourceDIFF ''encoded-execution-added'' path
                 ''Added lines decode or transform content before dynamic execution.'' 0.95 b;
               b = note_when (re_search ENCODED_EXECUTION_RE joined)
                 UNKNOWN_OR_AMBIGUOUS SourceDIFF ''encoded-dynamic-execution-added'' path
                 ''Added encoded dynamic execution requires review.'' 0.7 b
           in note_when (re_search DYNAMIC_EXECUTION_RE joined)
                 UNKNOWN_OR_AMBIGUOUS SourceDIFF ''dynamic-execution-added'' path
                 ''Added dynamic execution primitive requires review.'' 0.7 b)"

section \<open>Reports\<close>

definition is_close :: "rat \<Rightarrow> rat \<Rightarrow> bool" where
  "is_close a b = (\<bar>a - b\<bar> \<le> 1 / 10 ^ 9 * max \<bar>a\<bar> \<bar>b\<bar>)"

definition noisy_or :: "float_ops \<Rightarrow> rat list \<Rightarrow> rat" where
  "noisy_or ops weights =
     (let product = foldl (\<lambda>p weight. float_round ops (p * float_round ops (1 - min (max weight 0) 1))) 1 weights;
          confidence = float_round ops (1 - product)
      in if is_close confidence 1 then 1 else round4 ops confidence)"

definition build_intent :: "float_ops \<Rightarrow> intent_code \<Rightarrow> intent_evidence list \<Rightarrow> action_intent" where
  "build_intent ops code evidence =
     (let profile = INTENT_PROFILES code
      in \<lparr>ai_code = code, ai_severity = ip_severity profile, ai_confidence = noisy_or ops (map ev_weight evidence),
          ai_recommendation = ip_recommendation profile, ai_reason = ip_reason profile, ai_evidence = evidence\<rparr>)"

definition unknown_signal_evidence :: "string list \<Rightarrow> intent_evidence list" where
  "unknown_signal_evidence unknown_signals =
     map (\<lambda>signal. \<lparr>ev_source = SourceCONTEXT, ev_signal = ''unknown-signal'', ev_subject = signal,
        ev_detail = ''Signal could not be confidently mapped to a fully supported intent.'',
        ev_weight = 0.5\<rparr>) unknown_signals"

definition collect_evidence :: "string list \<Rightarrow> string list \<Rightarrow> (string \<times> string list) list \<Rightarrow> buckets \<times> string list" where
  "collect_evidence command changed_paths added =
     (let (b, unknown) = collect_command_evidence command ([], []);
          b = fold collect_path_evidence changed_paths b
      in (fold (\<lambda>(raw_path, lines). collect_diff_evidence raw_path lines) added b, unknown))"

definition classify_action_intent ::
  "float_ops \<Rightarrow> string list \<Rightarrow> string list \<Rightarrow> (string \<times> string list) list \<Rightarrow> intent_report" where
  "classify_action_intent ops command changed_paths added =
     (let (b, unknown) = collect_evidence command changed_paths added;
          intents = map (\<lambda>(code, evidence). build_intent ops code evidence)
            (sort_key (\<lambda>item. intent_code_value (fst item)) b)
      in \<lparr>ir_intents = intents @ (if unknown = [] then []
            else [build_intent ops UNKNOWN_OR_AMBIGUOUS (unknown_signal_evidence unknown)]),
          ir_unknown_signals = unknown\<rparr>)"

definition classify_command_intent :: "float_ops \<Rightarrow> string list \<Rightarrow> intent_report" where
  "classify_command_intent ops command = classify_action_intent ops command [] []"

definition classify_path_intent :: "float_ops \<Rightarrow> string list \<Rightarrow> intent_report" where
  "classify_path_intent ops paths = classify_action_intent ops [] paths []"

definition classify_diff_intent :: "float_ops \<Rightarrow> (string \<times> string list) list \<Rightarrow> intent_report" where
  "classify_diff_intent ops added = classify_action_intent ops [] [] added"

text \<open>\<open>max\<close> with a key keeps the first of the largest items.\<close>

fun max_by :: "('a \<Rightarrow> 'b::linorder) \<Rightarrow> 'a \<Rightarrow> 'a list \<Rightarrow> 'a" where
  "max_by key best [] = best"
| "max_by key best (x # xs) = max_by key (if key best < key x then x else best) xs"

definition intent_rank :: "action_intent \<Rightarrow> nat \<times> nat \<times> rat \<times> string" where
  "intent_rank i = (severity_order (ai_severity i), recommendation_order (ai_recommendation i), ai_confidence i,
     intent_code_value (ai_code i))"

definition primary_intent :: "intent_report \<Rightarrow> action_intent option" where
  "primary_intent r = (case ir_intents r of [] \<Rightarrow> None | i # rest \<Rightarrow> Some (max_by intent_rank i rest))"

definition max_severity :: "intent_report \<Rightarrow> intent_severity" where
  "max_severity r = (case primary_intent r of None \<Rightarrow> IntentLOW | Some i \<Rightarrow> ai_severity i)"

definition recommended_action :: "intent_report \<Rightarrow> intent_recommendation" where
  "recommended_action r = (case map ai_recommendation (ir_intents r) of
     [] \<Rightarrow> RecALLOW | a # rest \<Rightarrow> max_by recommendation_order a rest)"

definition intent_codes :: "intent_report \<Rightarrow> string list" where
  "intent_codes r = map (\<lambda>i. intent_code_value (ai_code i)) (ir_intents r)"

definition evidence_entry :: "float_ops \<Rightarrow> intent_evidence \<Rightarrow> pyval" where
  "evidence_entry ops e = dict_val [(''source'', PStr (evidence_source_value (ev_source e))),
     (''signal'', PStr (ev_signal e)), (''subject'', PStr (ev_subject e)), (''detail'', PStr (ev_detail e)),
     (''confidence_weight'', PFloat (float_repr ops (ev_weight e)))]"

definition intent_audit_metadata :: "float_ops \<Rightarrow> intent_report \<Rightarrow> dict" where
  "intent_audit_metadata ops r =
     [(''intent_codes'', PTuple (map PStr (intent_codes r))),
      (''max_severity'', PStr (intent_severity_value (max_severity r))),
      (''recommended_action'', PStr (intent_recommendation_value (recommended_action r))),
      (''unknown_signals'', PTuple (map PStr (ir_unknown_signals r))),
      (''intents'', PTuple (map (\<lambda>i. dict_val
         [(''code'', PStr (intent_code_value (ai_code i))),
          (''severity'', PStr (intent_severity_value (ai_severity i))),
          (''confidence'', PFloat (float_repr ops (ai_confidence i))),
          (''recommendation'', PStr (intent_recommendation_value (ai_recommendation i))),
          (''reason'', PStr (ai_reason i)),
          (''evidence'', PTuple (map (evidence_entry ops) (ai_evidence i)))]) (ir_intents r)))]"

section \<open>Which intents are found\<close>

definition found :: "buckets \<Rightarrow> intent_code set" where
  "found b = fst ` set b"

lemma found_Nil [simp]: "found [] = {}"
  by (simp add: found_def)

lemma found_note [simp]:
  "found (note_when c code src signal subject detail w b) = found b \<union> (if c then {code} else {})"
  by (auto simp: found_def note_when_def add_evidence_def dom_update)

lemma found_command [simp]:
  "found (command_evidence x ts s b) = found b \<union> found (command_evidence x ts s [])"
  by (simp add: command_evidence_def Let_def Un_ac)

lemma found_path: "found (collect_path_evidence p b) = found b \<union> found (collect_path_evidence p [])"
  by (simp add: collect_path_evidence_def Let_def Un_ac)

lemma found_diff: "found (collect_diff_evidence p ls b) = found b \<union> found (collect_diff_evidence p ls [])"
  by (simp add: collect_diff_evidence_def Let_def Un_ac)

lemma found_paths: "found (fold collect_path_evidence ps b) = found b \<union> (\<Union>p \<in> set ps. found (collect_path_evidence p []))"
proof (induction ps arbitrary: b)
  case (Cons p ps)
  then show ?case using found_path [of p b] by auto
qed simp

lemma found_diffs:
  "found (fold (\<lambda>(p, ls). collect_diff_evidence p ls) ds b) =
     found b \<union> (\<Union>(p, ls) \<in> set ds. found (collect_diff_evidence p ls []))"
proof (induction ds arbitrary: b)
  case (Cons d ds)
  then show ?case using found_diff [of "fst d" "snd d" b] by (auto split: prod.splits)
qed simp

definition command_found :: "string list \<Rightarrow> intent_code set" where
  "command_found command = (let (b, unknown) = collect_command_evidence command ([], [])
     in found b \<union> (if unknown = [] then {} else {UNKNOWN_OR_AMBIGUOUS}))"

lemma report_codes:
  "ai_code ` set (ir_intents (classify_action_intent ops command paths added)) =
     command_found command \<union> (\<Union>p \<in> set paths. found (collect_path_evidence p [])) \<union>
     (\<Union>(p, ls) \<in> set added. found (collect_diff_evidence p ls []))"
proof -
  obtain b u where c: "collect_command_evidence command ([], []) = (b, u)" by (cases "collect_command_evidence command ([], [])")
  have code: "ai_code (case x of (code, ev) \<Rightarrow> build_intent ops code ev) = fst x" for x
    by (simp add: build_intent_def Let_def split: prod.splits)
  have "ai_code ` set (ir_intents (classify_action_intent ops command paths added)) =
      found (fold (\<lambda>(p, ls). collect_diff_evidence p ls) added (fold collect_path_evidence paths b)) \<union>
      (if u = [] then {} else {UNKNOWN_OR_AMBIGUOUS})"
    by (simp add: classify_action_intent_def collect_evidence_def c found_def image_image code)
       (simp add: build_intent_def Let_def)
  also have "\<dots> = command_found command \<union> (\<Union>p \<in> set paths. found (collect_path_evidence p [])) \<union>
     (\<Union>(p, ls) \<in> set added. found (collect_diff_evidence p ls []))"
    unfolding found_diffs found_paths by (auto simp: command_found_def c)
  finally show ?thesis .
qed

lemma report_profiles:
  "i \<in> set (ir_intents (classify_action_intent ops command paths added)) \<Longrightarrow>
     ai_severity i = ip_severity (INTENT_PROFILES (ai_code i)) \<and>
     ai_recommendation i = ip_recommendation (INTENT_PROFILES (ai_code i))"
  by (auto simp: classify_action_intent_def build_intent_def Let_def split: prod.splits if_splits)

section \<open>The verdict of a report\<close>

lemma max_by_mem: "max_by key x xs = x \<or> max_by key x xs \<in> set xs"
  by (induction xs arbitrary: x) auto

lemma max_by_start: "key x \<le> key (max_by key x xs)"
proof (induction xs arbitrary: x)
  case (Cons z zs)
  from Cons.IH [of x] Cons.IH [of z] show ?case by auto
qed simp

lemma max_by_ge: "y \<in> set xs \<Longrightarrow> key y \<le> key (max_by key x xs)"
proof (induction xs arbitrary: x)
  case (Cons z zs)
  have "key z \<le> key (max_by key x (z # zs))"
    using max_by_start [of key z zs] max_by_start [of key x zs] by auto
  with Cons show ?case by auto
qed simp

lemma recommended_ge:
  "i \<in> set (ir_intents r) \<Longrightarrow> recommendation_order (ai_recommendation i) \<le> recommendation_order (recommended_action r)"
  unfolding recommended_action_def
  by (cases "ir_intents r") (auto intro: max_by_ge max_by_start)

lemma recommended_mem:
  "ir_intents r \<noteq> [] \<Longrightarrow> \<exists>i \<in> set (ir_intents r). recommended_action r = ai_recommendation i"
proof -
  assume "ir_intents r \<noteq> []"
  then obtain x xs where r: "ir_intents r = x # xs" by (cases "ir_intents r") auto
  show ?thesis
    using max_by_mem [of recommendation_order "ai_recommendation x" "map ai_recommendation xs"]
    by (auto simp: recommended_action_def r)
qed

lemma primary_intent_mem: "primary_intent r = Some i \<Longrightarrow> i \<in> set (ir_intents r)"
  unfolding primary_intent_def using max_by_mem [of intent_rank] by (cases "ir_intents r") auto

lemma severity_ge: "i \<in> set (ir_intents r) \<Longrightarrow> severity_order (ai_severity i) \<le> severity_order (max_severity r)"
proof -
  assume i: "i \<in> set (ir_intents r)"
  then obtain x xs where r: "ir_intents r = x # xs" by (cases "ir_intents r") auto
  have "intent_rank i \<le> intent_rank (max_by intent_rank x xs)"
    using i r max_by_start [of intent_rank x xs] max_by_ge [of i xs intent_rank x] by auto
  then show ?thesis
    by (auto simp: max_severity_def primary_intent_def r intent_rank_def less_eq_prod_def)
qed

lemma severity_mem:
  "ir_intents r \<noteq> [] \<Longrightarrow> \<exists>i \<in> set (ir_intents r). max_severity r = ai_severity i"
proof -
  assume "ir_intents r \<noteq> []"
  then obtain i where "primary_intent r = Some i" by (auto simp: primary_intent_def neq_Nil_conv)
  then show ?thesis using primary_intent_mem by (auto simp: max_severity_def)
qed

text \<open>
  More evidence never softens a verdict: a report on more paths and more added lines names all the intents
  of the report on fewer, and its recommendation and severity are at least as strict.
\<close>

theorem evidence_never_softens:
  fixes ops :: float_ops and command :: "string list"
  assumes "set paths \<subseteq> set paths'" "set added \<subseteq> set added'"
  defines "r \<equiv> classify_action_intent ops command paths added"
    and "r' \<equiv> classify_action_intent ops command paths' added'"
  shows "set (intent_codes r) \<subseteq> set (intent_codes r') \<and>
    recommendation_order (recommended_action r) \<le> recommendation_order (recommended_action r') \<and>
    severity_order (max_severity r) \<le> severity_order (max_severity r')"
proof -
  have codes: "ai_code ` set (ir_intents r) \<subseteq> ai_code ` set (ir_intents r')"
    unfolding r_def r'_def report_codes using assms(1,2) by blast
  then have kept: "\<exists>j \<in> set (ir_intents r'). ai_code j = ai_code i" if "i \<in> set (ir_intents r)" for i
    using that by force
  have "set (intent_codes r) \<subseteq> set (intent_codes r')"
    using codes unfolding intent_codes_def set_map image_image [symmetric] by (rule image_mono)
  moreover have "recommendation_order (recommended_action r) \<le> recommendation_order (recommended_action r')"
  proof (cases "ir_intents r = []")
    case False
    then obtain i j where "i \<in> set (ir_intents r)" "recommended_action r = ai_recommendation i"
      "j \<in> set (ir_intents r')" "ai_code j = ai_code i"
      using recommended_mem kept by meson
    then show ?thesis using recommended_ge report_profiles unfolding r_def r'_def by metis
  qed (simp add: recommended_action_def)
  moreover have "severity_order (max_severity r) \<le> severity_order (max_severity r')"
  proof (cases "ir_intents r = []")
    case False
    then obtain i j where "i \<in> set (ir_intents r)" "max_severity r = ai_severity i"
      "j \<in> set (ir_intents r')" "ai_code j = ai_code i"
      using severity_mem kept by meson
    then show ?thesis using severity_ge report_profiles unfolding r_def r'_def by metis
  qed (simp add: max_severity_def primary_intent_def)
  ultimately show ?thesis by blast
qed

section \<open>Secret files\<close>

lemma lower_char_code: "lower_char c = c \<or> 97 \<le> codept (lower_char c) \<and> 65 \<le> codept c"
  by (simp add: lower_char_def Let_def)

lemma lower_char_eq: "codept d < 65 \<Longrightarrow> lower_char c = d \<longleftrightarrow> c = d"
  using lower_char_code [of c] by auto

lemma split_on_lower: "codept d < 65 \<Longrightarrow> split_on d (lower s) = map lower (split_on d s)"
proof (induction s)
  case (Cons x s)
  then show ?case by (auto simp: lower_def lower_char_eq split: list.splits)
qed (simp add: lower_def)

lemma lower_eq: "list_all (\<lambda>d. codept d < 65) p \<Longrightarrow> lower s = p \<longleftrightarrow> s = p"
  unfolding lower_def
proof (induction p arbitrary: s)
  case (Cons d p)
  then show ?case by (cases s) (auto simp: lower_char_eq)
qed simp

lemma path_tail_lower: "path_tail (posix_path (lower s)) = map lower (path_tail (posix_path s))"
  by (simp add: posix_path_def split_on_lower filter_map comp_def lower_eq lower_def [of "[]"])

lemma path_name_lower: "path_name (posix_path (lower s)) = lower (path_name (posix_path s))"
  by (simp add: path_name_def path_tail_lower last_map lower_def [of "[]"])

lemma lower_env: "lower ''.env'' = ''.env''"
  by code_simp

lemma env_file_secret: "path_name (posix_path p) = ''.env'' \<Longrightarrow> is_secret_like_path p"
proof -
  assume p: "path_name (posix_path p) = ''.env''"
  then have "path_tail (posix_path p) \<noteq> []" by (auto simp: path_name_def)
  then obtain ds where "path_tail (posix_path p) = ds @ [''.env'']"
    using p by (metis path_name_def append_butlast_last_id)
  then have "path_match p ''.env''"
    by (simp add: path_match_def Let_def path_parts_def posix_path_def [of "''.env''"] starts_with_def fnmatch_plain)
  then have "intent_matches p ''.env''" using lower_env by (simp add: intent_matches_def Let_def)
  then show ?thesis
    by (simp add: is_secret_like_path_def intent_matches_any_def SECRET_PATH_PATTERNS_def)
qed

text \<open>
  Touching an environment file is always to be blocked: whatever else the command, the other paths and the
  added lines are, and in whatever directory and letter case the file is named, the report is critical and
  recommends to block.
\<close>

theorem env_file_blocks:
  assumes "p \<in> set paths" "path_base (normalize_path p) = ''.env''"
  shows "max_severity (classify_action_intent ops command paths added) = IntentCRITICAL \<and>
    recommended_action (classify_action_intent ops command paths added) = RecBLOCK"
proof -
  let ?r = "classify_action_intent ops command paths added"
  have "is_secret_like_path (lower (normalize_path p))"
    using assms(2) by (intro env_file_secret) (simp add: path_name_lower path_base_def)
  then have "SECRET_OR_CREDENTIAL_ACCESS \<in> found (collect_path_evidence p [])"
    by (simp add: collect_path_evidence_def Let_def)
  then have "SECRET_OR_CREDENTIAL_ACCESS \<in> ai_code ` set (ir_intents ?r)"
    unfolding report_codes using assms(1) by blast
  then obtain i where i: "i \<in> set (ir_intents ?r)" "ai_code i = SECRET_OR_CREDENTIAL_ACCESS" by auto
  have "ai_severity i = IntentCRITICAL" "ai_recommendation i = RecBLOCK"
    using report_profiles [OF i(1)] i(2) by simp_all
  then have "3 \<le> severity_order (max_severity ?r)" "3 \<le> recommendation_order (recommended_action ?r)"
    using severity_ge [OF i(1)] recommended_ge [OF i(1)] by simp_all
  then show ?thesis
    by (cases "max_severity ?r"; cases "recommended_action ?r") simp_all
qed

section \<open>Confidence\<close>

text \<open>What the format guarantees of the two roundings: they are monotone and keep zero and one.\<close>

definition rounds_well :: "float_ops \<Rightarrow> bool" where
  "rounds_well ops = (mono (float_round ops) \<and> mono (round4 ops) \<and>
     (\<forall>x. float_round ops (float_round ops x) = float_round ops x) \<and>
     float_round ops 0 = 0 \<and> float_round ops 1 = 1 \<and> round4 ops 0 = 0 \<and> round4 ops 1 = 1)"

definition doubt :: "float_ops \<Rightarrow> rat list \<Rightarrow> rat \<Rightarrow> rat" where
  "doubt ops ws p = foldl (\<lambda>p weight. float_round ops (p * float_round ops (1 - min (max weight 0) 1))) p ws"

lemma round_unit: "rounds_well ops \<Longrightarrow> 0 \<le> x \<Longrightarrow> x \<le> 1 \<Longrightarrow> 0 \<le> float_round ops x \<and> float_round ops x \<le> 1"
  unfolding rounds_well_def by (metis monoD)

lemma doubt_step:
  assumes "rounds_well ops" "0 \<le> p" "p \<le> 1" "float_round ops p = p"
  shows "0 \<le> float_round ops (p * float_round ops (1 - min (max w 0) 1)) \<and>
    float_round ops (p * float_round ops (1 - min (max w 0) 1)) \<le> p"
proof -
  have unit: "0 \<le> float_round ops (1 - min (max w 0) 1)" "float_round ops (1 - min (max w 0) 1) \<le> 1"
    using round_unit [OF assms(1), of "1 - min (max w 0) 1"] by auto
  then have "p * float_round ops (1 - min (max w 0) 1) \<le> p" "0 \<le> p * float_round ops (1 - min (max w 0) 1)"
    using assms by (auto intro: mult_left_le)
  then show ?thesis using assms unfolding rounds_well_def by (metis monoD)
qed

lemma doubt_bounds:
  "rounds_well ops \<Longrightarrow> 0 \<le> p \<Longrightarrow> p \<le> 1 \<Longrightarrow> float_round ops p = p \<Longrightarrow>
     0 \<le> doubt ops ws p \<and> doubt ops ws p \<le> p \<and> float_round ops (doubt ops ws p) = doubt ops ws p"
proof (induction ws arbitrary: p)
  case (Cons w ws)
  let ?q = "float_round ops (p * float_round ops (1 - min (max w 0) 1))"
  have q: "0 \<le> ?q" "?q \<le> p" using doubt_step [OF Cons.prems] by auto
  moreover have "float_round ops ?q = ?q" using Cons.prems(1) by (simp add: rounds_well_def)
  ultimately have "0 \<le> doubt ops ws ?q \<and> doubt ops ws ?q \<le> ?q \<and> float_round ops (doubt ops ws ?q) = doubt ops ws ?q"
    using Cons by (meson order.trans)
  with q show ?case by (auto simp: doubt_def)
qed (simp add: doubt_def)

definition settled :: "float_ops \<Rightarrow> rat \<Rightarrow> rat" where
  "settled ops c = (if is_close c 1 then 1 else round4 ops c)"

lemma noisy_or_doubt: "noisy_or ops ws = settled ops (float_round ops (1 - doubt ops ws 1))"
  by (simp add: noisy_or_def settled_def doubt_def Let_def)

lemma settled_bounds: "rounds_well ops \<Longrightarrow> 0 \<le> c \<Longrightarrow> c \<le> 1 \<Longrightarrow> 0 \<le> settled ops c \<and> settled ops c \<le> 1"
  unfolding settled_def rounds_well_def by (auto dest: monoD [of "round4 ops" 0 c] monoD [of "round4 ops" c 1])

lemma settled_mono: "rounds_well ops \<Longrightarrow> 0 \<le> c \<Longrightarrow> c \<le> d \<Longrightarrow> d \<le> 1 \<Longrightarrow> settled ops c \<le> settled ops d"
  unfolding settled_def rounds_well_def is_close_def
  by (auto dest: monoD [of "round4 ops" c d] monoD [of "round4 ops" c 1] simp: max_def)

text \<open>
  A confidence is a probability, and evidence only adds to it: combining weights gives a number from zero
  to one, and combining more weights gives no less, however the floating-point operations round.
\<close>

theorem confidence_grows:
  assumes "rounds_well ops"
  shows "0 \<le> noisy_or ops ws \<and> noisy_or ops ws \<le> noisy_or ops (ws @ vs) \<and> noisy_or ops (ws @ vs) \<le> 1"
proof -
  have fix1: "float_round ops 1 = 1" using assms by (simp add: rounds_well_def)
  have d: "0 \<le> doubt ops ws 1" "doubt ops ws 1 \<le> 1" "float_round ops (doubt ops ws 1) = doubt ops ws 1"
    using doubt_bounds [OF assms, of 1 ws] fix1 by auto
  have e: "0 \<le> doubt ops (ws @ vs) 1" "doubt ops (ws @ vs) 1 \<le> doubt ops ws 1"
    using doubt_bounds [OF assms d, of vs] by (simp_all add: doubt_def)
  let ?c = "float_round ops (1 - doubt ops ws 1)" and ?c' = "float_round ops (1 - doubt ops (ws @ vs) 1)"
  have "0 \<le> ?c" "?c' \<le> 1" using round_unit [OF assms] d e by auto
  moreover have "?c \<le> ?c'" using assms e by (auto simp: rounds_well_def intro: monoD)
  ultimately show ?thesis
    unfolding noisy_or_doubt using settled_bounds [OF assms] settled_mono [OF assms] by (meson order.trans)
qed


section \<open>Witnesses\<close>

definition sample_float :: float_ops where
  "sample_float = \<lparr>float_round = (\<lambda>x. x), round4 = (\<lambda>x. rat_of_int \<lfloor>x * 10000 + 1 / 2\<rfloor> / 10000),
     float_repr = (\<lambda>_. ''0.5'')\<rparr>"

end
