(* ===== verification/Patch_Model.thy ===== *)
theory Patch_Model
  imports Py_Path Risk_Engine Json "HOL-Library.Product_Lexorder"
begin

text \<open>
  The data that the patch pipeline passes on: \<open>ChangedFileKind\<close>, \<open>ChangedFile\<close> and the path normalization
  of \<open>src/rygnal/changed_files.py\<close>, the ignore rules of \<open>ignore_rules.py\<close>, and \<open>PatchFileDiff\<close>
  and \<open>PatchDiff\<close> of \<open>patch_diff.py\<close>. Running \<open>git\<close> is left out; what it prints is an argument.
\<close>

section \<open>Changed files\<close>

datatype changed_file_kind = ADDED | MODIFIED | DELETED | RENAMED | MODE_CHANGED | UNTRACKED

fun changed_file_kind_value :: "changed_file_kind \<Rightarrow> string" where
  "changed_file_kind_value ADDED = ''added''"
| "changed_file_kind_value MODIFIED = ''modified''"
| "changed_file_kind_value DELETED = ''deleted''"
| "changed_file_kind_value RENAMED = ''renamed''"
| "changed_file_kind_value MODE_CHANGED = ''mode_changed''"
| "changed_file_kind_value UNTRACKED = ''untracked''"

record changed_file =
  cf_path :: string
  cf_kind :: changed_file_kind
  cf_old_path :: "string option"
  cf_old_mode :: "string option"
  cf_new_mode :: "string option"
  cf_mode_changed :: bool

definition ChangedFileDetectionError :: "string \<Rightarrow> py_exn" where
  "ChangedFileDetectionError msg = Exn RuntimeErr ''ChangedFileDetectionError'' msg"

definition ChangedFilePathError :: "string \<Rightarrow> py_exn" where
  "ChangedFilePathError msg = Exn RuntimeErr ''ChangedFilePathError'' msg"

abbreviation slashed :: "string \<Rightarrow> string" where
  "slashed s \<equiv> replace_char (CHR 0x5C) (CHR ''/'') s"

definition normalize_repo_relative_path :: "string \<Rightarrow> string res" where
  "normalize_repo_relative_path path =
     (let normalized = strip (slashed path); path_obj = posix_path normalized
      in if normalized = [] then Inl (ChangedFilePathError ''Changed file path must not be empty.'')
         else if is_absolute path_obj
           then Inl (ChangedFilePathError (''Changed file path must be relative: '' @ path))
         else if list_ex (\<lambda>part. part = ''..'') (path_parts path_obj)
           then Inl (ChangedFilePathError (''Changed file path must not traverse: '' @ path))
         else
           let clean_parts = filter (\<lambda>part. part \<noteq> [] \<and> part \<noteq> ''.'') (path_parts path_obj)
           in if clean_parts = [] then Inl (ChangedFilePathError ''Changed file path must not be empty.'')
              else Inr (join ''/'' clean_parts))"

definition is_hex_digit :: "char \<Rightarrow> bool" where
  "is_hex_digit c = (let n = codept c in
     48 \<le> n \<and> n \<le> 57 \<or> 65 \<le> n \<and> n \<le> 70 \<or> 97 \<le> n \<and> n \<le> 102)"

definition normalize_baseline_commit_sha :: "string \<Rightarrow> string res" where
  "normalize_baseline_commit_sha baseline_commit_sha =
     (let baseline = strip baseline_commit_sha
      in if length baseline = 40 \<and> list_all is_hex_digit baseline then Inr (lower baseline)
         else Inl (ChangedFileDetectionError ''Baseline commit must be a full 40-character SHA.''))"

definition kind_from_raw_status :: "string \<Rightarrow> changed_file_kind res" where
  "kind_from_raw_status status_code =
     (if status_code = ''A'' then Inr ADDED
      else if status_code = ''D'' then Inr DELETED
      else if status_code = ''T'' then Inr MODE_CHANGED
      else if status_code = ''M'' then Inr MODIFIED
      else Inl (ChangedFileDetectionError (''Unsupported Git raw status: '' @ status_code)))"

text \<open>
  \<open>parse_git_raw_diff\<close> over the non-empty fields between NUL characters: a header, then one path, or two
  for a rename.
\<close>

fun parse_raw_fields :: "string list \<Rightarrow> changed_file list res" where
  "parse_raw_fields [] = Inr []"
| "parse_raw_fields (header # others) =
     (if \<not> starts_with header '':''
      then Inl (ChangedFileDetectionError (''Invalid raw diff header: '' @ repr_str header))
      else case split_words header of
        p0 # new_mode # old_object # new_object # status # rest \<Rightarrow>
          (let old_mode = tl p0; status_code = take 1 status; mode_changed = (old_mode \<noteq> new_mode)
           in if status_code = ''R''
              then (case others of
                  f0 # f1 # later \<Rightarrow>
                    rbind (normalize_repo_relative_path f0) (\<lambda>old_path.
                    rbind (normalize_repo_relative_path f1) (\<lambda>new_path.
                    rbind (parse_raw_fields later) (\<lambda>files.
                      Inr (\<lparr>cf_path = new_path, cf_kind = RENAMED, cf_old_path = Some old_path,
                        cf_old_mode = Some old_mode, cf_new_mode = Some new_mode,
                        cf_mode_changed = mode_changed\<rparr> # files))))
                | _ \<Rightarrow> Inl (ChangedFileDetectionError ''Rename record missing path fields.''))
              else (case others of
                  f0 # later \<Rightarrow>
                    rbind (normalize_repo_relative_path f0) (\<lambda>path.
                    rbind (kind_from_raw_status status_code) (\<lambda>kind.
                    rbind (parse_raw_fields later) (\<lambda>files.
                      Inr (\<lparr>cf_path = path, cf_kind = kind, cf_old_path = None,
                        cf_old_mode = Some old_mode, cf_new_mode = Some new_mode,
                        cf_mode_changed = mode_changed\<rparr> # files))))
                | [] \<Rightarrow> Inl (ChangedFileDetectionError ''Raw diff record missing path field.'')))
      | _ \<Rightarrow> Inl (ChangedFileDetectionError (''Incomplete raw diff header: '' @ repr_str header)))"

definition nul_fields :: "string \<Rightarrow> string list" where
  "nul_fields raw = filter (\<lambda>f. f \<noteq> []) (split_on (CHR 0x00) raw)"

definition parse_git_raw_diff :: "string \<Rightarrow> changed_file list res" where
  "parse_git_raw_diff raw_output = (if raw_output = [] then Inr [] else parse_raw_fields (nul_fields raw_output))"

section \<open>Ignore rules\<close>

definition DEFAULT_HEAVY_PATH_SEGMENTS :: "string list" where
  "DEFAULT_HEAVY_PATH_SEGMENTS =
     [''.cache'', ''.coverage'', ''.git'', ''.hg'', ''.mypy_cache'', ''.next'', ''.nox'', ''.pytest_cache'',
      ''.ruff_cache'', ''.svn'', ''.tox'', ''.venv'', ''__pycache__'', ''build'', ''coverage'', ''dist'',
      ''node_modules'', ''site-packages'', ''target'', ''venv'']"

definition DEFAULT_VISIBLE_BASENAMES :: "string list" where
  "DEFAULT_VISIBLE_BASENAMES =
     [''.dockerignore'', ''.env'', ''.env.example'', ''.env.local'', ''.env.production'', ''.gitattributes'',
      ''.gitignore'', ''.gitlab-ci.yml'', ''.npmrc'', ''.pypirc'', ''Cargo.lock'', ''Cargo.toml'',
      ''Dockerfile'', ''Gemfile'', ''Gemfile.lock'', ''Pipfile'', ''Pipfile.lock'', ''bun.lock'', ''bun.lockb'',
      ''compose.yaml'', ''compose.yml'', ''docker-compose.yaml'', ''docker-compose.yml'', ''go.mod'', ''go.sum'',
      ''package-lock.json'', ''package.json'', ''pnpm-lock.yaml'', ''poetry.lock'', ''pyproject.toml'',
      ''requirements-dev.txt'', ''requirements.txt'', ''uv.lock'', ''yarn.lock'']"

record ignore_rules =
  heavy_path_segments :: "string list"
  visible_basenames :: "string list"
  visible_suffixes :: "string list"
  visible_prefixes :: "string list"
  visible_globs :: "string list"

definition DEFAULT_GUARDED_IGNORE_RULES :: ignore_rules where
  "DEFAULT_GUARDED_IGNORE_RULES =
     \<lparr>heavy_path_segments = DEFAULT_HEAVY_PATH_SEGMENTS, visible_basenames = DEFAULT_VISIBLE_BASENAMES,
      visible_suffixes = [''.env'', ''.env.local'', ''.env.production''],
      visible_prefixes = [''.github/workflows/'', ''.gitlab/''],
      visible_globs = [''requirements-*.txt'', ''*.lock'', ''*.pem'', ''*.key'', ''*.p12'', ''*.pfx'']\<rparr>"

record ignore_decision =
  id_path :: string
  id_ignored :: bool
  id_generated :: bool
  id_protected :: bool

definition guarded_path_error :: "string \<Rightarrow> py_exn" where
  "guarded_path_error msg = Exn ValueErr ''ValueError'' msg"

definition normalize_guarded_path :: "string \<Rightarrow> string res" where
  "normalize_guarded_path path =
     (let normalized = strip (slashed path); path_obj = posix_path normalized
      in if normalized = [] then Inl (guarded_path_error ''Guarded path must not be empty.'')
         else if is_absolute path_obj
           then Inl (guarded_path_error (''Guarded path must be repository-relative: '' @ path))
         else if list_ex (\<lambda>part. part = ''..'') (path_parts path_obj)
           then Inl (guarded_path_error (''Guarded path must not traverse: '' @ path))
         else
           let clean_parts = filter (\<lambda>part. part \<noteq> [] \<and> part \<noteq> ''.'') (path_parts path_obj)
           in if clean_parts = [] then Inl (guarded_path_error ''Guarded path must not normalize to empty.'')
              else Inr (join ''/'' clean_parts))"

definition is_heavy_or_generated_path :: "ignore_rules \<Rightarrow> string \<Rightarrow> bool res" where
  "is_heavy_or_generated_path rules path =
     rbind (normalize_guarded_path path) (\<lambda>normalized.
       Inr (list_ex (\<lambda>part. lower part \<in> set (map lower (heavy_path_segments rules)))
              (path_parts (posix_path normalized))))"

definition is_protected_visible_path :: "ignore_rules \<Rightarrow> string \<Rightarrow> bool res" where
  "is_protected_visible_path rules path =
     rbind (normalize_guarded_path path) (\<lambda>normalized.
       let lower_path = lower normalized; lower_basename = lower (path_name (posix_path normalized))
       in Inr (lower_basename \<in> set (map lower (visible_basenames rules)) \<or>
               list_ex (\<lambda>suffix. ends_with lower_path (lower suffix)) (visible_suffixes rules) \<or>
               list_ex (\<lambda>prefix. starts_with lower_path (lower prefix)) (visible_prefixes rules) \<or>
               list_ex (\<lambda>pattern. path_match normalized pattern \<or> path_match lower_path (lower pattern))
                 (visible_globs rules)))"

definition decide_untracked_path :: "ignore_rules \<Rightarrow> string \<Rightarrow> ignore_decision res" where
  "decide_untracked_path rules path =
     rbind (normalize_guarded_path path) (\<lambda>normalized.
     rbind (is_protected_visible_path rules normalized) (\<lambda>visible.
       if visible then Inr \<lparr>id_path = normalized, id_ignored = False, id_generated = False, id_protected = True\<rparr>
       else rbind (is_heavy_or_generated_path rules normalized) (\<lambda>heavy.
         Inr \<lparr>id_path = normalized, id_ignored = heavy, id_generated = heavy, id_protected = False\<rparr>)))"

text \<open>The untracked files that \<open>git ls-files\<close> names: the ones to review and the ignored paths.\<close>

fun classify_untracked :: "ignore_rules \<Rightarrow> string list \<Rightarrow> (changed_file list \<times> string list) res" where
  "classify_untracked rules [] = Inr ([], [])"
| "classify_untracked rules (field # others) =
     rbind (normalize_repo_relative_path field) (\<lambda>path.
     rbind (decide_untracked_path rules path) (\<lambda>d.
     rbind (classify_untracked rules others) (\<lambda>(files, ignored).
       Inr (if id_ignored d then (files, id_path d # ignored)
            else (\<lparr>cf_path = id_path d, cf_kind = UNTRACKED, cf_old_path = None, cf_old_mode = None,
                   cf_new_mode = None, cf_mode_changed = False\<rparr> # files, ignored)))))"

definition classify_untracked_files ::
  "ignore_rules \<Rightarrow> string \<Rightarrow> (changed_file list \<times> string list) res" where
  "classify_untracked_files rules raw_output = classify_untracked rules (nul_fields raw_output)"

definition changed_file_sort_key :: "changed_file \<Rightarrow> string \<times> string \<times> string" where
  "changed_file_sort_key f =
     (cf_path f, changed_file_kind_value (cf_kind f), case cf_old_path f of None \<Rightarrow> [] | Some p \<Rightarrow> p)"

record changed_file_report =
  cr_workspace_path :: string
  cr_baseline_commit_sha :: string
  cr_files :: "changed_file list"
  cr_ignored_files :: "string list"

definition counts_by_kind :: "changed_file list \<Rightarrow> (changed_file_kind \<times> nat) list" where
  "counts_by_kind files =
     map (\<lambda>k. (k, length (filter (\<lambda>f. cf_kind f = k) files)))
       [ADDED, MODIFIED, DELETED, RENAMED, MODE_CHANGED, UNTRACKED]"

text \<open>\<open>git\<close> run in the workspace: its output, or the error of \<open>_run_git\<close>.\<close>

definition detect_changed_files ::
  "(string \<Rightarrow> string) \<Rightarrow> (string \<Rightarrow> bool) \<Rightarrow> (string \<Rightarrow> string list \<Rightarrow> string res) \<Rightarrow> string \<Rightarrow> string \<Rightarrow>
   ignore_rules \<Rightarrow> changed_file_report res" where
  "detect_changed_files resolve is_directory git workspace_path baseline_commit_sha rules =
     rbind (normalize_baseline_commit_sha baseline_commit_sha) (\<lambda>baseline.
       let workspace = resolve workspace_path
       in if \<not> is_directory workspace
          then Inl (ChangedFileDetectionError (''Guarded workspace does not exist: '' @ workspace))
          else
            rbind (git workspace [''diff'', ''--raw'', ''-z'', ''-M20%'', baseline, ''--'']) (\<lambda>raw_diff.
            rbind (git workspace [''ls-files'', ''--others'', ''--exclude-standard'', ''-z'']) (\<lambda>untracked_output.
            rbind (parse_git_raw_diff raw_diff) (\<lambda>tracked_files.
            rbind (classify_untracked_files rules untracked_output) (\<lambda>(untracked_files, ignored).
              Inr \<lparr>cr_workspace_path = workspace, cr_baseline_commit_sha = baseline,
                cr_files = sort_key changed_file_sort_key (tracked_files @ untracked_files),
                cr_ignored_files = sort ignored\<rparr>)))))"

section \<open>Patches\<close>

record patch_file_diff =
  fd_path :: string
  fd_kind :: changed_file_kind
  fd_additions :: "nat option"
  fd_deletions :: "nat option"
  fd_binary :: bool
  fd_old_path :: "string option"
  fd_old_mode :: "string option"
  fd_new_mode :: "string option"
  fd_mode_changed :: bool

record patch_diff =
  pf_workspace_path :: string
  pf_baseline_commit_sha :: string
  pf_patch :: string
  pf_patch_sha256 :: string
  pf_patch_size_bytes :: int
  pf_files :: "patch_file_diff list"
  pf_ignored_files :: "string list"

definition changed_file_count :: "patch_diff \<Rightarrow> int" where
  "changed_file_count d = int (length (pf_files d))"

definition ignored_file_count :: "patch_diff \<Rightarrow> int" where
  "ignored_file_count d = int (length (pf_ignored_files d))"

definition total_additions :: "patch_diff \<Rightarrow> int" where
  "total_additions d = sum_list (map (\<lambda>f. case fd_additions f of None \<Rightarrow> 0 | Some n \<Rightarrow> int n) (pf_files d))"

definition total_deletions :: "patch_diff \<Rightarrow> int" where
  "total_deletions d = sum_list (map (\<lambda>f. case fd_deletions f of None \<Rightarrow> 0 | Some n \<Rightarrow> int n) (pf_files d))"

definition binary_file_count :: "patch_diff \<Rightarrow> int" where
  "binary_file_count d = int (length (filter fd_binary (pf_files d)))"

section \<open>Normalization\<close>

lemma norm_cases:
  assumes "normalize_repo_relative_path s = Inr t"
  shows "\<exists>ps. ps = path_tail (posix_path (strip (slashed s))) \<and> ps \<noteq> [] \<and> list_all clean_part ps \<and> t = join ''/'' ps"
  using assms
  by (auto simp: normalize_repo_relative_path_def Let_def is_absolute_def path_parts_def posix_path_def list_all_iff
      list_ex_iff clean_part_def split_on_free filter_empty_conv split: if_splits)

lemma normalized_is_clean: "normalize_repo_relative_path s = Inr t \<Longrightarrow> clean_relative t"
  unfolding clean_relative_def using norm_cases by blast

text \<open>Both modules normalize alike; only their errors differ.\<close>

lemma normalizers_agree:
  "normalize_guarded_path s = Inr t \<longleftrightarrow> normalize_repo_relative_path s = Inr t"
  by (simp add: normalize_guarded_path_def normalize_repo_relative_path_def Let_def)

section \<open>Nothing is lost\<close>

lemma classify_untracked_all:
  "classify_untracked rules fs = Inr (files, ignored) \<Longrightarrow>
     \<exists>ds. rmap (\<lambda>f. rbind (normalize_repo_relative_path f) (decide_untracked_path rules)) fs = Inr ds \<and>
       map cf_path files = map id_path (filter (\<lambda>d. \<not> id_ignored d) ds) \<and>
       ignored = map id_path (filter id_ignored ds)"
proof (induction fs arbitrary: files ignored)
  case (Cons f fs)
  then show ?case by (fastforce simp: res_simps split: if_splits)
qed simp

lemma decide_ignored:
  "decide_untracked_path rules p = Inr d \<Longrightarrow> id_ignored d \<Longrightarrow>
     is_heavy_or_generated_path rules (id_path d) = Inr True \<and> is_protected_visible_path rules (id_path d) = Inr False"
  by (auto simp: decide_untracked_path_def res_simps split: if_splits)

text \<open>
  Untracked files are accounted for: each one that \<open>git\<close> names is listed for review or as ignored, in
  order, and an ignored one has a generated-file segment and is not of the protected kinds.
\<close>

theorem untracked_files_accounted:
  assumes "classify_untracked_files rules raw = Inr (files, ignored)"
  shows "length files + length ignored = length (nul_fields raw) \<and>
    (\<forall>p \<in> set ignored. is_heavy_or_generated_path rules p = Inr True \<and> is_protected_visible_path rules p = Inr False)"
proof -
  obtain ds where ds: "rmap (\<lambda>f. rbind (normalize_repo_relative_path f) (decide_untracked_path rules)) (nul_fields raw) = Inr ds"
    "map cf_path files = map id_path (filter (\<lambda>d. \<not> id_ignored d) ds)" "ignored = map id_path (filter id_ignored ds)"
    using classify_untracked_all assms unfolding classify_untracked_files_def by blast
  have "length ds = length (nul_fields raw)" using ds(1) by (simp add: rmap_Inr_iff list_all2_lengthD)
  moreover have "length files = length (filter (\<lambda>d. \<not> id_ignored d) ds)" using ds(2) by (metis length_map)
  moreover have "length ignored = length (filter id_ignored ds)" using ds(3) by simp
  ultimately have "length files + length ignored = length (nul_fields raw)"
    using sum_length_filter_compl [of id_ignored ds] by simp
  moreover have "\<forall>d \<in> set ds. \<exists>p. decide_untracked_path rules p = Inr d"
    by (rule rmap_set [OF ds(1)]) (auto simp: res_simps)
  ultimately show ?thesis using ds(3) decide_ignored by auto
qed
section \<open>Reading what git prints\<close>

lemma split_words_acc_word:
  "\<forall>c \<in> set w. \<not> is_space c \<Longrightarrow> split_words_acc a (w @ s) = split_words_acc (a @ w) s"
  by (induction w arbitrary: a) auto

lemma split_words_join:
  assumes "\<forall>w \<in> set ws. w \<noteq> [] \<and> (\<forall>c \<in> set w. \<not> is_space c)"
  shows "split_words (join '' '' ws) = ws"
  using assms
proof (induction ws)
  case (Cons w ws)
  have blank: "is_space CHR '' ''" by code_simp
  have "split_words_acc [] (w @ '' '' @ join '' '' ws) = w # split_words_acc [] (join '' '' ws)"
    using Cons.prems blank by (simp add: split_words_acc_word)
  moreover have "split_words_acc [] w = [w]"
    using Cons.prems split_words_acc_word [of w "[]" "[]"] by simp
  ultimately show ?case using Cons by (simp add: split_words_def join_Cons)
qed (simp add: split_words_def)

fun raw_status :: "changed_file_kind \<Rightarrow> string" where
  "raw_status ADDED = ''A''"
| "raw_status DELETED = ''D''"
| "raw_status MODE_CHANGED = ''T''"
| "raw_status RENAMED = ''R100''"
| "raw_status _ = ''M''"

definition raw_record :: "changed_file \<Rightarrow> string list" where
  "raw_record f =
     (CHR '':'' # join '' '' [the (cf_old_mode f), the (cf_new_mode f), ''0'', ''0'', raw_status (cf_kind f)]) #
     (case cf_old_path f of None \<Rightarrow> [cf_path f] | Some old \<Rightarrow> [old, cf_path f])"

definition raw_diff :: "changed_file list \<Rightarrow> string" where
  "raw_diff files = concat (map (\<lambda>s. s @ [CHR 0x00]) (concat (map raw_record files)))"

text \<open>What a tracked file can be: modes without white space, paths as \<open>git\<close> and the normalization leave them.\<close>

definition raw_path_ok :: "string \<Rightarrow> bool" where
  "raw_path_ok p = (normalize_repo_relative_path p = Inr p \<and> CHR 0x00 \<notin> set p)"

definition raw_mode_ok :: "string option \<Rightarrow> bool" where
  "raw_mode_ok m = (\<exists>s. m = Some s \<and> s \<noteq> [] \<and> (\<forall>c \<in> set s. \<not> is_space c \<and> c \<noteq> CHR 0x00))"

definition tracked :: "changed_file \<Rightarrow> bool" where
  "tracked f = (cf_kind f \<noteq> UNTRACKED \<and> raw_path_ok (cf_path f) \<and> raw_mode_ok (cf_old_mode f) \<and>
     raw_mode_ok (cf_new_mode f) \<and> cf_mode_changed f = (cf_old_mode f \<noteq> cf_new_mode f) \<and>
     (if cf_kind f = RENAMED then \<exists>old. cf_old_path f = Some old \<and> raw_path_ok old else cf_old_path f = None))"

lemma raw_mode_okE:
  assumes "raw_mode_ok m"
  obtains s where "m = Some s" "s \<noteq> []" "\<forall>c \<in> set s. \<not> is_space c" "CHR 0x00 \<notin> set s"
proof -
  from assms obtain s where s: "m = Some s" "s \<noteq> []" "\<forall>c \<in> set s. \<not> is_space c \<and> c \<noteq> CHR 0x00"
    unfolding raw_mode_ok_def by (elim exE conjE)
  show thesis
  proof (rule that [OF s(1,2)])
    show "\<forall>c \<in> set s. \<not> is_space c" using s(3) by simp
    show "CHR 0x00 \<notin> set s" using s(3) by metis
  qed
qed

lemma header_words:
  assumes "tracked f"
  shows "split_words (hd (raw_record f)) =
    [CHR '':'' # the (cf_old_mode f), the (cf_new_mode f), ''0'', ''0'', raw_status (cf_kind f)]"
proof -
  have st: "w = raw_status (cf_kind f) \<or> w = ''0'' \<Longrightarrow> w \<noteq> [] \<and> (\<forall>c \<in> set w. \<not> is_space c)" for w
    by (cases "cf_kind f") (auto simp: is_space_def)
  have "hd (raw_record f) = join '' '' [CHR '':'' # the (cf_old_mode f), the (cf_new_mode f), ''0'', ''0'', raw_status (cf_kind f)]"
    by (simp add: raw_record_def)
  moreover have "split_words (join '' '' [CHR '':'' # the (cf_old_mode f), the (cf_new_mode f), ''0'', ''0'', raw_status (cf_kind f)]) =
      [CHR '':'' # the (cf_old_mode f), the (cf_new_mode f), ''0'', ''0'', raw_status (cf_kind f)]"
  proof (rule split_words_join, rule ballI)
    fix w
    assume w: "w \<in> set [CHR '':'' # the (cf_old_mode f), the (cf_new_mode f), ''0'', ''0'', raw_status (cf_kind f)]"
    have old: "the (cf_old_mode f) \<noteq> []" "\<forall>c \<in> set (the (cf_old_mode f)). \<not> is_space c"
      and new: "the (cf_new_mode f) \<noteq> []" "\<forall>c \<in> set (the (cf_new_mode f)). \<not> is_space c"
      using assms unfolding tracked_def by (metis option.sel raw_mode_okE)+
    have colon: "\<not> is_space CHR '':''" by code_simp
    from w consider "w = CHR '':'' # the (cf_old_mode f)" | "w = the (cf_new_mode f)"
      | "w = raw_status (cf_kind f) \<or> w = ''0''" by auto
    then show "w \<noteq> [] \<and> (\<forall>c \<in> set w. \<not> is_space c)"
      using old new colon st [of w] by cases simp_all
  qed
  ultimately show ?thesis by simp
qed

lemma parse_record:
  assumes "tracked f"
  shows "parse_raw_fields (raw_record f @ rest) = rbind (parse_raw_fields rest) (\<lambda>files. Inr (f # files))"
proof -
  have start: "starts_with (hd (raw_record f)) '':''" by (simp add: raw_record_def starts_with_def)
  obtain old new where modes: "cf_old_mode f = Some old" "cf_new_mode f = Some new"
    using assms by (auto simp: tracked_def raw_mode_ok_def)
  have kind: "cf_kind f \<noteq> RENAMED \<Longrightarrow> kind_from_raw_status (take 1 (raw_status (cf_kind f))) = Inr (cf_kind f)"
    using assms by (cases "cf_kind f") (auto simp: kind_from_raw_status_def tracked_def)
  have status: "take 1 (raw_status (cf_kind f)) = ''R'' \<longleftrightarrow> cf_kind f = RENAMED"
    by (cases "cf_kind f") simp_all
  show ?thesis
  proof (cases "cf_old_path f")
    case None
    then have r: "raw_record f = [hd (raw_record f), cf_path f]" by (simp add: raw_record_def)
    have "cf_kind f \<noteq> RENAMED" "normalize_repo_relative_path (cf_path f) = Inr (cf_path f)"
      using assms None by (auto simp: tracked_def raw_path_ok_def split: if_splits)
    then show ?thesis
      using start header_words [OF assms] kind status modes None assms
      by (subst r) (cases f, auto simp: tracked_def)
  next
    case (Some oldp)
    then have r: "raw_record f = [hd (raw_record f), oldp, cf_path f]" by (simp add: raw_record_def)
    have "cf_kind f = RENAMED" "normalize_repo_relative_path (cf_path f) = Inr (cf_path f)"
      "normalize_repo_relative_path oldp = Inr oldp"
      using assms Some by (auto simp: tracked_def raw_path_ok_def split: if_splits)
    then show ?thesis
      using start header_words [OF assms] status modes Some assms
      by (subst r) (cases f, auto simp: tracked_def)
  qed
qed

lemma nul_fields_printed:
  "\<forall>s \<in> set ss. s \<noteq> [] \<and> CHR 0x00 \<notin> set s \<Longrightarrow> nul_fields (concat (map (\<lambda>s. s @ [CHR 0x00]) ss)) = ss"
proof (induction ss)
  case (Cons s ss)
  then show ?case by (simp add: nul_fields_def split_on_append)
qed (simp add: nul_fields_def)

lemma raw_record_fields:
  assumes "tracked f" "s \<in> set (raw_record f)"
  shows "s \<noteq> [] \<and> CHR 0x00 \<notin> set s"
proof -
  have p: "raw_path_ok p \<Longrightarrow> p \<noteq> [] \<and> CHR 0x00 \<notin> set p" for p
    by (cases p) (simp_all add: raw_path_ok_def normalize_repo_relative_path_def replace_char_def strip_def lstrip_def rstrip_def)
  have st: "CHR 0x00 \<notin> set (raw_status (cf_kind f))" by (cases "cf_kind f") simp_all
  obtain old new where modes: "cf_old_mode f = Some old" "cf_new_mode f = Some new"
    "CHR 0x00 \<notin> set old" "CHR 0x00 \<notin> set new"
    using assms(1) unfolding tracked_def by (metis raw_mode_okE)
  have paths: "raw_path_ok (cf_path f)" "\<And>o'. cf_old_path f = Some o' \<Longrightarrow> raw_path_ok o'"
    using assms(1) by (auto simp: tracked_def split: if_splits)
  show ?thesis
    using assms(2) modes st p [OF paths(1)] p [OF paths(2)]
    by (cases "cf_old_path f") (auto simp: raw_record_def)
qed

text \<open>
  Reading a raw diff inverts printing it: from the NUL-separated text of any list of tracked changes, the
  parser recovers exactly that list, renames with both their paths, in order.
\<close>

theorem raw_diff_roundtrip:
  assumes "\<forall>f \<in> set files. tracked f"
  shows "parse_git_raw_diff (raw_diff files) = Inr files"
proof -
  have "parse_raw_fields (concat (map raw_record files)) = Inr files"
    using assms by (induction files) (simp_all add: parse_record)
  moreover have "nul_fields (raw_diff files) = concat (map raw_record files)"
    unfolding raw_diff_def using assms raw_record_fields by (intro nul_fields_printed) auto
  moreover have "raw_diff files = [] \<Longrightarrow> files = []"
    by (cases files) (simp_all add: raw_diff_def raw_record_def)
  ultimately show ?thesis
    by (auto simp: parse_git_raw_diff_def)
qed

end
