(* ===== verification/Rust_Kernel.thy ===== *)
theory Rust_Kernel
  imports Patch_Model
begin

text \<open>
  \<open>src/rygnal/rust_kernel.py\<close>: the adapter of the optional native kernel. The extension module is an argument
  (\<open>None\<close> when it cannot be imported): which functions it has and what a call with a payload returns or
  raises. What the adapter makes of the answer, and the Python fallbacks for path checks, are modelled.
  \<open>json.loads\<close> and the conversions \<open>float(x)\<close> and \<open>int(x)\<close> are arguments as well.
\<close>

section \<open>Errors\<close>

datatype kernel_error =
    KernelUnavailable string
  | KernelError string
  | CriticalityEvaluationError string string
  | NativeError py_exn

type_synonym 'a kernel_res = "kernel_error + 'a"

fun kbind :: "'a kernel_res \<Rightarrow> ('a \<Rightarrow> 'b kernel_res) \<Rightarrow> 'b kernel_res" where
  "kbind (Inl e) f = Inl e"
| "kbind (Inr x) f = f x"

lemma kbind_Inr_iff: "kbind r f = Inr y \<longleftrightarrow> (\<exists>x. r = Inr x \<and> f x = Inr y)"
  by (cases r) auto

lemma kbind_Inl_iff: "kbind r f = Inl e \<longleftrightarrow> r = Inl e \<or> (\<exists>x. r = Inr x \<and> f x = Inl e)"
  by (cases r) auto

text \<open>A conversion of the standard library whose exception is not caught.\<close>

fun uncaught :: "'a res \<Rightarrow> 'a kernel_res" where
  "uncaught (Inl e) = Inl (NativeError e)"
| "uncaught (Inr x) = Inr x"

section \<open>Data\<close>

datatype native_answer = Returned string | Raised py_exn | CriticalityRaised string

record rust_extension =
  has_function :: "string \<Rightarrow> bool"
  call_function :: "string \<Rightarrow> pyval \<Rightarrow> native_answer"
  path_function :: "string \<Rightarrow> string \<Rightarrow> dict res"
  version_text :: string

record kernel_lib =
  kernel :: "rust_extension option"
  json_loads :: "string \<Rightarrow> pyval option"
  to_float :: "pyval \<Rightarrow> string res"
  to_int :: "pyval \<Rightarrow> int res"

record agent_action =
  aa_file_path :: string
  aa_action_type :: string
  aa_raw_code :: string

record agent_assessment =
  aa_criticality_index :: string
  aa_risk_level :: string
  aa_reasons :: "string list"

record human_context =
  days_since_edit :: string
  days_since_burst :: string
  line_ownership_ratio :: string
  is_explicitly_locked :: bool

record subjective_risk_input =
  sr_file_path :: string
  sr_action_type :: string
  system_risk :: string
  sr_old_code :: string
  sr_new_code :: string
  sr_human_context :: human_context

record semantic_metrics =
  old_node_count :: int
  new_node_count :: int
  old_token_count :: int
  new_token_count :: int
  matched_node_count :: int
  survival_ratio :: string

record criticality_input =
  ci_file_path :: string
  ci_action_type :: string
  ci_old_code :: string
  ci_new_code :: string
  ci_elevated :: bool

record criticality_assessment =
  ca_criticality_index :: string
  ca_risk_level :: string
  ca_reasons :: "string list"
  ca_semantic_metrics :: semantic_metrics
  ca_path_category :: string
  ca_path_severity :: string

record subjective_risk_assessment =
  total_criticality :: string
  risk_judgment :: string
  sa_reasons :: "string list"
  human_multiplier :: string
  destruction_penalty :: string
  sa_semantic_metrics :: semantic_metrics

section \<open>Reading the answer\<close>

definition dict_get :: "(pykey \<times> pyval) list \<Rightarrow> string \<Rightarrow> pyval" where
  "dict_get source key = (case map_of source (KStr key) of None \<Rightarrow> PNone | Some v \<Rightarrow> v)"

definition require_dict :: "(pykey \<times> pyval) list \<Rightarrow> string \<Rightarrow> string \<Rightarrow> (pykey \<times> pyval) list kernel_res" where
  "require_dict source key message = (case dict_get source key of
     PDict d \<Rightarrow> Inr d | _ \<Rightarrow> Inl (KernelError message))"

definition require_string :: "(pykey \<times> pyval) list \<Rightarrow> string \<Rightarrow> string \<Rightarrow> string kernel_res" where
  "require_string source key message = (case dict_get source key of
     PStr s \<Rightarrow> Inr s | _ \<Rightarrow> Inl (KernelError message))"

fun all_strings :: "pyval list \<Rightarrow> string list option" where
  "all_strings [] = Some []"
| "all_strings (PStr s # vs) = map_option ((#) s) (all_strings vs)"
| "all_strings _ = None"

definition require_string_tuple :: "(pykey \<times> pyval) list \<Rightarrow> string \<Rightarrow> string \<Rightarrow> string list kernel_res" where
  "require_string_tuple source key message = (case dict_get source key of
     PList vs \<Rightarrow> (case all_strings vs of Some ss \<Rightarrow> Inr ss | None \<Rightarrow> Inl (KernelError message))
   | _ \<Rightarrow> Inl (KernelError message))"

definition require_int :: "(pykey \<times> pyval) list \<Rightarrow> string \<Rightarrow> string \<Rightarrow> int kernel_res" where
  "require_int source key message = (case dict_get source key of
     PInt i \<Rightarrow> Inr i | _ \<Rightarrow> Inl (KernelError message))"

definition require_number :: "kernel_lib \<Rightarrow> (pykey \<times> pyval) list \<Rightarrow> string \<Rightarrow> string \<Rightarrow> string kernel_res" where
  "require_number lib source key message = (case dict_get source key of
     PInt i \<Rightarrow> uncaught (to_float lib (PInt i))
   | PFloat r \<Rightarrow> Inr r
   | _ \<Rightarrow> Inl (KernelError message))"

definition parse_semantic_metrics :: "kernel_lib \<Rightarrow> (pykey \<times> pyval) list \<Rightarrow> semantic_metrics kernel_res" where
  "parse_semantic_metrics lib m =
     (let msg = (\<lambda>field. ''rust kernel returned invalid or missing semantic_metrics.'' @ field) in
      kbind (require_int m ''old_node_count'' (msg ''old_node_count'')) (\<lambda>old_nodes.
      kbind (require_int m ''new_node_count'' (msg ''new_node_count'')) (\<lambda>new_nodes.
      kbind (require_int m ''old_token_count'' (msg ''old_token_count'')) (\<lambda>old_tokens.
      kbind (require_int m ''new_token_count'' (msg ''new_token_count'')) (\<lambda>new_tokens.
      kbind (require_int m ''matched_node_count'' (msg ''matched_node_count'')) (\<lambda>matched.
      kbind (require_number lib m ''survival_ratio'' (msg ''survival_ratio'')) (\<lambda>ratio.
        Inr \<lparr>old_node_count = old_nodes, new_node_count = new_nodes, old_token_count = old_tokens,
          new_token_count = new_tokens, matched_node_count = matched, survival_ratio = ratio\<rparr>)))))))"

definition parse_criticality_assessment ::
  "kernel_lib \<Rightarrow> (pykey \<times> pyval) list \<Rightarrow> criticality_assessment kernel_res" where
  "parse_criticality_assessment lib result =
     (let msg = (\<lambda>field. ''rust kernel returned invalid or missing '' @ field) in
      kbind (require_number lib result ''criticality_index'' (msg ''criticality_index'')) (\<lambda>index.
      kbind (require_string result ''risk_level'' (msg ''risk_level'')) (\<lambda>risk_level.
      kbind (require_string_tuple result ''reasons'' (msg ''reasons'')) (\<lambda>reasons.
      kbind (require_dict result ''semantic_metrics'' (msg ''semantic_metrics'')) (\<lambda>metrics.
      kbind (require_string result ''path_category'' (msg ''path_category'')) (\<lambda>category.
      kbind (require_string result ''path_severity'' (msg ''path_severity'')) (\<lambda>severity.
      kbind (parse_semantic_metrics lib metrics) (\<lambda>semantic.
        Inr \<lparr>ca_criticality_index = index, ca_risk_level = risk_level, ca_reasons = reasons,
          ca_semantic_metrics = semantic, ca_path_category = category, ca_path_severity = severity\<rparr>))))))))"

section \<open>Calling the extension\<close>

definition load_kernel :: "kernel_lib \<Rightarrow> rust_extension kernel_res" where
  "load_kernel lib = (case kernel lib of
     None \<Rightarrow> Inl (KernelUnavailable ''optional Rust kernel extension is not installed or failed to load'')
   | Some k \<Rightarrow> Inr k)"

definition is_rust_kernel_available :: "kernel_lib \<Rightarrow> bool" where
  "is_rust_kernel_available lib = (kernel lib \<noteq> None)"

definition parse_object :: "kernel_lib \<Rightarrow> string \<Rightarrow> string \<Rightarrow> string \<Rightarrow> (pykey \<times> pyval) list kernel_res" where
  "parse_object lib invalid non_object raw = (case json_loads lib raw of
     None \<Rightarrow> Inl (KernelError invalid)
   | Some (PDict d) \<Rightarrow> Inr d
   | Some _ \<Rightarrow> Inl (KernelError non_object))"

definition criticality_error_from_native :: "kernel_lib \<Rightarrow> string \<Rightarrow> kernel_error" where
  "criticality_error_from_native lib text =
     (case parse_object lib ''rust kernel returned invalid criticality error JSON''
         ''rust kernel returned non-object criticality error JSON'' text of
        Inl e \<Rightarrow> e
      | Inr payload \<Rightarrow> (case (dict_get payload ''error_code'', dict_get payload ''reason'') of
          (PStr error_code, PStr reason) \<Rightarrow> CriticalityEvaluationError error_code reason
        | _ \<Rightarrow> KernelError ''rust kernel returned invalid criticality error shape''))"

definition call_criticality_kernel :: "kernel_lib \<Rightarrow> pyval \<Rightarrow> (pykey \<times> pyval) list kernel_res" where
  "call_criticality_kernel lib payload =
     kbind (load_kernel lib) (\<lambda>k.
       if \<not> has_function k ''evaluate_criticality''
       then Inl (KernelError ''rust kernel does not expose evaluate_criticality'')
       else case call_function k ''evaluate_criticality'' payload of
         Raised e \<Rightarrow>
           if exn_kind e = TypeErr \<or> exn_type e = ''UnicodeEncodeError''
             then Inl (KernelError (''native criticality boundary failed: '' @ exn_msg e))
           else if exn_kind e = ValueErr
             then Inl (KernelError (''rust kernel rejected criticality input: '' @ exn_msg e))
           else Inl (NativeError e)
       | CriticalityRaised text \<Rightarrow> Inl (criticality_error_from_native lib text)
       | Returned raw \<Rightarrow> parse_object lib ''rust kernel returned invalid JSON''
           ''rust kernel returned non-object JSON'' raw)"

definition criticality_payload :: "criticality_input \<Rightarrow> pyval" where
  "criticality_payload i = dict_val [(''file_path'', PStr (ci_file_path i)), (''action_type'', PStr (ci_action_type i)),
     (''old_code'', PStr (ci_old_code i)), (''new_code'', PStr (ci_new_code i)), (''elevated'', PBool (ci_elevated i))]"

definition evaluate_criticality :: "kernel_lib \<Rightarrow> criticality_input \<Rightarrow> criticality_assessment kernel_res" where
  "evaluate_criticality lib i =
     kbind (call_criticality_kernel lib (criticality_payload i)) (parse_criticality_assessment lib)"

text \<open>The other two calls: any \<open>ValueError\<close> is a rejection, every other exception is passed on.\<close>

definition call_json_kernel_function ::
  "kernel_lib \<Rightarrow> string \<Rightarrow> pyval \<Rightarrow> string \<Rightarrow> (pykey \<times> pyval) list kernel_res" where
  "call_json_kernel_function lib function_name payload rejection_context =
     kbind (load_kernel lib) (\<lambda>k.
       if \<not> has_function k function_name then Inl (KernelError (''rust kernel does not expose '' @ function_name))
       else case call_function k function_name payload of
         Raised e \<Rightarrow>
           if exn_kind e = ValueErr
           then Inl (KernelError (''rust kernel rejected '' @ rejection_context @ '': '' @ exn_msg e))
           else Inl (NativeError e)
       | CriticalityRaised text \<Rightarrow> Inl (NativeError (Exn OtherErr ''CriticalityEvaluationError'' text))
       | Returned raw \<Rightarrow> parse_object lib ''rust kernel returned invalid JSON''
           ''rust kernel returned non-object JSON'' raw)"

definition shape_type_error :: py_exn where
  "shape_type_error = Exn TypeErr ''TypeError'' ''invalid shape''"

definition subscript :: "pyval \<Rightarrow> string \<Rightarrow> pyval res" where
  "subscript v key = (case v of
     PDict d \<Rightarrow> (case map_of d (KStr key) of None \<Rightarrow> Inl (Exn LookupErr ''KeyError'' (repr_str key)) | Some x \<Rightarrow> Inr x)
   | _ \<Rightarrow> Inl shape_type_error)"

text \<open>\<open>tuple(str(x) for x in value)\<close>: a list, the characters of a string, the keys of a dictionary.\<close>

definition strings_of :: "pyval \<Rightarrow> string list res" where
  "strings_of v = (case v of
     PList xs \<Rightarrow> Inr (map str_val xs)
   | PTuple xs \<Rightarrow> Inr (map str_val xs)
   | PStr s \<Rightarrow> Inr (map (\<lambda>c. [c]) s)
   | PDict d \<Rightarrow> Inr (map (\<lambda>kv. case fst kv of KStr s \<Rightarrow> s | k \<Rightarrow> repr_key k) d)
   | _ \<Rightarrow> Inl shape_type_error)"

definition with_shape :: "string \<Rightarrow> 'a res \<Rightarrow> 'a kernel_res" where
  "with_shape message r = (case r of
     Inr x \<Rightarrow> Inr x
   | Inl e \<Rightarrow> if exn_kind e \<in> {LookupErr, TypeErr, ValueErr} then Inl (KernelError message) else Inl (NativeError e))"

definition float_at :: "kernel_lib \<Rightarrow> pyval \<Rightarrow> string \<Rightarrow> string res" where
  "float_at lib v key = rbind (subscript v key) (to_float lib)"

definition int_at :: "kernel_lib \<Rightarrow> pyval \<Rightarrow> string \<Rightarrow> int res" where
  "int_at lib v key = rbind (subscript v key) (to_int lib)"

definition str_at :: "pyval \<Rightarrow> string \<Rightarrow> string res" where
  "str_at v key = rbind (subscript v key) (\<lambda>x. Inr (str_val x))"

definition evaluate_agent_action :: "kernel_lib \<Rightarrow> agent_action \<Rightarrow> agent_assessment kernel_res" where
  "evaluate_agent_action lib action =
     kbind (call_json_kernel_function lib ''evaluate_agent_action''
         (dict_val [(''file_path'', PStr (aa_file_path action)), (''action_type'', PStr (aa_action_type action)),
            (''raw_code'', PStr (aa_raw_code action))]) ''agent action'') (\<lambda>result.
       with_shape ''rust kernel returned invalid assessment shape''
         (rbind (float_at lib (PDict result) ''criticality_index'') (\<lambda>index.
          rbind (str_at (PDict result) ''risk_level'') (\<lambda>level.
          rbind (rbind (subscript (PDict result) ''reasons'') strings_of) (\<lambda>reasons.
            Inr \<lparr>aa_criticality_index = index, aa_risk_level = level, aa_reasons = reasons\<rparr>)))))"

definition subjective_payload :: "subjective_risk_input \<Rightarrow> pyval" where
  "subjective_payload i = dict_val
     [(''file_path'', PStr (sr_file_path i)), (''action_type'', PStr (sr_action_type i)),
      (''system_risk'', PFloat (system_risk i)), (''old_code'', PStr (sr_old_code i)),
      (''new_code'', PStr (sr_new_code i)),
      (''human_context'', dict_val
         [(''days_since_edit'', PFloat (days_since_edit (sr_human_context i))),
          (''days_since_burst'', PFloat (days_since_burst (sr_human_context i))),
          (''line_ownership_ratio'', PFloat (line_ownership_ratio (sr_human_context i))),
          (''is_explicitly_locked'', PBool (is_explicitly_locked (sr_human_context i)))])]"

definition evaluate_subjective_risk ::
  "kernel_lib \<Rightarrow> subjective_risk_input \<Rightarrow> subjective_risk_assessment kernel_res" where
  "evaluate_subjective_risk lib i =
     kbind (call_json_kernel_function lib ''evaluate_subjective_risk'' (subjective_payload i)
         ''subjective risk input'') (\<lambda>result.
       with_shape ''rust kernel returned invalid subjective risk shape''
         (rbind (subscript (PDict result) ''semantic_metrics'') (\<lambda>metrics.
          rbind (float_at lib (PDict result) ''total_criticality'') (\<lambda>total.
          rbind (str_at (PDict result) ''judgment'') (\<lambda>judged.
          rbind (rbind (subscript (PDict result) ''reasons'') strings_of) (\<lambda>reasons.
          rbind (float_at lib (PDict result) ''human_multiplier'') (\<lambda>multiplier.
          rbind (float_at lib (PDict result) ''destruction_penalty'') (\<lambda>penalty.
          rbind (int_at lib metrics ''old_node_count'') (\<lambda>old_nodes.
          rbind (int_at lib metrics ''new_node_count'') (\<lambda>new_nodes.
          rbind (int_at lib metrics ''old_token_count'') (\<lambda>old_tokens.
          rbind (int_at lib metrics ''new_token_count'') (\<lambda>new_tokens.
          rbind (int_at lib metrics ''matched_node_count'') (\<lambda>matched.
          rbind (float_at lib metrics ''survival_ratio'') (\<lambda>ratio.
            Inr \<lparr>total_criticality = total, risk_judgment = judged, sa_reasons = reasons,
              human_multiplier = multiplier, destruction_penalty = penalty,
              sa_semantic_metrics = \<lparr>old_node_count = old_nodes, new_node_count = new_nodes,
                old_token_count = old_tokens, new_token_count = new_tokens, matched_node_count = matched,
                survival_ratio = ratio\<rparr>\<rparr>))))))))))))))"

definition engine_version :: "kernel_lib \<Rightarrow> string" where
  "engine_version lib = (case kernel lib of
     Some k \<Rightarrow> if has_function k ''engine_version'' then version_text k else ''python-fallback''
   | None \<Rightarrow> ''python-fallback'')"

definition rust_kernel_status :: "kernel_lib \<Rightarrow> bool \<times> string option" where
  "rust_kernel_status lib =
     (kernel lib \<noteq> None, if kernel lib \<noteq> None then Some (engine_version lib) else None)"

section \<open>Path checks without the kernel\<close>

definition is_alpha :: "char \<Rightarrow> bool" where
  "is_alpha c = (let n = codept c in
     65 \<le> n \<and> n \<le> 90 \<or> 97 \<le> n \<and> n \<le> 122 \<or> n = 170 \<or> n = 181 \<or> n = 186 \<or>
     192 \<le> n \<and> n \<noteq> 215 \<and> n \<noteq> 247)"

definition fallback_precheck_error_code :: "string \<Rightarrow> string option" where
  "fallback_precheck_error_code path =
     (if CHR 0x00 \<in> set path then Some ''null-byte''
      else let normalized = strip (slashed path) in
        if normalized = [] then Some ''empty-path''
        else if starts_with normalized ''/'' then Some ''absolute-path''
        else if 2 \<le> length normalized \<and> normalized ! 1 = CHR '':'' \<and> is_alpha (normalized ! 0)
          then Some ''windows-rooted-path''
        else if list_ex (\<lambda>part. part = ''..'') (split_on (CHR ''/'') normalized) then Some ''parent-traversal''
        else None)"

definition fallback_reason_for_code :: "string \<Rightarrow> string \<Rightarrow> string" where
  "fallback_reason_for_code path error_code =
     (if error_code = ''empty-path'' then ''path must not be empty''
      else if error_code = ''absolute-path'' then ''path must be repository-relative: '' @ path
      else if error_code = ''parent-traversal'' then ''path must not traverse outside the repository: '' @ path
      else if error_code = ''windows-rooted-path'' then ''windows-rooted path is not allowed: '' @ path
      else if error_code = ''null-byte'' then ''path must not contain NUL bytes''
      else ''invalid path: '' @ path)"

definition path_outcome :: "bool \<Rightarrow> string option \<Rightarrow> string option \<Rightarrow> string option \<Rightarrow> bool \<Rightarrow> dict" where
  "path_outcome safe normalized error_code reason is_sentinel =
     [(''safe'', PBool safe), (''normalized_path'', opt_val normalized), (''error_code'', opt_val error_code),
      (''reason'', opt_val reason), (''is_sentinel'', PBool is_sentinel)]"

definition fallback_error_code :: "string \<Rightarrow> string" where
  "fallback_error_code path = (case fallback_precheck_error_code path of Some code \<Rightarrow> code | None \<Rightarrow> ''invalid-path'')"

definition unsafe_path_outcome :: "string \<Rightarrow> py_exn \<Rightarrow> dict" where
  "unsafe_path_outcome path e = path_outcome False None (Some (fallback_error_code path)) (Some (exn_msg e)) False"

definition unsafe_path_outcome_from_code :: "string \<Rightarrow> string \<Rightarrow> dict" where
  "unsafe_path_outcome_from_code path code =
     path_outcome False None (Some code) (Some (fallback_reason_for_code path code)) False"

text \<open>The checks of both validators once the text to check is known; \<open>path\<close> is what the messages name.\<close>

definition fallback_outcome :: "string \<Rightarrow> string \<Rightarrow> dict" where
  "fallback_outcome path checked = (case fallback_precheck_error_code checked of
     Some code \<Rightarrow> unsafe_path_outcome_from_code path code
   | None \<Rightarrow> (case normalize_repo_relative_path checked of
       Inl e \<Rightarrow> unsafe_path_outcome path e
     | Inr normalized \<Rightarrow> path_outcome True (Some normalized) None None False))"

definition native_path_function :: "kernel_lib \<Rightarrow> string \<Rightarrow> (string \<Rightarrow> dict res) option" where
  "native_path_function lib name = (case kernel lib of
     Some k \<Rightarrow> if has_function k name then Some (path_function k name) else None
   | None \<Rightarrow> None)"

definition validate_repo_relative_path :: "kernel_lib \<Rightarrow> string \<Rightarrow> dict res" where
  "validate_repo_relative_path lib path = (case native_path_function lib ''validate_repo_relative_path'' of
     Some f \<Rightarrow> f path
   | None \<Rightarrow> Inr (fallback_outcome path path))"

definition validate_patch_path :: "kernel_lib \<Rightarrow> string \<Rightarrow> dict res" where
  "validate_patch_path lib path = (case native_path_function lib ''validate_patch_path'' of
     Some f \<Rightarrow> f path
   | None \<Rightarrow>
       (let trimmed = strip path in
        if trimmed = ''/dev/null'' then Inr (path_outcome True None None None True)
        else Inr (fallback_outcome path
          (if starts_with trimmed ''a/'' \<or> starts_with trimmed ''b/'' then drop 2 trimmed else trimmed))))"

definition sensitivity :: "string \<Rightarrow> string \<Rightarrow> string \<Rightarrow> dict" where
  "sensitivity category severity reason =
     [(''category'', PStr category), (''severity'', PStr severity), (''reason'', PStr reason)]"

definition has_segment :: "string list \<Rightarrow> string list \<Rightarrow> bool" where
  "has_segment segs names = list_ex (\<lambda>s. s \<in> set names) segs"

definition is_secret_path :: "string list \<Rightarrow> string \<Rightarrow> bool" where
  "is_secret_path segs file_name =
     (file_name = ''.env'' \<or> starts_with file_name ''.env.'' \<or>
      list_ex (ends_with file_name) [''.pem'', ''.key'', ''.p12'', ''.pfx''] \<or>
      has_segment segs [''secrets'', ''.secrets'', ''credentials'', ''.credentials''])"

definition is_ci_path :: "string list \<Rightarrow> bool" where
  "is_ci_path segs = (take 2 segs = [''.github'', ''workflows''] \<or> take 1 segs = [''.gitlab''] \<or>
     ''.circleci'' \<in> set segs)"

definition is_policy_path :: "string list \<Rightarrow> bool" where
  "is_policy_path segs = (take 1 segs = [''policies''] \<or> ''policies'' \<in> set segs)"

definition is_dependency_file :: "string \<Rightarrow> bool" where
  "is_dependency_file file_name = (file_name \<in> {''go.mod'', ''go.sum'', ''cargo.toml'', ''cargo.lock'', ''package.json'',
     ''package-lock.json'', ''pnpm-lock.yaml'', ''yarn.lock'', ''pyproject.toml'', ''requirements.txt'',
     ''requirements-dev.txt'', ''poetry.lock'', ''pipfile'', ''pipfile.lock''})"

definition is_config_path :: "string list \<Rightarrow> string \<Rightarrow> bool" where
  "is_config_path segs file_name =
     (contains file_name ''config'' \<or> contains file_name ''settings'' \<or>
      file_name \<in> {''.gitignore'', ''.dockerignore'', ''dockerfile'', ''docker-compose.yml'', ''docker-compose.yaml''} \<or>
      has_segment segs [''config'', ''configs'', ''.config''])"

definition is_generated_path :: "string list \<Rightarrow> bool" where
  "is_generated_path segs = has_segment segs
     [''node_modules'', ''__pycache__'', ''.pytest_cache'', ''target'', ''dist'', ''build'', ''.mypy_cache'',
      ''.ruff_cache'', ''.venv'', ''vendor'']"

definition kernel_is_test_path :: "string list \<Rightarrow> string \<Rightarrow> bool" where
  "kernel_is_test_path segs file_name =
     (has_segment segs [''test'', ''tests'', ''__tests__''] \<or> starts_with file_name ''test_'' \<or>
      list_ex (ends_with file_name) [''_test.py'', ''_test.go'', ''.test.ts'', ''.test.tsx''])"

definition kernel_is_documentation_path :: "string list \<Rightarrow> string \<Rightarrow> bool" where
  "kernel_is_documentation_path segs file_name =
     (has_segment segs [''docs'', ''doc'', ''documentation''] \<or>
      file_name \<in> {''readme.md'', ''license'', ''license.md''} \<or> list_ex (ends_with file_name) [''.md'', ''.rst''])"

definition path_sensitivity :: "string list \<Rightarrow> dict" where
  "path_sensitivity segs =
     (let file_name = last segs in
      if is_secret_path segs file_name
        then sensitivity ''secret'' ''critical'' ''path appears to contain secrets or credentials''
      else if is_ci_path segs
        then sensitivity ''ci'' ''high'' ''path modifies CI/CD automation or workflow configuration''
      else if is_policy_path segs then sensitivity ''policy'' ''high'' ''path modifies Rygnal policy configuration''
      else if is_dependency_file file_name
        then sensitivity ''dependency'' ''high'' ''path modifies dependency or package manager metadata''
      else if is_config_path segs file_name
        then sensitivity ''config'' ''medium'' ''path modifies configuration or settings''
      else if is_generated_path segs
        then sensitivity ''generated'' ''low'' ''path is generated, cached, vendored, or build output''
      else if kernel_is_test_path segs file_name
        then sensitivity ''test'' ''low'' ''path appears to be test code or test data''
      else if kernel_is_documentation_path segs file_name
        then sensitivity ''documentation'' ''low'' ''path appears to be documentation''
      else sensitivity ''normal'' ''medium'' ''path has no special sensitivity classification'')"

definition classify_path_sensitivity :: "kernel_lib \<Rightarrow> string \<Rightarrow> dict res" where
  "classify_path_sensitivity lib path = (case native_path_function lib ''classify_path_sensitivity'' of
     Some f \<Rightarrow> f path
   | None \<Rightarrow> rbind (normalize_repo_relative_path path) (\<lambda>normalized.
       Inr (path_sensitivity (split_on (CHR ''/'') (lower normalized)))))"

section \<open>What an answer must be\<close>

definition number_field :: "kernel_lib \<Rightarrow> (pykey \<times> pyval) list \<Rightarrow> string \<Rightarrow> string \<Rightarrow> bool" where
  "number_field lib d key r = (dict_get d key = PFloat r \<or> (\<exists>i. dict_get d key = PInt i \<and> to_float lib (PInt i) = Inr r))"

definition metrics_typed :: "kernel_lib \<Rightarrow> (pykey \<times> pyval) list \<Rightarrow> semantic_metrics \<Rightarrow> bool" where
  "metrics_typed lib d m =
     (dict_get d ''old_node_count'' = PInt (old_node_count m) \<and> dict_get d ''new_node_count'' = PInt (new_node_count m) \<and>
      dict_get d ''old_token_count'' = PInt (old_token_count m) \<and> dict_get d ''new_token_count'' = PInt (new_token_count m) \<and>
      dict_get d ''matched_node_count'' = PInt (matched_node_count m) \<and>
      number_field lib d ''survival_ratio'' (survival_ratio m))"

definition assessment_typed :: "kernel_lib \<Rightarrow> (pykey \<times> pyval) list \<Rightarrow> criticality_assessment \<Rightarrow> bool" where
  "assessment_typed lib d a =
     (number_field lib d ''criticality_index'' (ca_criticality_index a) \<and>
      dict_get d ''risk_level'' = PStr (ca_risk_level a) \<and>
      dict_get d ''reasons'' = PList (map PStr (ca_reasons a)) \<and>
      dict_get d ''path_category'' = PStr (ca_path_category a) \<and>
      dict_get d ''path_severity'' = PStr (ca_path_severity a) \<and>
      (\<exists>m. dict_get d ''semantic_metrics'' = PDict m \<and> metrics_typed lib m (ca_semantic_metrics a)))"

lemma uncaught_iff: "uncaught r = Inr x \<longleftrightarrow> r = Inr x" "uncaught r = Inl e \<longleftrightarrow> (\<exists>y. r = Inl y \<and> e = NativeError y)"
  by (cases r; auto)+

lemma all_strings_iff: "all_strings vs = Some ss \<longleftrightarrow> vs = map PStr ss"
  by (induction vs arbitrary: ss rule: all_strings.induct) (auto simp: Cons_eq_map_conv)

lemma require_iff:
  "require_dict d k msg = Inr x \<longleftrightarrow> dict_get d k = PDict x"
  "require_string d k msg = Inr s \<longleftrightarrow> dict_get d k = PStr s"
  "require_string_tuple d k msg = Inr ss \<longleftrightarrow> dict_get d k = PList (map PStr ss)"
  "require_int d k msg = Inr i \<longleftrightarrow> dict_get d k = PInt i"
  "require_number lib d k msg = Inr r \<longleftrightarrow> number_field lib d k r"
  by (cases "dict_get d k"; simp add: require_dict_def require_string_def require_int_def require_number_def
        number_field_def uncaught_iff require_string_tuple_def all_strings_iff [symmetric] split: option.split)+

lemma parse_metrics_iff: "parse_semantic_metrics lib d = Inr m \<longleftrightarrow> metrics_typed lib d m"
  by (cases m) (auto simp: parse_semantic_metrics_def metrics_typed_def Let_def kbind_Inr_iff require_iff)

lemma parse_assessment_iff: "parse_criticality_assessment lib d = Inr a \<longleftrightarrow> assessment_typed lib d a"
  by (cases a)
     (auto simp: parse_criticality_assessment_def assessment_typed_def Let_def kbind_Inr_iff require_iff parse_metrics_iff)

lemma parse_object_iff: "parse_object lib m n raw = Inr d \<longleftrightarrow> json_loads lib raw = Some (PDict d)"
  by (auto simp: parse_object_def split: option.splits pyval.splits)


section \<open>The fallback path check\<close>

definition drive_letter :: "string \<Rightarrow> bool" where
  "drive_letter s = (2 \<le> length s \<and> s ! 1 = CHR '':'' \<and> is_alpha (s ! 0))"

text \<open>Without the kernel a path is safe precisely when it normalizes and has no NUL and no drive letter.\<close>

lemma fallback_safe_iff:
  "fallback_outcome path checked = path_outcome True (Some t) None None False \<longleftrightarrow>
     normalize_repo_relative_path checked = Inr t \<and> CHR 0x00 \<notin> set checked \<and> \<not> drive_letter (strip (slashed checked))"
proof -
  let ?s = "strip (slashed checked)"
  have parts: "normalize_repo_relative_path checked = Inr t \<Longrightarrow>
      ?s \<noteq> [] \<and> \<not> starts_with ?s ''/'' \<and> \<not> list_ex (\<lambda>part. part = ''..'') (split_on (CHR ''/'') ?s)"
    by (auto simp: normalize_repo_relative_path_def Let_def is_absolute_def posix_path_def path_parts_def list_ex_iff
        split: if_splits)
  have pre: "fallback_precheck_error_code checked = None \<longleftrightarrow> CHR 0x00 \<notin> set checked \<and> ?s \<noteq> [] \<and>
      \<not> starts_with ?s ''/'' \<and> \<not> drive_letter ?s \<and> \<not> list_ex (\<lambda>part. part = ''..'') (split_on (CHR ''/'') ?s)"
    by (auto simp: fallback_precheck_error_code_def Let_def drive_letter_def)
  show ?thesis
    using parts pre
    by (auto simp: fallback_outcome_def path_outcome_def unsafe_path_outcome_def unsafe_path_outcome_from_code_def
        split: option.splits sum.splits)
qed

end
