(* ===== verification/Diff_Limits.thy ===== *)
theory Diff_Limits
  imports Patch_Model
begin

text \<open>
  \<open>src/rygnal/diff_limits.py\<close>: the size limits of a patch. Above a soft limit a patch needs approval, above a
  hard limit it is critical. The order of risk levels and the loop for the highest one are shared with the
  classification of changes.
\<close>

section \<open>Levels\<close>

fun risk_level_order :: "risk_level \<Rightarrow> nat" where
  "risk_level_order LOW = 0"
| "risk_level_order MEDIUM = 1"
| "risk_level_order HIGH = 2"
| "risk_level_order CRITICAL = 3"

text \<open>The loop that keeps the first of the highest levels.\<close>

fun highest_risk :: "risk_level \<Rightarrow> risk_level list \<Rightarrow> risk_level" where
  "highest_risk highest [] = highest"
| "highest_risk highest (l # ls) =
     highest_risk (if risk_level_order l > risk_level_order highest then l else highest) ls"

lemma risk_level_order_inject [simp]: "risk_level_order a = risk_level_order b \<longleftrightarrow> a = b"
  by (cases a; cases b) simp_all

lemma highest_risk_max:
  "risk_level_order (highest_risk l ls) = Max (set (map risk_level_order (l # ls)))"
proof (induction ls arbitrary: l)
  case (Cons x ls)
  show ?case
  proof (cases "risk_level_order l < risk_level_order x")
    case True
    then have "Max (set (map risk_level_order (l # x # ls))) = Max (set (map risk_level_order (x # ls)))"
      by (cases ls) (auto simp: max_def)
    with True show ?thesis using Cons by simp
  next
    case False
    then have "Max (set (map risk_level_order (l # x # ls))) = Max (set (map risk_level_order (l # ls)))"
      by (cases ls) (auto simp: max_def)
    with False show ?thesis using Cons by simp
  qed
qed simp

lemma highest_risk_ge: "x \<in> set (l # ls) \<Longrightarrow> risk_level_order x \<le> risk_level_order (highest_risk l ls)"
  unfolding highest_risk_max by (rule Max_ge) auto

lemma highest_risk_mem: "highest_risk l ls \<in> set (l # ls)"
  by (induction ls arbitrary: l) auto

lemma level_bounds: "risk_level_order l \<le> 3" "risk_level_order LOW \<le> risk_level_order l"
  by (cases l; simp)+

lemma highest_risk_critical: "highest_risk l ls = CRITICAL \<longleftrightarrow> CRITICAL \<in> set (l # ls)"
  using highest_risk_ge [of CRITICAL l ls] highest_risk_mem [of l ls] level_bounds
  by (metis nle_le risk_level_order.simps(4) risk_level_order_inject)

lemma highest_risk_low: "highest_risk LOW ls = LOW \<longleftrightarrow> set ls \<subseteq> {LOW}"
proof
  assume "highest_risk LOW ls = LOW"
  then have "risk_level_order x \<le> 0" if "x \<in> set ls" for x
    using highest_risk_ge [of x LOW ls] that by simp
  then show "set ls \<subseteq> {LOW}" using risk_level_order_inject [of _ LOW] by fastforce
next
  assume "set ls \<subseteq> {LOW}"
  then show "highest_risk LOW ls = LOW" using highest_risk_mem [of LOW ls] by auto
qed

section \<open>Limits\<close>

record diff_limit_policy =
  soft_max_changed_files :: int
  soft_max_total_changed_lines :: int
  soft_max_patch_size_bytes :: int
  soft_max_binary_files :: int
  hard_max_changed_files :: int
  hard_max_total_changed_lines :: int
  hard_max_patch_size_bytes :: int
  hard_max_binary_files :: int

definition limit_error :: "string \<Rightarrow> py_exn" where
  "limit_error msg = Exn ValueErr ''ValueError'' msg"

definition validate_limit_pair :: "string \<Rightarrow> int \<Rightarrow> int \<Rightarrow> bool \<Rightarrow> unit res" where
  "validate_limit_pair metric soft_limit hard_limit allow_zero_soft =
     (let min_soft = (if allow_zero_soft then 0 else 1) in
      if soft_limit < min_soft
        then Inl (limit_error (metric @ '' soft limit must be at least '' @ show_int min_soft @ ''.''))
      else if hard_limit < 1 then Inl (limit_error (metric @ '' hard limit must be at least 1.''))
      else if soft_limit > hard_limit then Inl (limit_error (metric @ '' soft limit must be <= hard limit.''))
      else Inr ())"

definition make_diff_limit_policy :: "diff_limit_policy \<Rightarrow> diff_limit_policy res" where
  "make_diff_limit_policy p =
     rbind (validate_limit_pair ''changed_files'' (soft_max_changed_files p) (hard_max_changed_files p) False) (\<lambda>_.
     rbind (validate_limit_pair ''total_changed_lines'' (soft_max_total_changed_lines p)
       (hard_max_total_changed_lines p) False) (\<lambda>_.
     rbind (validate_limit_pair ''patch_size_bytes'' (soft_max_patch_size_bytes p) (hard_max_patch_size_bytes p) False) (\<lambda>_.
     rbind (validate_limit_pair ''binary_files'' (soft_max_binary_files p) (hard_max_binary_files p) True) (\<lambda>_.
       Inr p))))"

definition DEFAULT_DIFF_LIMIT_POLICY :: diff_limit_policy where
  "DEFAULT_DIFF_LIMIT_POLICY =
     \<lparr>soft_max_changed_files = 25, soft_max_total_changed_lines = 800, soft_max_patch_size_bytes = 100000,
      soft_max_binary_files = 0, hard_max_changed_files = 250, hard_max_total_changed_lines = 10000,
      hard_max_patch_size_bytes = 1000000, hard_max_binary_files = 10\<rparr>"

definition limit_policy_summary :: "diff_limit_policy \<Rightarrow> dict" where
  "limit_policy_summary p =
     [(''soft_max_changed_files'', PInt (soft_max_changed_files p)),
      (''soft_max_total_changed_lines'', PInt (soft_max_total_changed_lines p)),
      (''soft_max_patch_size_bytes'', PInt (soft_max_patch_size_bytes p)),
      (''soft_max_binary_files'', PInt (soft_max_binary_files p)),
      (''hard_max_changed_files'', PInt (hard_max_changed_files p)),
      (''hard_max_total_changed_lines'', PInt (hard_max_total_changed_lines p)),
      (''hard_max_patch_size_bytes'', PInt (hard_max_patch_size_bytes p)),
      (''hard_max_binary_files'', PInt (hard_max_binary_files p))]"

record diff_limit_reason =
  dl_code :: string
  dl_risk_level :: risk_level
  dl_reason :: string
  dl_metric :: string
  dl_observed :: int
  dl_limit :: int

definition limit_evidence :: "diff_limit_reason \<Rightarrow> dict" where
  "limit_evidence r = [(''limit'', PInt (dl_limit r)), (''metric'', PStr (dl_metric r)), (''observed'', PInt (dl_observed r))]"

definition limit_reason_summary :: "diff_limit_reason \<Rightarrow> dict" where
  "limit_reason_summary r = [(''code'', PStr (dl_code r)), (''risk_level'', PStr (risk_level_value (dl_risk_level r))),
     (''reason'', PStr (dl_reason r)), (''evidence'', dict_val (limit_evidence r))]"

record diff_limit_report =
  dr_patch_sha256 :: string
  dr_baseline_commit_sha :: string
  dr_changed_file_count :: int
  dr_total_additions :: int
  dr_total_deletions :: int
  dr_total_changed_lines :: int
  dr_patch_size_bytes :: int
  dr_binary_file_count :: int
  dr_policy :: diff_limit_policy
  dr_reasons :: "diff_limit_reason list"

definition hard_limit_exceeded :: "diff_limit_report \<Rightarrow> bool" where
  "hard_limit_exceeded r = list_ex (\<lambda>x. dl_risk_level x = CRITICAL) (dr_reasons r)"

definition approval_limit_exceeded :: "diff_limit_report \<Rightarrow> bool" where
  "approval_limit_exceeded r = list_ex (\<lambda>x. dl_risk_level x = HIGH) (dr_reasons r)"

definition limit_overall_risk_level :: "diff_limit_report \<Rightarrow> risk_level" where
  "limit_overall_risk_level r = highest_risk LOW (map dl_risk_level (dr_reasons r))"

definition limit_report_summary :: "diff_limit_report \<Rightarrow> dict" where
  "limit_report_summary r =
     [(''patch_sha256'', PStr (dr_patch_sha256 r)), (''baseline_commit_sha'', PStr (dr_baseline_commit_sha r)),
      (''changed_file_count'', PInt (dr_changed_file_count r)), (''total_additions'', PInt (dr_total_additions r)),
      (''total_deletions'', PInt (dr_total_deletions r)), (''total_changed_lines'', PInt (dr_total_changed_lines r)),
      (''patch_size_bytes'', PInt (dr_patch_size_bytes r)), (''binary_file_count'', PInt (dr_binary_file_count r)),
      (''hard_limit_exceeded'', PBool (hard_limit_exceeded r)),
      (''approval_limit_exceeded'', PBool (approval_limit_exceeded r)),
      (''overall_risk_level'', PStr (risk_level_value (limit_overall_risk_level r))),
      (''policy'', dict_val (limit_policy_summary (dr_policy r))),
      (''reasons'', PTuple (map (\<lambda>x. dict_val (limit_reason_summary x)) (dr_reasons r)))]"

definition limit_reason :: "string \<Rightarrow> int \<Rightarrow> int \<Rightarrow> int \<Rightarrow> diff_limit_reason option" where
  "limit_reason metric observed soft_limit hard_limit =
     (if observed > hard_limit
      then Some \<lparr>dl_code = ''hard-diff-'' @ metric, dl_risk_level = CRITICAL,
        dl_reason = ''Patch exceeds hard '' @ replace_char (CHR ''_'') (CHR '' '') metric @ '' limit.'',
        dl_metric = metric, dl_observed = observed, dl_limit = hard_limit\<rparr>
      else if observed > soft_limit
      then Some \<lparr>dl_code = ''large-diff-'' @ metric, dl_risk_level = HIGH,
        dl_reason = ''Patch exceeds reviewable auto-apply '' @ replace_char (CHR ''_'') (CHR '' '') metric @ '' limit.'',
        dl_metric = metric, dl_observed = observed, dl_limit = soft_limit\<rparr>
      else None)"

definition diff_limit_reasons :: "patch_diff \<Rightarrow> diff_limit_policy \<Rightarrow> diff_limit_reason list" where
  "diff_limit_reasons d policy = List.map_filter (\<lambda>r. r)
     [limit_reason ''changed_files'' (changed_file_count d) (soft_max_changed_files policy) (hard_max_changed_files policy),
      limit_reason ''total_changed_lines'' (total_additions d + total_deletions d)
        (soft_max_total_changed_lines policy) (hard_max_total_changed_lines policy),
      limit_reason ''patch_size_bytes'' (pf_patch_size_bytes d) (soft_max_patch_size_bytes policy)
        (hard_max_patch_size_bytes policy),
      limit_reason ''binary_files'' (binary_file_count d) (soft_max_binary_files policy) (hard_max_binary_files policy)]"

definition evaluate_diff_limits :: "patch_diff \<Rightarrow> diff_limit_policy \<Rightarrow> diff_limit_report" where
  "evaluate_diff_limits d policy =
     \<lparr>dr_patch_sha256 = pf_patch_sha256 d, dr_baseline_commit_sha = pf_baseline_commit_sha d,
      dr_changed_file_count = changed_file_count d, dr_total_additions = total_additions d,
      dr_total_deletions = total_deletions d, dr_total_changed_lines = total_additions d + total_deletions d,
      dr_patch_size_bytes = pf_patch_size_bytes d, dr_binary_file_count = binary_file_count d,
      dr_policy = policy, dr_reasons = diff_limit_reasons d policy\<rparr>"

definition sized_within :: "patch_diff \<Rightarrow> int \<Rightarrow> int \<Rightarrow> int \<Rightarrow> int \<Rightarrow> bool" where
  "sized_within d max_files max_lines max_bytes max_binary =
     (changed_file_count d \<le> max_files \<and> total_additions d + total_deletions d \<le> max_lines \<and>
      pf_patch_size_bytes d \<le> max_bytes \<and> binary_file_count d \<le> max_binary)"

abbreviation within_hard :: "diff_limit_policy \<Rightarrow> patch_diff \<Rightarrow> bool" where
  "within_hard p d \<equiv> sized_within d (hard_max_changed_files p) (hard_max_total_changed_lines p) (hard_max_patch_size_bytes p)
     (hard_max_binary_files p)"

abbreviation within_soft :: "diff_limit_policy \<Rightarrow> patch_diff \<Rightarrow> bool" where
  "within_soft p d \<equiv> sized_within d (soft_max_changed_files p) (soft_max_total_changed_lines p) (soft_max_patch_size_bytes p)
     (soft_max_binary_files p)"

lemma limit_reason_levels:
  "limit_reason m obs soft hard = Some r \<Longrightarrow> dl_risk_level r = (if hard < obs then CRITICAL else HIGH)"
  "limit_reason m obs soft hard = None \<longleftrightarrow> obs \<le> hard \<and> obs \<le> soft"
  by (auto simp: limit_reason_def split: if_splits)

lemma hard_limit_iff: "hard_limit_exceeded (evaluate_diff_limits d p) \<longleftrightarrow> \<not> within_hard p d"
  by (auto simp: hard_limit_exceeded_def evaluate_diff_limits_def diff_limit_reasons_def sized_within_def map_filter_def
      limit_reason_def)

end
