(* ===== verification/Dependency_Governance.thy ===== *)
theory Dependency_Governance
  imports Patch_Model
begin

text \<open>
  \<open>src/rygnal/dependency_governance.py\<close>: which of the changed files are dependency manifests, lock files or
  registry settings, grouped by directory, ecosystem and tool chain, and what the groups require.
\<close>

section \<open>Data\<close>

datatype dependency_file_kind = MANIFEST | LOCKFILE | PRIVATE_REGISTRY_CONFIG

datatype ecosystem_kind = PYTHON | NODE

fun ecosystem_value :: "ecosystem_kind \<Rightarrow> string" where
  "ecosystem_value PYTHON = ''python''"
| "ecosystem_value NODE = ''node''"

datatype toolchain_kind =
  PYTHON_PYPROJECT | PYTHON_REQUIREMENTS | PYTHON_PIPENV | NODE_NPM | NODE_YARN | NODE_PNPM

fun toolchain_value :: "toolchain_kind \<Rightarrow> string" where
  "toolchain_value PYTHON_PYPROJECT = ''python_pyproject''"
| "toolchain_value PYTHON_REQUIREMENTS = ''python_requirements''"
| "toolchain_value PYTHON_PIPENV = ''python_pipenv''"
| "toolchain_value NODE_NPM = ''node_npm''"
| "toolchain_value NODE_YARN = ''node_yarn''"
| "toolchain_value NODE_PNPM = ''node_pnpm''"

record dependency_file_change =
  dc_path :: string
  dc_directory :: string
  dc_ecosystem :: ecosystem_kind
  dc_toolchain :: toolchain_kind
  dc_kind :: dependency_file_kind

record dependency_target =
  dt_directory :: string
  dt_ecosystem :: ecosystem_kind
  dt_toolchain :: toolchain_kind
  dt_manifests :: "string list"
  dt_lockfiles :: "string list"
  dt_private_registry_configs :: "string list"

section \<open>Classification\<close>

definition DependencyGovernanceError :: "string \<Rightarrow> py_exn" where
  "DependencyGovernanceError msg = Exn ValueErr ''DependencyGovernanceError'' msg"

definition normalize_dependency_path :: "string \<Rightarrow> string res" where
  "normalize_dependency_path path =
     (let candidate = posix_path (strip (slashed path))
      in if is_absolute candidate
           then Inl (DependencyGovernanceError (''Dependency path must be repo-relative, got absolute: '' @ path))
         else if path_parts candidate = [] then Inl (DependencyGovernanceError ''Dependency path must not be empty.'')
         else if list_ex (\<lambda>part. part = ''..'') (path_parts candidate)
           then Inl (DependencyGovernanceError (''Dependency path must not traverse outside repository: '' @ path))
         else
           let clean_parts = filter (\<lambda>part. part \<noteq> [] \<and> part \<noteq> ''.'') (path_parts candidate)
           in if clean_parts = [] then Inl (DependencyGovernanceError ''Dependency path must not be empty.'')
              else Inr (join ''/'' clean_parts))"

definition REQUIREMENTS_EXACT :: "string list" where
  "REQUIREMENTS_EXACT = [''requirements.txt'', ''requirements-dev.txt'', ''requirements.prod.txt'', ''requirements.in'',
     ''reqs.txt'']"

definition is_python_requirements_file :: "posix_path \<Rightarrow> bool" where
  "is_python_requirements_file p =
     (path_name p \<in> set REQUIREMENTS_EXACT \<or>
      path_name (path_parent p) \<in> {''requirements'', ''reqs''} \<and> name_suffix (path_name p) \<in> {''.txt'', ''.in''})"

definition dependency_file_type :: "posix_path \<Rightarrow> (ecosystem_kind \<times> toolchain_kind \<times> dependency_file_kind) option" where
  "dependency_file_type p =
     (let filename = path_name p in
      if filename = ''package.json'' then Some (NODE, NODE_NPM, MANIFEST)
      else if filename \<in> {''package-lock.json'', ''npm-shrinkwrap.json''} then Some (NODE, NODE_NPM, LOCKFILE)
      else if filename = ''yarn.lock'' then Some (NODE, NODE_YARN, LOCKFILE)
      else if filename = ''pnpm-lock.yaml'' then Some (NODE, NODE_PNPM, LOCKFILE)
      else if filename = ''.npmrc'' then Some (NODE, NODE_NPM, PRIVATE_REGISTRY_CONFIG)
      else if filename \<in> {''pyproject.toml'', ''setup.py'', ''setup.cfg''} then Some (PYTHON, PYTHON_PYPROJECT, MANIFEST)
      else if filename \<in> {''poetry.lock'', ''uv.lock''} then Some (PYTHON, PYTHON_PYPROJECT, LOCKFILE)
      else if filename = ''Pipfile'' then Some (PYTHON, PYTHON_PIPENV, MANIFEST)
      else if filename = ''Pipfile.lock'' then Some (PYTHON, PYTHON_PIPENV, LOCKFILE)
      else if filename \<in> {''pip.conf'', ''pip.ini'', ''.pypirc''}
        then Some (PYTHON, PYTHON_REQUIREMENTS, PRIVATE_REGISTRY_CONFIG)
      else if is_python_requirements_file p then Some (PYTHON, PYTHON_REQUIREMENTS, MANIFEST)
      else None)"

definition classify_dependency_file_change :: "string \<Rightarrow> dependency_file_change option" where
  "classify_dependency_file_change path = (case normalize_dependency_path path of
     Inl _ \<Rightarrow> None
   | Inr normalized_path \<Rightarrow>
       (let path_obj = posix_path normalized_path in
        map_option (\<lambda>(ecosystem, toolchain, kind).
          \<lparr>dc_path = normalized_path, dc_directory = as_posix (path_parent path_obj), dc_ecosystem = ecosystem,
           dc_toolchain = toolchain, dc_kind = kind\<rparr>) (dependency_file_type path_obj)))"

text \<open>The grouping dictionary, read off in the order of its sorted keys.\<close>

definition group_key :: "dependency_file_change \<Rightarrow> string \<times> string \<times> string" where
  "group_key c = (dc_directory c, ecosystem_value (dc_ecosystem c), toolchain_value (dc_toolchain c))"

definition paths_of_kind :: "dependency_file_kind \<Rightarrow> dependency_file_change list \<Rightarrow> string list" where
  "paths_of_kind kind changes = map dc_path (filter (\<lambda>c. dc_kind c = kind) changes)"

definition target_of_group :: "dependency_file_change list \<Rightarrow> dependency_target" where
  "target_of_group changes =
     \<lparr>dt_directory = dc_directory (hd changes), dt_ecosystem = dc_ecosystem (hd changes),
      dt_toolchain = dc_toolchain (hd changes), dt_manifests = paths_of_kind MANIFEST changes,
      dt_lockfiles = paths_of_kind LOCKFILE changes,
      dt_private_registry_configs = paths_of_kind PRIVATE_REGISTRY_CONFIG changes\<rparr>"

definition build_dependency_governance_plan :: "string list \<Rightarrow> dependency_target list" where
  "build_dependency_governance_plan changed_paths =
     (let changes = List.map_filter classify_dependency_file_change (sort (remdups changed_paths))
      in map (\<lambda>key. target_of_group (filter (\<lambda>c. group_key c = key) changes))
           (sort (remdups (map group_key changes))))"

section \<open>Requirements\<close>

definition requires_tree_delta_analysis :: "dependency_target \<Rightarrow> bool" where
  "requires_tree_delta_analysis t = (dt_manifests t \<noteq> [] \<or> dt_lockfiles t \<noteq> [])"

definition requires_manifest_lock_sync_check :: "dependency_target \<Rightarrow> bool" where
  "requires_manifest_lock_sync_check t = (dt_manifests t \<noteq> [] \<or> dt_lockfiles t \<noteq> [])"

definition target_possible_desync :: "dependency_target \<Rightarrow> bool" where
  "target_possible_desync t = (dt_manifests t \<noteq> [] \<or> dt_lockfiles t \<noteq> [])"

definition requires_private_registry_approval :: "dependency_target \<Rightarrow> bool" where
  "requires_private_registry_approval t = (dt_private_registry_configs t \<noteq> [] \<or> dt_manifests t \<noteq> [])"

definition dependency_changes_detected :: "dependency_target list \<Rightarrow> bool" where
  "dependency_changes_detected plan = (plan \<noteq> [])"

definition resolver_environment_required :: "dependency_target list \<Rightarrow> bool" where
  "resolver_environment_required plan = list_ex requires_tree_delta_analysis plan"

definition private_registry_access_requires_approval :: "dependency_target list \<Rightarrow> bool" where
  "private_registry_access_requires_approval plan = list_ex requires_private_registry_approval plan"

definition plan_possible_desync :: "dependency_target list \<Rightarrow> bool" where
  "plan_possible_desync plan = list_ex target_possible_desync plan"

text \<open>The remaining properties of a plan, each the same as one of the above.\<close>

definition plan_flags :: "dependency_target list \<Rightarrow> dict" where
  "plan_flags plan =
     (let detected = PBool (dependency_changes_detected plan); resolver = PBool (resolver_environment_required plan) in
      [(''resolver_environment_required'', resolver),
       (''resolver_environment_must_be_separate_from_host'', detected),
       (''resolver_environment_must_be_separate_from_runtime_workspace'', detected),
       (''shared_writable_cache_allowed'', PBool False),
       (''per_run_writable_cache_allowed'', detected),
       (''shared_readonly_cache_requires_hash_verification'', detected),
       (''transitive_dependency_delta_required'', resolver),
       (''vulnerability_scan_required'', resolver),
       (''network_resolution_requires_approval'', resolver),
       (''private_registry_access_requires_approval'', PBool (private_registry_access_requires_approval plan)),
       (''new_dependency_tree_requires_approval'', resolver),
       (''audit_secret_redaction_required'', detected),
       (''has_possible_manifest_lock_desync'', PBool (plan_possible_desync plan))])"

section \<open>A plan covers every dependency file\<close>

lemma plan_targets:
  "t \<in> set (build_dependency_governance_plan paths) \<Longrightarrow>
     \<exists>p \<in> set paths. \<exists>c. classify_dependency_file_change p = Some c \<and>
       dt_directory t = dc_directory c \<and> dt_ecosystem t = dc_ecosystem c \<and> dt_toolchain t = dc_toolchain c"
proof -
  let ?cs = "List.map_filter classify_dependency_file_change (sort (remdups paths))"
  assume "t \<in> set (build_dependency_governance_plan paths)"
  then obtain c where c: "c \<in> set ?cs" "t = target_of_group (filter (\<lambda>x. group_key x = group_key c) ?cs)"
    by (auto simp: build_dependency_governance_plan_def Let_def)
  let ?g = "filter (\<lambda>x. group_key x = group_key c) ?cs"
  have "?g \<noteq> []" using c(1) by (auto simp: filter_empty_conv)
  then have "hd ?g \<in> set ?cs" using hd_in_set [of ?g] by auto
  then show ?thesis
    using c(2) by (fastforce simp: map_filter_def target_of_group_def)
qed

text \<open>
  Every changed path that is a dependency file is listed, under its own kind, in the one target of its
  directory, ecosystem and tool chain.
\<close>

lemma plan_complete:
  assumes "p \<in> set paths" "classify_dependency_file_change p = Some c"
  shows "\<exists>t \<in> set (build_dependency_governance_plan paths).
    dc_path c \<in> set ((case dc_kind c of MANIFEST \<Rightarrow> dt_manifests | LOCKFILE \<Rightarrow> dt_lockfiles
      | PRIVATE_REGISTRY_CONFIG \<Rightarrow> dt_private_registry_configs) t)"
proof -
  let ?cs = "List.map_filter classify_dependency_file_change (sort (remdups paths))"
  have c: "c \<in> set ?cs" using assms by (force simp: map_filter_def)
  let ?g = "filter (\<lambda>x. group_key x = group_key c) ?cs"
  have "target_of_group ?g \<in> set (build_dependency_governance_plan paths)"
    using c by (auto simp: build_dependency_governance_plan_def Let_def)
  moreover have "dc_path c \<in> set (paths_of_kind (dc_kind c) ?g)"
    using c by (simp add: paths_of_kind_def)
  ultimately show ?thesis
    by (intro bexI [of _ "target_of_group ?g"]) (cases "dc_kind c"; simp add: target_of_group_def)+
qed

lemma plan_detects:
  "dependency_changes_detected (build_dependency_governance_plan paths) \<longleftrightarrow>
     (\<exists>p \<in> set paths. classify_dependency_file_change p \<noteq> None)"
  using plan_targets plan_complete unfolding dependency_changes_detected_def
  by (metis (no_types, lifting) empty_iff list.set(1) list.set_intros(1) neq_Nil_conv not_Some_eq option.distinct(1))

end
