(* ===== verification/Path_Safety.thy ===== *)
theory Path_Safety
  imports Patch_Model Audit_Log
begin

text \<open>
  \<open>src/rygnal/path_safety.py\<close>: the checks on every path that a patch names, in its metadata and in its
  text, before the patch is applied. \<open>Path.resolve\<close>, which follows the links of the file system, is an
  argument; with \<open>None\<close> for the target repository only the forms of the paths are checked.
\<close>

section \<open>Reports\<close>

record path_violation =
  pv_code :: string
  pv_path :: string
  pv_reason :: string

record symlink_target =
  st_path :: string
  st_target :: string

record path_report =
  pr_patch_sha256 :: string
  pr_baseline_commit_sha :: string
  pr_target_repo_path :: "string option"
  pr_checked_paths :: "string list"
  pr_symlink_targets :: "symlink_target list"
  pr_violations :: "path_violation list"

definition report_safe :: "path_report \<Rightarrow> bool" where
  "report_safe r = (pr_violations r = [])"

definition violation :: "string \<Rightarrow> string \<Rightarrow> string \<Rightarrow> path_violation" where
  "violation code path reason = \<lparr>pv_code = code, pv_path = path, pv_reason = reason\<rparr>"

definition path_report_summary :: "path_report \<Rightarrow> dict" where
  "path_report_summary r =
     [(''safe'', PBool (report_safe r)),
      (''patch_sha256'', PStr (pr_patch_sha256 r)),
      (''baseline_commit_sha'', PStr (pr_baseline_commit_sha r)),
      (''target_repo_path'', opt_val (pr_target_repo_path r)),
      (''checked_paths'', PTuple (map PStr (pr_checked_paths r))),
      (''symlink_targets'', PTuple (map (\<lambda>s. dict_val [(''path'', PStr (st_path s)), (''target'', PStr (st_target s))])
         (pr_symlink_targets r))),
      (''violations'', PTuple (map (\<lambda>v. dict_val [(''code'', PStr (pv_code v)), (''path'', PStr (pv_path v)),
         (''reason'', PStr (pv_reason v))]) (pr_violations r)))]"

section \<open>The paths a patch names\<close>

definition metadata_paths :: "patch_diff \<Rightarrow> string list" where
  "metadata_paths d =
     concat (map (\<lambda>f. fd_path f # (case fd_old_path f of None \<Rightarrow> [] | Some p \<Rightarrow> if p = [] then [] else [p])) (pf_files d))"

definition strip_git_prefix :: "string \<Rightarrow> string option" where
  "strip_git_prefix path =
     (if path = ''/dev/null'' then None
      else if starts_with path ''a/'' \<or> starts_with path ''b/'' then Some (drop 2 path) else Some path)"

definition paths_from_diff_git_header :: "string \<Rightarrow> string list" where
  "paths_from_diff_git_header line =
     (case shlex_split line of
        Inl _ \<Rightarrow> [line]
      | Inr parts \<Rightarrow> if length parts < 4 then [line]
          else List.map_filter strip_git_prefix (take 2 (drop 2 parts)))"

definition path_from_file_header :: "string \<Rightarrow> string option" where
  "path_from_file_header line =
     (case shlex_split line of
        Inl _ \<Rightarrow> Some (strip (drop 4 line))
      | Inr parts \<Rightarrow> if length parts < 2 then None else strip_git_prefix (parts ! 1))"

definition line_paths :: "string \<Rightarrow> string list" where
  "line_paths line =
     (if starts_with line ''diff --git '' then paths_from_diff_git_header line
      else if starts_with line ''--- '' \<or> starts_with line ''+++ ''
        then (case path_from_file_header line of None \<Rightarrow> [] | Some p \<Rightarrow> [p])
      else if starts_with line ''rename from '' then [strip (drop (length ''rename from '') line)]
      else if starts_with line ''rename to '' then [strip (drop (length ''rename to '') line)]
      else [])"

definition patch_paths_from_text :: "string \<Rightarrow> string list" where
  "patch_paths_from_text patch = concat (map line_paths (splitlines patch))"

text \<open>\<open>_added_lines_by_path\<close>: a loop over the lines with the current path and the dictionary.\<close>

definition append_added :: "string \<Rightarrow> string \<Rightarrow> (string \<times> string list) list \<Rightarrow> (string \<times> string list) list" where
  "append_added path line d = AList.update path ((case map_of d path of None \<Rightarrow> [] | Some ls \<Rightarrow> ls) @ [line]) d"

definition set_default :: "string \<Rightarrow> (string \<times> string list) list \<Rightarrow> (string \<times> string list) list" where
  "set_default path d = (if map_of d path = None then d @ [(path, [])] else d)"

fun added_lines :: "(string \<Rightarrow> string option) \<Rightarrow> string option \<Rightarrow> (string \<times> string list) list \<Rightarrow> string list \<Rightarrow>
   (string \<times> string list) list" where
  "added_lines header_path current d [] = d"
| "added_lines header_path current d (line # lines) =
     (if starts_with line ''diff --git '' then added_lines header_path None d lines
      else if starts_with line ''+++ ''
        then (let current = header_path line
              in added_lines header_path current (case current of None \<Rightarrow> d | Some p \<Rightarrow> set_default p d) lines)
      else case current of
          None \<Rightarrow> added_lines header_path None d lines
        | Some p \<Rightarrow>
            added_lines header_path current
              (if starts_with line ''+'' \<and> \<not> starts_with line ''+++'' then append_added p (tl line) d else d) lines)"

definition added_lines_by_path :: "string \<Rightarrow> (string \<times> string list) list" where
  "added_lines_by_path patch = added_lines path_from_file_header None [] (splitlines patch)"

definition symlink_targets_from_patch :: "patch_diff \<Rightarrow> symlink_target list" where
  "symlink_targets_from_patch d =
     (let added = added_lines_by_path (pf_patch d)
      in map (\<lambda>f. \<lparr>st_path = fd_path f, st_target =
             (case map_of added (fd_path f) of Some [line] \<Rightarrow> line | _ \<Rightarrow> [])\<rparr>)
           (filter (\<lambda>f. fd_new_mode f = Some ''120000'') (pf_files d)))"

section \<open>The checks\<close>

definition rooted :: "string \<Rightarrow> bool" where
  "rooted s = list_ex (starts_with s) [''/'', [CHR 0x5C], ''//'', [CHR 0x5C, CHR 0x5C]]"

text \<open>\<open>path == directory or path.relative_to(directory)\<close> succeeds.\<close>

definition is_within_directory :: "string \<Rightarrow> string \<Rightarrow> bool" where
  "is_within_directory path directory =
     prefix (path_parts (posix_path directory)) (path_parts (posix_path path))"

fun escapes_from :: "string list \<Rightarrow> string list \<Rightarrow> bool" where
  "escapes_from parts [] = False"
| "escapes_from parts (part # more_parts) =
     (if part = [] \<or> part = ''.'' then escapes_from parts more_parts
      else if part = ''..'' then (if parts = [] then True else escapes_from (butlast parts) more_parts)
      else escapes_from (parts @ [part]) more_parts)"

definition relative_target_escapes_repo :: "string \<Rightarrow> string \<Rightarrow> bool" where
  "relative_target_escapes_repo link_path target =
     escapes_from [] (path_parts (path_parent (posix_path link_path)) @ path_parts (posix_path target))"

type_synonym path_resolver = "string \<Rightarrow> string"

definition path_violations :: "path_resolver \<Rightarrow> string option \<Rightarrow> string \<Rightarrow> path_violation list" where
  "path_violations resolve target_repo path =
     (let raw_path = strip path; normalized = slashed raw_path; posix = posix_path normalized;
          clean_parts = filter (\<lambda>part. part \<noteq> [] \<and> part \<noteq> ''.'') (path_parts posix);
          early =
            (if CHR 0x00 \<in> set raw_path
             then [violation ''null-byte-path'' path ''Patch path must not contain null bytes.''] else []) @
            (if rooted raw_path
             then [violation ''rooted-path'' path ''Patch path must be repository-relative, not filesystem-rooted.'']
             else []) @
            (if has_windows_drive raw_path
             then [violation ''windows-rooted-path'' path ''Patch path must not use a Windows drive or UNC root.'']
             else []) @
            (if list_ex (\<lambda>part. part = ''..'') (path_parts posix)
             then [violation ''parent-directory-path'' path ''Patch path must not contain parent-directory traversal.'']
             else [])
      in if raw_path = [] then [violation ''empty-path'' path ''Patch path must not be empty.'']
         else if clean_parts = []
           then early @ [violation ''empty-normalized-path'' path ''Patch path must not normalize to an empty path.'']
         else early @
           (case target_repo of
              None \<Rightarrow> []
            | Some repo \<Rightarrow>
                let candidate = (if is_absolute posix then as_posix posix else repo @ ''/'' @ join ''/'' clean_parts)
                in if is_within_directory (resolve candidate) (resolve repo) then []
                   else [violation ''outside-repo-boundary'' path
                       ''Patch path resolves outside the trusted repository boundary.'']))"

definition symlink_target_violations ::
  "path_resolver \<Rightarrow> string option \<Rightarrow> symlink_target \<Rightarrow> path_violation list" where
  "symlink_target_violations resolve target_repo link =
     (let target = strip (st_target link); normalized_target = slashed target;
          escaped = relative_target_escapes_repo (st_path link) normalized_target;
          found =
            (if CHR 0x00 \<in> set target
             then [violation ''symlink-target-null-byte'' (st_path link) ''Symlink target must not contain null bytes.'']
             else []) @
            (if rooted target
             then [violation ''symlink-target-rooted'' (st_path link) ''Symlink target must be repository-relative.'']
             else []) @
            (if has_windows_drive target
             then [violation ''symlink-target-windows-rooted'' (st_path link)
                    ''Symlink target must not use a Windows drive or UNC root.''] else []) @
            (if escaped
             then [violation ''symlink-target-outside-repo'' (st_path link)
                    ''Symlink target escapes the trusted repository boundary.''] else [])
      in if target = []
         then [violation ''symlink-target-missing'' (st_path link)
                 ''Symlink target could not be determined from the patch.'']
         else found @
           (case target_repo of
              None \<Rightarrow> []
            | Some repo \<Rightarrow>
                let root = resolve repo; link_parent = as_posix (path_parent (posix_path (st_path link)));
                    candidate = resolve (root @ ''/'' @ link_parent @ ''/'' @ normalized_target)
                in if escaped \<or> found \<noteq> [] \<or> is_within_directory candidate root then []
                   else [violation ''symlink-target-outside-repo'' (st_path link)
                          ''Symlink target resolves outside the trusted repository boundary.'']))"

fun dedupe_violations :: "(string \<times> string) list \<Rightarrow> path_violation list \<Rightarrow> path_violation list" where
  "dedupe_violations seen [] = []"
| "dedupe_violations seen (v # vs) =
     (if (pv_code v, pv_path v) \<in> set seen then dedupe_violations seen vs
      else v # dedupe_violations ((pv_code v, pv_path v) # seen) vs)"

definition validate_paths :: "path_resolver \<Rightarrow> patch_diff \<Rightarrow> string option \<Rightarrow> path_report" where
  "validate_paths resolve d target_repo =
     (let metadata = metadata_paths d; named = patch_paths_from_text (pf_patch d);
          links = symlink_targets_from_patch d;
          all_paths = sort (remdups (metadata @ named));
          violations =
            concat (map (path_violations resolve target_repo) all_paths) @
            concat (map (symlink_target_violations resolve target_repo) links) @
            map (\<lambda>p. violation ''patch-path-metadata-mismatch'' p
                   ''Raw patch references a path missing from patch metadata.'')
              (sort (remdups (filter (\<lambda>p. p \<notin> set metadata) named)))
      in \<lparr>pr_patch_sha256 = pf_patch_sha256 d, pr_baseline_commit_sha = pf_baseline_commit_sha d,
          pr_target_repo_path = target_repo, pr_checked_paths = all_paths, pr_symlink_targets = links,
          pr_violations = dedupe_violations [] violations\<rparr>)"

definition validate_patch_path_forms :: "patch_diff \<Rightarrow> path_report" where
  "validate_patch_path_forms d = validate_paths (\<lambda>p. p) d None"

definition validate_patch_paths :: "path_resolver \<Rightarrow> patch_diff \<Rightarrow> string \<Rightarrow> path_report" where
  "validate_patch_paths resolve d target_repo_path = validate_paths resolve d (Some (resolve target_repo_path))"

definition PathSafetyError :: py_exn where
  "PathSafetyError = Exn RuntimeErr ''PathSafetyError'' ''Patch path safety validation failed.''"

definition ensure_safe :: "path_report \<Rightarrow> path_report res" where
  "ensure_safe report = (if report_safe report then Inr report else Inl PathSafetyError)"

text \<open>The request and the decision that \<open>write_path_safety_audit_event\<close> logs.\<close>

definition guarded_request :: "string \<Rightarrow> string \<Rightarrow> dict \<Rightarrow> string \<Rightarrow> string \<Rightarrow> string \<Rightarrow> dict \<Rightarrow> tool_request" where
  "guarded_request action target summary user agent env metadata =
     \<lparr>tool_name = ''guarded_workspace'', tr_action = Some action, tr_target = Some target,
      tr_input = dict_val summary, user_id = user, agent_id = agent, environment = env, tr_metadata = metadata\<rparr>"

definition path_safety_request :: "path_report \<Rightarrow> string \<Rightarrow> string \<Rightarrow> string \<Rightarrow> string \<Rightarrow> tool_request" where
  "path_safety_request report user agent env trace =
     guarded_request ''validate_patch_paths'' (pr_patch_sha256 report) (path_report_summary report) user agent env
       [(''trace_id'', PStr trace), (''event_type'', PStr ''guarded_workspace.path_safety''),
        (''patch_sha256'', PStr (pr_patch_sha256 report)),
        (''baseline_commit_sha'', PStr (pr_baseline_commit_sha report))]"

definition path_safety_decision :: "path_report \<Rightarrow> policy_decision" where
  "path_safety_decision report =
     \<lparr>pd_decision = (if report_safe report then ALLOW else BLOCK), pd_allowed = report_safe report,
      pd_severity = (if report_safe report then SevLOW else SevCRITICAL),
      pd_reason = (if report_safe report then ''Patch paths are within the trusted repository boundary.''
         else ''Patch contains unsafe paths.''),
      pd_policy_id = Some ''guarded-workspace-path-safety'', pd_explanation = None\<rparr>"

section \<open>What a safe report guarantees\<close>

lemma dedupe_Nil_iff: "dedupe_violations [] vs = [] \<longleftrightarrow> vs = []"
  by (cases vs) simp_all

lemma sort_Nil_iff: "sort xs = [] \<longleftrightarrow> xs = []"
  by (metis set_empty set_sort)

text \<open>A path that may be written: it names, below the repository, a place that stays within it.\<close>

definition path_inside :: "path_resolver \<Rightarrow> string \<Rightarrow> string \<Rightarrow> bool" where
  "path_inside resolve repo path =
     (\<exists>ps. path_parts (posix_path (slashed (strip path))) = ps \<and> ps \<noteq> [] \<and> list_all clean_part ps \<and>
        CHR 0x00 \<notin> set (strip path) \<and> \<not> has_windows_drive (strip path) \<and>
        is_within_directory (resolve (repo @ ''/'' @ join ''/'' ps)) (resolve repo))"

lemma replace_char_Cons: "replace_char a b (c # s) = (if c = a then b else c) # replace_char a b s"
  by (simp add: replace_char_def)

lemma replace_char_Nil_iff [simp]: "replace_char a b s = [] \<longleftrightarrow> s = []"
  by (simp add: replace_char_def)

lemma rooted_iff: "rooted s \<longleftrightarrow> path_root (posix_path (slashed s)) \<noteq> []"
  by (cases s)
     (auto simp: rooted_def posix_path_def starts_with_def replace_char_Cons replace_char_def [of _ _ "[]"])

lemma path_violations_Nil_iff:
  "path_violations resolve (Some repo) path = [] \<longleftrightarrow> path_inside resolve repo path"
proof (cases "path_root (posix_path (slashed (strip path))) = []")
  case True
  let ?ps = "path_tail (posix_path (slashed (strip path)))"
  have parts: "path_parts (posix_path (slashed (strip path))) = ?ps" using True by (simp add: path_parts_def)
  have tail: "\<forall>p \<in> set ?ps. p \<noteq> [] \<and> p \<noteq> ''.'' \<and> CHR ''/'' \<notin> set p"
    by (auto simp: posix_path_def split_on_free)
  have clean: "filter (\<lambda>part. part \<noteq> [] \<and> part \<noteq> ''.'') ?ps = ?ps"
    using tail by (simp add: filter_id_conv)
  have none: "strip path = [] \<Longrightarrow> ?ps = []" by (simp add: posix_path_def replace_char_def)
  show ?thesis
    using tail none True
    by (auto simp: path_violations_def path_inside_def parts clean Let_def rooted_iff is_absolute_def list_all_iff
        list_ex_iff clean_part_def split: if_splits)
next
  case False
  then have "\<not> list_all clean_part (path_parts (posix_path (slashed (strip path))))"
    by (auto simp: path_parts_def clean_part_def posix_path_def split: if_splits)
  with False show ?thesis
    by (auto simp: path_violations_def path_inside_def rooted_iff Let_def split: if_splits)
qed

section \<open>Links\<close>

fun part_weight :: "string \<Rightarrow> int" where
  "part_weight p = (if p = [] \<or> p = ''.'' then 0 else if p = ''..'' then -1 else 1)"

definition depth_after :: "string list \<Rightarrow> int" where
  "depth_after ps = sum_list (map part_weight ps)"

lemma escapes_from_iff:
  "escapes_from stack ps \<longleftrightarrow> (\<exists>k \<le> length ps. int (length stack) + depth_after (take k ps) < 0)"
proof (induction ps arbitrary: stack)
  case Nil
  then show ?case by (simp add: depth_after_def)
next
  case (Cons p ps)
  have shift: "(\<exists>k \<le> length (p # ps). int (length stack) + depth_after (take k (p # ps)) < 0) \<longleftrightarrow>
      (\<exists>k \<le> length ps. int (length stack) + part_weight p + depth_after (take k ps) < 0)" (is "?l \<longleftrightarrow> ?r")
  proof
    assume ?l
    then obtain k where k: "k \<le> length (p # ps)" "int (length stack) + depth_after (take k (p # ps)) < 0" by blast
    then show ?r by (cases k) (auto simp: depth_after_def)
  next
    assume ?r
    then obtain k where "k \<le> length ps" "int (length stack) + part_weight p + depth_after (take k ps) < 0" by blast
    then show ?l by (intro exI [of _ "Suc k"]) (simp add: depth_after_def)
  qed
  show ?case
    using Cons.IH unfolding shift
    by (cases stack) (auto simp: depth_after_def intro: exI [of _ 0])
qed

lemma depth_counts:
  "depth_after ps < 0 \<longleftrightarrow>
     length (filter (\<lambda>p. p \<noteq> [] \<and> p \<noteq> ''.'' \<and> p \<noteq> ''..'') ps) < length (filter (\<lambda>p. p = ''..'') ps)"
proof -
  have "depth_after ps = int (length (filter (\<lambda>p. p \<noteq> [] \<and> p \<noteq> ''.'' \<and> p \<noteq> ''..'') ps)) -
      int (length (filter (\<lambda>p. p = ''..'') ps))"
    by (induction ps) (auto simp: depth_after_def)
  then show ?thesis by simp
qed

text \<open>
  The link check counts: the loop over the parts of a link's directory and target reports an escape
  exactly when some initial run of those parts has more steps up than steps down.
\<close>

theorem link_escape_counts:
  "relative_target_escapes_repo link target \<longleftrightarrow>
     (\<exists>k. let ps = take k (path_parts (path_parent (posix_path link)) @ path_parts (posix_path target))
          in length (filter (\<lambda>p. p \<noteq> [] \<and> p \<noteq> ''.'' \<and> p \<noteq> ''..'') ps) < length (filter (\<lambda>p. p = ''..'') ps))"
proof -
  let ?all = "path_parts (path_parent (posix_path link)) @ path_parts (posix_path target)"
  have "relative_target_escapes_repo link target \<longleftrightarrow> (\<exists>k \<le> length ?all. depth_after (take k ?all) < 0)"
    by (simp add: relative_target_escapes_repo_def escapes_from_iff)
  also have "\<dots> \<longleftrightarrow> (\<exists>k. depth_after (take k ?all) < 0)"
    by (metis nle_le take_all_iff)
  finally show ?thesis by (simp only: depth_counts Let_def)
qed

section \<open>Safe patches\<close>

definition link_inside :: "path_resolver \<Rightarrow> string \<Rightarrow> symlink_target \<Rightarrow> bool" where
  "link_inside resolve repo link =
     (let target = strip (st_target link); parent = as_posix (path_parent (posix_path (st_path link)))
      in target \<noteq> [] \<and> CHR 0x00 \<notin> set target \<and> \<not> rooted target \<and> \<not> has_windows_drive target \<and>
         \<not> relative_target_escapes_repo (st_path link) (slashed target) \<and>
         is_within_directory (resolve (resolve repo @ ''/'' @ parent @ ''/'' @ slashed target)) (resolve repo))"

lemma symlink_violations_Nil_iff:
  "symlink_target_violations resolve (Some repo) link = [] \<longleftrightarrow> link_inside resolve repo link"
  by (auto simp: symlink_target_violations_def link_inside_def Let_def)

definition plain_patch :: patch_diff where
  "plain_patch = \<lparr>pf_workspace_path = ''w'', pf_baseline_commit_sha = ''b'',
     pf_patch = join [CHR 0x0A] [''diff --git a/s/q.py b/s/q.py'', ''--- a/s/q.py'', ''+++ b/s/q.py'', ''@@ -1 +1 @@'',
       ''-x = 1'', ''+x = 2''],
     pf_patch_sha256 = ''h'', pf_patch_size_bytes = 0,
     pf_files = [\<lparr>fd_path = ''s/q.py'', fd_kind = MODIFIED, fd_additions = Some 1, fd_deletions = Some 1,
       fd_binary = False, fd_old_path = None, fd_old_mode = None, fd_new_mode = None, fd_mode_changed = False\<rparr>],
     pf_ignored_files = []\<rparr>"

lemma plain_patch_safe: "report_safe (validate_patch_paths (\<lambda>p. p) plain_patch ''/r'')"
  by code_simp

lemma plain_patch_paths: "metadata_paths plain_patch = [''s/q.py'']"
  by code_simp



definition comment_patch :: patch_diff where
  "comment_patch = \<lparr>pf_workspace_path = ''w'', pf_baseline_commit_sha = ''b'',
     pf_patch = join [CHR 0x0A] [''diff --git a/q.sql b/q.sql'', ''--- a/q.sql'', ''+++ b/q.sql'', ''@@ -1,2 +1 @@'',
       '' SELECT 1;'', ''--- old note''],
     pf_patch_sha256 = ''h'', pf_patch_size_bytes = 0,
     pf_files = [\<lparr>fd_path = ''q.sql'', fd_kind = MODIFIED, fd_additions = Some 0, fd_deletions = Some 1,
       fd_binary = False, fd_old_path = None, fd_old_mode = None, fd_new_mode = None, fd_mode_changed = False\<rparr>],
     pf_ignored_files = []\<rparr>"

definition blank_name_patch :: patch_diff where
  "blank_name_patch = comment_patch\<lparr>
     pf_patch := join [CHR 0x0A] [''diff --git a/my notes.md b/my notes.md'', ''--- a/my notes.md'' @ [CHR 0x09],
       ''+++ b/my notes.md'' @ [CHR 0x09], ''@@ -1 +1 @@'', ''-old'', ''+new''],
     pf_files := [\<lparr>fd_path = ''my notes.md'', fd_kind = MODIFIED, fd_additions = Some 1, fd_deletions = Some 1,
       fd_binary = False, fd_old_path = None, fd_old_mode = None, fd_new_mode = None, fd_mode_changed = False\<rparr>]\<rparr>"

text \<open>
  Two legitimate patches are refused: the check reads a removed line that begins with two hyphens and a
  blank as the name of a file, and the header of a file whose name has a blank as a shorter name, so a patch
  that deletes a comment of that form, and one that changes such a file, have unsafe reports.
\<close>

theorem legitimate_patches_refused:
  "map pv_code (pr_violations (validate_patch_path_forms comment_patch)) = [''patch-path-metadata-mismatch''] \<and>
   map pv_path (pr_violations (validate_patch_path_forms comment_patch)) = [''old''] \<and>
   \<not> report_safe (validate_patch_path_forms blank_name_patch)"
  by code_simp

end
