(* ===== verification/Change_Risk.thy ===== *)
theory Change_Risk
  imports Action_Intent Rust_Kernel Diff_Limits Dependency_Governance Path_Safety
begin

text \<open>
  \<open>src/rygnal/change_risk.py\<close>: the risk of each changed file, from its path, its metadata and its added lines, and
  the risk of the patch, from its size, its dependency files and the intents it shows. The contents of the files
  (\<open>git\<close> and the file system) are an argument, as are the native kernel's extension, \<open>json.loads\<close>, \<open>tomllib.loads\<close>
  and floating-point comparison. A kernel assessment can raise the level of a file, to at most \<open>HIGH\<close>.
\<close>

section \<open>Tables\<close>

definition CRITICALITY_NOTEBOOK_EXTENSIONS :: "string list" where
  "CRITICALITY_NOTEBOOK_EXTENSIONS =
     [''.ipynb'']"

definition CRITICALITY_LOCKFILE_NAMES :: "string list" where
  "CRITICALITY_LOCKFILE_NAMES =
     [''bun.lockb'', ''cargo.lock'', ''composer.lock'', ''gemfile.lock'', ''go.sum'', ''gradle.lockfile'',
      ''package-lock.json'', ''pipfile.lock'', ''pnpm-lock.yaml'', ''poetry.lock'', ''pubspec.lock'',
      ''uv.lock'', ''yarn.lock'']"

definition CRITICALITY_GENERATED_MARKERS :: "string list" where
  "CRITICALITY_GENERATED_MARKERS =
     [''@generated'', ''auto-generated'', ''autogenerated'', ''do not edit'']"

definition RISK_DOC_EXTENSIONS :: "string list" where
  "RISK_DOC_EXTENSIONS =
     [''.adoc'', ''.md'', ''.rst'', ''.txt'']"

definition RISK_DOC_FILE_NAMES :: "string list" where
  "RISK_DOC_FILE_NAMES =
     [''changelog'', ''code_of_conduct'', ''contributing'', ''license'', ''readme'', ''security'']"

definition RISK_SOURCE_EXTENSIONS :: "string list" where
  "RISK_SOURCE_EXTENSIONS =
     [''.c'', ''.cc'', ''.cpp'', ''.cs'', ''.css'', ''.go'', ''.html'', ''.java'', ''.js'', ''.jsx'', ''.kt'',
      ''.mjs'', ''.php'', ''.py'', ''.rb'', ''.rs'', ''.scala'', ''.swift'', ''.ts'', ''.tsx'']"

definition SCRIPT_EXTENSIONS :: "string list" where
  "SCRIPT_EXTENSIONS =
     [''.bash'', ''.bat'', ''.cmd'', ''.fish'', ''.ps1'', ''.sh'', ''.zsh'']"

definition BINARY_EXTENSIONS :: "string list" where
  "BINARY_EXTENSIONS =
     [''.bin'', ''.class'', ''.dll'', ''.dylib'', ''.exe'', ''.jar'', ''.o'', ''.pyc'', ''.so'', ''.wasm'',
      ''.war'']"

definition RISK_DEPENDENCY_FILE_NAMES :: "string list" where
  "RISK_DEPENDENCY_FILE_NAMES =
     [''build.gradle'', ''cargo.lock'', ''cargo.toml'', ''composer.json'', ''composer.lock'', ''gemfile'',
      ''gemfile.lock'', ''go.mod'', ''go.sum'', ''gradle.lockfile'', ''package-lock.json'', ''package.json'',
      ''pipfile'', ''pipfile.lock'', ''pnpm-lock.yaml'', ''poetry.lock'', ''pom.xml'', ''pubspec.lock'',
      ''pubspec.yaml'', ''pyproject.toml'', ''requirements.txt'', ''uv.lock'', ''yarn.lock'']"

definition RISK_DEPENDENCY_NAME_PATTERNS :: "string list" where
  "RISK_DEPENDENCY_NAME_PATTERNS =
     [''requirements-*.txt'', ''requirements_*.txt'', ''requirements*.in'', ''requirements*.txt'']"

definition RISK_CI_PATH_PATTERNS :: "string list" where
  "RISK_CI_PATH_PATTERNS =
     [''.circleci/*'', ''.github/actions/*'', ''.github/workflows/*'', ''.gitlab-ci.yml'',
      ''azure-pipelines.yml'', ''bitbucket-pipelines.yml'', ''buildkite.yml'', ''jenkinsfile'']"

definition RISK_INFRA_PATH_PATTERNS :: "string list" where
  "RISK_INFRA_PATH_PATTERNS =
     [''.dockerignore'', ''.gitignore'', ''docker-compose*.yaml'', ''docker-compose*.yml'', ''dockerfile'',
      ''helm/*'', ''k8s/*'', ''kubernetes/*'', ''makefile'', ''mkdocs.yml'', ''terraform/*'', ''tox.ini'',
      ''*.tf'']"

definition SECURITY_SENSITIVE_PATH_PATTERNS :: "string list" where
  "SECURITY_SENSITIVE_PATH_PATTERNS =
     [''.aws/*'', ''.aws/credentials'', ''.azure/*'', ''.config/gcloud/*'', ''.docker/config.json'', ''.env'',
      ''.env.*'', ''.gnupg/*'', ''.netrc'', ''.npmrc'', ''.pypirc'', ''.ssh/*'', ''.ssh/config'',
      ''.ssh/id_*'', ''*/.aws/*'', ''*/.aws/credentials'', ''*/.azure/*'', ''*/.config/gcloud/*'',
      ''*/.docker/config.json'', ''*/.env'', ''*/.env.*'', ''*/.gnupg/*'', ''*/.netrc'', ''*/.npmrc'',
      ''*/.pypirc'', ''*/.ssh/*'', ''*/.ssh/config'', ''*/.ssh/id_*'', ''*/credentials'', ''*/credentials.*'',
      ''*/credentials*.json'', ''*/id_dsa'', ''*/id_ecdsa'', ''*/id_ed25519'', ''*/id_rsa'',
      ''*/private*.key'', ''*/private*.pem'', ''*/secret'', ''*/secret.*'', ''*/secrets'', ''*/secrets.*'',
      ''*/service-account*.json'', ''*/service_account*.json'', ''*.key'', ''*.p12'', ''*.pem'', ''*.pfx'',
      ''credentials'', ''credentials.*'', ''credentials*.json'', ''id_dsa'', ''id_ecdsa'', ''id_ed25519'',
      ''id_rsa'', ''secret'', ''secret.*'', ''secrets'', ''secrets.*'']"

definition RISK_AUTH_SECURITY_PATH_SEGMENTS :: "string list" where
  "RISK_AUTH_SECURITY_PATH_SEGMENTS =
     [''auth'', ''authentication'', ''iam'', ''jwt'', ''oauth'', ''permission'', ''permissions'', ''rbac'',
      ''security'', ''session'', ''sessions'']"

definition DEPLOY_PATH_SEGMENTS :: "string list" where
  "DEPLOY_PATH_SEGMENTS =
     [''deploy'', ''deployment'', ''deployments'', ''helm'', ''k8s'', ''kubernetes'', ''terraform'']"

definition SCRIPT_PATH_SEGMENTS :: "string list" where
  "SCRIPT_PATH_SEGMENTS =
     [''bin'', ''script'', ''scripts'', ''tool'', ''tools'']"

section \<open>Patterns of added lines\<close>

definition exactly :: "nat \<Rightarrow> regex \<Rightarrow> regex" where
  "exactly n r = Seqs (replicate n r)"

definition in_range :: "char \<Rightarrow> char \<Rightarrow> char \<Rightarrow> bool" where
  "in_range a b c = (codept a \<le> codept c \<and> codept c \<le> codept b)"

definition upper_letter :: "char \<Rightarrow> bool" where
  "upper_letter c = in_range (CHR ''A'') (CHR ''Z'') c"

definition digit :: "char \<Rightarrow> bool" where
  "digit c = in_range (CHR ''0'') (CHR ''9'') c"

definition any_letter :: regex where
  "any_letter = Chr (\<lambda>c. in_range (CHR ''a'') (CHR ''z'') (lower_char c))"

definition SECRET_ADDED_LINE_PATTERNS :: "(string \<times> regex) list" where
  "SECRET_ADDED_LINE_PATTERNS =
     [(''private-key-header'', Seqs [Lit ''-----BEGIN '', Star (Chr (\<lambda>c. upper_letter c \<or> c = CHR '' '')),
         Lit ''PRIVATE KEY-----'']),
      (''aws-access-key-id'', Seqs [WordB, Lit ''AKIA'', exactly 16 (Chr (\<lambda>c. digit c \<or> upper_letter c)), WordB]),
      (''openai-api-key'', Seqs [WordB, Lit ''sk-'',
         At_least 20 (Chr (\<lambda>c. upper_letter c \<or> lower_letter_or_digit c \<or> c \<in> set ''_-'')), WordB]),
      (''credential-assignment'', Seqs
         [bounded [Seqs [LitI ''api'', sep_opt, LitI ''key''], Seqs [LitI ''access'', sep_opt, LitI ''token''],
            Seqs [LitI ''auth'', sep_opt, LitI ''token''], LitI ''password'',
            Seqs [LitI ''private'', sep_opt, LitI ''key''], LitI ''secret'',
            Seqs [LitI ''client'', sep_opt, LitI ''secret'']],
          Star space, one_of '':='', Star space, Opt (one_of [squote, dquote]),
          At_least 8 (Chr (\<lambda>c. c \<noteq> squote \<and> c \<noteq> dquote \<and> \<not> is_space c))])]"

definition DESTRUCTIVE_ADDED_LINE_PATTERNS :: "(string \<times> regex) list" where
  "DESTRUCTIVE_ADDED_LINE_PATTERNS =
     [(''recursive-force-delete'', Seqs [WordB, LitI ''rm'', Plus space, Lit ''-'', Star any_letter, LitI ''r'',
         Star any_letter, LitI ''f'', Star any_letter, WordB]),
      (''world-writable-permission'', Seqs [WordB, LitI ''chmod'', Plus space, Lit ''777'', WordB]),
      (''pipe-to-shell'', Seqs [bounded [LitI ''curl'', LitI ''wget''], Plus not_newline, Lit ''|'', Star space,
         Alts [LitI ''sh'', LitI ''bash''], WordB]),
      (''disk-format'', Seqs [WordB, LitI ''mkfs'', Alts [Lit ''.'', Seq (chr (CHR 0x5C)) (LitI ''s'')]]),
      (''raw-disk-write'', Seqs [WordB, LitI ''dd'', Plus space, Star not_newline, WordB, LitI ''of=/dev/''])]"

section \<open>Data\<close>

record bypass_verdict =
  bv_allowed :: bool
  bv_reason_code :: string
  bv_verdict :: string
  bv_is_candidate :: bool

record risk_reason =
  rr_code :: string
  rr_risk_level :: risk_level
  rr_reason :: string
  rr_evidence :: dict

definition reason_summary :: "risk_reason \<Rightarrow> dict" where
  "reason_summary r = [(''code'', PStr (rr_code r)), (''risk_level'', PStr (risk_level_value (rr_risk_level r))),
     (''reason'', PStr (rr_reason r)), (''evidence'', dict_val (rr_evidence r))]"

record criticality_shadow =
  cs_available :: bool
  cs_criticality_index :: "string option"
  cs_risk_level :: "string option"
  cs_reasons :: "string list"
  cs_semantic_metrics :: "dict option"
  cs_path_category :: "string option"
  cs_path_severity :: "string option"
  cs_error_code :: "string option"
  cs_error_reason :: "string option"
  cs_bypass_verdict :: "string option"
  cs_bypass_reason :: "string option"

definition opt_float :: "string option \<Rightarrow> pyval" where
  "opt_float x = (case x of None \<Rightarrow> PNone | Some r \<Rightarrow> PFloat r)"

definition shadow_summary :: "criticality_shadow \<Rightarrow> dict" where
  "shadow_summary s =
     [(''available'', PBool (cs_available s)), (''criticality_index'', opt_float (cs_criticality_index s)),
      (''risk_level'', opt_val (cs_risk_level s)), (''reasons'', PTuple (map PStr (cs_reasons s))),
      (''semantic_metrics'', case cs_semantic_metrics s of None \<Rightarrow> PNone | Some d \<Rightarrow> dict_val d),
      (''path_category'', opt_val (cs_path_category s)), (''path_severity'', opt_val (cs_path_severity s)),
      (''error_code'', opt_val (cs_error_code s)), (''error_reason'', opt_val (cs_error_reason s)),
      (''criticality_bypass_verdict'', opt_val (cs_bypass_verdict s)),
      (''criticality_bypass_reason'', opt_val (cs_bypass_reason s))]"

record file_risk =
  fr_path :: string
  fr_kind :: changed_file_kind
  fr_risk_level :: risk_level
  fr_reasons :: "risk_reason list"
  fr_additions :: "nat option"
  fr_deletions :: "nat option"
  fr_binary :: bool
  fr_old_path :: "string option"
  fr_old_mode :: "string option"
  fr_new_mode :: "string option"
  fr_mode_changed :: bool
  fr_rust_criticality :: "criticality_shadow option"

definition opt_nat :: "nat option \<Rightarrow> pyval" where
  "opt_nat x = (case x of None \<Rightarrow> PNone | Some n \<Rightarrow> PInt (int n))"

definition file_risk_summary :: "file_risk \<Rightarrow> dict" where
  "file_risk_summary f =
     [(''path'', PStr (fr_path f)), (''old_path'', opt_val (fr_old_path f)),
      (''kind'', PStr (changed_file_kind_value (fr_kind f))),
      (''risk_level'', PStr (risk_level_value (fr_risk_level f))),
      (''additions'', opt_nat (fr_additions f)), (''deletions'', opt_nat (fr_deletions f)),
      (''binary'', PBool (fr_binary f)), (''old_mode'', opt_val (fr_old_mode f)), (''new_mode'', opt_val (fr_new_mode f)),
      (''mode_changed'', PBool (fr_mode_changed f)),
      (''reasons'', PTuple (map (\<lambda>r. dict_val (reason_summary r)) (fr_reasons f))),
      (''rust_criticality'', case fr_rust_criticality f of None \<Rightarrow> PNone | Some s \<Rightarrow> dict_val (shadow_summary s))]"

record risk_report =
  rp_baseline_commit_sha :: string
  rp_patch_sha256 :: string
  rp_files :: "file_risk list"
  rp_report_reasons :: "risk_reason list"

definition overall_risk_level :: "risk_report \<Rightarrow> risk_level" where
  "overall_risk_level r = highest_risk LOW (map fr_risk_level (rp_files r) @ map rr_risk_level (rp_report_reasons r))"

definition risk_counts :: "risk_report \<Rightarrow> dict" where
  "risk_counts r = map (\<lambda>l. (risk_level_value l, PInt (int (length (filter (\<lambda>f. fr_risk_level f = l) (rp_files r))))))
     [LOW, MEDIUM, HIGH, CRITICAL]"

definition risk_report_summary :: "risk_report \<Rightarrow> dict" where
  "risk_report_summary r =
     [(''baseline_commit_sha'', PStr (rp_baseline_commit_sha r)), (''patch_sha256'', PStr (rp_patch_sha256 r)),
      (''overall_risk_level'', PStr (risk_level_value (overall_risk_level r))),
      (''changed_file_count'', PInt (int (length (rp_files r)))), (''risk_counts'', dict_val (risk_counts r)),
      (''files'', PTuple (map (\<lambda>f. dict_val (file_risk_summary f)) (rp_files r))),
      (''report_reasons'', PTuple (map (\<lambda>x. dict_val (reason_summary x)) (rp_report_reasons r)))]"

definition reason :: "string \<Rightarrow> risk_level \<Rightarrow> string \<Rightarrow> dict \<Rightarrow> risk_reason" where
  "reason code level text evidence =
     \<lparr>rr_code = code, rr_risk_level = level, rr_reason = text, rr_evidence = sort_key fst evidence\<rparr>"

section \<open>Paths\<close>

definition matches_any :: "string \<Rightarrow> string list \<Rightarrow> bool" where
  "matches_any path patterns = list_ex (\<lambda>pattern. fnmatch pattern path) patterns"

definition matches_name :: "string \<Rightarrow> string list \<Rightarrow> bool" where
  "matches_name path names = (path_name (posix_path path) \<in> set names)"

definition matches_name_pattern :: "string \<Rightarrow> string list \<Rightarrow> bool" where
  "matches_name_pattern path patterns = matches_any (path_name (posix_path path)) patterns"

definition has_any_segment :: "string \<Rightarrow> string list \<Rightarrow> bool" where
  "has_any_segment path names = list_ex (\<lambda>s. s \<in> set names) (split_on (CHR ''/'') path)"

definition risk_extension :: "string \<Rightarrow> string" where
  "risk_extension path = lower (path_suffix path)"

definition is_script_like_path :: "string \<Rightarrow> bool" where
  "is_script_like_path path =
     (risk_extension path \<in> set SCRIPT_EXTENSIONS \<or> has_any_segment path SCRIPT_PATH_SEGMENTS \<or>
      path_name (posix_path path) \<in> {''makefile'', ''dockerfile''})"

definition is_documentation_path :: "string \<Rightarrow> bool" where
  "is_documentation_path path =
     (let name = path_name (posix_path path) in
      starts_with path ''docs/'' \<or> risk_extension path \<in> set RISK_DOC_EXTENSIONS \<or>
      name \<in> {''license'', ''notice''} \<or> name_stem name \<in> set RISK_DOC_FILE_NAMES)"

definition is_test_path :: "string \<Rightarrow> bool" where
  "is_test_path path =
     (let name = path_name (posix_path path) in
      starts_with path ''tests/'' \<or> starts_with path ''test/'' \<or> contains path ''/tests/'' \<or>
      starts_with name ''test_'' \<or> ends_with (name_stem name) ''_test'')"

section \<open>Reasons\<close>

definition reason_when :: "bool \<Rightarrow> risk_reason \<Rightarrow> risk_reason list" where
  "reason_when cond r = (if cond then [r] else [])"

definition path_risk_reasons :: "string \<Rightarrow> risk_reason list" where
  "path_risk_reasons path =
     (let lower_path = lower path; evidence = [(''path'', PStr path)] in
      reason_when (matches_any lower_path SECURITY_SENSITIVE_PATH_PATTERNS)
        (reason ''security-sensitive-path'' CRITICAL
          ''File path indicates credential, key, secret, or environment material.'' evidence) @
      reason_when (matches_name lower_path RISK_DEPENDENCY_FILE_NAMES \<or>
          matches_name_pattern lower_path RISK_DEPENDENCY_NAME_PATTERNS)
        (reason ''dependency-file-change'' HIGH ''Dependency manifest or lockfile changed.'' evidence) @
      reason_when (matches_any lower_path RISK_CI_PATH_PATTERNS)
        (reason ''ci-config-change'' HIGH ''CI/CD workflow or pipeline configuration changed.'' evidence) @
      reason_when (matches_any lower_path RISK_INFRA_PATH_PATTERNS \<or> has_any_segment lower_path DEPLOY_PATH_SEGMENTS)
        (reason ''infrastructure-or-deploy-change'' HIGH
          ''Infrastructure, container, deployment, or release configuration changed.'' evidence) @
      reason_when (has_any_segment lower_path RISK_AUTH_SECURITY_PATH_SEGMENTS)
        (reason ''auth-security-path-change'' HIGH
          ''Authentication, authorization, session, or security-sensitive code path changed.'' evidence) @
      reason_when (is_script_like_path lower_path)
        (reason ''script-change'' HIGH ''Executable script or automation path changed.'' evidence))"

definition metadata_risk_reasons :: "patch_file_diff \<Rightarrow> risk_reason list" where
  "metadata_risk_reasons f =
     (let path = fd_path f; evidence = [(''path'', PStr path)] in
      reason_when (fd_binary f)
        (reason ''binary-file-change'' HIGH ''Binary file changed and cannot be reviewed as plain text.'' evidence) @
      (if fd_old_mode f = Some ''120000'' \<or> fd_new_mode f = Some ''120000''
       then [reason ''symlink-change'' CRITICAL ''Symlink changes can alter filesystem boundaries.'' evidence]
       else reason_when (fd_mode_changed f)
         (reason ''file-mode-change'' HIGH ''File mode changed, which may alter executability or access behavior.''
           [(''path'', PStr path), (''old_mode'', PStr (or_else (fd_old_mode f) [])),
            (''new_mode'', PStr (or_else (fd_new_mode f) []))])) @
      reason_when (risk_extension (lower path) \<in> set BINARY_EXTENSIONS)
        (reason ''generated-executable-artifact'' HIGH ''Generated executable or compiled artifact changed.'' evidence))"

text \<open>The two inner loops over one added line, with the codes already seen.\<close>

fun scan_line :: "(string \<Rightarrow> risk_reason) \<Rightarrow> string \<Rightarrow> string list \<Rightarrow> (string \<times> regex) list \<Rightarrow>
   string list \<times> risk_reason list" where
  "scan_line mk line seen [] = (seen, [])"
| "scan_line mk line seen ((code, pattern) # ps) =
     (if code \<in> set seen \<or> \<not> re_search pattern line then scan_line mk line seen ps
      else let (seen', rs) = scan_line mk line (code # seen) ps in (seen', mk code # rs))"

definition secret_line_reason :: "string \<Rightarrow> string \<Rightarrow> risk_reason" where
  "secret_line_reason path code = reason (''added-secret-'' @ code) CRITICAL
     ''Added line appears to contain credential or secret material.'' [(''path'', PStr path), (''pattern'', PStr code)]"

definition destructive_line_reason :: "string \<Rightarrow> string \<Rightarrow> risk_reason" where
  "destructive_line_reason path code = reason (''destructive-command-'' @ code)
     (if is_script_like_path path then CRITICAL else HIGH)
     ''Added line appears to contain a destructive command pattern.'' [(''path'', PStr path), (''pattern'', PStr code)]"

fun content_reasons :: "string \<Rightarrow> string list \<Rightarrow> string list \<Rightarrow> risk_reason list" where
  "content_reasons path seen [] = []"
| "content_reasons path seen (line # lines) =
     (let (seen1, rs1) = scan_line (secret_line_reason path) line seen SECRET_ADDED_LINE_PATTERNS;
          (seen2, rs2) = scan_line (destructive_line_reason path) line seen1 DESTRUCTIVE_ADDED_LINE_PATTERNS
      in rs1 @ rs2 @ content_reasons path seen2 lines)"

definition content_risk_reasons :: "string \<Rightarrow> string list \<Rightarrow> risk_reason list" where
  "content_risk_reasons path lines = content_reasons path [] lines"

definition baseline_path_reason :: "string \<Rightarrow> risk_reason" where
  "baseline_path_reason path =
     (let lower_path = lower path; evidence = [(''path'', PStr path)] in
      if is_documentation_path lower_path
        then reason ''documentation-change'' LOW ''Documentation-only path changed.'' evidence
      else if is_test_path lower_path
        then reason ''test-change'' LOW ''Test path changed without privileged file indicators.'' evidence
      else if risk_extension lower_path \<in> set RISK_SOURCE_EXTENSIONS
        then reason ''source-code-change'' MEDIUM ''Source code changed.'' evidence
      else reason ''project-file-change'' MEDIUM ''Project file changed without a lower-risk classification.'' evidence)"

definition file_reasons :: "string \<Rightarrow> patch_file_diff \<Rightarrow> string list \<Rightarrow> risk_reason list" where
  "file_reasons path f lines =
     (let reasons = path_risk_reasons path @ metadata_risk_reasons f @ content_risk_reasons path lines
      in if reasons = [] then [baseline_path_reason path] else reasons)"

definition classify_patch_file_risk :: "patch_file_diff \<Rightarrow> (string \<times> string list) list \<Rightarrow> file_risk res" where
  "classify_patch_file_risk f added =
     rbind (normalize_repo_relative_path (fd_path f)) (\<lambda>path.
       let lines = (case map_of added path of None \<Rightarrow> [] | Some ls \<Rightarrow> ls); reasons = file_reasons path f lines
       in Inr \<lparr>fr_path = path, fr_kind = fd_kind f, fr_risk_level = highest_risk LOW (map rr_risk_level reasons),
            fr_reasons = reasons, fr_additions = fd_additions f, fr_deletions = fd_deletions f, fr_binary = fd_binary f,
            fr_old_path = fd_old_path f, fr_old_mode = fd_old_mode f, fr_new_mode = fd_new_mode f,
            fr_mode_changed = fd_mode_changed f, fr_rust_criticality = None\<rparr>)"

section \<open>Added lines\<close>

definition parse_new_patch_path :: "string \<Rightarrow> string option res" where
  "parse_new_patch_path raw_path =
     (if raw_path = ''/dev/null'' then Inr None
      else rbind (normalize_repo_relative_path (if starts_with raw_path ''b/'' then drop 2 raw_path else raw_path))
        (\<lambda>p. Inr (Some p)))"

fun extract_added :: "string option \<Rightarrow> (string \<times> string list) list \<Rightarrow> string list \<Rightarrow> (string \<times> string list) list res" where
  "extract_added current d [] = Inr d"
| "extract_added current d (line # lines) =
     (if starts_with line ''diff --git '' then extract_added None d lines
      else if starts_with line ''+++ ''
        then rbind (parse_new_patch_path (strip (drop 4 line))) (\<lambda>current.
          extract_added current (case current of None \<Rightarrow> d | Some p \<Rightarrow> set_default p d) lines)
      else case current of
          None \<Rightarrow> extract_added None d lines
        | Some p \<Rightarrow> extract_added current
            (if starts_with line ''+'' \<and> \<not> starts_with line ''+++'' then append_added p (tl line) d else d) lines)"

definition extract_added_lines_by_path :: "string \<Rightarrow> (string \<times> string list) list res" where
  "extract_added_lines_by_path patch = extract_added None [] (splitlines patch)"

section \<open>Bypass claims\<close>

definition verdict :: "bool \<Rightarrow> string \<Rightarrow> string \<Rightarrow> bool \<Rightarrow> bypass_verdict" where
  "verdict allowed reason_code text is_candidate =
     \<lparr>bv_allowed = allowed, bv_reason_code = reason_code, bv_verdict = text, bv_is_candidate = is_candidate\<rparr>"

definition is_valid_lockfile_bypass_path :: "string \<Rightarrow> string list \<Rightarrow> bypass_verdict res" where
  "is_valid_lockfile_bypass_path path allowlist =
     rbind (normalize_repo_relative_path path) (\<lambda>normalized_path.
       let p = posix_path normalized_path in
       if lower (path_name p) \<notin> set CRITICALITY_LOCKFILE_NAMES
       then Inr (verdict False ''not-bypass-candidate'' ''rust-invoked'' False)
       else rbind (rmap normalize_repo_relative_path allowlist) (\<lambda>allowed.
         if butlast (path_tail p) = [] \<or> lower normalized_path \<in> set (map lower allowed)
         then Inr (verdict True ''lockfile-root-path-valid'' ''bypassed'' True)
         else Inr (verdict False ''rust-invoked:lockfile-nested-path'' ''rust-invoked'' True)))"

definition object_keys :: "pyval option \<Rightarrow> string list option" where
  "object_keys v = (case v of
     Some (PDict d) \<Rightarrow> Some (List.map_filter (\<lambda>kv. case fst kv of KStr s \<Rightarrow> Some s | _ \<Rightarrow> None) d)
   | _ \<Rightarrow> None)"

definition validate_json_lockfile :: "(string \<Rightarrow> pyval option) \<Rightarrow> string \<Rightarrow> string list \<Rightarrow> bypass_verdict" where
  "validate_json_lockfile loads content expected_keys = (case object_keys (loads content) of
     None \<Rightarrow> verdict False ''parse-failed-json'' ''rust-invoked'' True
   | Some keys \<Rightarrow>
       if \<not> list_ex (\<lambda>k. k \<in> set keys) expected_keys then verdict False ''shape-mismatch-json'' ''rust-invoked'' True
       else verdict True ''bypassed:lockfile-root-valid-json'' ''bypassed'' True)"

definition validate_toml_lockfile :: "(string \<Rightarrow> pyval option) \<Rightarrow> string \<Rightarrow> string list \<Rightarrow> bypass_verdict" where
  "validate_toml_lockfile loads content expected_keys = (case object_keys (loads content) of
     None \<Rightarrow> verdict False ''parse-failed-toml'' ''rust-invoked'' True
   | Some keys \<Rightarrow>
       if \<not> list_all (\<lambda>k. k \<in> set keys) expected_keys then verdict False ''shape-mismatch-toml'' ''rust-invoked'' True
       else verdict True ''bypassed:lockfile-root-valid-toml'' ''bypassed'' True)"

record content_lib =
  toml_loads :: "string \<Rightarrow> pyval option"
  float_below :: "string \<Rightarrow> string \<Rightarrow> bool"
  resolve_dir :: "string \<Rightarrow> string"
  baseline_file_size :: "string \<Rightarrow> string \<Rightarrow> string \<Rightarrow> int res"
  workspace_file_size :: "string \<Rightarrow> string \<Rightarrow> int res"
  baseline_file_bytes :: "string \<Rightarrow> string \<Rightarrow> string \<Rightarrow> string res"
  workspace_file_bytes :: "string \<Rightarrow> string \<Rightarrow> string res"
  utf8_decode :: "string \<Rightarrow> string option"

definition validate_lockfile_structure :: "kernel_lib \<Rightarrow> content_lib \<Rightarrow> string \<Rightarrow> string \<Rightarrow> bypass_verdict" where
  "validate_lockfile_structure lib clib path content =
     (let name = lower (path_name (posix_path path)) in
      if name = ''cargo.lock'' then validate_toml_lockfile (toml_loads clib) content [''package'']
      else if name = ''composer.lock'' then validate_json_lockfile (json_loads lib) content [''packages'', ''packages-dev'']
      else if name = ''package-lock.json''
        then validate_json_lockfile (json_loads lib) content [''lockfileVersion'', ''packages'', ''dependencies'']
      else if name = ''pipfile.lock'' then validate_json_lockfile (json_loads lib) content [''_meta'', ''default'', ''develop'']
      else if name = ''poetry.lock'' then validate_toml_lockfile (toml_loads clib) content [''package'', ''metadata'']
      else if name = ''uv.lock'' then validate_toml_lockfile (toml_loads clib) content [''package'']
      else verdict False ''parse-failed-pattern'' ''rust-invoked'' True)"

definition invalid_structure :: bypass_verdict where
  "invalid_structure = verdict False ''lockfile-claim-invalid-structure'' ''elevated-risk'' True"

definition validate_lockfile_snapshots ::
  "kernel_lib \<Rightarrow> content_lib \<Rightarrow> string \<Rightarrow> string \<Rightarrow> string \<Rightarrow> bypass_verdict" where
  "validate_lockfile_snapshots lib clib path old_code new_code =
     (let snapshots = filter (\<lambda>code. strip code \<noteq> []) [old_code, new_code];
          verdicts = map (validate_lockfile_structure lib clib path) snapshots
      in if snapshots = [] \<or> list_ex (\<lambda>v. \<not> bv_allowed v) verdicts then invalid_structure else last verdicts)"

definition has_generated_marker :: "string \<Rightarrow> bool" where
  "has_generated_marker code =
     (let first_lines = lower (join [CHR 0x0A] (take 5 (splitlines code)))
      in list_ex (contains first_lines) CRITICALITY_GENERATED_MARKERS)"

definition is_valid_generated_bypass :: "string \<Rightarrow> string \<Rightarrow> string \<Rightarrow> bypass_verdict res" where
  "is_valid_generated_bypass path old_code new_code =
     rbind (normalize_repo_relative_path path) (\<lambda>normalized.
       let has_marker = has_generated_marker old_code \<or> has_generated_marker new_code;
           p = posix_path (lower normalized);
           has_path_evidence =
             list_ex (\<lambda>part. part \<in> {''generated'', ''gen'', ''__generated__'', ''autogenerated''}) (path_parts p) \<or>
             list_ex (contains (path_name p))
               [''generated'', ''autogenerated_'', ''_pb2.py'', ''_pb2_grpc.py'', ''.pb.'', ''.g.'']
       in Inr (if has_marker \<and> has_path_evidence then verdict True ''bypassed:generated-marker-and-path'' ''bypassed'' True
         else if has_marker then verdict False ''rust-invoked:generated-marker-without-path'' ''rust-invoked'' True
         else if has_path_evidence
           then verdict False ''rust-invoked:generated-path-without-marker'' ''rust-invoked'' True
         else verdict False ''not-bypass-candidate'' ''rust-invoked'' False))"

definition evaluate_criticality_bypass_claim ::
  "kernel_lib \<Rightarrow> content_lib \<Rightarrow> string \<Rightarrow> string \<Rightarrow> string \<Rightarrow> string list \<Rightarrow> bypass_verdict res" where
  "evaluate_criticality_bypass_claim lib clib path old_code new_code lockfile_allowlist =
     rbind (normalize_repo_relative_path path) (\<lambda>normalized_path.
     rbind (is_valid_lockfile_bypass_path normalized_path lockfile_allowlist) (\<lambda>v.
       if bv_allowed v then Inr (validate_lockfile_snapshots lib clib normalized_path old_code new_code)
       else if bv_is_candidate v then Inr v
       else is_valid_generated_bypass normalized_path old_code new_code))"

section \<open>File contents\<close>

datatype content_error = InvalidEncoding | GitLfsPointer | ContentUnavailable string

fun unavailable :: "'a res \<Rightarrow> content_error + 'a" where
  "unavailable (Inl e) = Inl (ContentUnavailable (exn_msg e))"
| "unavailable (Inr x) = Inr x"

fun cbind :: "content_error + 'a \<Rightarrow> ('a \<Rightarrow> content_error + 'b) \<Rightarrow> content_error + 'b" where
  "cbind (Inl e) f = Inl e"
| "cbind (Inr x) f = f x"

definition MAX_CRITICALITY_SHADOW_BYTES :: int where
  "MAX_CRITICALITY_SHADOW_BYTES = 1000000"

definition MAX_CRITICALITY_RAW_BYTES :: int where
  "MAX_CRITICALITY_RAW_BYTES = MAX_CRITICALITY_SHADOW_BYTES * 2"

definition decode_criticality_file_bytes :: "content_lib \<Rightarrow> string \<Rightarrow> content_error + string" where
  "decode_criticality_file_bytes clib raw =
     (if starts_with raw ''version https://git-lfs.github.com/spec/v1'' then Inl GitLfsPointer
      else case utf8_decode clib raw of None \<Rightarrow> Inl InvalidEncoding | Some s \<Rightarrow> Inr s)"

definition load_criticality_file_contents ::
  "content_lib \<Rightarrow> patch_diff \<Rightarrow> patch_file_diff \<Rightarrow> content_error + string \<times> string" where
  "load_criticality_file_contents clib d f =
     (let workspace = resolve_dir clib (pf_workspace_path d); sha = pf_baseline_commit_sha d;
          has_old = fd_kind f \<notin> {ADDED, UNTRACKED}; has_new = fd_kind f \<noteq> DELETED in
      cbind (unavailable (normalize_repo_relative_path (or_else (fd_old_path f) (fd_path f)))) (\<lambda>old_path.
      cbind (unavailable (normalize_repo_relative_path (fd_path f))) (\<lambda>new_path.
      cbind (if has_old then unavailable (baseline_file_size clib workspace sha old_path) else Inr 0) (\<lambda>old_size.
      cbind (if has_new then unavailable (workspace_file_size clib workspace new_path) else Inr 0) (\<lambda>new_size.
        if old_size + new_size > MAX_CRITICALITY_RAW_BYTES
        then Inr (replicate (nat MAX_CRITICALITY_SHADOW_BYTES + 1) (CHR ''x''), [])
        else
          cbind (if has_old then cbind (unavailable (baseline_file_bytes clib workspace sha old_path))
              (decode_criticality_file_bytes clib) else Inr []) (\<lambda>old_code.
          cbind (if has_new then cbind (unavailable (workspace_file_bytes clib workspace new_path))
              (decode_criticality_file_bytes clib) else Inr []) (\<lambda>new_code.
            Inr (old_code, new_code))))))))"

section \<open>The kernel's shadow\<close>

definition failure_shadow :: "bypass_verdict option \<Rightarrow> string \<Rightarrow> string \<Rightarrow> criticality_shadow" where
  "failure_shadow v error_code error_reason =
     \<lparr>cs_available = False, cs_criticality_index = None, cs_risk_level = None, cs_reasons = [], cs_semantic_metrics = None,
      cs_path_category = None, cs_path_severity = None, cs_error_code = Some error_code,
      cs_error_reason = Some error_reason, cs_bypass_verdict = map_option bv_verdict v,
      cs_bypass_reason = map_option bv_reason_code v\<rparr>"

definition metrics_dict :: "semantic_metrics \<Rightarrow> dict" where
  "metrics_dict m = [(''old_node_count'', PInt (old_node_count m)), (''new_node_count'', PInt (new_node_count m)),
     (''old_token_count'', PInt (old_token_count m)), (''new_token_count'', PInt (new_token_count m)),
     (''matched_node_count'', PInt (matched_node_count m)), (''survival_ratio'', PFloat (survival_ratio m))]"

definition success_shadow :: "bypass_verdict option \<Rightarrow> criticality_assessment \<Rightarrow> criticality_shadow" where
  "success_shadow v a =
     \<lparr>cs_available = True, cs_criticality_index = Some (ca_criticality_index a), cs_risk_level = Some (ca_risk_level a),
      cs_reasons = ca_reasons a, cs_semantic_metrics = Some (metrics_dict (ca_semantic_metrics a)),
      cs_path_category = Some (ca_path_category a), cs_path_severity = Some (ca_path_severity a),
      cs_error_code = None, cs_error_reason = None, cs_bypass_verdict = map_option bv_verdict v,
      cs_bypass_reason = map_option bv_reason_code v\<rparr>"

fun exception_shadow :: "bypass_verdict option \<Rightarrow> kernel_error \<Rightarrow> criticality_shadow" where
  "exception_shadow v (KernelUnavailable msg) = failure_shadow v ''rust-kernel-unavailable'' msg"
| "exception_shadow v (CriticalityEvaluationError code text) = failure_shadow v code text"
| "exception_shadow v (KernelError msg) = failure_shadow v ''rust-kernel-error'' msg"
| "exception_shadow v (NativeError e) = failure_shadow v ''rust-criticality-unexpected-error'' (exn_msg e)"

definition assessed_shadow ::
  "kernel_lib \<Rightarrow> patch_file_diff \<Rightarrow> string \<Rightarrow> string \<Rightarrow> bypass_verdict option \<Rightarrow> criticality_shadow" where
  "assessed_shadow lib f old_code new_code v =
     (case kbind (uncaught (normalize_repo_relative_path (fd_path f))) (\<lambda>path.
        evaluate_criticality lib \<lparr>ci_file_path = path, ci_action_type = changed_file_kind_value (fd_kind f),
          ci_old_code = old_code, ci_new_code = new_code,
          ci_elevated = (case v of None \<Rightarrow> False | Some b \<Rightarrow> bv_verdict b = ''elevated-risk'')\<rparr>) of
        Inl e \<Rightarrow> exception_shadow v e
      | Inr a \<Rightarrow> success_shadow v a)"

definition is_mode :: "string \<Rightarrow> patch_file_diff \<Rightarrow> bool" where
  "is_mode mode f = (fd_old_mode f = Some mode \<or> fd_new_mode f = Some mode)"

definition is_jupyter_notebook :: "string \<Rightarrow> bool" where
  "is_jupyter_notebook path = (lower (path_suffix path) \<in> set CRITICALITY_NOTEBOOK_EXTENSIONS)"

definition shadow_text_size_bytes :: "string list \<Rightarrow> int" where
  "shadow_text_size_bytes values = int (sum_list (map utf8_len values))"

definition criticality_shadow_for_file ::
  "kernel_lib \<Rightarrow> content_lib \<Rightarrow> patch_diff \<Rightarrow> patch_file_diff \<Rightarrow> criticality_shadow res" where
  "criticality_shadow_for_file lib clib d f =
     (if is_mode ''120000'' f then Inr (failure_shadow None ''symlink-file''
        ''Symlink entries are excluded from Rust criticality analysis'')
      else if is_mode ''160000'' f then Inr (failure_shadow None ''git-submodule''
        ''Git submodule entries are excluded from Rust criticality analysis'')
      else if fd_binary f then Inr (failure_shadow None ''binary-file''
        ''binary files are excluded from Rust criticality shadow analysis'')
      else if is_jupyter_notebook (fd_path f) then Inr (failure_shadow None ''jupyter-notebook-unsupported''
        ''Jupyter notebook files are excluded from Rust criticality analysis'')
      else case load_criticality_file_contents clib d f of
          Inl InvalidEncoding \<Rightarrow> Inr (failure_shadow None ''invalid-encoding''
            ''file contents are not valid UTF-8 for Rust criticality analysis'')
        | Inl GitLfsPointer \<Rightarrow> Inr (failure_shadow None ''git-lfs-pointer''
            ''Git LFS pointer files are excluded from Rust criticality analysis'')
        | Inl (ContentUnavailable msg) \<Rightarrow> Inr (failure_shadow None ''content-unavailable''
            (''file contents could not be loaded for Rust criticality shadow analysis: '' @ msg))
        | Inr (old_code, new_code) \<Rightarrow>
            rbind (evaluate_criticality_bypass_claim lib clib (fd_path f) old_code new_code []) (\<lambda>b.
              if bv_allowed b then Inr (failure_shadow (Some b) ''criticality-bypass'' (bv_reason_code b))
              else
                let v = (if bv_is_candidate b then Some b else None) in
                if shadow_text_size_bytes [strip old_code, strip new_code] > MAX_CRITICALITY_SHADOW_BYTES
                then Inr (failure_shadow v ''file-too-large'' ''file size exceeds shadow mode criticality limits'')
                else Inr (assessed_shadow lib f old_code new_code v)))"

definition bypass_risk_reason :: "criticality_shadow \<Rightarrow> risk_reason list" where
  "bypass_risk_reason s = reason_when (cs_bypass_reason s = Some ''lockfile-claim-invalid-structure'')
     (reason ''lockfile-claim-invalid-structure'' HIGH
       ''Lockfile bypass claim failed structural validation before Rust analysis.''
       [(''bypass_verdict'', PStr (or_else (cs_bypass_verdict s) [])),
        (''bypass_reason'', PStr (or_else (cs_bypass_reason s) []))])"

definition enforced_level :: "string \<Rightarrow> risk_level option" where
  "enforced_level level = (if lower (strip level) \<in> {''high'', ''critical''} then Some HIGH else None)"

definition rust_risk_reason :: "content_lib \<Rightarrow> file_risk \<Rightarrow> criticality_shadow \<Rightarrow> risk_reason list" where
  "rust_risk_reason clib f s =
     (case (cs_available s, cs_risk_level s, cs_criticality_index s) of
        (True, Some level, Some index) \<Rightarrow>
          (case (float_below clib index ''5.0'', enforced_level level) of
             (False, Some l) \<Rightarrow> reason_when (risk_level_order l > risk_level_order (fr_risk_level f))
               (reason ''rust-criticality-signal'' l ''Rust criticality analysis reported higher semantic or file risk.''
                 [(''path'', PStr (fr_path f)), (''criticality_index'', PFloat index), (''rust_risk_level'', PStr level),
                  (''path_category'', PStr (or_else (cs_path_category s) [])),
                  (''path_severity'', PStr (or_else (cs_path_severity s) []))])
           | _ \<Rightarrow> [])
      | _ \<Rightarrow> [])"

definition attach_criticality_shadow :: "content_lib \<Rightarrow> file_risk \<Rightarrow> criticality_shadow \<Rightarrow> file_risk" where
  "attach_criticality_shadow clib f s =
     (let reasons = fr_reasons f @ bypass_risk_reason s @ rust_risk_reason clib f s
      in f\<lparr>fr_risk_level := highest_risk LOW (map rr_risk_level reasons), fr_reasons := reasons,
           fr_rust_criticality := Some s\<rparr>)"

section \<open>The patch\<close>

definition from_diff_limit_reason :: "diff_limit_reason \<Rightarrow> risk_reason" where
  "from_diff_limit_reason r = reason (dl_code r) (dl_risk_level r) (dl_reason r) (limit_evidence r)"

definition dependency_workspace_target_id :: "dependency_target \<Rightarrow> string" where
  "dependency_workspace_target_id t =
     (if dt_directory t = [] then ''.'' else dt_directory t) @ '':'' @ ecosystem_value (dt_ecosystem t) @ '':'' @
     toolchain_value (dt_toolchain t)"

definition total_length :: "(dependency_target \<Rightarrow> string list) \<Rightarrow> dependency_target list \<Rightarrow> pyval" where
  "total_length sel plan = PInt (int (sum_list (map (\<lambda>t. length (sel t)) plan)))"

definition dependency_governance_evidence :: "dependency_target list \<Rightarrow> dict" where
  "dependency_governance_evidence plan =
     [(''workspace_count'', PInt (int (length plan))),
      (''workspace_targets'', PTuple (map (\<lambda>t. PStr (dependency_workspace_target_id t)) plan)),
      (''manifest_count'', total_length dt_manifests plan), (''lockfile_count'', total_length dt_lockfiles plan),
      (''private_registry_config_count'', total_length dt_private_registry_configs plan)] @ plan_flags plan"

definition dependency_governance_risk_level :: "dependency_target list \<Rightarrow> risk_level" where
  "dependency_governance_risk_level plan =
     (if resolver_environment_required plan \<or> private_registry_access_requires_approval plan then HIGH else MEDIUM)"

definition dependency_governance_reasons :: "dependency_target list \<Rightarrow> risk_reason list" where
  "dependency_governance_reasons plan = reason_when (dependency_changes_detected plan)
     (reason ''dependency-governance-required'' (dependency_governance_risk_level plan)
       ''Dependency governance checks are required before applying dependency-related changes.''
       (dependency_governance_evidence plan))"

fun level_for_intent :: "intent_severity \<Rightarrow> risk_level" where
  "level_for_intent IntentCRITICAL = CRITICAL"
| "level_for_intent IntentHIGH = HIGH"
| "level_for_intent IntentMEDIUM = MEDIUM"
| "level_for_intent IntentLOW = LOW"

definition intent_reason :: "float_ops \<Rightarrow> action_intent \<Rightarrow> risk_reason" where
  "intent_reason ops i =
     reason (''action-intent-'' @ intent_code_value (ai_code i)) (level_for_intent (ai_severity i)) (ai_reason i)
       [(''intent_code'', PStr (intent_code_value (ai_code i))),
        (''confidence'', PFloat (float_repr ops (ai_confidence i))),
        (''recommended_action'', PStr (intent_recommendation_value (ai_recommendation i))),
        (''evidence_count'', PInt (int (length (ai_evidence i)))),
        (''evidence'', PTuple (map (evidence_entry ops) (take 8 (ai_evidence i))))]"

definition action_intent_report_reasons :: "float_ops \<Rightarrow> intent_report \<Rightarrow> risk_reason list" where
  "action_intent_report_reasons ops r =
     map (intent_reason ops) (filter (\<lambda>i. \<not> risk_level_order (level_for_intent (ai_severity i)) < risk_level_order HIGH)
       (ir_intents r))"

definition patch_report_reasons ::
  "float_ops \<Rightarrow> patch_diff \<Rightarrow> risk_reason list \<Rightarrow> diff_limit_policy \<Rightarrow> (string \<times> string list) list \<Rightarrow> risk_reason list" where
  "patch_report_reasons ops d validation_reasons policy added =
     (let paths = map fd_path (pf_files d) in
      validation_reasons @ map from_diff_limit_reason (dr_reasons (evaluate_diff_limits d policy)) @
      dependency_governance_reasons (build_dependency_governance_plan paths) @
      action_intent_report_reasons ops (classify_action_intent ops [] paths added))"

definition classify_file ::
  "kernel_lib \<Rightarrow> content_lib \<Rightarrow> patch_diff \<Rightarrow> (string \<times> string list) list \<Rightarrow> patch_file_diff \<Rightarrow> file_risk res" where
  "classify_file lib clib d added f =
     rbind (classify_patch_file_risk f added) (\<lambda>risk.
     rbind (criticality_shadow_for_file lib clib d f) (\<lambda>s.
       Inr (attach_criticality_shadow clib risk s)))"

definition classify_patch_risk ::
  "kernel_lib \<Rightarrow> content_lib \<Rightarrow> float_ops \<Rightarrow> patch_diff \<Rightarrow> risk_reason list \<Rightarrow> diff_limit_policy \<Rightarrow> risk_report res" where
  "classify_patch_risk lib clib ops d validation_reasons policy =
     rbind (extract_added_lines_by_path (pf_patch d)) (\<lambda>added.
     rbind (rmap (classify_file lib clib d added) (pf_files d)) (\<lambda>files.
       Inr \<lparr>rp_baseline_commit_sha = pf_baseline_commit_sha d, rp_patch_sha256 = pf_patch_sha256 d, rp_files = files,
         rp_report_reasons = patch_report_reasons ops d validation_reasons policy added\<rparr>))"

section \<open>Scanning added lines\<close>

definition hits :: "string \<Rightarrow> string list \<Rightarrow> (string \<times> regex) list \<Rightarrow> string list" where
  "hits line seen ps = map fst (filter (\<lambda>(c, p). c \<notin> set seen \<and> re_search p line) ps)"

lemma set_hits: "c \<in> set (hits line seen ps) \<longleftrightarrow> c \<notin> set seen \<and> list_ex (\<lambda>(c', p). c' = c \<and> re_search p line) ps"
  by (force simp: hits_def list_ex_iff)

lemma hits_simps:
  "hits line seen [] = []"
  "hits line seen ((c, p) # ps) = (if c \<notin> set seen \<and> re_search p line then c # hits line seen ps else hits line seen ps)"
  by (simp_all add: hits_def)

lemma scan_line_hits:
  "distinct (map fst ps) \<Longrightarrow>
     scan_line mk line seen ps = (rev (hits line seen ps) @ seen, map mk (hits line seen ps))"
proof (induction ps arbitrary: seen)
  case (Cons cp ps)
  obtain c p where cp: "cp = (c, p)" by (cases cp)
  have "hits line (c # seen) ps = hits line seen ps"
    unfolding hits_def using Cons.prems cp by (intro arg_cong [of _ _ "map fst"] filter_cong) (auto simp: image_iff)
  then show ?case using Cons by (simp add: cp hits_simps)
qed (simp add: hits_simps)

lemma pattern_codes:
  "map fst SECRET_ADDED_LINE_PATTERNS = [''private-key-header'', ''aws-access-key-id'', ''openai-api-key'', ''credential-assignment'']"
  "map fst DESTRUCTIVE_ADDED_LINE_PATTERNS =
     [''recursive-force-delete'', ''world-writable-permission'', ''pipe-to-shell'', ''disk-format'', ''raw-disk-write'']"
  by (simp_all add: SECRET_ADDED_LINE_PATTERNS_def DESTRUCTIVE_ADDED_LINE_PATTERNS_def)

lemma pattern_codes_distinct:
  "distinct (map fst SECRET_ADDED_LINE_PATTERNS)" "distinct (map fst DESTRUCTIVE_ADDED_LINE_PATTERNS)"
  "fst ` set SECRET_ADDED_LINE_PATTERNS \<inter> fst ` set DESTRUCTIVE_ADDED_LINE_PATTERNS = {}"
  unfolding set_map [symmetric] pattern_codes by simp_all

lemma line_reason_code:
  "rr_code (secret_line_reason path c) = ''added-secret-'' @ c"
  "rr_code (destructive_line_reason path c) = ''destructive-command-'' @ c"
  by (simp_all add: secret_line_reason_def destructive_line_reason_def reason_def)

lemma secret_reason_inj [simp]: "secret_line_reason path c = secret_line_reason path c' \<longleftrightarrow> c = c'"
  using line_reason_code(1) [of path] by (metis same_append_eq)

lemma secret_not_destructive [simp]: "secret_line_reason path c \<noteq> destructive_line_reason path c'"
proof
  assume "secret_line_reason path c = destructive_line_reason path c'"
  then have "''added-secret-'' @ c = ''destructive-command-'' @ c'" using line_reason_code by metis
  then show False by simp
qed

definition line_has :: "(string \<times> regex) list \<Rightarrow> string \<Rightarrow> string \<Rightarrow> bool" where
  "line_has ps code line = list_ex (\<lambda>(c, p). c = code \<and> re_search p line) ps"

lemma content_reasons_Cons:
  "content_reasons path seen (line # lines) =
     (let secrets = hits line seen SECRET_ADDED_LINE_PATTERNS;
          commands = hits line (secrets @ seen) DESTRUCTIVE_ADDED_LINE_PATTERNS
      in map (secret_line_reason path) secrets @ map (destructive_line_reason path) commands @
         content_reasons path (rev commands @ rev secrets @ seen) lines)"
proof -
  have "hits line (rev xs @ seen) ps = hits line (xs @ seen) ps" for xs ps by (simp add: hits_def)
  then show ?thesis
    by (simp add: scan_line_hits pattern_codes_distinct Let_def)
qed

lemma no_secret_reason:
  "code \<notin> fst ` set SECRET_ADDED_LINE_PATTERNS \<Longrightarrow> secret_line_reason path code \<notin> set (content_reasons path seen lines)"
proof (induction lines arbitrary: seen)
  case (Cons line lines)
  then have "code \<notin> set (hits line seen SECRET_ADDED_LINE_PATTERNS)"
    by (force simp: set_hits list_ex_iff)
  with Cons show ?case unfolding content_reasons_Cons Let_def by auto
qed simp

lemma secret_reason_mem:
  "code \<in> fst ` set SECRET_ADDED_LINE_PATTERNS \<Longrightarrow> code \<notin> set seen \<Longrightarrow>
     secret_line_reason path code \<in> set (content_reasons path seen lines) \<longleftrightarrow>
       list_ex (line_has SECRET_ADDED_LINE_PATTERNS code) lines"
proof (induction lines arbitrary: seen)
  case (Cons line lines)
  let ?s = "hits line seen SECRET_ADDED_LINE_PATTERNS"
  let ?c = "hits line (?s @ seen) DESTRUCTIVE_ADDED_LINE_PATTERNS"
  have s: "code \<in> set ?s \<longleftrightarrow> line_has SECRET_ADDED_LINE_PATTERNS code line"
    using Cons.prems by (simp add: set_hits line_has_def)
  have "code \<notin> fst ` set DESTRUCTIVE_ADDED_LINE_PATTERNS" using Cons.prems pattern_codes_distinct(3) by blast
  then have c: "code \<notin> set ?c" by (force simp: set_hits list_ex_iff)
  show ?case
  proof (cases "code \<in> set ?s")
    case False
    then show ?thesis
      using Cons c s unfolding content_reasons_Cons Let_def by auto
  qed (use s in \<open>auto simp: content_reasons_Cons Let_def simp del: content_reasons.simps\<close>)
qed simp

text \<open>
  (C26) The scan for secrets is exact on the lines it is given: a secret of some kind is reported, as critical, for a
  file precisely when one of its added lines matches that kind's pattern.
\<close>

theorem secret_scan_exact:
  "secret_line_reason path code \<in> set (content_risk_reasons path lines) \<longleftrightarrow>
     list_ex (line_has SECRET_ADDED_LINE_PATTERNS code) lines"
proof (cases "code \<in> fst ` set SECRET_ADDED_LINE_PATTERNS")
  case True
  then show ?thesis unfolding content_risk_reasons_def by (simp add: secret_reason_mem)
next
  case False
  then have "\<not> line_has SECRET_ADDED_LINE_PATTERNS code l" for l by (force simp: line_has_def list_ex_iff)
  then show ?thesis unfolding content_risk_reasons_def using no_secret_reason [OF False] by (simp add: list_ex_iff)
qed

section \<open>Recovering the added lines\<close>

definition one_line :: "string \<Rightarrow> bool" where
  "one_line l = list_all (\<lambda>c. \<not> is_line_end c) l"

lemma splitlines_from_append:
  "one_line l \<Longrightarrow> splitlines_from acc (l @ CHR 0x0A # s) = (acc @ l) # splitlines s"
  unfolding splitlines_def
proof (induction l arbitrary: acc)
  case Nil
  then show ?case by (cases s) (simp_all add: is_line_end_def)
next
  case (Cons c l)
  then obtain d r where "l @ CHR 0x0A # s = d # r" by (cases l) auto
  then show ?case using Cons by (auto simp: one_line_def)
qed

lemma splitlines_from_last: "one_line l \<Longrightarrow> acc @ l \<noteq> [] \<Longrightarrow> splitlines_from acc l = [acc @ l]"
  by (induction acc l rule: splitlines_from.induct) (auto simp: one_line_def)

lemma splitlines_join:
  "list_all one_line ls \<Longrightarrow> ls \<noteq> [] \<Longrightarrow> last ls \<noteq> [] \<Longrightarrow> splitlines (join [CHR 0x0A] ls) = ls"
proof (induction ls rule: induct_list012)
  case (2 l)
  then show ?case unfolding splitlines_def by (simp add: splitlines_from_last)
next
  case (3 l m ls)
  then show ?case
    unfolding splitlines_def using splitlines_from_append [of l "[]"] by (simp add: splitlines_def)
qed simp

text \<open>A patch as \<open>git\<close> prints it: for each file its headers and the lines of its hunks.\<close>

definition patch_lines :: "string \<times> string list \<Rightarrow> string list" where
  "patch_lines f = (case f of (path, hunk) \<Rightarrow>
     [''diff --git a/'' @ path @ '' b/'' @ path, ''--- a/'' @ path, ''+++ b/'' @ path] @ hunk)"

definition print_patch :: "(string \<times> string list) list \<Rightarrow> string" where
  "print_patch files = join [CHR 0x0A] (concat (map patch_lines files))"

definition hunk_line :: "string \<Rightarrow> bool" where
  "hunk_line l = (one_line l \<and> l \<noteq> [] \<and> hd l \<in> set ''+- @'' \<and> \<not> starts_with l ''+++'')"

definition printable_path :: "string \<Rightarrow> bool" where
  "printable_path p = (one_line p \<and> p \<noteq> [] \<and> \<not> is_space (hd p) \<and> \<not> is_space (last p) \<and>
     normalize_repo_relative_path p = Inr p)"

definition added_of :: "string list \<Rightarrow> string list" where
  "added_of hunk = map tl (filter (\<lambda>l. starts_with l ''+'') hunk)"

lemma hunk_not_header: "hunk_line l \<Longrightarrow> \<not> starts_with l ''diff --git '' \<and> \<not> starts_with l ''+++ ''"
proof -
  assume l: "hunk_line l"
  have "prefix ''+++'' l" if "prefix ''+++ '' l" using that by (metis append.assoc append_Cons append_Nil prefix_def)
  with l show ?thesis by (cases l) (auto simp: hunk_line_def starts_with_def)
qed

lemma append_added_app: "map_of d p = None \<Longrightarrow> append_added p l (d @ [(p, ls)]) = d @ [(p, ls @ [l])]"
  unfolding append_added_def by (induction d) (auto split: if_splits)

lemma extract_hunk:
  "list_all hunk_line hunk \<Longrightarrow> map_of d p = None \<Longrightarrow>
     extract_added (Some p) (d @ [(p, ls)]) (hunk @ rest) = extract_added (Some p) (d @ [(p, ls @ added_of hunk)]) rest"
proof (induction hunk arbitrary: ls)
  case (Cons l hunk)
  then have h: "hunk_line l" by simp
  then have "\<not> starts_with l ''diff --git ''" "\<not> starts_with l ''+++ ''" "\<not> starts_with l ''+++''"
    using hunk_not_header by (auto simp: hunk_line_def)
  with Cons show ?case by (auto simp: append_added_app added_of_def)
qed (simp add: added_of_def)

lemma strip_id: "l \<noteq> [] \<Longrightarrow> \<not> is_space (hd l) \<Longrightarrow> \<not> is_space (last l) \<Longrightarrow> strip l = l"
proof -
  assume l: "l \<noteq> []" "\<not> is_space (hd l)" "\<not> is_space (last l)"
  have "dropWhile is_space l = l" using l by (cases l) auto
  moreover have "dropWhile is_space (rev l) = rev l" using l by (cases l rule: rev_cases) auto
  ultimately show ?thesis by (simp add: strip_def lstrip_def rstrip_def)
qed

lemma header_path: "printable_path p \<Longrightarrow> parse_new_patch_path (strip (drop 4 (''+++ b/'' @ p))) = Inr (Some p)"
proof -
  assume p: "printable_path p"
  have "strip (''b/'' @ p) = ''b/'' @ p"
    using p by (intro strip_id) (auto simp: printable_path_def is_space_def)
  then show ?thesis using p by (simp add: parse_new_patch_path_def starts_with_def printable_path_def)
qed

lemma extract_files:
  "list_all (\<lambda>(p, hunk). printable_path p \<and> list_all hunk_line hunk) files \<Longrightarrow> distinct (map fst files) \<Longrightarrow>
     fst ` set d \<inter> fst ` set files = {} \<Longrightarrow>
     extract_added current d (concat (map patch_lines files)) = Inr (d @ map (\<lambda>(p, hunk). (p, added_of hunk)) files)"
proof (induction files arbitrary: d current)
  case (Cons f files)
  obtain p hunk where f: "f = (p, hunk)" by (cases f)
  have fresh: "map_of d p = None" using Cons.prems by (auto simp: f map_of_eq_None_iff)
  have "extract_added current d (concat (map patch_lines (f # files))) =
      extract_added (Some p) (d @ [(p, [])]) (hunk @ concat (map patch_lines files))"
    using Cons.prems(1) header_path [of p] fresh
    by (cases current) (auto simp: f patch_lines_def starts_with_def set_default_def)
  also have "\<dots> = extract_added (Some p) (d @ [(p, added_of hunk)]) (concat (map patch_lines files))"
    using extract_hunk [of hunk d p "[]"] Cons.prems(1) fresh by (simp add: f)
  also have "\<dots> = Inr ((d @ [(p, added_of hunk)]) @ map (\<lambda>(p, hunk). (p, added_of hunk)) files)"
    using Cons.prems by (intro Cons.IH) (auto simp: f)
  finally show ?case by (simp add: f)
qed simp

lemma patch_lines_ok:
  "printable_path p \<Longrightarrow> list_all hunk_line hunk \<Longrightarrow> list_all one_line (patch_lines (p, hunk)) \<and> last (patch_lines (p, hunk)) \<noteq> []"
  by (auto simp: patch_lines_def printable_path_def hunk_line_def list_all_iff one_line_def is_line_end_def)

text \<open>
  (C27) Reading a patch back: of a patch printed file by file, with headers and hunks, the added lines of every file
  are recovered exactly, provided that no line of a hunk holds a line separator or begins with three plus signs.
\<close>

theorem added_lines_recovered:
  assumes "files \<noteq> []" "distinct (map fst files)"
    and "list_all (\<lambda>(p, hunk). printable_path p \<and> list_all hunk_line hunk) files"
  shows "extract_added_lines_by_path (print_patch files) = Inr (map (\<lambda>(p, hunk). (p, added_of hunk)) files)"
proof -
  have ok: "list_all one_line (patch_lines f) \<and> patch_lines f \<noteq> [] \<and> last (patch_lines f) \<noteq> []" if "f \<in> set files" for f
    using that assms(3) patch_lines_ok [of "fst f" "snd f"] by (auto simp: list_all_iff patch_lines_def split: prod.splits)
  have "last (concat (map patch_lines files)) = last (patch_lines (last files))"
    using assms(1) ok by (induction files rule: rev_induct) (auto simp: last_append)
  then have "splitlines (print_patch files) = concat (map patch_lines files)"
    unfolding print_patch_def using ok ok [OF last_in_set [OF assms(1)]] last_in_set [OF assms(1)]
    by (intro splitlines_join) (fastforce simp: list_all_iff)+
  then show ?thesis
    unfolding extract_added_lines_by_path_def using extract_files [of files "[]" None] assms by simp
qed

lemma sample_hunks:
  "list_all (\<lambda>(p, hunk). printable_path p \<and> list_all hunk_line hunk)
     [(''a.py'', [''@@ -1 +1 @@'', ''-x = 1'', ''+x = 2'']), (''d/n.md'', [''+new''])]"
  by code_simp

lemma added_lines_recovered_witness:
  "extract_added_lines_by_path (print_patch [(''a.py'', [''@@ -1 +1 @@'', ''-x = 1'', ''+x = 2'']), (''d/n.md'', [''+new''])]) =
     Inr [(''a.py'', [''x = 2'']), (''d/n.md'', [''new''])]"
  using added_lines_recovered [OF _ _ sample_hunks] by (simp add: added_of_def starts_with_def)

section \<open>What the scan misses\<close>

text \<open>The characters a pattern needs, in order; a text in which they do not occur in that order has no match.\<close>

fun re_needs :: "regex \<Rightarrow> (char \<Rightarrow> bool) list" where
  "re_needs (Chr f) = [f]"
| "re_needs (Seq a b) = re_needs a @ re_needs b"
| "re_needs _ = []"

fun embeds :: "(char \<Rightarrow> bool) list \<Rightarrow> string \<Rightarrow> bool" where
  "embeds [] s = True"
| "embeds (f # fs) [] = False"
| "embeds (f # fs) (c # cs) = (if f c then embeds fs cs else embeds (f # fs) cs)"

lemma embeds_weaken: "embeds fs s \<Longrightarrow> (\<forall>c. embeds fs (c # s)) \<and> embeds (tl fs) s"
proof (induction s arbitrary: fs)
  case Nil
  then show ?case by (cases fs) auto
next
  case step: (Cons d s)
  show ?case
  proof (cases fs)
    case (Cons f fs')
    have "embeds fs' (d # s)"
      using step.IH [of fs'] step.IH [of "f # fs'"] step.prems Cons by (auto split: if_splits)
    then show ?thesis using step.prems Cons by auto
  qed simp
qed

lemma embeds_Cons: "embeds fs s \<Longrightarrow> embeds fs (c # s)"
  using embeds_weaken by blast

lemma embeds_suffix: "suffix t s \<Longrightarrow> embeds fs t \<Longrightarrow> embeds fs s"
  unfolding suffix_def by (elim exE) (induction s arbitrary: t, auto simp: Cons_eq_append_conv dest: embeds_Cons)

lemma re_match_embeds: "re_match r p q \<Longrightarrow> embeds fs (snd q) \<Longrightarrow> embeds (re_needs r @ fs) (snd p)"
proof (induction arbitrary: fs rule: re_match.induct)
  case (match_star_step a p q r)
  then show ?case using re_match_suffix embeds_suffix by (metis append_Nil re_needs.simps(5))
qed (auto dest: re_match_suffix embeds_suffix)

lemma run_embeds: "re_run r (pr, t) \<noteq> [] \<Longrightarrow> embeds (re_needs r) t"
  using re_match_embeds [OF re_run_sound [OF list.set_sel(1)], of r "(pr, t)" "[]"] by simp

lemma search_embeds: "re_search r s \<Longrightarrow> embeds (re_needs r) s"
proof -
  have "re_search_from r pr t \<Longrightarrow> embeds (re_needs r) t" for pr t
    by (induction t arbitrary: pr) (auto dest: run_embeds intro: embeds_Cons)
  then show "re_search r s \<Longrightarrow> embeds (re_needs r) s" by (simp add: re_search_def)
qed

lemma lower_ascii: "lower_char (CHR ''f'') = CHR ''f''" "lower_char (CHR ''r'') = CHR ''r''" "lower_char (CHR ''m'') = CHR ''m''"
  "lower_char (CHR '' '') = CHR '' ''" "lower_char (CHR ''-'') = CHR ''-''" "is_space (CHR '' '')" "\<not> is_space (CHR ''-'')"
  by code_simp+

lemma forced_remove_order: "\<not> line_has DESTRUCTIVE_ADDED_LINE_PATTERNS ''recursive-force-delete'' ''rm -fr''"
proof -
  have "\<not> embeds (re_needs (Seqs [WordB, LitI ''rm'', Plus space, Lit ''-'', Star any_letter, LitI ''r'',
         Star any_letter, LitI ''f'', Star any_letter, WordB])) ''rm -fr''"
    by (simp add: Plus_def space_def chr_def any_letter_def lower_ascii)
  then show ?thesis
    using search_embeds by (auto simp: line_has_def DESTRUCTIVE_ADDED_LINE_PATTERNS_def simp del: Seqs.simps embeds.simps)
qed

lemma disk_format_stuck: "\<not> line_has DESTRUCTIVE_ADDED_LINE_PATTERNS ''disk-format'' ''mkfs /dev/sda''"
proof -
  have "re_stuck ''mkfs /dev/sda'' (Seqs [WordB, LitI ''mkfs'', Alts [Lit ''.'', Seq (chr (CHR 0x5C)) (LitI ''s'')]])"
    by (simp add: chr_def)
  then show ?thesis
    using re_stuck_no_search by (simp add: line_has_def DESTRUCTIVE_ADDED_LINE_PATTERNS_def del: Seqs.simps re_stuck.simps)
qed


end
