(* ===== verification/Change_Gate.thy ===== *)
theory Change_Gate
  imports Change_Risk
begin

text \<open>
  \<open>src/rygnal/change_gate.py\<close>: the gate that blocks a patch with a critical reason, and its audit entry. The
  theorems say which patches it blocks, in terms of what the risk classification reads from the patch.
\<close>

section \<open>The gate\<close>

datatype gate_outcome = GateALLOW | GateBLOCK

fun gate_outcome_value :: "gate_outcome \<Rightarrow> string" where
  "gate_outcome_value GateALLOW = ''allow''"
| "gate_outcome_value GateBLOCK = ''block''"

record block_reason =
  br_code :: string
  br_risk_level :: risk_level
  br_reason :: string
  br_path :: "string option"
  br_evidence :: dict

definition block_reason_summary :: "block_reason \<Rightarrow> dict" where
  "block_reason_summary r = [(''code'', PStr (br_code r)), (''risk_level'', PStr (risk_level_value (br_risk_level r))),
     (''reason'', PStr (br_reason r)), (''path'', opt_val (br_path r)), (''evidence'', dict_val (br_evidence r))]"

record gate_decision =
  gd_outcome :: gate_outcome
  gd_risk_report :: risk_report
  gd_block_reasons :: "block_reason list"

definition blocked :: "gate_decision \<Rightarrow> bool" where
  "blocked g = (gd_outcome g = GateBLOCK)"

definition allowed_to_continue :: "gate_decision \<Rightarrow> bool" where
  "allowed_to_continue g = (\<not> blocked g)"

definition gate_policy_decision :: "gate_decision \<Rightarrow> decision" where
  "gate_policy_decision g = (if blocked g then BLOCK else ALLOW)"

fun severity_from_risk_level :: "risk_level \<Rightarrow> severity" where
  "severity_from_risk_level CRITICAL = SevCRITICAL"
| "severity_from_risk_level HIGH = SevHIGH"
| "severity_from_risk_level MEDIUM = SevMEDIUM"
| "severity_from_risk_level LOW = SevLOW"

definition gate_severity :: "gate_decision \<Rightarrow> severity" where
  "gate_severity g = severity_from_risk_level (overall_risk_level (gd_risk_report g))"

definition gate_reason :: "gate_decision \<Rightarrow> string" where
  "gate_reason g = (if blocked g then ''Guarded workspace patch blocked by deterministic dangerous-change gate.''
     else ''Guarded workspace patch did not match critical block rules.'')"

definition gate_summary :: "gate_decision \<Rightarrow> dict" where
  "gate_summary g =
     (let r = gd_risk_report g in
      [(''outcome'', PStr (gate_outcome_value (gd_outcome g))), (''blocked'', PBool (blocked g)),
       (''allowed_to_continue'', PBool (allowed_to_continue g)),
       (''decision'', PStr (decision_value (gate_policy_decision g))),
       (''severity'', PStr (severity_value (gate_severity g))), (''reason'', PStr (gate_reason g)),
       (''baseline_commit_sha'', PStr (rp_baseline_commit_sha r)), (''patch_sha256'', PStr (rp_patch_sha256 r)),
       (''overall_risk_level'', PStr (risk_level_value (overall_risk_level r))),
       (''changed_file_count'', PInt (int (length (rp_files r)))), (''risk_counts'', dict_val (risk_counts r)),
       (''block_reasons'', PTuple (map (\<lambda>x. dict_val (block_reason_summary x)) (gd_block_reasons g))),
       (''risk_report'', dict_val (risk_report_summary r))])"

definition from_risk_reason :: "string option \<Rightarrow> risk_reason \<Rightarrow> block_reason" where
  "from_risk_reason path r = \<lparr>br_code = rr_code r, br_risk_level = rr_risk_level r, br_reason = rr_reason r,
     br_path = path, br_evidence = rr_evidence r\<rparr>"

definition file_block_reasons :: "file_risk \<Rightarrow> block_reason list" where
  "file_block_reasons f =
     map (from_risk_reason (Some (fr_path f))) (filter (\<lambda>r. rr_risk_level r = CRITICAL) (fr_reasons f))"

definition collect_block_reasons :: "risk_report \<Rightarrow> block_reason list" where
  "collect_block_reasons r = concat (map file_block_reasons (rp_files r)) @
     map (from_risk_reason None) (filter (\<lambda>x. rr_risk_level x = CRITICAL) (rp_report_reasons r))"

definition gate_report :: "risk_report \<Rightarrow> gate_decision" where
  "gate_report report =
     (let block_reasons = collect_block_reasons report
      in \<lparr>gd_outcome = (if block_reasons \<noteq> [] then GateBLOCK else GateALLOW), gd_risk_report = report,
          gd_block_reasons = block_reasons\<rparr>)"

record risk_libs =
  rl_kernel :: kernel_lib
  rl_content :: content_lib
  rl_float :: float_ops

abbreviation classify_default :: "risk_libs \<Rightarrow> patch_diff \<Rightarrow> risk_report res" where
  "classify_default libs d \<equiv>
     classify_patch_risk (rl_kernel libs) (rl_content libs) (rl_float libs) d [] DEFAULT_DIFF_LIMIT_POLICY"

definition evaluate_guarded_change_gate :: "risk_libs \<Rightarrow> patch_diff \<Rightarrow> risk_report option \<Rightarrow> gate_decision res" where
  "evaluate_guarded_change_gate libs d risk_report_opt =
     rbind (case risk_report_opt of Some r \<Rightarrow> Inr r | None \<Rightarrow> classify_default libs d) (\<lambda>report.
       Inr (gate_report report))"

definition gate_audit_request :: "gate_decision \<Rightarrow> string \<Rightarrow> string \<Rightarrow> string \<Rightarrow> string \<Rightarrow> tool_request" where
  "gate_audit_request g user agent env trace =
     guarded_request ''evaluate_patch_gate'' (rp_patch_sha256 (gd_risk_report g)) (gate_summary g) user agent env
       [(''trace_id'', PStr trace), (''event_type'', PStr ''guarded_workspace.change_gate''),
        (''patch_sha256'', PStr (rp_patch_sha256 (gd_risk_report g))),
        (''baseline_commit_sha'', PStr (rp_baseline_commit_sha (gd_risk_report g)))]"

definition gate_audit_decision :: "gate_decision \<Rightarrow> policy_decision" where
  "gate_audit_decision g =
     \<lparr>pd_decision = gate_policy_decision g, pd_allowed = allowed_to_continue g, pd_severity = gate_severity g,
      pd_reason = gate_reason g, pd_policy_id = Some ''guarded-workspace-dangerous-change-gate'', pd_explanation = None\<rparr>"

definition write_guarded_change_gate_audit_event ::
  "audit_lib \<Rightarrow> event_draws \<Rightarrow> audit_logger \<Rightarrow> gate_decision \<Rightarrow> string \<Rightarrow> string \<Rightarrow> string \<Rightarrow> string \<Rightarrow>
   audit_event res \<times> audit_logger" where
  "write_guarded_change_gate_audit_event lib draws logger g user agent env trace =
     log_decision lib draws logger (gate_audit_request g user agent env trace) (gate_audit_decision g) (gate_summary g)"

section \<open>What the classification reports\<close>

lemma list_all2_left: "list_all2 P xs ys \<Longrightarrow> x \<in> set xs \<Longrightarrow> \<exists>y \<in> set ys. P x y"
  by (induction rule: list_all2_induct) auto

lemma list_all2_right: "list_all2 P xs ys \<Longrightarrow> y \<in> set ys \<Longrightarrow> \<exists>x \<in> set xs. P x y"
  by (induction rule: list_all2_induct) auto

lemma classified_file:
  assumes "classify_file lib clib d added f = Inr r"
  obtains path s extra where "normalize_repo_relative_path (fd_path f) = Inr path" "fr_path r = path"
    "fr_binary r = fd_binary f" "fr_old_mode r = fd_old_mode f" "fr_new_mode r = fd_new_mode f"
    "fr_mode_changed r = fd_mode_changed f"
    "fr_reasons r = file_reasons path f (case map_of added path of None \<Rightarrow> [] | Some ls \<Rightarrow> ls) @ extra"
    "\<forall>x \<in> set extra. rr_risk_level x = HIGH"
    "fr_risk_level r = highest_risk LOW (map rr_risk_level (fr_reasons r))"
proof -
  obtain path s where p: "normalize_repo_relative_path (fd_path f) = Inr path"
    and s: "criticality_shadow_for_file lib clib d f = Inr s"
    and r: "r = attach_criticality_shadow clib (projr (classify_patch_file_risk f added)) s"
    using assms by (auto simp: classify_file_def classify_patch_file_risk_def Let_def res_simps)
  have "\<forall>x \<in> set (bypass_risk_reason s @ rust_risk_reason clib g s). rr_risk_level x = HIGH" for g
    by (auto simp: bypass_risk_reason_def rust_risk_reason_def reason_when_def reason_def enforced_level_def
        split: bool.splits option.splits if_splits)
  then show thesis
    using p r that by (simp add: classify_patch_file_risk_def attach_criticality_shadow_def Let_def)
qed

lemma classified_patch:
  assumes "classify_patch_risk lib clib ops d vs policy = Inr report"
  obtains added where "extract_added_lines_by_path (pf_patch d) = Inr added"
    "list_all2 (\<lambda>f r. classify_file lib clib d added f = Inr r) (pf_files d) (rp_files report)"
    "rp_report_reasons report = patch_report_reasons ops d vs policy added"
    "rp_patch_sha256 report = pf_patch_sha256 d" "rp_baseline_commit_sha report = pf_baseline_commit_sha d"
  using assms by (auto simp: classify_patch_risk_def res_simps rmap_Inr_iff)

definition levels_consistent :: "risk_report \<Rightarrow> bool" where
  "levels_consistent report =
     list_all (\<lambda>f. fr_risk_level f = highest_risk LOW (map rr_risk_level (fr_reasons f))) (rp_files report)"

lemma classified_levels: "classify_patch_risk lib clib ops d vs policy = Inr report \<Longrightarrow> levels_consistent report"
proof -
  assume "classify_patch_risk lib clib ops d vs policy = Inr report"
  then obtain added where "list_all2 (\<lambda>f r. classify_file lib clib d added f = Inr r) (pf_files d) (rp_files report)"
    by (rule classified_patch)
  then have "\<forall>r \<in> set (rp_files report). \<exists>f. classify_file lib clib d added f = Inr r"
    using list_all2_right by fast
  moreover have "fr_risk_level r = highest_risk LOW (map rr_risk_level (fr_reasons r))"
    if "classify_file lib clib d added f = Inr r" for f r
    using that by (rule classified_file)
  ultimately show ?thesis by (auto simp: levels_consistent_def list_all_iff)
qed

lemma levels_critical: "highest_risk LOW (map l xs) = CRITICAL \<longleftrightarrow> (\<exists>x \<in> set xs. l x = CRITICAL)"
  by (auto simp: highest_risk_critical image_iff eq_commute [of CRITICAL])

lemma overall_critical:
  "levels_consistent report \<Longrightarrow> overall_risk_level report = CRITICAL \<longleftrightarrow>
     (\<exists>f \<in> set (rp_files report). \<exists>x \<in> set (fr_reasons f). rr_risk_level x = CRITICAL) \<or>
     (\<exists>x \<in> set (rp_report_reasons report). rr_risk_level x = CRITICAL)"
proof -
  assume "levels_consistent report"
  then have "fr_risk_level f = CRITICAL \<longleftrightarrow> (\<exists>x \<in> set (fr_reasons f). rr_risk_level x = CRITICAL)"
    if "f \<in> set (rp_files report)" for f
    using that levels_critical by (simp add: levels_consistent_def list_all_iff)
  moreover have "overall_risk_level report = CRITICAL \<longleftrightarrow>
     (\<exists>f \<in> set (rp_files report). fr_risk_level f = CRITICAL) \<or> (\<exists>x \<in> set (rp_report_reasons report). rr_risk_level x = CRITICAL)"
    by (auto simp: overall_risk_level_def highest_risk_critical image_iff eq_commute [of CRITICAL])
  ultimately show ?thesis by blast
qed

lemma collect_Nil_iff:
  "collect_block_reasons report = [] \<longleftrightarrow>
     (\<forall>f \<in> set (rp_files report). \<forall>x \<in> set (fr_reasons f). rr_risk_level x \<noteq> CRITICAL) \<and>
     (\<forall>x \<in> set (rp_report_reasons report). rr_risk_level x \<noteq> CRITICAL)"
  by (auto simp: collect_block_reasons_def file_block_reasons_def filter_empty_conv)

lemma blocked_iff_reason:
  "blocked (gate_report report) \<longleftrightarrow>
     (\<exists>f \<in> set (rp_files report). \<exists>x \<in> set (fr_reasons f). rr_risk_level x = CRITICAL) \<or>
     (\<exists>x \<in> set (rp_report_reasons report). rr_risk_level x = CRITICAL)"
  using collect_Nil_iff [of report] by (auto simp: blocked_def gate_report_def Let_def)

text \<open>
  The gate and the risk level agree: a patch that the classification rates is blocked precisely when its overall
  level is critical, and then every block reason is critical.
\<close>

theorem gate_blocks_critical_patches:
  assumes "evaluate_guarded_change_gate libs d None = Inr g"
  shows "(blocked g \<longleftrightarrow> overall_risk_level (gd_risk_report g) = CRITICAL) \<and>
    (blocked g \<longleftrightarrow> gd_block_reasons g \<noteq> []) \<and> list_all (\<lambda>r. br_risk_level r = CRITICAL) (gd_block_reasons g)"
proof -
  obtain report where c: "classify_default libs d = Inr report" and g: "g = gate_report report"
    using assms by (auto simp: evaluate_guarded_change_gate_def res_simps)
  have "blocked g \<longleftrightarrow> overall_risk_level report = CRITICAL"
    by (simp only: g blocked_iff_reason overall_critical [OF classified_levels [OF c]])
  moreover have "blocked g \<longleftrightarrow> gd_block_reasons g \<noteq> []" "gd_risk_report g = report"
    "gd_block_reasons g = collect_block_reasons report"
    by (simp_all add: g gate_report_def Let_def blocked_def)
  ultimately show ?thesis
    by (auto simp: list_all_iff collect_block_reasons_def file_block_reasons_def from_risk_reason_def)
qed

section \<open>Dangerous patches\<close>

text \<open>What makes one file of a patch dangerous, read from its metadata and its added lines.\<close>

definition dangerous_file :: "(string \<times> string list) list \<Rightarrow> patch_file_diff \<Rightarrow> bool" where
  "dangerous_file added f =
     (case normalize_repo_relative_path (fd_path f) of Inl _ \<Rightarrow> False | Inr path \<Rightarrow>
        matches_any (lower path) SECURITY_SENSITIVE_PATH_PATTERNS \<or>
        fd_old_mode f = Some ''120000'' \<or> fd_new_mode f = Some ''120000'' \<or>
        list_ex (\<lambda>line. list_ex (\<lambda>code. line_has SECRET_ADDED_LINE_PATTERNS code line) (map fst SECRET_ADDED_LINE_PATTERNS))
          (case map_of added path of None \<Rightarrow> [] | Some ls \<Rightarrow> ls))"

lemma reason_level [simp]: "rr_risk_level (reason c l t e) = l" "rr_code (reason c l t e) = c"
  by (simp_all add: reason_def)

lemma dangerous_file_critical:
  assumes "dangerous_file added f" "classify_file lib clib d added f = Inr r"
  shows "\<exists>x \<in> set (fr_reasons r). rr_risk_level x = CRITICAL"
proof -
  obtain path extra where p: "normalize_repo_relative_path (fd_path f) = Inr path"
    and r: "fr_reasons r = file_reasons path f (case map_of added path of None \<Rightarrow> [] | Some ls \<Rightarrow> ls) @ extra"
    using assms(2) by (rule classified_file)
  let ?lines = "case map_of added path of None \<Rightarrow> [] | Some ls \<Rightarrow> ls"
  have "\<exists>x \<in> set (path_risk_reasons path @ metadata_risk_reasons f @ content_risk_reasons path ?lines). rr_risk_level x = CRITICAL"
  proof -
    consider "matches_any (lower path) SECURITY_SENSITIVE_PATH_PATTERNS"
      | "fd_old_mode f = Some ''120000'' \<or> fd_new_mode f = Some ''120000''"
      | code where "list_ex (line_has SECRET_ADDED_LINE_PATTERNS code) ?lines"
      using assms(1) p by (auto simp: dangerous_file_def list_ex_iff)
    then show ?thesis
    proof cases
      case 1
      then show ?thesis by (auto simp: path_risk_reasons_def Let_def reason_when_def)
    next
      case 2
      then show ?thesis by (auto simp: metadata_risk_reasons_def Let_def)
    next
      case (3 code)
      then have "secret_line_reason path code \<in> set (content_risk_reasons path ?lines)"
        by (simp add: secret_scan_exact)
      moreover have "rr_risk_level (secret_line_reason path code) = CRITICAL" by (simp add: secret_line_reason_def)
      ultimately show ?thesis by auto
    qed
  qed
  moreover have "set (path_risk_reasons path @ metadata_risk_reasons f @ content_risk_reasons path ?lines) \<subseteq> set (fr_reasons r)"
    by (auto simp: r file_reasons_def Let_def)
  ultimately show ?thesis by blast
qed


definition sample_kernel :: kernel_lib where
  "sample_kernel = \<lparr>kernel = None, json_loads = (\<lambda>_. None), to_float = (\<lambda>_. Inr ''0.0''), to_int = (\<lambda>_. Inr 0)\<rparr>"

definition no_content :: py_exn where
  "no_content = Exn OSErr ''FileNotFoundError'' ''missing''"

definition sample_content :: content_lib where
  "sample_content = \<lparr>toml_loads = (\<lambda>_. None), float_below = (\<lambda>_ _. False), resolve_dir = (\<lambda>p. p),
     baseline_file_size = (\<lambda>_ _ _. Inl no_content), workspace_file_size = (\<lambda>_ _. Inl no_content),
     baseline_file_bytes = (\<lambda>_ _ _. Inl no_content), workspace_file_bytes = (\<lambda>_ _. Inl no_content),
     utf8_decode = Some\<rparr>"

definition sample_libs :: risk_libs where
  "sample_libs = \<lparr>rl_kernel = sample_kernel, rl_content = sample_content, rl_float = sample_float\<rparr>"

definition link_change :: patch_diff where
  "link_change = \<lparr>pf_workspace_path = ''w'', pf_baseline_commit_sha = ''b'',
     pf_patch = [], pf_patch_sha256 = ''h'', pf_patch_size_bytes = 0,
     pf_files = [\<lparr>fd_path = ''link'', fd_kind = ADDED, fd_additions = Some 1, fd_deletions = Some 0,
       fd_binary = False, fd_old_path = None, fd_old_mode = None, fd_new_mode = Some ''120000'', fd_mode_changed = False\<rparr>],
     pf_ignored_files = []\<rparr>"

lemma link_change_gate:
  "\<exists>g. evaluate_guarded_change_gate sample_libs link_change None = Inr g"
  "(case evaluate_guarded_change_gate sample_libs link_change None of Inl _ \<Rightarrow> False | Inr _ \<Rightarrow> True)"
proof -
  show "(case evaluate_guarded_change_gate sample_libs link_change None of Inl _ \<Rightarrow> False | Inr _ \<Rightarrow> True)"
    by code_simp
  then show "\<exists>g. evaluate_guarded_change_gate sample_libs link_change None = Inr g"
    by (simp split: sum.splits)
qed

lemma link_change_added: "extract_added_lines_by_path (pf_patch link_change) = Inr []"
  by code_simp

lemma link_change_dangerous: "list_ex (dangerous_file []) (pf_files link_change)"
  by code_simp


end
