(* ===== verification/Patch_Approval.thy ===== *)
theory Patch_Approval
  imports Change_Gate Approval_Queue
begin

text \<open>
  \<open>src/rygnal/patch_approval.py\<close>: when a patch needs an approval, the request and the decision, and the check that an
  approval is in force for a patch. \<open>datetime.fromisoformat\<close> is an argument: it gives the local_time time in microseconds
  since the first day of year 1 and the offset from UTC, if the text has one.
\<close>

section \<open>Reasons\<close>

definition PatchApprovalError :: "string \<Rightarrow> py_exn" where
  "PatchApprovalError msg = Exn RuntimeErr ''PatchApprovalError'' msg"

definition DEFAULT_PATCH_APPROVAL_TTL_SECONDS :: int where
  "DEFAULT_PATCH_APPROVAL_TTL_SECONDS = 60 * 60"

record approval_reason =
  pa_code :: string
  pa_reason :: string
  pa_path :: "string option"
  pa_risk_level :: "risk_level option"

definition approval_reason_summary :: "approval_reason \<Rightarrow> dict" where
  "approval_reason_summary r = [(''code'', PStr (pa_code r)), (''reason'', PStr (pa_reason r)),
     (''path'', opt_val (pa_path r)), (''risk_level'', opt_val (map_option risk_level_value (pa_risk_level r)))]"

record approval_requirement =
  aq_required :: bool
  aq_reasons :: "approval_reason list"
  aq_risk_report :: risk_report
  aq_gate_decision :: gate_decision

definition requirement_summary :: "approval_requirement \<Rightarrow> dict" where
  "requirement_summary q =
     [(''required'', PBool (aq_required q)),
      (''reasons'', PTuple (map (\<lambda>r. dict_val (approval_reason_summary r)) (aq_reasons q))),
      (''blocked'', PBool (blocked (aq_gate_decision q))),
      (''overall_risk_level'', PStr (risk_level_value (overall_risk_level (aq_risk_report q)))),
      (''risk_counts'', dict_val (risk_counts (aq_risk_report q)))]"

text \<open>\<open>_dedupe_reasons\<close>, here and in \<open>safe_apply.py\<close>: the first element of each key is kept.\<close>

fun dedupe_by :: "('a \<Rightarrow> 'k) \<Rightarrow> 'k list \<Rightarrow> 'a list \<Rightarrow> 'a list" where
  "dedupe_by key seen [] = []"
| "dedupe_by key seen (x # xs) =
     (if key x \<in> set seen then dedupe_by key seen xs else x # dedupe_by key (key x # seen) xs)"

definition dedupe_reasons :: "approval_reason list \<Rightarrow> approval_reason list" where
  "dedupe_reasons rs = dedupe_by (\<lambda>r. (pa_code r, pa_path r)) [] rs"

definition is_low_risk_docs_or_tests :: "file_risk \<Rightarrow> bool" where
  "is_low_risk_docs_or_tests f =
     (fr_risk_level f = LOW \<and> fr_reasons f \<noteq> [] \<and>
      list_all (\<lambda>r. rr_code r \<in> {''documentation-change'', ''test-change''}) (fr_reasons f))"

definition file_approval_reasons :: "file_risk \<Rightarrow> approval_reason list" where
  "file_approval_reasons f =
     (if is_low_risk_docs_or_tests f then []
      else [\<lparr>pa_code = ''not-safe-auto-apply-file'', pa_reason = ''Changed file is not eligible for safe auto-apply.'',
             pa_path = Some (fr_path f), pa_risk_level = Some (fr_risk_level f)\<rparr>]) @
     map (\<lambda>r. \<lparr>pa_code = rr_code r, pa_reason = rr_reason r, pa_path = Some (fr_path f),
         pa_risk_level = Some (rr_risk_level r)\<rparr>)
       (filter (\<lambda>r. rr_risk_level r \<in> {MEDIUM, HIGH}) (fr_reasons f))"

definition approval_reasons :: "patch_diff \<Rightarrow> risk_report \<Rightarrow> approval_reason list" where
  "approval_reasons d report = dedupe_reasons (
     (if ignored_file_count d \<noteq> 0
      then [\<lparr>pa_code = ''ignored-workspace-changes'',
             pa_reason = ''Workspace contains ignored changes outside the reviewable patch.'',
             pa_path = None, pa_risk_level = None\<rparr>] else []) @
     (if overall_risk_level report \<noteq> LOW
      then [\<lparr>pa_code = ''overall-risk'', pa_reason = ''Patch risk is above the safe auto-apply threshold.'',
             pa_path = None, pa_risk_level = Some (overall_risk_level report)\<rparr>] else []) @
     map (\<lambda>r. \<lparr>pa_code = rr_code r, pa_reason = rr_reason r, pa_path = None, pa_risk_level = Some (rr_risk_level r)\<rparr>)
       (filter (\<lambda>r. rr_risk_level r \<in> {MEDIUM, HIGH, CRITICAL}) (rp_report_reasons report)) @
     concat (map file_approval_reasons (rp_files report)))"

definition patch_requirement :: "patch_diff \<Rightarrow> risk_report \<Rightarrow> gate_decision \<Rightarrow> approval_requirement" where
  "patch_requirement d report gate =
     (let reasons = (if blocked gate then [] else approval_reasons d report)
      in \<lparr>aq_required = (reasons \<noteq> []), aq_reasons = reasons, aq_risk_report = report, aq_gate_decision = gate\<rparr>)"

definition evaluate_patch_approval_requirement ::
  "risk_libs \<Rightarrow> patch_diff \<Rightarrow> risk_report option \<Rightarrow> gate_decision option \<Rightarrow> approval_requirement res" where
  "evaluate_patch_approval_requirement libs d risk_report_opt gate_opt =
     rbind (case risk_report_opt of Some r \<Rightarrow> Inr r | None \<Rightarrow> classify_default libs d) (\<lambda>report.
     rbind (case gate_opt of Some g \<Rightarrow> Inr g | None \<Rightarrow> evaluate_guarded_change_gate libs d (Some report)) (\<lambda>gate.
       Inr (patch_requirement d report gate)))"

definition requires_patch_approval ::
  "risk_libs \<Rightarrow> patch_diff \<Rightarrow> risk_report option \<Rightarrow> gate_decision option \<Rightarrow> bool res" where
  "requires_patch_approval libs d risk_report_opt gate_opt =
     rbind (evaluate_patch_approval_requirement libs d risk_report_opt gate_opt) (\<lambda>q. Inr (aq_required q))"

section \<open>Request and decision\<close>

definition checked_request :: "approval_request \<Rightarrow> approval_request res" where
  "checked_request r = (if approval_request_valid r then Inr r
     else Inl (Exn ValueErr ''ValidationError'' ''Approval request context fields must not be blank.''))"

definition patch_request_metadata :: "patch_diff \<Rightarrow> dict" where
  "patch_request_metadata d =
     [(''patch_sha256'', PStr (pf_patch_sha256 d)), (''baseline_commit_sha'', PStr (pf_baseline_commit_sha d)),
      (''patch_size_bytes'', PInt (pf_patch_size_bytes d)), (''changed_file_count'', PInt (changed_file_count d)),
      (''files'', PTuple (map (\<lambda>f. PStr (fd_path f)) (pf_files d)))]"

definition create_patch_approval_request ::
  "risk_libs \<Rightarrow> approval_draws \<Rightarrow> patch_diff \<Rightarrow> string \<Rightarrow> string \<Rightarrow> string \<Rightarrow> risk_report option \<Rightarrow> gate_decision option \<Rightarrow>
   string option \<Rightarrow> approval_request res" where
  "create_patch_approval_request libs draws d requested_by agent env risk_report_opt gate_opt trace =
     (case ensure_safe (validate_patch_path_forms d) of
        Inl e \<Rightarrow> Inl (PatchApprovalError (exn_msg e))
      | Inr _ \<Rightarrow>
          rbind (evaluate_patch_approval_requirement libs d risk_report_opt gate_opt) (\<lambda>q.
            if blocked (aq_gate_decision q) then Inl (PatchApprovalError ''Blocked patches cannot be approved.'')
            else if \<not> aq_required q then Inl (PatchApprovalError ''Patch does not require approval.'')
            else checked_request
              \<lparr>ar_approval_id = draw_approval_id draws, ar_created_at = draw_created_at draws,
               ar_trace_id = or_else trace (draw_trace_id draws), ar_requested_by = requested_by, ar_agent_id = agent,
               ar_environment = env, ar_tool_name = ''guarded_workspace'', ar_action = Some ''approve_patch_apply'',
               ar_target = PStr (pf_patch_sha256 d), ar_policy_id = Some ''guarded-workspace-risky-patch-approval'',
               ar_reason = ''Risky guarded workspace patch requires approval before apply.'',
               ar_severity = severity_from_risk_level (overall_risk_level (aq_risk_report q)),
               ar_risk_assessment = [(''requirement'', dict_val (requirement_summary q)),
                 (''risk_report'', dict_val (risk_report_summary (aq_risk_report q)))],
               ar_metadata = patch_request_metadata d\<rparr>))"

definition validate_decision_context :: "approval_request \<Rightarrow> string option \<Rightarrow> unit res" where
  "validate_decision_context request patch_sha256 =
     (case patch_sha256 of
        None \<Rightarrow> Inr ()
      | Some sha \<Rightarrow> if ar_target request \<noteq> PStr sha
          then Inl (PatchApprovalError ''Approval request patch digest mismatch.'') else Inr ())"

definition decision_binding_metadata :: "approval_request \<Rightarrow> dict" where
  "decision_binding_metadata request =
     (''patch_sha256'', ar_target request) #
     (case map_of (ar_metadata request) ''baseline_commit_sha'' of
        Some (PStr sha) \<Rightarrow> if strip sha \<noteq> [] then [(''baseline_commit_sha'', PStr sha)] else []
      | _ \<Rightarrow> [])"

definition patch_decision :: "approval_status \<Rightarrow> bool \<Rightarrow> string \<Rightarrow> approval_request \<Rightarrow> string \<Rightarrow> string \<Rightarrow> approval_decision" where
  "patch_decision status granted now request decided_by why =
     \<lparr>ad_approval_id = ar_approval_id request, ad_status = status, ad_approved = granted,
      ad_decided_by = Some decided_by, ad_decided_at = Some now, ad_reason = redact_sensitive_string why,
      ad_metadata = decision_binding_metadata request\<rparr>"

definition approve_patch_request ::
  "(string \<Rightarrow> string) \<Rightarrow> string \<Rightarrow> approval_request \<Rightarrow> string \<Rightarrow> string \<Rightarrow> string option \<Rightarrow> approval_decision res" where
  "approve_patch_request sha now request decided_by why patch_sha256 =
     rbind (validate_decision_context request patch_sha256) (\<lambda>_.
       attach_approval_receipt sha request (patch_decision APPROVED True now request decided_by why))"

definition reject_patch_request ::
  "string \<Rightarrow> approval_request \<Rightarrow> string \<Rightarrow> string \<Rightarrow> string option \<Rightarrow> approval_decision res" where
  "reject_patch_request now request decided_by why patch_sha256 =
     rbind (validate_decision_context request patch_sha256) (\<lambda>_.
       Inr (patch_decision REJECTED False now request decided_by why))"

section \<open>Approvals in force\<close>

type_synonym iso_parser = "string \<Rightarrow> (int \<times> int option) option"

definition MAX_DATETIME :: int where
  "MAX_DATETIME = 315537897600 * 1000000 - 1"

definition parse_approval_timestamp :: "iso_parser \<Rightarrow> string \<Rightarrow> string \<Rightarrow> int res" where
  "parse_approval_timestamp fromiso text field_name =
     (let stripped = strip text;
          normalized = (if ends_with stripped ''Z'' then butlast stripped @ ''+00:00'' else stripped)
      in case fromiso normalized of
           None \<Rightarrow> Inl (PatchApprovalError (''Invalid '' @ field_name @ ''.''))
         | Some (local_time, offset) \<Rightarrow>
             let utc = local_time - (case offset of None \<Rightarrow> 0 | Some o' \<Rightarrow> o') in
             if utc < 0 \<or> MAX_DATETIME < utc then Inl (Exn OtherErr ''OverflowError'' ''date value out of range'')
             else Inr utc)"

text \<open>\<open>total_seconds() > ttl_seconds\<close> is exact for spans of less than 285 years; times are in microseconds.\<close>

definition ensure_patch_approval_not_expired ::
  "iso_parser \<Rightarrow> approval_request \<Rightarrow> approval_decision \<Rightarrow> int \<Rightarrow> int \<Rightarrow> unit res" where
  "ensure_patch_approval_not_expired fromiso request decision current_time ttl_seconds =
     (if ttl_seconds \<le> 0 then Inl (PatchApprovalError ''Patch approval TTL must be positive.'')
      else rbind (parse_approval_timestamp fromiso (ar_created_at request) ''approval request creation time'') (\<lambda>created_at.
        case ad_decided_at decision of
          None \<Rightarrow> Inl (PatchApprovalError ''Approval decision time is required.'')
        | Some text \<Rightarrow> rbind (parse_approval_timestamp fromiso text ''approval decision time'') (\<lambda>decided_at.
            if decided_at < created_at then Inl (PatchApprovalError ''Approval decision predates approval request.'')
            else if created_at > current_time
              then Inl (PatchApprovalError ''Approval request creation time is in the future.'')
            else if decided_at > current_time
              then Inl (PatchApprovalError ''Approval decision time is in the future.'')
            else if current_time - created_at > ttl_seconds * 1000000
              then Inl (PatchApprovalError ''Patch approval is stale or expired.'')
            else Inr ())))"

definition is_receipt_error :: "py_exn \<Rightarrow> bool" where
  "is_receipt_error e = (exn_type e \<in> {''ApprovalReceiptMissingError'', ''ApprovalReceiptTamperedError'',
     ''ApprovalReceiptConflictError'', ''ApprovalReceiptPayloadError''})"

definition assert_patch_approval_granted ::
  "iso_parser \<Rightarrow> (string \<Rightarrow> string) \<Rightarrow> approval_request \<Rightarrow> approval_decision \<Rightarrow> patch_diff \<Rightarrow> int \<Rightarrow> int \<Rightarrow> unit res" where
  "assert_patch_approval_granted fromiso sha request decision d now ttl_seconds =
     (let transition = validate_transition PENDING (ad_status decision) in
      if \<not> cr_allowed transition then Inl (PatchApprovalError (cr_reason transition))
      else if ar_approval_id request \<noteq> ad_approval_id decision
        then Inl (PatchApprovalError ''Approval decision does not match request.'')
      else if ar_target request \<noteq> PStr (pf_patch_sha256 d)
        then Inl (PatchApprovalError ''Approval request is not bound to this patch digest.'')
      else if map_of (ad_metadata decision) ''patch_sha256'' \<noteq> Some (PStr (pf_patch_sha256 d))
        then Inl (PatchApprovalError ''Approval decision is not bound to this patch digest.'')
      else if map_of (ar_metadata request) ''baseline_commit_sha'' \<noteq> Some (PStr (pf_baseline_commit_sha d))
        then Inl (PatchApprovalError ''Approval request baseline does not match guarded patch.'')
      else if map_of (ad_metadata decision) ''baseline_commit_sha'' \<noteq> Some (PStr (pf_baseline_commit_sha d))
        then Inl (PatchApprovalError ''Approval decision baseline does not match guarded patch.'')
      else rbind (ensure_patch_approval_not_expired fromiso request decision now ttl_seconds) (\<lambda>_.
        if ad_status decision \<noteq> APPROVED \<or> \<not> ad_approved decision
        then Inl (PatchApprovalError ''Patch approval was not granted.'')
        else (case assert_approval_receipt_valid sha request decision of
            Inl e \<Rightarrow> Inl (if is_receipt_error e then PatchApprovalError (exn_msg e) else e)
          | Inr _ \<Rightarrow> Inr ())))"

section \<open>Audit\<close>

definition tool_request_from_approval_request :: "approval_request \<Rightarrow> string \<Rightarrow> dict \<Rightarrow> tool_request" where
  "tool_request_from_approval_request r action payload =
     \<lparr>tool_name = ar_tool_name r, tr_action = Some action, tr_target = Some (str_val (ar_target r)),
      tr_input = dict_val payload, user_id = ar_requested_by r, agent_id = ar_agent_id r,
      environment = ar_environment r,
      tr_metadata = [(''trace_id'', PStr (ar_trace_id r)), (''event_type'', PStr (''guarded_workspace.'' @ action)),
        (''approval_id'', PStr (ar_approval_id r)), (''patch_sha256'', ar_target r)]\<rparr>"

definition write_patch_approval_request_audit_event ::
  "audit_lib \<Rightarrow> event_draws \<Rightarrow> audit_logger \<Rightarrow> approval_request \<Rightarrow> audit_event res \<times> audit_logger" where
  "write_patch_approval_request_audit_event lib draws logger r =
     log_decision lib draws logger (tool_request_from_approval_request r ''approval_requested'' (approval_request_dump r))
       \<lparr>pd_decision = REQUIRE_APPROVAL, pd_allowed = False, pd_severity = ar_severity r, pd_reason = ar_reason r,
        pd_policy_id = ar_policy_id r, pd_explanation = None\<rparr>
       [(''approval_request'', dict_val (approval_request_dump r))]"

definition write_patch_approval_decision_audit_event ::
  "audit_lib \<Rightarrow> event_draws \<Rightarrow> audit_logger \<Rightarrow> approval_request \<Rightarrow> approval_decision \<Rightarrow> audit_event res \<times> audit_logger" where
  "write_patch_approval_decision_audit_event lib draws logger r a =
     (let both = [(''approval_request'', dict_val (approval_request_dump r)),
            (''approval_decision'', dict_val (approval_decision_dump a))]
      in log_decision lib draws logger (tool_request_from_approval_request r ''approval_decided'' both)
       \<lparr>pd_decision = (if ad_approved a then ALLOW else BLOCK), pd_allowed = ad_approved a, pd_severity = ar_severity r,
        pd_reason = ad_reason a, pd_policy_id = ar_policy_id r, pd_explanation = None\<rparr> both)"

section \<open>What the check guarantees\<close>

text \<open>The contract: the approval is granted, signed, unexpired and bound to the digest and baseline of the patch.\<close>

definition bound_to :: "patch_diff \<Rightarrow> approval_request \<Rightarrow> approval_decision \<Rightarrow> bool" where
  "bound_to d request decision =
     (ar_approval_id request = ad_approval_id decision \<and> ar_target request = PStr (pf_patch_sha256 d) \<and>
      map_of (ad_metadata decision) ''patch_sha256'' = Some (PStr (pf_patch_sha256 d)) \<and>
      map_of (ar_metadata request) ''baseline_commit_sha'' = Some (PStr (pf_baseline_commit_sha d)) \<and>
      map_of (ad_metadata decision) ''baseline_commit_sha'' = Some (PStr (pf_baseline_commit_sha d)))"

definition fresh :: "iso_parser \<Rightarrow> approval_request \<Rightarrow> approval_decision \<Rightarrow> int \<Rightarrow> int \<Rightarrow> bool" where
  "fresh fromiso request decision now ttl =
     (case (parse_approval_timestamp fromiso (ar_created_at request) [], ad_decided_at decision) of
        (Inr created, Some text) \<Rightarrow>
          (case parse_approval_timestamp fromiso text [] of
             Inr decided \<Rightarrow> 0 < ttl \<and> created \<le> decided \<and> decided \<le> now \<and> now \<le> created + ttl * 1000000
           | Inl _ \<Rightarrow> False)
      | _ \<Rightarrow> False)"

lemma rbind_split: "P (rbind m f) \<longleftrightarrow> (case m of Inl e \<Rightarrow> P (Inl e) | Inr x \<Rightarrow> P (f x))"
  by (cases m) simp_all

lemma not_Inl_iff: "(\<forall>e. m \<noteq> Inl e) \<longleftrightarrow> (\<exists>x. m = Inr x)"
  by (cases m) simp_all

lemma parse_field: "parse_approval_timestamp fromiso t f = Inr x \<longleftrightarrow> parse_approval_timestamp fromiso t g = Inr x"
  by (auto simp: parse_approval_timestamp_def Let_def split: option.splits if_splits)

lemma not_expired_iff: "ensure_patch_approval_not_expired fromiso r a now ttl = Inr () \<longleftrightarrow> fresh fromiso r a now ttl"
proof -
  let ?created = "parse_approval_timestamp fromiso (ar_created_at r)"
  let ?decided = "\<lambda>t. parse_approval_timestamp fromiso t"
  have "ensure_patch_approval_not_expired fromiso r a now ttl = Inr () \<longleftrightarrow>
      (\<exists>c t d. ?created ''approval request creation time'' = Inr c \<and> ad_decided_at a = Some t \<and>
         ?decided t ''approval decision time'' = Inr d \<and> 0 < ttl \<and> c \<le> d \<and> d \<le> now \<and> now \<le> c + ttl * 1000000)"
  proof (cases "?created ''approval request creation time''")
    case (Inr c)
    then show ?thesis
      by (cases "ad_decided_at a") (auto simp: ensure_patch_approval_not_expired_def rbind_split [where P = "\<lambda>x. x = Inr ()"] split: sum.splits)
  qed (simp add: ensure_patch_approval_not_expired_def)
  also have "\<dots> \<longleftrightarrow> (\<exists>c t d. ?created [] = Inr c \<and> ad_decided_at a = Some t \<and>
         ?decided t [] = Inr d \<and> 0 < ttl \<and> c \<le> d \<and> d \<le> now \<and> now \<le> c + ttl * 1000000)"
    by (simp only: parse_field [of _ _ "''approval request creation time''" _ "[]"]
        parse_field [of _ _ "''approval decision time''" _ "[]"])
  also have "\<dots> \<longleftrightarrow> fresh fromiso r a now ttl"
    by (auto simp: fresh_def not_Inl_iff split: sum.splits option.splits)
  finally show ?thesis .
qed

lemma receipt_valid_iff:
  "assert_approval_receipt_valid sha r a = Inr () \<longleftrightarrow> verify_approval_receipt sha r a = Inr VALID"
  by (cases "verify_approval_receipt sha r a")
     (auto simp: assert_approval_receipt_valid_def split: receipt_status.splits)

lemma approval_check_iff:
  "assert_patch_approval_granted fromiso sha request decision d now ttl = Inr () \<longleftrightarrow>
     ad_status decision = APPROVED \<and> ad_approved decision \<and> bound_to d request decision \<and>
     fresh fromiso request decision now ttl \<and> verify_approval_receipt sha request decision = Inr VALID"
  unfolding assert_patch_approval_granted_def Let_def bound_to_def not_expired_iff [symmetric] receipt_valid_iff [symmetric]
  by (auto simp: res_simps validate_transition_def ALLOWED_TRANSITIONS_def Let_def split: sum.splits)

text \<open>
  (C23) An approval passes the check exactly when it is in force: the decision is a grant, request and decision are
  bound to each other and to the digest and the baseline of this patch, the decision was taken after the request and
  not in the future, the request is not older than the time to live, and the receipt verifies.
\<close>

theorem patch_approval_check_exact:
  "assert_patch_approval_granted fromiso sha request decision d now ttl = Inr () \<longleftrightarrow>
     ad_status decision = APPROVED \<and> ad_approved decision \<and> bound_to d request decision \<and>
     fresh fromiso request decision now ttl \<and> verify_approval_receipt sha request decision = Inr VALID"
  by (rule approval_check_iff)

lemma dedupe_Nil [simp]: "dedupe_by key [] xs = [] \<longleftrightarrow> xs = []"
  by (cases xs) simp_all

lemma created_request:
  assumes "create_patch_approval_request libs draws d by agent env rr g trace = Inr request"
  shows "ar_target request = PStr (pf_patch_sha256 d)" "ar_metadata request = patch_request_metadata d"
    "ar_created_at request = draw_created_at draws" "report_safe (validate_patch_path_forms d)"
    "ar_tool_name request = ''guarded_workspace''" "ar_action request = Some ''approve_patch_apply''"
    "ar_policy_id request = Some ''guarded-workspace-risky-patch-approval''"
  using assms
  by (auto simp: create_patch_approval_request_def checked_request_def ensure_safe_def res_simps
      split: sum.splits if_splits)

lemma approved_decision:
  assumes "approve_patch_request sha now request by why ps = Inr decision" and "\<And>t. sha t \<noteq> []"
  shows "ad_status decision = APPROVED" "ad_approved decision" "ad_decided_at decision = Some now"
    "ad_approval_id decision = ar_approval_id request"
    "map_of (ad_metadata decision) ''patch_sha256'' = Some (ar_target request)"
    "map_of (ad_metadata decision) ''baseline_commit_sha'' =
       map_of (decision_binding_metadata request) ''baseline_commit_sha''"
    "verify_approval_receipt sha request decision = Inr VALID"
proof -
  let ?u = "patch_decision APPROVED True now request by why"
  have a: "attach_approval_receipt sha request ?u = Inr decision"
    using assms(1) by (auto simp: approve_patch_request_def res_simps)
  have u: "ad_status ?u = APPROVED" "ad_approved ?u" by (simp_all add: patch_decision_def)
  obtain h where m: "ad_metadata decision = receipt_free_metadata (ad_metadata ?u) @
       [(SCHEMA_VERSION_KEY, PStr RECEIPT_SCHEMA_VERSION), (HASH_KEY, PStr h)]"
    and w: "without_receipt_metadata decision = without_receipt_metadata ?u"
    by (rule attached_cases [OF a u])
  have free: "receipt_free_metadata (ad_metadata ?u) = decision_binding_metadata request"
    by (simp add: receipt_free_metadata_def patch_decision_def decision_binding_metadata_def split: option.splits pyval.splits)
  show "map_of (ad_metadata decision) ''patch_sha256'' = Some (ar_target request)"
    unfolding m free by (simp add: decision_binding_metadata_def)
  show "map_of (ad_metadata decision) ''baseline_commit_sha'' =
       map_of (decision_binding_metadata request) ''baseline_commit_sha''"
    unfolding m free by (simp add: map_add_def split: option.splits)
  have "d = e\<lparr>ad_metadata := ad_metadata d\<rparr>" if "without_receipt_metadata d = without_receipt_metadata e" for d e
    using that by (cases d; cases e) (simp add: without_receipt_metadata_def)
  from this [OF w] show "ad_status decision = APPROVED" "ad_approved decision" "ad_decided_at decision = Some now"
    "ad_approval_id decision = ar_approval_id request"
    by (metis (no_types, lifting) approval_decision.select_convs(1-6) approval_decision.surjective
        approval_decision.update_convs(7) patch_decision_def)+
  show "verify_approval_receipt sha request decision = Inr VALID"
    by (rule attached_receipt_verifies [OF a u assms(2)])
qed

text \<open>
  What is approved can be applied, and only that: the request created for a patch, once approved, passes the check
  for this patch until the time to live is over, and never passes it for a patch with another digest or baseline.
\<close>

theorem approval_opens_one_patch:
  assumes "create_patch_approval_request libs draws d by agent env rr g trace = Inr request"
    and "approve_patch_request sha now_text request reviewer why ps = Inr decision"
    and "parse_approval_timestamp fromiso (draw_created_at draws) [] = Inr created"
    and "parse_approval_timestamp fromiso now_text [] = Inr decided"
    and "created \<le> decided" "decided \<le> now" "0 < ttl" "strip (pf_baseline_commit_sha d) \<noteq> []" "\<And>t. sha t \<noteq> []"
  shows "(assert_patch_approval_granted fromiso sha request decision d now ttl = Inr () \<longleftrightarrow>
      now \<le> created + ttl * 1000000) \<and>
    (pf_patch_sha256 d' \<noteq> pf_patch_sha256 d \<or> pf_baseline_commit_sha d' \<noteq> pf_baseline_commit_sha d \<longrightarrow>
      assert_patch_approval_granted fromiso sha request decision d' now ttl \<noteq> Inr ())"
proof -
  note c = created_request [OF assms(1)] and a = approved_decision [OF assms(2,9)]
  have "fresh fromiso request decision now ttl \<longleftrightarrow> now \<le> created + ttl * 1000000"
    using assms by (simp add: fresh_def c a)
  moreover have "bound_to d' request decision \<longleftrightarrow>
      pf_patch_sha256 d' = pf_patch_sha256 d \<and> pf_baseline_commit_sha d' = pf_baseline_commit_sha d" for d'
    using assms(8) by (auto simp: bound_to_def c a decision_binding_metadata_def patch_request_metadata_def)
  ultimately show ?thesis by (auto simp: approval_check_iff a)
qed

lemma approve_total:
  assumes "canonical (ar_target request)" "canonical (dict_val (ar_metadata request))"
  shows "\<exists>decision. approve_patch_request sha now request reviewer why None = Inr decision"
proof -
  let ?u = "patch_decision APPROVED True now request reviewer why"
  have b: "canonical (dict_val (decision_binding_metadata request))"
    using assms(1) by (auto simp: decision_binding_metadata_def canonical_dict_val split: option.splits pyval.splits)
  have free: "receipt_free_metadata (decision_binding_metadata request) = decision_binding_metadata request"
    by (simp add: receipt_free_metadata_def decision_binding_metadata_def split: option.splits pyval.splits)
  have "canonical (dict_val (ad_metadata (without_receipt_metadata ?u)))"
    using b by (simp add: without_receipt_metadata_def patch_decision_def free)
  then obtain p where "approval_receipt_payload request (without_receipt_metadata ?u) = Inr p"
    using canonical_payload [OF assms] by blast
  moreover have "map_of (ad_metadata ?u) HASH_KEY = None"
    by (simp add: patch_decision_def decision_binding_metadata_def split: option.splits pyval.splits)
  ultimately show ?thesis
    by (simp add: approve_patch_request_def validate_decision_context_def attach_approval_receipt_def
        calculate_approval_receipt_hash_def Let_def)
qed

definition sample_report :: "risk_level \<Rightarrow> patch_diff \<Rightarrow> risk_report" where
  "sample_report level d = \<lparr>rp_baseline_commit_sha = pf_baseline_commit_sha d, rp_patch_sha256 = pf_patch_sha256 d,
     rp_files = [], rp_report_reasons = [reason ''sample'' level ''A reason.'' []]\<rparr>"

definition sample_times :: iso_parser where
  "sample_times text = (if text = ''T1'' then Some (5, None) else if text = ''T2'' then Some (9, Some 2)
     else if text = ''T4'' then Some (20, Some 0) else None)"

definition patch_draws :: approval_draws where
  "patch_draws = \<lparr>draw_approval_id = ''a1'', draw_created_at = ''T1'', draw_trace_id = ''t'', draw_decided_at = ''T2''\<rparr>"

lemma sample_times_parse:
  "parse_approval_timestamp sample_times (draw_created_at patch_draws) [] = Inr 5"
  "parse_approval_timestamp sample_times ''T2'' [] = Inr 7"
  by code_simp+

end
