(* ===== verification/Patch_Gen.thy ===== *)
theory Patch_Gen
  imports Path_Safety
begin

text \<open>
  The generation of a patch in \<open>src/rygnal/patch_diff.py\<close>: reading the line counts of \<open>git diff --numstat -z\<close> and the
  modes of the patch headers, and building the metadata of each file. \<open>git\<close>, the file system, the decoding of
  \<open>git\<close>'s bytes, SHA-256 and \<open>int(count)\<close> are arguments; bytes are strings, one character per byte.
\<close>

section \<open>Line counts\<close>

definition PatchDiffGenerationError :: "string \<Rightarrow> py_exn" where
  "PatchDiffGenerationError msg = Exn RuntimeErr ''PatchDiffGenerationError'' msg"

record line_stats =
  ls_additions :: "nat option"
  ls_deletions :: "nat option"
  ls_binary :: bool

record patch_git =
  g_resolve :: "string \<Rightarrow> string"
  g_is_dir :: "string \<Rightarrow> bool"
  g_is_file :: "string \<Rightarrow> bool"
  g_changed :: "string \<Rightarrow> string list \<Rightarrow> string res"
  g_run :: "string list \<Rightarrow> string \<Rightarrow> string list \<Rightarrow> string + string"
  g_decode :: "string \<Rightarrow> string"
  g_sha256 :: "string \<Rightarrow> string"
  g_count :: "string \<Rightarrow> nat option"

definition split_tabs :: "string \<Rightarrow> (string \<times> string \<times> string) option" where
  "split_tabs header = (case split_on (CHR 0x09) header of
     a # b # c # rest \<Rightarrow> Some (a, b, join [CHR 0x09] (c # rest))
   | _ \<Rightarrow> None)"

definition parse_line_count :: "patch_git \<Rightarrow> string \<Rightarrow> nat res" where
  "parse_line_count g raw = (case g_count g raw of
     None \<Rightarrow> Inl (PatchDiffGenerationError (''Invalid numstat line count: b'' @ repr_str raw)) | Some n \<Rightarrow> Inr n)"

definition stats_of :: "patch_git \<Rightarrow> string \<Rightarrow> string \<Rightarrow> line_stats res" where
  "stats_of g additions_raw deletions_raw =
     (if additions_raw = ''-'' \<or> deletions_raw = ''-''
      then Inr \<lparr>ls_additions = None, ls_deletions = None, ls_binary = True\<rparr>
      else rbind (parse_line_count g additions_raw) (\<lambda>a. rbind (parse_line_count g deletions_raw) (\<lambda>d.
        Inr \<lparr>ls_additions = Some a, ls_deletions = Some d, ls_binary = False\<rparr>)))"

fun parse_numstat_fields ::
  "patch_git \<Rightarrow> (string \<times> line_stats) list \<Rightarrow> string list \<Rightarrow> (string \<times> line_stats) list res" where
  "parse_numstat_fields g stats [] = Inr stats"
| "parse_numstat_fields g stats (header # others) =
     (if header = [] then parse_numstat_fields g stats others
      else case split_tabs header of
        None \<Rightarrow> Inl (PatchDiffGenerationError (''Invalid numstat record: b'' @ repr_str header))
      | Some (additions_raw, deletions_raw, path_raw) \<Rightarrow>
          if path_raw = []
          then (case others of
              old # new # later \<Rightarrow>
                rbind (normalize_repo_relative_path (g_decode g old)) (\<lambda>_.
                rbind (normalize_repo_relative_path (g_decode g new)) (\<lambda>path.
                rbind (stats_of g additions_raw deletions_raw) (\<lambda>st.
                  parse_numstat_fields g (AList.update path st stats) later)))
            | _ \<Rightarrow> Inl (PatchDiffGenerationError ''Rename numstat record missing paths.''))
          else
            rbind (normalize_repo_relative_path (g_decode g path_raw)) (\<lambda>path.
            rbind (stats_of g additions_raw deletions_raw) (\<lambda>st.
              parse_numstat_fields g (AList.update path st stats) others)))"

definition parse_git_numstat :: "patch_git \<Rightarrow> string \<Rightarrow> (string \<times> line_stats) list res" where
  "parse_git_numstat g raw_output =
     (if raw_output = [] then Inr [] else parse_numstat_fields g [] (split_on (CHR 0x00) raw_output))"

section \<open>Modes\<close>

record mode_metadata =
  mm_old_mode :: "string option"
  mm_new_mode :: "string option"
  mm_mode_changed :: bool

definition strip_git_patch_prefix :: "string \<Rightarrow> string option res" where
  "strip_git_patch_prefix path =
     (if path = ''/dev/null'' then Inr None
      else rbind (normalize_repo_relative_path
          (if starts_with path ''a/'' \<or> starts_with path ''b/'' then drop 2 path else path)) (\<lambda>p. Inr (Some p)))"

definition parse_diff_git_paths :: "string \<Rightarrow> (string option \<times> string option) res" where
  "parse_diff_git_paths line = (case shlex_split line of
     Inl _ \<Rightarrow> Inl (PatchDiffGenerationError (''Invalid Git patch header: '' @ repr_str line))
   | Inr parts \<Rightarrow>
       if length parts < 4 then Inl (PatchDiffGenerationError (''Invalid Git patch header: '' @ repr_str line))
       else rbind (strip_git_patch_prefix (parts ! 2)) (\<lambda>old. rbind (strip_git_patch_prefix (parts ! 3)) (\<lambda>new.
         Inr (old, new))))"

record mode_state =
  ms_path :: "string option"
  ms_old :: "string option"
  ms_new :: "string option"
  ms_modes :: "(string \<times> mode_metadata) list"

definition flush_current_file :: "mode_state \<Rightarrow> (string \<times> mode_metadata) list" where
  "flush_current_file s = (case ms_path s of
     None \<Rightarrow> ms_modes s
   | Some path \<Rightarrow>
       if ms_old s = None \<and> ms_new s = None then ms_modes s
       else AList.update path \<lparr>mm_old_mode = ms_old s, mm_new_mode = ms_new s,
         mm_mode_changed = (truthy_opt (ms_old s) \<and> truthy_opt (ms_new s) \<and> ms_old s \<noteq> ms_new s)\<rparr> (ms_modes s))"

definition mode_after :: "string \<Rightarrow> string \<Rightarrow> string" where
  "mode_after pre line = strip (drop (length pre) line)"

fun parse_mode_lines :: "mode_state \<Rightarrow> string list \<Rightarrow> (string \<times> mode_metadata) list res" where
  "parse_mode_lines s [] = Inr (flush_current_file s)"
| "parse_mode_lines s (line # lines) =
     (if starts_with line ''diff --git ''
      then rbind (parse_diff_git_paths line) (\<lambda>(_, new_path).
        parse_mode_lines \<lparr>ms_path = new_path, ms_old = None, ms_new = None, ms_modes = flush_current_file s\<rparr> lines)
      else if ms_path s = None then parse_mode_lines s lines
      else if starts_with line ''new file mode ''
        then parse_mode_lines (s\<lparr>ms_new := Some (mode_after ''new file mode '' line)\<rparr>) lines
      else if starts_with line ''deleted file mode ''
        then parse_mode_lines (s\<lparr>ms_old := Some (mode_after ''deleted file mode '' line)\<rparr>) lines
      else if starts_with line ''old mode ''
        then parse_mode_lines (s\<lparr>ms_old := Some (mode_after ''old mode '' line)\<rparr>) lines
      else if starts_with line ''new mode ''
        then parse_mode_lines (s\<lparr>ms_new := Some (mode_after ''new mode '' line)\<rparr>) lines
      else parse_mode_lines s lines)"

definition parse_git_patch_modes :: "patch_git \<Rightarrow> string \<Rightarrow> (string \<times> mode_metadata) list res" where
  "parse_git_patch_modes g raw_patch =
     (if raw_patch = [] then Inr []
      else parse_mode_lines \<lparr>ms_path = None, ms_old = None, ms_new = None, ms_modes = []\<rparr>
        (splitlines (g_decode g raw_patch)))"

section \<open>The patch\<close>

text \<open>\<open>a or b\<close> for optional strings.\<close>

definition or_opt :: "string option \<Rightarrow> string option \<Rightarrow> string option" where
  "or_opt a b = (if truthy_opt a then a else b)"

definition build_patch_file_diff ::
  "(string \<times> line_stats) list \<Rightarrow> (string \<times> mode_metadata) list \<Rightarrow> changed_file \<Rightarrow> patch_file_diff" where
  "build_patch_file_diff stats_by_path mode_by_path f =
     (let stats = (case map_of stats_by_path (cf_path f) of Some s \<Rightarrow> s
            | None \<Rightarrow> \<lparr>ls_additions = Some 0, ls_deletions = Some 0, ls_binary = False\<rparr>);
          mode = (case map_of mode_by_path (cf_path f) of Some m \<Rightarrow> m
            | None \<Rightarrow> \<lparr>mm_old_mode = None, mm_new_mode = None, mm_mode_changed = False\<rparr>);
          old_mode = or_opt (cf_old_mode f) (mm_old_mode mode);
          new_mode = or_opt (cf_new_mode f) (mm_new_mode mode)
      in \<lparr>fd_path = cf_path f, fd_kind = cf_kind f, fd_additions = ls_additions stats, fd_deletions = ls_deletions stats,
          fd_binary = ls_binary stats, fd_old_path = cf_old_path f, fd_old_mode = old_mode, fd_new_mode = new_mode,
          fd_mode_changed = (cf_mode_changed f \<or> mm_mode_changed mode \<or>
            truthy_opt old_mode \<and> truthy_opt new_mode \<and> old_mode \<noteq> new_mode)\<rparr>)"

definition run_git :: "patch_git \<Rightarrow> string list \<Rightarrow> string \<Rightarrow> string list \<Rightarrow> string res" where
  "run_git g added cwd args = (case g_run g added cwd args of
     Inl stderr \<Rightarrow> Inl (PatchDiffGenerationError
       (''Git command failed: git '' @ join '' '' args @ '': '' @ strip (g_decode g stderr)))
   | Inr out \<Rightarrow> Inr out)"

definition patch_args :: "string \<Rightarrow> string list" where
  "patch_args sha = [''diff'', ''--patch'', ''--binary'', ''--full-index'', ''--no-color'', ''--no-ext-diff'',
     ''--no-textconv'', ''--default-prefix'', ''--diff-algorithm=default'', ''-M20%'', sha, ''--'']"

definition numstat_args :: "string \<Rightarrow> string list" where
  "numstat_args sha = [''diff'', ''--numstat'', ''-z'', ''--no-color'', ''--no-ext-diff'', ''--no-textconv'',
     ''--diff-algorithm=default'', ''-M20%'', sha, ''--'']"

definition git_index_path :: "patch_git \<Rightarrow> string \<Rightarrow> string res" where
  "git_index_path g workspace =
     rbind (run_git g [] workspace [''rev-parse'', ''--git-path'', ''index'']) (\<lambda>raw.
       let index_text = strip (g_decode g raw) in
       if index_text = [] then Inl (PatchDiffGenerationError ''Git did not return an index path.'')
       else
         let index_path = g_resolve g (if is_absolute (posix_path index_text) then index_text
               else workspace @ ''/'' @ index_text)
         in if g_is_file g index_path then Inr index_path
            else Inl (PatchDiffGenerationError (''Git index does not exist: '' @ index_path)))"

text \<open>
  With untracked files the outputs come from a temporary copy of the index to which the files were added by intent;
  the first argument of \<open>g_run\<close> lists the paths so added.
\<close>

definition generate_diff_outputs :: "patch_git \<Rightarrow> string \<Rightarrow> string \<Rightarrow> changed_file list \<Rightarrow> (string \<times> string) res" where
  "generate_diff_outputs g workspace sha files =
     (let untracked = map cf_path (filter (\<lambda>f. cf_kind f = UNTRACKED) files);
          outputs = rbind (run_git g untracked workspace (patch_args sha)) (\<lambda>patch.
            rbind (run_git g untracked workspace (numstat_args sha)) (\<lambda>numstat. Inr (patch, numstat)))
      in if untracked = [] then outputs
         else rbind (git_index_path g workspace) (\<lambda>_.
           rbind (run_git g [] workspace ([''add'', ''--intent-to-add'', ''--''] @ untracked)) (\<lambda>_. outputs)))"

fun as_generation_error :: "'a res \<Rightarrow> 'a res" where
  "as_generation_error (Inl e) =
     Inl (if exn_type e = ''ChangedFileDetectionError'' then PatchDiffGenerationError (exn_msg e) else e)"
| "as_generation_error (Inr x) = Inr x"

definition generate_patch_diff_from_report :: "patch_git \<Rightarrow> changed_file_report \<Rightarrow> patch_diff res" where
  "generate_patch_diff_from_report g report =
     (let workspace = g_resolve g (cr_workspace_path report) in
      if \<not> g_is_dir g workspace
      then Inl (PatchDiffGenerationError (''Guarded workspace does not exist: '' @ workspace))
      else
        rbind (as_generation_error (normalize_baseline_commit_sha (cr_baseline_commit_sha report))) (\<lambda>baseline.
        rbind (generate_diff_outputs g workspace baseline (cr_files report)) (\<lambda>(patch_bytes, numstat_bytes).
        rbind (parse_git_numstat g numstat_bytes) (\<lambda>stats.
        rbind (parse_git_patch_modes g patch_bytes) (\<lambda>modes.
          Inr \<lparr>pf_workspace_path = workspace, pf_baseline_commit_sha = baseline, pf_patch = g_decode g patch_bytes,
            pf_patch_sha256 = g_sha256 g patch_bytes, pf_patch_size_bytes = int (length patch_bytes),
            pf_files = map (build_patch_file_diff stats modes) (cr_files report),
            pf_ignored_files = cr_ignored_files report\<rparr>)))))"

definition generate_patch_diff :: "patch_git \<Rightarrow> string \<Rightarrow> string \<Rightarrow> ignore_rules \<Rightarrow> patch_diff res" where
  "generate_patch_diff g workspace_path baseline_commit_sha rules =
     rbind (as_generation_error (detect_changed_files (g_resolve g) (g_is_dir g) (g_changed g) workspace_path
       baseline_commit_sha rules)) (generate_patch_diff_from_report g)"

section \<open>What a patch says of its files\<close>

text \<open>
  A patch lists the files of the inventory, in order, with their paths, old paths and kinds; its digest and
  length are those of its bytes; and where \<open>git\<close>'s raw diff gives a file's modes, these are the file's modes.
\<close>

theorem patch_describes_inventory:
  assumes "generate_patch_diff_from_report g report = Inr d"
  shows "map fd_path (pf_files d) = map cf_path (cr_files report) \<and>
    map fd_old_path (pf_files d) = map cf_old_path (cr_files report) \<and>
    map fd_kind (pf_files d) = map cf_kind (cr_files report) \<and>
    pf_ignored_files d = cr_ignored_files report \<and>
    (\<exists>bytes. pf_patch d = g_decode g bytes \<and> pf_patch_sha256 d = g_sha256 g bytes \<and>
       pf_patch_size_bytes d = int (length bytes)) \<and>
    list_all2 (\<lambda>f c. truthy_opt (cf_new_mode c) \<longrightarrow> fd_new_mode f = cf_new_mode c) (pf_files d) (cr_files report)"
proof -
  obtain base stats modes bytes where "d = \<lparr>pf_workspace_path = g_resolve g (cr_workspace_path report),
      pf_baseline_commit_sha = base, pf_patch = g_decode g bytes, pf_patch_sha256 = g_sha256 g bytes,
      pf_patch_size_bytes = int (length bytes), pf_files = map (build_patch_file_diff stats modes) (cr_files report),
      pf_ignored_files = cr_ignored_files report\<rparr>"
    using assms
    by (auto simp: generate_patch_diff_from_report_def Let_def res_simps simp del: map_eq_conv split: if_splits prod.splits)
  then show ?thesis
    by (auto simp: build_patch_file_diff_def Let_def or_opt_def list_all2_map1 list_all2_same)
qed

definition sample_git :: patch_git where
  "sample_git = \<lparr>g_resolve = (\<lambda>p. p), g_is_dir = (\<lambda>_. True), g_is_file = (\<lambda>_. True), g_changed = (\<lambda>_ _. Inr []),
     g_run = (\<lambda>_ _ _. Inr []), g_decode = (\<lambda>b. b), g_sha256 = (\<lambda>b. b), g_count = (\<lambda>s. Some (length s))\<rparr>"

text \<open>The text that \<open>git\<close> prints for a new, untracked link to the given target.\<close>

definition link_patch :: "string \<Rightarrow> string" where
  "link_patch target = join [CHR 0x0A]
     [''diff --git a/l b/l'', ''new file mode 120000'', ''--- /dev/null'', ''+++ b/l'', ''@@ -0,0 +1 @@'', ''+'' @ target]"

text \<open>
  The mode of an untracked link can be hidden: the modes are read line by line, and a link whose target holds a
  form feed followed by a mode header is recorded as a regular file, so it is not seen as a link by the checks that
  follow.
\<close>

theorem link_mode_hidden:
  "map_option mm_new_mode (map_of (projr (parse_git_patch_modes sample_git (link_patch ''/etc''))) ''l'') = Some (Some ''120000'') \<and>
   map_option mm_new_mode (map_of (projr (parse_git_patch_modes sample_git
     (link_patch (''/etc'' @ [CHR 0x0C] @ ''new file mode 100644'')))) ''l'') = Some (Some ''100644'')"
  by code_simp

end
