(* ===== verification/Patch_Apply.thy ===== *)
theory Patch_Apply
  imports Patch_Approval Patch_Gen
begin

text \<open>
  \<open>src/rygnal/safe_apply.py\<close> and \<open>approved_apply.py\<close>: the two ways a guarded patch reaches the trusted repository.
  The state holds the world that \<open>git\<close> reads and changes, the audit logger and the approvals used in this process.
  \<open>git\<close>, the file system, the text encodings and SHA-256 are arguments; bytes are strings, one character per byte.
\<close>

section \<open>State and exceptions\<close>

type_synonym ('s, 'a) py = "'s \<Rightarrow> 'a res \<times> 's"

definition pret :: "'a \<Rightarrow> ('s, 'a) py" where
  "pret x s = (Inr x, s)"

definition raise :: "py_exn \<Rightarrow> ('s, 'a) py" where
  "raise e s = (Inl e, s)"

definition pbind :: "('s, 'a) py \<Rightarrow> ('a \<Rightarrow> ('s, 'b) py) \<Rightarrow> ('s, 'b) py" where
  "pbind m f s = (case m s of (Inl e, s') \<Rightarrow> (Inl e, s') | (Inr x, s') \<Rightarrow> f x s')"

definition pcatch :: "('s, 'a) py \<Rightarrow> (py_exn \<Rightarrow> ('s, 'a) py) \<Rightarrow> ('s, 'a) py" where
  "pcatch m h s = (case m s of (Inl e, s') \<Rightarrow> h e s' | (Inr x, s') \<Rightarrow> (Inr x, s'))"

definition lift_res :: "'a res \<Rightarrow> ('s, 'a) py" where
  "lift_res r s = (r, s)"

definition check_that :: "bool \<Rightarrow> py_exn \<Rightarrow> ('s, unit) py" where
  "check_that b e = (if b then pret () else raise e)"

record 'w apply_libs =
  al_resolve :: "'w \<Rightarrow> string \<Rightarrow> string"
  al_is_dir :: "'w \<Rightarrow> string \<Rightarrow> bool"
  al_which_git :: "'w \<Rightarrow> string option"
  al_run :: "'w \<Rightarrow> string \<Rightarrow> string list \<Rightarrow> string option \<Rightarrow> (py_exn + int \<times> string \<times> string) \<times> 'w"
  al_decode :: "string \<Rightarrow> string"
  al_encode :: "string \<Rightarrow> string option"
  al_encode_escape :: "string \<Rightarrow> string"
  al_sha256 :: "string \<Rightarrow> string"
  al_patch_git :: "'w \<Rightarrow> patch_git"
  al_risk :: risk_libs
  al_audit :: audit_lib
  al_iso :: iso_parser

record 'w apply_state =
  as_world :: 'w
  as_logger :: "audit_logger option"
  as_used :: "(string \<times> string \<times> string) list"

type_synonym ('w, 'a) apply_step = "('w apply_state, 'a) py"

section \<open>Git\<close>

definition SafePatchApplyError :: "string \<Rightarrow> py_exn" where
  "SafePatchApplyError msg = Exn RuntimeErr ''SafePatchApplyError'' msg"

definition ApprovedPatchApplyError :: "string \<Rightarrow> py_exn" where
  "ApprovedPatchApplyError msg = Exn RuntimeErr ''ApprovedPatchApplyError'' msg"

text \<open>Both files have the same helpers up to the class of the errors they raise, here the first argument.\<close>

definition git_with :: "(string \<Rightarrow> py_exn) \<Rightarrow> 'w apply_libs \<Rightarrow> string \<Rightarrow> string list \<Rightarrow> string option \<Rightarrow> ('w, string) apply_step"
where
  "git_with err g cwd args input s =
     (case al_which_git g (as_world s) of
        None \<Rightarrow> (Inl (err ''git executable not found on PATH.''), s)
      | Some git \<Rightarrow>
          (case al_run g (as_world s) cwd (git # args) input of
             (Inl e, w) \<Rightarrow> (Inl e, s\<lparr>as_world := w\<rparr>)
           | (Inr (code, out, errors), w) \<Rightarrow>
               (if code \<noteq> 0
                then Inl (err (or_else (Some (strip (al_decode g errors)))
                    (or_else (Some (strip (al_decode g out))) (''git '' @ join '' '' args @ '' failed''))))
                else Inr out, s\<lparr>as_world := w\<rparr>)))"

definition repo_root_with :: "(string \<Rightarrow> py_exn) \<Rightarrow> 'w apply_libs \<Rightarrow> string \<Rightarrow> ('w, unit) apply_step" where
  "repo_root_with err g path s =
     (if \<not> al_is_dir g (as_world s) path then (Inl (err (''Target repository does not exist: '' @ path)), s)
      else pbind (git_with err g path [''rev-parse'', ''--show-toplevel''] None) (\<lambda>out s'.
        check_that (al_resolve g (as_world s') (strip (al_decode g out)) = path)
          (err (''Target path is not the Git repository root: '' @ path)) s') s)"

text \<open>\<open>bytes.strip()\<close> removes only ASCII white space.\<close>

definition blank_bytes :: "string \<Rightarrow> bool" where
  "blank_bytes out = list_all (\<lambda>c. codept c \<in> {9, 10, 11, 12, 13, 32}) out"

definition clean_with :: "(string \<Rightarrow> py_exn) \<Rightarrow> string \<Rightarrow> 'w apply_libs \<Rightarrow> string \<Rightarrow> ('w, unit) apply_step" where
  "clean_with err msg g path =
     pbind (git_with err g path [''status'', ''--porcelain'', ''--untracked-files=all''] None) (\<lambda>out.
       check_that (blank_bytes out) (err msg))"

definition safe_run_git :: "'w apply_libs \<Rightarrow> string \<Rightarrow> string list \<Rightarrow> string option \<Rightarrow> ('w, string) apply_step" where
  "safe_run_git = git_with SafePatchApplyError"

definition approved_run_git :: "'w apply_libs \<Rightarrow> string \<Rightarrow> string list \<Rightarrow> string option \<Rightarrow> ('w, string) apply_step" where
  "approved_run_git = git_with ApprovedPatchApplyError"

definition ensure_git_repo :: "'w apply_libs \<Rightarrow> string \<Rightarrow> ('w, unit) apply_step" where
  "ensure_git_repo = repo_root_with SafePatchApplyError"

definition ensure_git_repo_root :: "'w apply_libs \<Rightarrow> string \<Rightarrow> ('w, unit) apply_step" where
  "ensure_git_repo_root = repo_root_with ApprovedPatchApplyError"

definition safe_ensure_clean_repo :: "'w apply_libs \<Rightarrow> string \<Rightarrow> ('w, unit) apply_step" where
  "safe_ensure_clean_repo = clean_with SafePatchApplyError ''Target repository must be clean before auto-apply.''"

definition approved_ensure_clean_repo :: "'w apply_libs \<Rightarrow> string \<Rightarrow> ('w, unit) apply_step" where
  "approved_ensure_clean_repo = clean_with ApprovedPatchApplyError ''Target repository must be clean before apply.''"

definition safe_ensure_target_at_baseline :: "'w apply_libs \<Rightarrow> string \<Rightarrow> string \<Rightarrow> ('w, unit) apply_step" where
  "safe_ensure_target_at_baseline g path baseline =
     pbind (safe_run_git g path [''rev-parse'', ''HEAD''] None) (\<lambda>out.
       check_that (strip (al_decode g out) = baseline)
         (SafePatchApplyError ''Target repository HEAD does not match the patch baseline.''))"

definition approved_ensure_target_at_baseline :: "'w apply_libs \<Rightarrow> string \<Rightarrow> string \<Rightarrow> ('w, unit) apply_step" where
  "approved_ensure_target_at_baseline g path baseline =
     pbind (approved_run_git g path [''rev-parse'', ''HEAD''] None) (\<lambda>out.
       check_that (lower (strip (al_decode g out)) = lower baseline)
         (ApprovedPatchApplyError ''Target repository HEAD does not match guarded patch baseline.''))"

definition check_args :: "string list" where
  "check_args = [''apply'', ''--check'', ''--whitespace=error'', ''-'']"

definition apply_args :: "string list" where
  "apply_args = [''apply'', ''--whitespace=error'', ''-'']"

definition reverse_args :: "string list" where
  "reverse_args = [''apply'', ''--reverse'', ''--whitespace=error'', ''-'']"

definition safe_check_patch_applies :: "'w apply_libs \<Rightarrow> string \<Rightarrow> string \<Rightarrow> ('w, unit) apply_step" where
  "safe_check_patch_applies g path patch =
     pbind (safe_run_git g path check_args (Some (al_encode_escape g patch))) (\<lambda>_. pret ())"

definition safe_apply_patch :: "'w apply_libs \<Rightarrow> string \<Rightarrow> string \<Rightarrow> ('w, unit) apply_step" where
  "safe_apply_patch g path patch =
     pbind (safe_run_git g path apply_args (Some (al_encode_escape g patch))) (\<lambda>_. pret ())"

text \<open>\<open>patch.encode("utf-8")\<close> raises for a lone surrogate.\<close>

definition encoded :: "'w apply_libs \<Rightarrow> string \<Rightarrow> string res" where
  "encoded g patch = (case al_encode g patch of
     None \<Rightarrow> Inl (Exn ValueErr ''UnicodeEncodeError'' ''surrogates not allowed'') | Some bytes \<Rightarrow> Inr bytes)"

definition approved_check_patch_applies :: "'w apply_libs \<Rightarrow> string \<Rightarrow> string \<Rightarrow> ('w, unit) apply_step" where
  "approved_check_patch_applies g path patch =
     pbind (lift_res (encoded g patch)) (\<lambda>bytes.
     pbind (approved_run_git g path check_args (Some bytes)) (\<lambda>_. pret ()))"

definition approved_apply_patch :: "'w apply_libs \<Rightarrow> string \<Rightarrow> string \<Rightarrow> ('w, unit) apply_step" where
  "approved_apply_patch g path patch =
     pbind (lift_res (encoded g patch)) (\<lambda>bytes.
     pbind (approved_run_git g path apply_args (Some bytes)) (\<lambda>_. pret ()))"

section \<open>Automatic apply\<close>

datatype apply_outcome = APPLIED | APPLY_SKIPPED

fun apply_outcome_value :: "apply_outcome \<Rightarrow> string" where
  "apply_outcome_value APPLIED = ''applied''"
| "apply_outcome_value APPLY_SKIPPED = ''skipped''"

record skip_reason =
  sk_code :: string
  sk_reason :: string
  sk_path :: "string option"

definition skip_reason_summary :: "skip_reason \<Rightarrow> dict" where
  "skip_reason_summary r =
     [(''code'', PStr (sk_code r)), (''reason'', PStr (sk_reason r)), (''path'', opt_val (sk_path r))]"

record safe_apply_result =
  sr_outcome :: apply_outcome
  sr_target_repo_path :: string
  sr_patch_sha256 :: string
  sr_baseline_commit_sha :: string
  sr_files :: "string list"
  sr_risk_report :: risk_report
  sr_skip_reasons :: "skip_reason list"

definition safe_applied :: "safe_apply_result \<Rightarrow> bool" where
  "safe_applied r = (sr_outcome r = APPLIED)"

abbreviation str_tuple :: "string list \<Rightarrow> pyval" where
  "str_tuple xs \<equiv> PTuple (map PStr xs)"

definition safe_apply_summary :: "safe_apply_result \<Rightarrow> dict" where
  "safe_apply_summary r =
     [(''outcome'', PStr (apply_outcome_value (sr_outcome r))), (''applied'', PBool (safe_applied r)),
      (''target_repo_path'', PStr (sr_target_repo_path r)), (''patch_sha256'', PStr (sr_patch_sha256 r)),
      (''baseline_commit_sha'', PStr (sr_baseline_commit_sha r)), (''files'', str_tuple (sr_files r)),
      (''overall_risk_level'', PStr (risk_level_value (overall_risk_level (sr_risk_report r)))),
      (''risk_counts'', dict_val (risk_counts (sr_risk_report r))),
      (''skip_reasons'', PTuple (map (\<lambda>x. dict_val (skip_reason_summary x)) (sr_skip_reasons r))),
      (''risk_report'', dict_val (risk_report_summary (sr_risk_report r)))]"

definition skip :: "string \<Rightarrow> string \<Rightarrow> string option \<Rightarrow> skip_reason" where
  "skip code why path = \<lparr>sk_code = code, sk_reason = why, sk_path = path\<rparr>"

definition is_docs_or_tests_only :: "file_risk \<Rightarrow> bool" where
  "is_docs_or_tests_only f =
     (fr_risk_level f = LOW \<and> fr_reasons f \<noteq> [] \<and>
      list_all (\<lambda>r. rr_code r \<in> {''documentation-change'', ''test-change''}) (fr_reasons f))"

definition file_modes :: "file_risk \<Rightarrow> string list" where
  "file_modes f = concat (map (\<lambda>m. case m of None \<Rightarrow> [] | Some x \<Rightarrow> if x = [] then [] else [x])
     [fr_old_mode f, fr_new_mode f])"

definition unsafe_mode_skip_reason :: "file_risk \<Rightarrow> skip_reason option" where
  "unsafe_mode_skip_reason f =
     (let modes = file_modes f in
      if ''120000'' \<in> set modes
      then Some (skip ''symlink-mode'' ''Symlink metadata is not eligible for auto-apply.'' (Some (fr_path f)))
      else if ''100755'' \<in> set modes
      then Some (skip ''executable-mode'' ''Executable file metadata is not eligible for auto-apply.'' (Some (fr_path f)))
      else if fr_mode_changed f
      then Some (skip ''mode-change'' ''File mode changes are not eligible for auto-apply.'' (Some (fr_path f)))
      else if \<not> list_all (\<lambda>m. m = ''100644'') modes
      then Some (skip ''unsupported-file-mode'' ''Unsupported file mode is not eligible for auto-apply.'' (Some (fr_path f)))
      else None)"

definition file_skip_reasons :: "file_risk \<Rightarrow> skip_reason list" where
  "file_skip_reasons f =
     (if is_docs_or_tests_only f then []
      else [skip ''not-docs-or-tests-only'' ''Only documentation and test-only patches may be auto-applied.'' (Some (fr_path f))]) @
     (if fr_binary f
      then [skip ''binary-file-change'' ''Binary changes are not eligible for auto-apply.'' (Some (fr_path f))] else []) @
     (case unsafe_mode_skip_reason f of None \<Rightarrow> [] | Some r \<Rightarrow> [r])"

definition safe_dedupe_reasons :: "skip_reason list \<Rightarrow> skip_reason list" where
  "safe_dedupe_reasons rs = dedupe_by (\<lambda>r. (sk_code r, sk_path r)) [] rs"

definition auto_apply_skip_reasons :: "patch_diff \<Rightarrow> risk_report \<Rightarrow> gate_decision \<Rightarrow> skip_reason list" where
  "auto_apply_skip_reasons d report gate = safe_dedupe_reasons (
     (if blocked gate
      then [skip ''blocked-by-change-gate'' ''Patch was blocked by the dangerous-change gate.'' None] else []) @
     (if changed_file_count d = 0 then [skip ''empty-patch'' ''Patch has no changed files to apply.'' None] else []) @
     (if ignored_file_count d \<noteq> 0
      then [skip ''ignored-workspace-changes'' ''Guarded workspace contains ignored changes outside the patch.'' None] else []) @
     (if overall_risk_level report \<noteq> LOW
      then [skip ''not-low-risk'' ''Only low-risk patches may be auto-applied.'' None] else []) @
     map (\<lambda>r. skip (rr_code r) (rr_reason r) None)
       (filter (\<lambda>r. starts_with (rr_code r) ''large-diff-'' \<or> starts_with (rr_code r) ''hard-diff-'') (rp_report_reasons report)) @
     concat (map file_skip_reasons (rp_files report)))"

definition safe_result :: "apply_outcome \<Rightarrow> string \<Rightarrow> patch_diff \<Rightarrow> risk_report \<Rightarrow> skip_reason list \<Rightarrow> safe_apply_result" where
  "safe_result outcome target d report reasons =
     \<lparr>sr_outcome = outcome, sr_target_repo_path = target, sr_patch_sha256 = pf_patch_sha256 d,
      sr_baseline_commit_sha = pf_baseline_commit_sha d, sr_files = map fd_path (pf_files d), sr_risk_report = report,
      sr_skip_reasons = reasons\<rparr>"

definition ensure_patch_integrity :: "'w apply_libs \<Rightarrow> patch_diff \<Rightarrow> unit res" where
  "ensure_patch_integrity g d =
     (let bytes = al_encode_escape g (pf_patch d) in
      if al_sha256 g bytes \<noteq> pf_patch_sha256 d
      then Inl (SafePatchApplyError ''Patch content does not match its declared SHA-256.'')
      else if int (length bytes) \<noteq> pf_patch_size_bytes d
      then Inl (SafePatchApplyError ''Patch content does not match its declared byte length.'')
      else Inr ())"

definition applied_patch_matches :: "patch_diff \<Rightarrow> patch_diff \<Rightarrow> unit res" where
  "applied_patch_matches actual expected =
     (if pf_patch_sha256 actual \<noteq> pf_patch_sha256 expected
      then Inl (SafePatchApplyError ''Applied repository diff does not match the approved patch digest.'')
      else if pf_patch_size_bytes actual \<noteq> pf_patch_size_bytes expected
      then Inl (SafePatchApplyError ''Applied repository diff does not match the approved patch length.'')
      else if pf_files actual \<noteq> pf_files expected
      then Inl (SafePatchApplyError ''Applied repository file metadata does not match the approved patch.'')
      else if pf_ignored_files actual \<noteq> pf_ignored_files expected
      then Inl (SafePatchApplyError ''Applied repository contains ignored changes outside the patch.'')
      else Inr ())"

definition repo_diff :: "'w apply_libs \<Rightarrow> 'w \<Rightarrow> string \<Rightarrow> string \<Rightarrow> patch_diff res" where
  "repo_diff g w path baseline = generate_patch_diff (al_patch_git g w) path baseline DEFAULT_GUARDED_IGNORE_RULES"

definition verify_applied_patch :: "'w apply_libs \<Rightarrow> string \<Rightarrow> patch_diff \<Rightarrow> ('w, unit) apply_step" where
  "verify_applied_patch g path expected s =
     (rbind (repo_diff g (as_world s) path (pf_baseline_commit_sha expected))
       (\<lambda>actual. applied_patch_matches actual expected), s)"

definition rollback_after_failed_apply ::
  "'w apply_libs \<Rightarrow> string \<Rightarrow> patch_diff \<Rightarrow> py_exn \<Rightarrow> ('w, 'a) apply_step" where
  "rollback_after_failed_apply g path d failure =
     pbind (pcatch
       (pbind (safe_run_git g path reverse_args (Some (al_encode_escape g (pf_patch d)))) (\<lambda>_.
        pbind (safe_ensure_target_at_baseline g path (pf_baseline_commit_sha d)) (\<lambda>_.
        safe_ensure_clean_repo g path)))
       (\<lambda>e. raise (SafePatchApplyError (''Automatic apply failed and rollback could not restore the trusted repository: ''
          @ exn_msg e)))) (\<lambda>_.
     raise (SafePatchApplyError (''Automatic apply failed after mutation; the trusted repository was rolled back safely: ''
          @ exn_msg failure)))"

record apply_context =
  ac_user :: string
  ac_agent :: string
  ac_env :: string
  ac_trace :: "string option"

text \<open>Writing one event with the logger of the state, if there is one.\<close>

definition audit_with ::
  "'w apply_libs \<Rightarrow> event_draws \<Rightarrow> tool_request \<Rightarrow> policy_decision \<Rightarrow> dict \<Rightarrow> ('w, unit) apply_step" where
  "audit_with g draws request decision metadata s =
     (case as_logger s of
        None \<Rightarrow> (Inr (), s)
      | Some logger \<Rightarrow>
          (case log_decision (al_audit g) draws logger request decision metadata of
             (Inl e, logger') \<Rightarrow> (Inl e, s\<lparr>as_logger := Some logger'\<rparr>)
           | (Inr _, logger') \<Rightarrow> (Inr (), s\<lparr>as_logger := Some logger'\<rparr>)))"

definition write_path_safety_audit_event ::
  "'w apply_libs \<Rightarrow> event_draws \<Rightarrow> path_report \<Rightarrow> apply_context \<Rightarrow> ('w, unit) apply_step" where
  "write_path_safety_audit_event g draws report ctx =
     audit_with g draws (path_safety_request report (ac_user ctx) (ac_agent ctx) (ac_env ctx)
         (or_else (ac_trace ctx) (draw_event_trace_id draws)))
       (path_safety_decision report) (path_report_summary report)"

text \<open>\<open>ensure_patch_paths_safe\<close> with its handler: an unsafe report is audited and reported as the caller's error.\<close>

definition checked_paths ::
  "(string \<Rightarrow> py_exn) \<Rightarrow> 'w apply_libs \<Rightarrow> event_draws \<Rightarrow> apply_context \<Rightarrow> patch_diff \<Rightarrow> string \<Rightarrow> ('w, unit) apply_step" where
  "checked_paths err g draws ctx d target s =
     (let report = validate_patch_paths (al_resolve g (as_world s)) d target in
      case ensure_safe report of
        Inr _ \<Rightarrow> (Inr (), s)
      | Inl e \<Rightarrow> pbind (write_path_safety_audit_event g draws report ctx) (\<lambda>_. raise (err (exn_msg e))) s)"

definition safe_apply_request :: "safe_apply_result \<Rightarrow> apply_context \<Rightarrow> event_draws \<Rightarrow> tool_request" where
  "safe_apply_request r ctx draws =
     guarded_request ''auto_apply_safe_patch'' (sr_patch_sha256 r) (safe_apply_summary r) (ac_user ctx) (ac_agent ctx)
       (ac_env ctx)
       [(''trace_id'', PStr (or_else (ac_trace ctx) (draw_event_trace_id draws))),
        (''event_type'', PStr ''guarded_workspace.safe_patch_apply''), (''patch_sha256'', PStr (sr_patch_sha256 r)),
        (''baseline_commit_sha'', PStr (sr_baseline_commit_sha r))]"

definition write_safe_patch_apply_audit_event ::
  "'w apply_libs \<Rightarrow> event_draws \<Rightarrow> safe_apply_result \<Rightarrow> apply_context \<Rightarrow> ('w, unit) apply_step" where
  "write_safe_patch_apply_audit_event g draws r ctx =
     audit_with g draws (safe_apply_request r ctx draws)
       \<lparr>pd_decision = ALLOW, pd_allowed = True, pd_severity = SevLOW,
        pd_reason = ''Low-risk guarded workspace patch auto-applied.'',
        pd_policy_id = Some ''guarded-workspace-safe-patch-auto-apply'', pd_explanation = None\<rparr>
       (safe_apply_summary r)"

definition report_or :: "'w apply_libs \<Rightarrow> patch_diff \<Rightarrow> risk_report option \<Rightarrow> risk_report res" where
  "report_or g d report = (case report of Some r \<Rightarrow> Inr r | None \<Rightarrow> classify_default (al_risk g) d)"

definition gate_or :: "'w apply_libs \<Rightarrow> patch_diff \<Rightarrow> risk_report \<Rightarrow> gate_decision option \<Rightarrow> gate_decision res" where
  "gate_or g d report gate =
     (case gate of Some x \<Rightarrow> Inr x | None \<Rightarrow> evaluate_guarded_change_gate (al_risk g) d (Some report))"

definition auto_apply_safe_patch ::
  "'w apply_libs \<Rightarrow> event_draws \<Rightarrow> apply_context \<Rightarrow> patch_diff \<Rightarrow> string \<Rightarrow> risk_report option \<Rightarrow> gate_decision option \<Rightarrow>
   ('w, safe_apply_result) apply_step" where
  "auto_apply_safe_patch g draws ctx d target_repo_path report_opt gate_opt s =
     (let target = al_resolve g (as_world s) target_repo_path in
      pbind (ensure_git_repo g target) (\<lambda>_.
      pbind (checked_paths SafePatchApplyError g draws ctx d target) (\<lambda>_.
      pbind (safe_ensure_clean_repo g target) (\<lambda>_.
      pbind (lift_res (ensure_patch_integrity g d)) (\<lambda>_.
      pbind (safe_ensure_target_at_baseline g target (pf_baseline_commit_sha d)) (\<lambda>_.
      pbind (lift_res (report_or g d report_opt)) (\<lambda>report.
      pbind (lift_res (gate_or g d report gate_opt)) (\<lambda>gate.
        let skip_reasons = auto_apply_skip_reasons d report gate in
        if skip_reasons \<noteq> [] then pret (safe_result APPLY_SKIPPED target d report skip_reasons)
        else
          pbind (safe_check_patch_applies g target (pf_patch d)) (\<lambda>_.
          pbind (safe_apply_patch g target (pf_patch d)) (\<lambda>_.
            let result = safe_result APPLIED target d report [] in
            pcatch
              (pbind (verify_applied_patch g target d) (\<lambda>_.
               pbind (write_safe_patch_apply_audit_event g draws result ctx) (\<lambda>_. pret result)))
              (\<lambda>e. rollback_after_failed_apply g target d e)))))))))) s)"

section \<open>Applying an approved patch\<close>

definition APPROVED_PATCH_APPLY_POLICY_ID :: string where
  "APPROVED_PATCH_APPLY_POLICY_ID = ''guarded-workspace-approved-patch-apply''"

record approved_apply_result =
  px_target_repo_path :: string
  pr_patch_sha :: string
  pr_baseline_sha :: string
  pr_approval_id :: string
  pr_approved_by :: "string option"
  pr_files :: "string list"
  pr_risk_report :: risk_report

definition approved_apply_summary :: "approved_apply_result \<Rightarrow> dict" where
  "approved_apply_summary r =
     [(''outcome'', PStr ''applied''), (''applied'', PBool True),
      (''target_repo_path'', PStr (px_target_repo_path r)), (''patch_sha256'', PStr (pr_patch_sha r)),
      (''baseline_commit_sha'', PStr (pr_baseline_sha r)), (''approval_id'', PStr (pr_approval_id r)),
      (''approved_by'', opt_val (pr_approved_by r)), (''files'', str_tuple (pr_files r)),
      (''overall_risk_level'', PStr (risk_level_value (overall_risk_level (pr_risk_report r)))),
      (''risk_counts'', dict_val (risk_counts (pr_risk_report r))),
      (''risk_report'', dict_val (risk_report_summary (pr_risk_report r)))]"

definition approved_apply_request :: "approved_apply_result \<Rightarrow> approval_request \<Rightarrow> tool_request" where
  "approved_apply_request r request =
     guarded_request ''apply_approved_patch'' (pr_patch_sha r) (approved_apply_summary r) (ar_requested_by request)
       (ar_agent_id request) (ar_environment request)
       [(''trace_id'', PStr (ar_trace_id request)), (''event_type'', PStr ''guarded_workspace.approved_patch_apply''),
        (''approval_id'', PStr (pr_approval_id r)), (''patch_sha256'', PStr (pr_patch_sha r)),
        (''baseline_commit_sha'', PStr (pr_baseline_sha r))]"

definition write_approved_patch_apply_audit_event ::
  "'w apply_libs \<Rightarrow> event_draws \<Rightarrow> approved_apply_result \<Rightarrow> approval_request \<Rightarrow> ('w, unit) apply_step" where
  "write_approved_patch_apply_audit_event g draws r request =
     audit_with g draws (approved_apply_request r request)
       \<lparr>pd_decision = ALLOW, pd_allowed = True, pd_severity = ar_severity request,
        pd_reason = ''Approved guarded workspace patch applied to trusted repository.'',
        pd_policy_id = Some APPROVED_PATCH_APPLY_POLICY_ID, pd_explanation = None\<rparr>
       (approved_apply_summary r)"

type_synonym use_key = "string \<times> string \<times> string"

definition approval_use_key :: "approval_request \<Rightarrow> patch_diff \<Rightarrow> use_key" where
  "approval_use_key request d = (ar_approval_id request, pf_patch_sha256 d, pf_baseline_commit_sha d)"

definition already_used :: py_exn where
  "already_used = ApprovedPatchApplyError ''Approval has already been used for this guarded patch.''"

definition reserve_approval_use :: "use_key \<Rightarrow> ('w, unit) apply_step" where
  "reserve_approval_use key s =
     (if key \<in> set (as_used s) then (Inl already_used, s) else (Inr (), s\<lparr>as_used := key # as_used s\<rparr>))"

definition release_approval_use :: "use_key \<Rightarrow> ('w, unit) apply_step" where
  "release_approval_use key s = (Inr (), s\<lparr>as_used := removeAll key (as_used s)\<rparr>)"

definition read_approved_patch_apply_events_from_storage :: "audit_lib \<Rightarrow> sqlite_store \<Rightarrow> audit_event list res" where
  "read_approved_patch_apply_events_from_storage lib db =
     rbind (store_read_events lib db None) (\<lambda>events.
       Inr (filter (\<lambda>e. ae_policy_id e = Some APPROVED_PATCH_APPLY_POLICY_ID) events))"

definition read_approved_patch_apply_audit_events :: "audit_lib \<Rightarrow> audit_logger \<Rightarrow> audit_event list res" where
  "read_approved_patch_apply_audit_events lib logger =
     (case storage logger of
        Some db \<Rightarrow>
          (case read_approved_patch_apply_events_from_storage lib db of
             Inl _ \<Rightarrow> Inl (ApprovedPatchApplyError ''Could not verify durable approval replay history.'')
           | Inr events \<Rightarrow> Inr events)
      | None \<Rightarrow> rbind (read_events lib logger) (\<lambda>events.
          Inr (filter (\<lambda>e. ae_policy_id e = Some APPROVED_PATCH_APPLY_POLICY_ID) events)))"

definition approved_patch_apply_event_matches_key :: "use_key \<Rightarrow> audit_event \<Rightarrow> bool" where
  "approved_patch_apply_event_matches_key key e =
     (case key of (approval_id, patch_sha256, baseline) \<Rightarrow>
        map_of (ae_metadata e) ''approval_id'' = Some (PStr approval_id) \<and>
        map_of (ae_metadata e) ''patch_sha256'' = Some (PStr patch_sha256) \<and>
        map_of (ae_metadata e) ''baseline_commit_sha'' = Some (PStr baseline))"

definition ensure_approval_not_previously_applied :: "audit_lib \<Rightarrow> audit_logger option \<Rightarrow> use_key \<Rightarrow> unit res" where
  "ensure_approval_not_previously_applied lib logger key =
     (case logger of
        None \<Rightarrow> Inl (ApprovedPatchApplyError
          ''Approved patch apply requires an audit logger for durable replay protection.'')
      | Some l \<Rightarrow> rbind (read_approved_patch_apply_audit_events lib l) (\<lambda>events.
          if list_ex (approved_patch_apply_event_matches_key key) events then Inl already_used else Inr ()))"

definition SUPPORTED_POLICY_IDS :: "string list" where
  "SUPPORTED_POLICY_IDS = [''guarded-workspace-risky-patch-approval'', ''guarded-workspace-intent-approval'',
     ''guarded-workspace-non-auto-apply-approval'', ''guarded-workspace-explicit-approval'']"

definition validate_request_for_apply :: "approval_request \<Rightarrow> unit res" where
  "validate_request_for_apply request =
     (if ar_tool_name request \<noteq> ''guarded_workspace''
      then Inl (ApprovedPatchApplyError ''Approval request tool mismatch.'')
      else if ar_action request \<noteq> Some ''approve_patch_apply''
      then Inl (ApprovedPatchApplyError ''Approval request action mismatch.'')
      else if ar_policy_id request \<notin> Some ` set SUPPORTED_POLICY_IDS
      then Inl (ApprovedPatchApplyError ''Approval request policy mismatch.'')
      else Inr ())"

definition forced_approval :: "approval_request \<Rightarrow> bool" where
  "forced_approval request =
     (case map_of (ar_metadata request) ''forced_approval'' of None \<Rightarrow> False | Some v \<Rightarrow> truthy v)"

definition granted_for_apply ::
  "'w apply_libs \<Rightarrow> approval_request \<Rightarrow> approval_decision \<Rightarrow> patch_diff \<Rightarrow> int \<Rightarrow> unit res" where
  "granted_for_apply g request decision d now =
     (case assert_patch_approval_granted (al_iso g) (sha256 (al_audit g)) request decision d now
          DEFAULT_PATCH_APPROVAL_TTL_SECONDS of
        Inl e \<Rightarrow> Inl (if exn_type e = ''PatchApprovalError'' then ApprovedPatchApplyError (exn_msg e) else e)
      | Inr _ \<Rightarrow> Inr ())"

definition apply_approved_patch ::
  "'w apply_libs \<Rightarrow> event_draws \<Rightarrow> int \<Rightarrow> patch_diff \<Rightarrow> string \<Rightarrow> approval_request \<Rightarrow> approval_decision \<Rightarrow> risk_report option \<Rightarrow>
   ('w, approved_apply_result) apply_step" where
  "apply_approved_patch g draws now d target_repo_path request decision report_opt s =
     (let target = al_resolve g (as_world s) target_repo_path;
          ctx = \<lparr>ac_user = ar_requested_by request, ac_agent = ar_agent_id request, ac_env = ar_environment request,
            ac_trace = Some (ar_trace_id request)\<rparr>;
          key = approval_use_key request d in
      pbind (ensure_git_repo_root g target) (\<lambda>_.
      pbind (checked_paths ApprovedPatchApplyError g draws ctx d target) (\<lambda>_.
      pbind (lift_res (report_or g d report_opt)) (\<lambda>report.
      pbind (lift_res (gate_or g d report None)) (\<lambda>gate.
      pbind (check_that (\<not> blocked gate) (ApprovedPatchApplyError ''Blocked patches cannot be applied.'')) (\<lambda>_.
      pbind (check_that (aq_required (patch_requirement d report gate) \<or> forced_approval request)
         (ApprovedPatchApplyError ''Patch does not require approval; use the safe auto-apply flow.'')) (\<lambda>_.
      pbind (lift_res (granted_for_apply g request decision d now)) (\<lambda>_.
      pbind (lift_res (validate_request_for_apply request)) (\<lambda>_.
      pbind (approved_ensure_clean_repo g target) (\<lambda>_.
      pbind (approved_ensure_target_at_baseline g target (pf_baseline_commit_sha d)) (\<lambda>_.
      pbind (\<lambda>s. lift_res (ensure_approval_not_previously_applied (al_audit g) (as_logger s) key) s) (\<lambda>_.
      pbind (reserve_approval_use key) (\<lambda>_.
      pbind (pcatch
          (pbind (approved_check_patch_applies g target (pf_patch d)) (\<lambda>_. approved_apply_patch g target (pf_patch d)))
          (\<lambda>e. pbind (release_approval_use key) (\<lambda>_. raise e))) (\<lambda>_.
        let result = \<lparr>px_target_repo_path = target, pr_patch_sha = pf_patch_sha256 d,
              pr_baseline_sha = pf_baseline_commit_sha d, pr_approval_id = ar_approval_id request,
              pr_approved_by = ad_decided_by decision, pr_files = map fd_path (pf_files d), pr_risk_report = report\<rparr>
        in pbind (write_approved_patch_apply_audit_event g draws result request) (\<lambda>_. pret result)))))))))))))) s)"

section \<open>Reasoning about steps\<close>

named_theorems py_simps "success and failure of steps"

lemma pbind_Inr [py_simps]:
  "pbind m f s = (Inr y, s') \<longleftrightarrow> (\<exists>x t. m s = (Inr x, t) \<and> f x t = (Inr y, s'))"
  by (auto simp: pbind_def split: prod.splits sum.splits)

lemma pbind_Inl [py_simps]:
  "pbind m f s = (Inl e, s') \<longleftrightarrow> m s = (Inl e, s') \<or> (\<exists>x t. m s = (Inr x, t) \<and> f x t = (Inl e, s'))"
  by (auto simp: pbind_def split: prod.splits sum.splits)

lemma pret_iff [py_simps]: "pret x s = (r, s') \<longleftrightarrow> r = Inr x \<and> s' = s"
  by (auto simp: pret_def)

lemma raise_iff [py_simps]: "raise e s = (r, s') \<longleftrightarrow> r = Inl e \<and> s' = s"
  by (auto simp: raise_def)

lemma lift_iff [py_simps]: "lift_res r s = (r', s') \<longleftrightarrow> r' = r \<and> s' = s"
  by (auto simp: lift_res_def)

lemma check_iff [py_simps]:
  "check_that b e s = (r, s') \<longleftrightarrow> s' = s \<and> r = (if b then Inr () else Inl e)"
  by (auto simp: check_that_def pret_def raise_def)

lemma pcatch_Inr [py_simps]:
  "pcatch m h s = (Inr y, s') \<longleftrightarrow> m s = (Inr y, s') \<or> (\<exists>e t. m s = (Inl e, t) \<and> h e t = (Inr y, s'))"
  by (auto simp: pcatch_def split: prod.splits sum.splits)

lemma pcatch_Inl [py_simps]:
  "pcatch m h s = (Inl e', s') \<longleftrightarrow> (\<exists>e t. m s = (Inl e, t) \<and> h e t = (Inl e', s'))"
  by (auto simp: pcatch_def split: prod.splits sum.splits)

text \<open>What a step keeps, whatever its result.\<close>

definition keeps :: "('s \<Rightarrow> 'b) \<Rightarrow> ('s, 'a) py \<Rightarrow> bool" where
  "keeps f m = (\<forall>s r s'. m s = (r, s') \<longrightarrow> f s' = f s)"

lemma keepsD: "keeps f m \<Longrightarrow> m s = (r, s') \<Longrightarrow> f s' = f s"
  by (auto simp: keeps_def)

lemma keeps_pbind [intro]: "keeps f m \<Longrightarrow> (\<And>x. keeps f (k x)) \<Longrightarrow> keeps f (pbind m k)"
  by (auto simp: keeps_def pbind_def split: prod.splits sum.splits)

lemma keeps_pcatch [intro]: "keeps f m \<Longrightarrow> (\<And>e. keeps f (h e)) \<Longrightarrow> keeps f (pcatch m h)"
  by (auto simp: keeps_def pcatch_def split: prod.splits sum.splits)

lemma keeps_basic [intro, simp]:
  "keeps f (pret x)" "keeps f (raise e)" "keeps f (lift_res r)" "keeps f (check_that b e)"
  by (auto simp: keeps_def pret_def raise_def lift_res_def check_that_def)

lemma keeps_git:
  "keeps as_logger (git_with err g cwd args inp)" "keeps as_used (git_with err g cwd args inp)"
  by (auto simp: keeps_def git_with_def split: option.splits prod.splits sum.splits)

lemma keeps_root:
  "keeps as_logger (repo_root_with err g path)" "keeps as_used (repo_root_with err g path)"
  using keeps_git by (fastforce simp: keeps_def repo_root_with_def pbind_def check_that_def pret_def raise_def
      split: prod.splits sum.splits if_splits)+

lemma keeps_audit:
  "keeps as_world (audit_with g draws request decision metadata)" "keeps as_used (audit_with g draws request decision metadata)"
  by (auto simp: keeps_def audit_with_def split: option.splits prod.splits sum.splits)

lemma keeps_paths:
  "keeps as_world (checked_paths err g draws ctx d target)" "keeps as_used (checked_paths err g draws ctx d target)"
  using keeps_audit by (fastforce simp: keeps_def checked_paths_def write_path_safety_audit_event_def Let_def pbind_def raise_def
      split: prod.splits sum.splits)+

section \<open>Git's contract\<close>

text \<open>
  What is assumed of \<open>git\<close>: \<open>rev-parse\<close>, \<open>status\<close> and \<open>apply --check\<close> change nothing, and an \<open>apply\<close> that fails
  changes nothing.
\<close>

definition query :: "string list \<Rightarrow> bool" where
  "query args = (hd args \<in> {''rev-parse'', ''status''} \<or> args = check_args)"

definition run_failed :: "py_exn + int \<times> string \<times> string \<Rightarrow> bool" where
  "run_failed r = (case r of Inl _ \<Rightarrow> True | Inr (code, _) \<Rightarrow> code \<noteq> 0)"

definition git_contract :: "'w apply_libs \<Rightarrow> bool" where
  "git_contract g =
     (\<forall>w cwd git args inp r w'. al_run g w cwd (git # args) inp = (r, w') \<longrightarrow> query args \<or> run_failed r \<longrightarrow> w' = w)"

lemma contractD:
  "git_contract g \<Longrightarrow> al_run g w cwd (git # args) inp = (r, w') \<Longrightarrow> query args \<or> run_failed r \<Longrightarrow> w' = w"
  unfolding git_contract_def by blast

lemma git_with_run:
  assumes "git_with err g cwd args inp s = (r, s')"
  obtains "s' = s" "isl r"
    | git x w where "al_which_git g (as_world s) = Some git" "al_run g (as_world s) cwd (git # args) inp = (x, w)"
      "s' = s\<lparr>as_world := w\<rparr>" "isl r = run_failed x" "\<And>out. r = Inr out \<Longrightarrow> \<exists>errors. x = Inr (0, out, errors)"
  using assms by (auto simp: git_with_def run_failed_def split: option.splits prod.splits sum.splits if_splits)

lemma query_pure: "git_contract g \<Longrightarrow> query args \<Longrightarrow> keeps as_world (git_with err g cwd args inp)"
  unfolding keeps_def by (auto elim!: git_with_run dest: contractD)

lemma failed_pure: "git_contract g \<Longrightarrow> git_with err g cwd args inp s = (Inl e, s') \<Longrightarrow> as_world s' = as_world s"
  by (erule git_with_run) (auto dest: contractD)

text \<open>A query step reads the state and leaves it.\<close>

definition reads_only :: "('s, 'a) py \<Rightarrow> bool" where
  "reads_only m = (\<forall>s. snd (m s) = s)"

lemma reads_only_pbind: "reads_only m \<Longrightarrow> pbind m f s = (case fst (m s) of Inl e \<Rightarrow> (Inl e, s) | Inr x \<Rightarrow> f x s)"
  by (auto simp: reads_only_def pbind_def split: prod.splits sum.splits) (metis snd_conv)+

lemma reads_onlyI: "(\<And>x. reads_only (f x)) \<Longrightarrow> reads_only m \<Longrightarrow> reads_only (pbind m f)"
  by (auto simp: reads_only_def pbind_def split: prod.splits sum.splits) (metis snd_conv)+

lemma reads_only_basic [intro, simp]:
  "reads_only (pret x)" "reads_only (raise e)" "reads_only (lift_res r)" "reads_only (check_that b e)"
  by (auto simp: reads_only_def pret_def raise_def lift_res_def check_that_def)

lemma reads_only_query: "git_contract g \<Longrightarrow> query args \<Longrightarrow> reads_only (git_with err g cwd args inp)"
  unfolding reads_only_def
proof
  fix s :: "'a apply_state"
  assume "git_contract g" "query args"
  then have w: "as_world (snd (git_with err g cwd args inp s)) = as_world s"
    by (metis keepsD prod.collapse query_pure)
  obtain r s' where r: "git_with err g cwd args inp s = (r, s')" by fastforce
  then show "snd (git_with err g cwd args inp s) = s"
    using w by (auto elim!: git_with_run)
qed

lemma reads_only_steps:
  assumes "git_contract g"
  shows "reads_only (repo_root_with err g path)" "reads_only (clean_with err msg g path)"
    "reads_only (safe_ensure_target_at_baseline g path base)"
    "reads_only (approved_ensure_target_at_baseline g path base)"
    "reads_only (safe_check_patch_applies g path patch)" "reads_only (approved_check_patch_applies g path patch)"
proof -
  have q: "reads_only (git_with err g cwd args inp)" if "query args" for err cwd args inp
    using reads_only_query [OF assms that] .
  show "reads_only (clean_with err msg g path)" "reads_only (safe_ensure_target_at_baseline g path base)"
    "reads_only (approved_ensure_target_at_baseline g path base)"
    "reads_only (safe_check_patch_applies g path patch)" "reads_only (approved_check_patch_applies g path patch)"
    unfolding clean_with_def safe_ensure_target_at_baseline_def approved_ensure_target_at_baseline_def
      safe_check_patch_applies_def approved_check_patch_applies_def safe_run_git_def approved_run_git_def
    by (intro reads_onlyI q reads_only_basic; simp add: query_def)+
  have "reads_only (git_with err g path [''rev-parse'', ''--show-toplevel''] None)" by (rule q) (simp add: query_def)
  then show "reads_only (repo_root_with err g path)"
    unfolding reads_only_def repo_root_with_def
    by (auto simp: reads_only_pbind [unfolded reads_only_def] check_that_def pret_def raise_def split: sum.splits)
qed

section \<open>Automatic apply\<close>

text \<open>What may be applied without an approval.\<close>

definition eligible_file :: "file_risk \<Rightarrow> bool" where
  "eligible_file f =
     (fr_risk_level f = LOW \<and> fr_reasons f \<noteq> [] \<and>
      list_all (\<lambda>r. rr_code r = ''documentation-change'' \<or> rr_code r = ''test-change'') (fr_reasons f) \<and>
      \<not> fr_binary f \<and> \<not> fr_mode_changed f \<and>
      list_all (\<lambda>m. m = None \<or> m = Some [] \<or> m = Some ''100644'') [fr_old_mode f, fr_new_mode f])"

definition eligible_patch :: "patch_diff \<Rightarrow> risk_report \<Rightarrow> gate_decision \<Rightarrow> bool" where
  "eligible_patch d report gate =
     (\<not> blocked gate \<and> pf_files d \<noteq> [] \<and> pf_ignored_files d = [] \<and> overall_risk_level report = LOW \<and>
      \<not> list_ex (\<lambda>r. starts_with (rr_code r) ''large-diff-'' \<or> starts_with (rr_code r) ''hard-diff-'') (rp_report_reasons report) \<and>
      list_all eligible_file (rp_files report))"

lemma mode_skip_None_iff:
  "unsafe_mode_skip_reason f = None \<longleftrightarrow> \<not> fr_mode_changed f \<and>
     list_all (\<lambda>m. m = None \<or> m = Some [] \<or> m = Some ''100644'') [fr_old_mode f, fr_new_mode f]"
proof -
  have "unsafe_mode_skip_reason f = None \<longleftrightarrow> \<not> fr_mode_changed f \<and> list_all (\<lambda>m. m = ''100644'') (file_modes f)"
    by (auto simp: unsafe_mode_skip_reason_def Let_def list_all_iff)
  then show ?thesis
    by (cases "fr_old_mode f"; cases "fr_new_mode f") (simp_all add: file_modes_def)
qed

lemma file_skip_Nil_iff: "file_skip_reasons f = [] \<longleftrightarrow> eligible_file f"
proof -
  have "file_skip_reasons f = [] \<longleftrightarrow> is_docs_or_tests_only f \<and> \<not> fr_binary f \<and> unsafe_mode_skip_reason f = None"
    by (simp add: file_skip_reasons_def split: option.split)
  then show ?thesis by (auto simp: mode_skip_None_iff eligible_file_def is_docs_or_tests_only_def)
qed

lemma skip_Nil_iff: "auto_apply_skip_reasons d report gate = [] \<longleftrightarrow> eligible_patch d report gate"
  by (auto simp: auto_apply_skip_reasons_def safe_dedupe_reasons_def eligible_patch_def file_skip_Nil_iff
      changed_file_count_def ignored_file_count_def filter_empty_conv list_ex_iff list_all_iff)

definition says_clean :: "'w apply_libs \<Rightarrow> string \<Rightarrow> 'w apply_state \<Rightarrow> bool" where
  "says_clean g path s = (\<exists>out. fst (git_with SafePatchApplyError g path
     [''status'', ''--porcelain'', ''--untracked-files=all''] None s) = Inr out \<and> blank_bytes out)"

definition says_head :: "'w apply_libs \<Rightarrow> string \<Rightarrow> string \<Rightarrow> 'w apply_state \<Rightarrow> bool" where
  "says_head g path base s = (\<exists>out. fst (git_with SafePatchApplyError g path [''rev-parse'', ''HEAD''] None s) = Inr out \<and>
     strip (al_decode g out) = base)"

lemma clean_iff: "git_contract g \<Longrightarrow> fst (safe_ensure_clean_repo g path s) = Inr () \<longleftrightarrow> says_clean g path s"
  unfolding safe_ensure_clean_repo_def clean_with_def says_clean_def
  by (subst reads_only_pbind [OF reads_only_query]) (auto simp: query_def check_that_def pret_def raise_def split: sum.splits)

lemma head_iff: "git_contract g \<Longrightarrow> fst (safe_ensure_target_at_baseline g path base s) = Inr () \<longleftrightarrow> says_head g path base s"
  unfolding safe_ensure_target_at_baseline_def safe_run_git_def says_head_def
  by (subst reads_only_pbind [OF reads_only_query]) (auto simp: query_def check_that_def pret_def raise_def split: sum.splits)

definition safe_preconditions :: "'w apply_libs \<Rightarrow> patch_diff \<Rightarrow> string \<Rightarrow> 'w apply_state \<Rightarrow> bool" where
  "safe_preconditions g d target s =
     (report_safe (validate_patch_paths (al_resolve g (as_world s)) d target) \<and>
      says_clean g target s \<and> says_head g target (pf_baseline_commit_sha d) s \<and>
      al_sha256 g (al_encode_escape g (pf_patch d)) = pf_patch_sha256 d)"

definition restored :: "'w apply_libs \<Rightarrow> patch_diff \<Rightarrow> string \<Rightarrow> 'w apply_state \<Rightarrow> bool" where
  "restored g d target s = (says_clean g target s \<and> says_head g target (pf_baseline_commit_sha d) s)"

definition not_restored :: "py_exn \<Rightarrow> bool" where
  "not_restored e =
     starts_with (exn_msg e) ''Automatic apply failed and rollback could not restore the trusted repository: ''"

lemma rollback_result:
  assumes "git_contract g" "rollback_after_failed_apply g target d e s = (r, s')"
  shows "\<exists>e'. r = Inl e' \<and> (restored g d target s' \<or> not_restored e')"
proof -
  let ?undo = "safe_run_git g target reverse_args (Some (al_encode_escape g (pf_patch d)))"
  let ?head = "safe_ensure_target_at_baseline g target (pf_baseline_commit_sha d)"
  have ro: "reads_only ?head" "reads_only (safe_ensure_clean_repo g target)"
    using reads_only_steps [OF assms(1)] by (simp_all add: safe_ensure_clean_repo_def)
  have msg: "not_restored (SafePatchApplyError (''Automatic apply failed and rollback could not restore the trusted repository: ''
          @ m))" for m
    by (simp add: not_restored_def SafePatchApplyError_def starts_with_def)
  have clean: "restored g d target t" if "fst (?head t) = Inr ()" "fst (safe_ensure_clean_repo g target t) = Inr ()" for t
    using that clean_iff [OF assms(1)] head_iff [OF assms(1)] by (simp add: restored_def)
  obtain rb t where rev: "?undo s = (rb, t)" by fastforce
  have c: "safe_ensure_clean_repo g target t = (fst (safe_ensure_clean_repo g target t), t)"
    using ro(2) by (simp add: reads_only_def prod_eq_iff)
  show ?thesis
  proof (cases rb)
    case (Inl e')
    then show ?thesis using assms(2) msg by (auto simp: rollback_after_failed_apply_def pbind_def pcatch_def rev raise_def)
  next
    case (Inr out)
    then have "(r, s') = (case fst (?head t) of
        Inl e' \<Rightarrow> raise (SafePatchApplyError (''Automatic apply failed and rollback could not restore the trusted repository: ''
          @ exn_msg e')) t
      | Inr _ \<Rightarrow> (case fst (safe_ensure_clean_repo g target t) of
          Inl e' \<Rightarrow> raise (SafePatchApplyError (''Automatic apply failed and rollback could not restore the trusted repository: ''
          @ exn_msg e')) t
        | Inr _ \<Rightarrow> raise (SafePatchApplyError (''Automatic apply failed after mutation; the trusted repository was rolled back safely: ''
          @ exn_msg e)) t))"
      unfolding assms(2) [symmetric] rollback_after_failed_apply_def pbind_def [of "pcatch _ _"] pcatch_def
        pbind_def [of ?undo] rev prod.case sum.case reads_only_pbind [OF ro(1)]
      by (subst c) (simp split: sum.split add: raise_def)
    then show ?thesis using msg clean [of t] by (auto simp: raise_def split: sum.splits)
  qed
qed

text \<open>The part of \<open>auto_apply_safe_patch\<close> from the first change of the repository on.\<close>

lemma applied_result:
  assumes "git_contract g"
    and "pbind (safe_apply_patch g target (pf_patch d)) (\<lambda>_. pcatch
       (pbind (verify_applied_patch g target d) (\<lambda>_.
        pbind (write_safe_patch_apply_audit_event g draws result ctx) (\<lambda>_. pret result)))
       (\<lambda>e. rollback_after_failed_apply g target d e)) s = (r, s')"
  shows "(\<exists>e. r = Inl e \<and> (as_world s' = as_world s \<or> restored g d target s' \<or> not_restored e)) \<or>
    r = Inr result \<and> (\<exists>actual. repo_diff g (as_world s') target (pf_baseline_commit_sha d) = Inr actual \<and>
      applied_patch_matches actual d = Inr ())"
proof -
  obtain ra t where a: "safe_apply_patch g target (pf_patch d) s = (ra, t)" by fastforce
  let ?m = "pbind (verify_applied_patch g target d) (\<lambda>_.
        pbind (write_safe_patch_apply_audit_event g draws result ctx) (\<lambda>_. pret result))"
  show ?thesis
  proof (cases ra)
    case (Inl e)
    then have "git_with SafePatchApplyError g target apply_args (Some (al_encode_escape g (pf_patch d))) s = (Inl e, t)"
      using a by (simp add: safe_apply_patch_def safe_run_git_def pbind_Inl pret_iff)
    then have "as_world t = as_world s" by (rule failed_pure [OF assms(1)])
    then show ?thesis using assms(2) a Inl by (auto simp: pbind_def)
  next
    case (Inr u)
    obtain rm t' where m: "?m t = (rm, t')" by fastforce
    show ?thesis
    proof (cases rm)
      case (Inl e)
      then have "rollback_after_failed_apply g target d e t' = (r, s')"
        using assms(2) a \<open>ra = Inr u\<close> m by (simp add: pbind_def [of "safe_apply_patch _ _ _"] pcatch_def)
      then show ?thesis using rollback_result [OF assms(1)] by blast
    next
      case (Inr x)
      then have r: "r = Inr x" "s' = t'"
        using assms(2) a \<open>ra = Inr u\<close> m by (simp_all add: pbind_def [of "safe_apply_patch _ _ _"] pcatch_def)
      obtain actual v where v: "rbind (repo_diff g (as_world t) target (pf_baseline_commit_sha d))
          (\<lambda>actual. applied_patch_matches actual d) = Inr v" and x: "x = result"
        and w: "audit_with g draws (safe_apply_request result ctx draws)
          \<lparr>pd_decision = ALLOW, pd_allowed = True, pd_severity = SevLOW,
            pd_reason = ''Low-risk guarded workspace patch auto-applied.'',
            pd_policy_id = Some ''guarded-workspace-safe-patch-auto-apply'', pd_explanation = None\<rparr>
          (safe_apply_summary result) t = (Inr (), t')"
        using m Inr by (auto simp: pbind_Inr verify_applied_patch_def write_safe_patch_apply_audit_event_def pret_iff)
      have "as_world t' = as_world t" by (rule keepsD [OF keeps_audit(1) w])
      then show ?thesis using v r x by (auto simp: rbind_Inr_iff)
    qed
  qed
qed

lemma auto_apply_result:
  assumes "git_contract g" and "auto_apply_safe_patch g draws ctx d path report_opt gate_opt s = (r, s')"
    and "target = al_resolve g (as_world s) path"
  shows "as_world s' = as_world s \<and> (\<forall>x. r = Inr x \<longrightarrow> \<not> safe_applied x) \<or>
    safe_preconditions g d target s \<and>
    (\<exists>report gate. report_or g d report_opt = Inr report \<and> gate_or g d report gate_opt = Inr gate \<and>
      eligible_patch d report gate) \<and>
    ((\<exists>e. r = Inl e \<and> (as_world s' = as_world s \<or> restored g d target s' \<or> not_restored e)) \<or>
     (\<exists>x actual. r = Inr x \<and> safe_applied x \<and> repo_diff g (as_world s') target (pf_baseline_commit_sha d) = Inr actual \<and>
        applied_patch_matches actual d = Inr ()))"
proof -
  note ro = reads_only_steps [OF assms(1)]
  have root: "reads_only (ensure_git_repo g target)" and clean: "reads_only (safe_ensure_clean_repo g target)"
    using ro by (simp_all add: ensure_git_repo_def safe_ensure_clean_repo_def)
  let ?report = "validate_patch_paths (al_resolve g (as_world s)) d target"
  consider (early) "as_world s' = as_world s" "isl r" | (skipped) report rs where "s' = s" "r = Inr (safe_result APPLY_SKIPPED target d report rs)"
    | (go) report gate where "report_or g d report_opt = Inr report" "gate_or g d report gate_opt = Inr gate"
        "auto_apply_skip_reasons d report gate = []" "safe_preconditions g d target s"
        "pbind (safe_check_patch_applies g target (pf_patch d)) (\<lambda>_.
          pbind (safe_apply_patch g target (pf_patch d)) (\<lambda>_. pcatch
            (pbind (verify_applied_patch g target d) (\<lambda>_.
             pbind (write_safe_patch_apply_audit_event g draws (safe_result APPLIED target d report []) ctx) (\<lambda>_.
               pret (safe_result APPLIED target d report []))))
            (\<lambda>e. rollback_after_failed_apply g target d e))) s = (r, s')"
  proof (cases "report_safe ?report")
    case False
    obtain rc t where c: "checked_paths SafePatchApplyError g draws ctx d target s = (rc, t)" by fastforce
    then have "isl rc" using False
      by (cases rc) (auto simp: checked_paths_def Let_def ensure_safe_def pbind_Inr raise_iff)
    moreover have "as_world t = as_world s" by (rule keepsD [OF keeps_paths(1) c])
    ultimately have "as_world s' = as_world s \<and> isl r"
      using assms(2) c unfolding auto_apply_safe_patch_def Let_def assms(3) [symmetric] reads_only_pbind [OF root]
      by (auto simp: pbind_def [of "checked_paths _ _ _ _ _ _"] isl_def split: sum.splits)
    then show thesis using early by simp
  next
    case True
    then have paths: "checked_paths SafePatchApplyError g draws ctx d target s = (Inr (), s)"
      by (simp add: checked_paths_def Let_def ensure_safe_def)
    note unfolded = assms(2) [unfolded auto_apply_safe_patch_def Let_def assms(3) [symmetric] reads_only_pbind [OF root]
        pbind_def [of "checked_paths _ _ _ _ _ _"] paths prod.case sum.case reads_only_pbind [OF clean]
        reads_only_pbind [OF reads_only_basic(3)] reads_only_pbind [OF ro(3)], unfolded lift_res_def fst_conv]
    have pre: "safe_preconditions g d target s"
      if "fst (safe_ensure_clean_repo g target s) = Inr ()" "ensure_patch_integrity g d = Inr ()"
        "fst (safe_ensure_target_at_baseline g target (pf_baseline_commit_sha d) s) = Inr ()"
      using that True clean_iff [OF assms(1)] head_iff [OF assms(1)]
      by (simp add: safe_preconditions_def ensure_patch_integrity_def Let_def split: if_splits)
    show thesis
      using unfolded early skipped go pre
      by (auto simp: pret_def split: sum.splits if_splits)
  qed
  then show ?thesis
  proof cases
    case early
    then show ?thesis by auto
  next
    case skipped
    then show ?thesis by (simp add: safe_applied_def safe_result_def)
  next
    case go
    show ?thesis
    proof (cases "fst (safe_check_patch_applies g target (pf_patch d) s)")
      case (Inl e)
      then show ?thesis using go by (auto simp: reads_only_pbind [OF ro(5)])
    next
      case (Inr u)
      with go have "pbind (safe_apply_patch g target (pf_patch d)) (\<lambda>_. pcatch
            (pbind (verify_applied_patch g target d) (\<lambda>_.
             pbind (write_safe_patch_apply_audit_event g draws (safe_result APPLIED target d report []) ctx) (\<lambda>_.
               pret (safe_result APPLIED target d report []))))
            (\<lambda>e. rollback_after_failed_apply g target d e)) s = (r, s')"
        by (simp add: reads_only_pbind [OF ro(5)])
      from applied_result [OF assms(1) this] go show ?thesis
        by (auto simp: skip_Nil_iff safe_applied_def safe_result_def)
    qed
  qed
qed




section \<open>A run on a small repository\<close>

definition sample_base :: string where
  "sample_base = replicate 40 (CHR ''a'')"

definition docs_text :: string where
  "docs_text = join [CHR 0x0A] [''diff --git a/docs/a.md b/docs/a.md'', ''--- a/docs/a.md'', ''+++ b/docs/a.md'',
     ''@@ -1 +1 @@'', ''-old'', ''+new'', []]"

text \<open>The world says whether the patch is applied.\<close>

definition docs_git :: "bool \<Rightarrow> patch_git" where
  "docs_git w = sample_git\<lparr>
     g_changed := (\<lambda>_ args. Inr (if w \<and> hd args = ''diff''
       then '':100644 100644 1 2 M'' @ [CHR 0x00] @ ''docs/a.md'' @ [CHR 0x00] else [])),
     g_run := (\<lambda>_ _ args. Inr (if \<not> w then [] else if args = patch_args sample_base then docs_text
       else ''1'' @ [CHR 0x09] @ ''1'' @ [CHR 0x09] @ ''docs/a.md'' @ [CHR 0x00])),
     g_sha256 := (\<lambda>_. ''h'')\<rparr>"

definition docs_run :: "bool \<Rightarrow> string \<Rightarrow> string list \<Rightarrow> string option \<Rightarrow> (py_exn + int \<times> string \<times> string) \<times> bool" where
  "docs_run w cwd args inp =
     (if tl args = apply_args then (Inr (0, [], []), True)
      else if tl args = reverse_args then (Inr (0, [], []), False)
      else (Inr (0, if hd (tl args) = ''status'' then (if w then '' M docs/a.md'' else [])
         else if tl args = [''rev-parse'', ''HEAD''] then sample_base @ [CHR 0x0A] else ''/r'', []), w))"

definition docs_libs :: "bool apply_libs" where
  "docs_libs = \<lparr>al_resolve = (\<lambda>_ p. p), al_is_dir = (\<lambda>_ _. True), al_which_git = (\<lambda>_. Some ''git''), al_run = docs_run,
     al_decode = (\<lambda>b. b), al_encode = Some, al_encode_escape = (\<lambda>p. p), al_sha256 = (\<lambda>_. ''h''), al_patch_git = docs_git,
     al_risk = sample_libs, al_audit = sample_audit_lib, al_iso = sample_times\<rparr>"

definition docs_patch :: patch_diff where
  "docs_patch = \<lparr>pf_workspace_path = ''/w'', pf_baseline_commit_sha = sample_base, pf_patch = docs_text,
     pf_patch_sha256 = ''h'', pf_patch_size_bytes = int (length docs_text),
     pf_files = [\<lparr>fd_path = ''docs/a.md'', fd_kind = MODIFIED, fd_additions = Some 1, fd_deletions = Some 1,
       fd_binary = False, fd_old_path = None, fd_old_mode = Some ''100644'', fd_new_mode = Some ''100644'',
       fd_mode_changed = False\<rparr>],
     pf_ignored_files = []\<rparr>"

definition docs_report :: risk_report where
  "docs_report = \<lparr>rp_baseline_commit_sha = sample_base, rp_patch_sha256 = ''h'',
     rp_files = [\<lparr>fr_path = ''docs/a.md'', fr_kind = MODIFIED, fr_risk_level = LOW,
       fr_reasons = [reason ''documentation-change'' LOW ''Documentation changed.'' []], fr_additions = Some 1,
       fr_deletions = Some 1, fr_binary = False, fr_old_path = None, fr_old_mode = Some ''100644'',
       fr_new_mode = Some ''100644'', fr_mode_changed = False, fr_rust_criticality = None\<rparr>],
     rp_report_reasons = []\<rparr>"

definition docs_state :: "bool apply_state" where
  "docs_state = \<lparr>as_world = False, as_logger = None, as_used = []\<rparr>"

definition docs_context :: apply_context where
  "docs_context = \<lparr>ac_user = ''u'', ac_agent = ''g'', ac_env = ''local'', ac_trace = Some ''t''\<rparr>"

definition sample_event_draws :: event_draws where
  "sample_event_draws = \<lparr>draw_event_id = ''e1'', draw_timestamp = ''T3'', draw_event_trace_id = ''t'',
     draw_package_version = ''1''\<rparr>"

definition docs_run_result :: "safe_apply_result res \<times> bool apply_state" where
  "docs_run_result = auto_apply_safe_patch docs_libs sample_event_draws docs_context docs_patch ''/r''
     (Some docs_report) (Some (gate_report docs_report)) docs_state"

lemma docs_contract: "git_contract docs_libs"
  by (auto simp: git_contract_def docs_libs_def docs_run_def query_def run_failed_def apply_args_def check_args_def
      reverse_args_def)

lemma docs_applied: "case docs_run_result of (Inr x, s') \<Rightarrow> safe_applied x \<and> as_world s' | _ \<Rightarrow> False"
  by code_simp


text \<open>Here the diff of the repository after the apply is not the expected one, so the patch is taken back.\<close>

definition other_diff :: "bool apply_libs" where
  "other_diff = docs_libs\<lparr>al_patch_git := \<lambda>_. sample_git\<rparr>"

definition failed_run :: "safe_apply_result res \<times> bool apply_state" where
  "failed_run = auto_apply_safe_patch other_diff sample_event_draws docs_context docs_patch ''/r''
     (Some docs_report) (Some (gate_report docs_report)) docs_state"

lemma failed_run_fails: "case failed_run of (Inl e, s') \<Rightarrow> \<not> not_restored e | _ \<Rightarrow> False"
  by code_simp

lemma other_contract: "git_contract other_diff"
  using docs_contract by (simp add: git_contract_def other_diff_def)


section \<open>Approved apply\<close>

definition says_head_any_case :: "'w apply_libs \<Rightarrow> string \<Rightarrow> string \<Rightarrow> 'w apply_state \<Rightarrow> bool" where
  "says_head_any_case g path base s =
     (\<exists>out. fst (git_with SafePatchApplyError g path [''rev-parse'', ''HEAD''] None s) = Inr out \<and>
       lower (strip (al_decode g out)) = lower base)"

definition approved_preconditions ::
  "'w apply_libs \<Rightarrow> int \<Rightarrow> patch_diff \<Rightarrow> string \<Rightarrow> approval_request \<Rightarrow> approval_decision \<Rightarrow> risk_report \<Rightarrow> 'w apply_state \<Rightarrow> bool" where
  "approved_preconditions g now d target request decision report s =
     (report_safe (validate_patch_paths (al_resolve g (as_world s)) d target) \<and>
      collect_block_reasons report = [] \<and>
      (aq_required (patch_requirement d report (gate_report report)) \<or> forced_approval request) \<and>
      ad_status decision = APPROVED \<and> ad_approved decision \<and> bound_to d request decision \<and>
      fresh (al_iso g) request decision now DEFAULT_PATCH_APPROVAL_TTL_SECONDS \<and>
      verify_approval_receipt (sha256 (al_audit g)) request decision = Inr VALID \<and>
      ar_tool_name request = ''guarded_workspace'' \<and> ar_action request = Some ''approve_patch_apply'' \<and>
      (\<exists>p \<in> set SUPPORTED_POLICY_IDS. ar_policy_id request = Some p) \<and>
      says_clean g target s \<and> says_head_any_case g target (pf_baseline_commit_sha d) s \<and>
      (\<exists>logger events. as_logger s = Some logger \<and>
         read_approved_patch_apply_audit_events (al_audit g) logger = Inr events \<and>
         \<not> list_ex (approved_patch_apply_event_matches_key (approval_use_key request d)) events))"

text \<open>The part of \<open>apply_approved_patch\<close> from the reservation on.\<close>

definition approved_tail ::
  "'w apply_libs \<Rightarrow> event_draws \<Rightarrow> patch_diff \<Rightarrow> string \<Rightarrow> approval_request \<Rightarrow> approval_decision \<Rightarrow> risk_report \<Rightarrow>
   ('w, approved_apply_result) apply_step" where
  "approved_tail g draws d target request decision report =
     pbind (reserve_approval_use (approval_use_key request d)) (\<lambda>_.
     pbind (pcatch
          (pbind (approved_check_patch_applies g target (pf_patch d)) (\<lambda>_. approved_apply_patch g target (pf_patch d)))
          (\<lambda>e. pbind (release_approval_use (approval_use_key request d)) (\<lambda>_. raise e))) (\<lambda>_.
        let result = \<lparr>px_target_repo_path = target, pr_patch_sha = pf_patch_sha256 d,
              pr_baseline_sha = pf_baseline_commit_sha d, pr_approval_id = ar_approval_id request,
              pr_approved_by = ad_decided_by decision, pr_files = map fd_path (pf_files d), pr_risk_report = report\<rparr>
        in pbind (write_approved_patch_apply_audit_event g draws result request) (\<lambda>_. pret result)))"

lemma step_rule:
  assumes "keeps u m" and "\<And>e t. u t = u s \<Longrightarrow> Q (Inl e, t)" and "\<And>x t. u t = u s \<Longrightarrow> Q (f x t)"
  shows "Q (pbind m f s)"
proof -
  obtain r t where m: "m s = (r, t)" by fastforce
  then have "u t = u s" using assms(1) by (rule keepsD [rotated])
  then show ?thesis using assms(2,3) m by (auto simp: pbind_def split: sum.splits)
qed

lemmas used_step = step_rule [where u = as_used]

lemma query_rule:
  assumes "reads_only m" and "\<And>e. Q (Inl e, s)" and "\<And>x. fst (m s) = Inr x \<Longrightarrow> Q (f x s)"
  shows "Q (pbind m f s)"
  using assms by (simp add: reads_only_pbind split: sum.splits)

lemma keeps_used_steps:
  "keeps as_used (ensure_git_repo_root g target)" "keeps as_used (approved_ensure_clean_repo g target)"
  "keeps as_used (approved_ensure_target_at_baseline g target base)"
  "keeps as_used (approved_check_patch_applies g target patch)" "keeps as_used (approved_apply_patch g target patch)"
  "keeps as_used (\<lambda>s. lift_res (f s) s)"
  unfolding ensure_git_repo_root_def approved_ensure_clean_repo_def clean_with_def approved_run_git_def
    approved_ensure_target_at_baseline_def approved_check_patch_applies_def approved_apply_patch_def
  by (intro keeps_root keeps_git keeps_pbind keeps_basic; simp)+ (auto simp: keeps_def lift_res_def)

lemma approved_used_cases:
  assumes "apply_approved_patch g draws now d path request decision report_opt s = (r, s')"
  shows "isl r \<and> as_used s' = as_used s \<or> (\<exists>report t target. as_used t = as_used s \<and>
    approved_tail g draws d target request decision report t = (r, s'))"
proof -
  let ?Q = "\<lambda>(r, s'). isl r \<and> as_used s' = as_used s \<or> (\<exists>report t target. as_used t = as_used s \<and>
    approved_tail g draws d target request decision report t = (r, s'))"
  have "?Q (apply_approved_patch g draws now d path request decision report_opt s)"
    unfolding apply_approved_patch_def Let_def
    apply (rule used_step, rule keeps_used_steps, simp)
    apply (rule used_step, rule keeps_paths, simp)
    apply (rule used_step, rule keeps_basic, simp)
    apply (rule used_step, rule keeps_basic, simp)
    apply (rule used_step, rule keeps_basic, simp)
    apply (rule used_step, rule keeps_basic, simp)
    apply (rule used_step, rule keeps_basic, simp)
    apply (rule used_step, rule keeps_basic, simp)
    apply (rule used_step, rule keeps_used_steps, simp)
    apply (rule used_step, rule keeps_used_steps, simp)
    apply (rule used_step, rule keeps_used_steps, simp)
    apply (auto simp: approved_tail_def Let_def split: prod.splits)
    done
  then show ?thesis using assms by simp
qed


lemma approved_tail_used:
  assumes "approved_tail g draws d target request decision report t = (r, s')"
  shows "if approval_use_key request d \<in> set (as_used t) then isl r \<and> as_used s' = as_used t
    else as_used s' = approval_use_key request d # as_used t \<or> isl r \<and> as_used s' = as_used t"
proof (cases "approval_use_key request d \<in> set (as_used t)")
  case True
  then show ?thesis using assms by (auto simp: approved_tail_def pbind_def reserve_approval_use_def)
next
  case False
  let ?key = "approval_use_key request d"
  let ?t = "t\<lparr>as_used := ?key # as_used t\<rparr>"
  let ?m = "pbind (approved_check_patch_applies g target (pf_patch d)) (\<lambda>_. approved_apply_patch g target (pf_patch d))"
  obtain rm t' where m: "?m ?t = (rm, t')" by fastforce
  have "keeps as_used ?m" using keeps_used_steps by blast
  then have t': "as_used t' = ?key # as_used t" using m by (auto dest: keepsD)
  show ?thesis
  proof (cases rm)
    case (Inl e)
    then show ?thesis using assms False m t'
      by (auto simp: approved_tail_def pbind_def [of "reserve_approval_use _"] reserve_approval_use_def pbind_def [of "pcatch _ _"]
          pcatch_def pbind_def [of "release_approval_use _"] release_approval_use_def raise_def)
  next
    case (Inr u)
    let ?res = "\<lparr>px_target_repo_path = target, pr_patch_sha = pf_patch_sha256 d,
              pr_baseline_sha = pf_baseline_commit_sha d, pr_approval_id = ar_approval_id request,
              pr_approved_by = ad_decided_by decision, pr_files = map fd_path (pf_files d), pr_risk_report = report\<rparr>"
    have "pbind (write_approved_patch_apply_audit_event g draws ?res request) (\<lambda>_. pret ?res) t' = (r, s')"
      using assms False m Inr
      by (simp add: approved_tail_def pbind_def [of "reserve_approval_use _"] reserve_approval_use_def
          pbind_def [of "pcatch _ _"] pcatch_def Let_def)
    moreover have "keeps as_used (pbind (write_approved_patch_apply_audit_event g draws ?res request) (\<lambda>_. pret ?res))"
      unfolding write_approved_patch_apply_audit_event_def by (intro keeps_pbind keeps_audit keeps_basic)
    ultimately have "as_used s' = as_used t'" by (auto dest: keepsD)
    then show ?thesis using t' False by simp
  qed
qed

text \<open>A run of one process: before each attempt the repository and the log may have changed in any way.\<close>

record 'w attempt =
  at_world :: 'w
  at_logger :: "audit_logger option"
  at_draws :: event_draws
  at_now :: int
  at_patch :: patch_diff
  at_target :: string
  at_request :: approval_request
  at_decision :: approval_decision
  at_report :: "risk_report option"

definition attempt_key :: "'w attempt \<Rightarrow> use_key" where
  "attempt_key a = approval_use_key (at_request a) (at_patch a)"

definition do_attempt :: "'w apply_libs \<Rightarrow> 'w attempt \<Rightarrow> ('w, approved_apply_result) apply_step" where
  "do_attempt g a s = apply_approved_patch g (at_draws a) (at_now a) (at_patch a) (at_target a) (at_request a)
     (at_decision a) (at_report a) (s\<lparr>as_world := at_world a, as_logger := at_logger a\<rparr>)"

fun applied_keys :: "'w apply_libs \<Rightarrow> 'w apply_state \<Rightarrow> 'w attempt list \<Rightarrow> use_key list" where
  "applied_keys g s [] = []"
| "applied_keys g s (a # rest) =
     (case do_attempt g a s of
        (Inr _, s') \<Rightarrow> attempt_key a # applied_keys g s' rest
      | (Inl _, s') \<Rightarrow> applied_keys g s' rest)"

lemma attempt_used:
  assumes "do_attempt g a s = (r, s')"
  shows "set (as_used s) \<subseteq> set (as_used s')"
    and "\<not> isl r \<Longrightarrow> attempt_key a \<notin> set (as_used s) \<and> attempt_key a \<in> set (as_used s')"
  using approved_used_cases [OF assms [unfolded do_attempt_def]] approved_tail_used
  by (fastforce simp: attempt_key_def split: if_splits)+

lemma applied_keys_fresh: "distinct (applied_keys g s as) \<and> set (applied_keys g s as) \<inter> set (as_used s) = {}"
proof (induction "as" arbitrary: s)
  case (Cons a rest)
  obtain r s' where "do_attempt g a s = (r, s')" by fastforce
  note used = attempt_used [OF this] and this
  then show ?case using Cons.IH [of s'] by (cases r) auto
qed simp

text \<open>
  An approval is used at most once: in any run of attempts of one process, whatever happens to the repository and
  the audit log between them, no two successful applies have the same approval, patch digest and baseline.
\<close>

theorem approval_used_once:
  "distinct (applied_keys g s attempts) \<and> list_all (\<lambda>key. key \<notin> set (as_used s)) (applied_keys g s attempts)"
  using applied_keys_fresh [of g s attempts] by (auto simp: list_all_iff)


lemma git_out_any_error:
  "fst (git_with err g cwd args inp s) = Inr out \<longleftrightarrow> fst (git_with err' g cwd args inp s) = Inr out"
  by (simp add: git_with_def split: option.splits prod.splits sum.splits)

lemma approved_clean_iff:
  assumes "git_contract g"
  shows "fst (approved_ensure_clean_repo g path s) = Inr () \<longleftrightarrow> says_clean g path s"
proof -
  have "fst (approved_ensure_clean_repo g path s) = Inr () \<longleftrightarrow> (\<exists>out. fst (git_with ApprovedPatchApplyError g path
     [''status'', ''--porcelain'', ''--untracked-files=all''] None s) = Inr out \<and> blank_bytes out)"
    unfolding approved_ensure_clean_repo_def clean_with_def
    by (subst reads_only_pbind [OF reads_only_query [OF assms]])
       (auto simp: query_def check_that_def pret_def raise_def split: sum.splits)
  then show ?thesis
    by (simp add: says_clean_def git_out_any_error [of ApprovedPatchApplyError _ _ _ _ _ _ SafePatchApplyError])
qed

lemma approved_head_iff:
  assumes "git_contract g"
  shows "fst (approved_ensure_target_at_baseline g path base s) = Inr () \<longleftrightarrow> says_head_any_case g path base s"
proof -
  have "fst (approved_ensure_target_at_baseline g path base s) = Inr () \<longleftrightarrow>
     (\<exists>out. fst (git_with ApprovedPatchApplyError g path [''rev-parse'', ''HEAD''] None s) = Inr out \<and>
       lower (strip (al_decode g out)) = lower base)"
    unfolding approved_ensure_target_at_baseline_def approved_run_git_def
    by (subst reads_only_pbind [OF reads_only_query [OF assms]])
       (auto simp: query_def check_that_def pret_def raise_def split: sum.splits)
  then show ?thesis
    by (simp add: says_head_any_case_def git_out_any_error [of ApprovedPatchApplyError _ _ _ _ _ _ SafePatchApplyError])
qed

lemma granted_iff:
  "granted_for_apply g request decision d now = Inr () \<longleftrightarrow>
     ad_status decision = APPROVED \<and> ad_approved decision \<and> bound_to d request decision \<and>
     fresh (al_iso g) request decision now DEFAULT_PATCH_APPROVAL_TTL_SECONDS \<and>
     verify_approval_receipt (sha256 (al_audit g)) request decision = Inr VALID"
  unfolding granted_for_apply_def approval_check_iff [symmetric] by (auto split: sum.splits)

lemma valid_request_iff:
  "validate_request_for_apply request = Inr () \<longleftrightarrow> ar_tool_name request = ''guarded_workspace'' \<and>
     ar_action request = Some ''approve_patch_apply'' \<and> (\<exists>p \<in> set SUPPORTED_POLICY_IDS. ar_policy_id request = Some p)"
  by (auto simp: validate_request_for_apply_def)

lemma not_applied_iff:
  "ensure_approval_not_previously_applied lib logger key = Inr () \<longleftrightarrow>
     (\<exists>l events. logger = Some l \<and> read_approved_patch_apply_audit_events lib l = Inr events \<and>
        \<not> list_ex (approved_patch_apply_event_matches_key key) events)"
  by (auto simp: ensure_approval_not_previously_applied_def res_simps split: option.splits if_splits)

lemma paths_rule:
  assumes "\<And>e t. as_world t = as_world s \<Longrightarrow> Q (Inl e, t)"
    and "report_safe (validate_patch_paths (al_resolve g (as_world s)) d target) \<Longrightarrow> Q (f () s)"
  shows "Q (pbind (checked_paths err g draws ctx d target) f s)"
proof (cases "report_safe (validate_patch_paths (al_resolve g (as_world s)) d target)")
  case True
  then show ?thesis using assms(2) by (simp add: pbind_def checked_paths_def Let_def ensure_safe_def)
next
  case False
  obtain rc t where c: "checked_paths err g draws ctx d target s = (rc, t)" by fastforce
  have "as_world t = as_world s" by (rule keepsD [OF keeps_paths(1) c])
  moreover have "isl rc" using c False
    by (cases rc) (auto simp: checked_paths_def Let_def ensure_safe_def pbind_Inr raise_iff)
  ultimately show ?thesis using c assms(1) by (auto simp: pbind_def isl_def)
qed

lemma gate_report_blocked: "blocked (gate_report report) \<longleftrightarrow> collect_block_reasons report \<noteq> []"
  by (simp add: gate_report_def blocked_def Let_def)

lemma approved_guard_cases:
  assumes "git_contract g" and "apply_approved_patch g draws now d path request decision report_opt s = (r, s')"
    and "target = al_resolve g (as_world s) path"
  shows "as_world s' = as_world s \<and> isl r \<or> (\<exists>report. report_or g d report_opt = Inr report \<and>
    approved_preconditions g now d target request decision report s \<and>
    approved_tail g draws d target request decision report s = (r, s'))"
proof -
  note ro = reads_only_steps [OF assms(1)]
  let ?Q = "\<lambda>(r, s'). as_world s' = as_world s \<and> isl r \<or> (\<exists>report. report_or g d report_opt = Inr report \<and>
    approved_preconditions g now d target request decision report s \<and>
    approved_tail g draws d target request decision report s = (r, s'))"
  have root: "reads_only (ensure_git_repo_root g target)" and clean: "reads_only (approved_ensure_clean_repo g target)"
    using ro by (simp_all add: ensure_git_repo_root_def approved_ensure_clean_repo_def)
  have hist: "reads_only (\<lambda>s. lift_res (f s) s)" for f :: "'a apply_state \<Rightarrow> unit res"
    by (simp add: reads_only_def lift_res_def)
  have "?Q (apply_approved_patch g draws now d path request decision report_opt s)"
    unfolding apply_approved_patch_def Let_def assms(3) [symmetric]
    apply (rule query_rule [OF root], simp)
    apply (rule paths_rule, simp)
    apply (rule query_rule [OF reads_only_basic(3)], simp)
    apply (rule query_rule [OF reads_only_basic(3)], simp)
    apply (rule query_rule [OF reads_only_basic(4)], simp)
    apply (rule query_rule [OF reads_only_basic(4)], simp)
    apply (rule query_rule [OF reads_only_basic(3)], simp)
    apply (rule query_rule [OF reads_only_basic(3)], simp)
    apply (rule query_rule [OF clean], simp)
    apply (rule query_rule [OF ro(4)], simp)
    apply (rule query_rule [OF hist], simp)
    apply (auto simp: lift_res_def check_that_def pret_def raise_def approved_preconditions_def granted_iff valid_request_iff
        not_applied_iff approved_clean_iff [OF assms(1)] approved_head_iff [OF assms(1)] gate_or_def
        evaluate_guarded_change_gate_def gate_report_blocked approved_tail_def Let_def
        split: prod.splits if_splits)
    done
  then show ?thesis using assms(2) by simp
qed


lemma approved_apply_is_guarded_result:
  assumes "git_contract g" and "apply_approved_patch g draws now d path request decision report_opt s = (r, s')"
    and "as_world s' \<noteq> as_world s \<or> \<not> isl r"
  shows "\<exists>report. report_or g d report_opt = Inr report \<and>
    approved_preconditions g now d (al_resolve g (as_world s) path) request decision report s \<and>
    approval_use_key request d \<notin> set (as_used s)"
proof -
  obtain report where r: "report_or g d report_opt = Inr report"
      "approved_preconditions g now d (al_resolve g (as_world s) path) request decision report s"
    and tail: "approved_tail g draws d (al_resolve g (as_world s) path) request decision report s = (r, s')"
    using approved_guard_cases [OF assms(1,2) refl] assms(3) by blast
  have "approval_use_key request d \<notin> set (as_used s)"
  proof
    assume "approval_use_key request d \<in> set (as_used s)"
    then have "isl r \<and> s' = s" using tail by (auto simp: approved_tail_def pbind_def reserve_approval_use_def)
    then show False using assms(3) by simp
  qed
  with r show ?thesis by blast
qed

text \<open>
  (C14) The approved way into the trusted repository is guarded: if \<open>apply_approved_patch\<close> returns or the repository is
  not as it was, then the paths of the patch stay inside the repository, nothing in its risk report is critical, an
  approval was required, the approval is granted, signed, unexpired and bound to this digest and baseline, the request
  is one for applying patches, the repository is clean and at the baseline, the audit log was read and has no earlier
  use of the approval, and this process has not used it either.
\<close>

theorem approved_apply_is_guarded:
  assumes "git_contract g" and "apply_approved_patch g draws now d path request decision report_opt s = (r, s')"
    and "as_world s' \<noteq> as_world s \<or> \<not> isl r"
  shows "\<exists>report. report_or g d report_opt = Inr report \<and>
    approved_preconditions g now d (al_resolve g (as_world s) path) request decision report s \<and>
    approval_use_key request d \<notin> set (as_used s)"
  using assms by (rule approved_apply_is_guarded_result)

section \<open>Replays\<close>

lemma dumps_agree:
  assumes "audit_event_dump f = audit_event_dump b"
  shows "ae_policy_id f = ae_policy_id b"
    and "map_of (ae_metadata b) k = Some (PStr x) \<Longrightarrow> map_of (ae_metadata f) k = Some (PStr x)"
proof -
  have "map_of (audit_event_dump f) ''policy_id'' = map_of (audit_event_dump b) ''policy_id''"
    "map_of (audit_event_dump f) ''metadata'' = map_of (audit_event_dump b) ''metadata''"
    using assms by simp_all
  then have p: "opt_val (ae_policy_id f) = opt_val (ae_policy_id b)"
    and m: "dict_val (json_dict (ae_metadata f)) = dict_val (json_dict (ae_metadata b))"
    by (simp_all add: audit_event_dump_def)
  show "ae_policy_id f = ae_policy_id b" using p by (simp add: opt_val_inj)
  have inj: "dict_of (Some (dict_val (json_dict (ae_metadata f)))) = dict_of (Some (dict_val (json_dict (ae_metadata b))))"
    using m by simp
  have look: "map_of (json_dict d) k = map_option json_val (map_of d k)" for d
    by (induction d) (auto simp: json_dict_def)
  assume "map_of (ae_metadata b) k = Some (PStr x)"
  then have "map_option json_val (map_of (ae_metadata f) k) = Some (PStr x)"
    using inj look [of "ae_metadata f"] look [of "ae_metadata b"] by simp
  then obtain v where v: "map_of (ae_metadata f) k = Some v" "json_val v = PStr x" by auto
  then show "map_of (ae_metadata f) k = Some (PStr x)" by (cases v) simp_all
qed

lemma redacted_entry:
  "redact_dict d = Inr r \<Longrightarrow> map_of d k = Some (PStr x) \<Longrightarrow> \<not> is_sensitive_key k \<Longrightarrow> redact_sensitive_string x = x \<Longrightarrow>
     map_of r k = Some (PStr x)"
  by (induction d arbitrary: r) (auto simp: redact_dict_def res_simps split: if_splits)

lemma tail_audits:
  assumes "approved_tail g draws d target request decision report s = (Inr r, s')" and "as_logger s = Some logger"
  obtains event b logger' where "make_audit_event draws (approved_apply_request r request)
      \<lparr>pd_decision = ALLOW, pd_allowed = True, pd_severity = ar_severity request,
       pd_reason = ''Approved guarded workspace patch applied to trusted repository.'',
       pd_policy_id = Some APPROVED_PATCH_APPLY_POLICY_ID, pd_explanation = None\<rparr> (approved_apply_summary r) = Inr event"
    "write_event (al_audit g) logger event = (Inr b, logger')" "as_logger s' = Some logger'"
    "pr_approval_id r = ar_approval_id request" "pr_patch_sha r = pf_patch_sha256 d" "pr_baseline_sha r = pf_baseline_commit_sha d"
proof -
  have keep: "keeps as_logger (approved_check_patch_applies g target patch)" "keeps as_logger (approved_apply_patch g target patch)" for patch
    unfolding approved_check_patch_applies_def approved_apply_patch_def approved_run_git_def
    by (intro keeps_git keeps_pbind keeps_basic; simp)+
  obtain t1 t2 where t1: "reserve_approval_use (approval_use_key request d) s = (Inr (), t1)"
    and t2: "pcatch (pbind (approved_check_patch_applies g target (pf_patch d)) (\<lambda>_. approved_apply_patch g target (pf_patch d)))
          (\<lambda>e. pbind (release_approval_use (approval_use_key request d)) (\<lambda>_. raise e)) t1 = (Inr (), t2)"
    and w: "write_approved_patch_apply_audit_event g draws r request t2 = (Inr (), s')"
    and r: "pr_approval_id r = ar_approval_id request" "pr_patch_sha r = pf_patch_sha256 d" "pr_baseline_sha r = pf_baseline_commit_sha d"
    using assms(1) by (auto simp: approved_tail_def Let_def pbind_Inr [of "reserve_approval_use _"]
        pbind_Inr [of "pcatch _ _"] pbind_Inr [of "write_approved_patch_apply_audit_event _ _ _ _"] pret_iff)
  have l1: "as_logger t1 = Some logger" using t1 assms(2) by (auto simp: reserve_approval_use_def split: if_splits)
  have "as_logger t2 = as_logger t1"
    using t2 unfolding pcatch_Inr by (auto simp: pbind_Inr raise_iff dest!: keepsD [OF keep(1)] keepsD [OF keep(2)])
  then show thesis
    using w l1 that r
    by (auto simp: write_approved_patch_apply_audit_event_def audit_with_def log_decision_def
        split: prod.splits sum.splits)
qed

lemma key_fields_plain:
  "\<not> is_sensitive_key ''approval_id''" "\<not> is_sensitive_key ''patch_sha256''" "\<not> is_sensitive_key ''baseline_commit_sha''"
  by code_simp+

lemma logged_event_matches:
  assumes "make_audit_event draws request decision (approved_apply_summary r) = Inr event"
    and "list_all (\<lambda>x. redact_sensitive_string x = x) [pr_approval_id r, pr_patch_sha r, pr_baseline_sha r]"
  shows "approved_patch_apply_event_matches_key (pr_approval_id r, pr_patch_sha r, pr_baseline_sha r) event"
    and "ae_policy_id event = pd_policy_id decision"
proof -
  obtain red where red: "redact_dict (approved_apply_summary r) = Inr red" and event: "ae_metadata event = red"
    and p: "ae_policy_id event = pd_policy_id decision"
    using assms(1) by (auto simp: make_audit_event_def res_simps)
  then show "ae_policy_id event = pd_policy_id decision" by simp
  have "map_of red k = Some (PStr x)"
    if "map_of (approved_apply_summary r) k = Some (PStr x)" "\<not> is_sensitive_key k" "redact_sensitive_string x = x" for k x
    using redacted_entry [OF red that] .
  then show "approved_patch_apply_event_matches_key (pr_approval_id r, pr_patch_sha r, pr_baseline_sha r) event"
    using assms(2) key_fields_plain
    by (simp add: approved_patch_apply_event_matches_key_def event approved_apply_summary_def)
qed

lemma history_reads:
  "read_events lib logger = Inr events \<Longrightarrow> read_approved_patch_apply_audit_events lib logger =
     Inr (filter (\<lambda>e. ae_policy_id e = Some APPROVED_PATCH_APPLY_POLICY_ID) events)"
  by (auto simp: read_events_def read_approved_patch_apply_audit_events_def
      read_approved_patch_apply_events_from_storage_def split: option.splits)

text \<open>
  (C21) A used approval cannot be replayed after a restart: once \<open>apply_approved_patch\<close> has returned, every later call
  with the same request and patch and the log as it was left fails, in any process, at any time, with any decision, as
  long as redaction leaves the approval id, the digest and the baseline as they are.
\<close>

theorem replay_refused_after_restart:
  assumes "git_contract g" and "reads_back (al_audit g)" and "as_logger s = Some logger" and "logger_holds logger evs"
    and "apply_approved_patch g draws now d path request decision report_opt s = (Inr r, s')"
    and "list_all (\<lambda>x. redact_sensitive_string x = x) [ar_approval_id request, pf_patch_sha256 d, pf_baseline_commit_sha d]"
    and "as_logger t = as_logger s'"
  shows "isl (fst (apply_approved_patch g draws' now' d path' request decision' report_opt' t))"
proof -
  obtain report where tail: "approved_tail g draws d (al_resolve g (as_world s) path) request decision report s = (Inr r, s')"
    using approved_guard_cases [OF assms(1,5) refl] by auto
  obtain event b logger' where e: "make_audit_event draws (approved_apply_request r request)
      \<lparr>pd_decision = ALLOW, pd_allowed = True, pd_severity = ar_severity request,
       pd_reason = ''Approved guarded workspace patch applied to trusted repository.'',
       pd_policy_id = Some APPROVED_PATCH_APPLY_POLICY_ID, pd_explanation = None\<rparr> (approved_apply_summary r) = Inr event"
    and w: "write_event (al_audit g) logger event = (Inr b, logger')" and l': "as_logger s' = Some logger'"
    and ids: "pr_approval_id r = ar_approval_id request" "pr_patch_sha r = pf_patch_sha256 d" "pr_baseline_sha r = pf_baseline_commit_sha d"
    by (rule tail_audits [OF tail assms(3)])
  have ff: "file_fault logger' = None"
    using w by (auto simp: write_event_def Let_def split: option.splits sum.splits)
  obtain es f where read: "read_events (al_audit g) logger' = Inr (es @ [f])" and f: "audit_event_dump f = audit_event_dump b"
    using logger_chain.write_is_read [OF assms(4) w ff assms(2)] by blast
  have "b = bind_event (al_audit g) (last_hash evs) event"
    using logger_chain.write_ok [OF assms(4) w] by blast
  then have b: "ae_metadata b = ae_metadata event" "ae_policy_id b = ae_policy_id event"
    by (simp_all add: bind_event_def Let_def)
  have "approved_patch_apply_event_matches_key (approval_use_key request d) f"
    "ae_policy_id f = Some APPROVED_PATCH_APPLY_POLICY_ID"
    using logged_event_matches [OF e] dumps_agree [OF f] assms(6) b
    by (simp_all add: ids approved_patch_apply_event_matches_key_def approval_use_key_def)
  then have "\<exists>events. read_approved_patch_apply_audit_events (al_audit g) logger' = Inr events \<and>
      list_ex (approved_patch_apply_event_matches_key (approval_use_key request d)) events"
    using history_reads [OF read] by auto
  then have no: "\<not> approved_preconditions g now' d target request decision' report' t" for target report'
    using l' assms(7) by (auto simp: approved_preconditions_def)
  obtain r2 t2 where "apply_approved_patch g draws' now' d path' request decision' report_opt' t = (r2, t2)" by fastforce
  then show ?thesis using approved_guard_cases [OF assms(1) _ refl] no by fastforce
qed

section \<open>A run with an approval\<close>

lemma pbind_step: "m s = (Inr x, t) \<Longrightarrow> pbind m f s = f x t"
  by (simp add: pbind_def)

lemma pbind_ok: "pbind (pret x) f = f x" "pbind (lift_res (Inr x)) f = f x"
  by (auto simp: pbind_def pret_def lift_res_def)

lemma approved_apply_runs:
  assumes "git_contract g" and "target = al_resolve g (as_world s) path" and "fst (ensure_git_repo_root g target s) = Inr ()"
    and "report_or g d report_opt = Inr report" and "approved_preconditions g now d target request decision report s"
  shows "apply_approved_patch g draws now d path request decision report_opt s =
    approved_tail g draws d target request decision report s"
proof -
  note ro = reads_only_steps [OF assms(1)] and pre = assms(5) [unfolded approved_preconditions_def]
  have root: "reads_only (ensure_git_repo_root g target)" and clean: "reads_only (approved_ensure_clean_repo g target)"
    using ro by (simp_all add: ensure_git_repo_root_def approved_ensure_clean_repo_def)
  have hist: "reads_only (\<lambda>s. lift_res (f s) s)" for f :: "'a apply_state \<Rightarrow> unit res"
    by (simp add: reads_only_def lift_res_def)
  have oks: "granted_for_apply g request decision d now = Inr ()" "validate_request_for_apply request = Inr ()"
    "ensure_approval_not_previously_applied (al_audit g) (as_logger s) (approval_use_key request d) = Inr ()"
    "fst (approved_ensure_clean_repo g target s) = Inr ()"
    "fst (approved_ensure_target_at_baseline g target (pf_baseline_commit_sha d) s) = Inr ()"
    "gate_or g d report None = Inr (gate_report report)" "\<not> blocked (gate_report report)"
    using pre by (auto simp: granted_iff valid_request_iff not_applied_iff approved_clean_iff [OF assms(1)]
        approved_head_iff [OF assms(1)] gate_or_def evaluate_guarded_change_gate_def gate_report_blocked)
  have paths: "checked_paths ApprovedPatchApplyError g draws ctx d target s = (Inr (), s)" for ctx
    using pre by (simp add: checked_paths_def Let_def ensure_safe_def)
  have same: "m s = (Inr x, s)" if "reads_only m" "fst (m s) = Inr x" for m :: "('a apply_state, 'b) py" and x
    using that by (simp add: reads_only_def prod_eq_iff)
  show ?thesis
    unfolding apply_approved_patch_def Let_def assms(2) [symmetric] assms(4) oks(1,2,6)
    using pre oks(3,7) same [OF root assms(3)] same [OF clean oks(4)] same [OF ro(4) oks(5)] paths
    by (simp add: pbind_ok oks(6) pbind_step check_that_def approved_tail_def Let_def lift_res_def [of "ensure_approval_not_previously_applied _ _ _"])
qed

lemma string_keys_dict: "string_keys (dict_val d) \<longleftrightarrow> (\<forall>kv \<in> set d. is_sensitive_key (fst kv) \<or> string_keys (snd kv))"
  by (auto simp: dict_val_def)

lemma audit_with_ok:
  assumes "as_logger s = Some (new_logger False)" "string_keys (tr_input rq)" "loggable md"
    and "map_of (tr_metadata rq) ''trace_id'' = Some (PStr x)"
  shows "\<exists>s'. audit_with g draws rq dec md s = (Inr (), s')"
proof -
  obtain inp where "redact_sensitive_value (tr_input rq) = Inr inp" using assms(2) redact_value_total by blast
  moreover obtain m where "redact_dict md = Inr m" using redact_dict_ok [OF assms(3)] by blast
  moreover have "\<exists>t. redact_sensitive_value (opt_val (tr_target rq)) = Inr t" by (cases "tr_target rq") simp_all
  ultimately obtain event where "make_audit_event draws rq dec md = Inr event"
    using assms(4) by (auto simp: make_audit_event_def)
  then show ?thesis
    using assms(1) by (simp add: audit_with_def log_decision_def write_event_def new_logger_def lines_of_def Let_def)
qed

definition docs_high :: risk_report where
  "docs_high = sample_report HIGH docs_patch"

definition docs_request :: "approval_request res" where
  "docs_request = create_patch_approval_request sample_libs patch_draws docs_patch ''u'' ''g'' ''local''
     (Some docs_high) (Some (gate_report docs_high)) None"

definition logged_state :: "bool apply_state" where
  "logged_state = docs_state\<lparr>as_logger := Some (new_logger False)\<rparr>"

lemma docs_request_made: obtains q where "docs_request = Inr q" "ar_trace_id q = ''t''"
proof -
  have "case docs_request of Inl _ \<Rightarrow> False | Inr q \<Rightarrow> ar_trace_id q = ''t''" by code_simp
  then show thesis using that by (simp split: sum.splits)
qed

lemma docs_evaluations:
  "report_safe (validate_patch_paths (\<lambda>p. p) docs_patch ''/r'')" "collect_block_reasons docs_high = []"
  "aq_required (patch_requirement docs_patch docs_high (gate_report docs_high))"
  "fst (ensure_git_repo_root docs_libs ''/r'' logged_state) = Inr ()"
  "fst (approved_ensure_clean_repo docs_libs ''/r'' logged_state) = Inr ()"
  "fst (approved_ensure_target_at_baseline docs_libs ''/r'' (pf_baseline_commit_sha docs_patch) logged_state) = Inr ()"
  "strip (pf_baseline_commit_sha docs_patch) \<noteq> []"
  "loggable (risk_report_summary docs_high)" "loggable (risk_counts docs_high)"
  by code_simp+

lemma docs_parts:
  "al_resolve docs_libs (as_world logged_state) = (\<lambda>p. p)" "as_logger logged_state = Some (new_logger False)"
  by (simp_all add: docs_libs_def logged_state_def)

lemma docs_ids_kept:
  "list_all (\<lambda>x. redact_sensitive_string x = x) [''a1'', pf_patch_sha256 docs_patch, pf_baseline_commit_sha docs_patch]"
proof -
  have "list_all (\<lambda>x. list_all (re_stuck x) SECRET_PATTERNS) [''a1'', pf_patch_sha256 docs_patch, pf_baseline_commit_sha docs_patch]"
    by code_simp
  then show ?thesis by (simp add: redact_string_kept)
qed

lemma docs_preconditions:
  assumes "docs_request = Inr q" "approve_patch_request (Cons CHR ''d'') ''T2'' q ''rev'' ''ok'' None = Inr a"
  shows "approved_preconditions docs_libs 7 docs_patch ''/r'' q a docs_high logged_state"
proof -
  note made = created_request [OF assms(1) [unfolded docs_request_def]]
  note ap = approved_decision [OF assms(2)]
  have lib: "al_iso docs_libs = sample_times" "sha256 (al_audit docs_libs) = Cons CHR ''d''"
    by (simp_all add: docs_libs_def sample_audit_lib_def)
  have f: "fresh sample_times q a 7 DEFAULT_PATCH_APPROVAL_TTL_SECONDS"
    using sample_times_parse by (simp add: fresh_def made ap DEFAULT_PATCH_APPROVAL_TTL_SECONDS_def)
  have b: "bound_to docs_patch q a"
    using docs_evaluations(7) by (simp add: bound_to_def made ap decision_binding_metadata_def patch_request_metadata_def)
  have h: "read_approved_patch_apply_audit_events lib (new_logger False) = Inr []" for lib
    by (simp add: read_approved_patch_apply_audit_events_def new_logger_def read_events_def)
  show ?thesis
    unfolding approved_preconditions_def lib approved_clean_iff [OF docs_contract, symmetric]
      approved_head_iff [OF docs_contract, symmetric] docs_parts(1)
    using f b ap docs_evaluations(1,2,3,5,6) docs_parts(2) h made(5-7) by (auto simp: SUPPORTED_POLICY_IDS_def)
qed

lemma approved_run_ok:
  obtains q a r s' where "docs_request = Inr q"
    "apply_approved_patch docs_libs sample_event_draws 7 docs_patch ''/r'' q a (Some docs_high) logged_state = (Inr r, s')"
proof -
  obtain q where q: "docs_request = Inr q" "ar_trace_id q = ''t''" by (rule docs_request_made)
  note made = created_request [OF q(1) [unfolded docs_request_def]]
  have "canonical (ar_target q)" "canonical (dict_val (ar_metadata q))"
    by (simp_all add: made canonical_dict_val patch_request_metadata_def docs_patch_def)
  then obtain a where a: "approve_patch_request (Cons CHR ''d'') ''T2'' q ''rev'' ''ok'' None = Inr a"
    using approve_total by blast
  have run: "apply_approved_patch docs_libs sample_event_draws 7 docs_patch ''/r'' q a (Some docs_high) logged_state =
      approved_tail docs_libs sample_event_draws docs_patch ''/r'' q a docs_high logged_state"
    by (rule approved_apply_runs [OF docs_contract]) 
       (use docs_evaluations(4) docs_parts(1) docs_preconditions [OF q(1) a] in \<open>simp_all add: report_or_def\<close>)
  let ?t = "logged_state\<lparr>as_used := [approval_use_key q docs_patch]\<rparr>"
  have m: "pbind (approved_check_patch_applies docs_libs ''/r'' (pf_patch docs_patch))
      (\<lambda>_. approved_apply_patch docs_libs ''/r'' (pf_patch docs_patch)) ?t = (Inr (), ?t\<lparr>as_world := True\<rparr>)"
    by (simp add: pbind_def approved_check_patch_applies_def approved_apply_patch_def encoded_def lift_res_def
        approved_run_git_def git_with_def docs_libs_def docs_run_def pret_def logged_state_def docs_state_def
        check_args_def apply_args_def reverse_args_def)
  let ?r = "\<lparr>px_target_repo_path = ''/r'', pr_patch_sha = pf_patch_sha256 docs_patch,
              pr_baseline_sha = pf_baseline_commit_sha docs_patch, pr_approval_id = ar_approval_id q,
              pr_approved_by = ad_decided_by a, pr_files = map fd_path (pf_files docs_patch), pr_risk_report = docs_high\<rparr>"
  have "loggable (approved_apply_summary ?r)"
    using docs_evaluations(8,9) by (auto simp: approved_apply_summary_def string_keys_dict [of "_ # _"] docs_patch_def)
      (cases "ad_decided_by a"; simp)+
  then have "\<exists>s'. audit_with docs_libs sample_event_draws (approved_apply_request ?r q) dec (approved_apply_summary ?r)
      (?t\<lparr>as_world := True\<rparr>) = (Inr (), s')" for dec
    by (intro audit_with_ok [where x = "''t''"]) (simp_all add: approved_apply_request_def guarded_request_def logged_state_def q)
  then obtain s' where "write_approved_patch_apply_audit_event docs_libs sample_event_draws ?r q (?t\<lparr>as_world := True\<rparr>) = (Inr (), s')"
    unfolding write_approved_patch_apply_audit_event_def by blast
  then have "approved_tail docs_libs sample_event_draws docs_patch ''/r'' q a docs_high logged_state = (Inr ?r, s')"
    using m by (simp add: approved_tail_def reserve_approval_use_def pbind_def pcatch_def logged_state_def docs_state_def pret_def Let_def)
  then show thesis using that q run by metis
qed

lemma approved_apply_is_guarded_witness:
  "\<exists>q a. docs_request = Inr q \<and> approved_preconditions docs_libs 7 docs_patch ''/r'' q a docs_high logged_state"
proof -
  obtain q a r s' where q: "docs_request = Inr q" and
    run: "apply_approved_patch docs_libs sample_event_draws 7 docs_patch ''/r'' q a (Some docs_high) logged_state = (Inr r, s')"
    by (rule approved_run_ok)
  then show ?thesis
    using approved_apply_is_guarded [OF docs_contract run] docs_parts(1) by (auto simp: report_or_def)
qed

lemma replay_refused_after_restart_witness:
  "\<exists>q a r s'. apply_approved_patch docs_libs sample_event_draws 7 docs_patch ''/r'' q a (Some docs_high) logged_state = (Inr r, s') \<and>
     isl (fst (apply_approved_patch docs_libs sample_event_draws 8 docs_patch ''/r'' q a (Some docs_high) (s'\<lparr>as_used := []\<rparr>)))"
proof -
  obtain q a r s' where q: "docs_request = Inr q" and
    run: "apply_approved_patch docs_libs sample_event_draws 7 docs_patch ''/r'' q a (Some docs_high) logged_state = (Inr r, s')"
    by (rule approved_run_ok)
  have "ar_approval_id q = ''a1''"
    using q by (auto simp: docs_request_def create_patch_approval_request_def checked_request_def res_simps patch_draws_def
        split: sum.splits if_splits)
  then have kept: "list_all (\<lambda>x. redact_sensitive_string x = x)
      [ar_approval_id q, pf_patch_sha256 docs_patch, pf_baseline_commit_sha docs_patch]"
    using docs_ids_kept by simp
  have "reads_back (al_audit docs_libs)" by (simp add: docs_libs_def sample_audit_lib_def sample_reads_back)
  moreover have "logger_holds (new_logger False) []" by (simp add: logger_holds_def new_logger_def lines_of_def)
  ultimately show ?thesis
    using replay_refused_after_restart [OF docs_contract _ docs_parts(2) _ run kept] run by fastforce
qed

end
