(* ===== verification/Patch_Artifact.thy ===== *)
theory Patch_Artifact
  imports Patch_Apply
begin

text \<open>
  \<open>src/rygnal/patch_artifact.py\<close>: the stored patches that wait for an approval. Metadata is written in an encoding that
  keeps tuples apart from lists; an artifact is verified whenever it is read and consumed when it has been applied. The
  store is a map from artifact ids to files. \<open>json.loads\<close>, base64, the conversions \<open>int\<close> and \<open>float\<close>, the clock and the
  file system are arguments.
\<close>

section \<open>The lossless encoding\<close>

definition artifact_error :: "string \<Rightarrow> string \<Rightarrow> py_exn" where
  "artifact_error kind msg = Exn RuntimeErr kind msg"

abbreviation PatchArtifactError :: "string \<Rightarrow> py_exn" where
  "PatchArtifactError \<equiv> artifact_error ''PatchArtifactError''"

abbreviation PatchArtifactTamperedError :: "string \<Rightarrow> py_exn" where
  "PatchArtifactTamperedError \<equiv> artifact_error ''PatchArtifactTamperedError''"

abbreviation LOSSLESS_TYPE_KEY :: pykey where
  "LOSSLESS_TYPE_KEY \<equiv> KStr ''__rygnal_serialized_type__''"

abbreviation LOSSLESS_ITEMS_KEY :: pykey where
  "LOSSLESS_ITEMS_KEY \<equiv> KStr ''items''"

fun key_val :: "pykey \<Rightarrow> pyval" where
  "key_val (KStr s) = PStr s"
| "key_val (KInt i) = PInt i"
| "key_val (KBool b) = PBool b"
| "key_val KNone = PNone"

definition container :: "string \<Rightarrow> pyval list \<Rightarrow> pyval" where
  "container kind items = PDict [(LOSSLESS_TYPE_KEY, PStr kind), (LOSSLESS_ITEMS_KEY, PList items)]"

definition plain_keys :: "(pykey \<times> pyval) list \<Rightarrow> bool" where
  "plain_keys kvs = (list_all (\<lambda>(k, _). case k of KStr _ \<Rightarrow> True | _ \<Rightarrow> False) kvs \<and> LOSSLESS_TYPE_KEY \<notin> fst ` set kvs)"

text \<open>The values here have no other types than those that the encoding supports.\<close>

fun encode_lossless_value :: "pyval \<Rightarrow> pyval" where
  "encode_lossless_value (PTuple xs) = container ''tuple'' (map encode_lossless_value xs)"
| "encode_lossless_value (PList xs) = PList (map encode_lossless_value xs)"
| "encode_lossless_value (PDict kvs) =
     (if plain_keys kvs then PDict (map (\<lambda>kv. (fst kv, encode_lossless_value (snd kv))) kvs)
      else container ''mapping'' (map (\<lambda>kv. PList [key_val (fst kv), encode_lossless_value (snd kv)]) kvs))"
| "encode_lossless_value v = v"

text \<open>
  \<open>key in decoded\<close> and \<open>decoded[key] = item\<close>; a list or a dict is not hashable. A float or a tuple is, but such keys
  are outside the model and no encoded value has them.
\<close>

fun val_key :: "pyval \<Rightarrow> pykey res" where
  "val_key (PStr s) = Inr (KStr s)"
| "val_key (PInt i) = Inr (KInt i)"
| "val_key (PBool b) = Inr (KBool b)"
| "val_key PNone = Inr KNone"
| "val_key (PFloat r) = Inl (Exn OtherErr ''UnmodelledKey'' r)"
| "val_key (PTuple xs) = Inl (Exn OtherErr ''UnmodelledKey'' [])"
| "val_key v = Inl (PatchArtifactTamperedError ''Encoded mapping contains an unhashable key.'')"

fun insert_pairs :: "(pykey \<times> pyval) list \<Rightarrow> (pyval \<times> pyval) list \<Rightarrow> (pykey \<times> pyval) list res" where
  "insert_pairs decoded [] = Inr decoded"
| "insert_pairs decoded ((k, v) # pairs) =
     rbind (val_key k) (\<lambda>key.
       if key_num key \<in> key_num ` fst ` set decoded
       then Inl (PatchArtifactTamperedError ''Encoded mapping contains a duplicate key.'')
       else insert_pairs (decoded @ [(key, v)]) pairs)"

definition dict_of_pairs :: "(pykey \<times> pyval) list \<Rightarrow> (pykey \<times> pyval) list" where
  "dict_of_pairs pairs = fold (\<lambda>(k, v) d. AList.update k v d) pairs []"

text \<open>\<open>d.get(key)\<close>, a list under the key \<open>items\<close>, and a list of two values.\<close>

definition get_val :: "(pykey \<times> pyval) list \<Rightarrow> string \<Rightarrow> pyval" where
  "get_val kvs key = (case map_of kvs (KStr key) of None \<Rightarrow> PNone | Some v \<Rightarrow> v)"

definition items_of :: "(pykey \<times> pyval) list \<Rightarrow> pyval list res" where
  "items_of kvs = (case get_val kvs ''items'' of PList xs \<Rightarrow> Inr xs
     | _ \<Rightarrow> Inl (PatchArtifactTamperedError ''Encoded artifact container items must be a list.''))"

fun pair_of :: "pyval \<Rightarrow> (pyval \<times> pyval) res" where
  "pair_of (PList [a, b]) = Inr (a, b)"
| "pair_of v = Inl (PatchArtifactTamperedError ''Encoded mapping item must contain two values.'')"

lemma get_val_depth: "get_val kvs k = PList xs \<Longrightarrow> x \<in> set xs \<Longrightarrow> depth x < depth (PDict kvs)"
proof -
  assume g: "get_val kvs k = PList xs" and x: "x \<in> set xs"
  then have "(KStr k, PList xs) \<in> set kvs"
    by (auto simp: get_val_def split: option.splits dest: map_of_SomeD)
  from depth_item(3) [OF this] have "depth (PList xs) < depth (PDict kvs)" unfolding snd_conv .
  with depth_item(1) [OF x] show ?thesis by (rule less_trans)
qed

lemma items_of_depth: "items_of kvs = Inr xs \<Longrightarrow> x \<in> set xs \<Longrightarrow> depth x < depth (PDict kvs)"
  by (rule get_val_depth [of kvs "''items''"]) (auto simp: items_of_def split: pyval.splits)

lemma pair_of_depth: "pair_of v = Inr (a, b) \<Longrightarrow> depth a < depth v \<and> depth b < depth v"
proof -
  assume "pair_of v = Inr (a, b)"
  then have "v = PList [a, b]" by (cases v rule: pair_of.cases) auto
  then show ?thesis using depth_item(1) [of _ "[a, b]"] by (simp del: depth.simps)
qed

lemma pair_item_depth:
  "items_of kvs = Inr xs \<Longrightarrow> x \<in> set xs \<Longrightarrow> pair_of x = Inr (a, b) \<Longrightarrow>
     depth a < depth (PDict kvs) \<and> depth b < depth (PDict kvs)"
  using items_of_depth pair_of_depth by (meson less_trans)

text \<open>The code inserts each pair before it decodes the next; here all pairs are decoded first, which can only change the
  text of the error of an encoding with two faults.\<close>

function (sequential) decode_lossless_value :: "pyval \<Rightarrow> pyval res" where
  "decode_lossless_value (PList xs) = rbind (rmap decode_lossless_value xs) (\<lambda>ys. Inr (PList ys))"
| "decode_lossless_value (PTuple xs) =
     Inl (PatchArtifactTamperedError ''Encoded artifact value has an unsupported type.'')"
| "decode_lossless_value (PDict kvs) =
     (let marker = get_val kvs ''__rygnal_serialized_type__'' in
      if marker = PNone
      then rbind (rmap (\<lambda>kv. rbind (decode_lossless_value (snd kv)) (\<lambda>w. Inr (KStr (key_text (fst kv)), w))) kvs)
        (\<lambda>pairs. Inr (PDict (dict_of_pairs pairs)))
      else if set (map fst kvs) \<noteq> {LOSSLESS_TYPE_KEY, LOSSLESS_ITEMS_KEY}
      then Inl (PatchArtifactTamperedError ''Encoded artifact container has unexpected fields.'')
      else rbind (items_of kvs) (\<lambda>items.
        if marker = PStr ''tuple'' then rbind (rmap decode_lossless_value items) (\<lambda>xs. Inr (PTuple xs))
        else if marker = PStr ''mapping''
        then rbind (rmap (\<lambda>pair. rbind (pair_of pair) (\<lambda>ab.
               rbind (decode_lossless_value (fst ab)) (\<lambda>k. rbind (decode_lossless_value (snd ab)) (\<lambda>v. Inr (k, v))))) items)
          (\<lambda>pairs. rbind (insert_pairs [] pairs) (\<lambda>d. Inr (PDict d)))
        else Inl (PatchArtifactTamperedError (''Unknown encoded artifact container: '' @ str_val marker))))"
| "decode_lossless_value v = Inr v"
  by pat_completeness auto
termination
  by (relation "measure depth")
    (auto simp del: depth.simps dest: depth_item items_of_depth pair_item_depth)


text \<open>The values of Python: the keys of a dictionary are different.\<close>

fun wf_val :: "pyval \<Rightarrow> bool" where
  "wf_val (PList xs) = list_all wf_val xs"
| "wf_val (PTuple xs) = list_all wf_val xs"
| "wf_val (PDict kvs) = (distinct (map (\<lambda>kv. key_num (fst kv)) kvs) \<and> list_all (\<lambda>kv. wf_val (snd kv)) kvs)"
| "wf_val v = True"

lemma rmap_oks: "(\<And>x. x \<in> set xs \<Longrightarrow> f (g x) = Inr (h x)) \<Longrightarrow> rmap f (map g xs) = Inr (map h xs)"
  by (induction xs) auto

lemma rmap_ok: "(\<And>x. x \<in> set xs \<Longrightarrow> f (g x) = Inr x) \<Longrightarrow> rmap f (map g xs) = Inr xs"
  by (induction xs) auto

lemma dict_of_pairs_distinct: "distinct (map fst ps) \<Longrightarrow> dict_of_pairs ps = ps"
proof -
  have "distinct (map fst (d @ ps)) \<Longrightarrow> fold (\<lambda>(k, v) d. AList.update k v d) ps d = d @ ps" for d
    by (induction ps arbitrary: d) (auto simp: update_new)
  from this [of "[]"] show "distinct (map fst ps) \<Longrightarrow> dict_of_pairs ps = ps" by (simp add: dict_of_pairs_def)
qed

lemma val_key_val [simp]: "val_key (key_val k) = Inr k"
  by (cases k) simp_all

lemma decode_key_val [simp]: "decode_lossless_value (key_val k) = Inr (key_val k)"
  by (cases k) simp_all

lemma insert_distinct:
  "distinct (map (\<lambda>kv. key_num (fst kv)) (d @ kvs)) \<Longrightarrow>
     insert_pairs d (map (\<lambda>kv. (key_val (fst kv), snd kv)) kvs) = Inr (d @ kvs)"
proof (induction kvs arbitrary: d)
  case (Cons kv kvs)
  then have "key_num (fst kv) \<notin> key_num ` fst ` set d" by (auto simp: image_image)
  moreover have "insert_pairs (d @ [kv]) (map (\<lambda>kv. (key_val (fst kv), snd kv)) kvs) = Inr ((d @ [kv]) @ kvs)"
    by (rule Cons.IH) (use Cons.prems in simp)
  ultimately show ?case by simp
qed simp

lemma decode_container:
  "decode_lossless_value (container ''tuple'' items) = rbind (rmap decode_lossless_value items) (\<lambda>xs. Inr (PTuple xs))"
  "decode_lossless_value (container ''mapping'' items) =
     rbind (rmap (\<lambda>pair. rbind (pair_of pair) (\<lambda>ab.
        rbind (decode_lossless_value (fst ab)) (\<lambda>k. rbind (decode_lossless_value (snd ab)) (\<lambda>v. Inr (k, v))))) items)
       (\<lambda>pairs. rbind (insert_pairs [] pairs) (\<lambda>d. Inr (PDict d)))"
  by (simp_all add: container_def get_val_def items_of_def Let_def cong: rbind_cong)

lemma plain_keys_text: "plain_keys kvs \<Longrightarrow> kv \<in> set kvs \<Longrightarrow> KStr (key_text (fst kv)) = fst kv"
  by (cases "fst kv"; cases kv) (auto simp: plain_keys_def list_all_iff key_text_def)

text \<open>
  The encoding is lossless: decoding the encoding of a value gives the value, with its tuples, its lists and
  the keys of its dictionaries of whatever type, also when a dictionary has the reserved key.
\<close>

lemma lossless_ok:
  assumes "wf_val v"
  shows "decode_lossless_value (encode_lossless_value v) = Inr v"
  using assms
proof (induction v rule: encode_lossless_value.induct)
  case (1 xs)
  then have "rmap decode_lossless_value (map encode_lossless_value xs) = Inr xs"
    by (intro rmap_ok) (auto simp: list_all_iff)
  then show ?case by (simp add: decode_container)
next
  case (2 xs)
  then have "rmap decode_lossless_value (map encode_lossless_value xs) = Inr xs"
    by (intro rmap_ok) (auto simp: list_all_iff)
  then show ?case by simp
next
  case (3 kvs)
  have d: "distinct (map fst kvs)" using "3.prems" distinct_map [of key_num "map fst kvs"] by (simp add: comp_def)
  show ?case
  proof (cases "plain_keys kvs")
    case True
    have "rmap (\<lambda>kv. rbind (decode_lossless_value (snd kv)) (\<lambda>w. Inr (KStr (key_text (fst kv)), w)))
        (map (\<lambda>kv. (fst kv, encode_lossless_value (snd kv))) kvs) = Inr kvs"
      using 3 True by (intro rmap_ok) (auto simp: list_all_iff plain_keys_text)
    moreover have "map_of (map (\<lambda>kv. (fst kv, encode_lossless_value (snd kv))) kvs) LOSSLESS_TYPE_KEY = None"
      using True by (simp add: map_of_eq_None_iff plain_keys_def image_image)
    then have "get_val (map (\<lambda>kv. (fst kv, encode_lossless_value (snd kv))) kvs) ''__rygnal_serialized_type__'' = PNone"
      by (simp add: get_val_def)
    ultimately show ?thesis using True by (simp add: dict_of_pairs_distinct [OF d] Let_def)
  next
    case False
    have "rmap (\<lambda>pair. rbind (pair_of pair) (\<lambda>ab.
        rbind (decode_lossless_value (fst ab)) (\<lambda>k. rbind (decode_lossless_value (snd ab)) (\<lambda>v. Inr (k, v)))))
        (map (\<lambda>kv. PList [key_val (fst kv), encode_lossless_value (snd kv)]) kvs) =
        Inr (map (\<lambda>kv. (key_val (fst kv), snd kv)) kvs)"
      using 3 False by (intro rmap_oks) (auto simp: list_all_iff)
    then show ?thesis
      using False insert_distinct [of "[]" kvs] "3.prems" by (simp add: decode_container)
  qed
qed simp_all

section \<open>Artifacts\<close>

type_synonym pydict = "(pykey \<times> pyval) list"

record patch_artifact =
  pt_schema_version :: string
  pt_artifact_id :: string
  pt_run_id :: string
  pt_trace_id :: string
  pt_approval_request_id :: string
  pt_trusted_repo_path :: string
  pt_trusted_repo_identity_sha256 :: string
  pt_baseline_commit_sha :: string
  pt_workspace_path :: string
  pt_patch_base64 :: string
  pt_patch_sha256 :: string
  pt_patch_size_bytes :: int
  pt_files :: "pydict list"
  pt_ignored_files :: "pydict list"
  pt_risk_summary :: pydict
  pt_intent_summary :: pydict
  pt_created_at :: string
  pt_expires_at :: string
  pt_state :: string
  pt_consumed_at :: "string option"
  pt_artifact_digest :: string

definition PATCH_ARTIFACT_SCHEMA_VERSION :: string where
  "PATCH_ARTIFACT_SCHEMA_VERSION = ''patch-artifact.v1''"

definition DEFAULT_PATCH_ARTIFACT_TTL_SECONDS :: int where
  "DEFAULT_PATCH_ARTIFACT_TTL_SECONDS = 60 * 60"

definition MAX_PATCH_ARTIFACT_BYTES :: int where
  "MAX_PATCH_ARTIFACT_BYTES = 64 * 1024 * 1024"

definition LOCK_RETRY_COUNT :: nat where
  "LOCK_RETRY_COUNT = 40"

record 'w artifact_libs =
  rt_apply :: "'w apply_libs"
  rt_b64encode :: "string \<Rightarrow> string"
  rt_b64decode :: "string \<Rightarrow> string option"
  rt_decode_escape :: "string \<Rightarrow> string"
  rt_expand_resolve :: "'w \<Rightarrow> string \<Rightarrow> string"
  rt_isoformat :: "int \<Rightarrow> string"
  rt_json_loads :: "string \<Rightarrow> pyval option"
  rt_int :: "pyval \<Rightarrow> int res"
  rt_float :: "pyval \<Rightarrow> string res"

definition patch_bytes :: "'w artifact_libs \<Rightarrow> patch_artifact \<Rightarrow> string res" where
  "patch_bytes g a = (case rt_b64decode g (pt_patch_base64 a) of
     None \<Rightarrow> Inl (PatchArtifactTamperedError ''Patch artifact contains invalid base64 patch data.'')
   | Some bytes \<Rightarrow> Inr bytes)"

definition artifact_entries :: "patch_artifact \<Rightarrow> dict" where
  "artifact_entries a =
     [(''schema_version'', PStr (pt_schema_version a)), (''artifact_id'', PStr (pt_artifact_id a)),
      (''run_id'', PStr (pt_run_id a)), (''trace_id'', PStr (pt_trace_id a)),
      (''approval_request_id'', PStr (pt_approval_request_id a)),
      (''trusted_repo_path'', PStr (pt_trusted_repo_path a)),
      (''trusted_repo_identity_sha256'', PStr (pt_trusted_repo_identity_sha256 a)),
      (''baseline_commit_sha'', PStr (pt_baseline_commit_sha a)), (''workspace_path'', PStr (pt_workspace_path a)),
      (''patch_base64'', PStr (pt_patch_base64 a)), (''patch_sha256'', PStr (pt_patch_sha256 a)),
      (''patch_size_bytes'', PInt (pt_patch_size_bytes a)), (''files'', PList (map PDict (pt_files a))),
      (''ignored_files'', PList (map PDict (pt_ignored_files a))), (''risk_summary'', PDict (pt_risk_summary a)),
      (''intent_summary'', PDict (pt_intent_summary a)), (''created_at'', PStr (pt_created_at a)),
      (''expires_at'', PStr (pt_expires_at a)), (''state'', PStr (pt_state a)),
      (''consumed_at'', opt_val (pt_consumed_at a))]"

definition to_payload :: "bool \<Rightarrow> patch_artifact \<Rightarrow> pyval" where
  "to_payload include_digest a = dict_val (artifact_entries a @
     (if include_digest then [(''artifact_digest'', PStr (pt_artifact_digest a))] else []))"

definition artifact_digest :: "'w artifact_libs \<Rightarrow> pyval \<Rightarrow> string" where
  "artifact_digest g payload = al_sha256 (rt_apply g) (json_dumps payload)"

definition with_integrity_digest :: "'w artifact_libs \<Rightarrow> patch_artifact \<Rightarrow> patch_artifact" where
  "with_integrity_digest g a = a\<lparr>pt_artifact_digest := artifact_digest g (to_payload False a)\<rparr>"

section \<open>Reading values\<close>

text \<open>Iteration over a value, \<open>dict(value)\<close>, \<open>d[key]\<close> and the conversions of optional values.\<close>

definition type_error :: "string \<Rightarrow> py_exn" where
  "type_error msg = Exn TypeErr ''TypeError'' msg"

fun py_iter :: "pyval \<Rightarrow> pyval list res" where
  "py_iter (PList xs) = Inr xs"
| "py_iter (PTuple xs) = Inr xs"
| "py_iter (PDict kvs) = Inr (map (\<lambda>kv. key_val (fst kv)) kvs)"
| "py_iter (PStr s) = Inr (map (\<lambda>c. PStr [c]) s)"
| "py_iter v = Inl (type_error ''object is not iterable'')"

text \<open>A sequence of pairs is a dictionary too; a later pair replaces an earlier one with the same key.\<close>

definition pair_item :: "pyval \<Rightarrow> (pykey \<times> pyval) res" where
  "pair_item v = rbind (py_iter v) (\<lambda>xs. case xs of
     [k, w] \<Rightarrow> (case val_key k of Inr key \<Rightarrow> Inr (key, w)
       | Inl e \<Rightarrow> Inl (if exn_type e = ''UnmodelledKey'' then e else type_error ''unhashable type''))
   | _ \<Rightarrow> Inl (Exn ValueErr ''ValueError'' ''dictionary update sequence element has the wrong length''))"

definition py_dict :: "pyval \<Rightarrow> pydict res" where
  "py_dict v = (case v of PDict kvs \<Rightarrow> Inr kvs
     | _ \<Rightarrow> rbind (py_iter v) (\<lambda>items. rbind (rmap pair_item items) (\<lambda>pairs. Inr (dict_of_pairs pairs))))"

definition as_dict :: "pyval \<Rightarrow> pydict res" where
  "as_dict v = (case v of PDict kvs \<Rightarrow> Inr kvs | _ \<Rightarrow> Inl (type_error ''object is not a mapping''))"

definition need :: "pydict \<Rightarrow> string \<Rightarrow> pyval res" where
  "need d k = (case map_of d (KStr k) of Some v \<Rightarrow> Inr v | None \<Rightarrow> Inl (Exn LookupErr ''KeyError'' (repr_str k)))"

definition get_or :: "pydict \<Rightarrow> string \<Rightarrow> pyval \<Rightarrow> pyval" where
  "get_or d k v = (case map_of d (KStr k) of Some w \<Rightarrow> w | None \<Rightarrow> v)"

definition optional_string :: "pyval \<Rightarrow> string option" where
  "optional_string v = (if v = PNone then None else Some (str_val v))"

definition optional_integer :: "'w artifact_libs \<Rightarrow> pyval \<Rightarrow> int option res" where
  "optional_integer g v = (if v = PNone then Inr None else rbind (rt_int g v) (\<lambda>i. Inr (Some i)))"

definition kind_of_value :: "string \<Rightarrow> changed_file_kind res" where
  "kind_of_value s =
     (case find (\<lambda>k. changed_file_kind_value k = s) [ADDED, MODIFIED, DELETED, RENAMED, MODE_CHANGED, UNTRACKED] of
        Some k \<Rightarrow> Inr k | None \<Rightarrow> Inl (Exn ValueErr ''ValueError'' (repr_str s @ '' is not a valid ChangedFileKind'')))"

definition level_of_value :: "string \<Rightarrow> risk_level res" where
  "level_of_value s = (case find (\<lambda>l. risk_level_value l = s) [LOW, MEDIUM, HIGH, CRITICAL] of
     Some l \<Rightarrow> Inr l | None \<Rightarrow> Inl (Exn ValueErr ''ValueError'' (repr_str s @ '' is not a valid RiskLevel'')))"

section \<open>The risk report of an artifact\<close>

text \<open>Evidence has different keys, so sorting the pairs compares the keys only.\<close>

definition risk_reason_from_summary :: "pyval \<Rightarrow> risk_reason res" where
  "risk_reason_from_summary v =
     rbind (as_dict v) (\<lambda>summary.
     rbind (case get_or summary ''evidence'' (PDict []) of PDict e \<Rightarrow> Inr e
        | _ \<Rightarrow> Inl (PatchArtifactTamperedError ''Risk reason evidence must be an object.'')) (\<lambda>evidence.
     rbind (need summary ''code'') (\<lambda>code.
     rbind (need summary ''risk_level'') (\<lambda>level. rbind (level_of_value (str_val level)) (\<lambda>risk_level.
     rbind (need summary ''reason'') (\<lambda>why.
       Inr \<lparr>rr_code = str_val code, rr_risk_level = risk_level, rr_reason = str_val why,
         rr_evidence = sort_key fst (map (\<lambda>(k, w). (key_text k, w)) evidence)\<rparr>))))))"

definition rust_shadow_from_summary :: "'w artifact_libs \<Rightarrow> pyval \<Rightarrow> criticality_shadow option res" where
  "rust_shadow_from_summary g v =
     (if v = PNone then Inr None
      else rbind (as_dict v) (\<lambda>summary.
        rbind (if get_val summary ''semantic_metrics'' = PNone then Inr None
           else rbind (py_dict (get_val summary ''semantic_metrics'')) (\<lambda>d. Inr (Some (map (\<lambda>(k, w). (key_text k, w)) d)))) (\<lambda>metrics.
        rbind (if get_val summary ''criticality_index'' = PNone then Inr None
           else rbind (rt_float g (get_val summary ''criticality_index'')) (\<lambda>r. Inr (Some r))) (\<lambda>index.
        rbind (py_iter (get_or summary ''reasons'' (PTuple []))) (\<lambda>reasons.
          Inr (Some \<lparr>cs_available = truthy (get_or summary ''available'' (PBool False)), cs_criticality_index = index,
            cs_risk_level = optional_string (get_val summary ''risk_level''), cs_reasons = map str_val reasons,
            cs_semantic_metrics = metrics, cs_path_category = optional_string (get_val summary ''path_category''),
            cs_path_severity = optional_string (get_val summary ''path_severity''),
            cs_error_code = optional_string (get_val summary ''error_code''),
            cs_error_reason = optional_string (get_val summary ''error_reason''),
            cs_bypass_verdict = optional_string (get_val summary ''criticality_bypass_verdict''),
            cs_bypass_reason = optional_string (get_val summary ''criticality_bypass_reason'')\<rparr>))))))"

text \<open>A count of lines is a natural number here; a stored negative one would be kept by the code.\<close>

definition nat_count :: "int option \<Rightarrow> nat option" where
  "nat_count = map_option nat"

definition file_risk_from_summary :: "'w artifact_libs \<Rightarrow> pyval \<Rightarrow> file_risk res" where
  "file_risk_from_summary g v =
     rbind (as_dict v) (\<lambda>item.
     rbind (need item ''path'') (\<lambda>path.
     rbind (need item ''kind'') (\<lambda>kind_val. rbind (kind_of_value (str_val kind_val)) (\<lambda>kind.
     rbind (need item ''risk_level'') (\<lambda>level_val. rbind (level_of_value (str_val level_val)) (\<lambda>level.
     rbind (optional_integer g (get_val item ''additions'')) (\<lambda>additions.
     rbind (optional_integer g (get_val item ''deletions'')) (\<lambda>deletions.
     rbind (py_iter (get_or item ''reasons'' (PTuple []))) (\<lambda>raw. rbind (rmap risk_reason_from_summary raw) (\<lambda>reasons.
     rbind (rust_shadow_from_summary g (get_val item ''rust_criticality'')) (\<lambda>shadow.
       Inr \<lparr>fr_path = str_val path, fr_kind = kind, fr_risk_level = level, fr_reasons = reasons,
         fr_additions = nat_count additions, fr_deletions = nat_count deletions,
         fr_binary = truthy (get_or item ''binary'' (PBool False)),
         fr_old_path = optional_string (get_val item ''old_path''), fr_old_mode = optional_string (get_val item ''old_mode''),
         fr_new_mode = optional_string (get_val item ''new_mode''),
         fr_mode_changed = truthy (get_or item ''mode_changed'' (PBool False)), fr_rust_criticality = shadow\<rparr>)))))))))))"

definition risk_report_from_summary :: "'w artifact_libs \<Rightarrow> pydict \<Rightarrow> risk_report res" where
  "risk_report_from_summary g summary =
     rbind (py_iter (get_or summary ''files'' (PTuple []))) (\<lambda>files_raw. rbind (rmap (file_risk_from_summary g) files_raw) (\<lambda>files.
     rbind (py_iter (get_or summary ''report_reasons'' (PTuple []))) (\<lambda>reasons_raw.
     rbind (rmap risk_reason_from_summary reasons_raw) (\<lambda>reasons.
     rbind (need summary ''baseline_commit_sha'') (\<lambda>baseline. rbind (need summary ''patch_sha256'') (\<lambda>sha.
       Inr \<lparr>rp_baseline_commit_sha = str_val baseline, rp_patch_sha256 = str_val sha, rp_files = files,
         rp_report_reasons = reasons\<rparr>))))))"

definition to_risk_report :: "'w artifact_libs \<Rightarrow> patch_artifact \<Rightarrow> risk_report res" where
  "to_risk_report g a =
     rbind (decode_lossless_value (PDict (pt_risk_summary a))) (\<lambda>decoded. case decoded of
       PDict summary \<Rightarrow> risk_report_from_summary g summary
     | _ \<Rightarrow> Inl (PatchArtifactTamperedError ''Decoded risk summary must be an object.''))"

section \<open>Checks of an artifact\<close>

definition repo_identity :: "'w artifact_libs \<Rightarrow> 'w \<Rightarrow> string \<Rightarrow> string res" where
  "repo_identity g w path =
     rbind (encoded (rt_apply g) (rt_expand_resolve g w path)) (\<lambda>bytes. Inr (al_sha256 (rt_apply g) bytes))"

definition parse_timestamp :: "'w artifact_libs \<Rightarrow> string \<Rightarrow> int res" where
  "parse_timestamp g text =
     (case al_iso (rt_apply g) text of
        None \<Rightarrow> Inl (PatchArtifactTamperedError (''Invalid artifact timestamp: '' @ text))
      | Some (local_time, None) \<Rightarrow> Inl (PatchArtifactTamperedError ''Artifact timestamps must include timezone information.'')
      | Some (local_time, Some offset) \<Rightarrow>
          if local_time - offset < 0 \<or> MAX_DATETIME < local_time - offset
          then Inl (Exn OtherErr ''OverflowError'' ''date value out of range'')
          else Inr (local_time - offset))"

definition identifier_char :: "char \<Rightarrow> bool" where
  "identifier_char c = (c \<in> set ''abcdefghijklmnopqrstuvwxyzABCDEFGHIJKLMNOPQRSTUVWXYZ0123456789-_'')"

definition require_identifier :: "string \<Rightarrow> string \<Rightarrow> string res" where
  "require_identifier text label =
     (let normalized = strip text in
      if normalized = [] then Inl (PatchArtifactError (label @ '' must not be blank.''))
      else if \<not> list_all identifier_char normalized
      then Inl (PatchArtifactError (label @ '' contains unsupported characters.''))
      else if 160 < length normalized then Inl (PatchArtifactError (label @ '' is too long.''))
      else Inr normalized)"

definition artifact_fields :: "string list" where
  "artifact_fields =
     [''schema_version'', ''artifact_id'', ''run_id'', ''trace_id'', ''approval_request_id'', ''trusted_repo_path'',
      ''trusted_repo_identity_sha256'', ''baseline_commit_sha'', ''workspace_path'', ''patch_base64'', ''patch_sha256'',
      ''patch_size_bytes'', ''files'', ''ignored_files'', ''risk_summary'', ''intent_summary'', ''created_at'',
      ''expires_at'', ''state'', ''consumed_at'', ''artifact_digest'']"

text \<open>The constructor call; \<open>f k\<close> is \<open>payload[k]\<close>.\<close>

definition read_fields :: "'w artifact_libs \<Rightarrow> (string \<Rightarrow> pyval) \<Rightarrow> patch_artifact res" where
  "read_fields g f =
     rbind (rt_int g (f ''patch_size_bytes'')) (\<lambda>size.
     rbind (py_iter (f ''files'')) (\<lambda>files_raw. rbind (rmap py_dict files_raw) (\<lambda>files.
     rbind (py_iter (f ''ignored_files'')) (\<lambda>ignored_raw. rbind (rmap py_dict ignored_raw) (\<lambda>ignored.
     rbind (py_dict (f ''risk_summary'')) (\<lambda>risk.
     rbind (py_dict (f ''intent_summary'')) (\<lambda>intent.
       Inr \<lparr>pt_schema_version = str_val (f ''schema_version''), pt_artifact_id = str_val (f ''artifact_id''),
         pt_run_id = str_val (f ''run_id''), pt_trace_id = str_val (f ''trace_id''),
         pt_approval_request_id = str_val (f ''approval_request_id''),
         pt_trusted_repo_path = str_val (f ''trusted_repo_path''),
         pt_trusted_repo_identity_sha256 = str_val (f ''trusted_repo_identity_sha256''),
         pt_baseline_commit_sha = str_val (f ''baseline_commit_sha''), pt_workspace_path = str_val (f ''workspace_path''),
         pt_patch_base64 = str_val (f ''patch_base64''), pt_patch_sha256 = str_val (f ''patch_sha256''),
         pt_patch_size_bytes = size, pt_files = files, pt_ignored_files = ignored, pt_risk_summary = risk,
         pt_intent_summary = intent, pt_created_at = str_val (f ''created_at''), pt_expires_at = str_val (f ''expires_at''),
         pt_state = str_val (f ''state''), pt_consumed_at = optional_string (f ''consumed_at''),
         pt_artifact_digest = str_val (f ''artifact_digest'')\<rparr>)))))))"

definition artifact_from_payload :: "'w artifact_libs \<Rightarrow> pyval \<Rightarrow> patch_artifact res" where
  "artifact_from_payload g payload =
     (case payload of
        PDict kvs \<Rightarrow>
          let keys = map (\<lambda>kv. key_text (fst kv)) kvs;
              missing = filter (\<lambda>k. k \<notin> set keys) artifact_fields;
              extra = filter (\<lambda>k. k \<notin> set artifact_fields) keys in
          if missing \<noteq> []
          then Inl (PatchArtifactTamperedError (''Patch artifact is missing fields: '' @ join '', '' (sort missing)))
          else if extra \<noteq> []
          then Inl (PatchArtifactTamperedError (''Patch artifact contains unknown fields: '' @ join '', '' (sort extra)))
          else (case read_fields g (get_val kvs) of
             Inl e \<Rightarrow> if exn_kind e \<in> {TypeErr, ValueErr} \<or> exn_type e = ''KeyError''
               then Inl (PatchArtifactTamperedError ''Patch artifact fields have invalid types.'') else Inl e
           | Inr a \<Rightarrow> Inr a)
      | _ \<Rightarrow> Inl (PatchArtifactTamperedError ''Patch artifact root must be a JSON object.''))"

definition ensure :: "bool \<Rightarrow> string \<Rightarrow> unit res" where
  "ensure b msg = (if b then Inr () else Inl (PatchArtifactTamperedError msg))"

definition verify_artifact :: "'w artifact_libs \<Rightarrow> 'w \<Rightarrow> patch_artifact \<Rightarrow> unit res" where
  "verify_artifact g w a =
     rbind (ensure (pt_schema_version a = PATCH_ARTIFACT_SCHEMA_VERSION)
        (''Unsupported patch artifact schema: '' @ pt_schema_version a)) (\<lambda>_.
     rbind (require_identifier (pt_artifact_id a) ''artifact ID'') (\<lambda>_.
     rbind (require_identifier (pt_run_id a) ''run ID'') (\<lambda>_.
     rbind (require_identifier (pt_trace_id a) ''trace ID'') (\<lambda>_.
     rbind (require_identifier (pt_approval_request_id a) ''approval request ID'') (\<lambda>_.
     rbind (ensure (pt_state a \<in> {''pending'', ''consumed''}) (''Invalid patch artifact state: '' @ pt_state a)) (\<lambda>_.
     rbind (ensure (\<not> (pt_state a = ''consumed'' \<and> pt_consumed_at a = None)) ''Consumed artifact is missing consumed_at.'') (\<lambda>_.
     rbind (ensure (\<not> (pt_state a = ''pending'' \<and> pt_consumed_at a \<noteq> None)) ''Pending artifact must not have consumed_at.'') (\<lambda>_.
     rbind (parse_timestamp g (pt_created_at a)) (\<lambda>created.
     rbind (parse_timestamp g (pt_expires_at a)) (\<lambda>expires.
     rbind (ensure (created < expires) ''Patch artifact expiration must follow creation.'') (\<lambda>_.
     rbind (patch_bytes g a) (\<lambda>bytes.
     rbind (ensure (al_sha256 (rt_apply g) bytes = pt_patch_sha256 a) ''Patch artifact patch digest is invalid.'') (\<lambda>_.
     rbind (ensure (int (length bytes) = pt_patch_size_bytes a) ''Patch artifact patch byte length is invalid.'') (\<lambda>_.
     rbind (repo_identity g w (pt_trusted_repo_path a)) (\<lambda>identity.
     rbind (ensure (identity = pt_trusted_repo_identity_sha256 a) ''Patch artifact trusted repository identity is invalid.'') (\<lambda>_.
     ensure (artifact_digest g (to_payload False a) = pt_artifact_digest a)
       ''Patch artifact integrity digest is invalid.''))))))))))))))))"

section \<open>The patch of an artifact\<close>

definition file_of_summary :: "'w artifact_libs \<Rightarrow> pydict \<Rightarrow> patch_file_diff res" where
  "file_of_summary g item =
     rbind (need item ''path'') (\<lambda>path.
     rbind (need item ''kind'') (\<lambda>kind_val. rbind (kind_of_value (str_val kind_val)) (\<lambda>kind.
     rbind (optional_integer g (get_val item ''additions'')) (\<lambda>additions.
     rbind (optional_integer g (get_val item ''deletions'')) (\<lambda>deletions.
       Inr \<lparr>fd_path = str_val path, fd_kind = kind, fd_additions = nat_count additions, fd_deletions = nat_count deletions,
         fd_binary = truthy (get_or item ''binary'' (PBool False)),
         fd_old_path = optional_string (get_val item ''old_path''), fd_old_mode = optional_string (get_val item ''old_mode''),
         fd_new_mode = optional_string (get_val item ''new_mode''),
         fd_mode_changed = truthy (get_or item ''mode_changed'' (PBool False))\<rparr>)))))"

text \<open>There is one reason for ignoring a file.\<close>

definition ignored_of_summary :: "pydict \<Rightarrow> string res" where
  "ignored_of_summary item =
     rbind (need item ''path'') (\<lambda>path. rbind (need item ''reason'') (\<lambda>why.
       if str_val why = ''generated_or_heavy_path'' then Inr (str_val path)
       else Inl (Exn ValueErr ''ValueError'' (repr_str (str_val why) @ '' is not a valid GuardedIgnoreReason''))))"

definition to_patch_diff :: "'w artifact_libs \<Rightarrow> patch_artifact \<Rightarrow> patch_diff res" where
  "to_patch_diff g a =
     rbind (patch_bytes g a) (\<lambda>bytes.
     rbind (ensure (al_sha256 (rt_apply g) bytes = pt_patch_sha256 a) ''Patch bytes do not match the persisted patch SHA-256.'') (\<lambda>_.
     rbind (ensure (int (length bytes) = pt_patch_size_bytes a) ''Patch bytes do not match the persisted patch length.'') (\<lambda>_.
     rbind (rmap (file_of_summary g) (pt_files a)) (\<lambda>files.
     rbind (rmap ignored_of_summary (pt_ignored_files a)) (\<lambda>ignored.
       Inr \<lparr>pf_workspace_path = pt_workspace_path a, pf_baseline_commit_sha = pt_baseline_commit_sha a,
         pf_patch = rt_decode_escape g bytes, pf_patch_sha256 = pt_patch_sha256 a,
         pf_patch_size_bytes = pt_patch_size_bytes a, pf_files = files, pf_ignored_files = ignored\<rparr>)))))"

section \<open>The store\<close>

text \<open>
  A file of the store is a regular file with its bytes or something else at that path (a link, a directory). A write
  that fails does so before or after the new file has taken the old one's place.
\<close>

datatype stored = Regular string | Irregular

datatype write_fault = Before py_exn | After py_exn

record op_env =
  ev_busy :: "nat \<Rightarrow> bool"
  ev_lock_write :: "py_exn option"
  ev_unlock :: "py_exn option"
  ev_write :: "write_fault option"
  ev_now :: int
  ev_apply :: int
  ev_consumed :: int

record 'w store_state =
  st_apply :: "'w apply_state"
  st_root :: string
  st_files :: "string \<rightharpoonup> stored"

abbreviation st_world :: "'w store_state \<Rightarrow> 'w" where
  "st_world s \<equiv> as_world (st_apply s)"

type_synonym ('w, 'a) store_step = "('w store_state, 'a) py"

record root_facts =
  rf_mkdir :: "py_exn option"
  rf_symlink :: bool
  rf_dir :: bool
  rf_chmod :: "py_exn option"
  rf_resolved :: string

definition patch_artifact_store :: "root_facts \<Rightarrow> string \<Rightarrow> string res" where
  "patch_artifact_store facts candidate =
     (case rf_mkdir facts of Some e \<Rightarrow> Inl e
      | None \<Rightarrow>
        if rf_symlink facts then Inl (PatchArtifactError (''Refusing to use symlinked artifact root: '' @ candidate))
        else if \<not> rf_dir facts then Inl (PatchArtifactError (''Patch artifact root is not a directory: '' @ candidate))
        else (case rf_chmod facts of
            Some e \<Rightarrow> if exn_kind e = OSErr
              then Inl (PatchArtifactError (''Unable to secure patch artifact root: '' @ candidate)) else Inl e
          | None \<Rightarrow> Inr (rf_resolved facts)))"

text \<open>The lock file is made by the first of at most \<open>n\<close> attempts, the next being number \<open>i\<close>, that finds none.\<close>

fun acquire_lock :: "(nat \<Rightarrow> bool) \<Rightarrow> nat \<Rightarrow> nat \<Rightarrow> bool" where
  "acquire_lock busy 0 i = False"
| "acquire_lock busy (Suc n) i = (if busy i then acquire_lock busy n (Suc i) else True)"

definition artifact_lock :: "op_env \<Rightarrow> string \<Rightarrow> ('w, 'a) store_step \<Rightarrow> ('w, 'a) store_step" where
  "artifact_lock env artifact_id body s =
     (if \<not> acquire_lock (ev_busy env) LOCK_RETRY_COUNT 0
      then (Inl (PatchArtifactError (''Patch artifact is locked: '' @ artifact_id)), s)
      else let (r, t) = (case ev_lock_write env of Some e \<Rightarrow> (Inl e, s) | None \<Rightarrow> body s) in
        (case ev_unlock env of
           Some e \<Rightarrow> if exn_type e = ''FileNotFoundError'' then (r, t) else (Inl e, t)
         | None \<Rightarrow> (r, t)))"

definition artifact_path :: "'w artifact_libs \<Rightarrow> string \<Rightarrow> ('w, string) store_step" where
  "artifact_path g artifact_id s =
     (if al_resolve (rt_apply g) (st_world s) (st_root s) \<noteq> st_root s
      then Inl (PatchArtifactError ''Patch artifact path escaped the configured root.'') else Inr artifact_id, s)"

definition atomic_write :: "op_env \<Rightarrow> string \<Rightarrow> pyval \<Rightarrow> ('w, unit) store_step" where
  "atomic_write env path payload s =
     (let serialized = json_dumps payload;
          written = s\<lparr>st_files := (st_files s)(path \<mapsto> Regular serialized)\<rparr> in
      if MAX_PATCH_ARTIFACT_BYTES < int (length serialized)
      then (Inl (PatchArtifactError ''Serialized patch artifact exceeds the configured size limit.''), s)
      else (case ev_write env of
          Some (Before e) \<Rightarrow> (Inl e, s)
        | Some (After e) \<Rightarrow> (Inl e, written)
        | None \<Rightarrow> (Inr (), written)))"

definition artifact_file :: "string \<Rightarrow> string \<Rightarrow> ('w, string) store_step" where
  "artifact_file path normalized s =
     (case st_files s path of
        None \<Rightarrow> Inl (artifact_error ''PatchArtifactNotFoundError'' (''Patch artifact was not found: '' @ normalized))
      | Some Irregular \<Rightarrow> Inl (PatchArtifactTamperedError ''Patch artifact path is not a regular non-symlink file.'')
      | Some (Regular bytes) \<Rightarrow>
          if length bytes = 0 \<or> MAX_PATCH_ARTIFACT_BYTES < int (length bytes)
          then Inl (PatchArtifactTamperedError (''Patch artifact has invalid size: '' @ show_int (int (length bytes))))
          else Inr bytes, s)"

definition load :: "'w artifact_libs \<Rightarrow> int \<Rightarrow> string \<Rightarrow> bool \<Rightarrow> bool \<Rightarrow> ('w, patch_artifact) store_step" where
  "load g now artifact_id allow_expired allow_consumed =
     pbind (lift_res (require_identifier artifact_id ''artifact ID'')) (\<lambda>normalized.
     pbind (artifact_path g normalized) (\<lambda>path.
     pbind (artifact_file path normalized) (\<lambda>bytes.
     pbind (lift_res (case rt_json_loads g bytes of Some payload \<Rightarrow> Inr payload
        | None \<Rightarrow> Inl (PatchArtifactTamperedError ''Patch artifact is not valid UTF-8 JSON.''))) (\<lambda>payload.
     pbind (lift_res (artifact_from_payload g payload)) (\<lambda>a.
     pbind (\<lambda>s. lift_res (verify_artifact g (st_world s) a) s) (\<lambda>_.
     pbind (check_that (pt_artifact_id a = normalized)
        (PatchArtifactTamperedError ''Patch artifact ID does not match its filename.'')) (\<lambda>_.
     pbind (check_that (\<not> (pt_state a = ''consumed'' \<and> \<not> allow_consumed))
        (artifact_error ''PatchArtifactConsumedError'' (''Patch artifact has already been consumed: '' @ artifact_id))) (\<lambda>_.
     pbind (lift_res (parse_timestamp g (pt_expires_at a))) (\<lambda>expires.
     pbind (check_that (\<not> (expires < now \<and> \<not> allow_expired))
        (artifact_error ''PatchArtifactExpiredError'' (''Patch artifact has expired: '' @ artifact_id))) (\<lambda>_.
     pret a))))))))))"

definition delete :: "'w artifact_libs \<Rightarrow> op_env \<Rightarrow> string \<Rightarrow> ('w, unit) store_step" where
  "delete g env artifact_id =
     pbind (lift_res (require_identifier artifact_id ''artifact ID'')) (\<lambda>normalized.
     artifact_lock env normalized (pbind (artifact_path g normalized) (\<lambda>path s.
       case st_files s path of
         None \<Rightarrow> (Inr (), s)
       | Some Irregular \<Rightarrow> (Inl (PatchArtifactTamperedError ''Refusing to delete a non-regular artifact path.''), s)
       | Some (Regular _) \<Rightarrow> (Inr (), s\<lparr>st_files := (st_files s)(path := None)\<rparr>))))"

definition mark_consumed_unlocked :: "'w artifact_libs \<Rightarrow> op_env \<Rightarrow> patch_artifact \<Rightarrow> ('w, patch_artifact) store_step" where
  "mark_consumed_unlocked g env a =
     pbind (check_that (pt_state a \<noteq> ''consumed'') (artifact_error ''PatchArtifactConsumedError''
        (''Patch artifact has already been consumed: '' @ pt_artifact_id a))) (\<lambda>_.
     let consumed = with_integrity_digest g (a\<lparr>pt_state := ''consumed'',
           pt_consumed_at := Some (rt_isoformat g (ev_consumed env)), pt_artifact_digest := []\<rparr>) in
     pbind (artifact_path g (pt_artifact_id a)) (\<lambda>path.
     pbind (atomic_write env path (to_payload True consumed)) (\<lambda>_.
     load g (ev_consumed env) (pt_artifact_id a) True True)))"

definition mark_consumed :: "'w artifact_libs \<Rightarrow> op_env \<Rightarrow> string \<Rightarrow> ('w, patch_artifact) store_step" where
  "mark_consumed g env artifact_id =
     pbind (lift_res (require_identifier artifact_id ''artifact ID'')) (\<lambda>normalized.
     artifact_lock env normalized
       (pbind (load g (ev_now env) normalized True True) (mark_consumed_unlocked g env)))"

text \<open>A step on the repository and the audit log.\<close>

definition on_apply :: "('w, 'a) apply_step \<Rightarrow> ('w, 'a) store_step" where
  "on_apply m s = (let (r, t) = m (st_apply s) in (r, s\<lparr>st_apply := t\<rparr>))"

definition apply_approved ::
  "'w artifact_libs \<Rightarrow> event_draws \<Rightarrow> op_env \<Rightarrow> string \<Rightarrow> string \<Rightarrow> approval_request \<Rightarrow> approval_decision \<Rightarrow>
   ('w, approved_apply_result) store_step" where
  "apply_approved g draws env artifact_id target_repo_path request decision =
     pbind (lift_res (require_identifier artifact_id ''artifact ID'')) (\<lambda>normalized.
     artifact_lock env normalized (
       pbind (load g (ev_now env) normalized False False) (\<lambda>a.
       pbind (check_that (pt_approval_request_id a = ar_approval_id request)
          (PatchArtifactError ''Patch artifact is bound to a different approval request.'')) (\<lambda>_.
       pbind (check_that (case map_of (ar_metadata request) ''artifact_id'' of None \<Rightarrow> True
            | Some v \<Rightarrow> v = PNone \<or> v = PStr (pt_artifact_id a))
          (PatchArtifactError ''Approval request artifact binding does not match.'')) (\<lambda>_ s.
       let target_repo = rt_expand_resolve g (st_world s) target_repo_path in
       pbind (lift_res (repo_identity g (st_world s) target_repo)) (\<lambda>identity.
       pbind (check_that (identity = pt_trusted_repo_identity_sha256 a)
          (PatchArtifactError ''Patch artifact is bound to a different trusted repository.'')) (\<lambda>_.
       pbind (lift_res (to_patch_diff g a)) (\<lambda>d.
       pbind (lift_res (to_risk_report g a)) (\<lambda>report.
       pbind (on_apply (apply_approved_patch (rt_apply g) draws (ev_apply env) d target_repo request decision (Some report))) (\<lambda>result.
       pbind (mark_consumed_unlocked g env a) (\<lambda>_. pret result)))))) s)))))"

definition file_entry :: "patch_file_diff \<Rightarrow> dict" where
  "file_entry f =
     [(''path'', PStr (fd_path f)), (''old_path'', opt_val (fd_old_path f)),
      (''kind'', PStr (changed_file_kind_value (fd_kind f))), (''additions'', opt_nat (fd_additions f)),
      (''deletions'', opt_nat (fd_deletions f)), (''binary'', PBool (fd_binary f)),
      (''old_mode'', opt_val (fd_old_mode f)), (''new_mode'', opt_val (fd_new_mode f)),
      (''mode_changed'', PBool (fd_mode_changed f))]"

definition ignored_entry :: "string \<Rightarrow> dict" where
  "ignored_entry path = [(''path'', PStr path), (''reason'', PStr ''generated_or_heavy_path'')]"

abbreviation str_keys :: "dict \<Rightarrow> pydict" where
  "str_keys d \<equiv> map (\<lambda>(k, v). (KStr k, v)) d"

text \<open>The encoding of a dictionary is a dictionary.\<close>

definition encode_dict :: "pydict \<Rightarrow> pydict" where
  "encode_dict d = (case encode_lossless_value (PDict d) of PDict kvs \<Rightarrow> kvs | _ \<Rightarrow> [])"

definition new_artifact ::
  "'w artifact_libs \<Rightarrow> string \<Rightarrow> int \<Rightarrow> int \<Rightarrow> patch_diff \<Rightarrow> string \<Rightarrow> string \<Rightarrow> string \<Rightarrow> string \<Rightarrow> string \<Rightarrow> risk_report \<Rightarrow> pydict \<Rightarrow>
   patch_artifact" where
  "new_artifact g artifact_id created expires d run_id trace_id approval_id repo identity report intent =
     \<lparr>pt_schema_version = PATCH_ARTIFACT_SCHEMA_VERSION, pt_artifact_id = artifact_id, pt_run_id = run_id,
      pt_trace_id = trace_id, pt_approval_request_id = approval_id, pt_trusted_repo_path = repo,
      pt_trusted_repo_identity_sha256 = identity, pt_baseline_commit_sha = pf_baseline_commit_sha d,
      pt_workspace_path = pf_workspace_path d,
      pt_patch_base64 = rt_b64encode g (al_encode_escape (rt_apply g) (pf_patch d)),
      pt_patch_sha256 = pf_patch_sha256 d, pt_patch_size_bytes = pf_patch_size_bytes d,
      pt_files = map (\<lambda>f. str_keys (file_entry f)) (pf_files d),
      pt_ignored_files = map (\<lambda>p. str_keys (ignored_entry p)) (pf_ignored_files d),
      pt_risk_summary = encode_dict (str_keys (risk_report_summary report)), pt_intent_summary = encode_dict intent,
      pt_created_at = rt_isoformat g created, pt_expires_at = rt_isoformat g expires, pt_state = ''pending'',
      pt_consumed_at = None, pt_artifact_digest = []\<rparr>"

record persist_args =
  pa_run_id :: string
  pa_trace_id :: string
  pa_intent_summary :: pydict
  pa_ttl_seconds :: int
  pa_artifact_id :: string

definition persist ::
  "'w artifact_libs \<Rightarrow> op_env \<Rightarrow> persist_args \<Rightarrow> patch_diff \<Rightarrow> approval_request \<Rightarrow> string \<Rightarrow> risk_report \<Rightarrow>
   ('w, patch_artifact) store_step" where
  "persist g env args d request trusted_repo_path report s =
     (let trusted_repo = rt_expand_resolve g (st_world s) trusted_repo_path;
          bytes = al_encode_escape (rt_apply g) (pf_patch d);
          artifact_id = pa_artifact_id args;
          expires = ev_now env + pa_ttl_seconds args * 1000000;
          refuse = (\<lambda>b msg. check_that b (PatchArtifactError msg)) in
      pbind (refuse (0 < pa_ttl_seconds args) ''Patch artifact TTL must be positive.'') (\<lambda>_.
      pbind (refuse (al_is_dir (rt_apply g) (st_world s) trusted_repo) (''Trusted repository does not exist: '' @ trusted_repo)) (\<lambda>_.
      pbind (refuse (ar_target request = PStr (pf_patch_sha256 d)) ''Approval request target does not match patch digest.'') (\<lambda>_.
      pbind (refuse (map_of (ar_metadata request) ''baseline_commit_sha'' = Some (PStr (pf_baseline_commit_sha d)))
         ''Approval request baseline does not match patch baseline.'') (\<lambda>_.
      pbind (refuse (al_sha256 (rt_apply g) bytes = pf_patch_sha256 d) ''Patch content does not match PatchDiff SHA-256.'') (\<lambda>_.
      pbind (refuse (int (length bytes) = pf_patch_size_bytes d) ''Patch content does not match PatchDiff byte length.'') (\<lambda>_.
      pbind (check_that (expires \<le> MAX_DATETIME) (Exn OtherErr ''OverflowError'' ''date value out of range'')) (\<lambda>_.
      pbind (lift_res (require_identifier (pa_run_id args) ''run ID'')) (\<lambda>run_id.
      pbind (lift_res (require_identifier (pa_trace_id args) ''trace ID'')) (\<lambda>trace_id.
      pbind (lift_res (repo_identity g (st_world s) trusted_repo)) (\<lambda>identity.
      let a = with_integrity_digest g (new_artifact g artifact_id (ev_now env) expires d run_id trace_id
            (ar_approval_id request) trusted_repo identity report (pa_intent_summary args)) in
      pbind (artifact_lock env artifact_id (pbind (artifact_path g artifact_id) (\<lambda>path.
        pbind (\<lambda>t. check_that (st_files t path = None) (PatchArtifactError (''Artifact ID collision: '' @ artifact_id)) t) (\<lambda>_.
        atomic_write env path (to_payload True a))))) (\<lambda>_.
      pbind (load g (ev_now env) artifact_id True True) (\<lambda>loaded.
      pbind (check_that (pt_artifact_digest loaded = pt_artifact_digest a)
         (PatchArtifactTamperedError ''Persisted artifact verification did not reproduce its digest.'')) (\<lambda>_.
      pret loaded))))))))))))) s)"

definition bind_artifact_to_approval :: "approval_request \<Rightarrow> patch_artifact \<Rightarrow> approval_request" where
  "bind_artifact_to_approval request a = request\<lparr>ar_metadata := dict_merge (ar_metadata request)
     [(''artifact_id'', PStr (pt_artifact_id a)), (''artifact_schema_version'', PStr (pt_schema_version a)),
      (''artifact_expires_at'', PStr (pt_expires_at a))]\<rparr>"

section \<open>Loaded artifacts\<close>

text \<open>What holds of every artifact that \<open>load\<close> returns, in the words of the specification.\<close>

definition intact :: "'w artifact_libs \<Rightarrow> 'w \<Rightarrow> patch_artifact \<Rightarrow> bool" where
  "intact g w a =
     (pt_schema_version a = PATCH_ARTIFACT_SCHEMA_VERSION \<and>
      (pt_state a = ''pending'' \<and> pt_consumed_at a = None \<or> pt_state a = ''consumed'' \<and> pt_consumed_at a \<noteq> None) \<and>
      (\<exists>created expires. parse_timestamp g (pt_created_at a) = Inr created \<and> parse_timestamp g (pt_expires_at a) = Inr expires \<and>
         created < expires) \<and>
      (\<exists>bytes. rt_b64decode g (pt_patch_base64 a) = Some bytes \<and> al_sha256 (rt_apply g) bytes = pt_patch_sha256 a \<and>
         int (length bytes) = pt_patch_size_bytes a) \<and>
      repo_identity g w (pt_trusted_repo_path a) = Inr (pt_trusted_repo_identity_sha256 a) \<and>
      artifact_digest g (to_payload False a) = pt_artifact_digest a)"

lemma ensure_iff [simp]: "ensure b msg = Inr u \<longleftrightarrow> b"
  by (simp add: ensure_def)

lemma verified_intact: "verify_artifact g w a = Inr () \<Longrightarrow> intact g w a"
  unfolding verify_artifact_def intact_def
  by (auto simp: res_simps patch_bytes_def split: option.splits)

lemma reads_only_load: "reads_only (load g now artifact_id allow_expired allow_consumed)"
  unfolding load_def
  by (intro reads_onlyI) (auto simp: reads_only_def artifact_path_def artifact_file_def lift_res_def check_that_def pret_def raise_def)

lemma load_result:
  assumes "load g now artifact_id allow_expired allow_consumed s = (Inr a, s')"
  shows "intact g (st_world s) a" "require_identifier artifact_id ''artifact ID'' = Inr (pt_artifact_id a)"
    "allow_consumed \<or> pt_state a = ''pending''"
    "allow_expired \<or> (\<exists>t. parse_timestamp g (pt_expires_at a) = Inr t \<and> now \<le> t)"
    "\<exists>bytes payload. st_files s (pt_artifact_id a) = Some (Regular bytes) \<and> rt_json_loads g bytes = Some payload \<and>
         artifact_from_payload g payload = Inr a"
proof -
  have v: "verify_artifact g (st_world s) a = Inr ()" and i: "require_identifier artifact_id ''artifact ID'' = Inr (pt_artifact_id a)"
    and c: "\<not> (pt_state a = ''consumed'' \<and> \<not> allow_consumed)"
    and e: "\<exists>t. parse_timestamp g (pt_expires_at a) = Inr t \<and> \<not> (t < now \<and> \<not> allow_expired)"
    and f: "\<exists>bytes payload. st_files s (pt_artifact_id a) = Some (Regular bytes) \<and> rt_json_loads g bytes = Some payload \<and>
         artifact_from_payload g payload = Inr a"
    using assms
    by (auto simp: load_def py_simps artifact_path_def artifact_file_def dest!: sym [of "Inr _"]
        split: if_splits option.splits stored.splits)
  show n: "intact g (st_world s) a" by (rule verified_intact [OF v])
  show "require_identifier artifact_id ''artifact ID'' = Inr (pt_artifact_id a)" by (rule i)
  show "allow_consumed \<or> pt_state a = ''pending''" using n c by (auto simp: intact_def)
  show "allow_expired \<or> (\<exists>t. parse_timestamp g (pt_expires_at a) = Inr t \<and> now \<le> t)" using e by auto
  show "\<exists>bytes payload. st_files s (pt_artifact_id a) = Some (Regular bytes) \<and> rt_json_loads g bytes = Some payload \<and>
         artifact_from_payload g payload = Inr a" by (rule f)
qed

section \<open>Applying a stored patch\<close>

lemma lock_result:
  assumes "artifact_lock env artifact_id body s = (r, s')"
  obtains "isl r" "s' = s"
    | r' where "body s = (r', s')" "r = r' \<or> isl r"
  using assms that
  by (auto simp: artifact_lock_def Let_def split: if_splits option.splits prod.splits)

lemma identifier_not_space: "identifier_char c \<Longrightarrow> \<not> is_space c"
proof -
  have "list_all (\<lambda>c. \<not> is_space c) ''abcdefghijklmnopqrstuvwxyzABCDEFGHIJKLMNOPQRSTUVWXYZ0123456789-_''" by code_simp
  then show "identifier_char c \<Longrightarrow> \<not> is_space c" unfolding identifier_char_def list_all_iff by (rule bspec)
qed

lemma strip_identifier: "list_all identifier_char i \<Longrightarrow> strip i = i"
proof -
  assume "list_all identifier_char i"
  then have "dropWhile is_space i = i" "dropWhile is_space (rev i) = rev i"
    using identifier_not_space by (auto simp: dropWhile_eq_self_iff list_all_iff hd_rev)
  then show ?thesis by (simp add: strip_def lstrip_def rstrip_def)
qed

lemma normalized_identifier: "require_identifier x l = Inr i \<Longrightarrow> require_identifier i l' = Inr i"
  by (auto simp: require_identifier_def Let_def strip_identifier split: if_splits)

text \<open>What \<open>apply_approved\<close> requires of the stored artifact, of the request and of the target.\<close>

definition bound_artifact :: "'w artifact_libs \<Rightarrow> patch_artifact \<Rightarrow> approval_request \<Rightarrow> string \<Rightarrow> 'w store_state \<Rightarrow> bool" where
  "bound_artifact g a request target s =
     (pt_approval_request_id a = ar_approval_id request \<and>
      map_of (ar_metadata request) ''artifact_id'' \<in> {None, Some PNone, Some (PStr (pt_artifact_id a))} \<and>
      repo_identity g (st_world s) target = Inr (pt_trusted_repo_identity_sha256 a))"

text \<open>The part of \<open>apply_approved\<close> after the checks of the artifact.\<close>

definition apply_stored ::
  "'w artifact_libs \<Rightarrow> event_draws \<Rightarrow> op_env \<Rightarrow> patch_artifact \<Rightarrow> string \<Rightarrow> approval_request \<Rightarrow> approval_decision \<Rightarrow>
   ('w, approved_apply_result) store_step" where
  "apply_stored g draws env a target request decision =
     pbind (lift_res (to_patch_diff g a)) (\<lambda>d.
     pbind (lift_res (to_risk_report g a)) (\<lambda>report.
     pbind (on_apply (apply_approved_patch (rt_apply g) draws (ev_apply env) d target request decision (Some report))) (\<lambda>result.
     pbind (mark_consumed_unlocked g env a) (\<lambda>_. pret result))))"

lemma load_same: "load g now i e c s = (r, s') \<Longrightarrow> s' = s"
  using reads_only_load by (metis reads_only_def snd_conv)

lemma apply_approved_cases:
  assumes "apply_approved g draws env artifact_id path request decision s = (r, s')"
  obtains (refused) "isl r" "s' = s"
    | (tried) a r' where "load g (ev_now env) (pt_artifact_id a) False False s = (Inr a, s)"
        "require_identifier artifact_id ''artifact ID'' = Inr (pt_artifact_id a)"
        "bound_artifact g a request (rt_expand_resolve g (st_world s) path) s"
        "apply_stored g draws env a (rt_expand_resolve g (st_world s) path) request decision s = (r', s')"
        "r = r' \<or> isl r"
proof (cases "require_identifier artifact_id ''artifact ID''")
  case (Inl e)
  then show thesis using assms refused by (auto simp: apply_approved_def pbind_def lift_res_def)
next
  case (Inr i)
  let ?target = "rt_expand_resolve g (st_world s) path"
  define body where "body = (pbind (load g (ev_now env) i False False) (\<lambda>a.
       pbind (check_that (pt_approval_request_id a = ar_approval_id request)
          (PatchArtifactError ''Patch artifact is bound to a different approval request.'')) (\<lambda>_.
       pbind (check_that (case map_of (ar_metadata request) ''artifact_id'' of None \<Rightarrow> True
            | Some v \<Rightarrow> v = PNone \<or> v = PStr (pt_artifact_id a))
          (PatchArtifactError ''Approval request artifact binding does not match.'')) (\<lambda>_ s.
       let target_repo = rt_expand_resolve g (st_world s) path in
       pbind (lift_res (repo_identity g (st_world s) target_repo)) (\<lambda>identity.
       pbind (check_that (identity = pt_trusted_repo_identity_sha256 a)
          (PatchArtifactError ''Patch artifact is bound to a different trusted repository.'')) (\<lambda>_.
       apply_stored g draws env a target_repo request decision)) s))))"
  have run: "artifact_lock env i body s = (r, s')"
    using assms Inr unfolding apply_approved_def body_def apply_stored_def
    by (simp add: pbind_def [of "lift_res (Inr i)"] lift_res_def [of "Inr i"])
  from run show thesis
  proof (rule lock_result)
    assume "isl r" "s' = s" then show thesis by (rule refused)
  next
    fix r' assume b: "body s = (r', s')" and r: "r = r' \<or> isl r"
    obtain x t where l: "load g (ev_now env) i False False s = (x, t)" by fastforce
    have t: "t = s" by (rule load_same [OF l])
    show thesis
    proof (cases x)
      case (Inl e)
      then have "isl r'" "s' = s" using b l t by (auto simp: body_def pbind_def)
      with r show thesis using refused by auto
    next
      case x: (Inr a)
      then have l: "load g (ev_now env) i False False s = (Inr a, s)" using l t by simp
      have i: "i = pt_artifact_id a" using load_result(2) [OF l] normalized_identifier [OF Inr] by simp
      show thesis
      proof (cases "bound_artifact g a request ?target s")
        case True
        then have "apply_stored g draws env a ?target request decision s = (r', s')"
          using b by (auto simp: body_def bound_artifact_def pbind_def l check_that_def pret_def lift_res_def)
        with True l i r Inr show thesis using tried by auto
      next
        case False
        then have "isl r' \<and> s' = s"
          using b by (auto simp: body_def bound_artifact_def pbind_def l check_that_def pret_def raise_def lift_res_def Let_def
              split: if_splits sum.splits option.splits)
        with r show thesis using refused by auto
      qed
    qed
  qed
qed

lemma on_apply_iff [py_simps]: "on_apply m s = (r, s') \<longleftrightarrow> (\<exists>t. m (st_apply s) = (r, t) \<and> s' = s\<lparr>st_apply := t\<rparr>)"
  by (auto simp: on_apply_def Let_def split: prod.splits)

lemma consumed_keeps_apply: "mark_consumed_unlocked g env a s = (r, s') \<Longrightarrow> st_apply s' = st_apply s"
proof -
  have "keeps st_apply (load g now i e c)" for now i e c by (auto simp: keeps_def dest: load_same)
  moreover have "keeps st_apply (artifact_path g i)" for i by (auto simp: keeps_def artifact_path_def)
  moreover have "keeps st_apply (atomic_write env p v)" for p v
    by (auto simp: keeps_def atomic_write_def Let_def split: if_splits option.splits write_fault.splits)
  ultimately have "keeps st_apply (mark_consumed_unlocked g env a)"
    unfolding mark_consumed_unlocked_def Let_def by (intro keeps_pbind keeps_basic) auto
  then show "mark_consumed_unlocked g env a s = (r, s') \<Longrightarrow> st_apply s' = st_apply s" by (rule keepsD)
qed

lemma apply_stored_result:
  assumes "apply_stored g draws env a target request decision s = (r, s')"
  obtains (unread) "isl r" "s' = s"
    | (ran) d report r' t where "to_patch_diff g a = Inr d" "to_risk_report g a = Inr report"
        "apply_approved_patch (rt_apply g) draws (ev_apply env) d target request decision (Some report) (st_apply s) = (r', t)"
        "st_apply s' = t" "isl r \<or> r = r'"
proof (cases "to_patch_diff g a")
  case (Inl e)
  then show thesis using assms unread by (auto simp: apply_stored_def pbind_def lift_res_def)
next
  case d: (Inr d)
  show thesis
  proof (cases "to_risk_report g a")
    case (Inl e)
    then show thesis using assms unread d by (auto simp: apply_stored_def pbind_def lift_res_def)
  next
    case (Inr report)
    obtain r' t where m: "apply_approved_patch (rt_apply g) draws (ev_apply env) d target request decision (Some report) (st_apply s) = (r', t)"
      by fastforce
    have "st_apply s' = t \<and> (isl r \<or> r = r')"
      using assms d Inr m by (cases r') (auto simp: apply_stored_def pbind_def lift_res_def on_apply_def pret_def
          split: prod.splits sum.splits dest: consumed_keeps_apply)
    then show thesis using ran d Inr m by blast
  qed
qed


section \<open>What an artifact keeps of a patch\<close>

text \<open>The conversions on values of the right type, and that both encodings can be undone.\<close>

definition conversions :: "'w artifact_libs \<Rightarrow> bool" where
  "conversions g = ((\<forall>i. rt_int g (PInt i) = Inr i) \<and> (\<forall>r. rt_float g (PFloat r) = Inr r) \<and>
     (\<forall>b. rt_b64decode g (rt_b64encode g b) = Some b) \<and> (\<forall>t. rt_decode_escape g (al_encode_escape (rt_apply g) t) = t))"

text \<open>The evidence of a reason is sorted by different keys, as \<open>_reason\<close> makes it.\<close>

definition wf_dict :: "dict \<Rightarrow> bool" where
  "wf_dict d = (distinct (map fst d) \<and> list_all (\<lambda>kv. wf_val (snd kv)) d)"

definition reason_ok :: "risk_reason \<Rightarrow> bool" where
  "reason_ok r = (sorted (map fst (rr_evidence r)) \<and> wf_dict (rr_evidence r))"

definition shadow_ok :: "criticality_shadow \<Rightarrow> bool" where
  "shadow_ok s = (case cs_semantic_metrics s of None \<Rightarrow> True | Some d \<Rightarrow> wf_dict d)"

definition file_risk_ok :: "file_risk \<Rightarrow> bool" where
  "file_risk_ok f = (list_all reason_ok (fr_reasons f) \<and>
     (case fr_rust_criticality f of None \<Rightarrow> True | Some s \<Rightarrow> shadow_ok s))"

definition report_ok :: "risk_report \<Rightarrow> bool" where
  "report_ok r = (list_all file_risk_ok (rp_files r) \<and> list_all reason_ok (rp_report_reasons r))"

lemma wf_dict_val [simp]: "wf_val (dict_val d) = wf_dict d"
proof -
  have "distinct (map (\<lambda>x. key_num (KStr (fst x))) d) = distinct (map fst d)"
    using distinct_map [of "\<lambda>x. key_num (KStr x)" "map fst d"] by (simp add: comp_def inj_on_def)
  then show ?thesis by (simp add: dict_val_def wf_dict_def comp_def case_prod_beta list_all_iff)
qed

lemma wf_opt [simp]: "wf_val (opt_val x)" "wf_val (opt_float y)" "wf_val (opt_nat z)"
  by (simp_all add: opt_float_def opt_nat_def split: option.split) (cases x; simp)

lemma wf_summary:
  "wf_dict (reason_summary r) = wf_dict (rr_evidence r)" "wf_dict (shadow_summary s) = shadow_ok s"
  by (auto simp: wf_dict_def [of "_ # _"] reason_summary_def shadow_summary_def shadow_ok_def list_all_iff split: option.splits)

lemma wf_file_summary: "file_risk_ok f \<Longrightarrow> wf_dict (file_risk_summary f)"
  by (auto simp: wf_dict_def [of "_ # _"] file_risk_summary_def file_risk_ok_def list_all_iff wf_summary reason_ok_def
      split: option.splits)

lemma wf_report_summary: "report_ok r \<Longrightarrow> wf_dict (risk_report_summary r)"
  by (auto simp: wf_dict_def [of "_ # _"] risk_report_summary_def report_ok_def list_all_iff wf_file_summary wf_summary
      reason_ok_def risk_counts_def)

lemma as_dict_dict_val [simp]: "as_dict (dict_val d) = Inr (str_keys d)" "py_dict (dict_val d) = Inr (str_keys d)"
  by (simp_all add: as_dict_def py_dict_def dict_val_def)

lemma dict_val_not_None [simp]: "dict_val d \<noteq> PNone"
  by (simp add: dict_val_def)

lemma text_of_keys [simp]: "(\<lambda>(k, v). (key_text k, v)) \<circ> (\<lambda>(k, v). (KStr k, v)) = id"
  by (auto simp: key_text_def fun_eq_iff)

lemmas reads = get_val_def get_or_def need_def

lemma enum_values [simp]: "level_of_value (risk_level_value l) = Inr l" "kind_of_value (changed_file_kind_value k) = Inr k"
  by (cases l; simp add: level_of_value_def) (cases k; simp add: kind_of_value_def)

lemma optional_values [simp]: "optional_string (opt_val x) = x" "str_val (PStr t) = t" "truthy (PBool b) = b"
  by (cases x) (simp_all add: optional_string_def str_val_def)

lemma str_val_PStr [simp]: "str_val \<circ> PStr = id"
  by (auto simp: str_val_def fun_eq_iff)

lemma optional_numbers:
  "conversions g \<Longrightarrow> optional_integer g (opt_nat x) = Inr (map_option int x)"
  "nat_count (map_option int x) = x"
  by (cases x; simp add: optional_integer_def opt_nat_def conversions_def nat_count_def)+

lemma reason_back: "reason_ok r \<Longrightarrow> risk_reason_from_summary (dict_val (reason_summary r)) = Inr r"
  by (simp add: risk_reason_from_summary_def reason_summary_def [of r] reason_ok_def dict_val_def [of "rr_evidence r"]
      reads sort_key_id_if_sorted)

lemma shadow_back:
  "conversions g \<Longrightarrow> shadow_ok s \<Longrightarrow> rust_shadow_from_summary g (dict_val (shadow_summary s)) = Inr (Some s)"
  by (cases "cs_semantic_metrics s"; cases "cs_criticality_index s")
    (simp_all add: rust_shadow_from_summary_def shadow_summary_def [of s] reads conversions_def opt_float_def)

lemma reasons_back:
  "list_all reason_ok rs \<Longrightarrow> rmap risk_reason_from_summary (map (\<lambda>r. dict_val (reason_summary r)) rs) = Inr rs"
  by (rule rmap_ok) (simp add: list_all_iff reason_back)

lemma file_back: "conversions g \<Longrightarrow> file_risk_ok f \<Longrightarrow> file_risk_from_summary g (dict_val (file_risk_summary f)) = Inr f"
  by (cases "fr_rust_criticality f")
    (simp_all add: file_risk_from_summary_def file_risk_summary_def [of f] reads file_risk_ok_def optional_numbers reasons_back
      shadow_back rust_shadow_from_summary_def [of g PNone])

lemma report_back: "conversions g \<Longrightarrow> report_ok r \<Longrightarrow> risk_report_from_summary g (str_keys (risk_report_summary r)) = Inr r"
  by (simp add: risk_report_from_summary_def risk_report_summary_def [of r] reads report_ok_def reasons_back
      rmap_ok [of _ "file_risk_from_summary g"] list_all_iff file_back)

lemma encode_dict_val: "PDict (encode_dict d) = encode_lossless_value (PDict d)"
  by (simp add: encode_dict_def container_def)

lemma file_entry_back: "conversions g \<Longrightarrow> file_of_summary g (str_keys (file_entry f)) = Inr f"
  by (simp add: file_of_summary_def file_entry_def [of f] reads optional_numbers)

lemma ignored_entry_back: "ignored_of_summary (str_keys (ignored_entry p)) = Inr p"
  by (simp add: ignored_of_summary_def ignored_entry_def reads)

lemma payload_back:
  assumes "conversions g"
  shows "artifact_from_payload g (to_payload True a) = Inr a"
proof -
  have py: "rmap py_dict (map PDict ds) = Inr ds" for ds
    by (rule rmap_ok) (simp add: py_dict_def)
  have keys: "map (\<lambda>kv. key_text (fst kv)) (str_keys (artifact_entries a @ [(''artifact_digest'', PStr (pt_artifact_digest a))])) =
      artifact_fields"
    by (simp add: artifact_entries_def artifact_fields_def key_text_def)
  have f: "read_fields g (get_val (str_keys (artifact_entries a @ [(''artifact_digest'', PStr (pt_artifact_digest a))]))) = Inr a"
    using assms by (simp add: read_fields_def artifact_entries_def reads conversions_def py py_dict_def [of "PDict _"])
  show ?thesis
    unfolding to_payload_def artifact_from_payload_def dict_val_def
    by (simp add: keys [simplified] f [simplified] Let_def)
qed

lemma new_artifact_back:
  assumes "conversions g"
  shows "\<lbrakk>al_sha256 (rt_apply g) (al_encode_escape (rt_apply g) (pf_patch d)) = pf_patch_sha256 d;
      int (length (al_encode_escape (rt_apply g) (pf_patch d))) = pf_patch_size_bytes d\<rbrakk> \<Longrightarrow>
      to_patch_diff g (with_integrity_digest g' (new_artifact g i c e d run trace q repo identity report intent)) = Inr d"
    and "report_ok report \<Longrightarrow>
      to_risk_report g (with_integrity_digest g' (new_artifact g i c e d run trace q repo identity report intent)) = Inr report"
proof -
  let ?a = "with_integrity_digest g' (new_artifact g i c e d run trace q repo identity report intent)"
  assume "al_sha256 (rt_apply g) (al_encode_escape (rt_apply g) (pf_patch d)) = pf_patch_sha256 d"
    "int (length (al_encode_escape (rt_apply g) (pf_patch d))) = pf_patch_size_bytes d"
  moreover have "rmap (file_of_summary g) (pt_files ?a) = Inr (pf_files d)"
    using assms(1) by (simp add: new_artifact_def with_integrity_digest_def rmap_ok file_entry_back)
  moreover have "rmap ignored_of_summary (pt_ignored_files ?a) = Inr (pf_ignored_files d)"
    by (simp add: new_artifact_def with_integrity_digest_def rmap_ok ignored_entry_back)
  moreover have "patch_bytes g ?a = Inr (al_encode_escape (rt_apply g) (pf_patch d))"
    using assms(1) by (simp add: patch_bytes_def with_integrity_digest_def new_artifact_def conversions_def)
  ultimately show "to_patch_diff g ?a = Inr d"
    using assms by (simp add: to_patch_diff_def with_integrity_digest_def new_artifact_def ensure_def conversions_def)
next
  let ?a = "with_integrity_digest g' (new_artifact g i c e d run trace q repo identity report intent)"
  assume ok: "report_ok report"
  have "decode_lossless_value (PDict (pt_risk_summary ?a)) = Inr (dict_val (risk_report_summary report))"
    using lossless_ok [of "dict_val (risk_report_summary report)"] wf_report_summary [OF ok]
    by (simp add: new_artifact_def with_integrity_digest_def encode_dict_val flip: dict_val_def)
  then show "to_risk_report g ?a = Inr report"
    using report_back [OF assms(1) ok] by (simp add: to_risk_report_def dict_val_def)
qed

text \<open>
  (C24) An artifact made from a patch and its risk report gives both back, with every file, count, mode and
  reason, and it is itself what is read from the payload that is stored for it.
\<close>

theorem artifact_keeps_patch:
  assumes "conversions g" and "report_ok report"
    and "al_sha256 (rt_apply g) (al_encode_escape (rt_apply g) (pf_patch d)) = pf_patch_sha256 d"
    and "int (length (al_encode_escape (rt_apply g) (pf_patch d))) = pf_patch_size_bytes d"
    and "a = with_integrity_digest g (new_artifact g i c e d run trace q repo identity report intent)"
  shows "to_patch_diff g a = Inr d \<and> to_risk_report g a = Inr report \<and> artifact_from_payload g (to_payload True a) = Inr a"
  unfolding assms(5) by (intro conjI new_artifact_back payload_back assms)

section \<open>A stored patch is applied once\<close>

text \<open>Reading the text of an artifact gives its state.\<close>

definition reads_state :: "'w artifact_libs \<Rightarrow> patch_artifact \<Rightarrow> bool" where
  "reads_state g a = (\<forall>v b. rt_json_loads g (json_dumps (to_payload True a)) = Some v \<longrightarrow>
     artifact_from_payload g v = Inr b \<longrightarrow> pt_state b = pt_state a)"

lemma consumed_file:
  assumes "mark_consumed_unlocked g env a s = (Inr b, s')"
  shows "\<exists>c. st_files s' (pt_artifact_id a) = Some (Regular (json_dumps (to_payload True c))) \<and> pt_state c = ''consumed''"
proof -
  let ?c = "with_integrity_digest g (a\<lparr>pt_state := ''consumed'',
           pt_consumed_at := Some (rt_isoformat g (ev_consumed env)), pt_artifact_digest := []\<rparr>)"
  obtain t where w: "atomic_write env (pt_artifact_id a) (to_payload True ?c) s = (Inr (), t)"
    and l: "load g (ev_consumed env) (pt_artifact_id a) True True t = (Inr b, s')"
    using assms by (auto simp: mark_consumed_unlocked_def py_simps artifact_path_def Let_def split: if_splits)
  have "st_files t (pt_artifact_id a) = Some (Regular (json_dumps (to_payload True ?c)))"
    using w by (auto simp: atomic_write_def Let_def split: if_splits option.splits write_fault.splits)
  moreover have "pt_state ?c = ''consumed''" by (simp add: with_integrity_digest_def)
  ultimately show ?thesis using load_same [OF l] by blast
qed

lemma consumed_not_loaded:
  assumes "st_files t i = Some (Regular (json_dumps (to_payload True c)))" "pt_state c = ''consumed''" "reads_state g c"
  shows "load g now i e False t \<noteq> (Inr a, t') \<or> pt_artifact_id a \<noteq> i"
  using assms load_result(3,5) [of g now i e False t a t'] by (auto simp: reads_state_def)

text \<open>
  (C16) A stored patch is applied at most once: after \<open>apply_approved\<close> has returned, the file of the
  artifact is that of a consumed artifact, and while it stays there every later attempt fails and changes neither the
  repository nor the store, whatever request and decision come with it.
\<close>

theorem stored_patch_applied_once:
  assumes "apply_approved g draws env artifact_id path request decision s = (Inr r, s')"
  shows "\<exists>c. pt_state c = ''consumed'' \<and>
    st_files s' (strip artifact_id) = Some (Regular (json_dumps (to_payload True c))) \<and>
    (reads_state g c \<longrightarrow> st_files t (strip artifact_id) = st_files s' (strip artifact_id) \<longrightarrow>
      isl (fst (apply_approved g draws' env' artifact_id path' request' decision' t)) \<and>
      snd (apply_approved g draws' env' artifact_id path' request' decision' t) = t)"
  using assms
proof (cases rule: apply_approved_cases)
  case (tried a r1)
  obtain u b where m: "mark_consumed_unlocked g env a u = (Inr b, s')"
    using tried(4,5) by (auto simp: apply_stored_def py_simps)
  have i: "strip artifact_id = pt_artifact_id a"
    using tried(2) by (auto simp: require_identifier_def Let_def split: if_splits)
  obtain c where c: "st_files s' (pt_artifact_id a) = Some (Regular (json_dumps (to_payload True c)))" "pt_state c = ''consumed''"
    using consumed_file [OF m] by blast
  have "isl (fst (apply_approved g draws' env' artifact_id path' request' decision' t)) \<and>
      snd (apply_approved g draws' env' artifact_id path' request' decision' t) = t"
    if same: "st_files t (pt_artifact_id a) = st_files s' (pt_artifact_id a)" and rs: "reads_state g c"
  proof -
    obtain r2 t' where run: "apply_approved g draws' env' artifact_id path' request' decision' t = (r2, t')" by fastforce
    from run show ?thesis
    proof (cases rule: apply_approved_cases)
      case refused
      then show ?thesis by (simp add: run)
    next
      case (tried a' r3)
      then have "pt_artifact_id a' = pt_artifact_id a" using i by (auto simp: require_identifier_def Let_def split: if_splits)
      with tried(1) consumed_not_loaded [of t "pt_artifact_id a" c g] same rs c show ?thesis by metis
    qed
  qed
  with c i show ?thesis by metis
qed simp

section \<open>Termination of the lock\<close>

text \<open>
  The wait for a lock ends: after at most forty attempts the operation runs or the lock is reported as held, and it
  runs exactly if some attempt found no lock.
\<close>

lemma acquire_iff: "acquire_lock busy n i \<longleftrightarrow> (\<exists>k < n. \<not> busy (i + k))"
proof (induction n arbitrary: i)
  case (Suc n)
  have "(\<exists>k < Suc n. \<not> busy (i + k)) \<longleftrightarrow> \<not> busy i \<or> (\<exists>k < n. \<not> busy (Suc i + k))"
    by (metis Suc_less_eq add.right_neutral add_Suc_shift less_Suc_eq_0_disj zero_less_Suc)
  with Suc.IH show ?case by simp
qed simp

section \<open>A store with one patch\<close>

definition table_libs :: "(string \<Rightarrow> pyval option) \<Rightarrow> bool artifact_libs" where
  "table_libs loads = \<lparr>rt_apply = docs_libs, rt_b64encode = (\<lambda>b. b), rt_b64decode = Some, rt_decode_escape = (\<lambda>b. b),
     rt_expand_resolve = (\<lambda>_ p. p), rt_isoformat = (\<lambda>t. if t < 8 then ''T2'' else ''T4''), rt_json_loads = loads,
     rt_int = (\<lambda>v. case v of PInt i \<Rightarrow> Inr i | _ \<Rightarrow> Inl (type_error [])),
     rt_float = (\<lambda>v. case v of PFloat r \<Rightarrow> Inr r | _ \<Rightarrow> Inl (type_error []))\<rparr>"

definition docs_artifact :: patch_artifact where
  "docs_artifact = with_integrity_digest (table_libs (\<lambda>_. None)) (new_artifact (table_libs (\<lambda>_. None)) ''art1'' 7 20 docs_patch
     ''run1'' ''t'' ''a1'' ''/r'' ''h'' docs_high [])"

definition docs_consumed :: patch_artifact where
  "docs_consumed = with_integrity_digest (table_libs (\<lambda>_. None)) (docs_artifact\<lparr>pt_state := ''consumed'',
     pt_consumed_at := Some ''T2'', pt_artifact_digest := []\<rparr>)"

definition store_libs :: "bool artifact_libs" where
  "store_libs = table_libs (\<lambda>text. Some (to_payload True
     (if text = json_dumps (to_payload True docs_consumed) then docs_consumed else docs_artifact)))"

definition store_env :: op_env where
  "store_env = \<lparr>ev_busy = (\<lambda>_. False), ev_lock_write = None, ev_unlock = None, ev_write = None, ev_now = 7, ev_apply = 7,
     ev_consumed = 7\<rparr>"

definition store_state0 :: "bool store_state" where
  "store_state0 = \<lparr>st_apply = logged_state, st_root = ''/s'', st_files = [''art1'' \<mapsto> Regular ''x'']\<rparr>"

lemma store_conversions: "conversions store_libs"
  by (simp add: conversions_def store_libs_def table_libs_def docs_libs_def)

lemma store_size: "int (length (json_dumps (to_payload True docs_consumed))) \<le> MAX_PATCH_ARTIFACT_BYTES"
  by code_simp

lemma store_text: "json_dumps (to_payload True docs_consumed) \<noteq> ''x''"
  by (simp add: json_dumps_def to_payload_def json_tree_dict_val)

lemma store_identifiers:
  "require_identifier ''art1'' l = Inr ''art1''" "require_identifier ''run1'' l = Inr ''run1''"
  "require_identifier ''t'' l = Inr ''t''" "require_identifier ''a1'' l = Inr ''a1''"
  by code_simp+

lemma store_times: "parse_timestamp store_libs ''T2'' = Inr 7" "parse_timestamp store_libs ''T4'' = Inr 20"
  by (simp_all add: parse_timestamp_def store_libs_def table_libs_def docs_libs_def sample_times_def MAX_DATETIME_def)

lemma docs_fields:
  "pt_schema_version docs_artifact = PATCH_ARTIFACT_SCHEMA_VERSION" "pt_artifact_id docs_artifact = ''art1''"
  "pt_run_id docs_artifact = ''run1''" "pt_trace_id docs_artifact = ''t''" "pt_approval_request_id docs_artifact = ''a1''"
  "pt_created_at docs_artifact = ''T2''" "pt_expires_at docs_artifact = ''T4''" "pt_state docs_artifact = ''pending''"
  "pt_consumed_at docs_artifact = None" "pt_trusted_repo_identity_sha256 docs_artifact = ''h''"
  "pt_patch_base64 docs_artifact = docs_text" "pt_patch_sha256 docs_artifact = ''h''"
  "pt_patch_size_bytes docs_artifact = int (length docs_text)" "pt_artifact_digest docs_artifact = ''h''"
  by (simp_all add: docs_artifact_def with_integrity_digest_def new_artifact_def table_libs_def docs_patch_def docs_libs_def
      artifact_digest_def)

lemma store_parts: "al_sha256 docs_libs x = ''h''" "rt_b64decode store_libs = Some" "rt_apply store_libs = docs_libs"
  "repo_identity store_libs w p = Inr ''h''" "artifact_digest store_libs v = ''h''"
  by (simp_all add: store_libs_def table_libs_def docs_libs_def repo_identity_def encoded_def artifact_digest_def)

lemma table_digest: "artifact_digest (table_libs loads) v = ''h''"
  by (simp add: artifact_digest_def table_libs_def docs_libs_def)

lemma docs_verified: "verify_artifact store_libs w docs_artifact = Inr ()" "verify_artifact store_libs w docs_consumed = Inr ()"
  by (simp_all add: verify_artifact_def docs_consumed_def with_integrity_digest_def docs_fields store_identifiers store_times
      store_parts patch_bytes_def ensure_def table_digest)

lemma docs_load:
  "load store_libs now ''art1'' True True (s\<lparr>st_files := f(''art1'' \<mapsto> Regular (json_dumps (to_payload True docs_consumed)))\<rparr>) =
     (Inr docs_consumed, s\<lparr>st_files := f(''art1'' \<mapsto> Regular (json_dumps (to_payload True docs_consumed)))\<rparr>)"
  if "st_root s = ''/s''"
proof -
  have "json_dumps (to_payload True docs_consumed) \<noteq> []"
    by (simp add: json_dumps_def to_payload_def json_tree_dict_val)
  moreover have "rt_json_loads store_libs (json_dumps (to_payload True docs_consumed)) = Some (to_payload True docs_consumed)"
    by (simp add: store_libs_def table_libs_def)
  moreover have "pt_artifact_id docs_consumed = ''art1''" "pt_expires_at docs_consumed = ''T4''"
    by (simp_all add: docs_consumed_def with_integrity_digest_def docs_fields)
  ultimately show ?thesis
    using that store_size
    by (simp add: load_def pbind_def lift_res_def store_identifiers artifact_path_def artifact_file_def store_parts docs_libs_def
      payload_back [OF store_conversions] docs_verified check_that_def pret_def store_times)
qed

lemma docs_load0: "load store_libs 7 ''art1'' False False store_state0 = (Inr docs_artifact, store_state0)"
proof -
  have "rt_json_loads store_libs ''x'' = Some (to_payload True docs_artifact)"
    using store_text by (simp add: store_libs_def table_libs_def)
  then show ?thesis
    by (simp add: load_def pbind_def lift_res_def store_identifiers artifact_path_def artifact_file_def store_parts docs_libs_def
      payload_back [OF store_conversions] docs_verified check_that_def pret_def store_times docs_fields store_state0_def
      MAX_PATCH_ARTIFACT_BYTES_def)
qed

lemma docs_back: "to_patch_diff store_libs docs_artifact = Inr docs_patch" "to_risk_report store_libs docs_artifact = Inr docs_high"
proof -
  have n: "new_artifact (table_libs f) = new_artifact store_libs" for f
    by (intro ext) (simp add: new_artifact_def store_libs_def table_libs_def)
  have "report_ok docs_high" by code_simp
  then show "to_patch_diff store_libs docs_artifact = Inr docs_patch" "to_risk_report store_libs docs_artifact = Inr docs_high"
    unfolding docs_artifact_def n
    by (simp_all add: new_artifact_back [OF store_conversions] store_parts docs_libs_def docs_patch_def)
qed

lemma docs_marked:
  assumes "st_root s = ''/s''"
  shows "mark_consumed_unlocked store_libs store_env docs_artifact s = (Inr docs_consumed,
    s\<lparr>st_files := (st_files s)(''art1'' \<mapsto> Regular (json_dumps (to_payload True docs_consumed)))\<rparr>)"
proof -
  have c: "with_integrity_digest store_libs (docs_artifact\<lparr>pt_state := ''consumed'',
      pt_consumed_at := Some (rt_isoformat store_libs 7), pt_artifact_digest := []\<rparr>) = docs_consumed"
    by (simp add: docs_consumed_def with_integrity_digest_def store_parts table_digest)
      (simp add: store_libs_def table_libs_def)
  show ?thesis
    using assms store_size docs_load [OF assms]
    by (simp add: mark_consumed_unlocked_def pbind_def docs_fields check_that_def pret_def artifact_path_def store_parts
        docs_libs_def atomic_write_def Let_def store_env_def c)
qed

lemma store_run:
  obtains q a r s' where "docs_request = Inr q"
    "apply_approved store_libs sample_event_draws store_env ''art1'' ''/r'' q a store_state0 = (Inr r, s')"
    "st_files s' ''art1'' = Some (Regular (json_dumps (to_payload True docs_consumed)))"
proof -
  obtain q a r t where q: "docs_request = Inr q" and
    run: "apply_approved_patch docs_libs sample_event_draws 7 docs_patch ''/r'' q a (Some docs_high) logged_state = (Inr r, t)"
    by (rule approved_run_ok)
  have i: "ar_approval_id q = ''a1''" "map_of (ar_metadata q) ''artifact_id'' = None"
    using q by (auto simp: docs_request_def create_patch_approval_request_def checked_request_def res_simps patch_draws_def
        patch_request_metadata_def split: sum.splits if_splits)
  let ?s = "store_state0\<lparr>st_apply := t\<rparr>"
  have root: "st_root ?s = ''/s''" by (simp add: store_state0_def)
  have "apply_stored store_libs sample_event_draws store_env docs_artifact ''/r'' q a store_state0 = (Inr r,
      ?s\<lparr>st_files := (st_files ?s)(''art1'' \<mapsto> Regular (json_dumps (to_payload True docs_consumed)))\<rparr>)"
    using run docs_marked [OF root]
    by (simp add: apply_stored_def pbind_def lift_res_def docs_back on_apply_def store_parts store_env_def store_state0_def pret_def)
  moreover have "rt_expand_resolve store_libs w p = p" for w p by (simp add: store_libs_def table_libs_def)
  moreover have "acquire_lock (\<lambda>_. False) LOCK_RETRY_COUNT 0" by (simp add: acquire_iff LOCK_RETRY_COUNT_def exI [of _ 0])
  ultimately have "\<exists>s'. apply_approved store_libs sample_event_draws store_env ''art1'' ''/r'' q a store_state0 = (Inr r, s') \<and>
      st_files s' ''art1'' = Some (Regular (json_dumps (to_payload True docs_consumed)))"
    using docs_load0 i
    by (simp add: apply_approved_def pbind_def lift_res_def store_identifiers artifact_lock_def store_env_def docs_fields
        check_that_def pret_def store_parts apply_stored_def Let_def)
  then show thesis using that q by blast
qed

lemma artifact_keeps_patch_witness: "to_patch_diff (table_libs (\<lambda>_. None)) docs_artifact = Inr docs_patch"
proof -
  have "conversions (table_libs (\<lambda>_. None))"
    by (simp add: conversions_def table_libs_def docs_libs_def)
  moreover have "report_ok docs_high" by code_simp
  ultimately show ?thesis
    using artifact_keeps_patch [OF _ _ _ _ docs_artifact_def] by (simp add: table_libs_def docs_libs_def docs_patch_def)
qed


lemma stored_patch_applied_once_witness:
  "\<exists>q a r s'. apply_approved store_libs sample_event_draws store_env ''art1'' ''/r'' q a store_state0 = (Inr r, s') \<and>
     isl (fst (apply_approved store_libs sample_event_draws store_env ''art1'' ''/r'' q a s'))"
proof -
  obtain q a r s' where run: "apply_approved store_libs sample_event_draws store_env ''art1'' ''/r'' q a store_state0 = (Inr r, s')"
    and f: "st_files s' ''art1'' = Some (Regular (json_dumps (to_payload True docs_consumed)))"
    by (rule store_run)
  have st: "strip ''art1'' = ''art1''" by code_simp
  have rs: "reads_state store_libs c"
    if "json_dumps (to_payload True c) = json_dumps (to_payload True docs_consumed)" "pt_state c = ''consumed''" for c
  proof -
    have "rt_json_loads store_libs (json_dumps (to_payload True docs_consumed)) = Some (to_payload True docs_consumed)"
      by (simp add: store_libs_def table_libs_def)
    moreover have "pt_state docs_consumed = ''consumed''" by (simp add: docs_consumed_def with_integrity_digest_def)
    ultimately show ?thesis using that by (simp add: reads_state_def payload_back [OF store_conversions])
  qed
  show ?thesis
    using stored_patch_applied_once [OF run, of s' sample_event_draws store_env "''/r''" q a] rs f run unfolding st by auto
qed

end
