(* ===== verification/Intent.thy ===== *)
theory Intent
  imports Patch_Model Json
begin

text \<open>
  The intent contracts of \<open>src/rygnal/intent_contract.py\<close>, the resource kinds and the resource graph of
  \<open>resource_graph.py\<close>, the matching of actions with a contract in \<open>capability_matcher.py\<close> and the fallback policy of
  \<open>intent_fallback_policy.py\<close>. A pydantic model is a record with a function that validates it and gives the
  normalized record. SHA-256 is an argument.
\<close>

section \<open>Contracts\<close>

datatype contract_source = Cs_YAML | Cs_CLI | Cs_JSON | Cs_PROMPT_DRAFT | Cs_JIT_EXPANSION

fun contract_source_value :: "contract_source \<Rightarrow> string" where
  "contract_source_value Cs_YAML = ''yaml''"
| "contract_source_value Cs_CLI = ''cli''"
| "contract_source_value Cs_JSON = ''json''"
| "contract_source_value Cs_PROMPT_DRAFT = ''prompt_draft''"
| "contract_source_value Cs_JIT_EXPANSION = ''jit_expansion''"

datatype enforcement_mode = Em_DISABLED | Em_SHADOW | Em_ENFORCE

fun enforcement_mode_value :: "enforcement_mode \<Rightarrow> string" where
  "enforcement_mode_value Em_DISABLED = ''disabled''"
| "enforcement_mode_value Em_SHADOW = ''shadow''"
| "enforcement_mode_value Em_ENFORCE = ''enforce''"

datatype intent_operation = Op_READ | Op_CREATE | Op_MODIFY | Op_DELETE_FILE | Op_DELETE_FOLDER | Op_RENAME
  | Op_MOVE | Op_COMMAND | Op_DEPENDENCY_CHANGE | Op_CONFIG_CHANGE | Op_TEST | Op_BUILD | Op_UNKNOWN

fun intent_operation_value :: "intent_operation \<Rightarrow> string" where
  "intent_operation_value Op_READ = ''read''"
| "intent_operation_value Op_CREATE = ''create''"
| "intent_operation_value Op_MODIFY = ''modify''"
| "intent_operation_value Op_DELETE_FILE = ''delete_file''"
| "intent_operation_value Op_DELETE_FOLDER = ''delete_folder''"
| "intent_operation_value Op_RENAME = ''rename''"
| "intent_operation_value Op_MOVE = ''move''"
| "intent_operation_value Op_COMMAND = ''command''"
| "intent_operation_value Op_DEPENDENCY_CHANGE = ''dependency_change''"
| "intent_operation_value Op_CONFIG_CHANGE = ''config_change''"
| "intent_operation_value Op_TEST = ''test''"
| "intent_operation_value Op_BUILD = ''build''"
| "intent_operation_value Op_UNKNOWN = ''unknown''"

datatype scope_type = St_EXACT_PATH | St_PATH_GLOB | St_FILE_TYPE | St_RESOURCE_KIND | St_SYMBOL

fun scope_type_value :: "scope_type \<Rightarrow> string" where
  "scope_type_value St_EXACT_PATH = ''exact_path''"
| "scope_type_value St_PATH_GLOB = ''path_glob''"
| "scope_type_value St_FILE_TYPE = ''file_type''"
| "scope_type_value St_RESOURCE_KIND = ''resource_kind''"
| "scope_type_value St_SYMBOL = ''symbol''"

datatype resource_kind = Rk_FILE | Rk_DIRECTORY | Rk_PYTHON_MODULE | Rk_PYTHON_SYMBOL | Rk_RUST_MODULE
  | Rk_RUST_SYMBOL | Rk_CONFIG | Rk_DEPENDENCY_MANIFEST | Rk_LOCKFILE | Rk_CI_WORKFLOW | Rk_SENSITIVE | Rk_TEST
  | Rk_GENERATED | Rk_DATABASE_MIGRATION | Rk_POLICY | Rk_DOCUMENTATION | Rk_UNKNOWN

fun resource_kind_value :: "resource_kind \<Rightarrow> string" where
  "resource_kind_value Rk_FILE = ''file''"
| "resource_kind_value Rk_DIRECTORY = ''directory''"
| "resource_kind_value Rk_PYTHON_MODULE = ''python_module''"
| "resource_kind_value Rk_PYTHON_SYMBOL = ''python_symbol''"
| "resource_kind_value Rk_RUST_MODULE = ''rust_module''"
| "resource_kind_value Rk_RUST_SYMBOL = ''rust_symbol''"
| "resource_kind_value Rk_CONFIG = ''config''"
| "resource_kind_value Rk_DEPENDENCY_MANIFEST = ''dependency_manifest''"
| "resource_kind_value Rk_LOCKFILE = ''lockfile''"
| "resource_kind_value Rk_CI_WORKFLOW = ''ci_workflow''"
| "resource_kind_value Rk_SENSITIVE = ''sensitive''"
| "resource_kind_value Rk_TEST = ''test''"
| "resource_kind_value Rk_GENERATED = ''generated''"
| "resource_kind_value Rk_DATABASE_MIGRATION = ''database_migration''"
| "resource_kind_value Rk_POLICY = ''policy''"
| "resource_kind_value Rk_DOCUMENTATION = ''documentation''"
| "resource_kind_value Rk_UNKNOWN = ''unknown''"

datatype action_source = As_TOOL_CALL | As_PATCH | As_DIFF | As_COMMAND | As_FILESYSTEM | As_RUST_KERNEL
  | As_UNKNOWN

fun action_source_value :: "action_source \<Rightarrow> string" where
  "action_source_value As_TOOL_CALL = ''tool_call''"
| "action_source_value As_PATCH = ''patch''"
| "action_source_value As_DIFF = ''diff''"
| "action_source_value As_COMMAND = ''command''"
| "action_source_value As_FILESYSTEM = ''filesystem''"
| "action_source_value As_RUST_KERNEL = ''rust_kernel''"
| "action_source_value As_UNKNOWN = ''unknown''"

datatype match_state = Ms_EXACT_MATCH | Ms_PARTIAL_MATCH | Ms_DRIFT | Ms_CONFLICT | Ms_UNKNOWN
  | Ms_HARD_SENSITIVE

fun match_state_value :: "match_state \<Rightarrow> string" where
  "match_state_value Ms_EXACT_MATCH = ''exact_match''"
| "match_state_value Ms_PARTIAL_MATCH = ''partial_match''"
| "match_state_value Ms_DRIFT = ''drift''"
| "match_state_value Ms_CONFLICT = ''conflict''"
| "match_state_value Ms_UNKNOWN = ''unknown''"
| "match_state_value Ms_HARD_SENSITIVE = ''hard_sensitive''"

datatype decision_hint = Dh_NONE | Dh_ALLOW | Dh_AUDIT | Dh_REQUIRE_APPROVAL | Dh_BLOCK

fun decision_hint_value :: "decision_hint \<Rightarrow> string" where
  "decision_hint_value Dh_NONE = ''none''"
| "decision_hint_value Dh_ALLOW = ''allow''"
| "decision_hint_value Dh_AUDIT = ''audit''"
| "decision_hint_value Dh_REQUIRE_APPROVAL = ''require_approval''"
| "decision_hint_value Dh_BLOCK = ''block''"

record resource_scope =
  sc_type :: scope_type
  sc_value :: string
  sc_resource_kind :: "resource_kind option"
  sc_metadata :: dict

record intent_contract =
  ic_contract_id :: string
  ic_session_id :: string
  ic_source :: contract_source
  ic_task_objective :: string
  ic_human_prompt :: "string option"
  ic_ai_plan :: "string option"
  ic_evidence_source :: "string option"
  ic_evidence_metadata :: dict
  ic_allowed_actions :: "intent_operation list"
  ic_target_scopes :: "resource_scope list"
  ic_excluded_scopes :: "resource_scope list"
  ic_risk_ceiling :: int
  ic_expires_at :: "string option"
  ic_enforcement_mode :: enforcement_mode
  ic_approved_by :: "string option"
  ic_metadata :: dict

record normalized_action =
  na_action_id :: string
  na_source :: action_source
  na_operation :: intent_operation
  na_affected_paths :: "string list"
  na_old_path :: "string option"
  na_new_path :: "string option"
  na_resource_kind :: resource_kind
  na_raw_evidence :: dict
  na_diff_metadata :: dict
  na_reason_codes :: "string list"

record match_result =
  im_match_state :: match_state
  im_contract_id :: "string option"
  im_action_id :: "string option"
  im_matched_scopes :: "resource_scope list"
  im_unmatched_scopes :: "resource_scope list"
  im_reason_codes :: "string list"
  im_decision_hint :: decision_hint
  im_metadata :: dict

definition invalid :: "string \<Rightarrow> 'a res" where
  "invalid msg = Inl (Exn ValueErr ''ValidationError'' msg)"

definition valid_if :: "bool \<Rightarrow> string \<Rightarrow> unit res" where
  "valid_if b msg = (if b then Inr () else invalid msg)"

text \<open>A text field: the length bounds come first, then the text is stripped and must not be blank.\<close>

definition text_field :: "nat option \<Rightarrow> string \<Rightarrow> string \<Rightarrow> string res" where
  "text_field max_length msg text =
     (if text = [] then invalid ''String should have at least 1 character''
      else if (case max_length of None \<Rightarrow> False | Some n \<Rightarrow> n < length text) then invalid ''String is too long''
      else if strip text = [] then invalid msg else Inr (strip text))"

definition optional_field :: "nat option \<Rightarrow> string \<Rightarrow> string option \<Rightarrow> string option res" where
  "optional_field max_length msg text =
     (case text of None \<Rightarrow> Inr None | Some t \<Rightarrow> rbind (text_field max_length msg t) (\<lambda>u. Inr (Some u)))"

definition text_tuple :: "string \<Rightarrow> string list \<Rightarrow> string list res" where
  "text_tuple msg texts = (if [] \<in> set (map strip texts) then invalid msg else Inr (map strip texts))"

definition validate_scope :: "resource_scope \<Rightarrow> resource_scope res" where
  "validate_scope scope =
     rbind (text_field (Some 4096) ''Resource scope value must not be blank.'' (sc_value scope)) (\<lambda>v. Inr (scope\<lparr>sc_value := v\<rparr>))"

definition mutating_actions :: "intent_operation list" where
  "mutating_actions = [Op_CREATE, Op_MODIFY, Op_DELETE_FILE, Op_DELETE_FOLDER, Op_RENAME, Op_MOVE, Op_DEPENDENCY_CHANGE,
     Op_CONFIG_CHANGE]"

text \<open>The scopes have been validated when the contract is. Pydantic reports all the errors together; here the first.\<close>

definition validate_contract :: "intent_contract \<Rightarrow> intent_contract res" where
  "validate_contract c =
     (let msg = ''Intent contract string fields must not be blank.'' in
      rbind (text_field (Some 128) msg (ic_contract_id c)) (\<lambda>contract_id.
      rbind (text_field (Some 128) msg (ic_session_id c)) (\<lambda>session_id.
      rbind (text_field (Some 4096) msg (ic_task_objective c)) (\<lambda>task_objective.
      rbind (optional_field (Some 16384) msg (ic_human_prompt c)) (\<lambda>human_prompt.
      rbind (optional_field (Some 16384) msg (ic_ai_plan c)) (\<lambda>ai_plan.
      rbind (optional_field (Some 256) msg (ic_evidence_source c)) (\<lambda>evidence_source.
      rbind (optional_field (Some 128) msg (ic_expires_at c)) (\<lambda>expires_at.
      rbind (optional_field (Some 256) msg (ic_approved_by c)) (\<lambda>approved_by.
      rbind (valid_if (ic_allowed_actions c \<noteq> []) ''Tuple should have at least 1 item'') (\<lambda>_.
      rbind (valid_if (0 \<le> ic_risk_ceiling c \<and> ic_risk_ceiling c \<le> 100) ''Input should be between 0 and 100'') (\<lambda>_.
      rbind (valid_if (\<not> (list_ex (\<lambda>a. a \<in> set mutating_actions) (ic_allowed_actions c) \<and> ic_target_scopes c = []))
         ''Mutating intent contracts must include at least one target scope.'') (\<lambda>_.
      Inr (c\<lparr>ic_contract_id := contract_id, ic_session_id := session_id, ic_task_objective := task_objective,
        ic_human_prompt := human_prompt, ic_ai_plan := ai_plan, ic_evidence_source := evidence_source,
        ic_expires_at := expires_at, ic_approved_by := approved_by\<rparr>)))))))))))))"

definition validate_action :: "normalized_action \<Rightarrow> normalized_action res" where
  "validate_action a =
     (let msg = ''Normalized action string fields must not be blank.'';
          tuple_msg = ''Normalized action tuple fields must not contain blank values.'' in
      rbind (text_field None msg (na_action_id a)) (\<lambda>action_id.
      rbind (optional_field (Some 4096) msg (na_old_path a)) (\<lambda>old_path.
      rbind (optional_field (Some 4096) msg (na_new_path a)) (\<lambda>new_path.
      rbind (text_tuple tuple_msg (na_affected_paths a)) (\<lambda>paths.
      rbind (text_tuple tuple_msg (na_reason_codes a)) (\<lambda>codes.
      rbind (valid_if (\<not> (na_operation a = Op_RENAME \<and> \<not> (old_path \<noteq> None \<and> new_path \<noteq> None)))
         ''Rename actions must include old_path and new_path.'') (\<lambda>_.
      Inr (a\<lparr>na_action_id := action_id, na_old_path := old_path, na_new_path := new_path, na_affected_paths := paths,
        na_reason_codes := codes\<rparr>))))))))"

definition validate_match :: "match_result \<Rightarrow> match_result res" where
  "validate_match m =
     (let msg = ''Intent match identifiers must not be blank.'' in
      rbind (optional_field (Some 128) msg (im_contract_id m)) (\<lambda>contract_id.
      rbind (optional_field (Some 128) msg (im_action_id m)) (\<lambda>action_id.
      rbind (text_tuple ''Intent match reason codes must not contain blank values.'' (im_reason_codes m)) (\<lambda>codes.
      rbind (valid_if (im_match_state m = Ms_EXACT_MATCH \<or> codes \<noteq> [])
         ''Non-exact intent match results must include reason codes.'') (\<lambda>_.
      rbind (valid_if (\<not> (im_match_state m = Ms_EXACT_MATCH \<and> im_unmatched_scopes m \<noteq> []))
         ''Exact intent match results must not include unmatched scopes.'') (\<lambda>_.
      Inr (m\<lparr>im_contract_id := contract_id, im_action_id := action_id, im_reason_codes := codes\<rparr>)))))))"

text \<open>\<open>dict.fromkeys\<close>, and the counts of a \<open>Counter\<close> in the order in which the values were first seen.\<close>

definition unique :: "'a list \<Rightarrow> 'a list" where
  "unique xs = rev (remdups (rev xs))"

definition counts :: "string list \<Rightarrow> dict" where
  "counts xs = map (\<lambda>x. (x, PInt (int (count_list xs x)))) (unique xs)"

section \<open>Resources\<close>

definition SECRET_TOKENS :: "string list" where
  "SECRET_TOKENS = [''.env'', ''credential'', ''credentials'', ''id_rsa'', ''private_key'', ''secret'', ''secrets'', ''token'']"

definition RESOURCE_MANIFESTS :: "string list" where
  "RESOURCE_MANIFESTS = [''Cargo.toml'', ''Gemfile'', ''go.mod'', ''package.json'', ''pnpm-workspace.yaml'', ''poetry.lock'',
     ''pyproject.toml'', ''requirements.txt'', ''setup.cfg'', ''setup.py'', ''uv.toml'']"

definition RESOURCE_LOCKFILES :: "string list" where
  "RESOURCE_LOCKFILES = [''Cargo.lock'', ''Gemfile.lock'', ''go.sum'', ''package-lock.json'', ''pnpm-lock.yaml'',
     ''poetry.lock'', ''uv.lock'', ''yarn.lock'']"

definition CONFIG_SUFFIXES :: "string list" where
  "CONFIG_SUFFIXES = [''.cfg'', ''.conf'', ''.ini'', ''.json'', ''.toml'', ''.yaml'', ''.yml'']"

definition DOC_SUFFIXES :: "string list" where
  "DOC_SUFFIXES = [''.md'', ''.rst'', ''.txt'']"

definition PYTHON_SOURCE_ROOTS :: "string list" where
  "PYTHON_SOURCE_ROOTS = [''src'', ''lib'', ''tests'', ''test'']"

definition resource_secret_path :: "string \<Rightarrow> bool" where
  "resource_secret_path lowered = list_ex (contains lowered) SECRET_TOKENS"

definition resource_policy_path :: "string \<Rightarrow> bool" where
  "resource_policy_path lowered =
     (starts_with lowered ''.rygnal/'' \<or> contains lowered ''/policy'' \<or> starts_with lowered ''policies/'' \<or>
      ends_with lowered ''policy.yaml'' \<or> ends_with lowered ''policy.yml'')"

definition resource_test_path :: "string \<Rightarrow> bool" where
  "resource_test_path lowered =
     (let name = path_name (posix_path lowered) in
      starts_with lowered ''tests/'' \<or> starts_with lowered ''test/'' \<or> starts_with name ''test_'' \<or>
      ends_with name ''_test.py'' \<or> ends_with name ''_test.rs'')"

text \<open>\<open>classify_resource_path\<close> after the normalization of the path; \<open>action_normalizer\<close> has a copy of it.\<close>

definition resource_kind_of :: "string \<Rightarrow> resource_kind" where
  "resource_kind_of normalized =
     (let lowered = lower normalized; name = path_name (posix_path normalized) in
      if resource_secret_path lowered then Rk_SENSITIVE
      else if starts_with normalized ''.github/workflows/'' then Rk_CI_WORKFLOW
      else if name \<in> set RESOURCE_LOCKFILES then Rk_LOCKFILE
      else if name \<in> set RESOURCE_MANIFESTS then Rk_DEPENDENCY_MANIFEST
      else if resource_policy_path lowered then Rk_POLICY
      else if resource_test_path lowered then Rk_TEST
      else if ends_with lowered ''.py'' then Rk_PYTHON_MODULE
      else if ends_with lowered ''.rs'' then Rk_RUST_MODULE
      else if list_ex (ends_with lowered) CONFIG_SUFFIXES then Rk_CONFIG
      else if list_ex (ends_with lowered) DOC_SUFFIXES then Rk_DOCUMENTATION
      else if CHR ''.'' \<notin> set name then Rk_DIRECTORY
      else Rk_FILE)"

definition classify_resource_path :: "string \<Rightarrow> resource_kind res" where
  "classify_resource_path path = rbind (normalize_repo_relative_path path) (\<lambda>p. Inr (resource_kind_of p))"

definition parts_without :: "string \<Rightarrow> string \<Rightarrow> string list" where
  "parts_without ext p = path_parts (posix_path (take (length p - length ext) p))"

definition python_module_name_for_path :: "string \<Rightarrow> string option res" where
  "python_module_name_for_path path =
     rbind (normalize_repo_relative_path path) (\<lambda>normalized.
       if \<not> ends_with normalized ''.py'' then Inr None
       else let parts = parts_without ''.py'' normalized;
                parts = (if parts \<noteq> [] \<and> hd parts \<in> set PYTHON_SOURCE_ROOTS then tl parts else parts);
                parts = (if parts \<noteq> [] \<and> last parts = ''__init__'' then butlast parts else parts)
            in Inr (if parts = [] then None else Some (join ''.'' parts)))"

definition rust_module_name_for_path :: "string \<Rightarrow> string option res" where
  "rust_module_name_for_path path =
     rbind (normalize_repo_relative_path path) (\<lambda>normalized.
       if \<not> ends_with normalized ''.rs'' then Inr None
       else let parts = parts_without ''.rs'' normalized;
                parts = (if parts \<noteq> [] \<and> hd parts = ''src'' then tl parts else parts)
            in if parts = [] then Inr None
               else if parts = [''lib''] then Inr (Some ''crate'')
               else if parts = [''main''] then Inr (Some ''crate::main'')
               else let parts = (if last parts = ''mod'' then butlast parts else parts)
                    in Inr (Some (if parts = [] then ''crate'' else join ''::'' parts)))"

datatype edge_kind = Ek_CONTAINS | Ek_DECLARES | Ek_CONFIGURES | Ek_TRACKS

fun edge_kind_value :: "edge_kind \<Rightarrow> string" where
  "edge_kind_value Ek_CONTAINS = ''contains''"
| "edge_kind_value Ek_DECLARES = ''declares''"
| "edge_kind_value Ek_CONFIGURES = ''configures''"
| "edge_kind_value Ek_TRACKS = ''tracks''"

record graph_node =
  gn_node_id :: string
  gn_kind :: resource_kind
  gn_path :: "string option"
  gn_name :: "string option"
  gn_language :: "string option"
  gn_metadata :: dict

record graph_edge =
  ge_edge_id :: string
  ge_kind :: edge_kind
  ge_source_id :: string
  ge_target_id :: string
  ge_reason_codes :: "string list"

record resource_graph =
  rg_nodes :: "graph_node list"
  rg_edges :: "graph_edge list"

definition node_summary :: "graph_node \<Rightarrow> dict" where
  "node_summary n =
     [(''node_id'', PStr (gn_node_id n)), (''kind'', PStr (resource_kind_value (gn_kind n))), (''path'', opt_val (gn_path n)),
      (''name'', opt_val (gn_name n)), (''language'', opt_val (gn_language n)), (''metadata'', dict_val (gn_metadata n))]"

definition edge_summary :: "graph_edge \<Rightarrow> dict" where
  "edge_summary e =
     [(''edge_id'', PStr (ge_edge_id e)), (''kind'', PStr (edge_kind_value (ge_kind e))),
      (''source_id'', PStr (ge_source_id e)), (''target_id'', PStr (ge_target_id e)),
      (''reason_codes'', PTuple (map PStr (ge_reason_codes e))), (''metadata'', dict_val [])]"

definition graph_summary :: "resource_graph \<Rightarrow> dict" where
  "graph_summary g =
     [(''node_count'', PInt (int (length (rg_nodes g)))), (''edge_count'', PInt (int (length (rg_edges g)))),
      (''nodes'', PTuple (map (\<lambda>n. dict_val (node_summary n)) (rg_nodes g))),
      (''edges'', PTuple (map (\<lambda>e. dict_val (edge_summary e)) (rg_edges g)))]"

definition node_by_id :: "resource_graph \<Rightarrow> string \<Rightarrow> graph_node option" where
  "node_by_id g node_id = find (\<lambda>n. gn_node_id n = node_id) (rg_nodes g)"

definition node_id_of :: "string \<Rightarrow> string \<Rightarrow> string" where
  "node_id_of namespace v = ''resource:'' @ namespace @ '':'' @ v"

definition stable_id :: "(string \<Rightarrow> string) \<Rightarrow> dict \<Rightarrow> string \<Rightarrow> string" where
  "stable_id sha payload pre = ''resource_'' @ pre @ ''_'' @ take 24 (sha (json_dumps (dict_val payload)))"

definition make_edge :: "(string \<Rightarrow> string) \<Rightarrow> edge_kind \<Rightarrow> string \<Rightarrow> string \<Rightarrow> string list \<Rightarrow> graph_edge" where
  "make_edge sha kind source_id target_id codes =
     \<lparr>ge_edge_id = stable_id sha [(''kind'', PStr (edge_kind_value kind)), (''source_id'', PStr source_id),
        (''target_id'', PStr target_id), (''reason_codes'', PTuple (map PStr codes))] ''edge'',
      ge_kind = kind, ge_source_id = source_id, ge_target_id = target_id, ge_reason_codes = codes\<rparr>"

definition file_node :: "string \<Rightarrow> graph_node res" where
  "file_node path =
     rbind (normalize_repo_relative_path path) (\<lambda>normalized.
     rbind (classify_resource_path normalized) (\<lambda>kind.
       Inr \<lparr>gn_node_id = node_id_of ''file'' normalized, gn_kind = kind, gn_path = Some normalized,
         gn_name = Some (path_name (posix_path normalized)), gn_language = None,
         gn_metadata = [(''identifier_kind'', PStr ''repo_relative_path'')]\<rparr>))"

definition module_node :: "string \<Rightarrow> resource_kind \<Rightarrow> string \<Rightarrow> string \<Rightarrow> string \<Rightarrow> graph_node" where
  "module_node namespace kind language path name =
     \<lparr>gn_node_id = node_id_of namespace name, gn_kind = kind, gn_path = Some path, gn_name = Some name,
      gn_language = Some language, gn_metadata = [(''identifier_kind'', PStr ''module'')]\<rparr>"

text \<open>A module name is a non-empty text, so \<open>if python_module\<close> asks whether there is one.\<close>

definition nodes_for_path :: "string \<Rightarrow> graph_node list res" where
  "nodes_for_path path =
     rbind (file_node path) (\<lambda>node.
     rbind (python_module_name_for_path path) (\<lambda>python_module.
     rbind (rust_module_name_for_path path) (\<lambda>rust_module.
       Inr ([node] @
         (case python_module of None \<Rightarrow> []
          | Some name \<Rightarrow> [module_node ''python_module'' Rk_PYTHON_MODULE ''python'' path name]) @
         (case rust_module of None \<Rightarrow> []
          | Some name \<Rightarrow> [module_node ''rust_module'' Rk_RUST_MODULE ''rust'' path name])))))"

definition edges_for_path :: "(string \<Rightarrow> string) \<Rightarrow> string \<Rightarrow> string \<Rightarrow> graph_edge list res" where
  "edges_for_path sha path file_node_id =
     rbind (python_module_name_for_path path) (\<lambda>python_module.
     rbind (rust_module_name_for_path path) (\<lambda>rust_module.
     rbind (classify_resource_path path) (\<lambda>kind.
       Inr ((case python_module of None \<Rightarrow> []
             | Some name \<Rightarrow> [make_edge sha Ek_DECLARES file_node_id (node_id_of ''python_module'' name)
                 [''language:python'', ''declares:module'']]) @
            (case rust_module of None \<Rightarrow> []
             | Some name \<Rightarrow> [make_edge sha Ek_DECLARES file_node_id (node_id_of ''rust_module'' name)
                 [''language:rust'', ''declares:module'']]) @
            (if kind \<in> {Rk_CONFIG, Rk_CI_WORKFLOW, Rk_DEPENDENCY_MANIFEST, Rk_LOCKFILE, Rk_POLICY, Rk_SENSITIVE}
             then [make_edge sha Ek_CONFIGURES file_node_id file_node_id [''resource_kind:'' @ resource_kind_value kind]]
             else [])))))"

text \<open>\<open>setdefault\<close>: the first item with a key stays.\<close>

definition first_by :: "('a \<Rightarrow> string) \<Rightarrow> 'a list \<Rightarrow> 'a list" where
  "first_by key xs = map (\<lambda>k. hd (filter (\<lambda>x. key x = k) xs)) (unique (map key xs))"

definition build_resource_graph_from_paths :: "(string \<Rightarrow> string) \<Rightarrow> string list \<Rightarrow> resource_graph res" where
  "build_resource_graph_from_paths sha paths =
     rbind (rmap (\<lambda>raw. rbind (normalize_repo_relative_path raw) (\<lambda>path.
         rbind (nodes_for_path path) (\<lambda>nodes. rbind (file_node path) (\<lambda>node.
         rbind (edges_for_path sha path (gn_node_id node)) (\<lambda>edges. Inr (nodes, edges)))))) paths) (\<lambda>facts.
       Inr \<lparr>rg_nodes = sort_key gn_node_id (first_by gn_node_id (concat (map fst facts))),
         rg_edges = sort_key ge_edge_id (first_by ge_edge_id (concat (map snd facts)))\<rparr>)"

definition build_resource_graph_from_changed_file_report :: "(string \<Rightarrow> string) \<Rightarrow> changed_file_report \<Rightarrow> resource_graph res" where
  "build_resource_graph_from_changed_file_report sha report = build_resource_graph_from_paths sha (map cf_path (cr_files report))"

section \<open>Globs with brackets\<close>

text \<open>
  \<open>fnmatch.fnmatchcase\<close>. A set reaches to the first closing bracket after its first character (after its second one if
  the first is an exclamation mark); without such a bracket the opening bracket stands for itself.
\<close>

definition bracket_set :: "string \<Rightarrow> (bool \<times> string \<times> string) option" where
  "bracket_set s =
     (let neg = (starts_with s ''!'');
          t = (if neg then tl s else s);
          front = (if starts_with t '']'' then [hd t] else []);
          rest = drop (length front) t;
          body = takeWhile (\<lambda>c. c \<noteq> CHR '']'') rest in
      if length body = length rest then None else Some (neg, front @ body, drop (Suc (length body)) rest))"

fun in_set :: "string \<Rightarrow> char \<Rightarrow> bool" where
  "in_set (a # m # b # r) c =
     (if m = CHR ''-'' then codept a \<le> codept c \<and> codept c \<le> codept b \<or> in_set r c else a = c \<or> in_set (m # b # r) c)"
| "in_set xs c = (c \<in> set xs)"

lemma bracket_set_shorter: "bracket_set s = Some (neg, body, rest) \<Longrightarrow> length rest < length s"
proof -
  assume "bracket_set s = Some (neg, body, rest)"
  moreover have "length (drop (Suc (length (takeWhile P u))) u) < length u" if "length (takeWhile P u) \<noteq> length u" for u :: string and P
    using that length_takeWhile_le [of P u] by simp
  ultimately show ?thesis
    by (cases s) (fastforce simp: bracket_set_def Let_def starts_with_def split: if_splits)+
qed

function (sequential) fnmatchcase :: "string \<Rightarrow> string \<Rightarrow> bool" where
  "fnmatchcase [] s = (s = [])"
| "fnmatchcase (p # ps) s =
     (if p = CHR ''*'' then list_ex (fnmatchcase ps) (suffixes s)
      else case s of [] \<Rightarrow> False
        | c # cs \<Rightarrow>
          (case (if p = CHR ''['' then bracket_set ps else None) of
             Some (neg, body, rest) \<Rightarrow> (in_set body c \<noteq> neg) \<and> fnmatchcase rest cs
           | None \<Rightarrow> (p = CHR ''?'' \<or> p = c) \<and> fnmatchcase ps cs))"
  by pat_completeness auto
termination
  by (relation "measure (\<lambda>(p, _). length p)") (auto split: if_splits dest: bracket_set_shorter)

section \<open>Matching actions with a contract\<close>

definition CONFIG_RESOURCE_KINDS :: "resource_kind list" where
  "CONFIG_RESOURCE_KINDS = [Rk_CONFIG, Rk_CI_WORKFLOW, Rk_POLICY]"

definition DEPENDENCY_RESOURCE_KINDS :: "resource_kind list" where
  "DEPENDENCY_RESOURCE_KINDS = [Rk_DEPENDENCY_MANIFEST, Rk_LOCKFILE]"

definition MUTATING_OPERATIONS :: "intent_operation list" where
  "MUTATING_OPERATIONS = [Op_CREATE, Op_MODIFY, Op_DELETE_FILE, Op_DELETE_FOLDER, Op_RENAME, Op_MOVE]"

record operation_match =
  om_allowed :: bool
  om_exact :: bool
  om_reason_codes :: "string list"

definition semantic_operation_reason :: "normalized_action \<Rightarrow> intent_contract \<Rightarrow> string option" where
  "semantic_operation_reason action contract =
     (if Op_CONFIG_CHANGE \<in> set (ic_allowed_actions contract) \<and> na_operation action \<in> set MUTATING_OPERATIONS \<and>
         na_resource_kind action \<in> set CONFIG_RESOURCE_KINDS
      then Some ''operation-semantic-match:config_change''
      else if Op_DEPENDENCY_CHANGE \<in> set (ic_allowed_actions contract) \<and> na_operation action \<in> set MUTATING_OPERATIONS \<and>
         na_resource_kind action \<in> set DEPENDENCY_RESOURCE_KINDS
      then Some ''operation-semantic-match:dependency_change''
      else None)"

definition operation_allowed :: "normalized_action \<Rightarrow> intent_contract \<Rightarrow> operation_match" where
  "operation_allowed action contract =
     (let operation = intent_operation_value (na_operation action) in
      if na_operation action \<in> set (ic_allowed_actions contract)
      then \<lparr>om_allowed = True, om_exact = True, om_reason_codes = [''operation-exact:'' @ operation]\<rparr>
      else (case semantic_operation_reason action contract of
          Some r \<Rightarrow> \<lparr>om_allowed = True, om_exact = False, om_reason_codes = [r]\<rparr>
        | None \<Rightarrow> \<lparr>om_allowed = False, om_exact = False, om_reason_codes = [''operation-not-allowed'',
            ''action_operation:'' @ operation,
            ''allowed_actions:'' @ join '','' (map intent_operation_value (ic_allowed_actions contract))]\<rparr>))"

definition resource_kind_matches :: "resource_kind \<Rightarrow> normalized_action \<Rightarrow> bool" where
  "resource_kind_matches expected action =
     (na_resource_kind action = expected \<or>
      expected = Rk_CONFIG \<and> na_resource_kind action \<in> set CONFIG_RESOURCE_KINDS \<or>
      expected = Rk_DEPENDENCY_MANIFEST \<and> na_resource_kind action \<in> set DEPENDENCY_RESOURCE_KINDS)"

definition all_resource_kinds :: "resource_kind list" where
  "all_resource_kinds = [Rk_FILE, Rk_DIRECTORY, Rk_PYTHON_MODULE, Rk_PYTHON_SYMBOL, Rk_RUST_MODULE, Rk_RUST_SYMBOL, Rk_CONFIG,
     Rk_DEPENDENCY_MANIFEST, Rk_LOCKFILE, Rk_CI_WORKFLOW, Rk_SENSITIVE, Rk_TEST, Rk_GENERATED, Rk_DATABASE_MIGRATION, Rk_POLICY,
     Rk_DOCUMENTATION, Rk_UNKNOWN]"

definition matches_resource_kind_scope :: "resource_scope \<Rightarrow> normalized_action \<Rightarrow> bool" where
  "matches_resource_kind_scope scope action =
     (case (case sc_resource_kind scope of Some k \<Rightarrow> Some k
        | None \<Rightarrow> find (\<lambda>k. resource_kind_value k = lower (strip (sc_value scope))) all_resource_kinds) of
        None \<Rightarrow> False | Some expected \<Rightarrow> resource_kind_matches expected action)"

definition matches_exact_path :: "string \<Rightarrow> string list \<Rightarrow> bool" where
  "matches_exact_path scope_value action_paths =
     (case normalize_repo_relative_path scope_value of Inl _ \<Rightarrow> False | Inr expected \<Rightarrow> expected \<in> set action_paths)"

definition matches_path_glob :: "string \<Rightarrow> string list \<Rightarrow> bool" where
  "matches_path_glob scope_value action_paths =
     (let pattern = dropWhile (\<lambda>c. c = CHR ''/'') (slashed (strip scope_value)) in
      list_ex (fnmatchcase pattern) action_paths)"

definition matches_file_type :: "string \<Rightarrow> string list \<Rightarrow> bool" where
  "matches_file_type scope_value action_paths =
     (let ext = lower (strip scope_value); ext' = (if starts_with ext ''.'' then ext else CHR ''.'' # ext) in
      ext \<noteq> [] \<and> list_ex (\<lambda>path. ends_with (lower (path_name (posix_path path))) ext') action_paths)"

definition matches_symbol :: "string \<Rightarrow> resource_graph \<Rightarrow> bool" where
  "matches_symbol scope_value graph =
     (strip scope_value \<noteq> [] \<and>
      list_ex (\<lambda>node. gn_kind node \<in> {Rk_PYTHON_MODULE, Rk_PYTHON_SYMBOL, Rk_RUST_MODULE, Rk_RUST_SYMBOL} \<and>
        (gn_name node = Some (strip scope_value) \<or> gn_node_id node = strip scope_value)) (rg_nodes graph))"

definition scope_matches :: "normalized_action \<Rightarrow> string list \<Rightarrow> resource_graph \<Rightarrow> resource_scope \<Rightarrow> bool" where
  "scope_matches action action_paths graph scope =
     ((case sc_resource_kind scope of None \<Rightarrow> True | Some k \<Rightarrow> resource_kind_matches k action) \<and>
      (case sc_type scope of
         St_EXACT_PATH \<Rightarrow> matches_exact_path (sc_value scope) action_paths
       | St_PATH_GLOB \<Rightarrow> matches_path_glob (sc_value scope) action_paths
       | St_FILE_TYPE \<Rightarrow> matches_file_type (sc_value scope) action_paths
       | St_RESOURCE_KIND \<Rightarrow> matches_resource_kind_scope scope action
       | St_SYMBOL \<Rightarrow> matches_symbol (sc_value scope) graph))"

definition matching_scopes :: "resource_scope list \<Rightarrow> normalized_action \<Rightarrow> string list \<Rightarrow> resource_graph \<Rightarrow> resource_scope list" where
  "matching_scopes scopes action action_paths graph = filter (scope_matches action action_paths graph) scopes"

definition requires_path_or_graph_scope :: "resource_scope list \<Rightarrow> bool" where
  "requires_path_or_graph_scope scopes =
     list_ex (\<lambda>scope. sc_type scope \<in> {St_EXACT_PATH, St_PATH_GLOB, St_FILE_TYPE, St_SYMBOL}) scopes"

definition action_paths_outside_target_scopes ::
  "resource_scope list \<Rightarrow> normalized_action \<Rightarrow> string list \<Rightarrow> resource_graph \<Rightarrow> string list" where
  "action_paths_outside_target_scopes scopes action action_paths graph =
     (if action_paths = [] \<or> \<not> requires_path_or_graph_scope scopes then []
      else filter (\<lambda>path. \<not> list_ex (scope_matches action [path] graph) scopes) action_paths)"

definition raw_action_paths :: "normalized_action \<Rightarrow> string list" where
  "raw_action_paths action = na_affected_paths action @
     (case na_old_path action of None \<Rightarrow> [] | Some p \<Rightarrow> [p]) @ (case na_new_path action of None \<Rightarrow> [] | Some p \<Rightarrow> [p])"

definition normalized_action_paths :: "normalized_action \<Rightarrow> string list \<times> string list" where
  "normalized_action_paths action =
     (let results = map normalize_repo_relative_path (raw_action_paths action) in
      (unique (concat (map (\<lambda>r. case r of Inl _ \<Rightarrow> [] | Inr p \<Rightarrow> [p]) results)),
       if list_ex isl results then [''invalid-action-path''] else []))"

definition safe_graph_for_paths :: "(string \<Rightarrow> string) \<Rightarrow> string list \<Rightarrow> resource_graph res" where
  "safe_graph_for_paths sha paths =
     (if paths = [] then Inr \<lparr>rg_nodes = [], rg_edges = []\<rparr> else build_resource_graph_from_paths sha paths)"

definition match_metadata :: "normalized_action \<Rightarrow> intent_contract \<Rightarrow> string list \<Rightarrow> dict" where
  "match_metadata action contract action_paths =
     [(''action_operation'', PStr (intent_operation_value (na_operation action))),
      (''action_resource_kind'', PStr (resource_kind_value (na_resource_kind action))),
      (''affected_paths'', PTuple (map PStr action_paths)),
      (''target_scope_count'', PInt (int (length (ic_target_scopes contract)))),
      (''excluded_scope_count'', PInt (int (length (ic_excluded_scopes contract))))]"

definition match_to :: "normalized_action \<Rightarrow> intent_contract \<Rightarrow> match_state \<Rightarrow> decision_hint \<Rightarrow> string list \<Rightarrow>
    resource_scope list \<Rightarrow> resource_scope list \<Rightarrow> dict \<Rightarrow> match_result" where
  "match_to action contract state hint codes matched unmatched metadata =
     \<lparr>im_match_state = state, im_contract_id = Some (ic_contract_id contract), im_action_id = Some (na_action_id action),
      im_matched_scopes = matched, im_unmatched_scopes = unmatched, im_reason_codes = codes, im_decision_hint = hint,
      im_metadata = metadata\<rparr>"

text \<open>The result before its validation.\<close>

definition match_result_of :: "normalized_action \<Rightarrow> intent_contract \<Rightarrow> resource_graph \<Rightarrow> match_result" where
  "match_result_of action contract graph =
     (let (action_paths, path_reason_codes) = normalized_action_paths action;
          metadata = match_metadata action contract action_paths;
          result = match_to action contract;
          targets = ic_target_scopes contract;
          excluded = matching_scopes (ic_excluded_scopes contract) action action_paths graph;
          operation = operation_allowed action contract;
          matched = matching_scopes targets action action_paths graph;
          outside = action_paths_outside_target_scopes targets action action_paths graph;
          count = (''matched_target_scope_count'', PInt (int (length matched))) in
      if na_resource_kind action = Rk_SENSITIVE
      then result Ms_HARD_SENSITIVE Dh_BLOCK
        [''hard-sensitive-resource'', ''resource_kind:'' @ resource_kind_value (na_resource_kind action)] [] [] metadata
      else if path_reason_codes \<noteq> [] then result Ms_UNKNOWN Dh_REQUIRE_APPROVAL path_reason_codes [] [] metadata
      else if excluded \<noteq> []
      then result Ms_CONFLICT Dh_REQUIRE_APPROVAL [''excluded-scope-match''] excluded []
        (metadata @ [(''matched_excluded_scope_count'', PInt (int (length excluded)))])
      else if \<not> om_allowed operation
      then result (if na_operation action = Op_UNKNOWN then Ms_UNKNOWN else Ms_CONFLICT) Dh_REQUIRE_APPROVAL
        (om_reason_codes operation) [] [] metadata
      else if targets = []
      then (if om_exact operation then result Ms_EXACT_MATCH Dh_ALLOW [] [] [] metadata
        else result Ms_PARTIAL_MATCH Dh_AUDIT (om_reason_codes operation) [] [] metadata)
      else if action_paths = [] \<and> requires_path_or_graph_scope targets
      then result Ms_UNKNOWN Dh_REQUIRE_APPROVAL [''scope-unknown:no-affected-paths''] [] targets metadata
      else if matched = [] then result Ms_DRIFT Dh_REQUIRE_APPROVAL [''target-scope-drift''] [] targets metadata
      else if outside \<noteq> []
      then result Ms_PARTIAL_MATCH Dh_AUDIT (unique (''target-scope-partial'' # om_reason_codes operation)) matched
        (filter (\<lambda>scope. scope \<notin> set matched) targets)
        (metadata @ [count, (''out_of_scope_paths'', PTuple (map PStr outside))])
      else if om_exact operation then result Ms_EXACT_MATCH Dh_ALLOW [] matched [] (metadata @ [count])
      else result Ms_PARTIAL_MATCH Dh_AUDIT (om_reason_codes operation) matched [] (metadata @ [count]))"

definition match_action_to_contract :: "(string \<Rightarrow> string) \<Rightarrow> normalized_action \<Rightarrow> intent_contract \<Rightarrow> match_result res" where
  "match_action_to_contract sha action contract =
     rbind (safe_graph_for_paths sha (fst (normalized_action_paths action))) (\<lambda>graph.
       validate_match (match_result_of action contract graph))"

definition match_actions_to_contract :: "(string \<Rightarrow> string) \<Rightarrow> normalized_action list \<Rightarrow> intent_contract \<Rightarrow> match_result list res" where
  "match_actions_to_contract sha actions contract = rmap (\<lambda>a. match_action_to_contract sha a contract) actions"

definition scope_dump :: "resource_scope \<Rightarrow> dict" where
  "scope_dump scope =
     [(''type'', PStr (scope_type_value (sc_type scope))), (''value'', PStr (sc_value scope)),
      (''resource_kind'', case sc_resource_kind scope of None \<Rightarrow> PNone | Some k \<Rightarrow> PStr (resource_kind_value k)),
      (''metadata'', dict_val (sc_metadata scope))]"

text \<open>\<open>model_dump(mode="json")\<close> turns tuples into lists.\<close>

fun json_mode :: "pyval \<Rightarrow> pyval" where
  "json_mode (PTuple xs) = PList (map json_mode xs)"
| "json_mode (PList xs) = PList (map json_mode xs)"
| "json_mode (PDict kvs) = PDict (map (\<lambda>kv. (fst kv, json_mode (snd kv))) kvs)"
| "json_mode v = v"

definition match_dump :: "match_result \<Rightarrow> pyval" where
  "match_dump m = json_mode (dict_val
     [(''match_state'', PStr (match_state_value (im_match_state m))), (''contract_id'', opt_val (im_contract_id m)),
      (''action_id'', opt_val (im_action_id m)),
      (''matched_scopes'', PTuple (map (\<lambda>s. dict_val (scope_dump s)) (im_matched_scopes m))),
      (''unmatched_scopes'', PTuple (map (\<lambda>s. dict_val (scope_dump s)) (im_unmatched_scopes m))),
      (''reason_codes'', PTuple (map PStr (im_reason_codes m))),
      (''decision_hint'', PStr (decision_hint_value (im_decision_hint m))), (''metadata'', dict_val (im_metadata m))])"

definition intent_match_results_audit_summary :: "match_result list \<Rightarrow> dict" where
  "intent_match_results_audit_summary results =
     [(''result_count'', PInt (int (length results))),
      (''match_state_counts'', dict_val (counts (map (\<lambda>r. match_state_value (im_match_state r)) results))),
      (''decision_hint_counts'', dict_val (counts (map (\<lambda>r. decision_hint_value (im_decision_hint r)) results))),
      (''results'', PTuple (map match_dump results))]"

section \<open>The fallback policy\<close>

record fallback_evaluation =
  fe_contract_id :: "string option"
  fe_enforcement_mode :: enforcement_mode
  fe_match_state :: match_state
  fe_recommended_hint :: decision_hint
  fe_effective_hint :: decision_hint
  fe_reason_codes :: "string list"
  fe_result_count :: int
  fe_metadata :: dict

definition should_block :: "fallback_evaluation \<Rightarrow> bool" where
  "should_block e = (fe_effective_hint e = Dh_BLOCK)"

definition requires_approval :: "fallback_evaluation \<Rightarrow> bool" where
  "requires_approval e = (fe_effective_hint e = Dh_REQUIRE_APPROVAL)"

definition should_audit :: "fallback_evaluation \<Rightarrow> bool" where
  "should_audit e = (fe_effective_hint e = Dh_AUDIT)"

definition fallback_summary :: "fallback_evaluation \<Rightarrow> dict" where
  "fallback_summary e =
     [(''contract_id'', opt_val (fe_contract_id e)),
      (''enforcement_mode'', PStr (enforcement_mode_value (fe_enforcement_mode e))),
      (''match_state'', PStr (match_state_value (fe_match_state e))),
      (''recommended_hint'', PStr (decision_hint_value (fe_recommended_hint e))),
      (''effective_hint'', PStr (decision_hint_value (fe_effective_hint e))),
      (''reason_codes'', PTuple (map PStr (fe_reason_codes e))), (''result_count'', PInt (fe_result_count e)),
      (''should_block'', PBool (should_block e)), (''requires_approval'', PBool (requires_approval e)),
      (''should_audit'', PBool (should_audit e)), (''metadata'', dict_val (fe_metadata e))]"

definition has_state :: "match_state \<Rightarrow> match_result list \<Rightarrow> bool" where
  "has_state state results = list_ex (\<lambda>r. im_match_state r = state) results"

definition recommended_fallback :: "match_result list \<Rightarrow> match_state \<times> decision_hint \<times> string list" where
  "recommended_fallback results =
     (if results = [] then (Ms_UNKNOWN, Dh_REQUIRE_APPROVAL, [''fallback:no-match-results''])
      else if has_state Ms_HARD_SENSITIVE results then (Ms_HARD_SENSITIVE, Dh_BLOCK, [''fallback:hard-sensitive-boundary''])
      else if has_state Ms_UNKNOWN results then (Ms_UNKNOWN, Dh_REQUIRE_APPROVAL, [''fallback:unknown-resource-or-operation''])
      else if has_state Ms_CONFLICT results then (Ms_CONFLICT, Dh_REQUIRE_APPROVAL, [''fallback:capability-conflict''])
      else if has_state Ms_DRIFT results then (Ms_DRIFT, Dh_REQUIRE_APPROVAL, [''fallback:scope-drift''])
      else if has_state Ms_PARTIAL_MATCH results then (Ms_PARTIAL_MATCH, Dh_AUDIT, [''fallback:partial-semantic-match''])
      else if list_all (\<lambda>r. im_match_state r = Ms_EXACT_MATCH) results then (Ms_EXACT_MATCH, Dh_ALLOW, [''fallback:exact-match''])
      else (Ms_UNKNOWN, Dh_REQUIRE_APPROVAL, [''fallback:unhandled-match-state'']))"

definition effective_hint :: "enforcement_mode \<Rightarrow> decision_hint \<Rightarrow> decision_hint" where
  "effective_hint mode recommended =
     (if mode = Em_DISABLED then Dh_NONE
      else if mode = Em_SHADOW
      then (if recommended \<in> {Dh_BLOCK, Dh_REQUIRE_APPROVAL} then Dh_AUDIT else recommended)
      else recommended)"

definition fallback_reason_codes :: "match_result list \<Rightarrow> string list \<Rightarrow> string list" where
  "fallback_reason_codes results reasons = unique (reasons @ concat (map im_reason_codes results))"

definition action_ids_for_state :: "match_state \<Rightarrow> match_result list \<Rightarrow> pyval" where
  "action_ids_for_state state results = PTuple (concat (map (\<lambda>r. case im_action_id r of
     Some i \<Rightarrow> if im_match_state r = state then [PStr i] else [] | None \<Rightarrow> []) results))"

definition evaluate_intent_fallback :: "match_result list \<Rightarrow> intent_contract \<Rightarrow> fallback_evaluation" where
  "evaluate_intent_fallback results contract =
     (let (state, recommended, reasons) = recommended_fallback results in
      \<lparr>fe_contract_id = Some (ic_contract_id contract), fe_enforcement_mode = ic_enforcement_mode contract,
       fe_match_state = state, fe_recommended_hint = recommended,
       fe_effective_hint = effective_hint (ic_enforcement_mode contract) recommended,
       fe_reason_codes = fallback_reason_codes results reasons, fe_result_count = int (length results),
       fe_metadata =
         [(''match_state_counts'', dict_val (counts (map (\<lambda>r. match_state_value (im_match_state r)) results))),
          (''decision_hint_counts'', dict_val (counts (map (\<lambda>r. decision_hint_value (im_decision_hint r)) results))),
          (''hard_sensitive_action_ids'', action_ids_for_state Ms_HARD_SENSITIVE results),
          (''unknown_action_ids'', action_ids_for_state Ms_UNKNOWN results),
          (''drift_action_ids'', action_ids_for_state Ms_DRIFT results),
          (''conflict_action_ids'', action_ids_for_state Ms_CONFLICT results)]\<rparr>)"

definition intent_fallback_evaluations_audit_summary :: "fallback_evaluation list \<Rightarrow> dict" where
  "intent_fallback_evaluations_audit_summary es =
     [(''evaluation_count'', PInt (int (length es))),
      (''recommended_hint_counts'', dict_val (counts (map (\<lambda>e. decision_hint_value (fe_recommended_hint e)) es))),
      (''effective_hint_counts'', dict_val (counts (map (\<lambda>e. decision_hint_value (fe_effective_hint e)) es))),
      (''match_state_counts'', dict_val (counts (map (\<lambda>e. match_state_value (fe_match_state e)) es))),
      (''evaluations'', PTuple (map (\<lambda>e. dict_val (fallback_summary e)) es))]"

end
