(* ===== verification/Action_Normalizer.thy ===== *)
theory Action_Normalizer
  imports Intent Py_Regex
begin

text \<open>
  \<open>src/rygnal/action_normalizer.py\<close>: commands and changed files as normalized actions, with the paths they affect, the
  dominant kind of these paths and an id that depends on the content only. SHA-256 is an argument.
\<close>

section \<open>Commands\<close>

definition SECRET_ARG_KEYS :: "string list" where
  "SECRET_ARG_KEYS = [''api_key'', ''apikey'', ''authorization'', ''bearer'', ''client_secret'', ''credential'', ''password'',
     ''private_key'', ''secret'', ''token'']"

definition INLINE_CODE_OPTIONS :: "string list" where
  "INLINE_CODE_OPTIONS = [''-c'', ''--command'', ''-e'', ''--eval'']"

definition SECRET_VALUE_PATTERNS :: "regex list" where
  "SECRET_VALUE_PATTERNS =
     [Seqs [WordB, Lit ''sk-'', Chr ascii_alnum, At_least 8 (Chr (\<lambda>c. ascii_alnum c \<or> c \<in> set ''._-'')), WordB],
      Seqs [WordB, Lit ''ghp_'', At_least 16 (Chr (\<lambda>c. ascii_alnum c \<or> c = CHR ''_'')), WordB],
      Seqs [WordB, Lit ''github_pat_'', At_least 16 (Chr (\<lambda>c. ascii_alnum c \<or> c = CHR ''_'')), WordB]]"

definition command_name :: "string list \<Rightarrow> string" where
  "command_name command =
     (case command of [] \<Rightarrow> ''unknown''
      | c # _ \<Rightarrow> (let name = lower (path_name (posix_path c)) in if name = [] then ''unknown'' else name))"

definition operation_from_command :: "string list \<Rightarrow> intent_operation" where
  "operation_from_command command =
     (let exe = command_name command; args = map lower (tl command);
          uses = (\<lambda>words. list_ex (\<lambda>a. a \<in> set words) args) in
      if exe \<in> {''rm'', ''rmdir'', ''unlink''}
      then (if uses [''-r'', ''-rf'', ''-fr'', ''--recursive''] then Op_DELETE_FOLDER else Op_DELETE_FILE)
      else if exe = ''git'' \<and> args \<noteq> [] \<and> hd args = ''rm'' then Op_DELETE_FILE
      else if exe = ''git'' \<and> args \<noteq> [] \<and> hd args = ''mv'' then Op_MOVE
      else if exe \<in> {''mv'', ''rename''} then Op_MOVE
      else if exe \<in> {''cp'', ''mkdir'', ''touch''} then Op_CREATE
      else if exe \<in> {''pytest'', ''tox''} then Op_TEST
      else if exe \<in> {''ruff''} then Op_TEST
      else if exe \<in> {''python'', ''python3''} \<and> list_ex (\<lambda>a. contains a ''pytest'') args then Op_TEST
      else if exe \<in> {''cargo'', ''make'', ''mvn'', ''gradle''} \<and> uses [''test''] then Op_TEST
      else if exe \<in> {''cargo'', ''make'', ''mvn'', ''gradle''} \<and> uses [''build''] then Op_BUILD
      else if exe \<in> {''npm'', ''pnpm'', ''yarn''} \<and> uses [''test''] then Op_TEST
      else if exe \<in> {''npm'', ''pnpm'', ''yarn''} \<and> uses [''build''] then Op_BUILD
      else if exe \<in> {''npm'', ''pnpm'', ''yarn''} \<and> uses [''install'', ''add'', ''remove'', ''update''] then Op_DEPENDENCY_CHANGE
      else if exe \<in> {''pip'', ''pip3'', ''poetry'', ''uv''} \<and> uses [''install'', ''add'', ''remove'', ''update'', ''sync'']
      then Op_DEPENDENCY_CHANGE
      else Op_COMMAND)"

definition looks_like_repo_path :: "string \<Rightarrow> bool" where
  "looks_like_repo_path v =
     (let name = path_name (posix_path v) in
      v \<noteq> [] \<and> \<not> starts_with v ''-'' \<and>
      \<not> contains v ''://'' \<and> CHR 0x0A \<notin> set v \<and> CHR 0x0D \<notin> set v \<and>
      \<not> list_ex (\<lambda>c. c \<in> set v) [CHR '' '', CHR 0x09, CHR '';'', squote, dquote, CHR ''('', CHR '')'', CHR ''{'', CHR ''}''] \<and>
      CHR ''='' \<notin> set v \<and> v \<notin> {''.'', ''..''} \<and> \<not> is_absolute (posix_path v) \<and>
      (starts_with v ''./'' \<or> CHR ''/'' \<in> set v \<or> starts_with name ''.'' \<and> 1 < length name \<or> CHR ''.'' \<in> set name \<or>
       name \<in> set RESOURCE_MANIFESTS \<or> name \<in> set RESOURCE_LOCKFILES))"

definition normalize_candidate_path :: "string \<Rightarrow> string option" where
  "normalize_candidate_path v =
     (let parts = path_parts (posix_path v) in
      if ''..'' \<in> set parts then None
      else let clean = filter (\<lambda>p. p \<noteq> [] \<and> p \<noteq> ''.'') parts in
        if clean = [] then None else Some (join ''/'' clean))"

fun repo_paths :: "string list \<Rightarrow> string list" where
  "repo_paths [] = []"
| "repo_paths (arg # args) =
     (if arg \<in> set INLINE_CODE_OPTIONS then repo_paths (drop 1 args)
      else (if looks_like_repo_path arg then (case normalize_candidate_path arg of None \<Rightarrow> [] | Some p \<Rightarrow> [p]) else []) @
        repo_paths args)"

definition extract_repo_paths :: "string list \<Rightarrow> string list" where
  "extract_repo_paths command = unique (repo_paths (tl command))"

definition resource_kind_for_path :: "string \<Rightarrow> resource_kind" where
  "resource_kind_for_path path = resource_kind_of (strip (slashed path))"

definition preferred_kinds :: "resource_kind list" where
  "preferred_kinds = [Rk_SENSITIVE, Rk_POLICY, Rk_CI_WORKFLOW, Rk_DEPENDENCY_MANIFEST, Rk_LOCKFILE, Rk_CONFIG, Rk_PYTHON_MODULE,
     Rk_RUST_MODULE, Rk_TEST]"

definition dominant_resource_kind :: "string list \<Rightarrow> resource_kind" where
  "dominant_resource_kind paths =
     (if paths = [] then Rk_UNKNOWN
      else let kinds = map resource_kind_for_path paths in
        case find (\<lambda>k. k \<in> set kinds) preferred_kinds of Some k \<Rightarrow> k | None \<Rightarrow> hd kinds)"

definition redact_command_arg :: "string \<Rightarrow> string" where
  "redact_command_arg arg =
     (if list_ex (\<lambda>pattern. re_search pattern arg) SECRET_VALUE_PATTERNS then ''[REDACTED]''
      else if list_ex (contains (lower arg)) SECRET_ARG_KEYS
      then (if CHR ''='' \<in> set arg then takeWhile (\<lambda>c. c \<noteq> CHR ''='') arg @ ''=[REDACTED]'' else ''[REDACTED]'')
      else arg)"

fun redact_args :: "bool \<Rightarrow> string list \<Rightarrow> string list" where
  "redact_args inline [] = []"
| "redact_args True (arg # args) = ''[REDACTED_INLINE_CODE]'' # redact_args False args"
| "redact_args False (arg # args) = redact_command_arg arg # redact_args (arg \<in> set INLINE_CODE_OPTIONS) args"

definition redacted_command :: "string list \<Rightarrow> string list" where
  "redacted_command command = redact_args False command"

definition stable_action_id ::
  "(string \<Rightarrow> string) \<Rightarrow> action_source \<Rightarrow> intent_operation \<Rightarrow> string list \<Rightarrow> string option \<Rightarrow> string option \<Rightarrow> dict \<Rightarrow> string" where
  "stable_action_id sha source operation paths old_path new_path metadata =
     ''normalized_action_'' @ take 24 (sha (json_dumps (dict_val
       [(''source'', PStr (action_source_value source)), (''operation'', PStr (intent_operation_value operation)),
        (''affected_paths'', PTuple (map PStr paths)), (''old_path'', opt_val old_path), (''new_path'', opt_val new_path),
        (''metadata'', dict_val metadata)])))"

definition normalize_command_action :: "(string \<Rightarrow> string) \<Rightarrow> string list \<Rightarrow> normalized_action res" where
  "normalize_command_action sha command =
     (let exe = command_name command; operation = operation_from_command command; paths = extract_repo_paths command;
          kind = dominant_resource_kind paths;
          raw_evidence = [(''kind'', PStr ''argv''), (''executable'', PStr exe), (''argc'', PInt (int (length command))),
            (''argv_redacted'', PTuple (map PStr (redacted_command command)))] in
      validate_action
        \<lparr>na_action_id = stable_action_id sha As_COMMAND operation paths None None raw_evidence, na_source = As_COMMAND,
         na_operation = operation, na_affected_paths = paths, na_old_path = None, na_new_path = None,
         na_resource_kind = kind, na_raw_evidence = raw_evidence, na_diff_metadata = [],
         na_reason_codes = [''source:command'', ''operation:'' @ intent_operation_value operation, ''executable:'' @ exe,
           ''resource_kind:'' @ resource_kind_value kind]\<rparr>)"

section \<open>Changed files\<close>

fun operation_from_kind :: "changed_file_kind \<Rightarrow> intent_operation" where
  "operation_from_kind ADDED = Op_CREATE"
| "operation_from_kind UNTRACKED = Op_CREATE"
| "operation_from_kind MODIFIED = Op_MODIFY"
| "operation_from_kind MODE_CHANGED = Op_MODIFY"
| "operation_from_kind DELETED = Op_DELETE_FILE"
| "operation_from_kind RENAMED = Op_RENAME"

definition affected_paths_for_changed_file :: "changed_file \<Rightarrow> string list" where
  "affected_paths_for_changed_file f =
     (case (cf_kind f, cf_old_path f) of (RENAMED, Some old) \<Rightarrow> [old, cf_path f] | _ \<Rightarrow> [cf_path f])"

definition diff_metadata_of :: "patch_file_diff option \<Rightarrow> patch_diff option \<Rightarrow> dict" where
  "diff_metadata_of patch_file d =
     (let count = (\<lambda>x. case x of None \<Rightarrow> PNone | Some n \<Rightarrow> PInt (int n)) in
      case patch_file of
        None \<Rightarrow> [(''patch_present'', PBool (d \<noteq> None)), (''file_patch_present'', PBool False)]
      | Some f \<Rightarrow>
          [(''patch_present'', PBool (d \<noteq> None)), (''file_patch_present'', PBool True),
           (''patch_sha256'', case d of None \<Rightarrow> PNone | Some x \<Rightarrow> PStr (pf_patch_sha256 x)),
           (''patch_size_bytes'', case d of None \<Rightarrow> PNone | Some x \<Rightarrow> PInt (pf_patch_size_bytes x)),
           (''additions'', count (fd_additions f)), (''deletions'', count (fd_deletions f)), (''binary'', PBool (fd_binary f)),
           (''old_mode'', opt_val (fd_old_mode f)), (''new_mode'', opt_val (fd_new_mode f)),
           (''mode_changed'', PBool (fd_mode_changed f))])"

definition normalize_changed_file_action ::
  "(string \<Rightarrow> string) \<Rightarrow> changed_file \<Rightarrow> patch_file_diff option \<Rightarrow> patch_diff option \<Rightarrow> normalized_action res" where
  "normalize_changed_file_action sha f patch_file d =
     (let operation = operation_from_kind (cf_kind f); paths = affected_paths_for_changed_file f;
          kind = dominant_resource_kind paths;
          old_path = (if cf_kind f = RENAMED then cf_old_path f else None);
          new_path = (if cf_kind f = RENAMED then Some (cf_path f) else None);
          kind_text = changed_file_kind_value (cf_kind f) in
      validate_action
        \<lparr>na_action_id = stable_action_id sha As_FILESYSTEM operation paths old_path new_path
           [(''changed_file_kind'', PStr kind_text),
            (''patch_sha256'', case d of None \<Rightarrow> PNone | Some x \<Rightarrow> PStr (pf_patch_sha256 x))],
         na_source = As_FILESYSTEM, na_operation = operation, na_affected_paths = paths, na_old_path = old_path,
         na_new_path = new_path, na_resource_kind = kind,
         na_raw_evidence =
           [(''kind'', PStr ''changed_file''), (''changed_file_kind'', PStr kind_text), (''path'', PStr (cf_path f)),
            (''old_path'', opt_val (cf_old_path f)), (''mode_changed'', PBool (cf_mode_changed f)),
            (''old_mode'', opt_val (cf_old_mode f)), (''new_mode'', opt_val (cf_new_mode f))],
         na_diff_metadata = diff_metadata_of patch_file d,
         na_reason_codes = [''source:filesystem'', ''changed_file_kind:'' @ kind_text,
           ''operation:'' @ intent_operation_value operation, ''resource_kind:'' @ resource_kind_value kind,
           if patch_file \<noteq> None then ''patch_metadata:present'' else ''patch_metadata:absent'']\<rparr>)"

text \<open>A later entry of a dictionary display or of \<open>|\<close> replaces an earlier one with the same key.\<close>

definition patch_files_by_key :: "patch_diff option \<Rightarrow> (string option \<times> string) \<rightharpoonup> patch_file_diff" where
  "patch_files_by_key d = (case d of None \<Rightarrow> (\<lambda>_. None)
     | Some x \<Rightarrow> map_of (rev (map (\<lambda>f. ((fd_old_path f, fd_path f), f)) (pf_files x) @
         map (\<lambda>f. ((None, fd_path f), f)) (pf_files x))))"

definition normalize_changed_file_actions ::
  "(string \<Rightarrow> string) \<Rightarrow> changed_file_report \<Rightarrow> patch_diff option \<Rightarrow> normalized_action list res" where
  "normalize_changed_file_actions sha report d =
     rmap (\<lambda>f. normalize_changed_file_action sha f (patch_files_by_key d (cf_old_path f, cf_path f)) d) (cr_files report)"

definition normalize_guarded_actions ::
  "(string \<Rightarrow> string) \<Rightarrow> string list \<Rightarrow> changed_file_report option \<Rightarrow> patch_diff option \<Rightarrow> normalized_action list res" where
  "normalize_guarded_actions sha command report d =
     rbind (normalize_command_action sha command) (\<lambda>a.
       case report of None \<Rightarrow> Inr [a]
       | Some r \<Rightarrow> rbind (normalize_changed_file_actions sha r d) (\<lambda>actions. Inr (a # actions)))"

definition action_dump :: "normalized_action \<Rightarrow> pyval" where
  "action_dump a = json_mode (dict_val
     [(''action_id'', PStr (na_action_id a)), (''source'', PStr (action_source_value (na_source a))),
      (''operation'', PStr (intent_operation_value (na_operation a))),
      (''affected_paths'', PTuple (map PStr (na_affected_paths a))), (''old_path'', opt_val (na_old_path a)),
      (''new_path'', opt_val (na_new_path a)), (''resource_kind'', PStr (resource_kind_value (na_resource_kind a))),
      (''raw_evidence'', dict_val (na_raw_evidence a)), (''diff_metadata'', dict_val (na_diff_metadata a)),
      (''reason_codes'', PTuple (map PStr (na_reason_codes a)))])"

definition normalized_actions_audit_summary :: "normalized_action list \<Rightarrow> dict" where
  "normalized_actions_audit_summary actions =
     [(''action_count'', PInt (int (length actions))),
      (''operation_counts'', dict_val (counts (map (\<lambda>a. intent_operation_value (na_operation a)) actions))),
      (''resource_kind_counts'', dict_val (counts (map (\<lambda>a. resource_kind_value (na_resource_kind a)) actions))),
      (''source_counts'', dict_val (counts (map (\<lambda>a. action_source_value (na_source a)) actions))),
      (''actions'', PTuple (map action_dump actions))]"

section \<open>What the fallback decides\<close>

text \<open>The reference: every match state has a hint of its own, and the strictest one decides.\<close>

fun state_hint :: "match_state \<Rightarrow> decision_hint" where
  "state_hint Ms_EXACT_MATCH = Dh_ALLOW"
| "state_hint Ms_PARTIAL_MATCH = Dh_AUDIT"
| "state_hint Ms_HARD_SENSITIVE = Dh_BLOCK"
| "state_hint _ = Dh_REQUIRE_APPROVAL"

fun strictness :: "decision_hint \<Rightarrow> nat" where
  "strictness Dh_NONE = 0"
| "strictness Dh_ALLOW = 1"
| "strictness Dh_AUDIT = 2"
| "strictness Dh_REQUIRE_APPROVAL = 3"
| "strictness Dh_BLOCK = 4"

definition stricter :: "decision_hint \<Rightarrow> decision_hint \<Rightarrow> decision_hint" where
  "stricter a b = (if strictness a < strictness b then b else a)"

definition strictest :: "match_result list \<Rightarrow> decision_hint" where
  "strictest results = foldr stricter (map (\<lambda>r. state_hint (im_match_state r)) results) Dh_NONE"

lemma strictness_inject: "strictness a = strictness b \<longleftrightarrow> a = b"
  by (cases a; cases b) simp_all

lemma strictness_stricter: "strictness (stricter a b) = max (strictness a) (strictness b)"
  by (simp add: stricter_def)

lemma strictest_rank: "strictness (strictest results) = foldr max (map (\<lambda>r. strictness (state_hint (im_match_state r))) results) 0"
  by (induction results) (simp_all add: strictest_def strictness_stricter)

lemma foldr_max_ge: "x \<in> set xs \<Longrightarrow> (x :: nat) \<le> foldr max xs 0"
  by (induction xs) auto

lemma foldr_max_le: "(\<And>x. x \<in> set xs \<Longrightarrow> x \<le> n) \<Longrightarrow> foldr max xs (0 :: nat) \<le> n"
  by (induction xs) auto

lemma foldr_max_eq: "n \<in> set xs \<Longrightarrow> (\<And>x. x \<in> set xs \<Longrightarrow> x \<le> n) \<Longrightarrow> foldr max xs (0 :: nat) = n"
  by (intro le_antisym foldr_max_le foldr_max_ge)

text \<open>
  (C29) The fallback policy is the strictest-wins rule: for any non-empty list of results the recommended hint is the
  strictest of the hints of the states, blocking before approval before audit before allowing.
\<close>

theorem fallback_is_strictest:
  assumes "results \<noteq> []"
  shows "fe_recommended_hint (evaluate_intent_fallback results contract) = strictest results"
proof -
  let ?h = "\<lambda>s. strictness (state_hint s)" and ?S = "im_match_state ` set results"
  let ?rec = "fst (snd (recommended_fallback results))"
  have rec: "fe_recommended_hint (evaluate_intent_fallback results contract) = ?rec"
    by (simp add: evaluate_intent_fallback_def split: prod.splits)
  have has: "has_state state results \<longleftrightarrow> state \<in> ?S" for state
    by (auto simp: has_state_def list_ex_iff)
  have upper: "?h s \<le> strictness ?rec" if "s \<in> ?S" for s
  proof -
    have "\<not> list_all (\<lambda>r. im_match_state r = Ms_EXACT_MATCH) results" if "Ms_PARTIAL_MATCH \<in> ?S"
      using that by (auto simp: list_all_iff intro!: bexI)
    then show ?thesis
      using that assms unfolding recommended_fallback_def has by (cases s) (simp_all split del: if_split, auto)
  qed
  have ex: "\<exists>s \<in> ?S. ?h s = strictness ?rec"
  proof -
    consider "Ms_HARD_SENSITIVE \<in> ?S" | "Ms_HARD_SENSITIVE \<notin> ?S" "Ms_UNKNOWN \<in> ?S"
      | "Ms_HARD_SENSITIVE \<notin> ?S" "Ms_UNKNOWN \<notin> ?S" "Ms_CONFLICT \<in> ?S"
      | "Ms_HARD_SENSITIVE \<notin> ?S" "Ms_UNKNOWN \<notin> ?S" "Ms_CONFLICT \<notin> ?S" "Ms_DRIFT \<in> ?S"
      | "Ms_HARD_SENSITIVE \<notin> ?S" "Ms_UNKNOWN \<notin> ?S" "Ms_CONFLICT \<notin> ?S" "Ms_DRIFT \<notin> ?S" "Ms_PARTIAL_MATCH \<in> ?S"
      | "Ms_HARD_SENSITIVE \<notin> ?S" "Ms_UNKNOWN \<notin> ?S" "Ms_CONFLICT \<notin> ?S" "Ms_DRIFT \<notin> ?S" "Ms_PARTIAL_MATCH \<notin> ?S"
      by blast
    then show ?thesis
    proof cases
      case 1
      then show ?thesis using assms by (intro bexI [of _ Ms_HARD_SENSITIVE]) (simp_all add: recommended_fallback_def has)
    next
      case 2
      then show ?thesis using assms by (intro bexI [of _ Ms_UNKNOWN]) (simp_all add: recommended_fallback_def has)
    next
      case 3
      then show ?thesis using assms by (intro bexI [of _ Ms_CONFLICT]) (simp_all add: recommended_fallback_def has)
    next
      case 4
      then show ?thesis using assms by (intro bexI [of _ Ms_DRIFT]) (simp_all add: recommended_fallback_def has)
    next
      case 5
      then show ?thesis using assms by (intro bexI [of _ Ms_PARTIAL_MATCH]) (simp_all add: recommended_fallback_def has)
    next
      case 6
      have all: "im_match_state r = Ms_EXACT_MATCH" if "r \<in> set results" for r
        using 6 imageI [OF that, of im_match_state] by (cases "im_match_state r") auto
      have "Ms_EXACT_MATCH \<in> ?S" using assms all by (cases results) force+
      moreover have "list_all (\<lambda>r. im_match_state r = Ms_EXACT_MATCH) results" using all by (simp add: list_all_iff)
      ultimately show ?thesis using 6 assms by (intro bexI [of _ Ms_EXACT_MATCH]) (simp_all add: recommended_fallback_def has)
    qed
  qed
  have "foldr max (map (\<lambda>r. ?h (im_match_state r)) results) 0 = strictness ?rec"
  proof (rule foldr_max_eq)
    show "strictness ?rec \<in> set (map (\<lambda>r. ?h (im_match_state r)) results)" using ex by (auto simp: image_iff) metis
    show "x \<le> strictness ?rec" if "x \<in> set (map (\<lambda>r. ?h (im_match_state r)) results)" for x using that upper by auto
  qed
  then have "strictness (strictest results) = strictness ?rec" using strictest_rank [of results] by simp
  then show ?thesis using rec strictness_inject by simp
qed


definition plain_contract :: intent_contract where
  "plain_contract = \<lparr>ic_contract_id = ''c'', ic_session_id = ''s'', ic_source = Cs_YAML, ic_task_objective = ''o'',
     ic_human_prompt = None, ic_ai_plan = None, ic_evidence_source = None, ic_evidence_metadata = [],
     ic_allowed_actions = [Op_MODIFY, Op_RENAME], ic_target_scopes = [\<lparr>sc_type = St_SYMBOL, sc_value = ''core'',
       sc_resource_kind = None, sc_metadata = []\<rparr>], ic_excluded_scopes = [], ic_risk_ceiling = 100, ic_expires_at = None,
     ic_enforcement_mode = Em_ENFORCE, ic_approved_by = None, ic_metadata = []\<rparr>"

definition plain_match :: "match_state \<Rightarrow> match_result" where
  "plain_match state = \<lparr>im_match_state = state, im_contract_id = None, im_action_id = None, im_matched_scopes = [],
     im_unmatched_scopes = [], im_reason_codes = [], im_decision_hint = Dh_NONE, im_metadata = []\<rparr>"

lemma fallback_is_strictest_witness:
  "fe_recommended_hint (evaluate_intent_fallback (map plain_match [Ms_EXACT_MATCH, Ms_DRIFT, Ms_PARTIAL_MATCH]) plain_contract) =
     Dh_REQUIRE_APPROVAL"
  using fallback_is_strictest [of "map plain_match [Ms_EXACT_MATCH, Ms_DRIFT, Ms_PARTIAL_MATCH]" plain_contract]
  by (simp add: strictest_def stricter_def plain_match_def)

section \<open>What a match means\<close>

lemma validate_match_fields:
  "validate_match m = Inr m' \<Longrightarrow> im_match_state m' = im_match_state m \<and> im_decision_hint m' = im_decision_hint m \<and>
     im_matched_scopes m' = im_matched_scopes m"
  by (auto simp: validate_match_def res_simps Let_def)

lemma sensitive_state: "na_resource_kind action = Rk_SENSITIVE \<Longrightarrow> im_match_state (match_result_of action contract graph) = Ms_HARD_SENSITIVE"
  by (cases "normalized_action_paths action") (simp add: match_result_of_def match_to_def Let_def)

text \<open>
  (C30) What an exact match promises: the action is not about a sensitive resource, every path of it is a valid
  path inside the repository, no excluded scope matches it, its operation is one of the allowed ones, and if a target
  scope speaks of paths or symbols then each affected path is covered by some target scope.
\<close>

theorem exact_match_in_scope:
  assumes "match_action_to_contract sha action contract = Inr m" and "im_match_state m = Ms_EXACT_MATCH"
  shows "\<exists>graph. safe_graph_for_paths sha (fst (normalized_action_paths action)) = Inr graph \<and>
    na_resource_kind action \<noteq> Rk_SENSITIVE \<and>
    list_all (\<lambda>p. \<not> isl (normalize_repo_relative_path p)) (raw_action_paths action) \<and>
    \<not> list_ex (scope_matches action (fst (normalized_action_paths action)) graph) (ic_excluded_scopes contract) \<and>
    na_operation action \<in> set (ic_allowed_actions contract) \<and>
    (requires_path_or_graph_scope (ic_target_scopes contract) \<longrightarrow>
      list_all (\<lambda>path. list_ex (scope_matches action [path] graph) (ic_target_scopes contract))
        (fst (normalized_action_paths action)))"
proof -
  obtain graph where g: "safe_graph_for_paths sha (fst (normalized_action_paths action)) = Inr graph"
    and v: "validate_match (match_result_of action contract graph) = Inr m"
    using assms(1) by (auto simp: match_action_to_contract_def res_simps)
  have state: "im_match_state (match_result_of action contract graph) = Ms_EXACT_MATCH"
    using validate_match_fields [OF v] assms(2) by simp
  let ?paths = "fst (normalized_action_paths action)"
  have s: "na_resource_kind action \<noteq> Rk_SENSITIVE"
    and codes: "snd (normalized_action_paths action) = []"
    and excl: "matching_scopes (ic_excluded_scopes contract) action ?paths graph = []"
    and ops: "om_exact (operation_allowed action contract)"
    and out: "ic_target_scopes contract = [] \<or> action_paths_outside_target_scopes (ic_target_scopes contract) action ?paths graph = []"
    using state by (auto simp: match_result_of_def match_to_def Let_def split: prod.splits if_splits)
  have "list_all (\<lambda>p. \<not> isl (normalize_repo_relative_path p)) (raw_action_paths action)"
    using codes by (auto simp: normalized_action_paths_def Let_def list_ex_iff list_all_iff split: if_splits)
  moreover have "na_operation action \<in> set (ic_allowed_actions contract)"
    using ops by (auto simp: operation_allowed_def Let_def split: if_splits option.splits)
  moreover have "\<not> list_ex (scope_matches action ?paths graph) (ic_excluded_scopes contract)"
    using excl by (auto simp: matching_scopes_def list_ex_iff filter_empty_conv)
  moreover have "list_all (\<lambda>path. list_ex (scope_matches action [path] graph) (ic_target_scopes contract)) ?paths"
    if "requires_path_or_graph_scope (ic_target_scopes contract)"
  proof -
    have "ic_target_scopes contract \<noteq> []" using that by (auto simp: requires_path_or_graph_scope_def)
    with out that show ?thesis
      by (auto simp: action_paths_outside_target_scopes_def filter_empty_conv list_all_iff split: if_splits)
  qed
  ultimately show ?thesis using g s by blast
qed

text \<open>Covering a path is judged with the graph of all the paths of the action, so a symbol scope covers more than its module.\<close>

lemma symbol_covers_all:
  assumes "scope \<in> set scopes" "sc_type scope = St_SYMBOL" "sc_resource_kind scope = None" "matches_symbol (sc_value scope) graph"
  shows "action_paths_outside_target_scopes scopes action paths graph = []"
  using assms by (auto simp: action_paths_outside_target_scopes_def filter_empty_conv list_ex_iff scope_matches_def intro!: bexI [of _ scope])

text \<open>
  A symbol scope lets unrelated paths through: when the only target is a symbol scope and some path of the
  action declares that module, the action is an exact match and allowed, whatever its other paths are, as long as they are
  valid paths and the operation is an allowed one.
\<close>

theorem symbol_scope_covers_other_paths:
  assumes "na_resource_kind action \<noteq> Rk_SENSITIVE" and "list_all (\<lambda>p. \<not> isl (normalize_repo_relative_path p)) (raw_action_paths action)"
    and "raw_action_paths action \<noteq> []" and "na_operation action \<in> set (ic_allowed_actions contract)" and "ic_excluded_scopes contract = []"
    and "ic_target_scopes contract = [scope]" and "sc_type scope = St_SYMBOL" and "sc_resource_kind scope = None"
    and "matches_symbol (sc_value scope) graph"
  shows "im_match_state (match_result_of action contract graph) = Ms_EXACT_MATCH \<and>
    im_decision_hint (match_result_of action contract graph) = Dh_ALLOW"
proof -
  have codes: "snd (normalized_action_paths action) = []"
    using assms(2) by (auto simp: normalized_action_paths_def Let_def list_ex_iff list_all_iff)
  obtain p q where "raw_action_paths action = p # q" using assms(3) by (cases "raw_action_paths action") auto
  moreover obtain n where "normalize_repo_relative_path p = Inr n"
    using assms(2) calculation by (cases "normalize_repo_relative_path p") auto
  ultimately have "n \<in> set (fst (normalized_action_paths action))"
    by (simp add: normalized_action_paths_def Let_def unique_def)
  then have paths: "fst (normalized_action_paths action) \<noteq> []" by auto
  obtain ps where ps: "normalized_action_paths action = (ps, [])" "ps \<noteq> []" using codes paths by (cases "normalized_action_paths action") auto
  have out: "action_paths_outside_target_scopes [scope] action ps graph = []"
    by (rule symbol_covers_all [of scope]) (use assms in simp_all)
  have op: "operation_allowed action contract = \<lparr>om_allowed = True, om_exact = True,
      om_reason_codes = [''operation-exact:'' @ intent_operation_value (na_operation action)]\<rparr>"
    using assms(4) by (simp add: operation_allowed_def Let_def)
  show ?thesis
    using assms(1,5-9) ps out by (simp add: match_result_of_def match_to_def Let_def op matching_scopes_def scope_matches_def)
qed

definition moved_module :: normalized_action where
  "moved_module = \<lparr>na_action_id = ''a'', na_source = As_FILESYSTEM, na_operation = Op_RENAME,
     na_affected_paths = [''src/core.py'', ''run''], na_old_path = Some ''src/core.py'', na_new_path = Some ''run'',
     na_resource_kind = Rk_PYTHON_MODULE, na_raw_evidence = [], na_diff_metadata = [], na_reason_codes = []\<rparr>"

lemma symbol_scope_covers_other_paths_witness:
  "im_decision_hint (match_result_of moved_module plain_contract
     \<lparr>rg_nodes = [module_node ''python_module'' Rk_PYTHON_MODULE ''python'' ''src/core.py'' ''core''], rg_edges = []\<rparr>) = Dh_ALLOW"
proof -
  have "list_all (\<lambda>p. \<not> isl (normalize_repo_relative_path p)) (raw_action_paths moved_module)" by code_simp
  moreover have "strip ''core'' = ''core''" by code_simp
  ultimately show ?thesis
    using symbol_scope_covers_other_paths [of moved_module plain_contract]
    by (simp add: moved_module_def plain_contract_def raw_action_paths_def matches_symbol_def module_node_def)
qed

section \<open>Sensitive changes\<close>

lemma dominant_sensitive:
  "p \<in> set paths \<Longrightarrow> resource_secret_path (lower (strip (slashed p))) \<Longrightarrow> dominant_resource_kind paths = Rk_SENSITIVE"
  by (force simp: dominant_resource_kind_def Let_def preferred_kinds_def resource_kind_for_path_def resource_kind_of_def)

lemma validated_kind: "validate_action a = Inr b \<Longrightarrow> na_resource_kind b = na_resource_kind a"
  by (auto simp: validate_action_def res_simps Let_def)

text \<open>
  A change to a sensitive path cannot pass an enforced contract: if any changed file, or the old path of a renamed
  one, contains a secret token, then whatever the command and the contract, the evaluation blocks.
\<close>

lemma sensitive_change_blocks:
  assumes "normalize_guarded_actions sha command (Some report) d = Inr actions"
    and "f \<in> set (cr_files report)" and "p \<in> set (affected_paths_for_changed_file f)"
    and "resource_secret_path (lower (strip (slashed p)))"
    and "match_actions_to_contract sha actions contract = Inr results" and "ic_enforcement_mode contract = Em_ENFORCE"
  shows "should_block (evaluate_intent_fallback results contract)"
proof -
  obtain as where as: "rmap (\<lambda>f. normalize_changed_file_action sha f (patch_files_by_key d (cf_old_path f, cf_path f)) d) (cr_files report) = Inr as"
    and sub: "set as \<subseteq> set actions"
    using assms(1) by (auto simp: normalize_guarded_actions_def normalize_changed_file_actions_def res_simps subset_insertI)
  obtain a where a: "normalize_changed_file_action sha f (patch_files_by_key d (cf_old_path f, cf_path f)) d = Inr a" "a \<in> set as"
    using rmap_mem [OF as assms(2)] by blast
  have "na_resource_kind a = Rk_SENSITIVE"
    using a(1) dominant_sensitive [OF assms(3,4)] by (auto simp: normalize_changed_file_action_def Let_def dest: validated_kind)
  moreover obtain m where m: "match_action_to_contract sha a contract = Inr m" "m \<in> set results"
    using rmap_mem [OF assms(5) [unfolded match_actions_to_contract_def]] a(2) sub by blast
  ultimately have "im_match_state m = Ms_HARD_SENSITIVE"
    using sensitive_state validate_match_fields by (fastforce simp: match_action_to_contract_def res_simps)
  then have "has_state Ms_HARD_SENSITIVE results" "results \<noteq> []" using m(2) by (auto simp: has_state_def list_ex_iff)
  then show ?thesis
    using assms(6) by (simp add: should_block_def evaluate_intent_fallback_def recommended_fallback_def effective_hint_def)
qed

definition docs_contract_scope :: intent_contract where
  "docs_contract_scope = plain_contract\<lparr>ic_target_scopes := [\<lparr>sc_type = St_PATH_GLOB, sc_value = ''docs/[a-c]*.md'',
     sc_resource_kind = None, sc_metadata = []\<rparr>]\<rparr>"

definition changed_at :: "string \<Rightarrow> changed_file" where
  "changed_at path = \<lparr>cf_path = path, cf_kind = MODIFIED, cf_old_path = None, cf_old_mode = None, cf_new_mode = None,
     cf_mode_changed = False\<rparr>"

lemma exact_match_in_scope_witness:
  "\<exists>a m. normalize_changed_file_action (\<lambda>_. ''h'') (changed_at ''docs/b1.md'') None None = Inr a \<and>
     match_action_to_contract (\<lambda>_. ''h'') a docs_contract_scope = Inr m \<and> Op_MODIFY \<in> set (ic_allowed_actions docs_contract_scope) \<and>
     na_operation a \<in> set (ic_allowed_actions docs_contract_scope)"
proof -
  have "case rbind (normalize_changed_file_action (\<lambda>_. ''h'') (changed_at ''docs/b1.md'') None None)
      (\<lambda>a. match_action_to_contract (\<lambda>_. ''h'') a docs_contract_scope) of
      Inl _ \<Rightarrow> False | Inr m \<Rightarrow> im_match_state m = Ms_EXACT_MATCH" by code_simp
  then obtain a m where a: "normalize_changed_file_action (\<lambda>_. ''h'') (changed_at ''docs/b1.md'') None None = Inr a"
    and m: "match_action_to_contract (\<lambda>_. ''h'') a docs_contract_scope = Inr m" "im_match_state m = Ms_EXACT_MATCH"
    by (auto simp: res_simps split: sum.splits)
  then show ?thesis using exact_match_in_scope [OF m] by (auto simp: docs_contract_scope_def plain_contract_def)
qed

definition sensitive_report :: changed_file_report where
  "sensitive_report = \<lparr>cr_workspace_path = ''/w'', cr_baseline_commit_sha = ''b'',
     cr_files = [changed_at ''docs/b1.md'', changed_at ''config/.ENV''], cr_ignored_files = []\<rparr>"

lemma sensitive_run:
  "\<exists>actions results. normalize_guarded_actions (\<lambda>_. ''h'') [''make''] (Some sensitive_report) None = Inr actions \<and>
     match_actions_to_contract (\<lambda>_. ''h'') actions docs_contract_scope = Inr results \<and>
     should_block (evaluate_intent_fallback results docs_contract_scope)"
proof -
  have "case rbind (normalize_guarded_actions (\<lambda>_. ''h'') [''make''] (Some sensitive_report) None)
      (\<lambda>actions. match_actions_to_contract (\<lambda>_. ''h'') actions docs_contract_scope) of Inl _ \<Rightarrow> False | Inr _ \<Rightarrow> True"
    by code_simp
  then obtain actions results where
    a: "normalize_guarded_actions (\<lambda>_. ''h'') [''make''] (Some sensitive_report) None = Inr actions"
    and r: "match_actions_to_contract (\<lambda>_. ''h'') actions docs_contract_scope = Inr results"
    by (auto simp: res_simps split: sum.splits)
  have "changed_at ''config/.ENV'' \<in> set (cr_files sensitive_report)"
    "''config/.ENV'' \<in> set (affected_paths_for_changed_file (changed_at ''config/.ENV''))"
    "ic_enforcement_mode docs_contract_scope = Em_ENFORCE"
    by (simp_all add: sensitive_report_def affected_paths_for_changed_file_def changed_at_def docs_contract_scope_def plain_contract_def)
  moreover have "resource_secret_path (lower (strip (slashed ''config/.ENV'')))" by code_simp
  ultimately show ?thesis using a r sensitive_change_blocks [OF a _ _ _ r] by blast
qed

end
