(* ===== verification/Intent_Review.thy ===== *)
theory Intent_Review
  imports Action_Normalizer Security
begin

text \<open>
  The records that are kept of an intent decision: the evidence summary of \<open>src/rygnal/intent_evidence.py\<close>, the receipt
  of \<open>intent_receipt.py\<close>, the review decision of \<open>intent_review.py\<close>, and the loading of contracts in
  \<open>intent_loader.py\<close>. SHA-256, YAML and pydantic's \<open>model_validate\<close> are arguments.
\<close>

section \<open>Evidence\<close>

text \<open>The value of \<open>redact_sensitive_value\<close> on a text is a text.\<close>

definition safe_text_hash :: "(string \<Rightarrow> string) \<Rightarrow> string option \<Rightarrow> string option" where
  "safe_text_hash sha text = map_option (\<lambda>t. sha (redact_sensitive_string t)) text"

definition byte_length :: "string option \<Rightarrow> int" where
  "byte_length text = (case text of None \<Rightarrow> 0 | Some t \<Rightarrow> int (utf8_len t))"

definition evidence_facts :: "(string \<Rightarrow> string) \<Rightarrow> intent_contract \<Rightarrow> dict" where
  "evidence_facts sha c =
     [(''schema_version'', PStr ''intent-evidence.v1''), (''evidence_source'', opt_val (ic_evidence_source c)),
      (''human_prompt_present'', PBool (ic_human_prompt c \<noteq> None)), (''ai_plan_present'', PBool (ic_ai_plan c \<noteq> None)),
      (''human_prompt_sha256'', opt_val (safe_text_hash sha (ic_human_prompt c))),
      (''ai_plan_sha256'', opt_val (safe_text_hash sha (ic_ai_plan c))),
      (''human_prompt_byte_length'', PInt (byte_length (ic_human_prompt c))),
      (''ai_plan_byte_length'', PInt (byte_length (ic_ai_plan c))),
      (''evidence_metadata_keys'', PTuple (map PStr (sort (map fst (ic_evidence_metadata c)))))]"

definition redacted_dumps :: "pyval \<Rightarrow> string res" where
  "redacted_dumps v = rbind (redact_sensitive_value v) (\<lambda>r. Inr (json_dumps r))"

definition summary_hash :: "(string \<Rightarrow> string) \<Rightarrow> dict \<Rightarrow> string res" where
  "summary_hash sha summary = rbind (redacted_dumps (dict_val summary)) (\<lambda>text. Inr (sha text))"

definition intent_evidence_audit_summary :: "(string \<Rightarrow> string) \<Rightarrow> intent_contract \<Rightarrow> dict res" where
  "intent_evidence_audit_summary sha c =
     rbind (summary_hash sha (evidence_facts sha c)) (\<lambda>h.
       Inr (evidence_facts sha c @ [(''combined_evidence_hash'', PStr h)]))"

section \<open>Receipts\<close>

record decision_receipt =
  dr_schema_version :: string
  dr_receipt_hash :: string
  dr_trace_id :: string
  dr_contract_id :: string
  dr_session_id :: string
  dr_enforcement_mode :: string
  dr_match_state :: string
  dr_recommended_hint :: string
  dr_effective_hint :: string
  dr_result_count :: int
  dr_action_ids :: "string list"
  dr_reason_codes :: "string list"
  dr_action_path_hashes :: "string list"
  dr_evidence_hash :: "string option"
  dr_metadata :: dict

definition receipt_summary :: "decision_receipt \<Rightarrow> dict" where
  "receipt_summary r =
     [(''schema_version'', PStr (dr_schema_version r)), (''receipt_hash'', PStr (dr_receipt_hash r)),
      (''trace_id'', PStr (dr_trace_id r)), (''contract_id'', PStr (dr_contract_id r)),
      (''session_id'', PStr (dr_session_id r)), (''enforcement_mode'', PStr (dr_enforcement_mode r)),
      (''match_state'', PStr (dr_match_state r)), (''recommended_hint'', PStr (dr_recommended_hint r)),
      (''effective_hint'', PStr (dr_effective_hint r)), (''result_count'', PInt (dr_result_count r)),
      (''action_ids'', PTuple (map PStr (dr_action_ids r))), (''reason_codes'', PTuple (map PStr (dr_reason_codes r))),
      (''action_path_hashes'', PTuple (map PStr (dr_action_path_hashes r))), (''evidence_hash'', opt_val (dr_evidence_hash r)),
      (''metadata'', dict_val (dr_metadata r))]"

text \<open>\<open>if action.old_path\<close> also asks that the text is not empty.\<close>

definition given :: "string option \<Rightarrow> string list" where
  "given x = (case x of None \<Rightarrow> [] | Some s \<Rightarrow> if s = [] then [] else [s])"

definition path_hash_or_none :: "(string \<Rightarrow> string) \<Rightarrow> string option \<Rightarrow> pyval" where
  "path_hash_or_none sha x = (case given x of [] \<Rightarrow> PNone | p # _ \<Rightarrow> PStr (sha p))"

definition receipt_reason_codes :: "match_result list \<Rightarrow> fallback_evaluation \<Rightarrow> string list" where
  "receipt_reason_codes results e = unique (fe_reason_codes e @ concat (map im_reason_codes results))"

definition receipt_action_ids :: "match_result list \<Rightarrow> normalized_action list \<Rightarrow> string list" where
  "receipt_action_ids results actions = unique (concat (map (\<lambda>r. given (im_action_id r)) results) @ map na_action_id actions)"

definition action_path_hashes :: "(string \<Rightarrow> string) \<Rightarrow> normalized_action list \<Rightarrow> string list" where
  "action_path_hashes sha actions = unique (concat (map (\<lambda>a. map sha (na_affected_paths a) @ map sha (given (na_old_path a)) @
     map sha (given (na_new_path a))) actions))"

text \<open>\<open>json.loads(json.dumps(...))\<close> makes lists of tuples; the order of the keys does not reach the hash.\<close>

definition intent_stable_json_value :: "pyval \<Rightarrow> pyval res" where
  "intent_stable_json_value v = rbind (redact_sensitive_value v) (\<lambda>r. Inr (json_mode r))"

definition receipt_payload ::
  "(string \<Rightarrow> string) \<Rightarrow> intent_contract \<Rightarrow> match_result list \<Rightarrow> fallback_evaluation \<Rightarrow> string \<Rightarrow> normalized_action list \<Rightarrow> dict \<Rightarrow>
   pyval" where
  "receipt_payload sha c results e trace_id actions evidence = dict_val
     [(''schema_version'', PStr ''intent-decision-receipt.v1''), (''trace_id'', PStr trace_id),
      (''contract'', dict_val
        [(''contract_id'', PStr (ic_contract_id c)), (''session_id'', PStr (ic_session_id c)),
         (''source'', PStr (contract_source_value (ic_source c))),
         (''enforcement_mode'', PStr (enforcement_mode_value (ic_enforcement_mode c))),
         (''allowed_actions'', PTuple (map (\<lambda>a. PStr (intent_operation_value a)) (ic_allowed_actions c))),
         (''target_scope_count'', PInt (int (length (ic_target_scopes c)))),
         (''excluded_scope_count'', PInt (int (length (ic_excluded_scopes c)))),
         (''risk_ceiling'', PInt (ic_risk_ceiling c)), (''intent_evidence'', dict_val evidence)]),
      (''decision'', dict_val
        [(''match_state'', PStr (match_state_value (fe_match_state e))),
         (''recommended_hint'', PStr (decision_hint_value (fe_recommended_hint e))),
         (''effective_hint'', PStr (decision_hint_value (fe_effective_hint e))),
         (''result_count'', PInt (int (length results))),
         (''reason_codes'', PTuple (map PStr (receipt_reason_codes results e)))]),
      (''matches'', PTuple (map (\<lambda>r. dict_val
        [(''match_state'', PStr (match_state_value (im_match_state r))),
         (''decision_hint'', PStr (decision_hint_value (im_decision_hint r))), (''action_id'', opt_val (im_action_id r)),
         (''contract_id'', opt_val (im_contract_id r)), (''reason_codes'', PTuple (map PStr (im_reason_codes r))),
         (''matched_scope_count'', PInt (int (length (im_matched_scopes r)))),
         (''unmatched_scope_count'', PInt (int (length (im_unmatched_scopes r))))]) results)),
      (''actions'', PTuple (map (\<lambda>a. dict_val
        [(''action_id'', PStr (na_action_id a)), (''source'', PStr (action_source_value (na_source a))),
         (''operation'', PStr (intent_operation_value (na_operation a))),
         (''resource_kind'', PStr (resource_kind_value (na_resource_kind a))),
         (''affected_path_count'', PInt (int (length (na_affected_paths a)))),
         (''affected_path_hashes'', PTuple (map (\<lambda>p. PStr (sha p)) (na_affected_paths a))),
         (''old_path_hash'', path_hash_or_none sha (na_old_path a)),
         (''new_path_hash'', path_hash_or_none sha (na_new_path a))]) actions))]"

definition intent_decision_receipt_payload ::
  "(string \<Rightarrow> string) \<Rightarrow> intent_contract \<Rightarrow> match_result list \<Rightarrow> fallback_evaluation \<Rightarrow> string \<Rightarrow> normalized_action list \<Rightarrow>
   pyval res" where
  "intent_decision_receipt_payload sha c results e trace_id actions =
     rbind (intent_evidence_audit_summary sha c) (\<lambda>evidence.
       intent_stable_json_value (receipt_payload sha c results e trace_id actions evidence))"

definition calculate_intent_decision_receipt_hash :: "(string \<Rightarrow> string) \<Rightarrow> pyval \<Rightarrow> string res" where
  "calculate_intent_decision_receipt_hash sha payload =
     rbind (intent_stable_json_value payload) (\<lambda>v. Inr (sha (json_dumps v)))"

definition build_intent_decision_receipt ::
  "(string \<Rightarrow> string) \<Rightarrow> intent_contract \<Rightarrow> match_result list \<Rightarrow> fallback_evaluation \<Rightarrow> string \<Rightarrow> normalized_action list \<Rightarrow>
   decision_receipt res" where
  "build_intent_decision_receipt sha c results e trace_id actions =
     rbind (summary_hash sha (evidence_facts sha c)) (\<lambda>evidence_hash.
     rbind (intent_decision_receipt_payload sha c results e trace_id actions) (\<lambda>payload.
     rbind (calculate_intent_decision_receipt_hash sha payload) (\<lambda>receipt_hash.
       Inr \<lparr>dr_schema_version = ''intent-decision-receipt.v1'', dr_receipt_hash = receipt_hash, dr_trace_id = trace_id,
         dr_contract_id = ic_contract_id c, dr_session_id = ic_session_id c,
         dr_enforcement_mode = enforcement_mode_value (ic_enforcement_mode c),
         dr_match_state = match_state_value (fe_match_state e),
         dr_recommended_hint = decision_hint_value (fe_recommended_hint e),
         dr_effective_hint = decision_hint_value (fe_effective_hint e), dr_result_count = int (length results),
         dr_action_ids = receipt_action_ids results actions, dr_reason_codes = receipt_reason_codes results e,
         dr_action_path_hashes = action_path_hashes sha actions, dr_evidence_hash = Some evidence_hash,
         dr_metadata = [(''payload_sha256'', PStr receipt_hash),
           (''target_scope_count'', PInt (int (length (ic_target_scopes c)))),
           (''excluded_scope_count'', PInt (int (length (ic_excluded_scopes c))))]\<rparr>)))"

section \<open>Review decisions\<close>

datatype review_decision_type = Rd_REVIEW_NEEDED | Rd_GROUPED_REVIEW_SUGGESTED | Rd_SCOPE_EXPANSION_SUGGESTED
  | Rd_POLICY_DENY | Rd_SILENT_PERMIT | Rd_SHADOW_ONLY_TRACE

fun review_decision_type_value :: "review_decision_type \<Rightarrow> string" where
  "review_decision_type_value Rd_REVIEW_NEEDED = ''review_needed''"
| "review_decision_type_value Rd_GROUPED_REVIEW_SUGGESTED = ''grouped_review_suggested''"
| "review_decision_type_value Rd_SCOPE_EXPANSION_SUGGESTED = ''scope_expansion_suggested''"
| "review_decision_type_value Rd_POLICY_DENY = ''policy_deny''"
| "review_decision_type_value Rd_SILENT_PERMIT = ''silent_permit''"
| "review_decision_type_value Rd_SHADOW_ONLY_TRACE = ''shadow_only_trace''"

datatype review_next_action = Rn_NONE | Rn_PERMIT | Rn_REVIEW | Rn_GROUP_REVIEW | Rn_REQUEST_SCOPE_EXPANSION_APPROVAL
  | Rn_DENY | Rn_INSPECT_SHADOW_TRACE

fun review_next_action_value :: "review_next_action \<Rightarrow> string" where
  "review_next_action_value Rn_NONE = ''none''"
| "review_next_action_value Rn_PERMIT = ''permit''"
| "review_next_action_value Rn_REVIEW = ''review''"
| "review_next_action_value Rn_GROUP_REVIEW = ''group_review''"
| "review_next_action_value Rn_REQUEST_SCOPE_EXPANSION_APPROVAL = ''request_scope_expansion_approval''"
| "review_next_action_value Rn_DENY = ''deny''"
| "review_next_action_value Rn_INSPECT_SHADOW_TRACE = ''inspect_shadow_trace''"

record review_decision =
  rd_decision :: review_decision_type
  rd_action_summary :: dict
  rd_affected_resources :: "dict list"
  rd_contract_id :: "string option"
  rd_proposed_additional_scope :: "dict list"
  rd_reason_codes :: "string list"
  rd_true_risk_level :: string
  rd_matched_scopes :: "dict list"
  rd_unmatched_scopes :: "dict list"
  rd_next_action :: review_next_action
  rd_metadata :: dict

abbreviation dicts_val :: "dict list \<Rightarrow> pyval" where
  "dicts_val ds \<equiv> PTuple (map dict_val ds)"

definition review_summary :: "review_decision \<Rightarrow> dict" where
  "review_summary r =
     [(''schema_version'', PStr ''intent-review.v1''), (''decision'', PStr (review_decision_type_value (rd_decision r))),
      (''action_summary'', dict_val (rd_action_summary r)), (''affected_resources'', dicts_val (rd_affected_resources r)),
      (''current_intent_contract_id'', opt_val (rd_contract_id r)),
      (''proposed_additional_scope'', dicts_val (rd_proposed_additional_scope r)),
      (''reason_codes'', PTuple (map PStr (rd_reason_codes r))), (''true_risk_level'', PStr (rd_true_risk_level r)),
      (''matched_scopes'', dicts_val (rd_matched_scopes r)), (''unmatched_scopes'', dicts_val (rd_unmatched_scopes r)),
      (''recommended_next_action'', PStr (review_next_action_value (rd_next_action r))), (''metadata'', dict_val (rd_metadata r))]"

definition scope_expansion_state :: "match_state \<Rightarrow> bool" where
  "scope_expansion_state s = (s \<in> {Ms_DRIFT, Ms_UNKNOWN})"

definition has_scope_expansion_candidate :: "match_result list \<Rightarrow> bool" where
  "has_scope_expansion_candidate results = list_ex (\<lambda>r. scope_expansion_state (im_match_state r)) results"

definition review_action_count :: "match_result list \<Rightarrow> nat" where
  "review_action_count results = length (remdups (concat (map (\<lambda>r. if im_match_state r \<noteq> Ms_EXACT_MATCH
     then given (im_action_id r) else []) results)))"

definition decision_type_and_next_action :: "match_result list \<Rightarrow> fallback_evaluation \<Rightarrow> review_decision_type \<times> review_next_action"
where
  "decision_type_and_next_action results e =
     (if fe_enforcement_mode e = Em_SHADOW then (Rd_SHADOW_ONLY_TRACE, Rn_INSPECT_SHADOW_TRACE)
      else if fe_effective_hint e \<in> {Dh_NONE, Dh_ALLOW} then (Rd_SILENT_PERMIT, Rn_PERMIT)
      else if fe_effective_hint e = Dh_BLOCK then (Rd_POLICY_DENY, Rn_DENY)
      else if fe_effective_hint e = Dh_REQUIRE_APPROVAL
      then (if has_scope_expansion_candidate results
            then (Rd_SCOPE_EXPANSION_SUGGESTED, Rn_REQUEST_SCOPE_EXPANSION_APPROVAL)
            else if 1 < review_action_count results then (Rd_GROUPED_REVIEW_SUGGESTED, Rn_GROUP_REVIEW)
            else (Rd_REVIEW_NEEDED, Rn_REVIEW))
      else if fe_effective_hint e = Dh_AUDIT \<and> 1 < review_action_count results
      then (Rd_GROUPED_REVIEW_SUGGESTED, Rn_GROUP_REVIEW)
      else if fe_effective_hint e = Dh_AUDIT \<and> fe_match_state e = Ms_PARTIAL_MATCH then (Rd_REVIEW_NEEDED, Rn_REVIEW)
      else (Rd_SILENT_PERMIT, Rn_PERMIT))"

definition review_action_summary :: "normalized_action list \<Rightarrow> match_result list \<Rightarrow> dict" where
  "review_action_summary actions results =
     [(''action_count'', PInt (int (length actions))),
      (''path_count'', PInt (int (sum_list (map (\<lambda>a. length (na_affected_paths a) + length (given (na_old_path a)) +
         length (given (na_new_path a))) actions)))),
      (''operation_counts'', dict_val (counts (map (\<lambda>a. intent_operation_value (na_operation a)) actions))),
      (''source_counts'', dict_val (counts (map (\<lambda>a. action_source_value (na_source a)) actions))),
      (''resource_kind_counts'', dict_val (counts (map (\<lambda>a. resource_kind_value (na_resource_kind a)) actions))),
      (''match_state_counts'', dict_val (counts (map (\<lambda>r. match_state_value (im_match_state r)) results))),
      (''action_ids'', PTuple (map (\<lambda>a. PStr (na_action_id a)) actions))]"

definition resource_summary :: "(string \<Rightarrow> string) \<Rightarrow> normalized_action \<Rightarrow> string \<Rightarrow> string \<Rightarrow> dict" where
  "resource_summary sha a path role =
     [(''action_id'', PStr (na_action_id a)), (''operation'', PStr (intent_operation_value (na_operation a))),
      (''resource_kind'', PStr (resource_kind_value (na_resource_kind a))), (''path'', PStr (redact_sensitive_string path)),
      (''path_sha256'', PStr (sha path)), (''role'', PStr role)]"

definition affected_resources :: "(string \<Rightarrow> string) \<Rightarrow> normalized_action list \<Rightarrow> dict list" where
  "affected_resources sha actions = concat (map (\<lambda>a.
     map (\<lambda>p. resource_summary sha a p ''affected_path'') (na_affected_paths a) @
     map (\<lambda>p. resource_summary sha a p ''old_path'') (given (na_old_path a)) @
     map (\<lambda>p. resource_summary sha a p ''new_path'') (given (na_new_path a)) @
     (if na_affected_paths a = [] \<and> given (na_old_path a) = [] \<and> given (na_new_path a) = []
      then [[(''action_id'', PStr (na_action_id a)), (''operation'', PStr (intent_operation_value (na_operation a))),
             (''resource_kind'', PStr (resource_kind_value (na_resource_kind a))), (''path'', PNone), (''path_sha256'', PNone),
             (''role'', PStr ''pathless_action'')]]
      else [])) actions)"

definition scope_expansion_summary :: "(string \<Rightarrow> string) \<Rightarrow> string \<Rightarrow> match_result \<Rightarrow> string option \<Rightarrow> dict" where
  "scope_expansion_summary sha path result kind =
     [(''type'', PStr ''exact_path''), (''value'', PStr (redact_sensitive_string path)), (''value_sha256'', PStr (sha path)),
      (''resource_kind'', opt_val kind), (''source_action_id'', opt_val (im_action_id result)),
      (''source_match_state'', PStr (match_state_value (im_match_state result))), (''requires_human_approval'', PBool True),
      (''auto_apply'', PBool False)]"

text \<open>Two summaries are the same if their sorted keys and the texts of their values are.\<close>

definition summary_marker :: "dict \<Rightarrow> (string \<times> string) list" where
  "summary_marker d = sort_key fst (map (\<lambda>(k, v). (k, str_val v)) d)"

fun unique_from :: "(string \<times> string) list list \<Rightarrow> dict list \<Rightarrow> dict list" where
  "unique_from seen [] = []"
| "unique_from seen (d # ds) = (if summary_marker d \<in> set seen then unique_from seen ds
     else d # unique_from (summary_marker d # seen) ds)"

definition unique_dicts :: "dict list \<Rightarrow> dict list" where
  "unique_dicts ds = unique_from [] ds"

text \<open>The paths in the metadata of a result are the texts that the matcher wrote there.\<close>

definition result_paths :: "match_result \<Rightarrow> string list" where
  "result_paths r = (case map_of (im_metadata r) ''affected_paths'' of
     Some (PTuple xs) \<Rightarrow> map str_val xs | Some (PList xs) \<Rightarrow> map str_val xs | _ \<Rightarrow> [])"

definition proposed_additional_scope :: "(string \<Rightarrow> string) \<Rightarrow> match_result list \<Rightarrow> normalized_action list \<Rightarrow> dict list" where
  "proposed_additional_scope sha results actions =
     (let by_id = map_of (rev (map (\<lambda>a. (na_action_id a, a)) actions)) in
      unique_dicts (concat (map (\<lambda>r.
        if \<not> scope_expansion_state (im_match_state r) then []
        else (case by_id (case im_action_id r of None \<Rightarrow> [] | Some i \<Rightarrow> i) of
            None \<Rightarrow> map (\<lambda>p. scope_expansion_summary sha p r None) (result_paths r)
          | Some a \<Rightarrow> map (\<lambda>p. scope_expansion_summary sha p r (Some (resource_kind_value (na_resource_kind a))))
              (na_affected_paths a @ given (na_old_path a) @ given (na_new_path a)))) results)))"

definition scope_summary :: "(string \<Rightarrow> string) \<Rightarrow> resource_scope \<Rightarrow> dict" where
  "scope_summary sha scope =
     [(''type'', PStr (scope_type_value (sc_type scope))), (''value'', PStr (redact_sensitive_string (sc_value scope))),
      (''value_sha256'', PStr (sha (sc_value scope))),
      (''resource_kind'', case sc_resource_kind scope of None \<Rightarrow> PNone | Some k \<Rightarrow> PStr (resource_kind_value k)),
      (''metadata_keys'', PTuple (map PStr (sort (map fst (sc_metadata scope)))))]"

definition scope_summaries :: "(string \<Rightarrow> string) \<Rightarrow> resource_scope list \<Rightarrow> dict list" where
  "scope_summaries sha scopes = unique_dicts (map (scope_summary sha) scopes)"

definition fallback_risk_level :: "fallback_evaluation \<Rightarrow> string" where
  "fallback_risk_level e =
     (if fe_effective_hint e = Dh_BLOCK then ''critical'' else if fe_effective_hint e = Dh_REQUIRE_APPROVAL then ''high''
      else if fe_effective_hint e = Dh_AUDIT then ''medium'' else ''low'')"

definition build_intent_review_decision ::
  "(string \<Rightarrow> string) \<Rightarrow> intent_contract \<Rightarrow> match_result list \<Rightarrow> fallback_evaluation \<Rightarrow> normalized_action list \<Rightarrow> string option \<Rightarrow>
   review_decision" where
  "build_intent_review_decision sha c results e actions true_risk_level =
     (let (decision, next_action) = decision_type_and_next_action results e in
      \<lparr>rd_decision = decision, rd_action_summary = review_action_summary actions results,
       rd_affected_resources = affected_resources sha actions, rd_contract_id = Some (ic_contract_id c),
       rd_proposed_additional_scope = proposed_additional_scope sha results actions,
       rd_reason_codes = receipt_reason_codes results e,
       rd_true_risk_level = (case given true_risk_level of [] \<Rightarrow> fallback_risk_level e | l # _ \<Rightarrow> l),
       rd_matched_scopes = scope_summaries sha (concat (map im_matched_scopes results)),
       rd_unmatched_scopes = scope_summaries sha (concat (map im_unmatched_scopes results)), rd_next_action = next_action,
       rd_metadata =
         [(''enforcement_mode'', PStr (enforcement_mode_value (fe_enforcement_mode e))),
          (''match_state'', PStr (match_state_value (fe_match_state e))),
          (''recommended_hint'', PStr (decision_hint_value (fe_recommended_hint e))),
          (''effective_hint'', PStr (decision_hint_value (fe_effective_hint e))), (''result_count'', PInt (fe_result_count e)),
          (''shadowed_recommended_hint'', if fe_enforcement_mode e = Em_SHADOW
             then PStr (decision_hint_value (fe_recommended_hint e)) else PNone),
          (''scope_auto_expanded'', PBool False), (''approval_submitted'', PBool False)]\<rparr>)"

text \<open>Under an enforced contract a review lets an action pass silently exactly if there are results and all are exact.\<close>

lemma review_permits_exact:
  assumes "ic_enforcement_mode contract = Em_ENFORCE"
  shows "snd (decision_type_and_next_action results (evaluate_intent_fallback results contract)) = Rn_PERMIT \<longleftrightarrow>
    results \<noteq> [] \<and> list_all (\<lambda>r. im_match_state r = Ms_EXACT_MATCH) results"
proof -
  obtain state hint reasons where r: "recommended_fallback results = (state, hint, reasons)" by (cases "recommended_fallback results")
  have other: "has_state s results \<Longrightarrow> s \<noteq> Ms_EXACT_MATCH \<Longrightarrow> \<not> list_all (\<lambda>r. im_match_state r = Ms_EXACT_MATCH) results" for s
    by (auto simp: has_state_def list_ex_iff list_all_iff)
  have "hint = Dh_ALLOW \<and> results \<noteq> [] \<and> list_all (\<lambda>r. im_match_state r = Ms_EXACT_MATCH) results \<or>
      (hint \<in> {Dh_BLOCK, Dh_REQUIRE_APPROVAL} \<or> hint = Dh_AUDIT \<and> state = Ms_PARTIAL_MATCH) \<and>
      \<not> (results \<noteq> [] \<and> list_all (\<lambda>r. im_match_state r = Ms_EXACT_MATCH) results)"
    using r other unfolding recommended_fallback_def by (simp split: if_split_asm)
  then show ?thesis
    using assms r by (auto simp: decision_type_and_next_action_def evaluate_intent_fallback_def effective_hint_def)
qed

section \<open>Loading contracts\<close>

definition DEFAULT_INTENT_MAX_BYTES :: int where
  "DEFAULT_INTENT_MAX_BYTES = 256 * 1024"

definition IntentLoadError :: "string \<Rightarrow> string \<Rightarrow> py_exn" where
  "IntentLoadError code message = Exn ValueErr ''IntentLoadError'' (code @ '': '' @ message)"

record intent_loader =
  il_model_validate :: "pyval \<Rightarrow> intent_contract option"
  il_json_loads :: "string \<Rightarrow> pyval option"
  il_yaml_load :: "string \<Rightarrow> pyval option"

definition load_intent_contract_from_mapping :: "intent_loader \<Rightarrow> pyval \<Rightarrow> intent_contract res" where
  "load_intent_contract_from_mapping l data = (case il_model_validate l data of
     None \<Rightarrow> Inl (IntentLoadError ''invalid_intent_contract'' ''Intent contract failed validation.'') | Some c \<Rightarrow> Inr c)"

definition load_intent_contract_from_document :: "intent_loader \<Rightarrow> pyval \<Rightarrow> intent_contract res" where
  "load_intent_contract_from_document l data =
     (case data of
        PNone \<Rightarrow> Inl (IntentLoadError ''empty_intent_contract'' ''Intent document must not be empty.'')
      | PDict _ \<Rightarrow> load_intent_contract_from_mapping l data
      | _ \<Rightarrow> Inl (IntentLoadError ''invalid_intent_document_shape'' ''Intent document must be a mapping/object.''))"

definition ensure_text_within_limit :: "string \<Rightarrow> unit res" where
  "ensure_text_within_limit text = (if DEFAULT_INTENT_MAX_BYTES < int (utf8_len text)
     then Inl (IntentLoadError ''intent_text_too_large'' ''Intent document exceeds the configured size limit.'') else Inr ())"

definition load_intent_contract_from_json_text :: "intent_loader \<Rightarrow> string \<Rightarrow> intent_contract res" where
  "load_intent_contract_from_json_text l text =
     rbind (ensure_text_within_limit text) (\<lambda>_.
       case il_json_loads l text of None \<Rightarrow> Inl (IntentLoadError ''invalid_intent_json'' ''Intent JSON is not valid.'')
       | Some data \<Rightarrow> load_intent_contract_from_document l data)"

definition load_intent_contract_from_yaml_text :: "intent_loader \<Rightarrow> string \<Rightarrow> intent_contract res" where
  "load_intent_contract_from_yaml_text l text =
     rbind (ensure_text_within_limit text) (\<lambda>_.
       case il_yaml_load l text of None \<Rightarrow> Inl (IntentLoadError ''invalid_intent_yaml'' ''Intent YAML is not valid.'')
       | Some data \<Rightarrow> load_intent_contract_from_document l data)"

text \<open>A path is absent, something other than a file, or a file with its size and what reading it gives.\<close>

datatype intent_file = NoFile | NotAFile | IntentFile int "py_exn + string"

definition load_intent_contract_from_yaml_file :: "intent_loader \<Rightarrow> intent_file \<Rightarrow> int \<Rightarrow> intent_contract res" where
  "load_intent_contract_from_yaml_file l f max_bytes =
     (case f of
        NoFile \<Rightarrow> Inl (IntentLoadError ''intent_file_not_found'' ''Intent file does not exist.'')
      | NotAFile \<Rightarrow> Inl (IntentLoadError ''intent_path_not_file'' ''Intent path must point to a file.'')
      | IntentFile size_bytes content \<Rightarrow>
          if max_bytes < size_bytes
          then Inl (IntentLoadError ''intent_file_too_large'' ''Intent file exceeds the configured size limit.'')
          else (case content of
              Inl e \<Rightarrow> if exn_kind e = OSErr
                then Inl (IntentLoadError ''intent_file_read_error'' ''Intent file could not be read.'') else Inl e
            | Inr text \<Rightarrow> load_intent_contract_from_yaml_text l text))"

end
