(* ===== verification/Patch_Finalizer.thy ===== *)
theory Patch_Finalizer
  imports Patch_Artifact Intent_Review
begin

text \<open>
  \<open>src/rygnal/guarded_patch_finalizer.py\<close>: the one place that decides, after a guarded command, whether its patch is
  dropped, applied or stored for an approval. The approval queue is given by its \<open>submit\<close>.
\<close>

section \<open>Requests and results\<close>

datatype final_apply_outcome = Fo_NOT_GENERATED | Fo_NOT_APPLIED | Fo_APPLIED | Fo_PENDING_APPROVAL | Fo_APPLY_FAILED

fun final_apply_outcome_value :: "final_apply_outcome \<Rightarrow> string" where
  "final_apply_outcome_value Fo_NOT_GENERATED = ''not_generated''"
| "final_apply_outcome_value Fo_NOT_APPLIED = ''not_applied''"
| "final_apply_outcome_value Fo_APPLIED = ''applied''"
| "final_apply_outcome_value Fo_PENDING_APPROVAL = ''pending_approval''"
| "final_apply_outcome_value Fo_APPLY_FAILED = ''apply_failed''"

datatype final_status = Fs_COMPLETED | Fs_FAILED | Fs_TIMED_OUT | Fs_BLOCKED | Fs_APPROVAL_REQUIRED

fun final_status_value :: "final_status \<Rightarrow> string" where
  "final_status_value Fs_COMPLETED = ''completed''"
| "final_status_value Fs_FAILED = ''failed''"
| "final_status_value Fs_TIMED_OUT = ''timed_out''"
| "final_status_value Fs_BLOCKED = ''blocked''"
| "final_status_value Fs_APPROVAL_REQUIRED = ''approval_required''"

record 'q finalization_request =
  fq_current_status :: string
  fq_run_id :: string
  fq_trace_id :: string
  fq_trusted_repo_path :: string
  fq_run_root :: string
  fq_user_id :: string
  fq_agent_id :: string
  fq_environment :: string
  fq_command_exit_code :: "int option"
  fq_command_timed_out :: bool
  fq_patch_diff :: "patch_diff option"
  fq_risk_report :: "risk_report option"
  fq_intent :: "fallback_evaluation option"
  fq_receipt :: "decision_receipt option"
  fq_submit :: "(approval_request \<Rightarrow> 'q \<Rightarrow> approval_request res \<times> 'q) option"

record finalization_result =
  fn_status :: final_status
  fn_apply_outcome :: final_apply_outcome
  fn_blocked_reason :: "string option"
  fn_approval_request :: "approval_request option"
  fn_artifact_id :: "string option"
  fn_safe_apply_result :: "safe_apply_result option"
  fn_gate_decision :: "gate_decision option"
  fn_approval_requirement :: "approval_requirement option"

definition final_applied :: "finalization_result \<Rightarrow> bool" where
  "final_applied r = (fn_apply_outcome r = Fo_APPLIED)"

definition final_pending :: "finalization_result \<Rightarrow> bool" where
  "final_pending r = (fn_apply_outcome r = Fo_PENDING_APPROVAL)"

definition opt_dict :: "('a \<Rightarrow> dict) \<Rightarrow> 'a option \<Rightarrow> pyval" where
  "opt_dict f x = (case x of None \<Rightarrow> PNone | Some y \<Rightarrow> dict_val (f y))"

definition finalization_summary :: "finalization_result \<Rightarrow> dict" where
  "finalization_summary r =
     [(''status'', PStr (final_status_value (fn_status r))),
      (''apply_outcome'', PStr (final_apply_outcome_value (fn_apply_outcome r))), (''applied'', PBool (final_applied r)),
      (''pending_approval'', PBool (final_pending r)), (''blocked_reason'', opt_val (fn_blocked_reason r)),
      (''artifact_id'', opt_val (fn_artifact_id r)),
      (''approval_id'', opt_val (map_option ar_approval_id (fn_approval_request r))),
      (''safe_apply'', opt_dict safe_apply_summary (fn_safe_apply_result r)),
      (''gate'', opt_dict gate_summary (fn_gate_decision r)),
      (''approval_requirement'', opt_dict requirement_summary (fn_approval_requirement r))]"

definition outcome :: "final_status \<Rightarrow> final_apply_outcome \<Rightarrow> string option \<Rightarrow> finalization_result" where
  "outcome status apply why = \<lparr>fn_status = status, fn_apply_outcome = apply, fn_blocked_reason = why,
     fn_approval_request = None, fn_artifact_id = None, fn_safe_apply_result = None, fn_gate_decision = None,
     fn_approval_requirement = None\<rparr>"

definition with_decision :: "gate_decision \<Rightarrow> approval_requirement \<Rightarrow> finalization_result \<Rightarrow> finalization_result" where
  "with_decision gate requirement r = r\<lparr>fn_gate_decision := Some gate, fn_approval_requirement := Some requirement\<rparr>"

text \<open>The state of the store, with the repository in it, and of the queue.\<close>

record ('w, 'q) final_state =
  fs_store :: "'w store_state"
  fs_queue :: 'q

type_synonym ('w, 'q, 'a) final_step = "(('w, 'q) final_state, 'a) py"

abbreviation fs_world :: "('w, 'q) final_state \<Rightarrow> 'w" where
  "fs_world s \<equiv> st_world (fs_store s)"

definition on_store :: "('w, 'a) store_step \<Rightarrow> ('w, 'q, 'a) final_step" where
  "on_store m s = (let (r, t) = m (fs_store s) in (r, s\<lparr>fs_store := t\<rparr>))"

text \<open>What the environment decides during one call: the draws, the root of the store and the ids.\<close>

record final_env =
  fv_draws :: event_draws
  fv_approval_draws :: approval_draws
  fv_root_facts :: root_facts
  fv_artifact_id :: string
  fv_persist :: op_env
  fv_delete :: op_env

section \<open>Pending approvals\<close>

definition final_severity :: "risk_level \<Rightarrow> severity" where
  "final_severity level = severity_from_risk_level level"

definition forced_approval_request ::
  "approval_draws \<Rightarrow> 'q finalization_request \<Rightarrow> patch_diff \<Rightarrow> risk_report \<Rightarrow> approval_requirement \<Rightarrow> string \<Rightarrow> string \<Rightarrow>
   approval_request res" where
  "forced_approval_request draws rq d report requirement why policy_id =
     checked_request
       \<lparr>ar_approval_id = draw_approval_id draws, ar_created_at = draw_created_at draws, ar_trace_id = fq_trace_id rq,
        ar_requested_by = fq_user_id rq, ar_agent_id = fq_agent_id rq, ar_environment = fq_environment rq,
        ar_tool_name = ''guarded_workspace'', ar_action = Some ''approve_patch_apply'', ar_target = PStr (pf_patch_sha256 d),
        ar_policy_id = Some policy_id, ar_reason = why, ar_severity = final_severity (overall_risk_level report),
        ar_risk_assessment = [(''requirement'', dict_val (requirement_summary requirement)),
          (''risk_report'', dict_val (risk_report_summary report)), (''forced_approval'', PBool True)],
        ar_metadata = patch_request_metadata d @ [(''forced_approval'', PBool True)]\<rparr>"

definition intent_summary :: "'q finalization_request \<Rightarrow> dict" where
  "intent_summary rq =
     (case fq_intent rq of None \<Rightarrow> []
      | Some e \<Rightarrow>
          [(''match_state'', PStr (match_state_value (fe_match_state e))),
           (''recommended_hint'', PStr (decision_hint_value (fe_recommended_hint e))),
           (''effective_hint'', PStr (decision_hint_value (fe_effective_hint e))), (''should_block'', PBool (should_block e)),
           (''requires_approval'', PBool (requires_approval e)),
           (''reason_codes'', PTuple (map PStr (fe_reason_codes e)))]) @
     (case fq_receipt rq of None \<Rightarrow> [] | Some r \<Rightarrow> [(''receipt'', dict_val (receipt_summary r))])"

definition persist_args_of :: "final_env \<Rightarrow> 'q finalization_request \<Rightarrow> persist_args" where
  "persist_args_of env rq = \<lparr>pa_run_id = fq_run_id rq, pa_trace_id = fq_trace_id rq,
     pa_intent_summary = str_keys (intent_summary rq), pa_ttl_seconds = DEFAULT_PATCH_ARTIFACT_TTL_SECONDS,
     pa_artifact_id = fv_artifact_id env\<rparr>"

definition submit_to_queue :: "'q finalization_request \<Rightarrow> approval_request \<Rightarrow> ('w, 'q, unit) final_step" where
  "submit_to_queue rq request s =
     (case fq_submit rq of
        None \<Rightarrow> (Inr (), s)
      | Some put \<Rightarrow> (let (r, q) = put request (fs_queue s) in
          (case r of Inl e \<Rightarrow> Inl e | Inr _ \<Rightarrow> Inr (), s\<lparr>fs_queue := q\<rparr>)))"

definition is_artifact_error :: "py_exn \<Rightarrow> bool" where
  "is_artifact_error e = (exn_type e \<in> {''PatchArtifactError'', ''PatchArtifactNotFoundError'', ''PatchArtifactTamperedError'',
     ''PatchArtifactExpiredError'', ''PatchArtifactConsumedError''})"

text \<open>The request that is stored: the ordinary one if an approval is required anyway, else the forced one.\<close>

definition pending_request ::
  "'w artifact_libs \<Rightarrow> final_env \<Rightarrow> 'q finalization_request \<Rightarrow> patch_diff \<Rightarrow> risk_report \<Rightarrow> gate_decision \<Rightarrow>
   approval_requirement \<Rightarrow> string option \<Rightarrow> string option \<Rightarrow> approval_request res" where
  "pending_request g env rq d report gate requirement forced_reason forced_policy_id =
     (if aq_required requirement \<and> forced_reason = None
      then create_patch_approval_request (al_risk (rt_apply g)) (fv_approval_draws env) d (fq_user_id rq) (fq_agent_id rq)
        (fq_environment rq) (Some report) (Some gate) (Some (fq_trace_id rq))
      else forced_approval_request (fv_approval_draws env) rq d report requirement
        (or_else forced_reason ''Explicit approval is required before trusted apply.'')
        (or_else forced_policy_id ''guarded-workspace-explicit-approval''))"

text \<open>The handler removes the artifact that was stored; an error of that other than the store's own is raised.\<close>

definition persist_failed ::
  "'w artifact_libs \<Rightarrow> final_env \<Rightarrow> patch_artifact option \<Rightarrow> (string \<Rightarrow> finalization_result) \<Rightarrow> py_exn \<Rightarrow>
   ('w, 'q, finalization_result) final_step" where
  "persist_failed g env stored_artifact result e =
     pbind (case stored_artifact of
         None \<Rightarrow> pret ()
       | Some a \<Rightarrow> pcatch (on_store (delete g (fv_delete env) (pt_artifact_id a)))
           (\<lambda>e'. if is_artifact_error e' then pret () else raise e')) (\<lambda>_.
     pret (result (''Pending approval persistence failed closed: '' @ exn_msg e)))"

definition persist_pending_approval ::
  "'w artifact_libs \<Rightarrow> final_env \<Rightarrow> 'q finalization_request \<Rightarrow> patch_diff \<Rightarrow> risk_report \<Rightarrow> gate_decision \<Rightarrow>
   approval_requirement \<Rightarrow> string option \<Rightarrow> string option \<Rightarrow> safe_apply_result option \<Rightarrow>
   ('w, 'q, finalization_result) final_step" where
  "persist_pending_approval g env rq d report gate requirement forced_reason forced_policy_id safe_result_opt s =
     (let complete = (\<lambda>r. (with_decision gate requirement r)\<lparr>fn_safe_apply_result := safe_result_opt\<rparr>);
          failed = (\<lambda>why. complete (outcome Fs_FAILED Fo_APPLY_FAILED (Some why)));
          root = rt_expand_resolve g (fs_world s) (fq_run_root rq) @ ''/artifacts'';
          create = pbind (lift_res (patch_artifact_store (fv_root_facts env) root)) (\<lambda>resolved.
            pbind (\<lambda>s. (Inr (), s\<lparr>fs_store := (fs_store s)\<lparr>st_root := resolved\<rparr>\<rparr>)) (\<lambda>_.
            pbind (lift_res (pending_request g env rq d report gate requirement forced_reason forced_policy_id)) (\<lambda>request.
            pbind (on_store (persist g (fv_persist env) (persist_args_of env rq) d request (fq_trusted_repo_path rq) report))
              (\<lambda>a. pret (request, a)))))
      in (case create s of
            (Inl e, t) \<Rightarrow> persist_failed g env None failed e t
          | (Inr (request, a), t) \<Rightarrow>
              let bound = bind_artifact_to_approval request a in
              (case submit_to_queue rq bound t of
                 (Inl e, u) \<Rightarrow> persist_failed g env (Some a) failed e u
               | (Inr _, u) \<Rightarrow>
                   (Inr (complete ((outcome Fs_APPROVAL_REQUIRED Fo_PENDING_APPROVAL (Some (ar_reason bound)))
                      \<lparr>fn_approval_request := Some bound, fn_artifact_id := Some (pt_artifact_id a)\<rparr>)), u))))"

section \<open>The decision\<close>

definition normalize_current_status :: "string \<Rightarrow> final_status" where
  "normalize_current_status v =
     (case find (\<lambda>s. final_status_value s = v) [Fs_COMPLETED, Fs_FAILED, Fs_TIMED_OUT, Fs_BLOCKED, Fs_APPROVAL_REQUIRED] of
        Some s \<Rightarrow> s | None \<Rightarrow> Fs_FAILED)"

definition intent_text :: "string \<Rightarrow> fallback_evaluation \<Rightarrow> string" where
  "intent_text msg e = msg @ ''match_state='' @ match_state_value (fe_match_state e) @ ''; reasons='' @ join '','' (fe_reason_codes e)"

definition auto_apply_or_store ::
  "'w artifact_libs \<Rightarrow> final_env \<Rightarrow> 'q finalization_request \<Rightarrow> patch_diff \<Rightarrow> risk_report \<Rightarrow> gate_decision \<Rightarrow>
   approval_requirement \<Rightarrow> ('w, 'q, finalization_result) final_step" where
  "auto_apply_or_store g env rq d report gate requirement s =
     (let ctx = \<lparr>ac_user = fq_user_id rq, ac_agent = fq_agent_id rq, ac_env = fq_environment rq, ac_trace = Some (fq_trace_id rq)\<rparr> in
      case on_store (on_apply (auto_apply_safe_patch (rt_apply g) (fv_draws env) ctx d (fq_trusted_repo_path rq)
          (Some report) (Some gate))) s of
        (Inl e, t) \<Rightarrow> (Inr (with_decision gate requirement (outcome Fs_FAILED Fo_APPLY_FAILED (Some
           ((if exn_type e = ''SafePatchApplyError'' then ''Automatic trusted apply failed closed: ''
             else ''Unexpected automatic apply failure: '') @ exn_msg e)))), t)
      | (Inr safe, t) \<Rightarrow>
          if sr_outcome safe = APPLIED
          then (Inr (with_decision gate requirement ((outcome Fs_COMPLETED Fo_APPLIED None)\<lparr>fn_safe_apply_result := Some safe\<rparr>)), t)
          else persist_pending_approval g env rq d report gate requirement
            (Some (''Patch passed the final block decision but is not eligible for automatic apply ('' @
               or_else (Some (join '', '' (map sk_code (sr_skip_reasons safe)))) ''unspecified-safe-apply-skip'' @
               ''); explicit approval is required.''))
            (Some ''guarded-workspace-non-auto-apply-approval'') (Some safe) t)"

text \<open>The decision on a patch with at least one file.\<close>

definition finalize_patch ::
  "'w artifact_libs \<Rightarrow> final_env \<Rightarrow> 'q finalization_request \<Rightarrow> patch_diff \<Rightarrow> ('w, 'q, finalization_result) final_step" where
  "finalize_patch g env rq d =
     (case fq_risk_report rq of
        None \<Rightarrow> pret (outcome Fs_FAILED Fo_APPLY_FAILED
          (Some ''Generated patch had no verified risk report; trusted mutation failed closed.''))
      | Some report \<Rightarrow>
          (case rbind (evaluate_guarded_change_gate (al_risk (rt_apply g)) d (Some report)) (\<lambda>gate.
              rbind (evaluate_patch_approval_requirement (al_risk (rt_apply g)) d (Some report) (Some gate)) (\<lambda>q. Inr (gate, q))) of
             Inl e \<Rightarrow> pret (outcome Fs_FAILED Fo_APPLY_FAILED (Some (''Patch decision evaluation failed closed: '' @ exn_msg e)))
           | Inr (gate, requirement) \<Rightarrow>
               let intent_requires = (case fq_intent rq of None \<Rightarrow> False | Some e \<Rightarrow> requires_approval e) in
               if blocked gate \<or> overall_risk_level report = CRITICAL
               then pret (with_decision gate requirement (outcome Fs_BLOCKED Fo_NOT_APPLIED (Some
                 (''Generated patch blocked before trusted mutation: '' @ ''critical risk or a dangerous change was detected.''))))
               else if aq_required requirement \<or> intent_requires
               then (let forced = intent_requires \<and> \<not> aq_required requirement in
                 persist_pending_approval g env rq d report gate requirement
                   (if forced then Some ''Intent enforcement requires approval before trusted apply.'' else None)
                   (if forced then Some ''guarded-workspace-intent-approval'' else None) None)
               else auto_apply_or_store g env rq d report gate requirement))"

definition no_patch :: "'q finalization_request \<Rightarrow> ('w, 'q, finalization_result) final_step" where
  "no_patch rq =
     (case fq_intent rq of
        Some e \<Rightarrow> if requires_approval e
          then pret (outcome Fs_APPROVAL_REQUIRED Fo_NOT_GENERATED
            (Some (intent_text ''Intent enforcement requires human review: '' e)))
          else pret (outcome Fs_COMPLETED Fo_NOT_GENERATED None)
      | None \<Rightarrow> pret (outcome Fs_COMPLETED Fo_NOT_GENERATED None))"

definition finalize_guarded_patch ::
  "'w artifact_libs \<Rightarrow> final_env \<Rightarrow> 'q finalization_request \<Rightarrow> ('w, 'q, finalization_result) final_step" where
  "finalize_guarded_patch g env rq =
     (let status = normalize_current_status (fq_current_status rq) in
      if fq_command_timed_out rq \<or> status = Fs_TIMED_OUT
      then pret (outcome Fs_TIMED_OUT Fo_NOT_APPLIED (Some ''Timed-out commands never apply generated changes.''))
      else if fq_command_exit_code rq \<notin> {None, Some 0} \<or> status = Fs_FAILED
      then pret (outcome Fs_FAILED Fo_NOT_APPLIED (Some ''Failed commands never apply generated changes.''))
      else if status = Fs_BLOCKED
      then pret (outcome Fs_BLOCKED Fo_NOT_APPLIED (Some ''Blocked guarded runs never apply generated changes.''))
      else if (case fq_intent rq of None \<Rightarrow> False | Some e \<Rightarrow> should_block e)
      then pret (outcome Fs_BLOCKED Fo_NOT_APPLIED
        (map_option (intent_text ''Intent enforcement blocked the generated action: '') (fq_intent rq)))
      else (case fq_patch_diff rq of
          Some d \<Rightarrow> if changed_file_count d = 0 then no_patch rq else finalize_patch g env rq d
        | None \<Rightarrow> no_patch rq))"

section \<open>What the steps keep\<close>

lemma keeps_lock: "keeps f body \<Longrightarrow> keeps f (artifact_lock env i body)"
  by (auto simp: keeps_def artifact_lock_def Let_def split: if_splits option.splits prod.splits)

lemma keeps_store_steps:
  "keeps st_apply (artifact_path g i)" "keeps st_apply (atomic_write env p v)" "keeps st_apply (load g now i e c)"
  by (auto simp: keeps_def artifact_path_def atomic_write_def Let_def dest: load_same split: if_splits option.splits write_fault.splits)

lemma keeps_delete: "keeps st_apply (delete g env i)"
proof -
  have "keeps st_apply (\<lambda>s. case st_files s p of None \<Rightarrow> (Inr (), s)
       | Some Irregular \<Rightarrow> (Inl (PatchArtifactTamperedError ''Refusing to delete a non-regular artifact path.''), s)
       | Some (Regular _) \<Rightarrow> (Inr (), s\<lparr>st_files := (st_files s)(p := None)\<rparr>))" for p
    by (auto simp: keeps_def split: option.splits stored.splits)
  then show ?thesis unfolding delete_def by (intro keeps_pbind keeps_basic keeps_lock keeps_store_steps)
qed

lemma keeps_persist: "keeps st_apply (persist g env args d request repo report)"
proof -
  have c: "keeps st_apply (\<lambda>t. check_that (P t) e t)" for P :: "'a store_state \<Rightarrow> bool" and e
    by (auto simp: keeps_def check_that_def pret_def raise_def)
  have "keeps st_apply (\<lambda>t. persist g env args d request repo report t)"
    unfolding keeps_def
  proof (intro allI impI)
    fix s r s' assume "persist g env args d request repo report s = (r, s')"
    then show "st_apply s' = st_apply s"
      unfolding persist_def Let_def
      by (rule keepsD [rotated]) (intro keeps_pbind keeps_basic keeps_lock keeps_store_steps c)
  qed
  then show ?thesis by simp
qed

lemma on_store_iff [py_simps]: "on_store m s = (r, s') \<longleftrightarrow> (\<exists>t. m (fs_store s) = (r, t) \<and> s' = s\<lparr>fs_store := t\<rparr>)"
  by (auto simp: on_store_def Let_def split: prod.splits)

lemma keeps_on_store: "keeps st_apply m \<Longrightarrow> keeps (\<lambda>s. st_apply (fs_store s)) (on_store m)"
  by (auto simp: keeps_def on_store_iff)

lemma keeps_failed: "keeps (\<lambda>s. st_apply (fs_store s)) (persist_failed g env a result e)"
  unfolding persist_failed_def
  by (intro keeps_pbind keeps_basic) (cases a; simp; intro keeps_pcatch keeps_on_store keeps_delete; simp)

lemma failed_result: "persist_failed g env a result e s = (Inr x, s') \<Longrightarrow> \<exists>why. x = result why"
  by (auto simp: persist_failed_def py_simps)

lemma keeps_submit: "keeps (\<lambda>s. st_apply (fs_store s)) (submit_to_queue rq request)"
  by (auto simp: keeps_def submit_to_queue_def Let_def split: option.splits prod.splits)

text \<open>What storing a pending approval does: the repository and the audit log are as before, and a result that says that
  an approval is pending comes with a stored artifact and an accepted request that names it.\<close>

definition pending_recorded ::
  "'w artifact_libs \<Rightarrow> 'q finalization_request \<Rightarrow> ('w, 'q) final_state \<Rightarrow> ('w, 'q) final_state \<Rightarrow> finalization_result \<Rightarrow> bool" where
  "pending_recorded g rq s s' x =
     (\<exists>request a bytes. fn_status x = Fs_APPROVAL_REQUIRED \<and> fn_artifact_id x = Some (pt_artifact_id a) \<and>
        intact g (fs_world s') a \<and> st_files (fs_store s') (pt_artifact_id a) = Some (Regular bytes) \<and>
        fn_approval_request x = Some (bind_artifact_to_approval request a) \<and>
        (case fq_submit rq of None \<Rightarrow> fs_queue s' = fs_queue s
         | Some put \<Rightarrow> \<exists>stored_request. put (bind_artifact_to_approval request a) (fs_queue s) = (Inr stored_request, fs_queue s')))"

lemma persist_loaded:
  assumes "persist g env args d request repo report s = (Inr a, s')"
  shows "\<exists>bytes. intact g (st_world s') a \<and> st_files s' (pt_artifact_id a) = Some (Regular bytes)"
proof -
  obtain t i now where "load g now i True True t = (Inr a, s')"
    using assms unfolding persist_def Let_def by (auto simp only: py_simps)
  moreover from this have "s' = t" by (rule load_same)
  ultimately show ?thesis using load_result(1,5) by blast
qed

lemma pending_result:
  assumes "persist_pending_approval g env rq d report gate requirement why policy_id safe s = (r, s')"
  shows "st_apply (fs_store s') = st_apply (fs_store s) \<and>
    (\<forall>x. r = Inr x \<longrightarrow> \<not> final_applied x \<and> (final_pending x \<longrightarrow> pending_recorded g rq s s' x))"
proof -
  define create :: "('a, 'b, approval_request \<times> patch_artifact) final_step" where
    "create = pbind (lift_res (patch_artifact_store (fv_root_facts env) (rt_expand_resolve g (fs_world s) (fq_run_root rq) @ ''/artifacts''))) (\<lambda>resolved.
            pbind (\<lambda>s. (Inr (), s\<lparr>fs_store := (fs_store s)\<lparr>st_root := resolved\<rparr>\<rparr>)) (\<lambda>_.
            pbind (lift_res (pending_request g env rq d report gate requirement why policy_id)) (\<lambda>request.
            pbind (on_store (persist g (fv_persist env) (persist_args_of env rq) d request (fq_trusted_repo_path rq) report))
              (\<lambda>a. pret (request, a)))))"
  define complete where "complete = (\<lambda>r. (with_decision gate requirement r)\<lparr>fn_safe_apply_result := safe\<rparr>)"
  define failed where "failed = (\<lambda>why. complete (outcome Fs_FAILED Fo_APPLY_FAILED (Some why)))"
  have run: "(case create s of (Inl e, t) \<Rightarrow> persist_failed g env None failed e t
          | (Inr (request, a), t) \<Rightarrow>
              (case submit_to_queue rq (bind_artifact_to_approval request a) t of
                 (Inl e, u) \<Rightarrow> persist_failed g env (Some a) failed e u
               | (Inr _, u) \<Rightarrow>
                   (Inr (complete ((outcome Fs_APPROVAL_REQUIRED Fo_PENDING_APPROVAL (Some (ar_reason (bind_artifact_to_approval request a))))
                      \<lparr>fn_approval_request := Some (bind_artifact_to_approval request a), fn_artifact_id := Some (pt_artifact_id a)\<rparr>)), u))) = (r, s')"
    using assms unfolding persist_pending_approval_def Let_def create_def complete_def failed_def by simp
  have kc: "keeps (\<lambda>s. st_apply (fs_store s)) create"
    unfolding create_def by (intro keeps_pbind keeps_basic keeps_on_store keeps_persist) (simp add: keeps_def)
  have bad: "\<not> final_applied (failed w) \<and> \<not> final_pending (failed w)" for w
    by (simp add: failed_def complete_def outcome_def with_decision_def final_applied_def final_pending_def)
  obtain c t where c: "create s = (c, t)" by fastforce
  note t = keepsD [OF kc c]
  show ?thesis
  proof (cases c)
    case (Inl e)
    with run c have f: "persist_failed g env None failed e t = (r, s')" by simp
    show ?thesis using keepsD [OF keeps_failed f] t failed_result [of g env None failed e t] f bad by fastforce
  next
    case (Inr p)
    obtain request a where p: "p = (request, a)" by fastforce
    obtain q u where q: "submit_to_queue rq (bind_artifact_to_approval request a) t = (q, u)" by fastforce
    note u = keepsD [OF keeps_submit q]
    show ?thesis
    proof (cases q)
      case (Inl e)
      with run c q Inr p have f: "persist_failed g env (Some a) failed e u = (r, s')" by simp
      show ?thesis using keepsD [OF keeps_failed f] t u failed_result [of g env "Some a" failed e u] f bad by fastforce
    next
      case q': (Inr v)
      have r: "s' = u" "r = Inr (complete ((outcome Fs_APPROVAL_REQUIRED Fo_PENDING_APPROVAL (Some (ar_reason (bind_artifact_to_approval request a))))
                      \<lparr>fn_approval_request := Some (bind_artifact_to_approval request a), fn_artifact_id := Some (pt_artifact_id a)\<rparr>))"
        using run c q Inr p q' by simp_all
      obtain s1 where s1: "persist g (fv_persist env) (persist_args_of env rq) d request (fq_trusted_repo_path rq) report s1 = (Inr a, fs_store t)"
        and qt: "fs_queue t = fs_queue s"
        using c Inr p by (auto simp: create_def py_simps)
      obtain bytes where b: "intact g (fs_world t) a" "st_files (fs_store t) (pt_artifact_id a) = Some (Regular bytes)"
        using persist_loaded [OF s1] by blast
      have us: "fs_store u = fs_store t" and sub: "case fq_submit rq of None \<Rightarrow> fs_queue u = fs_queue t
         | Some put \<Rightarrow> \<exists>x. put (bind_artifact_to_approval request a) (fs_queue t) = (Inr x, fs_queue u)"
        using q q' by (auto simp: submit_to_queue_def Let_def split: option.splits prod.splits sum.splits)
      show ?thesis
        using t u b us sub qt unfolding r pending_recorded_def
        by (auto simp: complete_def outcome_def with_decision_def final_applied_def final_pending_def split: option.splits)
    qed
  qed
qed

section \<open>The trusted repository\<close>

text \<open>What must hold of a run for its patch to be applied without an approval.\<close>

definition run_may_apply :: "'w artifact_libs \<Rightarrow> 'q finalization_request \<Rightarrow> ('w, 'q) final_state \<Rightarrow> bool" where
  "run_may_apply g rq s =
     (\<not> fq_command_timed_out rq \<and> (fq_command_exit_code rq = None \<or> fq_command_exit_code rq = Some 0) \<and>
      normalize_current_status (fq_current_status rq) \<in> {Fs_COMPLETED, Fs_APPROVAL_REQUIRED} \<and>
      (\<forall>e. fq_intent rq = Some e \<longrightarrow> \<not> should_block e \<and> \<not> requires_approval e) \<and>
      (\<exists>d report. fq_patch_diff rq = Some d \<and> fq_risk_report rq = Some report \<and> collect_block_reasons report = [] \<and>
        \<not> aq_required (patch_requirement d report (gate_report report)) \<and> eligible_patch d report (gate_report report) \<and>
        safe_preconditions (rt_apply g) d (al_resolve (rt_apply g) (fs_world s) (fq_trusted_repo_path rq)) (st_apply (fs_store s))))"

lemma auto_apply_or_store_result:
  assumes "git_contract (rt_apply g)" and "auto_apply_or_store g env rq d report gate requirement s = (r, s')"
  shows "(fs_world s' \<noteq> fs_world s \<or> (\<exists>x. r = Inr x \<and> final_applied x) \<longrightarrow>
      safe_preconditions (rt_apply g) d (al_resolve (rt_apply g) (fs_world s) (fq_trusted_repo_path rq)) (st_apply (fs_store s)) \<and>
      eligible_patch d report gate) \<and>
    (\<forall>x. r = Inr x \<longrightarrow> final_pending x \<longrightarrow> (\<exists>t. fs_world s' = fs_world s \<and> fs_queue t = fs_queue s \<and> pending_recorded g rq t s' x))"
proof -
  define ctx where "ctx = \<lparr>ac_user = fq_user_id rq, ac_agent = fq_agent_id rq, ac_env = fq_environment rq, ac_trace = Some (fq_trace_id rq)\<rparr>"
  obtain a u where a: "auto_apply_safe_patch (rt_apply g) (fv_draws env) ctx d (fq_trusted_repo_path rq) (Some report) (Some gate)
      (st_apply (fs_store s)) = (a, u)" by fastforce
  define t where "t = s\<lparr>fs_store := (fs_store s)\<lparr>st_apply := u\<rparr>\<rparr>"
  have st: "on_store (on_apply (auto_apply_safe_patch (rt_apply g) (fv_draws env) ctx d (fq_trusted_repo_path rq)
          (Some report) (Some gate))) s = (a, t)"
    using a by (simp add: on_store_iff on_apply_iff t_def)
  have guard: "as_world u \<noteq> fs_world s \<or> (\<exists>x. a = Inr x \<and> safe_applied x) \<Longrightarrow>
      safe_preconditions (rt_apply g) d (al_resolve (rt_apply g) (fs_world s) (fq_trusted_repo_path rq)) (st_apply (fs_store s)) \<and>
      eligible_patch d report gate"
    using auto_apply_result [OF assms(1) a refl] by (auto simp: report_or_def gate_or_def)
  show ?thesis
  proof (cases a)
    case (Inl e)
    then have "s' = t" "r = Inr (with_decision gate requirement (outcome Fs_FAILED Fo_APPLY_FAILED (Some
           ((if exn_type e = ''SafePatchApplyError'' then ''Automatic trusted apply failed closed: ''
             else ''Unexpected automatic apply failure: '') @ exn_msg e))))"
      using assms(2) st by (simp_all add: auto_apply_or_store_def Let_def ctx_def)
    then show ?thesis
      using guard by (auto simp: t_def with_decision_def outcome_def final_applied_def final_pending_def)
  next
    case (Inr safe)
    show ?thesis
    proof (cases "sr_outcome safe = APPLIED")
      case True
      then have "s' = t" "\<And>x. r = Inr x \<Longrightarrow> \<not> final_pending x"
        using assms(2) st Inr
        by (auto simp: auto_apply_or_store_def Let_def ctx_def with_decision_def outcome_def final_pending_def)
      then show ?thesis using guard True Inr by (auto simp: t_def safe_applied_def)
    next
      case False
      then have p: "persist_pending_approval g env rq d report gate requirement
            (Some (''Patch passed the final block decision but is not eligible for automatic apply ('' @
               or_else (Some (join '', '' (map sk_code (sr_skip_reasons safe)))) ''unspecified-safe-apply-skip'' @
               ''); explicit approval is required.''))
            (Some ''guarded-workspace-non-auto-apply-approval'') (Some safe) t = (r, s')"
        using assms(2) st Inr by (simp add: auto_apply_or_store_def Let_def ctx_def)
      have "as_world u = fs_world s"
        using auto_apply_result [OF assms(1) a refl] Inr False by (auto simp: safe_applied_def)
      then show ?thesis using pending_result [OF p] guard by (auto simp: t_def intro!: exI [of _ t])
    qed
  qed
qed

lemma finalize_patch_result:
  assumes "git_contract (rt_apply g)" and "finalize_patch g env rq d s = (r, s')"
  shows "(fs_world s' \<noteq> fs_world s \<or> (\<exists>x. r = Inr x \<and> final_applied x) \<longrightarrow>
      (\<forall>e. fq_intent rq = Some e \<longrightarrow> \<not> requires_approval e) \<and>
      (\<exists>report. fq_risk_report rq = Some report \<and> collect_block_reasons report = [] \<and>
        \<not> aq_required (patch_requirement d report (gate_report report)) \<and> eligible_patch d report (gate_report report) \<and>
        safe_preconditions (rt_apply g) d (al_resolve (rt_apply g) (fs_world s) (fq_trusted_repo_path rq)) (st_apply (fs_store s)))) \<and>
    (\<forall>x. r = Inr x \<longrightarrow> final_pending x \<longrightarrow> (\<exists>t. fs_world s' = fs_world s \<and> fs_queue t = fs_queue s \<and> pending_recorded g rq t s' x))"
proof (cases "fq_risk_report rq")
  case None
  then show ?thesis
    using assms(2) by (auto simp: finalize_patch_def pret_def outcome_def final_applied_def final_pending_def)
next
  case (Some report)
  define gate where "gate = gate_report report"
  define req where "req = patch_requirement d report gate"
  define needs where "needs = (case fq_intent rq of None \<Rightarrow> False | Some e \<Rightarrow> requires_approval e)"
  have ev: "rbind (evaluate_guarded_change_gate (al_risk (rt_apply g)) d (Some report)) (\<lambda>gate.
      rbind (evaluate_patch_approval_requirement (al_risk (rt_apply g)) d (Some report) (Some gate)) (\<lambda>q. Inr (gate, q))) = Inr (gate, req)"
    by (simp add: evaluate_guarded_change_gate_def evaluate_patch_approval_requirement_def gate_def req_def)
  consider (blocked) "blocked gate \<or> overall_risk_level report = CRITICAL"
    | (approval) "aq_required req \<or> needs" "\<not> (blocked gate \<or> overall_risk_level report = CRITICAL)"
    | (auto) "\<not> blocked gate" "\<not> aq_required req" "\<not> needs" "\<not> (blocked gate \<or> overall_risk_level report = CRITICAL)" by blast
  then show ?thesis
  proof cases
    case blocked
    then show ?thesis
      using assms(2) ev Some
      by (auto simp: finalize_patch_def pret_def Let_def with_decision_def outcome_def final_applied_def final_pending_def)
  next
    case approval
    obtain why pid where p: "persist_pending_approval g env rq d report gate req why pid None s = (r, s')"
      using assms(2) ev Some approval by (auto simp: finalize_patch_def Let_def needs_def)
    show ?thesis using pending_result [OF p] by (auto intro!: exI [of _ s])
  next
    case auto
    then have a: "auto_apply_or_store g env rq d report gate req s = (r, s')"
      using assms(2) ev Some by (simp add: finalize_patch_def Let_def needs_def)
    have "collect_block_reasons report = []" using auto(1) gate_report_blocked by (simp add: gate_def)
    moreover have "\<forall>e. fq_intent rq = Some e \<longrightarrow> \<not> requires_approval e" using auto(3) by (auto simp: needs_def split: option.splits)
    ultimately show ?thesis
      using auto_apply_or_store_result [OF assms(1) a] auto(2) Some by (auto simp: gate_def req_def)
  qed
qed

lemma finalize_cases:
  assumes "finalize_guarded_patch g env rq s = (r, s')"
  obtains (stopped) x where "r = Inr x" "s' = s" "\<not> final_applied x" "\<not> final_pending x"
  | (patch) d where "fq_patch_diff rq = Some d" "finalize_patch g env rq d s = (r, s')" "\<not> fq_command_timed_out rq"
      "fq_command_exit_code rq = None \<or> fq_command_exit_code rq = Some 0"
      "normalize_current_status (fq_current_status rq) \<in> {Fs_COMPLETED, Fs_APPROVAL_REQUIRED}"
      "\<forall>e. fq_intent rq = Some e \<longrightarrow> \<not> should_block e"
proof -
  define status where "status = normalize_current_status (fq_current_status rq)"
  define blocks where "blocks = (case fq_intent rq of None \<Rightarrow> False | Some e \<Rightarrow> should_block e)"
  have np: "no_patch rq s = (r, s') \<Longrightarrow> \<exists>x. r = Inr x \<and> s' = s \<and> \<not> final_applied x \<and> \<not> final_pending x"
    by (auto simp: no_patch_def pret_def outcome_def final_applied_def final_pending_def split: option.splits if_splits)
  have p: "pret (outcome a b c) s = (r, s') \<Longrightarrow> b \<noteq> Fo_APPLIED \<Longrightarrow> b \<noteq> Fo_PENDING_APPROVAL \<Longrightarrow> thesis" for a b c
    using stopped [of "outcome a b c"] by (auto simp: pret_def outcome_def final_applied_def final_pending_def)
  note run = assms [unfolded finalize_guarded_patch_def Let_def, folded status_def blocks_def]
  consider (t) "fq_command_timed_out rq \<or> status = Fs_TIMED_OUT" | (f) "fq_command_exit_code rq \<notin> {None, Some 0} \<or> status = Fs_FAILED"
    "\<not> (fq_command_timed_out rq \<or> status = Fs_TIMED_OUT)"
    | (b) "status = Fs_BLOCKED \<or> blocks" "\<not> (fq_command_timed_out rq \<or> status = Fs_TIMED_OUT)"
      "\<not> (fq_command_exit_code rq \<notin> {None, Some 0} \<or> status = Fs_FAILED)"
    | (go) "\<not> (fq_command_timed_out rq \<or> status = Fs_TIMED_OUT)" "\<not> (fq_command_exit_code rq \<notin> {None, Some 0} \<or> status = Fs_FAILED)"
      "\<not> blocks" "status \<noteq> Fs_BLOCKED" by blast
  then show thesis
  proof cases
    case t
    then show ?thesis using run p by (simp split: if_splits)
  next
    case f
    then show ?thesis using run p by (simp split: if_splits)
  next
    case b
    then show ?thesis using run p by (simp split: if_splits)
  next
    case go
    have run: "(case fq_patch_diff rq of Some d \<Rightarrow> if changed_file_count d = 0 then no_patch rq else finalize_patch g env rq d
        | None \<Rightarrow> no_patch rq) s = (r, s')"
      using run go by (cases "fq_command_exit_code rq") auto
    have s: "status \<in> {Fs_COMPLETED, Fs_APPROVAL_REQUIRED}" using go by (cases status) auto
    have i: "\<forall>e. fq_intent rq = Some e \<longrightarrow> \<not> should_block e" using go(3) by (auto simp: blocks_def split: option.splits)
    show ?thesis
    proof (cases "fq_patch_diff rq")
      case None
      with run np stopped show ?thesis by auto
    next
      case (Some d)
      show ?thesis
      proof (cases "changed_file_count d = 0")
        case True
        with run np stopped Some show ?thesis by auto
      next
        case False
        with run Some have "finalize_patch g env rq d s = (r, s')" by simp
        then show ?thesis using patch [OF Some] go(1,2) s i by (auto simp: status_def)
      qed
    qed
  qed
qed



section \<open>Two runs\<close>

definition docs_final :: "risk_report \<Rightarrow> unit finalization_request" where
  "docs_final report = \<lparr>fq_current_status = ''completed'', fq_run_id = ''run1'', fq_trace_id = ''t'', fq_trusted_repo_path = ''/r'',
     fq_run_root = ''/s'', fq_user_id = ''u'', fq_agent_id = ''g'', fq_environment = ''local'', fq_command_exit_code = Some 0,
     fq_command_timed_out = False, fq_patch_diff = Some docs_patch, fq_risk_report = Some report, fq_intent = None,
     fq_receipt = None, fq_submit = None\<rparr>"

definition docs_final_env :: final_env where
  "docs_final_env = \<lparr>fv_draws = sample_event_draws, fv_approval_draws = patch_draws,
     fv_root_facts = \<lparr>rf_mkdir = None, rf_symlink = False, rf_dir = True, rf_chmod = None, rf_resolved = ''/s''\<rparr>,
     fv_artifact_id = ''art1'', fv_persist = store_env, fv_delete = store_env\<rparr>"

definition docs_final_libs :: "bool artifact_libs" where
  "docs_final_libs = table_libs (\<lambda>_. Some (to_payload True docs_artifact))"

definition docs_final_state :: "(bool, unit) final_state" where
  "docs_final_state = \<lparr>fs_store = \<lparr>st_apply = docs_state, st_root = ''/s'', st_files = (\<lambda>_. None)\<rparr>, fs_queue = ()\<rparr>"

lemma docs_final_contract: "git_contract (rt_apply docs_final_libs)"
  by (simp add: docs_final_libs_def table_libs_def docs_contract)

lemma docs_size: "int (length (json_dumps (to_payload True docs_artifact))) \<le> MAX_PATCH_ARTIFACT_BYTES"
  by code_simp

lemma docs_pending_request:
  obtains q where "pending_request docs_final_libs docs_final_env (docs_final docs_high) docs_patch docs_high (gate_report docs_high)
      (patch_requirement docs_patch docs_high (gate_report docs_high)) None None = Inr q"
    "ar_target q = PStr (pf_patch_sha256 docs_patch)" "ar_approval_id q = ''a1''"
    "map_of (ar_metadata q) ''baseline_commit_sha'' = Some (PStr (pf_baseline_commit_sha docs_patch))"
proof -
  obtain q where q: "docs_request = Inr q" by (rule docs_request_made)
  have trace: "create_patch_approval_request l patch_draws d u a e rr gg (Some ''t'') = create_patch_approval_request l patch_draws d u a e rr gg None"
    for l d u a e rr gg
  proof -
    have o: "or_else (Some ''t'') (draw_trace_id patch_draws) = or_else None (draw_trace_id patch_draws)"
      by (simp add: or_else_def patch_draws_def)
    show ?thesis unfolding create_patch_approval_request_def o by (rule refl)
  qed
  have "al_risk (rt_apply docs_final_libs) = sample_libs" by (simp add: docs_final_libs_def table_libs_def docs_libs_def)
  then have "pending_request docs_final_libs docs_final_env (docs_final docs_high) docs_patch docs_high (gate_report docs_high)
      (patch_requirement docs_patch docs_high (gate_report docs_high)) None None = Inr q"
    using q docs_evaluations(3) trace by (simp add: pending_request_def docs_request_def docs_final_env_def docs_final_def)
  moreover have "ar_approval_id q = ''a1''"
    using q by (auto simp: docs_request_def create_patch_approval_request_def checked_request_def res_simps patch_draws_def
        split: sum.splits if_splits)
  moreover note created_request(1,2) [OF q [unfolded docs_request_def]]
  ultimately show thesis using that by (simp add: patch_request_metadata_def)
qed

lemma docs_finalize:
  "finalize_guarded_patch docs_final_libs docs_final_env (docs_final docs_high) =
     persist_pending_approval docs_final_libs docs_final_env (docs_final docs_high) docs_patch docs_high (gate_report docs_high)
       (patch_requirement docs_patch docs_high (gate_report docs_high)) None None None"
proof -
  have "\<not> blocked (gate_report docs_high)" using docs_evaluations(2) gate_report_blocked by simp
  moreover have "changed_file_count docs_patch \<noteq> 0" "overall_risk_level docs_high \<noteq> CRITICAL" by code_simp+
  ultimately show ?thesis
    using docs_evaluations(3)
    by (simp add: fun_eq_iff finalize_guarded_patch_def docs_final_def normalize_current_status_def finalize_patch_def Let_def
        evaluate_guarded_change_gate_def evaluate_patch_approval_requirement_def)
qed

lemma docs_final_applies:
  obtains x s' where "finalize_guarded_patch docs_final_libs docs_final_env (docs_final docs_report) docs_final_state = (Inr x, s')"
    "final_applied x"
proof -
  obtain safe u where a: "docs_run_result = (Inr safe, u)" "safe_applied safe"
    using docs_applied by (auto split: prod.splits sum.splits)
  have "\<not> blocked (gate_report docs_report)" "overall_risk_level docs_report \<noteq> CRITICAL" "changed_file_count docs_patch \<noteq> 0"
    "\<not> aq_required (patch_requirement docs_patch docs_report (gate_report docs_report))" by code_simp+
  then have "finalize_guarded_patch docs_final_libs docs_final_env (docs_final docs_report) = auto_apply_or_store docs_final_libs
      docs_final_env (docs_final docs_report) docs_patch docs_report (gate_report docs_report)
      (patch_requirement docs_patch docs_report (gate_report docs_report))"
    by (simp add: fun_eq_iff finalize_guarded_patch_def docs_final_def normalize_current_status_def finalize_patch_def Let_def
        evaluate_guarded_change_gate_def evaluate_patch_approval_requirement_def)
  then have "\<exists>x s'. finalize_guarded_patch docs_final_libs docs_final_env (docs_final docs_report) docs_final_state = (Inr x, s') \<and> final_applied x"
    using a
    by (simp add: auto_apply_or_store_def on_store_def on_apply_def Let_def docs_final_libs_def table_libs_def docs_final_def
        docs_final_env_def docs_final_state_def docs_run_result_def docs_context_def safe_applied_def final_applied_def
        with_decision_def outcome_def)
  then show thesis using that by blast
qed

lemma docs_persist:
  assumes "ar_target q = PStr (pf_patch_sha256 docs_patch)" "ar_approval_id q = ''a1''"
    "map_of (ar_metadata q) ''baseline_commit_sha'' = Some (PStr (pf_baseline_commit_sha docs_patch))"
  shows "\<exists>s'. persist docs_final_libs store_env (persist_args_of docs_final_env (docs_final docs_high)) docs_patch q ''/r'' docs_high
    (fs_store docs_final_state) = (Inr docs_artifact, s')"
proof -
  have e: "new_artifact docs_final_libs i 7 (7 + 3600 * 1000000) = new_artifact (table_libs (\<lambda>_. None)) i 7 20" for i
    by (intro ext) (simp add: new_artifact_def docs_final_libs_def table_libs_def)
  have a: "with_integrity_digest docs_final_libs (new_artifact docs_final_libs ''art1'' 7 (7 + 3600 * 1000000) docs_patch
      ''run1'' ''t'' ''a1'' ''/r'' ''h'' docs_high []) = docs_artifact"
    unfolding e docs_artifact_def with_integrity_digest_def by (simp add: table_digest docs_final_libs_def)
  have p: "rt_apply docs_final_libs = docs_libs" "rt_b64decode docs_final_libs = Some" "repo_identity docs_final_libs w r = Inr ''h''"
    "artifact_digest docs_final_libs v = ''h''" "rt_expand_resolve docs_final_libs w r = r"
    "rt_json_loads docs_final_libs x = Some (to_payload True docs_artifact)" for w r v x
    by (simp_all add: docs_final_libs_def table_libs_def docs_libs_def repo_identity_def encoded_def artifact_digest_def)
  have c: "conversions docs_final_libs" by (simp add: conversions_def docs_final_libs_def table_libs_def docs_libs_def)
  have t: "parse_timestamp docs_final_libs ''T2'' = Inr 7" "parse_timestamp docs_final_libs ''T4'' = Inr 20"
    by (simp_all add: parse_timestamp_def docs_final_libs_def table_libs_def docs_libs_def sample_times_def MAX_DATETIME_def)
  have v: "verify_artifact docs_final_libs w docs_artifact = Inr ()" for w
    by (simp add: verify_artifact_def docs_fields store_identifiers t p store_parts patch_bytes_def ensure_def)
  have j: "json_dumps (to_payload True docs_artifact) \<noteq> []"
    by (simp add: json_dumps_def to_payload_def json_tree_dict_val)
  have l: "acquire_lock (\<lambda>_. False) LOCK_RETRY_COUNT 0" by (simp add: acquire_iff LOCK_RETRY_COUNT_def exI [of _ 0])
  have d: "al_is_dir docs_libs w r" "al_resolve docs_libs w r = r" "al_encode_escape docs_libs x = x" "al_sha256 docs_libs x = ''h''"
      "pf_patch_sha256 docs_patch = ''h''" "pf_patch docs_patch = docs_text" "pf_patch_size_bytes docs_patch = int (length docs_text)" for w r x
    by (simp_all add: docs_libs_def docs_patch_def)
  show ?thesis
    using assms j docs_size
    by (simp add: persist_def Let_def pbind_def check_that_def pret_def lift_res_def p d store_identifiers persist_args_of_def
      docs_final_def docs_final_env_def intent_summary_def store_env_def DEFAULT_PATCH_ARTIFACT_TTL_SECONDS_def MAX_DATETIME_def
      a [simplified] artifact_lock_def l artifact_path_def artifact_file_def docs_final_state_def atomic_write_def
      load_def payload_back [OF c] v t docs_fields)
qed

lemma docs_final_pends:
  obtains x s' where "finalize_guarded_patch docs_final_libs docs_final_env (docs_final docs_high) docs_final_state = (Inr x, s')"
    "final_pending x"
proof -
  obtain q where q: "pending_request docs_final_libs docs_final_env (docs_final docs_high) docs_patch docs_high (gate_report docs_high)
      (patch_requirement docs_patch docs_high (gate_report docs_high)) None None = Inr q"
    "ar_target q = PStr (pf_patch_sha256 docs_patch)" "ar_approval_id q = ''a1''"
    "map_of (ar_metadata q) ''baseline_commit_sha'' = Some (PStr (pf_baseline_commit_sha docs_patch))"
    by (rule docs_pending_request)
  have s: "fs_store docs_final_state\<lparr>st_root := ''/s''\<rparr> = fs_store docs_final_state" by (simp add: docs_final_state_def)
  have r: "patch_artifact_store (fv_root_facts docs_final_env) y = Inr ''/s''" "fv_persist docs_final_env = store_env"
      "fq_submit (docs_final docs_high) = None" "fq_trusted_repo_path (docs_final docs_high) = ''/r''" for y
    by (simp_all add: patch_artifact_store_def docs_final_env_def docs_final_def)
  obtain t where "persist docs_final_libs store_env (persist_args_of docs_final_env (docs_final docs_high)) docs_patch q ''/r'' docs_high
    (fs_store docs_final_state) = (Inr docs_artifact, t)" using docs_persist q by blast
  then have "\<exists>x s'. finalize_guarded_patch docs_final_libs docs_final_env (docs_final docs_high) docs_final_state = (Inr x, s') \<and> final_pending x"
    using q(1) s
    by (simp add: docs_finalize persist_pending_approval_def Let_def pbind_def lift_res_def r on_store_def submit_to_queue_def pret_def
        final_pending_def with_decision_def outcome_def)
  then show thesis using that by blast
qed



section \<open>Sensitive changes\<close>

text \<open>
  (C19) From the inventory to the repository: if a guarded run changed a sensitive path, or moved a file away from one,
  and its contract is enforced, then the evaluation of the normalized actions makes the finalizer stop: the store, the queue and the
  repository are exactly as before, and the result is neither an applied patch nor a pending approval.
\<close>

theorem sensitive_run_changes_nothing:
  assumes "normalize_guarded_actions sha command (Some report) d = Inr actions"
    and "f \<in> set (cr_files report)" and "p \<in> set (affected_paths_for_changed_file f)"
    and "resource_secret_path (lower (strip (slashed p)))"
    and "match_actions_to_contract sha actions contract = Inr results" and "ic_enforcement_mode contract = Em_ENFORCE"
    and "fq_intent rq = Some (evaluate_intent_fallback results contract)"
    and "finalize_guarded_patch g env rq s = (r, s')"
  shows "s' = s \<and> (\<exists>x. r = Inr x \<and> \<not> final_applied x \<and> \<not> final_pending x)"
  using assms(8)
proof (cases rule: finalize_cases)
  case (stopped x)
  then show ?thesis by blast
next
  case (patch d)
  then show ?thesis using sensitive_change_blocks [OF assms(1-6)] assms(7) by blast
qed

lemma sensitive_run_changes_nothing_witness:
  "\<exists>results. snd (finalize_guarded_patch docs_final_libs docs_final_env
     ((docs_final docs_report)\<lparr>fq_intent := Some (evaluate_intent_fallback results docs_contract_scope)\<rparr>) docs_final_state) = docs_final_state"
proof -
  obtain actions results where
    a: "normalize_guarded_actions (\<lambda>_. ''h'') [''make''] (Some sensitive_report) None = Inr actions"
    and r: "match_actions_to_contract (\<lambda>_. ''h'') actions docs_contract_scope = Inr results"
    using sensitive_run by blast
  have f: "changed_at ''config/.ENV'' \<in> set (cr_files sensitive_report)"
    "''config/.ENV'' \<in> set (affected_paths_for_changed_file (changed_at ''config/.ENV''))"
    "ic_enforcement_mode docs_contract_scope = Em_ENFORCE"
    by (simp_all add: sensitive_report_def affected_paths_for_changed_file_def changed_at_def docs_contract_scope_def plain_contract_def)
  moreover have t: "resource_secret_path (lower (strip (slashed ''config/.ENV'')))" by code_simp
  let ?rq = "(docs_final docs_report)\<lparr>fq_intent := Some (evaluate_intent_fallback results docs_contract_scope)\<rparr>"
  obtain x s' where run: "finalize_guarded_patch docs_final_libs docs_final_env ?rq docs_final_state = (x, s')" by fastforce
  show ?thesis
    using sensitive_run_changes_nothing [OF a f(1,2) t r f(3) _ run] run by (intro exI [of _ results]) simp
qed

end
