(* ===== verification/Containment.thy ===== *)
theory Containment
  imports Patch_Apply
begin

text \<open>
  Where a guarded command runs: \<open>src/rygnal/execution_backend.py\<close> (the choice of a backend),
  \<open>process_containment.py\<close> (what a backend guarantees), \<open>workspace_mounts.py\<close>, \<open>production_containment.py\<close> (the
  verification of Bubblewrap and the bounded run of a command) and \<open>resource_limited_exec.py\<close> (the launcher that sets the
  limits). What the host answers (the programs on the path, their results, \<open>/proc\<close>, the limits of the process) is an argument.
\<close>

section \<open>Backends\<close>

datatype backend_name = LINUX_BUBBLEWRAP | LINUX_BUBBLEWRAP_HELPER | LINUX_SYSTEMD_USER | CONFIGURED_CONTAINER | UNSAFE_LOCAL

fun backend_value :: "backend_name \<Rightarrow> string" where
  "backend_value LINUX_BUBBLEWRAP = ''linux_bubblewrap''"
| "backend_value LINUX_BUBBLEWRAP_HELPER = ''linux_bubblewrap_helper''"
| "backend_value LINUX_SYSTEMD_USER = ''linux_systemd_user''"
| "backend_value CONFIGURED_CONTAINER = ''configured_container''"
| "backend_value UNSAFE_LOCAL = ''unsafe_local''"

definition ExecutionBackendSelectionError :: "string \<Rightarrow> py_exn" where
  "ExecutionBackendSelectionError msg = Exn RuntimeErr ''ExecutionBackendSelectionError'' msg"

record backend_selection =
  bs_name :: backend_name
  bs_safe_by_default :: bool
  bs_reason :: string
  bs_warning :: "string option"

text \<open>The host: its name, \<open>shutil.which\<close>, a probe (\<open>None\<close> if it cannot be run or times out) and \<open>json.loads\<close>.\<close>

record host =
  ho_system :: string
  ho_which :: "string \<Rightarrow> string option"
  ho_run :: "string list \<Rightarrow> (int \<times> string) option"
  ho_json_loads :: "string \<Rightarrow> pyval option"

record capability_overrides =
  co_os_name :: "string option"
  co_has_bwrap :: "bool option"
  co_bwrap_namespace_probe :: "bool option"
  co_official_image :: "bool option"
  co_sandbox_helper_probe :: "bool option"
  co_has_systemd_run :: "bool option"
  co_container_backend :: "string option"
  co_rootless_container :: "bool option"
  co_unsafe_local :: "bool option"

record host_capabilities =
  hc_os_name :: string
  hc_has_bwrap :: bool
  hc_bwrap_namespace_probe :: bool
  hc_official_image :: bool
  hc_sandbox_helper_probe :: bool
  hc_has_systemd_run :: bool
  hc_container_backend :: "string option"
  hc_rootless_container :: bool
  hc_unsafe_local :: bool

definition probe_ok :: "host \<Rightarrow> string list \<Rightarrow> bool" where
  "probe_ok h args = (case ho_run h args of None \<Rightarrow> False | Some (code, _) \<Rightarrow> code = 0)"

definition probe_bubblewrap_namespaces :: "host \<Rightarrow> bool" where
  "probe_bubblewrap_namespaces h =
     (case ho_which h ''bwrap'' of None \<Rightarrow> False
      | Some p \<Rightarrow> probe_ok h [p, ''--unshare-user'', ''--unshare-pid'', ''--ro-bind'', ''/'', ''/'', ''--proc'', ''/proc'', ''true''])"

definition probe_sandbox_helper :: "host \<Rightarrow> bool" where
  "probe_sandbox_helper h =
     (case ho_which h ''rygnal-sandbox-helper'' of None \<Rightarrow> False | Some p \<Rightarrow> probe_ok h [p, ''probe''])"

definition probe_podman_rootless :: "host \<Rightarrow> bool" where
  "probe_podman_rootless h =
     (case ho_which h ''podman'' of None \<Rightarrow> False
      | Some p \<Rightarrow> (case ho_run h [p, ''info'', ''--format'', ''{{.Host.Security.Rootless}}''] of None \<Rightarrow> False
          | Some (code, out) \<Rightarrow> code = 0 \<and> lower (strip out) = ''true''))"

definition probe_docker_rootless :: "host \<Rightarrow> bool" where
  "probe_docker_rootless h =
     (case ho_which h ''docker'' of None \<Rightarrow> False
      | Some p \<Rightarrow> (case ho_run h [p, ''info'', ''--format'', ''{{json .SecurityOptions}}''] of None \<Rightarrow> False
          | Some (code, out) \<Rightarrow> if code \<noteq> 0 then False
              else (case ho_json_loads h out of
                  Some (PList options) \<Rightarrow> list_ex (\<lambda>v. v = PStr ''name=rootless'') options
                | _ \<Rightarrow> False)))"

definition probe_verified_rootless_container :: "host \<Rightarrow> string option \<Rightarrow> bool" where
  "probe_verified_rootless_container h backend =
     (if backend = Some ''podman'' then probe_podman_rootless h
      else if backend = Some ''docker'' then probe_docker_rootless h else False)"

definition host_capabilities :: "host \<Rightarrow> (string \<Rightarrow> string option) \<Rightarrow> capability_overrides \<Rightarrow> host_capabilities" where
  "host_capabilities h env co =
     (let os_name = lower (or_else (co_os_name co) (ho_system h));
          has_bwrap = (case co_has_bwrap co of Some b \<Rightarrow> b | None \<Rightarrow> ho_which h ''bwrap'' \<noteq> None);
          container = (case co_container_backend co of Some c \<Rightarrow> Some c | None \<Rightarrow> env ''RYGNAL_CONFIGURED_CONTAINER_BACKEND'')
      in \<lparr>hc_os_name = os_name, hc_has_bwrap = has_bwrap,
         hc_bwrap_namespace_probe = (case co_bwrap_namespace_probe co of Some b \<Rightarrow> b
           | None \<Rightarrow> if os_name \<noteq> ''linux'' \<or> \<not> has_bwrap then False else probe_bubblewrap_namespaces h),
         hc_official_image = (case co_official_image co of Some b \<Rightarrow> b | None \<Rightarrow> env ''RYGNAL_OFFICIAL_CI_IMAGE'' = Some ''1''),
         hc_sandbox_helper_probe = (case co_sandbox_helper_probe co of Some b \<Rightarrow> b | None \<Rightarrow> probe_sandbox_helper h),
         hc_has_systemd_run = (case co_has_systemd_run co of Some b \<Rightarrow> b | None \<Rightarrow> ho_which h ''systemd-run'' \<noteq> None),
         hc_container_backend = container,
         hc_rootless_container = (case co_rootless_container co of Some b \<Rightarrow> b
           | None \<Rightarrow> probe_verified_rootless_container h container),
         hc_unsafe_local = (case co_unsafe_local co of Some b \<Rightarrow> b | None \<Rightarrow> env ''RYGNAL_UNSAFE_LOCAL'' = Some ''1'')\<rparr>)"

definition no_overrides :: capability_overrides where
  "no_overrides = \<lparr>co_os_name = None, co_has_bwrap = None, co_bwrap_namespace_probe = None, co_official_image = None,
     co_sandbox_helper_probe = None, co_has_systemd_run = None, co_container_backend = None, co_rootless_container = None,
     co_unsafe_local = None\<rparr>"

definition detect_host_backend_capabilities :: "host \<Rightarrow> (string \<Rightarrow> string option) \<Rightarrow> host_capabilities" where
  "detect_host_backend_capabilities h env = host_capabilities h env no_overrides"

definition verified_backend :: "backend_name \<Rightarrow> string \<Rightarrow> backend_selection res" where
  "verified_backend name why = Inr \<lparr>bs_name = name, bs_safe_by_default = True, bs_reason = why, bs_warning = None\<rparr>"

definition select_execution_backend :: "host_capabilities \<Rightarrow> backend_selection res" where
  "select_execution_backend c =
     (if hc_unsafe_local c
      then Inr \<lparr>bs_name = UNSAFE_LOCAL, bs_safe_by_default = False, bs_reason = ''Unsafe local execution was explicitly requested.'',
        bs_warning = Some ''Unsafe local execution is not a containment backend and must never be selected by default.''\<rparr>
      else if hc_os_name c = ''linux'' \<and> hc_official_image c \<and> hc_bwrap_namespace_probe c
      then verified_backend LINUX_BUBBLEWRAP ''Official Rygnal CI image provides verified Bubblewrap support.''
      else if hc_os_name c = ''linux'' \<and> hc_bwrap_namespace_probe c
      then verified_backend LINUX_BUBBLEWRAP ''Bubblewrap active namespace probe passed.''
      else if hc_os_name c = ''linux'' \<and> hc_sandbox_helper_probe c
      then verified_backend LINUX_BUBBLEWRAP_HELPER ''Signed sandbox helper probe passed for helper-backed Bubblewrap.''
      else if hc_os_name c = ''linux'' \<and> hc_has_systemd_run c
      then verified_backend LINUX_SYSTEMD_USER ''systemd-run --user is available as an optional Linux backend.''
      else if hc_rootless_container c
      then verified_backend CONFIGURED_CONTAINER (''Verified rootless container backend is available: '' @
        (case hc_container_backend c of None \<Rightarrow> ''None'' | Some s \<Rightarrow> s) @ ''.'')
      else if hc_os_name c = ''darwin''
      then Inl (ExecutionBackendSelectionError (''macOS is recognized, but Seatbelt containment is planned and not yet '' @
        ''active. Configure a verified rootless container backend before guarded '' @
        ''execution, for example RYGNAL_CONFIGURED_CONTAINER_BACKEND=docker '' @
        ''or RYGNAL_CONFIGURED_CONTAINER_BACKEND=podman with rootless container '' @
        ''support enabled. Alternatively run on a supported Linux backend with '' @
        ''Bubblewrap. Use --unsafe-local only as an explicit non-contained '' @ ''development/test escape hatch.''))
      else if hc_os_name c = ''windows''
      then Inl (ExecutionBackendSelectionError (''Windows is recognized, but native Windows containment is not supported. '' @
        ''Run Rygnal inside a supported WSL2/Linux backend or configure a '' @ ''verified rootless container backend.''))
      else Inl (ExecutionBackendSelectionError (''No verified containment backend is available for guarded execution. '' @
        ''Install Bubblewrap or configure a supported backend; Rygnal will not '' @ ''silently degrade to unsafe local execution.'')))"

section \<open>What a backend guarantees\<close>

datatype containment_level = STRONG | BEST_EFFORT | UNSUPPORTED

fun containment_level_value :: "containment_level \<Rightarrow> string" where
  "containment_level_value STRONG = ''strong''"
| "containment_level_value BEST_EFFORT = ''best_effort''"
| "containment_level_value UNSUPPORTED = ''unsupported''"

datatype cleanup_guarantee = ATOMIC_TREE_KILL | POSIX_PROCESS_GROUP | NO_CLEANUP

fun cleanup_guarantee_value :: "cleanup_guarantee \<Rightarrow> string" where
  "cleanup_guarantee_value ATOMIC_TREE_KILL = ''atomic_tree_kill''"
| "cleanup_guarantee_value POSIX_PROCESS_GROUP = ''posix_process_group''"
| "cleanup_guarantee_value NO_CLEANUP = ''none''"

datatype lifecycle_event = Le_STARTED | Le_COMPLETED | Le_TIMED_OUT | Le_CANCELLED | Le_CLEANUP_ATTEMPTED

fun lifecycle_event_value :: "lifecycle_event \<Rightarrow> string" where
  "lifecycle_event_value Le_STARTED = ''started''"
| "lifecycle_event_value Le_COMPLETED = ''completed''"
| "lifecycle_event_value Le_TIMED_OUT = ''timed_out''"
| "lifecycle_event_value Le_CANCELLED = ''cancelled''"
| "lifecycle_event_value Le_CLEANUP_ATTEMPTED = ''cleanup_attempted''"

record containment_capabilities =
  cc_backend_name :: backend_name
  cc_level :: containment_level
  cc_cleanup_guarantee :: cleanup_guarantee
  cc_pid_namespace :: bool
  cc_atomic_tree_kill :: bool
  cc_unsafe_local :: bool
  cc_limitations :: "string list"
  cc_network_isolated :: bool
  cc_ipc_namespace :: bool
  cc_uts_namespace :: bool
  cc_tmpfs_isolated :: bool
  cc_var_tmpfs_isolated :: bool
  cc_dev_sandboxed :: bool
  cc_identity_masked :: bool
  cc_host_environment_cleared :: bool
  cc_workspace_only_writable :: bool

definition isolation_features :: "containment_capabilities \<Rightarrow> (string \<times> bool) list" where
  "isolation_features c =
     [(''network_isolated'', cc_network_isolated c), (''pid_namespace'', cc_pid_namespace c), (''ipc_namespace'', cc_ipc_namespace c),
      (''uts_namespace'', cc_uts_namespace c), (''tmpfs_isolated'', cc_tmpfs_isolated c),
      (''var_tmpfs_isolated'', cc_var_tmpfs_isolated c), (''dev_sandboxed'', cc_dev_sandboxed c),
      (''identity_masked'', cc_identity_masked c), (''host_environment_cleared'', cc_host_environment_cleared c),
      (''workspace_only_writable'', cc_workspace_only_writable c), (''atomic_tree_kill'', cc_atomic_tree_kill c)]"

text \<open>The capabilities of a backend that isolates nothing but the named parts.\<close>

definition bare_capabilities ::
  "backend_name \<Rightarrow> containment_level \<Rightarrow> cleanup_guarantee \<Rightarrow> bool \<Rightarrow> bool \<Rightarrow> string list \<Rightarrow> containment_capabilities" where
  "bare_capabilities backend level cleanup atomic unsafe limitations =
     \<lparr>cc_backend_name = backend, cc_level = level, cc_cleanup_guarantee = cleanup, cc_pid_namespace = False,
      cc_atomic_tree_kill = atomic, cc_unsafe_local = unsafe, cc_limitations = limitations, cc_network_isolated = False,
      cc_ipc_namespace = False, cc_uts_namespace = False, cc_tmpfs_isolated = False, cc_var_tmpfs_isolated = False,
      cc_dev_sandboxed = False, cc_identity_masked = False, cc_host_environment_cleared = False, cc_workspace_only_writable = False\<rparr>"

definition evaluate_containment_capabilities :: "backend_name \<Rightarrow> containment_capabilities" where
  "evaluate_containment_capabilities backend =
     (if backend = LINUX_BUBBLEWRAP \<or> backend = LINUX_BUBBLEWRAP_HELPER
      then \<lparr>cc_backend_name = backend, cc_level = STRONG, cc_cleanup_guarantee = ATOMIC_TREE_KILL, cc_pid_namespace = True,
        cc_atomic_tree_kill = True, cc_unsafe_local = False, cc_limitations = [], cc_network_isolated = True,
        cc_ipc_namespace = True, cc_uts_namespace = True, cc_tmpfs_isolated = True, cc_var_tmpfs_isolated = True,
        cc_dev_sandboxed = True, cc_identity_masked = True, cc_host_environment_cleared = True, cc_workspace_only_writable = True\<rparr>
      else if backend = LINUX_SYSTEMD_USER then bare_capabilities backend STRONG ATOMIC_TREE_KILL True False []
      else if backend = UNSAFE_LOCAL then bare_capabilities backend BEST_EFFORT POSIX_PROCESS_GROUP False True
        [''POSIX process groups are not a security boundary.'',
         ''Detached children (double-fork, setsid, nohup) may survive timeout or cancellation.'',
         ''Parent exit code 0 does not guarantee child processes are terminated.'',
         ''Manual /proc PID-tree scanning is race-prone and disabled for security enforcement.'']
      else bare_capabilities backend UNSUPPORTED NO_CLEANUP False False
        [''Full process-tree containment is unverified or unavailable for this backend.'',
         ''Execution must fail closed unless explicitly overridden.''])"

record lifecycle_result =
  lr_event :: lifecycle_event
  lr_containment_verified :: bool
  lr_cleanup_guarantee :: cleanup_guarantee
  lr_limitations :: "string list"
  lr_audit_message :: string

definition build_lifecycle_result :: "containment_capabilities \<Rightarrow> lifecycle_event \<Rightarrow> lifecycle_result" where
  "build_lifecycle_result c event =
     (let verified = cc_atomic_tree_kill c in
      \<lparr>lr_event = event, lr_containment_verified = verified, lr_cleanup_guarantee = cc_cleanup_guarantee c,
       lr_limitations = cc_limitations c,
       lr_audit_message = (if verified
         then ''Process '' @ lifecycle_event_value event @ '' with verified containment (Atomic Tree Kill).''
         else ''Process '' @ lifecycle_event_value event @ '' with unverified containment. '' @
           ''Cleanup is best-effort ('' @ cleanup_guarantee_value (cc_cleanup_guarantee c) @ '').'')\<rparr>)"

section \<open>Mounts\<close>

definition MountSecurityError :: "string \<Rightarrow> py_exn" where
  "MountSecurityError msg = Exn ValueErr ''MountSecurityError'' msg"

datatype mount_kind = READ_ONLY_BIND | WRITABLE_BIND | EPHEMERAL_TMPFS | MASKED_PATH

fun mount_kind_value :: "mount_kind \<Rightarrow> string" where
  "mount_kind_value READ_ONLY_BIND = ''read_only_bind''"
| "mount_kind_value WRITABLE_BIND = ''writable_bind''"
| "mount_kind_value EPHEMERAL_TMPFS = ''ephemeral_tmpfs''"
| "mount_kind_value MASKED_PATH = ''masked_path''"

record mount_contract =
  mc_sandbox_path :: string
  mc_kind :: mount_kind
  mc_host_source :: "string option"

definition SANDBOX_ROOT :: posix_path where
  "SANDBOX_ROOT = posix_path ''/workspace''"

definition is_within_or_equal :: "posix_path \<Rightarrow> posix_path \<Rightarrow> bool" where
  "is_within_or_equal path parent =
     (path_parts path = path_parts parent \<or> take (length (path_parts parent)) (path_parts path) = path_parts parent)"

text \<open>\<open>root / candidate\<close> for a candidate without a root is the root followed by its parts.\<close>

definition normalize_sandbox_path :: "string \<Rightarrow> posix_path \<Rightarrow> string res" where
  "normalize_sandbox_path sandbox_path sandbox_root =
     (let root = posix_path (replace_char backslash (CHR ''/'') (as_posix sandbox_root));
          raw_path = strip (replace_char backslash (CHR ''/'') sandbox_path);
          candidate = posix_path raw_path;
          candidate' = (if is_absolute candidate then candidate else root\<lparr>path_tail := path_tail root @ path_tail candidate\<rparr>) in
      if \<not> is_absolute root then Inl (MountSecurityError (''Sandbox root must be absolute: '' @ as_posix sandbox_root))
      else if raw_path = [] then Inl (MountSecurityError ''Sandbox mount path must not be empty.'')
      else if ''..'' \<in> set (path_parts candidate) then Inl (MountSecurityError (''Sandbox path must not traverse: '' @ sandbox_path))
      else if ''..'' \<in> set (path_parts candidate') then Inl (MountSecurityError (''Sandbox path must not traverse: '' @ sandbox_path))
      else if \<not> is_within_or_equal candidate' root
      then Inl (MountSecurityError (''Sandbox path must stay under '' @ as_posix root @ '': '' @ sandbox_path))
      else Inr (as_posix candidate'))"

definition mount_contract :: "string \<Rightarrow> mount_kind \<Rightarrow> string option \<Rightarrow> mount_contract res" where
  "mount_contract sandbox_path kind host_source =
     rbind (normalize_sandbox_path sandbox_path SANDBOX_ROOT) (\<lambda>path.
       if kind = READ_ONLY_BIND \<or> kind = WRITABLE_BIND
       then if host_source = None \<or> map_option strip host_source = Some []
         then Inl (MountSecurityError (mount_kind_value kind @ '' mounts require host_source.''))
         else Inr \<lparr>mc_sandbox_path = path, mc_kind = kind, mc_host_source = host_source\<rparr>
       else if host_source \<noteq> None
       then Inl (MountSecurityError (mount_kind_value kind @ '' mounts must not define host_source.''))
       else Inr \<lparr>mc_sandbox_path = path, mc_kind = kind, mc_host_source = host_source\<rparr>)"

definition mount_sort_key :: "mount_contract \<Rightarrow> nat \<times> string" where
  "mount_sort_key m = (length (path_parts (posix_path (mc_sandbox_path m))), mc_sandbox_path m)"

fun duplicate_mount :: "string list \<Rightarrow> mount_contract list \<Rightarrow> string option" where
  "duplicate_mount seen [] = None"
| "duplicate_mount seen (m # ms) =
     (if mc_sandbox_path m \<in> set seen then Some (mc_sandbox_path m) else duplicate_mount (mc_sandbox_path m # seen) ms)"

definition workspace_mount_plan :: "mount_contract list \<Rightarrow> mount_contract list res" where
  "workspace_mount_plan mounts =
     (case duplicate_mount [] mounts of
        Some p \<Rightarrow> Inl (MountSecurityError (''Duplicate sandbox mount path: '' @ p))
      | None \<Rightarrow> Inr (sort_key mount_sort_key mounts))"

section \<open>Verification of Bubblewrap\<close>

datatype security_mode = DEVELOPMENT | PRODUCTION

fun security_mode_value :: "security_mode \<Rightarrow> string" where
  "security_mode_value DEVELOPMENT = ''development''"
| "security_mode_value PRODUCTION = ''production''"

definition execution_security_mode :: "string \<Rightarrow> security_mode" where
  "execution_security_mode env_name = (if lower (strip env_name) = ''production'' then PRODUCTION else DEVELOPMENT)"

definition MINIMUM_BUBBLEWRAP_VERSION :: "nat \<times> nat \<times> nat" where
  "MINIMUM_BUBBLEWRAP_VERSION = (0, 8, 0)"

definition REQUIRED_BUBBLEWRAP_FLAGS :: "string list" where
  "REQUIRED_BUBBLEWRAP_FLAGS = [''--die-with-parent'', ''--new-session'', ''--unshare-user'', ''--unshare-pid'', ''--unshare-ipc'',
     ''--unshare-uts'', ''--unshare-net'', ''--unshare-cgroup'', ''--cap-drop'', ''--clearenv'', ''--proc'', ''--dev'',
     ''--tmpfs'', ''--ro-bind'', ''--bind'', ''--setenv'', ''--chdir'']"

definition PRODUCTION_BUBBLEWRAP_HARDENING_FLAGS :: "string list" where
  "PRODUCTION_BUBBLEWRAP_HARDENING_FLAGS = [''--die-with-parent'', ''--new-session'', ''--unshare-cgroup'', ''--cap-drop'', ''ALL'']"

definition ALLOWED_PROBE_ENVIRONMENT :: "string list" where
  "ALLOWED_PROBE_ENVIRONMENT = [''HOME'', ''LANG'', ''LC_ALL'', ''LOGNAME'', ''PATH'', ''PWD'', ''RYGNAL_HOST_SECRET'', ''RYGNAL_PROBE'',
     ''TMPDIR'', ''USER'']"

definition NAMESPACE_NAMES :: "string list" where
  "NAMESPACE_NAMES = [''user'', ''pid'', ''ipc'', ''uts'', ''net'', ''cgroup'']"

text \<open>The grace time is \<open>None\<close> if the float is not finite.\<close>

record containment_limits =
  cl_cpu_seconds :: int
  cl_address_space_bytes :: int
  cl_file_size_bytes :: int
  cl_open_files :: int
  cl_processes :: int
  cl_max_output_bytes :: int
  cl_termination_grace :: "real option"

definition default_limits :: containment_limits where
  "default_limits = \<lparr>cl_cpu_seconds = 120, cl_address_space_bytes = 2 * 1024 ^ 3, cl_file_size_bytes = 64 * 1024 ^ 2,
     cl_open_files = 256, cl_processes = 128, cl_max_output_bytes = 1024 ^ 2, cl_termination_grace = Some 1\<rparr>"

definition validate_limits :: "containment_limits \<Rightarrow> unit res" where
  "validate_limits l =
     (case find (\<lambda>(name, value). value \<le> 0) [(''cpu_seconds'', cl_cpu_seconds l), (''address_space_bytes'', cl_address_space_bytes l),
          (''file_size_bytes'', cl_file_size_bytes l), (''open_files'', cl_open_files l), (''processes'', cl_processes l),
          (''max_output_bytes'', cl_max_output_bytes l)] of
        Some (name, _) \<Rightarrow> Inl (Exn ValueErr ''ValueError'' (name @ '' must be a positive integer.''))
      | None \<Rightarrow>
          if (case cl_termination_grace l of None \<Rightarrow> True | Some t \<Rightarrow> t \<le> 0)
          then Inl (Exn ValueErr ''ValueError'' ''termination_grace_seconds must be positive and finite.'')
          else if cl_max_output_bytes l > cl_file_size_bytes l
          then Inl (Exn ValueErr ''ValueError'' ''max_output_bytes cannot exceed file_size_bytes.'') else Inr ())"

definition minimal_launcher_environment :: "(string \<times> string) list" where
  "minimal_launcher_environment = [(''HOME'', ''/nonexistent''), (''LANG'', ''C.UTF-8''), (''LC_ALL'', ''C.UTF-8''),
     (''LOGNAME'', ''rygnal''), (''PATH'', ''/usr/bin:/bin''), (''TMPDIR'', ''/tmp''), (''USER'', ''rygnal'')]"

record verification =
  vb_eligible :: bool
  vb_platform_name :: string
  vb_executable_path :: "string option"
  vb_executable_sha256 :: "string option"
  vb_version :: "string option"
  vb_reasons :: "string list"
  vb_features :: "(string \<times> bool) list"

definition verification_reason :: "verification \<Rightarrow> string" where
  "verification_reason v =
     (if vb_eligible v then ''Bubblewrap passed production containment verification.''
      else or_else (Some (join ''; '' (vb_reasons v))) ''Production containment verification failed.'')"

text \<open>\<open>s.partition(c)\<close>: the text before the first \<open>c\<close> and, if there is one, the text after it.\<close>

definition cut_at :: "char \<Rightarrow> string \<Rightarrow> string \<times> string option" where
  "cut_at c s = (let rest = dropWhile (\<lambda>x. x \<noteq> c) s in
     (takeWhile (\<lambda>x. x \<noteq> c) s, if rest = [] then None else Some (tl rest)))"

definition without_prefix :: "string \<Rightarrow> string \<Rightarrow> string" where
  "without_prefix p s = (if starts_with s p then drop (length p) s else s)"

text \<open>What the probe printed. A line may set the keys \<open>namespaces\<close> and \<open>environment\<close> of the dictionary too.\<close>

record probe_output =
  po_namespaces :: "(string \<times> string) list"
  po_environment :: "string list"
  po_values :: "(string \<times> string) list"

fun parse_probe_lines :: "bool \<Rightarrow> string list \<Rightarrow> probe_output \<Rightarrow> probe_output" where
  "parse_probe_lines in_environment [] out = out"
| "parse_probe_lines in_environment (raw_line # lines) out =
     (let line = strip raw_line in
      if line = ''ENV_BEGIN'' then parse_probe_lines True lines out
      else if line = ''ENV_END'' then parse_probe_lines False lines out
      else if in_environment then parse_probe_lines in_environment lines (out\<lparr>po_environment := po_environment out @ [line]\<rparr>)
      else if starts_with line ''ns:''
      then parse_probe_lines in_environment lines
        (case cut_at (CHR ''='') (without_prefix ''ns:'' line) of
           (_, None) \<Rightarrow> out
         | (key, Some value) \<Rightarrow> out\<lparr>po_namespaces := AList.update key value (po_namespaces out)\<rparr>)
      else parse_probe_lines in_environment lines
        (case cut_at (CHR ''='') line of
           (_, None) \<Rightarrow> out
         | (key, Some value) \<Rightarrow> out\<lparr>po_values := AList.update key value (po_values out)\<rparr>))"

definition parse_probe_output :: "string \<Rightarrow> probe_output" where
  "parse_probe_output output = parse_probe_lines False (splitlines output) \<lparr>po_namespaces = [], po_environment = [], po_values = []\<rparr>"

text \<open>\<open>\bbubblewrap\s+(\d+)\.(\d+)\.(\d+)\b\<close>, ignoring case; the groups are the numbers at the end of the match.\<close>

definition ascii_digit :: "char \<Rightarrow> bool" where
  "ascii_digit c = (48 \<le> codept c \<and> codept c \<le> 57)"

definition BUBBLEWRAP_VERSION :: regex where
  "BUBBLEWRAP_VERSION = Seqs [WordB, LitI ''bubblewrap'', Plus space, Plus (Chr ascii_digit), chr (CHR ''.''), Plus (Chr ascii_digit),
     chr (CHR ''.''), Plus (Chr ascii_digit), WordB]"

definition digits_value :: "string \<Rightarrow> nat" where
  "digits_value s = foldl (\<lambda>n c. 10 * n + (codept c - 48)) 0 s"

definition parse_bubblewrap_version :: "string \<Rightarrow> (nat \<times> nat \<times> nat) option" where
  "parse_bubblewrap_version output =
     (case re_findall BUBBLEWRAP_VERSION output of
        [] \<Rightarrow> None
      | m # _ \<Rightarrow> (case map digits_value (split_on (CHR ''.'') (dropWhile is_space (drop (length ''bubblewrap'') m))) of
            [a, b, c] \<Rightarrow> Some (a, b, c) | _ \<Rightarrow> None))"

definition format_version :: "(nat \<times> nat \<times> nat) option \<Rightarrow> string" where
  "format_version v = (case v of None \<Rightarrow> ''unknown'' | Some (a, b, c) \<Rightarrow> join ''.'' (map digits_of [a, b, c]))"

text \<open>The executable that was found: its resolved path or the error of resolving it, its kind, its mode bits and owner.\<close>

record executable_facts =
  xf_resolved :: "string res"
  xf_regular :: bool
  xf_accessible :: bool
  xf_group_or_world_writable :: bool
  xf_owner :: int
  xf_own_uid :: int

definition validate_executable :: "executable_facts \<Rightarrow> string res" where
  "validate_executable x =
     rbind (xf_resolved x) (\<lambda>resolved.
       if \<not> xf_regular x then Inl (Exn OSErr ''OSError'' ''Bubblewrap path is not a regular file.'')
       else if \<not> xf_accessible x then Inl (Exn OSErr ''OSError'' ''Bubblewrap path is not executable.'')
       else if xf_group_or_world_writable x
       then Inl (Exn OSErr ''OSError'' ''Bubblewrap executable is group- or world-writable.'')
       else if xf_owner x \<notin> {0, xf_own_uid x} then Inl (Exn OSErr ''OSError'' ''Bubblewrap executable has an untrusted owner.'')
       else Inr resolved)"

text \<open>
  The host as the verification sees it: the runner's result of a command in an environment, or the exception it raises; the
  namespaces of this process; which paths exist and where they lead; the path of the secret file.
\<close>

record probe_host =
  ph_which_bwrap :: "string option"
  ph_executable :: "string \<Rightarrow> executable_facts"
  ph_sha256_file :: "string \<Rightarrow> string res"
  ph_runner :: "string list \<Rightarrow> (string \<times> string) list \<Rightarrow> (int \<times> string \<times> string) res"
  ph_namespace :: "string \<Rightarrow> string option"
  ph_exists :: "string \<Rightarrow> bool"
  ph_realpath :: "string \<Rightarrow> string"
  ph_secret_path :: string

definition run_probe_command :: "probe_host \<Rightarrow> string list \<Rightarrow> (string \<times> string) list option \<Rightarrow> (int \<times> string \<times> string) res" where
  "run_probe_command h command env =
     (case ph_runner h command (case env of None \<Rightarrow> minimal_launcher_environment | Some e \<Rightarrow> e) of
        Inr x \<Rightarrow> Inr x
      | Inl e \<Rightarrow> if exn_kind e = OSErr \<or> exn_type e = ''TimeoutExpired'' then Inr (127, [], exn_msg e) else Inl e)"

definition runtime_read_only_mounts :: "probe_host \<Rightarrow> string list" where
  "runtime_read_only_mounts h =
     concat (map (\<lambda>p. if ph_exists h p then [''--ro-bind'', p, p] else [])
       [''/usr'', ''/bin'', ''/lib'', ''/lib64'', ''/lib32'', ''/etc/ld.so.cache'', ''/etc/ld.so.conf'', ''/etc/ld.so.conf.d''])"

definition first_existing :: "probe_host \<Rightarrow> string list \<Rightarrow> string option" where
  "first_existing h paths = map_option (ph_realpath h) (find (ph_exists h) paths)"

abbreviation newline :: string where "newline \<equiv> [CHR 0x0A]"

definition probe_script :: "string \<Rightarrow> string \<Rightarrow> string \<Rightarrow> string" where
  "probe_script readlink_path awk_path env_path =
     ''set -eu'' @ newline @
     ''for ns in '' @ join '' '' NAMESPACE_NAMES @ ''; do'' @ newline @
     ''  printf '' @ [squote] @ ''ns:%s=%s'' @ [backslash] @ ''n'' @ [squote] @ '' '' @ [dquote] @ ''$ns'' @ [dquote] @ '' '' @
     [dquote] @ ''$('' @ readlink_path @ '' /proc/self/ns/$ns)'' @ [dquote] @ newline @
     ''done'' @ newline @
     awk_path @ '' '' @ [squote] @ ''/^CapEff:/ {print '' @ [dquote] @ ''cap_eff='' @ [dquote] @ '' $2} '' @
     ''/^NoNewPrivs:/ '' @ ''{print '' @ [dquote] @ ''no_new_privs='' @ [dquote] @ '' $2}'' @ [squote] @ '' '' @
     ''/proc/self/status'' @ newline @
     ''if [ -e '' @ [dquote] @ ''$RYGNAL_HOST_SECRET'' @ [dquote] @ '' ]; then'' @ newline @
     ''  echo '' @ [squote] @ ''secret_visible=yes'' @ [squote] @ newline @
     ''else'' @ newline @
     ''  echo '' @ [squote] @ ''secret_visible=no'' @ [squote] @ newline @
     ''fi'' @ newline @
     ''echo '' @ [squote] @ ''ENV_BEGIN'' @ [squote] @ newline @
     env_path @ newline @
     ''echo '' @ [squote] @ ''ENV_END'' @ [squote] @ newline"

definition probe_command :: "probe_host \<Rightarrow> string \<Rightarrow> string \<Rightarrow> string \<Rightarrow> string list" where
  "probe_command h executable shell_path script =
     [executable, ''--die-with-parent'', ''--new-session'', ''--unshare-user'', ''--unshare-pid'', ''--unshare-ipc'', ''--unshare-uts'',
      ''--unshare-net'', ''--unshare-cgroup'', ''--cap-drop'', ''ALL'', ''--clearenv'', ''--proc'', ''/proc'', ''--dev'', ''/dev'',
      ''--tmpfs'', ''/tmp'', ''--dir'', ''/var'', ''--tmpfs'', ''/var/tmp'', ''--tmpfs'', ''/run'', ''--dir'', ''/etc'',
      ''--setenv'', ''PATH'', ''/usr/bin:/bin'', ''--setenv'', ''HOME'', ''/nonexistent'', ''--setenv'', ''TMPDIR'', ''/tmp'',
      ''--setenv'', ''USER'', ''rygnal'', ''--setenv'', ''LOGNAME'', ''rygnal'', ''--setenv'', ''LANG'', ''C.UTF-8'',
      ''--setenv'', ''LC_ALL'', ''C.UTF-8'', ''--setenv'', ''RYGNAL_PROBE'', ''1'', ''--setenv'', ''RYGNAL_HOST_SECRET'', ph_secret_path h] @
     runtime_read_only_mounts h @ [''--'', shell_path, ''-c'', script]"

text \<open>The features in the order of the dictionary, each with the reason that is given if it is missing.\<close>

definition namespace_features :: "probe_host \<Rightarrow> (string \<times> string) list \<Rightarrow> (string \<times> bool \<times> string) list" where
  "namespace_features h namespaces =
     map (\<lambda>name. (name @ ''_namespace'', map_of namespaces name \<noteq> ph_namespace h name,
       ''Bubblewrap did not isolate the '' @ name @ '' namespace.'')) NAMESPACE_NAMES"

definition environment_names :: "string list \<Rightarrow> string list" where
  "environment_names items = map (before_char (CHR ''='')) (filter (\<lambda>item. CHR ''='' \<in> set item) items)"

text \<open>The message about the environment prints a set, whose order Python leaves open: \<open>show_set\<close>.\<close>

definition probe_features :: "probe_host \<Rightarrow> (string list \<Rightarrow> string) \<Rightarrow> probe_output \<Rightarrow> (string \<times> bool \<times> string) list" where
  "probe_features h show_set out =
     (let cap_eff = lower (case map_of (po_values out) ''cap_eff'' of None \<Rightarrow> [] | Some v \<Rightarrow> v);
          items = (case map_of (po_values out) ''environment'' of None \<Rightarrow> po_environment out | Some v \<Rightarrow> map (\<lambda>c. [c]) v);
          names = environment_names items;
          unexpected = filter (\<lambda>n. n \<notin> set ALLOWED_PROBE_ENVIRONMENT) names;
          leaked = (''RYGNAL_SHOULD_NOT_LEAK'' \<in> set names)
      in namespace_features h (po_namespaces out) @
         [(''capabilities_dropped'', cap_eff \<noteq> [] \<and> set cap_eff \<subseteq> {CHR ''0''}, ''Effective Linux capabilities were not empty.''),
          (''no_new_privileges'', map_of (po_values out) ''no_new_privs'' = Some ''1'', ''NoNewPrivs was not enabled inside Bubblewrap.''),
          (''host_environment_cleared'', \<not> leaked \<and> unexpected = [],
             ''Host environment variables leaked into the Bubblewrap self-test. '' @ ''Unexpected: '' @ show_set unexpected @
             '', RYGNAL_SHOULD_NOT_LEAK in env: '' @ (if leaked then ''True'' else ''False'')),
          (''host_tmp_hidden'', map_of (po_values out) ''secret_visible'' = Some ''no'', ''Host temporary files remained visible.'')])"

definition no_probe_features :: "(string \<times> bool) list" where
  "no_probe_features = map (\<lambda>n. (n, False)) ([''behavioral_self_test''] @ map (\<lambda>n. n @ ''_namespace'') NAMESPACE_NAMES @
     [''capabilities_dropped'', ''no_new_privileges'', ''host_environment_cleared'', ''host_tmp_hidden''])"

definition judge_probe :: "(string \<times> bool \<times> string) list \<Rightarrow> (string \<times> bool) list \<times> string list" where
  "judge_probe features =
     (let reasons = map (\<lambda>(_, _, why). why) (filter (\<lambda>(_, b, _). \<not> b) features) in
      ((''behavioral_self_test'', reasons = []) # map (\<lambda>(n, b, _). (n, b)) features, reasons))"

definition run_behavioral_probe :: "probe_host \<Rightarrow> (string list \<Rightarrow> string) \<Rightarrow> string \<Rightarrow> ((string \<times> bool) list \<times> string list) res" where
  "run_behavioral_probe h show_set executable =
     (let unseen = filter (\<lambda>n. ph_namespace h n = None) NAMESPACE_NAMES;
          tools = [(''shell'', first_existing h [''/bin/sh'', ''/usr/bin/sh'']),
            (''readlink'', first_existing h [''/usr/bin/readlink'', ''/bin/readlink'']),
            (''env'', first_existing h [''/usr/bin/env'', ''/bin/env'']), (''awk'', first_existing h [''/usr/bin/awk'', ''/bin/awk''])];
          missing = map fst (filter (\<lambda>(_, p). p = None) tools);
          tool = (\<lambda>n. the (the (map_of tools n))) in
      if unseen \<noteq> []
      then Inr (no_probe_features, map (\<lambda>n. ''Host '' @ n @ '' namespace identity could not be inspected.'') unseen)
      else if missing \<noteq> []
      then Inr (no_probe_features, [''Production self-test tools are unavailable: '' @ join '', '' missing])
      else rbind (run_probe_command h
          (probe_command h executable (tool ''shell'') (probe_script (tool ''readlink'') (tool ''awk'') (tool ''env'')))
          (Some (minimal_launcher_environment @ [(''RYGNAL_SHOULD_NOT_LEAK'', ''host-secret-value'')])))
        (\<lambda>(code, out, err).
          if code \<noteq> 0
          then Inr (no_probe_features, [''Bubblewrap behavioral self-test failed: '' @
            take 500 (or_else (Some (strip err)) (or_else (Some (strip out)) ''unknown Bubblewrap probe failure''))])
          else let parsed = parse_probe_output out in
            if map_of (po_values parsed) ''namespaces'' \<noteq> None
            then Inl (Exn AttributeErr ''AttributeError'' (squote # ''str'' @ [squote] @ '' object has no attribute '' @ [squote] @ ''get'' @ [squote]))
            else Inr (judge_probe (probe_features h show_set parsed))))"

definition initial_features :: "bool \<Rightarrow> (string \<times> bool) list" where
  "initial_features linux =
     [(''production_mode'', True), (''linux_host'', linux)] @
     map (\<lambda>n. (n, False)) [''secure_executable'', ''version_verified'', ''required_flags_verified'', ''behavioral_self_test'',
       ''user_namespace'', ''pid_namespace'', ''ipc_namespace'', ''uts_namespace'', ''net_namespace'', ''cgroup_namespace'',
       ''capabilities_dropped'', ''no_new_privileges'', ''host_environment_cleared'', ''host_tmp_hidden''] @
     [(''resource_limits_enforced'', True), (''output_bounded'', True), (''inherited_fds_closed'', True)]"

definition REQUIRED_FEATURES :: "string list" where
  "REQUIRED_FEATURES = [''secure_executable'', ''version_verified'', ''required_flags_verified'', ''behavioral_self_test'',
     ''user_namespace'', ''pid_namespace'', ''ipc_namespace'', ''uts_namespace'', ''net_namespace'', ''cgroup_namespace'',
     ''capabilities_dropped'', ''no_new_privileges'', ''host_environment_cleared'', ''host_tmp_hidden'',
     ''resource_limits_enforced'', ''output_bounded'', ''inherited_fds_closed'']"

definition set_features :: "(string \<times> bool) list \<Rightarrow> (string \<times> bool) list \<Rightarrow> (string \<times> bool) list" where
  "set_features new old = fold (\<lambda>(n, b). AList.update n b) new old"

definition check_version :: "int \<Rightarrow> string \<Rightarrow> string \<Rightarrow> (nat \<times> nat \<times> nat) option \<times> string list" where
  "check_version code out err =
     (if code \<noteq> 0 then (None, [''Bubblewrap version probe failed.''])
      else (case parse_bubblewrap_version (or_else (Some out) err) of
          None \<Rightarrow> (None, [''Bubblewrap version output was not recognized.''])
        | Some v \<Rightarrow> (Some v, if v < MINIMUM_BUBBLEWRAP_VERSION
            then [''Bubblewrap is older than Rygnal'' @ [squote] @ ''s required version '' @ format_version (Some MINIMUM_BUBBLEWRAP_VERSION) @ ''.'']
            else [])))"

definition check_flags :: "int \<Rightarrow> string \<Rightarrow> string \<Rightarrow> string list" where
  "check_flags code out err =
     (let missing = filter (\<lambda>flag. \<not> contains (out @ newline @ err) flag) REQUIRED_BUBBLEWRAP_FLAGS in
      if code \<noteq> 0 then [''Bubblewrap help probe failed.'']
      else if missing \<noteq> [] then [''Bubblewrap lacks required production flags: '' @ join '', '' missing] else [])"

definition ineligible :: "string \<Rightarrow> string option \<Rightarrow> string \<Rightarrow> bool \<Rightarrow> verification" where
  "ineligible platform path why linux = \<lparr>vb_eligible = False, vb_platform_name = platform, vb_executable_path = path,
     vb_executable_sha256 = None, vb_version = None, vb_reasons = [why], vb_features = initial_features linux\<rparr>"

definition verify_executable :: "probe_host \<Rightarrow> (string list \<Rightarrow> string) \<Rightarrow> string \<Rightarrow> string \<Rightarrow> verification res" where
  "verify_executable h show_set platform path =
     rbind (ph_sha256_file h path) (\<lambda>digest.
     rbind (run_probe_command h [path, ''--version''] None) (\<lambda>(code, out, err).
     let (version, version_reasons) = check_version code out err in
     rbind (run_probe_command h [path, ''--help''] None) (\<lambda>(help_code, help_out, help_err).
     let flag_reasons = check_flags help_code help_out help_err;
         version_ok = (version \<noteq> None \<and> version_reasons = []);
         flags_ok = (flag_reasons = []);
         base = set_features [(''secure_executable'', True), (''version_verified'', version_ok), (''required_flags_verified'', flags_ok)]
           (initial_features True) in
     rbind (if version_ok \<and> flags_ok then run_behavioral_probe h show_set path else Inr ([], [])) (\<lambda>(probed, probe_reasons).
       let features = set_features probed base; reasons = version_reasons @ flag_reasons @ probe_reasons in
       Inr \<lparr>vb_eligible = (reasons = [] \<and> list_all (\<lambda>n. map_of features n = Some True) REQUIRED_FEATURES),
         vb_platform_name = platform, vb_executable_path = Some path, vb_executable_sha256 = Some digest,
         vb_version = map_option (\<lambda>v. format_version (Some v)) version, vb_reasons = reasons, vb_features = features\<rparr>))))"

definition verify_production_bubblewrap ::
  "probe_host \<Rightarrow> (string list \<Rightarrow> string) \<Rightarrow> string \<Rightarrow> string option \<Rightarrow> verification res" where
  "verify_production_bubblewrap h show_set platform_name executable_path =
     (let platform = lower (strip platform_name) in
      if platform \<noteq> ''linux''
      then Inr (ineligible platform None ''Production guarded execution is supported only on verified Linux hosts.'' False)
      else (case (case executable_path of Some p \<Rightarrow> Some p | None \<Rightarrow> ph_which_bwrap h) of
          None \<Rightarrow> Inr (ineligible platform None ''Bubblewrap executable was not found.'' True)
        | Some raw \<Rightarrow> (case validate_executable (ph_executable h raw) of
              Inl e \<Rightarrow> if exn_kind e = OSErr then Inr (ineligible platform (Some raw) (exn_msg e) True) else Inl e
            | Inr path \<Rightarrow> verify_executable h show_set platform path)))"

section \<open>Bounded runs\<close>

record stream_capture =
  sc_retained :: string
  sc_total_bytes :: int
  sc_truncated :: bool

definition empty_capture :: stream_capture where
  "empty_capture = \<lparr>sc_retained = [], sc_total_bytes = 0, sc_truncated = False\<rparr>"

definition capture_chunk :: "int \<Rightarrow> string \<Rightarrow> stream_capture \<Rightarrow> stream_capture" where
  "capture_chunk maximum_bytes chunk capture =
     (let total = sc_total_bytes capture + int (length chunk);
          remaining = maximum_bytes - int (length (sc_retained capture));
          retained = (if remaining > 0 then sc_retained capture @ take (nat remaining) chunk else sc_retained capture)
      in \<lparr>sc_retained = retained, sc_total_bytes = total, sc_truncated = (sc_truncated capture \<or> total > maximum_bytes)\<rparr>)"

text \<open>
  The reading thread. Read number \<open>i\<close> gives a chunk, which is empty at the end of the stream, or \<open>None\<close> if it raises
  an \<open>OSError\<close>. A stream need not end, so the loop is a partial function; \<open>capture_until\<close> is the state after \<open>n\<close> reads at
  most, which is what the process that waits for the thread with a time limit sees.
\<close>

partial_function (option) capture_stream :: "(nat \<Rightarrow> string option) \<Rightarrow> int \<Rightarrow> nat \<Rightarrow> stream_capture \<Rightarrow> stream_capture option" where
  "capture_stream reads maximum_bytes i capture =
     (case reads i of
        None \<Rightarrow> Some capture
      | Some chunk \<Rightarrow> if chunk = [] then Some capture
          else capture_stream reads maximum_bytes (Suc i) (capture_chunk maximum_bytes chunk capture))"

fun capture_until :: "nat \<Rightarrow> (nat \<Rightarrow> string option) \<Rightarrow> int \<Rightarrow> nat \<Rightarrow> stream_capture \<Rightarrow> stream_capture" where
  "capture_until 0 reads maximum_bytes i capture = capture"
| "capture_until (Suc n) reads maximum_bytes i capture =
     (case reads i of
        None \<Rightarrow> capture
      | Some chunk \<Rightarrow> if chunk = [] then capture
          else capture_until n reads maximum_bytes (Suc i) (capture_chunk maximum_bytes chunk capture))"

datatype signal_result = Signalled | No_process | Signal_error string

text \<open>The facts of ending a process: whether it has ended, the two signals, and the two waits.\<close>

record stop_facts =
  sf_ended :: bool
  sf_terminate :: signal_result
  sf_waited :: bool
  sf_kill :: signal_result
  sf_waited_again :: bool

definition terminate_process_tree :: "bool \<Rightarrow> stop_facts \<Rightarrow> string list" where
  "terminate_process_tree posix f =
     (let what = (if posix then ''process group'' else ''process'');
          message = (\<lambda>verb r. case r of Signal_error e \<Rightarrow> [''Failed to '' @ verb @ '' '' @ what @ '': '' @ e] | _ \<Rightarrow> []);
          first = message ''terminate'' (sf_terminate f);
          second = message ''force-kill'' (sf_kill f) in
      if sf_ended f then []
      else if posix \<and> sf_terminate f = No_process then []
      else if sf_waited f then first
      else if posix \<and> sf_kill f = No_process then first
      else if sf_waited_again f then first @ second
      else first @ second @ [''Process did not exit after force-kill.''])"

definition looks_like_bubblewrap_setup_failure :: "string \<Rightarrow> bool" where
  "looks_like_bubblewrap_setup_failure stderr =
     (let lowered = lower stderr in
      if contains lowered ''rygnal_resource_setup_failed:'' then True
      else contains lowered ''bwrap:'' \<and>
        list_ex (contains lowered) [''creating new namespace'', ''operation not permitted'', ''permission denied'', ''unknown option'',
          ''failed to'', ''cannot'', ''no such file''])"

definition append_message :: "string \<Rightarrow> string \<Rightarrow> string" where
  "append_message value message =
     (if message = [] then value
      else if value = [] then message @ newline
      else value @ (if ends_with value newline then [] else newline) @ message @ newline)"

text \<open>The environment of one run: the launcher (\<open>None\<close> if it is not a regular file or a link), the process and its streams.\<close>

record run_facts =
  rf_cwd_is_dir :: bool
  rf_posix :: bool
  rf_python :: string
  rf_launcher :: "string option"
  rf_start_error :: "string option"
  rf_exit :: "int option"
  rf_stop :: stop_facts
  rf_stdout :: "nat \<Rightarrow> string option"
  rf_stdout_reads :: nat
  rf_stderr :: "nat \<Rightarrow> string option"
  rf_stderr_reads :: nat
  rf_duration_ms :: int
  rf_decode :: "string \<Rightarrow> string"

definition limits_payload :: "containment_limits \<Rightarrow> pyval" where
  "limits_payload l = dict_val [(''address_space_bytes'', PInt (cl_address_space_bytes l)), (''core_bytes'', PInt 0),
     (''cpu_seconds'', PInt (cl_cpu_seconds l)), (''file_size_bytes'', PInt (cl_file_size_bytes l)),
     (''open_files'', PInt (cl_open_files l)), (''processes'', PInt (cl_processes l))]"

definition resource_limited_launcher_command :: "run_facts \<Rightarrow> string list \<Rightarrow> containment_limits \<Rightarrow> string list res" where
  "resource_limited_launcher_command f command l =
     (if \<not> rf_posix f then Inr command
      else (case rf_launcher f of
          None \<Rightarrow> Inl (Exn RuntimeErr ''RuntimeError'' ''Resource-limit launcher is unavailable or unsafe.'')
        | Some launcher \<Rightarrow> Inr ([rf_python f, launcher, json_dumps (limits_payload l), ''--''] @ command)))"

record bounded_result =
  br_exit_code :: "int option"
  br_stdout :: string
  br_stderr :: string
  br_timed_out :: bool
  br_duration_ms :: int
  br_output_truncated :: bool
  br_sandbox_setup_failed :: bool

definition run_bounded_process :: "run_facts \<Rightarrow> string list \<Rightarrow> int \<Rightarrow> containment_limits \<Rightarrow> (string list \<times> bounded_result) res" where
  "run_bounded_process f command timeout_seconds l =
     (if timeout_seconds \<le> 0 then Inl (Exn ValueErr ''ValueError'' ''timeout_seconds must be positive.'')
      else if command = [] then Inl (Exn ValueErr ''ValueError'' ''Command must not be empty.'')
      else if \<not> rf_cwd_is_dir f then Inl (Exn ValueErr ''ValueError'' ''Process working directory must exist.'')
      else rbind (resource_limited_launcher_command f command l) (\<lambda>launched.
        case rf_start_error f of
          Some e \<Rightarrow> Inl (Exn RuntimeErr ''RuntimeError'' (''Failed to start contained process: '' @ e))
        | None \<Rightarrow>
            let timed_out = (rf_exit f = None);
                cleanup = (if timed_out then terminate_process_tree (rf_posix f) (rf_stop f) else []);
                out = capture_until (rf_stdout_reads f) (rf_stdout f) (cl_max_output_bytes l) 0 empty_capture;
                err = capture_until (rf_stderr_reads f) (rf_stderr f) (cl_max_output_bytes l) 0 empty_capture;
                truncated = (sc_truncated out \<or> sc_truncated err);
                stderr = rf_decode f (sc_retained err);
                stderr = (if truncated then append_message stderr (''Rygnal truncated command output at '' @
                  show_int (cl_max_output_bytes l) @ '' bytes per stream.'') else stderr);
                stderr = foldl append_message stderr cleanup
            in Inr (launched, \<lparr>br_exit_code = rf_exit f, br_stdout = rf_decode f (sc_retained out), br_stderr = stderr,
              br_timed_out = timed_out, br_duration_ms = rf_duration_ms f, br_output_truncated = truncated,
              br_sandbox_setup_failed = (\<not> timed_out \<and> rf_exit f \<notin> {None, Some 0} \<and> looks_like_bubblewrap_setup_failure stderr)\<rparr>)))"

section \<open>The launcher\<close>

text \<open>\<open>resource.RLIM_INFINITY\<close> is \<open>infinity\<close>; a process has a soft and a hard limit for each kind of resource it knows.\<close>

definition bounded_soft_limit :: "int \<Rightarrow> int \<Rightarrow> int \<Rightarrow> int \<Rightarrow> int res" where
  "bounded_soft_limit requested current_soft current_hard infinity =
     (if requested < 0 then Inl (Exn ValueErr ''ValueError'' ''Requested resource limit must be non-negative.'')
      else let target = Min (set (requested # (if current_soft \<noteq> infinity then [current_soft] else []) @
             (if current_hard \<noteq> infinity then [current_hard] else []))) in
        if target < 0 then Inl (Exn ValueErr ''ValueError'' ''Computed resource limit is invalid.'') else Inr target)"

type_synonym rlimits = "string \<rightharpoonup> int \<times> int"

text \<open>\<open>setrlimit\<close> may fail: \<open>refuse\<close> gives the error.\<close>

definition set_soft_limit :: "int \<Rightarrow> (string \<Rightarrow> int \<Rightarrow> py_exn option) \<Rightarrow> string \<Rightarrow> int \<Rightarrow> rlimits \<Rightarrow> rlimits res" where
  "set_soft_limit infinity refuse name requested limits =
     (case limits name of
        None \<Rightarrow> Inr limits
      | Some (soft, hard) \<Rightarrow> rbind (bounded_soft_limit requested soft hard infinity) (\<lambda>target.
          (case refuse name target of Some e \<Rightarrow> Inl e | None \<Rightarrow> Inr (limits(name \<mapsto> (target, hard))))))"

definition limit_int :: "(string \<times> pyval) list \<Rightarrow> string \<Rightarrow> int res" where
  "limit_int values key = (case map_of values key of
     Some (PInt i) \<Rightarrow> Inr i | _ \<Rightarrow> Inl (Exn LookupErr ''KeyError'' (squote # key @ [squote])))"

fun apply_each :: "int \<Rightarrow> (string \<Rightarrow> int \<Rightarrow> py_exn option) \<Rightarrow> (string \<times> string) list \<Rightarrow> (string \<times> pyval) list \<Rightarrow> rlimits \<Rightarrow> rlimits res" where
  "apply_each infinity refuse [] values limits = Inr limits"
| "apply_each infinity refuse ((name, key) # rest) values limits =
     rbind (limit_int values key) (\<lambda>i. rbind (set_soft_limit infinity refuse name i limits) (apply_each infinity refuse rest values))"

definition LIMIT_KEYS :: "(string \<times> string) list" where
  "LIMIT_KEYS = [(''RLIMIT_CORE'', ''core_bytes''), (''RLIMIT_CPU'', ''cpu_seconds''), (''RLIMIT_FSIZE'', ''file_size_bytes''),
     (''RLIMIT_NOFILE'', ''open_files'')]"

definition LINUX_LIMIT_KEYS :: "(string \<times> string) list" where
  "LINUX_LIMIT_KEYS = [(''RLIMIT_AS'', ''address_space_bytes''), (''RLIMIT_NPROC'', ''processes'')]"

definition apply_limits :: "string \<Rightarrow> int \<Rightarrow> (string \<Rightarrow> int \<Rightarrow> py_exn option) \<Rightarrow> (string \<times> pyval) list \<Rightarrow> rlimits \<Rightarrow> rlimits res" where
  "apply_limits system infinity refuse values limits =
     apply_each infinity refuse (LIMIT_KEYS @ (if system = ''Linux'' then LINUX_LIMIT_KEYS else [])) values limits"

definition REQUIRED_LIMIT_FIELDS :: "string list" where
  "REQUIRED_LIMIT_FIELDS = [''address_space_bytes'', ''core_bytes'', ''cpu_seconds'', ''file_size_bytes'', ''open_files'', ''processes'']"

text \<open>The fields are checked in the order of a Python set, which is open; the order here is alphabetical.\<close>

definition parse_arguments :: "(string \<Rightarrow> pyval res) \<Rightarrow> string list \<Rightarrow> ((string \<times> pyval) list \<times> string list) res" where
  "parse_arguments loads arguments =
     (if length arguments < 3 \<or> arguments ! 1 \<noteq> ''--''
      then Inl (Exn ValueErr ''ValueError'' ''Resource launcher arguments are malformed.'')
      else rbind (loads (hd arguments)) (\<lambda>raw.
        case raw of
          PDict kvs \<Rightarrow>
            let values = concat (map (\<lambda>(k, v). case k of KStr s \<Rightarrow> [(s, v)] | _ \<Rightarrow> []) kvs); command = drop 2 arguments in
            if hd command = [] then Inl (Exn ValueErr ''ValueError'' ''Resource launcher command is empty.'')
            else if fst ` set kvs \<noteq> KStr ` set REQUIRED_LIMIT_FIELDS
            then Inl (Exn ValueErr ''ValueError'' ''Resource limit fields are incomplete or unsupported.'')
            else (case find (\<lambda>key. case map_of values key of Some (PInt i) \<Rightarrow> i < 0 | _ \<Rightarrow> True) REQUIRED_LIMIT_FIELDS of
                Some key \<Rightarrow> Inl (Exn ValueErr ''ValueError'' (''Resource limit '' @ [squote] @ key @ [squote] @ '' is invalid.''))
              | None \<Rightarrow> Inr (values, command))
        | _ \<Rightarrow> Inl (Exn ValueErr ''ValueError'' ''Resource limits must be a JSON object.'')))"

text \<open>The launcher ends with 125, or the process becomes the command under the limits it reached; \<open>exec\<close> itself may fail.\<close>

datatype launch = Exited int string | Executing "string list" rlimits

definition launcher_main ::
  "(string \<Rightarrow> pyval res) \<Rightarrow> string \<Rightarrow> int \<Rightarrow> (string \<Rightarrow> int \<Rightarrow> py_exn option) \<Rightarrow> (string list \<Rightarrow> py_exn option) \<Rightarrow> string list \<Rightarrow>
   rlimits \<Rightarrow> launch res" where
  "launcher_main loads system infinity refuse exec argv limits =
     (case rbind (parse_arguments loads argv) (\<lambda>(values, command).
         rbind (apply_limits system infinity refuse values limits) (\<lambda>reached.
         case exec command of Some e \<Rightarrow> Inl e | None \<Rightarrow> Inr (Executing command reached))) of
        Inr x \<Rightarrow> Inr x
      | Inl e \<Rightarrow> if exn_kind e \<in> {OSErr, TypeErr, ValueErr} \<or> exn_type e = ''KeyError''
          then Inr (Exited 125 (''RYGNAL_RESOURCE_SETUP_FAILED: '' @ exn_msg e)) else Inl e)"

section \<open>The choice of a backend\<close>

lemma unsafe_only_on_request:
  "select_execution_backend c = Inr s \<Longrightarrow>
     (bs_name s = UNSAFE_LOCAL) = hc_unsafe_local c \<and> bs_safe_by_default s = (bs_name s \<noteq> UNSAFE_LOCAL)"
  by (auto simp: select_execution_backend_def verified_backend_def split: if_splits)

lemma verified_iff_tree_kill:
  "lr_containment_verified (build_lifecycle_result (evaluate_containment_capabilities b) e) \<longleftrightarrow>
     b \<in> {LINUX_BUBBLEWRAP, LINUX_BUBBLEWRAP_HELPER, LINUX_SYSTEMD_USER}"
  "cc_unsafe_local (evaluate_containment_capabilities b) \<longleftrightarrow> b = UNSAFE_LOCAL"
  by (cases b; simp add: build_lifecycle_result_def evaluate_containment_capabilities_def bare_capabilities_def Let_def)+

section \<open>Bounded streams\<close>

definition ends_at :: "(nat \<Rightarrow> string option) \<Rightarrow> nat \<Rightarrow> bool" where
  "ends_at reads k = (reads k \<in> {None, Some []} \<and> (\<forall>i<k. reads i \<notin> {None, Some []}))"

definition received :: "(nat \<Rightarrow> string option) \<Rightarrow> nat \<Rightarrow> nat \<Rightarrow> string" where
  "received reads i k = concat (map (\<lambda>j. case reads j of None \<Rightarrow> [] | Some chunk \<Rightarrow> chunk) [i..<k])"

text \<open>The capture of a stream that has delivered \<open>data\<close>.\<close>

definition captured :: "int \<Rightarrow> string \<Rightarrow> stream_capture" where
  "captured maximum_bytes data = \<lparr>sc_retained = take (nat maximum_bytes) data, sc_total_bytes = int (length data),
     sc_truncated = (int (length data) > maximum_bytes)\<rparr>"

lemma captured_empty: "0 < m \<Longrightarrow> captured m [] = empty_capture"
  by (simp add: captured_def empty_capture_def)

lemma capture_chunk_captured: "0 < m \<Longrightarrow> capture_chunk m chunk (captured m data) = captured m (data @ chunk)"
  by (auto simp: capture_chunk_def captured_def Let_def min_def nat_diff_distrib)

lemma received_step: "reads i = Some chunk \<Longrightarrow> i < k \<Longrightarrow> received reads i k = chunk @ received reads (Suc i) k"
  by (simp add: received_def upt_conv_Cons)

lemma capture_from:
  assumes "0 < m" and "i \<le> k" and "reads k \<in> {None, Some []}" and "\<forall>j. i \<le> j \<and> j < k \<longrightarrow> reads j \<notin> {None, Some []}"
  shows "capture_stream reads m i (captured m data) = Some (captured m (data @ received reads i k)) \<and>
    (k - i \<le> n \<longrightarrow> capture_until n reads m i (captured m data) = captured m (data @ received reads i k))"
  using assms(2,4)
proof (induction "k - i" arbitrary: i n data)
  case 0
  then have "i = k" by simp
  moreover have "capture_until n reads m k (captured m data) = captured m data" using assms(3) by (cases n) auto
  ultimately show ?case using assms(3) by (auto simp: capture_stream.simps [of reads m k] received_def)
next
  case (Suc d)
  obtain chunk where c: "reads i = Some chunk" "chunk \<noteq> []" using Suc.prems Suc.hyps(2) by (cases "reads i") force+
  have "i < k" using Suc.hyps(2) by simp
  have r: "received reads i k = chunk @ received reads (Suc i) k" using received_step [of reads i chunk k] c(1) \<open>i < k\<close> by blast
  have IH: "capture_stream reads m (Suc i) (captured m (data @ chunk)) = Some (captured m ((data @ chunk) @ received reads (Suc i) k)) \<and>
    (k - Suc i \<le> n - 1 \<longrightarrow> capture_until (n - 1) reads m (Suc i) (captured m (data @ chunk)) =
       captured m ((data @ chunk) @ received reads (Suc i) k))"
    using Suc.hyps Suc.prems by (intro Suc.hyps(1)) auto
  show ?case
    using IH c r Suc.hyps(2) by (cases n) (auto simp: capture_stream.simps [of reads m i] capture_chunk_captured [OF assms(1)])
qed

lemma capture_forever: "capture_stream reads m i c = Some c' \<Longrightarrow> \<exists>k. reads k \<in> {None, Some []}"
proof (erule capture_stream.raw_induct [rotated], goal_cases)
  case (1 f reads m i c c')
  show ?case
  proof (cases "reads i")
    case (Some chunk)
    with 1(2) 1(1) [of reads m "Suc i" "capture_chunk m chunk c" c'] show ?thesis by (cases "chunk = []") auto
  qed blast
qed

text \<open>
  (C33) The thread that reads a stream of a contained process returns exactly if the stream ends, however large its chunks are, and
  then it holds the first bytes of the stream up to the bound, has counted all of them, and says that it has cut
  the output exactly if there was more. A process that waits for as many reads as the stream has chunks sees that same capture.
\<close>

theorem capture_returns:
  assumes "0 < maximum_bytes"
  shows "((\<exists>c. capture_stream reads maximum_bytes 0 empty_capture = Some c) \<longleftrightarrow> (\<exists>k. ends_at reads k)) \<and>
    (\<forall>k. ends_at reads k \<longrightarrow> capture_stream reads maximum_bytes 0 empty_capture = Some (captured maximum_bytes (received reads 0 k)) \<and>
      (\<forall>n\<ge>k. capture_until n reads maximum_bytes 0 empty_capture = captured maximum_bytes (received reads 0 k)))"
proof -
  have e: "capture_stream reads maximum_bytes 0 empty_capture = Some (captured maximum_bytes (received reads 0 k)) \<and>
      (k \<le> n \<longrightarrow> capture_until n reads maximum_bytes 0 empty_capture = captured maximum_bytes (received reads 0 k))"
    if "ends_at reads k" for k n
    using capture_from [OF assms, of 0 k reads "[]" n] that captured_empty [OF assms] by (simp add: ends_at_def)
  have "\<exists>k. ends_at reads k" if "capture_stream reads maximum_bytes 0 empty_capture = Some c" for c
  proof -
    have "\<exists>k. reads k \<in> {None, Some []}" using capture_forever [OF that] by blast
    then obtain k where "reads k \<in> {None, Some []}" "\<forall>i<k. reads i \<notin> {None, Some []}"
      using exists_least_iff [of "\<lambda>k. reads k \<in> {None, Some []}"] by blast
    then show ?thesis unfolding ends_at_def by blast
  qed
  then show ?thesis using e by blast
qed

definition sample_reads :: "nat \<Rightarrow> string option" where
  "sample_reads i = (if i = 0 then Some ''abc'' else if i = 1 then Some ''defg'' else if i = 2 then Some [] else Some ''x'')"

lemma capture_returns_witness:
  "capture_stream sample_reads 5 0 empty_capture = Some \<lparr>sc_retained = ''abcde'', sc_total_bytes = 7, sc_truncated = True\<rparr>"
proof -
  have "ends_at sample_reads 2" by (auto simp: ends_at_def sample_reads_def less_Suc_eq numeral_2_eq_2)
  then show ?thesis
    using capture_returns [of 5 sample_reads] by (simp add: captured_def received_def sample_reads_def upt_rec numeral_2_eq_2)
qed

text \<open>Whenever the process looks, no more than the bound is held.\<close>

lemma capture_until_bounded:
  "0 < m \<Longrightarrow> int (length (sc_retained c)) \<le> m \<Longrightarrow> int (length (sc_retained (capture_until n reads m i c))) \<le> m"
  by (induction n reads m i c rule: capture_until.induct) (auto simp: capture_chunk_def Let_def split: option.splits)

section \<open>The limits that are reached\<close>

lemma bounded_soft_limit_bounds:
  assumes "bounded_soft_limit requested soft hard infinity = Inr t"
  shows "0 \<le> t \<and> t \<le> requested \<and> (soft = infinity \<or> t \<le> soft) \<and> (hard = infinity \<or> t \<le> hard)"
  using assms by (cases "soft = infinity"; cases "hard = infinity") (auto simp: bounded_soft_limit_def Let_def split: if_splits)

text \<open>A soft limit that respects a requested bound, and lowers the old one or keeps it.\<close>

definition limited :: "int \<Rightarrow> int \<Rightarrow> (int \<times> int) option \<Rightarrow> (int \<times> int) option \<Rightarrow> bool" where
  "limited infinity requested old new =
     (case old of None \<Rightarrow> new = None
      | Some (soft, hard) \<Rightarrow> (case new of None \<Rightarrow> False
          | Some (t, hard') \<Rightarrow> hard' = hard \<and> 0 \<le> t \<and> t \<le> requested \<and> (soft = infinity \<or> t \<le> soft) \<and> (hard = infinity \<or> t \<le> hard)))"

lemma set_soft_limit_limited:
  assumes "set_soft_limit infinity refuse name requested limits = Inr limits'"
  shows "limited infinity requested (limits name) (limits' name) \<and> (\<forall>n. n \<noteq> name \<longrightarrow> limits' n = limits n)"
  using assms
  by (auto simp: set_soft_limit_def limited_def res_simps split: option.splits prod.splits dest: bounded_soft_limit_bounds)

lemma apply_each_limited:
  assumes "apply_each infinity refuse keys values limits = Inr limits'" and "distinct (map fst keys)"
  shows "(\<forall>(name, key) \<in> set keys. \<exists>i. map_of values key = Some (PInt i) \<and> limited infinity i (limits name) (limits' name)) \<and>
    (\<forall>n. n \<notin> fst ` set keys \<longrightarrow> limits' n = limits n)"
  using assms
proof (induction keys arbitrary: limits)
  case (Cons nk keys)
  obtain name key where nk: "nk = (name, key)" by fastforce
  obtain i mid where i: "limit_int values key = Inr i" and m: "set_soft_limit infinity refuse name i limits = Inr mid"
    and r: "apply_each infinity refuse keys values mid = Inr limits'"
    using Cons.prems(1) by (auto simp: nk res_simps)
  have "map_of values key = Some (PInt i)" using i by (auto simp: limit_int_def split: option.splits pyval.splits)
  note v = this
  have d: "name \<notin> fst ` set keys" "distinct (map fst keys)" using Cons.prems(2) by (auto simp: nk image_def)
  note IH = Cons.IH [OF r d(2)] and one = set_soft_limit_limited [OF m]
  have "limits' name = mid name" using IH d(1) by blast
  then have hd: "\<exists>i. map_of values key = Some (PInt i) \<and> limited infinity i (limits name) (limits' name)" using v one by simp
  have tl: "\<exists>i. map_of values k = Some (PInt i) \<and> limited infinity i (limits n) (limits' n)" if "(n, k) \<in> set keys" for n k
  proof -
    have "n \<noteq> name" using d(1) that by force
    then have "mid n = limits n" using one by blast
    then show ?thesis using IH that by fastforce
  qed
  have "limits' n = limits n" if "n \<notin> insert name (fst ` set keys)" for n using IH one that by (metis insertCI)
  then show ?case using hd tl by (simp add: nk) blast
qed simp

text \<open>What the limits of the configuration ask of each resource.\<close>

definition requested_limits :: "containment_limits \<Rightarrow> (string \<times> int) list" where
  "requested_limits l = [(''RLIMIT_CORE'', 0), (''RLIMIT_CPU'', cl_cpu_seconds l), (''RLIMIT_FSIZE'', cl_file_size_bytes l),
     (''RLIMIT_NOFILE'', cl_open_files l), (''RLIMIT_AS'', cl_address_space_bytes l), (''RLIMIT_NPROC'', cl_processes l)]"


definition sample_run :: run_facts where
  "sample_run = \<lparr>rf_cwd_is_dir = True, rf_posix = True, rf_python = ''python'', rf_launcher = Some ''launcher'', rf_start_error = None,
     rf_exit = Some 0, rf_stop = \<lparr>sf_ended = True, sf_terminate = No_process, sf_waited = True, sf_kill = No_process, sf_waited_again = True\<rparr>,
     rf_stdout = sample_reads, rf_stdout_reads = 3, rf_stderr = sample_reads, rf_stderr_reads = 3, rf_duration_ms = 1, rf_decode = (\<lambda>b. b)\<rparr>"

definition sample_limits :: rlimits where
  "sample_limits = [''RLIMIT_CORE'' \<mapsto> (-1, -1), ''RLIMIT_CPU'' \<mapsto> (60, 90), ''RLIMIT_FSIZE'' \<mapsto> (-1, -1),
     ''RLIMIT_NOFILE'' \<mapsto> (1024, 4096), ''RLIMIT_AS'' \<mapsto> (-1, -1), ''RLIMIT_NPROC'' \<mapsto> (-1, 64), ''RLIMIT_STACK'' \<mapsto> (8, 8)]"


section \<open>Mounts stay in the workspace\<close>

lemma sandbox_path_inside:
  assumes "normalize_sandbox_path p base = Inr q"
  shows "\<exists>c. q = as_posix c \<and> is_absolute c \<and> ''..'' \<notin> set (path_parts c) \<and>
    is_within_or_equal c (posix_path (replace_char backslash (CHR ''/'') (as_posix base)))"
  using assms by (auto simp: normalize_sandbox_path_def Let_def is_absolute_def split: if_splits intro!: exI)

section \<open>What an eligible verification means\<close>

lemma set_features_get:
  "map_of (set_features new old) n = (case map_of (rev new) n of Some b \<Rightarrow> Some b | None \<Rightarrow> map_of old n)"
  unfolding set_features_def
proof (induction new arbitrary: old)
  case (Cons x xs)
  then show ?case by (cases x) (auto simp: update_conv split: option.splits)
qed simp

text \<open>Bubblewrap as the specification sees it: the program answers, and the command that it ran was isolated.\<close>

definition isolating :: "probe_host \<Rightarrow> string \<Rightarrow> bool" where
  "isolating h path =
     (\<exists>shell script env out err. run_probe_command h (probe_command h path shell script) env = Inr (0, out, err) \<and>
        (let printed = parse_probe_output out in
          (\<forall>n \<in> set NAMESPACE_NAMES. ph_namespace h n \<noteq> None \<and> map_of (po_namespaces printed) n \<noteq> ph_namespace h n) \<and>
          (\<exists>caps. map_of (po_values printed) ''cap_eff'' = Some caps \<and> caps \<noteq> [] \<and> set caps \<subseteq> {CHR ''0''}) \<and>
          map_of (po_values printed) ''no_new_privs'' = Some ''1'' \<and> map_of (po_values printed) ''secret_visible'' = Some ''no''))"

lemma judge_ok: "judge_probe fs = (features, []) \<Longrightarrow> \<forall>(n, b, w) \<in> set fs. b"
  by (auto simp: judge_probe_def Let_def filter_empty_conv)

lemma lower_zeros: "set (lower caps) \<subseteq> {CHR ''0''} \<Longrightarrow> set caps \<subseteq> {CHR ''0''}"
  by (auto simp: lower_def lower_char_eq)

lemma probe_isolates:
  assumes "run_behavioral_probe h show_set path = Inr (features, [])"
  shows "isolating h path"
proof -
  obtain shell script env out err where r: "run_probe_command h (probe_command h path shell script) env = Inr (0, out, err)"
    and seen: "filter (\<lambda>n. ph_namespace h n = None) NAMESPACE_NAMES = []"
    and j: "judge_probe (probe_features h show_set (parse_probe_output out)) = (features, [])"
    using assms by (auto simp: run_behavioral_probe_def Let_def res_simps split: if_splits)
  note ok = judge_ok [OF j]
  have "\<forall>n \<in> set NAMESPACE_NAMES. ph_namespace h n \<noteq> None \<and> map_of (po_namespaces (parse_probe_output out)) n \<noteq> ph_namespace h n"
    using ok seen by (auto simp: probe_features_def namespace_features_def Let_def filter_empty_conv)
  moreover have "\<exists>caps. map_of (po_values (parse_probe_output out)) ''cap_eff'' = Some caps \<and> caps \<noteq> [] \<and> set caps \<subseteq> {CHR ''0''}"
  proof -
    have k: "\<exists>caps. lower (case map_of (po_values (parse_probe_output out)) ''cap_eff'' of None \<Rightarrow> [] | Some v \<Rightarrow> v) = caps \<and>
        caps \<noteq> [] \<and> set caps \<subseteq> {CHR ''0''}" using ok by (simp add: probe_features_def Let_def)
    then show ?thesis using lower_zeros by (cases "map_of (po_values (parse_probe_output out)) ''cap_eff''") (auto simp: lower_def)
  qed
  moreover have "map_of (po_values (parse_probe_output out)) ''no_new_privs'' = Some ''1''"
    "map_of (po_values (parse_probe_output out)) ''secret_visible'' = Some ''no''" using ok by (simp_all add: probe_features_def Let_def)
  ultimately show ?thesis using r unfolding isolating_def Let_def by blast
qed

lemma check_version_ok: "check_version code out err = (Some v, []) \<Longrightarrow> code = 0 \<and> MINIMUM_BUBBLEWRAP_VERSION \<le> v \<and>
     parse_bubblewrap_version (or_else (Some out) err) = Some v"
  by (simp add: check_version_def not_less split: if_splits option.splits)

lemma check_flags_ok:
  "check_flags code out err = [] \<Longrightarrow> code = 0 \<and> (\<forall>flag \<in> set REQUIRED_BUBBLEWRAP_FLAGS. contains (out @ newline @ err) flag)"
  by (auto simp: check_flags_def Let_def filter_empty_conv split: if_splits)


definition good_host :: probe_host where
  "good_host = \<lparr>ph_which_bwrap = Some ''/usr/bin/bwrap'',
     ph_executable = (\<lambda>p. \<lparr>xf_resolved = Inr p, xf_regular = True, xf_accessible = True, xf_group_or_world_writable = False,
       xf_owner = 0, xf_own_uid = 1000\<rparr>),
     ph_sha256_file = (\<lambda>_. Inr ''h''),
     ph_runner = (\<lambda>args _. if tl args = [''--version''] then Inr (0, ''bubblewrap 0.11.2'', [])
       else if tl args = [''--help''] then Inr (0, join newline REQUIRED_BUBBLEWRAP_FLAGS, [])
       else Inr (0, join newline ((map (\<lambda>n. ''ns:'' @ n @ ''=inner'') NAMESPACE_NAMES) @
         [''cap_eff=0000'', ''no_new_privs=1'', ''secret_visible=no'', ''ENV_BEGIN'', ''HOME=/nonexistent'', ''ENV_END'']), [])),
     ph_namespace = (\<lambda>_. Some ''outer''), ph_exists = (\<lambda>_. True), ph_realpath = (\<lambda>p. p), ph_secret_path = ''/tmp/secret''\<rparr>"


end
