(* ===== verification/Spec2Isabelle.thy ===== *)
theory Spec2Isabelle
  imports Interceptor Operation_Store Approval_Queue Patch_Finalizer Containment
begin

text \<open>
  A verification library for the Python engine of Rygnal, \<open>src/src/rygnal\<close>. Rygnal stands between an agent and the
  tools it calls, and between a guarded command and the repository it would change. This root theory holds no definition: it
  imports every component and says how they fit together.

  \<^bold>\<open>The two paths of the program.\<close>

  \<^enum> A tool call. \<open>Interceptor.intercept\<close> assesses the risk of the request (\<open>risk_engine.py\<close>), evaluates the policy
    (\<open>policy_engine.py\<close>), asks for an approval if the policy wants one (\<open>approval.py\<close>,
    \<open>approval_authorization.py\<close>, \<open>approval_receipt.py\<close>), writes the decision to the hash-chained audit log
    (\<open>audit_logger.py\<close>, \<open>audit_storage.py\<close>) and only then runs the tool (\<open>tool_executor.py\<close>). Requests that
    wait for a person are kept in the queue (\<open>approval_queue.py\<close>), operations in the store (\<open>operation_store.py\<close>).
  \<^enum> A guarded command. It runs in a contained workspace (\<open>execution_backend.py\<close>, \<open>production_containment.py\<close>); what
    it changed becomes a patch (\<open>changed_files.py\<close>, \<open>patch_diff.py\<close>), which is classified (\<open>change_risk.py\<close>,
    \<open>action_intent.py\<close>, \<open>dependency_governance.py\<close>), limited (\<open>diff_limits.py\<close>), gated (\<open>change_gate.py\<close>) and
    compared with the intent contract (\<open>capability_matcher.py\<close>). The finalizer (\<open>guarded_patch_finalizer.py\<close>) drops it,
    applies it (\<open>safe_apply.py\<close>) or stores it (\<open>patch_artifact.py\<close>) until an approval is granted
    (\<open>patch_approval.py\<close>) and used (\<open>approved_apply.py\<close>).

  \<^bold>\<open>Values.\<close> A Python \<open>str\<close> is a \<open>string\<close> whose characters are the code points below 256; a \<open>dict\<close> is an association list in
  insertion order; a value of type \<open>Any\<close> is a \<open>pyval\<close>, a float in it its \<open>repr\<close>; \<open>int\<close> is unbounded. An exception is a value
  \<open>Exn kind type message\<close>; a function that may raise returns \<open>'a res\<close>, a sum. A function that reads and changes state is a step of type
  \<open>('s, 'a) py = 's \<Rightarrow> 'a res \<times> 's\<close>, so that an exception keeps the state it was raised in. A dataclass or pydantic model is a
  record with one field per attribute, an enumeration a datatype with a function to its text.

  \<^bold>\<open>Theories and code.\<close>

  \<^item> \<open>Rygnal_Prelude\<close>, \<open>Py_Path\<close>, \<open>Py_Regex\<close>, \<open>Py_Shlex\<close>, \<open>Json\<close>: strings, values, \<open>pathlib\<close>, the regular expressions,
    \<open>shlex.split\<close> and \<open>json.dumps\<close> as the sources use them, with the lemmas the components share; \<open>invariant_system\<close> is the
    locale of state machines.
  \<^item> \<open>Models\<close> (\<open>models.py\<close>), \<open>Security\<close> (\<open>security.py\<close>).
  \<^item> \<open>Risk_Text\<close>, \<open>Risk_Engine\<close> (\<open>risk_engine.py\<close>): every detector is an interpretation of the locale \<open>risk_detector\<close>, the
    registry of \<open>risk_registry\<close>. \<open>Policy_Engine\<close> (\<open>policy_engine.py\<close>): loading, validation, evaluation of rules in priority order.
  \<^item> \<open>Approval_Auth\<close> (\<open>approval_state.py\<close>, \<open>approval_authorization.py\<close>, \<open>roles.py\<close>), \<open>Approval\<close> (\<open>approval_receipt.py\<close>,
    \<open>approval.py\<close>), \<open>Approval_Queue\<close> (\<open>approval_queue.py\<close>; the memory and the SQLite queue interpret \<open>decision_queue\<close>).
  \<^item> \<open>Audit_Log\<close> (\<open>audit_logger.py\<close>, \<open>audit_storage.py\<close>; both logs interpret \<open>chained_store\<close>), \<open>Interceptor\<close>
    (\<open>interceptor.py\<close>, \<open>tool_executor.py\<close>, \<open>core.py\<close>), \<open>Operation_Store\<close> (\<open>operation_store.py\<close>; its transactions are the
    steps of a state machine that refines a table of locks).
  \<^item> \<open>Patch_Model\<close> (\<open>changed_files.py\<close> and the data of \<open>patch_diff.py\<close>), \<open>Patch_Gen\<close> (\<open>generate_patch_diff_from_report\<close>),
    \<open>Path_Safety\<close> (\<open>path_safety.py\<close>, \<open>ignore_rules.py\<close>), \<open>Diff_Limits\<close>, \<open>Dependency_Governance\<close>, \<open>Action_Intent\<close>, \<open>Rust_Kernel\<close>,
    \<open>Change_Risk\<close>, \<open>Change_Gate\<close> (the files of the same names).
  \<^item> \<open>Patch_Approval\<close> (\<open>patch_approval.py\<close>), \<open>Patch_Apply\<close> (\<open>safe_apply.py\<close>, \<open>approved_apply.py\<close>), \<open>Patch_Artifact\<close>
    (\<open>patch_artifact.py\<close>), \<open>Patch_Finalizer\<close> (\<open>guarded_patch_finalizer.py\<close>).
  \<^item> \<open>Intent\<close> (\<open>intent_contract.py\<close>, \<open>resource_graph.py\<close>, \<open>capability_matcher.py\<close>, \<open>intent_fallback_policy.py\<close>),
    \<open>Action_Normalizer\<close> (\<open>action_normalizer.py\<close>), \<open>Intent_Review\<close> (\<open>intent_evidence.py\<close>, \<open>intent_receipt.py\<close>,
    \<open>intent_review.py\<close>, \<open>intent_loader.py\<close>).
  \<^item> \<open>Containment\<close> (\<open>execution_backend.py\<close>, \<open>process_containment.py\<close>, \<open>workspace_mounts.py\<close>, \<open>production_containment.py\<close>,
    \<open>resource_limited_exec.py\<close>).

  \<^bold>\<open>What is shown.\<close>

  \<^item> Interception: a tool runs only if the policy allows the call or an authorized approval was granted, the decision is in the log
    before the tool runs, and every failure on the way denies.
  \<^item> Policies and risk: the first matching rule in priority order decides, a production policy allows nothing that no rule allows, scores
    stay in their bounds.
  \<^item> Approvals: \<open>authorize\<close> accepts exactly what its specification says; a receipt binds an approval to its request and its decision; a
    decision that a queue has stored is never changed, and only an authorized one is stored as granted.
  \<^item> Audit log: appending keeps the chain intact and a change of a stored event is found, if the hash has no collision on the two texts.
  \<^item> Operations: at most one operation per artifact and per repository is active in every reachable state; the store refines a table of locks.
  \<^item> Patches: paths stay inside the repository; the added lines that a patch prints are recovered; a secret line or another dangerous
    change is blocked; a change reaches the repository only through the guards of one of the two ways to apply it, a failed
    automatic apply is taken back, an approval is used once, also across restarts; stored artifacts give back the patch that was stored.
  \<^item> The finalizer: what it applies without an approval has passed every check, what it reports as pending is stored and
    queued, and a run that changed a sensitive path under an enforced contract changes nothing.
  \<^item> Contracts: the fallback of several actions is that of the strictest one; an exact match is allowed and in scope.
  \<^item> Containment: an eligible Bubblewrap isolates, the launched command runs under the configured limits, the reader of a stream
    returns exactly if the stream ends, with the first bytes up to the bound.

  \<^bold>\<open>Loops, bounds and fuel.\<close> Recursion over data ends structurally or by a measure on lengths (\<open>re_run\<close>,
  \<open>normalize_shell_command\<close>, \<open>fnmatchcase\<close>, \<open>stable_json_value\<close>, \<open>decode_lossless_value\<close>). The lock of an artifact is tried
  \<open>LOCK_RETRY_COUNT\<close> times, as in the code (\<open>acquire_iff\<close>). The reader of a stream may run for ever: \<open>capture_stream\<close> is a partial
  function, and \<open>capture_until\<close> counts the reads made before the process stops waiting; \<open>capture_returns\<close> says when it
  returns and that as many reads as the stream has chunks are enough. No other definition has fuel.

  \<^bold>\<open>Parameters.\<close> Code outside the repository is an argument of the definitions that call it: SHA-256, the parsers of YAML, JSON and
  URLs, \<open>re\<close> on the texts of policies, pydantic's constructors, SQLite's rows, \<open>git\<close>, the file system, processes, clocks and random ids, and
  the tools themselves. The hypotheses on them are their documented behaviour: \<open>git_contract\<close> (a query does not change the
  repository, an apply that fails changes nothing), \<open>reads_back\<close> and \<open>conversions\<close> (a parser gives back what a printer wrote), the
  round trip of JSON. Each property with such a hypothesis has a witness in which they are concrete functions.

  \<^bold>\<open>Not modelled.\<close> \<open>guarded_runner.py\<close>, \<open>recovery_session.py\<close> and \<open>recovery_reconciler.py\<close> drive processes, signals, worktrees and
  lock files; the decisions they act on are modelled in the components above. \<open>production_qualification.py\<close> runs such
  commands to qualify a host. \<open>approval_service.py\<close> and \<open>audit_query.py\<close> are facades over the queue and the log.
  \<open>subjective_risk.py\<close> scores the history of a file with floating-point arithmetic. \<open>sqlite_migrations.py\<close> and
  \<open>sqlite_runtime.py\<close> are SQL text and connection settings; \<open>runtime_config.py\<close> and the \<open>local_*\<close> files read the
  environment; \<open>untracked_files.py\<close> and \<open>repo_state.py\<close> list files by running \<open>git\<close>; the \<open>cli*\<close>, \<open>api*\<close> and \<open>schemas\<close> files are
  front ends. Of \<open>models.py\<close> the generated ids and times are arguments; of \<open>security.py\<close> the checks of URLs and
  resolved paths are left out. The Rust kernel and the Go command line are other languages.
\<close>

end
